(* ===== verification/Prelude.thy ===== *)
theory Prelude
  imports Main
begin

text \<open>
  The prelude of the development.

  \<^item> Python's effects: a function of the application that reads and changes state and may raise is
    a value of type \<open>('w, 'a) io\<close>, a function from the state before the call to the outcome (an
    exception \<open>Inl\<close> or a value \<open>Inr\<close>) and the state after it. State changed before a raise stays
    changed, as it does in Python; a rollback is an explicit operation.
  \<^item> The exceptions of \<^verbatim>\<open>app/core/exceptions.py\<close> and of the standard library that the modelled code
    raises, as one datatype.
  \<^item> Rows of a table: a table is the list of its rows in storage order, with the operations a
    SQLAlchemy \<open>select\<close> with \<open>where\<close>, \<open>order_by\<close>, \<open>limit\<close>, \<open>offset\<close> and \<open>scalar_one_or_none\<close> needs.
\<close>

section \<open>Collections of rewrite rules\<close>

named_theorems py_simps \<open>evaluation rules of the state and exception monad\<close>
named_theorems row_simps \<open>rules about tables as lists of rows\<close>

section \<open>Exceptions\<close>

text \<open>
  \<^verbatim>\<open>AppException\<close> carries a status code and a detail; each subclass fixes the status code and the
  error code. \<^verbatim>\<open>HTTPException\<close> is FastAPI's, raised by endpoints with an explicit status and detail.
  The rest are the standard-library and service exceptions that the code raises or catches by name.
\<close>

datatype exn =
    NotFoundException string
  | BadRequestException string
  | UnauthorizedException string
  | ForbiddenException string
  | RateLimitException string
  | ConflictException string
  | LockedOutException string
  | InternalServerException string
  | HTTPException int string
  | ValueError string
  | KeyError string
  | IntegrityError
  | DataError
  | HTTPError string
  | MultipleResultsFound
  | RuntimeError string
  | IllegalTransitionError string string
  | IllegalInvoiceTransitionError string string
  | StripeError int string
  | ServiceError string
  | PyTypeError string
  | OSError string
  | FileNotFoundError string
  | PermissionError string
  | AttributeError string
  | ApiException int

section \<open>The state and exception monad\<close>

type_synonym ('w, 'a) io = "'w \<Rightarrow> (exn + 'a) \<times> 'w"

definition returnM :: "'a \<Rightarrow> ('w, 'a) io" where
  "returnM x = (\<lambda>w. (Inr x, w))"

definition raiseM :: "exn \<Rightarrow> ('w, 'a) io" where
  "raiseM e = (\<lambda>w. (Inl e, w))"

definition bindM :: "('w, 'a) io \<Rightarrow> ('a \<Rightarrow> ('w, 'b) io) \<Rightarrow> ('w, 'b) io" where
  "bindM m f = (\<lambda>w. case m w of (Inl e, w') \<Rightarrow> (Inl e, w') | (Inr x, w') \<Rightarrow> f x w')"

definition thenM :: "('w, 'a) io \<Rightarrow> ('w, 'b) io \<Rightarrow> ('w, 'b) io" where
  "thenM m k = bindM m (\<lambda>_. k)"

definition getsM :: "('w \<Rightarrow> 'a) \<Rightarrow> ('w, 'a) io" where
  "getsM f = (\<lambda>w. (Inr (f w), w))"

definition modifyM :: "('w \<Rightarrow> 'w) \<Rightarrow> ('w, unit) io" where
  "modifyM f = (\<lambda>w. (Inr (), f w))"

text \<open>\<open>try: m except Exception as e: h(e)\<close>\<close>

definition tryM :: "('w, 'a) io \<Rightarrow> (exn \<Rightarrow> ('w, 'a) io) \<Rightarrow> ('w, 'a) io" where
  "tryM m h = (\<lambda>w. case m w of (Inl e, w') \<Rightarrow> h e w' | (Inr x, w') \<Rightarrow> (Inr x, w'))"

text \<open>\<open>if not c: raise e\<close>\<close>

definition guardM :: "bool \<Rightarrow> exn \<Rightarrow> ('w, unit) io" where
  "guardM c e = (if c then returnM () else raiseM e)"

text \<open>A pure computation that may raise.\<close>

definition liftM :: "exn + 'a \<Rightarrow> ('w, 'a) io" where
  "liftM r = (\<lambda>w. (r, w))"

text \<open>\<open>for x in xs: f(x)\<close>\<close>

fun forM :: "'x list \<Rightarrow> ('x \<Rightarrow> ('w, unit) io) \<Rightarrow> ('w, unit) io" where
  "forM [] f = returnM ()"
| "forM (x # xs) f = thenM (f x) (forM xs f)"

lemma returnM_run [simp, py_simps]: "returnM x w = (Inr x, w)"
  by (simp add: returnM_def)

lemma raiseM_run [simp, py_simps]: "raiseM e w = (Inl e, w)"
  by (simp add: raiseM_def)

lemma getsM_run [simp, py_simps]: "getsM f w = (Inr (f w), w)"
  by (simp add: getsM_def)

lemma modifyM_run [simp, py_simps]: "modifyM f w = (Inr (), f w)"
  by (simp add: modifyM_def)

lemma liftM_run [simp, py_simps]: "liftM r w = (r, w)"
  by (simp add: liftM_def)

lemma guardM_run [simp, py_simps]:
  "guardM c e w = (if c then Inr () else Inl e, w)"
  by (simp add: guardM_def)

lemma bindM_Inr [simp, py_simps]: "m w = (Inr x, w') \<Longrightarrow> bindM m f w = f x w'"
  by (simp add: bindM_def)

lemma bindM_Inl [simp, py_simps]: "m w = (Inl e, w') \<Longrightarrow> bindM m f w = (Inl e, w')"
  by (simp add: bindM_def)

lemma bindM_liftM [simp, py_simps]:
  "bindM (liftM (Inr x)) f = f x" "bindM (liftM (Inl e)) f = raiseM e"
  by (simp_all add: bindM_def fun_eq_iff)

lemma thenM_Inr [simp, py_simps]: "m w = (Inr x, w') \<Longrightarrow> thenM m k w = k w'"
  by (simp add: thenM_def)

lemma thenM_Inl [simp, py_simps]: "m w = (Inl e, w') \<Longrightarrow> thenM m k w = (Inl e, w')"
  by (simp add: thenM_def)

lemma tryM_Inr [simp, py_simps]: "m w = (Inr x, w') \<Longrightarrow> tryM m h w = (Inr x, w')"
  by (simp add: tryM_def)

lemma tryM_Inl [simp, py_simps]: "m w = (Inl e, w') \<Longrightarrow> tryM m h w = h e w'"
  by (simp add: tryM_def)

text \<open>Inversion: a successful sequence is two successful steps; a failed one fails at one of them.\<close>

lemma bindM_eq_Inr_iff:
  "bindM m f w = (Inr y, w'') \<longleftrightarrow> (\<exists>x w'. m w = (Inr x, w') \<and> f x w' = (Inr y, w''))"
  by (auto simp: bindM_def split: prod.splits sum.splits)

lemma bindM_eq_Inl_iff:
  "bindM m f w = (Inl e, w'') \<longleftrightarrow>
     m w = (Inl e, w'') \<or> (\<exists>x w'. m w = (Inr x, w') \<and> f x w' = (Inl e, w''))"
  by (auto simp: bindM_def split: prod.splits sum.splits)

lemma thenM_eq_Inr_iff:
  "thenM m k w = (Inr y, w'') \<longleftrightarrow> (\<exists>x w'. m w = (Inr x, w') \<and> k w' = (Inr y, w''))"
  by (simp add: thenM_def bindM_eq_Inr_iff)

lemma thenM_eq_Inl_iff:
  "thenM m k w = (Inl e, w'') \<longleftrightarrow>
     m w = (Inl e, w'') \<or> (\<exists>x w'. m w = (Inr x, w') \<and> k w' = (Inl e, w''))"
  by (simp add: thenM_def bindM_eq_Inl_iff)

lemmas io_inversions = bindM_eq_Inr_iff bindM_eq_Inl_iff thenM_eq_Inr_iff thenM_eq_Inl_iff

subsection \<open>Invariants of monadic computations\<close>

text \<open>
  \<open>keeps P m\<close>: whatever the outcome of \<open>m\<close>, a state with \<open>P\<close> is left as a state with \<open>P\<close>. The rules
  follow the shape of the program, so an invariant of a handler is proved from those of its calls.
\<close>

definition keeps :: "('w \<Rightarrow> bool) \<Rightarrow> ('w, 'a) io \<Rightarrow> bool" where
  "keeps P m \<longleftrightarrow> (\<forall>w. P w \<longrightarrow> P (snd (m w)))"

lemma keepsI: "(\<And>w. P w \<Longrightarrow> P (snd (m w))) \<Longrightarrow> keeps P m"
  by (simp add: keeps_def)

lemma keepsD: "keeps P m \<Longrightarrow> P w \<Longrightarrow> P (snd (m w))"
  by (simp add: keeps_def)

lemma keepsD_run: "keeps P m \<Longrightarrow> P w \<Longrightarrow> m w = (r, w') \<Longrightarrow> P w'"
  by (metis keepsD snd_conv)

lemma keeps_returnM [intro]: "keeps P (returnM x)"
  by (simp add: keeps_def)

lemma keeps_raiseM [intro]: "keeps P (raiseM e)"
  by (simp add: keeps_def)

lemma keeps_getsM [intro]: "keeps P (getsM f)"
  by (simp add: keeps_def)

lemma keeps_liftM [intro]: "keeps P (liftM r)"
  by (simp add: keeps_def)

lemma keeps_guardM [intro]: "keeps P (guardM c e)"
  by (simp add: keeps_def)

lemma keeps_modifyM: "(\<And>w. P w \<Longrightarrow> P (f w)) \<Longrightarrow> keeps P (modifyM f)"
  by (simp add: keeps_def)

lemma keeps_bindM [intro]:
  assumes "keeps P m" and "\<And>x. keeps P (f x)"
  shows "keeps P (bindM m f)"
proof (rule keepsI)
  fix w assume "P w"
  obtain r w' where run: "m w = (r, w')" by (cases "m w")
  with assms(1) \<open>P w\<close> have "P w'" by (rule keepsD_run)
  with run assms(2) show "P (snd (bindM m f w))"
    by (cases r) (auto intro: keepsD)
qed

lemma keeps_thenM [intro]: "keeps P m \<Longrightarrow> keeps P k \<Longrightarrow> keeps P (thenM m k)"
  by (simp add: thenM_def keeps_bindM)

lemma keeps_tryM [intro]:
  assumes "keeps P m" and "\<And>e. keeps P (h e)"
  shows "keeps P (tryM m h)"
proof (rule keepsI)
  fix w assume "P w"
  obtain r w' where run: "m w = (r, w')" by (cases "m w")
  with assms(1) \<open>P w\<close> have "P w'" by (rule keepsD_run)
  with run assms(2) show "P (snd (tryM m h w))"
    by (cases r) (auto intro: keepsD)
qed

lemma keeps_forM: "(\<And>x. x \<in> set xs \<Longrightarrow> keeps P (f x)) \<Longrightarrow> keeps P (forM xs f)"
  by (induction xs) auto

lemma keeps_if: "keeps P m \<Longrightarrow> keeps P k \<Longrightarrow> keeps P (if c then m else k)"
  by simp

lemma keeps_case_option: "keeps P m \<Longrightarrow> (\<And>x. keeps P (f x)) \<Longrightarrow> keeps P (case v of None \<Rightarrow> m | Some x \<Rightarrow> f x)"
  by (cases v) simp_all

lemma keeps_case_prod: "(\<And>x y. keeps P (f x y)) \<Longrightarrow> keeps P (case v of (x, y) \<Rightarrow> f x y)"
  by (cases v) simp

lemma keeps_case_sum:
  "(\<And>x. keeps P (f x)) \<Longrightarrow> (\<And>y. keeps P (g y)) \<Longrightarrow> keeps P (case v of Inl x \<Rightarrow> f x | Inr y \<Rightarrow> g y)"
  by (cases v) simp_all

lemmas keeps_case_intros = keeps_if keeps_case_option keeps_case_prod keeps_case_sum

lemmas keeps_intros = keeps_returnM keeps_raiseM keeps_getsM keeps_liftM keeps_guardM keeps_bindM
  keeps_thenM keeps_tryM keeps_forM

end
