(* ===== verification/Store.thy ===== *)
theory Store
  imports Prelude
begin

text \<open>
  Database tables as the program's queries see them. A table is the list of its rows in storage
  order and the last primary key its sequence handed out (\<^verbatim>\<open>id: Mapped[int] =
  mapped_column(primary_key=True, autoincrement=True)\<close> in \<^verbatim>\<open>app/models/base.py\<close>). A query of the
  sources is a comprehension over the rows: \<open>where\<close> filters, \<open>order_by\<close> sorts (stably),
  \<open>offset\<close>/\<open>limit\<close> drop and take, and \<open>scalar_one_or_none\<close> raises when more than one row is left.

  The locale \<open>row_type\<close> is the interface between the tables and the components: a row type with a
  primary key. Its lemmas (fresh keys, lookup after insert and after update, preservation of key
  uniqueness) are proved once and interpreted for every model class.
\<close>

record 'r table =
  t_rows :: "'r list"
  t_seq :: int

definition empty_table :: "'r table" where
  "empty_table = \<lparr>t_rows = [], t_seq = 0\<rparr>"

text \<open>\<open>(await db.execute(select(M).where(P))).scalars().all()\<close>\<close>

definition select_where :: "('r \<Rightarrow> bool) \<Rightarrow> 'r table \<Rightarrow> 'r list" where
  "select_where P t = filter P (t_rows t)"

text \<open>\<open>result.scalar_one_or_none()\<close>\<close>

definition scalar_one_or_none :: "'r list \<Rightarrow> exn + 'r option" where
  "scalar_one_or_none rs =
     (case rs of [] \<Rightarrow> Inr None | [r] \<Rightarrow> Inr (Some r) | _ \<Rightarrow> Inl MultipleResultsFound)"

text \<open>\<open>ORDER BY key DESC\<close>, and \<open>OFFSET\<close>/\<open>LIMIT\<close>\<close>

definition order_desc :: "('r \<Rightarrow> int) \<Rightarrow> 'r list \<Rightarrow> 'r list" where
  "order_desc key rs = sort_key (\<lambda>r. - key r) rs"

definition limit_rows :: "int \<Rightarrow> 'r list \<Rightarrow> 'r list" where
  "limit_rows n rs = take (nat n) rs"

definition offset_rows :: "int \<Rightarrow> 'r list \<Rightarrow> 'r list" where
  "offset_rows n rs = drop (nat n) rs"

text \<open>\<open>db.add(row)\<close> of a new row, flushed: the sequence assigns the key.\<close>

definition insert_row :: "(int \<Rightarrow> 'r \<Rightarrow> 'r) \<Rightarrow> 'r \<Rightarrow> 'r table \<Rightarrow> 'r table" where
  "insert_row set_id r t = \<lparr>t_rows = t_rows t @ [set_id (t_seq t + 1) r], t_seq = t_seq t + 1\<rparr>"

definition next_row :: "(int \<Rightarrow> 'r \<Rightarrow> 'r) \<Rightarrow> 'r \<Rightarrow> 'r table \<Rightarrow> 'r" where
  "next_row set_id r t = set_id (t_seq t + 1) r"

text \<open>\<open>db.add(row)\<close> of a loaded row whose attributes were set, flushed.\<close>

definition update_row :: "('r \<Rightarrow> int) \<Rightarrow> 'r \<Rightarrow> 'r table \<Rightarrow> 'r table" where
  "update_row rid r t = t\<lparr>t_rows := map (\<lambda>x. if rid x = rid r then r else x) (t_rows t)\<rparr>"

text \<open>\<open>db.delete(row)\<close>, flushed.\<close>

definition delete_row :: "('r \<Rightarrow> int) \<Rightarrow> int \<Rightarrow> 'r table \<Rightarrow> 'r table" where
  "delete_row rid i t = t\<lparr>t_rows := filter (\<lambda>x. rid x \<noteq> i) (t_rows t)\<rparr>"

text \<open>Keys are distinct and were handed out by the sequence.\<close>

definition table_wf :: "('r \<Rightarrow> int) \<Rightarrow> 'r table \<Rightarrow> bool" where
  "table_wf rid t \<longleftrightarrow>
     distinct (map rid (t_rows t)) \<and> list_all (\<lambda>r. 1 \<le> rid r \<and> rid r \<le> t_seq t) (t_rows t) \<and>
     0 \<le> t_seq t"

section \<open>Generic facts\<close>

lemma scalar_one_or_none_simps [simp, row_simps]:
  "scalar_one_or_none [] = Inr None"
  "scalar_one_or_none [r] = Inr (Some r)"
  "scalar_one_or_none (r # s # rs) = Inl MultipleResultsFound"
  by (simp_all add: scalar_one_or_none_def)

lemma scalar_one_or_none_Some: "scalar_one_or_none rs = Inr (Some r) \<longleftrightarrow> rs = [r]"
  by (auto simp: scalar_one_or_none_def split: list.splits)

lemma scalar_one_or_none_None: "scalar_one_or_none rs = Inr None \<longleftrightarrow> rs = []"
  by (auto simp: scalar_one_or_none_def split: list.splits)

lemma select_where_iff [row_simps]: "r \<in> set (select_where P t) \<longleftrightarrow> r \<in> set (t_rows t) \<and> P r"
  by (auto simp: select_where_def)

lemma set_order_desc [simp, row_simps]: "set (order_desc key rs) = set rs"
  by (simp add: order_desc_def)

lemma length_order_desc [simp, row_simps]: "length (order_desc key rs) = length rs"
  by (simp add: order_desc_def)

lemma order_desc_hd_max:
  assumes "order_desc key rs = r # rs'" and "s \<in> set rs"
  shows "key s \<le> key r"
proof -
  have "sorted (map (\<lambda>r. - key r) (r # rs'))"
    using sorted_sort_key [of "\<lambda>r. - key r" rs] assms(1) unfolding order_desc_def by (simp only:)
  moreover have "s = r \<or> s \<in> set rs'"
    using assms set_order_desc [of key rs] by auto
  ultimately show ?thesis by auto
qed

lemma empty_table_wf [simp]: "table_wf rid empty_table"
  by (simp add: table_wf_def empty_table_def)

lemma distinct_key_unique:
  "distinct (map f xs) \<Longrightarrow> x \<in> set xs \<Longrightarrow> y \<in> set xs \<Longrightarrow> f x = f y \<Longrightarrow> x = y"
  by (meson distinct_map inj_onD)

lemma distinct_filter_key:
  assumes "distinct (map f xs)" and "x \<in> set xs"
  shows "filter (\<lambda>y. f y = f x) xs = [x]"
  using assms by (induction xs) (auto simp: filter_empty_conv image_iff)

text \<open>Writing a row twice keeps the last write; writing the stored row changes nothing.\<close>

lemma update_row_twice: "rid r = rid s \<Longrightarrow> update_row rid r (update_row rid s t) = update_row rid r t"
  by (simp add: update_row_def comp_def)

lemma update_row_same:
  assumes "distinct (map rid (t_rows t))" "s \<in> set (t_rows t)"
  shows "update_row rid s t = t"
proof -
  have "map (\<lambda>x. if rid x = rid s then s else x) (t_rows t) = t_rows t"
    using distinct_key_unique [OF assms(1) _ assms(2)] by (intro map_idI) auto
  then show ?thesis by (simp add: update_row_def)
qed

section \<open>The interface of a row type\<close>

locale row_type =
  fixes rid :: "'r \<Rightarrow> int" and set_id :: "int \<Rightarrow> 'r \<Rightarrow> 'r"
  assumes rid_set_id [simp]: "rid (set_id i r) = i"
begin

lemma wf_insert: "table_wf rid t \<Longrightarrow> table_wf rid (insert_row set_id r t)"
  by (auto simp: table_wf_def insert_row_def list_all_iff)

lemma wf_update: "table_wf rid t \<Longrightarrow> table_wf rid (update_row rid r t)"
proof -
  assume wf: "table_wf rid t"
  have "map rid (map (\<lambda>x. if rid x = rid r then r else x) (t_rows t)) = map rid (t_rows t)"
    by simp
  with wf show ?thesis by (auto simp: table_wf_def update_row_def list_all_iff simp del: map_map)
qed

lemma wf_delete: "table_wf rid t \<Longrightarrow> table_wf rid (delete_row rid i t)"
  by (auto simp: table_wf_def delete_row_def list_all_iff distinct_map_filter)

lemma by_id:
  assumes "table_wf rid t" and "r \<in> set (t_rows t)"
  shows "scalar_one_or_none (select_where (\<lambda>x. rid x = rid r) t) = Inr (Some r)"
  using assms distinct_filter_key [of rid "t_rows t" r]
  by (simp add: table_wf_def select_where_def)

lemma by_id_total:
  assumes "table_wf rid t"
  shows "\<exists>v. scalar_one_or_none (select_where (\<lambda>x. rid x = i) t) = Inr v"
proof (cases "\<exists>r \<in> set (t_rows t). rid r = i")
  case True
  then show ?thesis using by_id [OF assms] by blast
next
  case False
  then have "select_where (\<lambda>x. rid x = i) t = []" by (auto simp: select_where_def filter_empty_conv)
  then show ?thesis by simp
qed

lemma by_id_Some_iff:
  assumes "table_wf rid t"
  shows "scalar_one_or_none (select_where (\<lambda>x. rid x = i) t) = Inr (Some r) \<longleftrightarrow>
    r \<in> set (t_rows t) \<and> rid r = i"
proof
  assume "scalar_one_or_none (select_where (\<lambda>x. rid x = i) t) = Inr (Some r)"
  then have "select_where (\<lambda>x. rid x = i) t = [r]" by (simp add: scalar_one_or_none_Some)
  then have "r \<in> set (select_where (\<lambda>x. rid x = i) t)" by simp
  then show "r \<in> set (t_rows t) \<and> rid r = i" by (simp add: select_where_iff)
next
  assume "r \<in> set (t_rows t) \<and> rid r = i"
  then show "scalar_one_or_none (select_where (\<lambda>x. rid x = i) t) = Inr (Some r)"
    using by_id [OF assms] by blast
qed

lemma insert_fresh: "table_wf rid t \<Longrightarrow> s \<in> set (t_rows t) \<Longrightarrow> rid s \<noteq> rid (next_row set_id r t)"
  by (auto simp: table_wf_def next_row_def list_all_iff)

lemma rows_insert: "t_rows (insert_row set_id r t) = t_rows t @ [next_row set_id r t]"
  by (simp add: insert_row_def next_row_def)

lemma lookup_insert:
  assumes "table_wf rid t"
  shows "scalar_one_or_none (select_where (\<lambda>x. rid x = rid (next_row set_id r t))
    (insert_row set_id r t)) = Inr (Some (next_row set_id r t))"
  using by_id [OF wf_insert [OF assms], of "next_row set_id r t" r] by (simp add: rows_insert)

lemma update_in:
  "s \<in> set (t_rows t) \<Longrightarrow> rid s = rid r \<Longrightarrow> r \<in> set (t_rows (update_row rid r t))"
  by (force simp: update_row_def)

lemma lookup_update:
  assumes "table_wf rid t" and "s \<in> set (t_rows t)" and "rid s = rid r"
  shows "scalar_one_or_none (select_where (\<lambda>x. rid x = rid r) (update_row rid r t)) = Inr (Some r)"
  using by_id [OF wf_update [OF assms(1)]] update_in [OF assms(2,3)] by blast

lemma update_other:
  "s \<in> set (t_rows (update_row rid r t)) \<Longrightarrow> rid s \<noteq> rid r \<Longrightarrow> s \<in> set (t_rows t)"
  by (auto simp: update_row_def split: if_splits)

lemma update_cases:
  "s \<in> set (t_rows (update_row rid r t)) \<Longrightarrow> s = r \<or> s \<in> set (t_rows t) \<and> rid s \<noteq> rid r"
  by (auto simp: update_row_def split: if_splits)

lemma update_keeps_other:
  "s \<in> set (t_rows t) \<Longrightarrow> rid s \<noteq> rid r \<Longrightarrow> s \<in> set (t_rows (update_row rid r t))"
  by (force simp: update_row_def)

lemma length_update [simp]: "length (t_rows (update_row rid r t)) = length (t_rows t)"
  by (simp add: update_row_def)

end

end
