(* ===== verification/PyLib.thy ===== *)
theory PyLib
  imports Prelude
begin

text \<open>
  The string operations of Python that the modelled code computes with: decimal formatting and
  parsing of integers, \<open>str.split\<close>, \<open>str.join\<close> and \<open>str.strip\<close>. Strings are lists of characters;
  the operations are Python's on ASCII text.
\<close>

section \<open>Decimal strings\<close>

definition digit_char :: "nat \<Rightarrow> char" where
  "digit_char d = ''0123456789'' ! d"

definition is_digit :: "char \<Rightarrow> bool" where
  "is_digit c \<longleftrightarrow> 48 \<le> (of_char c :: nat) \<and> (of_char c :: nat) \<le> 57"

definition digit_val :: "char \<Rightarrow> nat" where
  "digit_val c = (of_char c :: nat) - 48"

fun show_nat :: "nat \<Rightarrow> string" where
  "show_nat n = (if n < 10 then [digit_char n] else show_nat (n div 10) @ [digit_char (n mod 10)])"

declare show_nat.simps [simp del]

definition show_int :: "int \<Rightarrow> string" where
  "show_int i = (if i < 0 then ''-'' @ show_nat (nat (- i)) else show_nat (nat i))"

text \<open>\<open>f"{n:06d}"\<close> for a non-negative \<open>n\<close>.\<close>

definition pad_left :: "nat \<Rightarrow> string \<Rightarrow> string" where
  "pad_left k s = replicate (k - length s) (CHR ''0'') @ s"

definition digits_val :: "string \<Rightarrow> nat" where
  "digits_val s = foldl (\<lambda>acc c. 10 * acc + digit_val c) 0 s"

lemma of_char_digit_char [simp]: "d < 10 \<Longrightarrow> (of_char (digit_char d) :: nat) = 48 + d"
  by (auto simp: digit_char_def less_Suc_eq numeral_eq_Suc)

lemma is_digit_digit_char [simp]: "d < 10 \<Longrightarrow> is_digit (digit_char d)"
  by (simp add: is_digit_def)

lemma digit_val_digit_char [simp]: "d < 10 \<Longrightarrow> digit_val (digit_char d) = d"
  by (simp add: digit_val_def)

lemma digits_val_append: "digits_val (s @ [c]) = 10 * digits_val s + digit_val c"
  by (simp add: digits_val_def)

lemma digits_val_show_nat [simp]: "digits_val (show_nat n) = n"
proof (induction n rule: show_nat.induct)
  case (1 n)
  show ?case
  proof (cases "n < 10")
    case True
    then show ?thesis by (simp add: show_nat.simps [of n] digits_val_def)
  next
    case False
    with 1 show ?thesis by (simp add: show_nat.simps [of n] digits_val_append)
  qed
qed

lemma show_nat_digits: "c \<in> set (show_nat n) \<Longrightarrow> is_digit c"
proof (induction n rule: show_nat.induct)
  case (1 n)
  then show ?case by (auto simp: show_nat.simps [of n] split: if_splits)
qed

lemma show_nat_neq_Nil [simp]: "show_nat n \<noteq> []"
  by (simp add: show_nat.simps [of n])

lemma show_nat_inj [simp]: "show_nat m = show_nat n \<longleftrightarrow> m = n"
  by (metis digits_val_show_nat)

lemma minus_not_digit: "\<not> is_digit (CHR ''-'')"
  by (simp add: is_digit_def)

lemma hd_show_nat_not_minus: "hd (show_nat n) \<noteq> CHR ''-''"
  using show_nat_digits [of "hd (show_nat n)" n] minus_not_digit by (metis hd_in_set show_nat_neq_Nil)

lemma minus_Cons_neq_show_nat: "CHR ''-'' # s \<noteq> show_nat n"
  using hd_show_nat_not_minus [of n] by (metis list.sel(1))

lemma show_int_inj [simp]: "show_int i = show_int j \<longleftrightarrow> i = j"
  using minus_Cons_neq_show_nat minus_Cons_neq_show_nat [symmetric]
  by (auto simp: show_int_def)

lemma digits_val_pad: "digits_val (pad_left k (show_nat n)) = n"
proof -
  have z: "foldl (\<lambda>acc c. 10 * acc + digit_val c) 0 (replicate m (CHR ''0'')) = 0" for m
    by (induction m) (simp_all add: digit_val_def)
  show ?thesis
    using digits_val_show_nat [of n] by (simp add: pad_left_def digits_val_def z)
qed

lemma pad_left_show_nat_inj: "pad_left k (show_nat m) = pad_left k (show_nat n) \<longleftrightarrow> m = n"
  by (metis digits_val_pad)

text \<open>A separator cannot occur in a decimal number.\<close>

lemma sep_notin_show_nat: "\<not> is_digit c \<Longrightarrow> c \<notin> set (show_nat n)"
  using show_nat_digits by blast

lemma sep_notin_show_int: "\<not> is_digit c \<Longrightarrow> c \<noteq> CHR ''-'' \<Longrightarrow> c \<notin> set (show_int i)"
  using sep_notin_show_nat by (auto simp: show_int_def)

lemma colon_notin_show_int [simp]: "CHR '':'' \<notin> set (show_int i)"
  by (rule sep_notin_show_int) (simp_all add: is_digit_def)

section \<open>Splitting, stripping and parsing\<close>

text \<open>\<open>s.split(c)\<close> for a one-character separator.\<close>

fun py_split :: "char \<Rightarrow> string \<Rightarrow> string list" where
  "py_split c [] = [[]]"
| "py_split c (x # xs) =
     (if x = c then [] # py_split c xs
      else (case py_split c xs of [] \<Rightarrow> [[x]] | y # ys \<Rightarrow> (x # y) # ys))"

text \<open>\<open>s.split(c, 1)\<close> for a string that contains the separator.\<close>

definition py_split1 :: "char \<Rightarrow> string \<Rightarrow> string \<times> string" where
  "py_split1 c s = (takeWhile (\<lambda>x. x \<noteq> c) s, drop 1 (dropWhile (\<lambda>x. x \<noteq> c) s))"

text \<open>\<open>sep.join(parts)\<close>\<close>

fun py_join :: "string \<Rightarrow> string list \<Rightarrow> string" where
  "py_join sep [] = []"
| "py_join sep [s] = s"
| "py_join sep (s # t # ts) = s @ sep @ py_join sep (t # ts)"

definition is_space :: "char \<Rightarrow> bool" where
  "is_space c \<longleftrightarrow> (let n = (of_char c :: nat) in (9 \<le> n \<and> n \<le> 13) \<or> (28 \<le> n \<and> n \<le> 32))"

text \<open>\<open>str.lower\<close> on a Latin-1 character.\<close>

definition lower_char :: "char \<Rightarrow> char" where
  "lower_char c =
     (let n = of_char c :: nat
      in if 65 \<le> n \<and> n \<le> 90 \<or> 0xC0 \<le> n \<and> n \<le> 0xDE \<and> n \<noteq> 0xD7 then char_of (n + 32) else c)"

definition py_strip :: "string \<Rightarrow> string" where
  "py_strip s = rev (dropWhile is_space (rev (dropWhile is_space s)))"

lemma py_split_neq_Nil [simp]: "py_split c s \<noteq> []"
  by (induction s) (auto split: list.splits)

lemma py_split_no_sep: "c \<notin> set s \<Longrightarrow> py_split c s = [s]"
  by (induction s) auto

lemma py_split_append_sep: "c \<notin> set s \<Longrightarrow> py_split c (s @ c # t) = s # py_split c t"
  by (induction s) auto

lemma py_split_join:
  assumes "\<And>p. p \<in> set ps \<Longrightarrow> c \<notin> set p" and "ps \<noteq> []"
  shows "py_split c (py_join [c] ps) = ps"
  using assms
proof (induction "[c]" ps rule: py_join.induct)
  case (3 s t ts)
  then show ?case by (simp add: py_split_append_sep)
qed (simp_all add: py_split_no_sep)

lemma py_split_parts: "p \<in> set (py_split c s) \<Longrightarrow> set p \<subseteq> set s - {c}"
proof (induction s arbitrary: p)
  case (Cons x xs)
  show ?case
  proof (cases "x = c")
    case True
    with Cons show ?thesis by auto
  next
    case False
    obtain y ys where yy: "py_split c xs = y # ys"
      using py_split_neq_Nil by (cases "py_split c xs") auto
    with Cons.prems False have "p = x # y \<or> p \<in> set ys" by simp
    moreover have "set y \<subseteq> set xs - {c}" using Cons.IH [of y] yy by simp
    moreover have "p \<in> set ys \<Longrightarrow> set p \<subseteq> set xs - {c}" using Cons.IH [of p] yy by simp
    ultimately show ?thesis using False by auto
  qed
qed simp

lemma py_split1_append: "c \<notin> set s \<Longrightarrow> py_split1 c (s @ c # t) = (s, t)"
proof -
  assume "c \<notin> set s"
  then have p: "\<forall>x\<in>set s. x \<noteq> c" by auto
  then show ?thesis by (simp add: py_split1_def takeWhile_append2 dropWhile_append2)
qed

lemma dropWhile_none: "(\<And>x. x \<in> set xs \<Longrightarrow> \<not> P x) \<Longrightarrow> dropWhile P xs = xs"
  by (cases xs) auto

lemma py_strip_no_space: "(\<And>x. x \<in> set s \<Longrightarrow> \<not> is_space x) \<Longrightarrow> py_strip s = s"
proof -
  assume a: "\<And>x. x \<in> set s \<Longrightarrow> \<not> is_space x"
  then have "dropWhile is_space s = s" by (rule dropWhile_none)
  moreover have "dropWhile is_space (rev s) = rev s" by (rule dropWhile_none) (simp add: a)
  ultimately show ?thesis by (simp add: py_strip_def)
qed

lemma digit_not_space: "is_digit c \<Longrightarrow> \<not> is_space c"
  by (auto simp: is_digit_def is_space_def Let_def)

text \<open>
  \<open>int(s)\<close>: surrounding blanks, an optional sign, then decimal digits, with single underscores
  allowed between digits. Anything else raises \<open>ValueError\<close>.
\<close>

fun parse_digits :: "nat \<Rightarrow> bool \<Rightarrow> string \<Rightarrow> nat option" where
  "parse_digits acc d [] = (if d then Some acc else None)"
| "parse_digits acc d (c # cs) =
     (if is_digit c then parse_digits (10 * acc + digit_val c) True cs
      else if c = CHR ''_'' \<and> d then parse_digits acc False cs
      else None)"

definition py_int :: "string \<Rightarrow> int option" where
  "py_int s =
     (case py_strip s of
        [] \<Rightarrow> None
      | c # cs \<Rightarrow>
          if c = CHR ''-'' then map_option (\<lambda>n. - int n) (parse_digits 0 False cs)
          else if c = CHR ''+'' then map_option int (parse_digits 0 False cs)
          else map_option int (parse_digits 0 False (c # cs)))"

lemma parse_digits_all:
  "(\<And>c. c \<in> set s \<Longrightarrow> is_digit c) \<Longrightarrow> s \<noteq> [] \<or> d \<Longrightarrow>
    parse_digits acc d s = Some (foldl (\<lambda>a c. 10 * a + digit_val c) acc s)"
  by (induction s arbitrary: acc d) auto

lemma parse_digits_show_nat [simp]: "parse_digits 0 False (show_nat n) = Some n"
proof -
  have "parse_digits 0 False (show_nat n) = Some (digits_val (show_nat n))"
    unfolding digits_val_def by (rule parse_digits_all) (auto dest: show_nat_digits)
  then show ?thesis by simp
qed

lemma show_int_no_space: "c \<in> set (show_int i) \<Longrightarrow> \<not> is_space c"
  using show_nat_digits digit_not_space
  by (auto simp: show_int_def is_space_def Let_def split: if_splits)

text \<open>Printing an integer and parsing it back gives the integer.\<close>

lemma py_int_show_int [simp]: "py_int (show_int i) = Some i"
proof -
  have strip: "py_strip (show_int i) = show_int i"
    by (rule py_strip_no_space) (rule show_int_no_space)
  show ?thesis
  proof (cases "i < 0")
    case True
    then show ?thesis using strip by (simp add: py_int_def show_int_def)
  next
    case False
    obtain c cs where c: "show_nat (nat i) = c # cs" by (cases "show_nat (nat i)") auto
    then have "is_digit c" using show_nat_digits by (metis list.set_intros(1))
    then have "c \<noteq> CHR ''-''" "c \<noteq> CHR ''+''" by (auto simp: is_digit_def)
    with strip False c show ?thesis
      using parse_digits_show_nat [of "nat i"] by (simp add: py_int_def show_int_def)
  qed
qed

end
