(* ===== verification/PyFloat.thy ===== *)
theory PyFloat
  imports Prelude "HOL-Library.Log_Nat"
begin

text \<open>
  Python's floats: IEEE binary64 arithmetic with round to nearest, ties to even. A float is the
  rational number it denotes; \<open>fl\<close> rounds an exact result to the nearest representable one, so
  \<open>a / b\<close> on floats is \<open>fl (a / b)\<close> and \<open>n * x\<close> for an integer \<open>n\<close> is \<open>fl (fl (of_int n) * x)\<close>. The
  exponent range is unbounded: the quantities of the program (seconds, cents) stay far away from
  overflow and from subnormal numbers. The lemmas the components use: rounding is monotone, keeps
  the sign, and is exact on integers up to \<open>2 ^ 53\<close>.
\<close>

section \<open>Floats\<close>

text \<open>The exponent of a positive number: \<open>2 powi binexp x \<le> x < 2 powi (binexp x + 1)\<close>.\<close>

definition binexp :: "rat \<Rightarrow> int" where
  "binexp x =
     (if 1 \<le> x then int (floorlog 2 (nat \<lfloor>x\<rfloor>)) - 1
      else - int (floorlog 2 (nat (\<lceil>1 / x\<rceil> - 1))))"

definition round_half_even :: "rat \<Rightarrow> int" where
  "round_half_even x =
     (let f = \<lfloor>x\<rfloor>; d = x - of_int f
      in if d < 1 / 2 then f else if d > 1 / 2 then f + 1 else if even f then f else f + 1)"

definition ulp :: "rat \<Rightarrow> rat" where
  "ulp x = 2 powi (binexp x - 52)"

definition fl_pos :: "rat \<Rightarrow> rat" where
  "fl_pos x = of_int (round_half_even (x / ulp x)) * ulp x"

definition fl :: "rat \<Rightarrow> rat" where
  "fl x = (if x = 0 then 0 else if x < 0 then - fl_pos (- x) else fl_pos x)"

text \<open>Python's \<open>round(x)\<close> on a float, and \<open>int(x)\<close>, which truncates towards zero.\<close>

definition py_round :: "rat \<Rightarrow> int" where
  "py_round x = round_half_even x"

definition py_trunc :: "rat \<Rightarrow> int" where
  "py_trunc x = (if x < 0 then \<lceil>x\<rceil> else \<lfloor>x\<rfloor>)"

lemma round_half_even_of_int [simp]: "round_half_even (of_int n) = n"
  by (simp add: round_half_even_def)

lemma round_half_even_mono: "x \<le> y \<Longrightarrow> round_half_even x \<le> round_half_even y"
proof -
  assume le: "x \<le> y"
  then have f: "\<lfloor>x\<rfloor> \<le> \<lfloor>y\<rfloor>" by (rule floor_mono)
  show ?thesis
  proof (cases "\<lfloor>x\<rfloor> = \<lfloor>y\<rfloor>")
    case True
    with le show ?thesis by (auto simp: round_half_even_def Let_def)
  next
    case False
    with f have "\<lfloor>x\<rfloor> + 1 \<le> \<lfloor>y\<rfloor>" by simp
    then show ?thesis by (auto simp: round_half_even_def Let_def)
  qed
qed

lemma round_half_even_le_of_int: "x \<le> of_int n \<Longrightarrow> round_half_even x \<le> n"
  using round_half_even_mono [of x "of_int n"] by simp

lemma of_int_le_round_half_even: "of_int n \<le> x \<Longrightarrow> n \<le> round_half_even x"
  using round_half_even_mono [of "of_int n" x] by simp

lemma round_half_even_error: "\<bar>of_int (round_half_even x) - x\<bar> \<le> 1 / 2"
proof -
  define f where "f = \<lfloor>x\<rfloor>"
  have "of_int f \<le> x" "x < of_int f + 1" unfolding f_def by linarith+
  then show ?thesis by (auto simp: round_half_even_def Let_def abs_if simp flip: f_def)
qed

lemma floorlog2_bounds:
  assumes "0 < n"
  shows "2 ^ (floorlog 2 n - 1) \<le> n" and "n < 2 ^ floorlog 2 n" and "0 < floorlog 2 n"
proof -
  show lo: "2 ^ (floorlog 2 n - 1) \<le> n" and hi: "n < 2 ^ floorlog 2 n"
    using floorlog_bounds [of n 2] assms by auto
  show "0 < floorlog 2 n" using hi assms by (cases "floorlog 2 n") auto
qed

lemma binexp_bounds_ge1:
  assumes "1 \<le> x"
  shows "2 powi binexp x \<le> x \<and> x < 2 powi (binexp x + 1)"
proof -
  define n where "n = nat \<lfloor>x\<rfloor>"
  have fx: "1 \<le> \<lfloor>x\<rfloor>" using assms by simp
  then have n: "0 < n" "of_nat n = (of_int \<lfloor>x\<rfloor> :: rat)" by (simp_all add: n_def)
  define k where "k = floorlog 2 n"
  have k: "0 < k" "2 ^ (k - 1) \<le> n" "n < 2 ^ k"
    using floorlog2_bounds [OF n(1)] by (simp_all add: k_def)
  have e: "binexp x = int (k - 1)"
    using assms k(1) by (simp add: binexp_def n_def k_def of_nat_diff)
  have "(2 :: rat) ^ (k - 1) \<le> of_nat n"
    using k(2) by (metis of_nat_le_iff of_nat_numeral of_nat_power)
  then have lo: "(2 :: rat) ^ (k - 1) \<le> x" using n(2) by linarith
  have "n + 1 \<le> 2 ^ k" using k(3) by simp
  then have "(of_nat (n + 1) :: rat) \<le> of_nat (2 ^ k)" by (simp only: of_nat_le_iff)
  then have "of_nat n + 1 \<le> (2 :: rat) ^ k" by simp
  then have hi: "x < (2 :: rat) ^ k" using n(2) by linarith
  have "binexp x + 1 = int k" using e k(1) by linarith
  then have "nat (binexp x + 1) = k" by (simp only: nat_int)
  moreover have "nat (binexp x) = k - 1" "0 \<le> binexp x"
    by (simp_all only: e nat_int of_nat_0_le_iff)
  ultimately show ?thesis using lo hi by (simp add: power_int_def)
qed

lemma binexp_bounds_lt1:
  assumes "0 < x" and "x < 1"
  shows "2 powi binexp x \<le> x \<and> x < 2 powi (binexp x + 1)"
proof -
  define n where "n = nat (\<lceil>1 / x\<rceil> - 1)"
  have inv: "1 < 1 / x" using assms by (simp add: field_simps)
  then have c: "1 < \<lceil>1 / x\<rceil>" by linarith
  have i: "int n = \<lceil>1 / x\<rceil> - 1" unfolding n_def by (rule nat_0_le) (use c in linarith)
  then have n: "0 < n" "int n + 1 = \<lceil>1 / x\<rceil>" using c by linarith+
  define k where "k = floorlog 2 n"
  have k: "0 < k" "2 ^ (k - 1) \<le> n" "n < 2 ^ k"
    using floorlog2_bounds [OF n(1)] by (simp_all add: k_def)
  have e: "binexp x = - int k" using assms by (simp add: binexp_def n_def k_def)
  have up: "1 / x \<le> of_nat n + 1" and dn: "of_nat n < 1 / x"
    using i by linarith+
  have "(2 :: rat) ^ (k - 1) \<le> of_nat n"
    using k(2) by (metis of_nat_le_iff of_nat_numeral of_nat_power)
  with dn have "(2 :: rat) ^ (k - 1) < 1 / x" by linarith
  then have hi: "x < 1 / 2 ^ (k - 1)" using assms(1) by (simp add: field_simps)
  have "n + 1 \<le> 2 ^ k" using k(3) by simp
  then have "(of_nat (n + 1) :: rat) \<le> of_nat (2 ^ k)" by (simp only: of_nat_le_iff)
  then have "of_nat n + 1 \<le> (2 :: rat) ^ k" by simp
  with up have "1 / x \<le> (2 :: rat) ^ k" by linarith
  then have lo: "1 / 2 ^ k \<le> x" using assms(1) by (simp add: field_simps)
  have "(2 :: rat) powi (- int k) = 1 / 2 ^ k"
    by (simp add: power_int_minus divide_inverse)
  moreover have "(2 :: rat) powi (- int k + 1) = 1 / 2 ^ (k - 1)"
  proof -
    have "- int k + 1 = - int (k - 1)" using k(1) by simp
    then show ?thesis by (simp only: power_int_minus power_int_of_nat) (simp add: divide_inverse)
  qed
  ultimately show ?thesis using lo hi e by simp
qed

lemma binexp_bounds:
  assumes "0 < x"
  shows "2 powi binexp x \<le> x" and "x < 2 powi (binexp x + 1)"
  using binexp_bounds_ge1 [of x] binexp_bounds_lt1 [of x] assms by (cases "1 \<le> x"; simp)+

lemma ulp_pos [simp]: "0 < ulp x"
  by (simp add: ulp_def)

lemma powi_52: "(2 :: rat) powi e = 2 ^ 52 * 2 powi (e - 52)"
proof -
  have "(2 :: rat) powi (52 + (e - 52)) = 2 powi 52 * 2 powi (e - 52)"
    by (rule power_int_add) simp
  then show ?thesis by simp
qed

text \<open>Rounding stays inside the closed binade of its argument.\<close>

lemma fl_pos_binade:
  assumes "0 < x"
  shows "2 powi binexp x \<le> fl_pos x" and "fl_pos x \<le> 2 powi (binexp x + 1)"
proof -
  define u where "u = ulp x"
  have u: "0 < u" by (simp add: u_def)
  have lo: "2 powi binexp x = 2 ^ 52 * u" by (simp add: u_def ulp_def powi_52 [of "binexp x"])
  have hi: "2 powi (binexp x + 1) = 2 ^ 53 * u"
    using lo by (simp add: power_int_add)
  have "of_int (2 ^ 52) \<le> x / u" using binexp_bounds(1) [OF assms] u lo by (simp add: field_simps)
  then have "2 ^ 52 \<le> round_half_even (x / u)" by (rule of_int_le_round_half_even)
  then have "(2 ^ 52 :: rat) \<le> of_int (round_half_even (x / u))"
    by (metis of_int_le_iff of_int_numeral of_int_power)
  then show "2 powi binexp x \<le> fl_pos x" using u by (simp add: fl_pos_def lo flip: u_def)
  have "x / u \<le> of_int (2 ^ 53)" using binexp_bounds(2) [OF assms] u hi by (simp add: field_simps)
  then have "round_half_even (x / u) \<le> 2 ^ 53" by (rule round_half_even_le_of_int)
  then have "of_int (round_half_even (x / u)) \<le> (2 ^ 53 :: rat)"
    by (metis of_int_le_iff of_int_numeral of_int_power)
  then show "fl_pos x \<le> 2 powi (binexp x + 1)" using u by (simp add: fl_pos_def hi flip: u_def)
qed

lemma binexp_mono:
  assumes "0 < x" and "x \<le> y"
  shows "binexp x \<le> binexp y"
proof (rule ccontr)
  assume "\<not> ?thesis"
  then have "binexp y + 1 \<le> binexp x" by simp
  then have "(2 :: rat) powi (binexp y + 1) \<le> 2 powi binexp x" by (rule power_int_increasing) simp
  moreover have "y < 2 powi (binexp y + 1)" using assms by (intro binexp_bounds) simp
  moreover have "2 powi binexp x \<le> x" using assms(1) by (rule binexp_bounds)
  ultimately show False using assms(2) by linarith
qed

lemma fl_pos_mono:
  assumes "0 < x" and "x \<le> y"
  shows "fl_pos x \<le> fl_pos y"
proof (cases "binexp x = binexp y")
  case True
  then have u: "ulp x = ulp y" by (simp add: ulp_def)
  have "x / ulp y \<le> y / ulp y" using assms(2) by (simp add: divide_right_mono less_imp_le)
  then have "round_half_even (x / ulp y) \<le> round_half_even (y / ulp y)"
    by (rule round_half_even_mono)
  then show ?thesis by (simp add: fl_pos_def u mult_right_mono less_imp_le)
next
  case False
  then have "binexp x + 1 \<le> binexp y" using binexp_mono [OF assms] by simp
  then have "(2 :: rat) powi (binexp x + 1) \<le> 2 powi binexp y" by (rule power_int_increasing) simp
  moreover have "0 < y" using assms by simp
  ultimately show ?thesis
    using fl_pos_binade(2) [OF assms(1)] fl_pos_binade(1) [of y] by linarith
qed

lemma fl_pos_gt0: "0 < x \<Longrightarrow> 0 < fl_pos x"
  by (rule less_le_trans [OF zero_less_power_int fl_pos_binade(1)]) simp_all

lemma fl_0 [simp]: "fl 0 = 0"
  by (simp add: fl_def)

lemma fl_sign [simp]: "0 \<le> fl x \<longleftrightarrow> 0 \<le> x" "fl x \<le> 0 \<longleftrightarrow> x \<le> 0"
  using fl_pos_gt0 [of x] fl_pos_gt0 [of "- x"] by (auto simp: fl_def)

lemma fl_mono:
  assumes "x \<le> y"
  shows "fl x \<le> fl y"
proof -
  consider "0 < x" | "x \<le> 0" "0 \<le> y" | "y < 0" by linarith
  then show ?thesis
  proof cases
    case 1
    then show ?thesis using assms fl_pos_mono [of x y] by (simp add: fl_def)
  next
    case 2
    then have "fl x \<le> 0" "0 \<le> fl y" by simp_all
    then show ?thesis by linarith
  next
    case 3
    then show ?thesis using assms fl_pos_mono [of "- y" "- x"] by (simp add: fl_def)
  qed
qed

text \<open>Integers of at most 53 bits are floats.\<close>

lemma binexp_le:
  assumes "0 < x" and "x < 2 powi (e + 1)"
  shows "binexp x \<le> e"
proof (rule ccontr)
  assume "\<not> ?thesis"
  then have "e + 1 \<le> binexp x" by simp
  then have "(2 :: rat) powi (e + 1) \<le> 2 powi binexp x" by (rule power_int_increasing) simp
  with binexp_bounds(1) [OF assms(1)] assms(2) show False by linarith
qed

lemma fl_pos_of_int:
  assumes "0 < n" and "n < 2 ^ 53"
  shows "fl_pos (of_int n) = of_int n"
proof -
  have "(of_int n :: rat) < of_int (2 ^ 53)" using assms(2) by (simp only: of_int_less_iff)
  then have "(of_int n :: rat) < 2 powi (52 + 1)" by simp
  then have e: "binexp (of_int n) \<le> 52" using assms(1) by (intro binexp_le) simp_all
  define k where "k = nat (52 - binexp (of_int n))"
  have "binexp (of_int n) - 52 = - int k" using e by (simp add: k_def)
  then have u: "ulp (of_int n) = 1 / 2 ^ k" by (simp add: ulp_def power_int_minus divide_inverse)
  have "of_int n / ulp (of_int n) = (of_int (n * 2 ^ k) :: rat)" by (simp add: u)
  then have "round_half_even (of_int n / ulp (of_int n)) = n * 2 ^ k"
    by (simp only: round_half_even_of_int)
  then show ?thesis by (simp add: fl_pos_def u)
qed

lemma fl_of_int: "\<bar>n\<bar> < 2 ^ 53 \<Longrightarrow> fl (of_int n) = of_int n"
  using fl_pos_of_int [of n] fl_pos_of_int [of "- n"] by (auto simp: fl_def abs_less_iff)

lemma fl_1 [simp]: "fl 1 = 1"
  using fl_of_int [of 1] by simp

text \<open>The rounding error is at most half a unit in the last place.\<close>

lemma fl_pos_error: "0 < x \<Longrightarrow> \<bar>fl_pos x - x\<bar> \<le> ulp x / 2"
proof -
  assume "0 < x"
  define u where "u = ulp x"
  have u: "0 < u" by (simp add: u_def)
  have "\<bar>of_int (round_half_even (x / u)) - x / u\<bar> \<le> 1 / 2" by (rule round_half_even_error)
  then have "\<bar>of_int (round_half_even (x / u)) - x / u\<bar> * u \<le> 1 / 2 * u"
    using u by (intro mult_right_mono) simp_all
  moreover have "\<bar>of_int (round_half_even (x / u)) - x / u\<bar> * u = \<bar>fl_pos x - x\<bar>"
    using u by (simp add: fl_pos_def left_diff_distrib abs_mult_pos flip: u_def)
  ultimately have "\<bar>fl_pos x - x\<bar> \<le> 1 / 2 * u" by linarith
  then show ?thesis by (simp add: u_def)
qed

text \<open>The relative error of a rounding is at most \<open>2 ^ -53\<close>.\<close>

lemma fl_pos_rel_error: "0 < x \<Longrightarrow> \<bar>fl_pos x - x\<bar> \<le> x / 2 ^ 53"
proof -
  assume x: "0 < x"
  have "2 ^ 52 * ulp x \<le> x" using binexp_bounds(1) [OF x] powi_52 [of "binexp x"] by (simp add: ulp_def)
  then show ?thesis using fl_pos_error [OF x] by simp
qed

lemma fl_rel_error: "\<bar>fl x - x\<bar> \<le> \<bar>x\<bar> / 2 ^ 53"
  using fl_pos_rel_error [of x] fl_pos_rel_error [of "- x"]
  by (cases x "0 :: rat" rule: linorder_cases) (auto simp: fl_def)

lemma py_round_mono: "x \<le> y \<Longrightarrow> py_round x \<le> py_round y"
  by (simp add: py_round_def round_half_even_mono)

lemma py_round_of_int [simp]: "py_round (of_int n) = n"
  by (simp add: py_round_def)

lemma py_round_0 [simp]: "py_round 0 = 0"
  using py_round_of_int [of 0] by simp

lemma py_trunc_of_int [simp]: "py_trunc (of_int n) = n"
  by (simp add: py_trunc_def)

lemma py_trunc_mono: "x \<le> y \<Longrightarrow> py_trunc x \<le> py_trunc y"
proof -
  assume "x \<le> y"
  then have "\<lfloor>x\<rfloor> \<le> \<lfloor>y\<rfloor>" "\<lceil>x\<rceil> \<le> \<lceil>y\<rceil>" by (simp_all add: floor_mono ceiling_mono)
  moreover have "x < 0 \<longrightarrow> \<lceil>x\<rceil> \<le> 0" "0 \<le> y \<longrightarrow> 0 \<le> \<lfloor>y\<rfloor>" by linarith+
  ultimately show ?thesis using \<open>x \<le> y\<close> unfolding py_trunc_def by (auto simp del: ceiling_le_zero zero_le_floor)
qed

end
