(* ===== verification/PyData.thy ===== *)
theory PyData
  imports PyLib PyFloat
begin

text \<open>
  Values the components exchange: instants and durations, JSON values as \<^verbatim>\<open>json.loads\<close> yields them,
  and the \<^verbatim>\<open>Event\<close> dataclass of \<^verbatim>\<open>app/events/base.py\<close>.

  A \<^verbatim>\<open>datetime\<close> is its distance from the Unix epoch in microseconds (the resolution of Python's
  type), a \<^verbatim>\<open>timedelta\<close> a number of microseconds. Aware UTC and naive UTC instants coincide.
\<close>

section \<open>Time\<close>

type_synonym datetime = int
type_synonym timedelta = int

definition seconds_td :: "int \<Rightarrow> timedelta" where "seconds_td n = n * 1000000"
definition minutes_td :: "int \<Rightarrow> timedelta" where "minutes_td n = n * 60000000"
definition hours_td :: "int \<Rightarrow> timedelta" where "hours_td n = n * 3600000000"
definition days_td :: "int \<Rightarrow> timedelta" where "days_td n = n * 86400000000"

lemmas td_defs = seconds_td_def minutes_td_def hours_td_def days_td_def

text \<open>\<open>td.total_seconds()\<close> is the correctly rounded quotient of integers.\<close>

definition total_seconds :: "timedelta \<Rightarrow> rat" where
  "total_seconds td = fl (of_int td / 1000000)"

text \<open>\<open>int(dt.timestamp())\<close> and \<open>datetime.fromtimestamp(float(n), tz=UTC)\<close> for an integer \<open>n\<close>.\<close>

definition int_timestamp :: "datetime \<Rightarrow> int" where
  "int_timestamp d = py_trunc (total_seconds d)"

definition from_timestamp :: "int \<Rightarrow> datetime" where
  "from_timestamp n = n * 1000000"

lemma total_seconds_mono: "a \<le> b \<Longrightarrow> total_seconds a \<le> total_seconds b"
  by (simp add: total_seconds_def fl_mono divide_right_mono)

lemma total_seconds_sign [simp]:
  "0 \<le> total_seconds td \<longleftrightarrow> 0 \<le> td" "total_seconds td \<le> 0 \<longleftrightarrow> td \<le> 0"
  by (simp_all add: total_seconds_def zero_le_divide_iff divide_le_0_iff)

lemma total_seconds_pos [simp]:
  "0 < total_seconds td \<longleftrightarrow> 0 < td" "total_seconds td < 0 \<longleftrightarrow> td < 0"
  using total_seconds_sign [of td] by (simp_all only: not_le [symmetric])

lemma total_seconds_whole: "\<bar>n\<bar> < 2 ^ 53 \<Longrightarrow> total_seconds (seconds_td n) = of_int n"
  by (simp add: total_seconds_def seconds_td_def fl_of_int)

lemma int_timestamp_whole: "\<bar>n\<bar> < 2 ^ 53 \<Longrightarrow> int_timestamp (from_timestamp n) = n"
  using total_seconds_whole [of n] by (simp add: int_timestamp_def from_timestamp_def seconds_td_def)

subsection \<open>Calendar dates\<close>

text \<open>
  The proleptic Gregorian calendar as \<^verbatim>\<open>datetime\<close> computes it: \<open>ordinal\<close> is the number of days since
  0001-01-01 (day 1); 1970-01-01 is day 719163.
\<close>

definition days_before_year :: "int \<Rightarrow> int" where
  "days_before_year y = (y - 1) * 365 + (y - 1) div 4 - (y - 1) div 100 + (y - 1) div 400"

definition dt_ordinal :: "datetime \<Rightarrow> int" where
  "dt_ordinal d = d div 86400000000 + 719163"

definition ord_year :: "int \<Rightarrow> int" where
  "ord_year n =
     (let n0 = n - 1;
          n400 = n0 div 146097; r400 = n0 mod 146097;
          n100 = r400 div 36524; r100 = r400 mod 36524;
          n4 = r100 div 1461; r4 = r100 mod 1461;
          n1 = r4 div 365;
          year = n400 * 400 + 1 + n100 * 100 + n4 * 4 + n1
      in if n1 = 4 \<or> n100 = 4 then year - 1 else year)"

definition dt_year :: "datetime \<Rightarrow> int" where
  "dt_year d = ord_year (dt_ordinal d)"

definition is_leap :: "int \<Rightarrow> bool" where
  "is_leap y \<longleftrightarrow> y mod 4 = 0 \<and> (y mod 100 \<noteq> 0 \<or> y mod 400 = 0)"

definition month_lengths :: "int \<Rightarrow> int list" where
  "month_lengths y = [31, if is_leap y then 29 else 28, 31, 30, 31, 30, 31, 31, 30, 31, 30, 31]"

fun month_day :: "int list \<Rightarrow> int \<Rightarrow> int \<Rightarrow> int \<times> int" where
  "month_day [] m n = (m, n)"
| "month_day (l # ls) m n = (if n \<le> l then (m, n) else month_day ls (m + 1) (n - l))"

text \<open>\<open>dt.isoformat()\<close> of an aware UTC instant: microseconds are shown when they are not zero.\<close>

definition pad_int :: "nat \<Rightarrow> int \<Rightarrow> string" where
  "pad_int k i = pad_left k (show_nat (nat i))"

definition isoformat :: "datetime \<Rightarrow> string" where
  "isoformat d =
     (let y = dt_year d;
          (m, dd) = month_day (month_lengths y) 1 (dt_ordinal d - days_before_year y);
          t = d mod 86400000000;
          micro = t mod 1000000
      in pad_int 4 y @ ''-'' @ pad_int 2 m @ ''-'' @ pad_int 2 dd @ ''T'' @
         pad_int 2 (t div 3600000000) @ '':'' @ pad_int 2 (t div 60000000 mod 60) @ '':'' @
         pad_int 2 (t div 1000000 mod 60) @
         (if micro = 0 then [] else ''.'' @ pad_int 6 micro) @ ''+00:00'')"

text \<open>The year found is the one whose days contain the ordinal.\<close>

lemma days_before_year_parts:
  assumes "0 \<le> b" "b < 4" "0 \<le> c" "c < 25" "0 \<le> d" "d < 4"
  shows "days_before_year (400 * a + 100 * b + 4 * c + d + 1) =
    146097 * a + 36524 * b + 1461 * c + 365 * d"
proof -
  have "(400 * a + 100 * b + 4 * c + d) div 4 = 100 * a + 25 * b + c" 
    using assms by (intro int_div_pos_eq [of _ _ _ d]) simp_all
  moreover have "(400 * a + 100 * b + 4 * c + d) div 100 = 4 * a + b"
    using assms by (intro int_div_pos_eq [of _ _ _ "4 * c + d"]) simp_all
  moreover have "(400 * a + 100 * b + 4 * c + d) div 400 = a"
    using assms by (intro int_div_pos_eq [of _ _ _ "100 * b + 4 * c + d"]) simp_all
  ultimately show ?thesis by (simp add: days_before_year_def)
qed

lemma days_before_year_leap:
  assumes "0 \<le> b" "b < 4" "0 \<le> c" "c < 24"
  shows "days_before_year (400 * a + 100 * b + 4 * c + 5) =
    146097 * a + 36524 * b + 1461 * c + 1461"
  using assms days_before_year_parts [of b "c + 1" 0 a] by (simp add: algebra_simps)

lemma ord_year_bounds:
  "days_before_year (ord_year n) < n \<and> n \<le> days_before_year (ord_year n + 1)"
proof -
  define a r where "a = (n - 1) div 146097" and "r = (n - 1) mod 146097"
  define b s where "b = r div 36524" and "s = r mod 36524"
  define c t where "c = s div 1461" and "t = s mod 1461"
  define d e where "d = t div 365" and "e = t mod 365"
  note parts = a_def r_def b_def s_def c_def t_def d_def e_def
  have n: "n = 146097 * a + r + 1" and r: "r = 36524 * b + s" and s: "s = 1461 * c + t"
    and t: "t = 365 * d + e"
    by (simp_all add: parts)
  have bounds: "0 \<le> r" "r < 146097" "0 \<le> s" "s < 36524" "0 \<le> t" "t < 1461" "0 \<le> e" "e < 365"
    by (simp_all add: parts)
  have "0 \<le> b" "b \<le> 4" "0 \<le> c" "c < 25" "0 \<le> d" "d \<le> 4"
    using r s t bounds by linarith+
  note q = bounds this
  have year: "ord_year n = (if d = 4 \<or> b = 4 then 400 * a + 100 * b + 4 * c + d
    else 400 * a + 100 * b + 4 * c + d + 1)"
    by (simp add: ord_year_def Let_def parts)
  consider "b = 4" | "b < 4" "d = 4" | "b < 4" "d < 4" using q by linarith
  then show ?thesis
  proof cases
    case 1
    then have "s = 0" "c = 0" "t = 0" "d = 0" "e = 0" using r s t q by linarith+
    then show ?thesis
      using 1 n r year days_before_year_parts [of 3 24 3 a] days_before_year_parts [of 0 0 0 "a + 1"]
      by (simp add: algebra_simps)
  next
    case 2
    then have "e = 0" "c < 24" using r s t q by linarith+
    then show ?thesis
      using 2 n r s t q year days_before_year_parts [of b c 3 a] days_before_year_leap [of b c a]
      by (simp add: algebra_simps)
  next
    case 3
    have following: "days_before_year (400 * a + 100 * b + 4 * c + d + 2) \<ge>
      146097 * a + 36524 * b + 1461 * c + 365 * d + 365"
    proof -
      have "(400 * a + 100 * b + 4 * c + d + 1) div 4 -
        (400 * a + 100 * b + 4 * c + d + 1) div 100 \<ge> 96 * a + 24 * b + c"
        (is "?y div 4 - ?y div 100 \<ge> _")
      proof -
        have quarter: "100 * a + 25 * b + c \<le> ?y div 4"
          using q 3 zdiv_mono1 [of "4 * (100 * a + 25 * b + c)" ?y 4] by simp
        consider "4 * c + d + 1 < 100" | "c = 24" "d = 3" using q 3 by linarith
        then show ?thesis
        proof cases
          case 1
          then have "?y div 100 = 4 * a + b"
            using q by (intro int_div_pos_eq [of _ _ _ "4 * c + d + 1"]) simp_all
          then show ?thesis using quarter by linarith
        next
          case 2
          then have y: "?y = 400 * a + 100 * b + 100" by simp
          have "?y div 100 = 4 * a + b + 1" "?y div 4 = 100 * a + 25 * b + 25"
            unfolding y by (rule int_div_pos_eq [of _ _ _ 0]; simp)+
          then show ?thesis using 2 by linarith
        qed
      qed
      moreover have "(400 * a + 100 * b + 4 * c + d + 1) div 400 \<ge> a"
        using q 3 zdiv_mono1 [of "400 * a" "400 * a + 100 * b + 4 * c + d + 1" 400] by simp
      moreover have "400 * a + 100 * b + 4 * c + d + 2 - 1 = 400 * a + 100 * b + 4 * c + d + 1"
        by simp
      moreover have "96 * a + 24 * b + c \<le> p - q \<Longrightarrow> a \<le> p' \<Longrightarrow>
        146097 * a + 36524 * b + 1461 * c + 365 * d + 365 \<le>
        (400 * a + 100 * b + 4 * c + d + 1) * 365 + p - q + p'" for p q p' :: int
        by (simp add: algebra_simps)
      ultimately show ?thesis unfolding days_before_year_def by (simp only:)
    qed
    have year': "ord_year n = 400 * a + 100 * b + 4 * c + d + 1" using 3 year by simp
    have "days_before_year (ord_year n) = 146097 * a + 36524 * b + 1461 * c + 365 * d"
      unfolding year' using days_before_year_parts [of b c d a] q 3 by simp
    moreover have "days_before_year (ord_year n + 1) \<ge>
      146097 * a + 36524 * b + 1461 * c + 365 * d + 365"
      unfolding year' using following by (simp add: algebra_simps)
    ultimately show ?thesis using n r s t q by linarith
  qed
qed

section \<open>JSON\<close>

datatype json =
    JNull
  | JBool bool
  | JInt int
  | JFloat rat
  | JStr string
  | JList "json list"
  | JObj "(string \<times> json) list"

text \<open>\<open>d.get(k)\<close> on a dict, \<open>None\<close> for a missing key (and for a stored \<open>None\<close>).\<close>

definition jget :: "(string \<times> json) list \<Rightarrow> string \<Rightarrow> json" where
  "jget d k = (case map_of d k of None \<Rightarrow> JNull | Some v \<Rightarrow> v)"

text \<open>\<open>d.get(k, default)\<close>\<close>

definition jget_default :: "(string \<times> json) list \<Rightarrow> string \<Rightarrow> json \<Rightarrow> json" where
  "jget_default d k v = (case map_of d k of None \<Rightarrow> v | Some v' \<Rightarrow> v')"

text \<open>\<open>{**d, k: v}\<close>\<close>

definition jset :: "(string \<times> json) list \<Rightarrow> string \<Rightarrow> json \<Rightarrow> (string \<times> json) list" where
  "jset d k v = (k, v) # filter (\<lambda>kv. fst kv \<noteq> k) d"

text \<open>Python's truth value.\<close>

fun truthy :: "json \<Rightarrow> bool" where
  "truthy JNull = False"
| "truthy (JBool b) = b"
| "truthy (JInt i) = (i \<noteq> 0)"
| "truthy (JFloat x) = (x \<noteq> 0)"
| "truthy (JStr s) = (s \<noteq> [])"
| "truthy (JList xs) = (xs \<noteq> [])"
| "truthy (JObj d) = (d \<noteq> [])"

text \<open>
  \<open>str(v)\<close>. The text of a float, a list or a dict is left to the argument \<open>repr\<close>; the code applies
  \<open>str\<close> to identifiers, for which those are malformed inputs.
\<close>

fun py_str :: "(json \<Rightarrow> string) \<Rightarrow> json \<Rightarrow> string" where
  "py_str repr (JStr s) = s"
| "py_str repr JNull = ''None''"
| "py_str repr (JBool b) = (if b then ''True'' else ''False'')"
| "py_str repr (JInt i) = show_int i"
| "py_str repr v = repr v"

text \<open>\<open>isinstance(v, int | float) and v > 0\<close>, with the number as an exact rational; \<open>bool\<close> is a
  subclass of \<open>int\<close>.\<close>

fun positive_number :: "json \<Rightarrow> rat option" where
  "positive_number (JInt i) = (if i > 0 then Some (of_int i) else None)"
| "positive_number (JFloat x) = (if x > 0 then Some x else None)"
| "positive_number (JBool b) = (if b then Some 1 else None)"
| "positive_number _ = None"

lemma jget_jset [simp]: "jget (jset d k v) k' = (if k' = k then v else jget d k')"
proof -
  have "map_of (filter (\<lambda>kv. fst kv \<noteq> k) d) k' = (if k' = k then None else map_of d k')"
    by (induction d) auto
  then show ?thesis by (auto simp: jget_def jset_def)
qed

lemma jget_default_jset [simp]:
  "jget_default (jset d k v) k' w = (if k' = k then v else jget_default d k' w)"
proof -
  have "map_of (filter (\<lambda>kv. fst kv \<noteq> k) d) k' = (if k' = k then None else map_of d k')"
    by (induction d) auto
  then show ?thesis by (auto simp: jget_default_def jset_def)
qed

lemma positive_number_pos: "positive_number v = Some x \<Longrightarrow> 0 < x"
  by (cases v) (auto split: if_splits)

section \<open>Events\<close>

text \<open>
  The \<^verbatim>\<open>Event\<close> dataclass. Fields that a caller leaves to their default factories (a fresh UUID and
  the current time) are \<open>None\<close>.
\<close>

record event =
  ev_type :: string
  ev_payload :: "(string \<times> json) list"
  ev_id :: "string option"
  ev_timestamp :: "string option"
  ev_user_id :: "int option"

definition mk_event :: "string \<Rightarrow> (string \<times> json) list \<Rightarrow> int option \<Rightarrow> event" where
  "mk_event typ payload uid =
     \<lparr>ev_type = typ, ev_payload = payload, ev_id = None, ev_timestamp = None, ev_user_id = uid\<rparr>"

definition json_opt :: "int option \<Rightarrow> json" where
  "json_opt v = (case v of None \<Rightarrow> JNull | Some i \<Rightarrow> JInt i)"

end
