(* ===== verification/Models.thy ===== *)
theory Models
  imports Store PyData
begin

text \<open>
  The model classes of the identity, notification, content and billing contexts, one record per table and one datatype per
  enumeration, with the methods and properties the classes define.

  \<^item> \<^verbatim>\<open>app/identity/models/{role,tenant,user,api_key}.py\<close>
  \<^item> \<^verbatim>\<open>app/identity/models/{auth_audit_log,tenant_ip_rule,webauthn_credential}.py\<close>
  \<^item> \<^verbatim>\<open>app/notifications/models/{webhook,notification,notification_preference}.py\<close>
  \<^item> \<^verbatim>\<open>app/models/{category,page,post,file,task_status}.py\<close>
  \<^item> \<^verbatim>\<open>app/billing/models/{plan,subscription,invoice,stripe_event}.py\<close>

  A nullable column is an \<open>option\<close>. A relationship that the code only reads (\<^verbatim>\<open>User.roles\<close>,
  \<^verbatim>\<open>Role.permissions\<close>, \<^verbatim>\<open>Invoice.lines\<close>) is the list of the related rows. The locale
  \<open>Store.row_type\<close> is interpreted for every class with a primary key.
\<close>

section \<open>Identity\<close>

record role =
  role_id :: int
  role_name :: string
  role_permissions :: "string list"

record tenant =
  tnt_id :: int
  tnt_name :: string
  tnt_slug :: "string option"
  tnt_is_active :: bool
  tnt_stripe_customer_id :: "string option"

record user =
  user_id :: int
  user_tenant_id :: "int option"
  user_email :: string
  user_username :: string
  user_full_name :: "string option"
  user_hashed_password :: string
  user_is_active :: bool
  user_is_superuser :: bool
  user_is_verified :: bool
  user_failed_login_attempts :: int
  user_locked_until :: "datetime option"
  user_email_verified_at :: "datetime option"
  user_last_login_at :: "datetime option"
  user_oauth_provider :: "string option"
  user_oauth_provider_id :: "string option"
  user_oauth_access_token :: "string option"
  user_oauth_refresh_token :: "string option"
  user_totp_secret :: "string option"
  user_totp_enabled :: bool
  user_totp_verified_at :: "datetime option"
  user_backup_codes :: "string option"
  user_roles :: "role list"
  user_deleted_at :: "datetime option"

record api_key =
  key_id :: int
  key_user_id :: int
  key_name :: string
  key_prefix :: string
  key_hashed_key :: string
  key_scopes :: "string list option"
  key_is_active :: bool
  key_last_used_at :: "datetime option"
  key_expires_at :: "datetime option"
  key_deleted_at :: "datetime option"

text \<open>An audit entry; \<open>aud_details\<close> is the dictionary that is stored as JSON text.\<close>

record audit_log =
  aud_id :: int
  aud_tenant_id :: "int option"
  aud_user_id :: "int option"
  aud_event_type :: string
  aud_ip_address :: "string option"
  aud_user_agent :: "string option"
  aud_details :: "(string \<times> json) list option"

text \<open>A rule of the IP access control of a tenant; the action is \<open>allow\<close> or \<open>deny\<close>.\<close>

record ip_rule =
  ipr_id :: int
  ipr_tenant_id :: "int option"
  ipr_ip_or_cidr :: string
  ipr_action :: string
  ipr_priority :: int
  ipr_description :: "string option"

section \<open>Notifications\<close>

record webhook =
  wh_id :: int
  wh_tenant_id :: "int option"
  wh_name :: string
  wh_url :: string
  wh_secret :: string
  wh_event_types :: "string list option"
  wh_is_active :: bool
  wh_last_delivery_at :: "datetime option"
  wh_last_status :: "string option"
  wh_failure_count :: int
  wh_deleted_at :: "datetime option"

record webhook_delivery =
  dlv_id :: int
  dlv_tenant_id :: "int option"
  dlv_webhook_id :: int
  dlv_event_id :: string
  dlv_event_type :: string
  dlv_payload :: "(string \<times> json) list option"
  dlv_attempt :: int
  dlv_max_attempts :: int
  dlv_status :: string
  dlv_response_status :: "int option"
  dlv_response_body :: "string option"
  dlv_error :: "string option"
  dlv_next_retry_at :: "datetime option"
  dlv_delivered_at :: "datetime option"
  dlv_created_at :: datetime

record notification =
  ntf_id :: int
  ntf_user_id :: int
  ntf_event_type :: string
  ntf_title :: string
  ntf_body :: "string option"
  ntf_is_read :: bool
  ntf_read_at :: "datetime option"
  ntf_deleted_at :: "datetime option"

record notification_preference =
  npf_id :: int
  npf_user_id :: int
  npf_email_enabled :: bool
  npf_in_app_enabled :: bool
  npf_webhook_enabled :: bool

section \<open>Content\<close>

text \<open>
  The many-to-many relations to categories and tags are kept as the lists of the related keys; \<^verbatim>\<open>published_at\<close> is a
  text column that no code writes.
\<close>

record category =
  cat_id :: int
  cat_tenant_id :: "int option"
  cat_name :: string
  cat_slug :: string
  cat_description :: "string option"

record tag =
  tag_id :: int
  tag_tenant_id :: "int option"
  tag_name :: string
  tag_slug :: string

record cms_page =
  cpg_id :: int
  cpg_tenant_id :: "int option"
  cpg_title :: string
  cpg_slug :: string
  cpg_body_md :: "string option"
  cpg_body_html :: "string option"
  cpg_meta_title :: "string option"
  cpg_meta_description :: "string option"
  cpg_is_published :: bool
  cpg_published_at :: "string option"
  cpg_author_id :: "int option"
  cpg_categories :: "int list"
  cpg_tags :: "int list"
  cpg_created_at :: datetime
  cpg_deleted_at :: "datetime option"

record cms_post =
  pst_id :: int
  pst_tenant_id :: "int option"
  pst_title :: string
  pst_slug :: string
  pst_excerpt :: "string option"
  pst_body_md :: "string option"
  pst_body_html :: "string option"
  pst_cover_image_url :: "string option"
  pst_meta_title :: "string option"
  pst_meta_description :: "string option"
  pst_is_published :: bool
  pst_published_at :: "string option"
  pst_author_id :: "int option"
  pst_categories :: "int list"
  pst_tags :: "int list"
  pst_created_at :: datetime
  pst_deleted_at :: "datetime option"

section \<open>Billing\<close>

datatype plan_interval = MONTHLY | YEARLY

fun interval_value :: "plan_interval \<Rightarrow> string" where
  "interval_value MONTHLY = ''monthly''"
| "interval_value YEARLY = ''yearly''"

record plan =
  plan_id :: int
  plan_name :: string
  plan_slug :: string
  plan_description :: "string option"
  plan_price_cents :: int
  plan_currency :: string
  plan_interval :: plan_interval
  plan_trial_days :: int
  plan_is_active :: bool
  plan_metering :: "(string \<times> json) list option"

datatype sub_status = TRIALING | ACTIVE | PAST_DUE | CANCELED | SUSPENDED

fun status_value :: "sub_status \<Rightarrow> string" where
  "status_value TRIALING = ''trialing''"
| "status_value ACTIVE = ''active''"
| "status_value PAST_DUE = ''past_due''"
| "status_value CANCELED = ''canceled''"
| "status_value SUSPENDED = ''suspended''"

definition LIVE_STATUSES :: "sub_status set" where
  "LIVE_STATUSES = {TRIALING, ACTIVE, PAST_DUE}"

record subscription =
  sub_id :: int
  sub_tenant_id :: "int option"
  sub_plan_id :: int
  sub_status :: sub_status
  sub_current_period_start :: datetime
  sub_current_period_end :: datetime
  sub_trial_end :: "datetime option"
  sub_cancel_at_period_end :: bool
  sub_pending_plan_id :: "int option"
  sub_canceled_at :: "datetime option"
  sub_stripe_subscription_id :: "string option"
  sub_failed_payment_count :: int
  sub_last_payment_failure_at :: "datetime option"
  sub_next_retry_at :: "datetime option"
  sub_suspended_at :: "datetime option"

definition is_live :: "subscription \<Rightarrow> bool" where
  "is_live sub \<longleftrightarrow> sub_status sub \<in> LIVE_STATUSES"

text \<open>
  \<^verbatim>\<open>Subscription(tenant_id=..., plan_id=..., status=..., ...)\<close>: the columns the caller leaves out take
  their defaults.
\<close>

definition new_subscription ::
  "int option \<Rightarrow> int \<Rightarrow> sub_status \<Rightarrow> datetime \<Rightarrow> datetime \<Rightarrow> datetime option \<Rightarrow> string option
    \<Rightarrow> subscription" where
  "new_subscription tenant_id pid status period_start period_end trial_end stripe_id =
     \<lparr>sub_id = 0, sub_tenant_id = tenant_id, sub_plan_id = pid, sub_status = status,
      sub_current_period_start = period_start, sub_current_period_end = period_end,
      sub_trial_end = trial_end, sub_cancel_at_period_end = False, sub_pending_plan_id = None,
      sub_canceled_at = None, sub_stripe_subscription_id = stripe_id,
      sub_failed_payment_count = 0, sub_last_payment_failure_at = None,
      sub_next_retry_at = None, sub_suspended_at = None\<rparr>"

datatype inv_status = DRAFT | OPEN | PAID | VOID

fun inv_status_value :: "inv_status \<Rightarrow> string" where
  "inv_status_value DRAFT = ''draft''"
| "inv_status_value OPEN = ''open''"
| "inv_status_value PAID = ''paid''"
| "inv_status_value VOID = ''void''"

definition BLOCKING_STATUSES :: "inv_status set" where
  "BLOCKING_STATUSES = {DRAFT, OPEN, PAID}"

text \<open>\<^verbatim>\<open>quantity\<close>, \<^verbatim>\<open>unit_amount_cents\<close> and \<^verbatim>\<open>tax_rate_bps\<close> are \<open>None\<close> before the column defaults apply.\<close>

record invoice_line =
  line_description :: string
  line_quantity :: "int option"
  line_unit_amount_cents :: "int option"
  line_tax_rate_bps :: "int option"
  line_amount_cents :: int

definition or0 :: "int option \<Rightarrow> int" where
  "or0 v = (case v of None \<Rightarrow> 0 | Some i \<Rightarrow> i)"

definition compute_amount :: "invoice_line \<Rightarrow> int" where
  "compute_amount l = or0 (line_quantity l) * or0 (line_unit_amount_cents l)"

text \<open>\<open>a * rate / 10_000\<close> is a true division of integers: correctly rounded, then \<open>round\<close>ed.\<close>

definition compute_tax :: "invoice_line \<Rightarrow> int" where
  "compute_tax l =
     (let rate = or0 (line_tax_rate_bps l)
      in py_round (fl (of_int (compute_amount l * rate) / 10000)))"

record invoice =
  inv_id :: int
  inv_tenant_id :: "int option"
  inv_subscription_id :: int
  inv_status :: inv_status
  inv_currency :: string
  inv_subtotal_cents :: int
  inv_tax_cents :: int
  inv_total_cents :: int
  inv_period_start :: datetime
  inv_period_end :: datetime
  inv_issued_at :: "datetime option"
  inv_paid_at :: "datetime option"
  inv_created_at :: datetime
  inv_lines :: "invoice_line list"

text \<open>
  \<^verbatim>\<open>Invoice.number\<close>. The column \<^verbatim>\<open>created_at\<close> is filled by the database on insert and never
  null, so the year is always that of \<^verbatim>\<open>created_at\<close>. Primary keys are positive.
\<close>

definition invoice_number :: "invoice \<Rightarrow> string" where
  "invoice_number i =
     ''INV-'' @ show_int (dt_year (inv_created_at i)) @ ''-'' @
     pad_left 6 (show_nat (nat (inv_id i)))"

record stripe_event =
  sev_id :: int
  sev_event_id :: string
  sev_event_type :: string
  sev_payload :: "json option"
  sev_processed_at :: "datetime option"

section \<open>Files, background tasks and passkeys\<close>

record stored_file =
  fil_id :: int
  fil_filename :: string
  fil_original_filename :: string
  fil_mime_type :: string
  fil_size_bytes :: int
  fil_storage_path :: string
  fil_checksum_sha256 :: string
  fil_uploader_id :: "int option"
  fil_thumbnail_path_small :: "string option"
  fil_thumbnail_path_medium :: "string option"
  fil_thumbnail_path_large :: "string option"
  fil_metadata :: "json option"
  fil_created_at :: datetime

text \<open>The status of a Celery task: \<open>PENDING\<close>, \<open>SUCCESS\<close> or \<open>FAILURE\<close> in the rows that the code writes.\<close>

record task_status =
  tst_id :: int
  tst_tenant_id :: "int option"
  tst_task_id :: string
  tst_name :: "string option"
  tst_status :: string
  tst_error :: "string option"
  tst_completed_at :: "datetime option"

record webauthn_credential =
  wac_id :: int
  wac_user_id :: int
  wac_credential_id :: string
  wac_public_key :: string
  wac_sign_count :: int

section \<open>Every class is a row type\<close>

interpretation user_row: row_type user_id "\<lambda>i r. r\<lparr>user_id := i\<rparr>"
  by unfold_locales simp

interpretation tenant_row: row_type tnt_id "\<lambda>i r. r\<lparr>tnt_id := i\<rparr>"
  by unfold_locales simp

interpretation key_row: row_type key_id "\<lambda>i r. r\<lparr>key_id := i\<rparr>"
  by unfold_locales simp

interpretation plan_row: row_type plan_id "\<lambda>i r. r\<lparr>plan_id := i\<rparr>"
  by unfold_locales simp

interpretation sub_row: row_type sub_id "\<lambda>i r. r\<lparr>sub_id := i\<rparr>"
  by unfold_locales simp

interpretation inv_row: row_type inv_id "\<lambda>i r. r\<lparr>inv_id := i\<rparr>"
  by unfold_locales simp

interpretation sev_row: row_type sev_id "\<lambda>i r. r\<lparr>sev_id := i\<rparr>"
  by unfold_locales simp

interpretation aud_row: row_type aud_id "\<lambda>i r. r\<lparr>aud_id := i\<rparr>"
  by unfold_locales simp

interpretation wh_row: row_type wh_id "\<lambda>i r. r\<lparr>wh_id := i\<rparr>"
  by unfold_locales simp

interpretation dlv_row: row_type dlv_id "\<lambda>i r. r\<lparr>dlv_id := i\<rparr>"
  by unfold_locales simp

interpretation ntf_row: row_type ntf_id "\<lambda>i r. r\<lparr>ntf_id := i\<rparr>"
  by unfold_locales simp

interpretation npf_row: row_type npf_id "\<lambda>i r. r\<lparr>npf_id := i\<rparr>"
  by unfold_locales simp

interpretation ipr_row: row_type ipr_id "\<lambda>i r. r\<lparr>ipr_id := i\<rparr>"
  by unfold_locales simp

interpretation cat_row: row_type cat_id "\<lambda>i r. r\<lparr>cat_id := i\<rparr>"
  by unfold_locales simp

interpretation tag_row: row_type tag_id "\<lambda>i r. r\<lparr>tag_id := i\<rparr>"
  by unfold_locales simp

interpretation cpg_row: row_type cpg_id "\<lambda>i r. r\<lparr>cpg_id := i\<rparr>"
  by unfold_locales simp

interpretation pst_row: row_type pst_id "\<lambda>i r. r\<lparr>pst_id := i\<rparr>"
  by unfold_locales simp

interpretation fil_row: row_type fil_id "\<lambda>i r. r\<lparr>fil_id := i\<rparr>"
  by unfold_locales simp

interpretation tst_row: row_type tst_id "\<lambda>i r. r\<lparr>tst_id := i\<rparr>"
  by unfold_locales simp

interpretation wac_row: row_type wac_id "\<lambda>i r. r\<lparr>wac_id := i\<rparr>"
  by unfold_locales simp

section \<open>Facts about the classes\<close>

lemma live_iff: "is_live s \<longleftrightarrow> sub_status s \<noteq> CANCELED \<and> sub_status s \<noteq> SUSPENDED"
  by (cases "sub_status s") (auto simp: is_live_def LIVE_STATUSES_def)

lemma in_live_iff [simp]: "st \<in> LIVE_STATUSES \<longleftrightarrow> st \<noteq> CANCELED \<and> st \<noteq> SUSPENDED"
  by (cases st) (auto simp: LIVE_STATUSES_def)

lemma blocking_iff [simp]: "st \<in> BLOCKING_STATUSES \<longleftrightarrow> st \<noteq> VOID"
  by (cases st) (auto simp: BLOCKING_STATUSES_def)

lemma or0_simps [simp]: "or0 None = 0" "or0 (Some i) = i"
  by (simp_all add: or0_def)

lemma compute_tax_zero_rate [simp]: "or0 (line_tax_rate_bps l) = 0 \<Longrightarrow> compute_tax l = 0"
  by (simp add: compute_tax_def)

lemma status_value_inj [simp]: "status_value a = status_value b \<longleftrightarrow> a = b"
  by (cases a; cases b) auto

lemma inv_status_value_inj [simp]: "inv_status_value a = inv_status_value b \<longleftrightarrow> a = b"
  by (cases a; cases b) auto

end
