(* ===== verification/AppState.thy ===== *)
theory AppState
  imports Models
begin

text \<open>
  The state that handlers, services and tasks of the application work on.

  \<^item> \<open>settings\<close>: the fields of \<^verbatim>\<open>app/core/config.py\<close> that the modelled code reads.
  \<^item> \<open>db\<close>: the tables; \<open>db_unique\<close> is the conjunction of the unique columns and partial unique indexes
    that the model classes declare.
  \<^item> \<open>world\<close>: what one session sees (\<open>w_db\<close>, its own pending changes included), what is committed
    (\<open>w_committed\<close>), the events published on the bus, the Redis client behind \<^verbatim>\<open>cache\<close> (\<open>None\<close> when it is
    not connected), the in-process entitlement cache of the quota dependency, the tasks handed to the broker,
    the WebSocket connections of the process with what was sent on them, and the current tenant.

  A commit checks \<open>db_unique\<close> and raises \<open>IntegrityError\<close> when it fails; a rollback returns to the
  committed tables; \<open>with_session\<close> is \<^verbatim>\<open>sessionmanager.writer_session\<close> (everything that was not committed
  is gone when the block is left, normally or by an exception). \<^verbatim>\<open>db.refresh\<close> re-reads a row the session
  already holds and is the identity on this state. The tenant filter of \<^verbatim>\<open>app/core/database.py\<close> is
  modelled separately (\<open>apply_tenant_filter\<close>); the handlers below run with no current tenant set.

  Redis, the event bus transport, and the process clock are parameters: a record of the Redis commands
  that the code calls, a predicate that tells which publications succeed, and explicit time arguments.
\<close>

section \<open>Settings\<close>

record settings =
  ENVIRONMENT :: string
  API_V1_STR :: string
  SECRET_KEY :: string
  ALGORITHM :: string
  ACCESS_TOKEN_EXPIRE_MINUTES :: int
  REFRESH_TOKEN_EXPIRE_DAYS :: int
  MAX_LOGIN_ATTEMPTS :: int
  LOGIN_LOCKOUT_MINUTES :: int
  MAGIC_LINK_EXPIRE_MINUTES :: int
  MAGIC_LINK_ALLOW_REGISTRATION :: bool
  TOTP_ISSUER_NAME :: string
  TOTP_CODE_EXPIRE_SECONDS :: int
  TOTP_CODE_LENGTH :: int
  TOTP_BACKUP_CODE_COUNT :: int
  TOTP_CHALLENGE_EXPIRE_SECONDS :: int
  GOOGLE_CLIENT_ID :: string
  GOOGLE_CLIENT_SECRET :: string
  GITHUB_CLIENT_ID :: string
  GITHUB_CLIENT_SECRET :: string
  GITLAB_CLIENT_ID :: string
  GITLAB_CLIENT_SECRET :: string
  OAUTH_REDIRECT_URL :: string
  OAUTH_STATE_EXPIRE_SECONDS :: int
  API_KEY_EXPIRE_DAYS :: int
  JWT_BLACKLIST_ENABLED :: bool
  JWT_BLACKLIST_TTL :: int
  RATE_LIMIT_ENABLED :: bool
  RATE_LIMIT_WINDOW_SECONDS :: int
  RATE_LIMIT_SENSITIVE :: int
  RATE_LIMIT_PUBLIC :: int
  RATE_LIMIT_AUTHENTICATED :: int
  RATE_LIMIT_ADMIN :: int
  BILLING_QUOTA_ENABLED :: bool
  BILLING_DUNNING_ENABLED :: bool
  DUNNING_MAX_ATTEMPTS :: int
  DUNNING_BASE_DELAY_MINUTES :: int
  STRIPE_SECRET_KEY :: string
  STRIPE_WEBHOOK_SECRET :: string
  WEBHOOK_ENABLED :: bool
  WEBHOOK_MAX_RETRIES :: int
  WEBHOOK_BACKOFF_BASE_SECONDS :: rat
  WEBHOOK_BACKOFF_MAX_SECONDS :: rat
  WEBHOOK_SIGNATURE_TOLERANCE_SECONDS :: int
  NOTIFICATION_ENABLED :: bool
  DEFAULT_LOCALE :: string
  SUPPORTED_LOCALES :: "string list"
  API_DEPRECATED_SINCE :: string
  API_DEPRECATED_SUNSET_DATE :: string
  COMPRESSION_ENABLED :: bool
  COMPRESSION_MIN_SIZE :: int
  COMPRESSION_LEVEL :: int
  CSP_REPORT_URI :: string
  CSP_DEFAULT_SRC :: string
  CSP_SCRIPT_SRC :: string
  CSP_STYLE_SRC :: string
  CSP_IMG_SRC :: string
  CSP_CONNECT_SRC :: string
  CSP_FRAME_ANCESTORS :: string
  CSP_FORM_ACTION :: string
  SOFT_DELETE_PURGE_DAYS :: int

definition quoted :: "string \<Rightarrow> string" where
  "quoted s = CHR 0x27 # s @ [CHR 0x27]"

text \<open>The declared defaults; the secret key is required and its default here is a sample value.\<close>

definition default_settings :: settings where
  "default_settings = \<lparr>
     ENVIRONMENT = ''development'', API_V1_STR = ''/api/v1'',
     SECRET_KEY = ''0123456789abcdef0123456789abcdef'', ALGORITHM = ''HS256'',
     ACCESS_TOKEN_EXPIRE_MINUTES = 30, REFRESH_TOKEN_EXPIRE_DAYS = 7,
     MAX_LOGIN_ATTEMPTS = 5, LOGIN_LOCKOUT_MINUTES = 15, MAGIC_LINK_EXPIRE_MINUTES = 15,
     MAGIC_LINK_ALLOW_REGISTRATION = True,
     TOTP_ISSUER_NAME = ''FastAPI Async Template'', TOTP_CODE_EXPIRE_SECONDS = 30, TOTP_CODE_LENGTH = 6,
     TOTP_BACKUP_CODE_COUNT = 8, TOTP_CHALLENGE_EXPIRE_SECONDS = 120,
     GOOGLE_CLIENT_ID = [], GOOGLE_CLIENT_SECRET = [], GITHUB_CLIENT_ID = [], GITHUB_CLIENT_SECRET = [],
     GITLAB_CLIENT_ID = [], GITLAB_CLIENT_SECRET = [],
     OAUTH_REDIRECT_URL = ''http://localhost:8000/api/v1/auth/oauth/callback'', OAUTH_STATE_EXPIRE_SECONDS = 300,
     API_KEY_EXPIRE_DAYS = 365,
     JWT_BLACKLIST_ENABLED = True, JWT_BLACKLIST_TTL = 86400,
     RATE_LIMIT_ENABLED = True, RATE_LIMIT_WINDOW_SECONDS = 60, RATE_LIMIT_SENSITIVE = 5,
     RATE_LIMIT_PUBLIC = 20, RATE_LIMIT_AUTHENTICATED = 100, RATE_LIMIT_ADMIN = 300,
     BILLING_QUOTA_ENABLED = False, BILLING_DUNNING_ENABLED = False,
     DUNNING_MAX_ATTEMPTS = 4, DUNNING_BASE_DELAY_MINUTES = 60,
     STRIPE_SECRET_KEY = [], STRIPE_WEBHOOK_SECRET = [],
     WEBHOOK_ENABLED = True, WEBHOOK_MAX_RETRIES = 5, WEBHOOK_BACKOFF_BASE_SECONDS = 60,
     WEBHOOK_BACKOFF_MAX_SECONDS = 3600, WEBHOOK_SIGNATURE_TOLERANCE_SECONDS = 300,
     NOTIFICATION_ENABLED = True,
     DEFAULT_LOCALE = ''en'', SUPPORTED_LOCALES = [''en'', ''es''],
     API_DEPRECATED_SINCE = [], API_DEPRECATED_SUNSET_DATE = ''Sat, 01 Jan 2028 00:00:00 GMT'',
     COMPRESSION_ENABLED = True, COMPRESSION_MIN_SIZE = 1024, COMPRESSION_LEVEL = 6,
     CSP_REPORT_URI = ''/api/v1/csp-report'', CSP_DEFAULT_SRC = quoted ''self'',
     CSP_SCRIPT_SRC = quoted ''self'' @ '' '' @ quoted ''unsafe-inline'',
     CSP_STYLE_SRC = quoted ''self'' @ '' '' @ quoted ''unsafe-inline'', CSP_IMG_SRC = quoted ''self'' @ '' data:'',
     CSP_CONNECT_SRC = quoted ''self'', CSP_FRAME_ANCESTORS = quoted ''none'', CSP_FORM_ACTION = quoted ''self'',
     SOFT_DELETE_PURGE_DAYS = 90\<rparr>"

text \<open>The range constraints that the settings class declares on the fields used below.\<close>

definition settings_valid :: "settings \<Rightarrow> bool" where
  "settings_valid S \<longleftrightarrow>
     32 \<le> length (SECRET_KEY S) \<and>
     1 \<le> DUNNING_MAX_ATTEMPTS S \<and> DUNNING_MAX_ATTEMPTS S \<le> 20 \<and>
     1 \<le> DUNNING_BASE_DELAY_MINUTES S \<and> DUNNING_BASE_DELAY_MINUTES S \<le> 60 * 24 * 30 \<and>
     0 \<le> WEBHOOK_MAX_RETRIES S \<and> 0 \<le> WEBHOOK_BACKOFF_BASE_SECONDS S \<and>
     0 \<le> WEBHOOK_BACKOFF_MAX_SECONDS S \<and> 0 \<le> WEBHOOK_SIGNATURE_TOLERANCE_SECONDS S"

lemma default_settings_valid: "settings_valid default_settings"
  by (simp add: settings_valid_def default_settings_def)

section \<open>Tables and constraints\<close>

record db =
  users :: "user table"
  tenants :: "tenant table"
  api_keys :: "api_key table"
  plans :: "plan table"
  subscriptions :: "subscription table"
  invoices :: "invoice table"
  stripe_events :: "stripe_event table"
  audit_logs :: "audit_log table"
  webhooks :: "webhook table"
  deliveries :: "webhook_delivery table"
  notifications :: "notification table"
  preferences :: "notification_preference table"
  ip_rules :: "ip_rule table"
  categories :: "category table"
  tags :: "tag table"
  cms_pages :: "cms_page table"
  cms_posts :: "cms_post table"
  files :: "stored_file table"
  task_statuses :: "task_status table"
  webauthn_credentials :: "webauthn_credential table"

definition empty_db :: db where
  "empty_db = \<lparr>users = empty_table, tenants = empty_table, api_keys = empty_table,
     plans = empty_table, subscriptions = empty_table, invoices = empty_table,
     stripe_events = empty_table, audit_logs = empty_table, webhooks = empty_table,
     deliveries = empty_table, notifications = empty_table, preferences = empty_table,
     ip_rules = empty_table, categories = empty_table, tags = empty_table, cms_pages = empty_table,
     cms_posts = empty_table, files = empty_table, task_statuses = empty_table,
     webauthn_credentials = empty_table\<rparr>"

text \<open>A unique index: rows whose key is \<open>None\<close> (a NULL, or outside the predicate of a partial index) are
  not constrained.\<close>

definition unique_on :: "('r \<Rightarrow> 'k option) \<Rightarrow> 'r table \<Rightarrow> bool" where
  "unique_on key t \<longleftrightarrow> distinct (List.map_filter key (t_rows t))"

definition live_key :: "subscription \<Rightarrow> int option" where
  "live_key s = (if is_live s then sub_tenant_id s else None)"

definition slot_key :: "invoice \<Rightarrow> (int \<times> datetime) option" where
  "slot_key i = (if inv_status i \<noteq> VOID then Some (inv_subscription_id i, inv_period_start i) else None)"

text \<open>The indexes on \<open>(tenant_id, slug)\<close>: rows without a tenant are not constrained.\<close>

definition slug_key :: "int option \<Rightarrow> string \<Rightarrow> (int \<times> string) option" where
  "slug_key tenant_id slug = map_option (\<lambda>t. (t, slug)) tenant_id"

definition db_unique :: "db \<Rightarrow> bool" where
  "db_unique d \<longleftrightarrow>
     unique_on (\<lambda>u. Some (user_email u)) (users d) \<and>
     unique_on (\<lambda>u. Some (user_username u)) (users d) \<and>
     unique_on (\<lambda>t. Some (tnt_name t)) (tenants d) \<and>
     unique_on tnt_slug (tenants d) \<and>
     unique_on tnt_stripe_customer_id (tenants d) \<and>
     unique_on (\<lambda>p. Some (plan_slug p)) (plans d) \<and>
     unique_on live_key (subscriptions d) \<and>
     unique_on sub_stripe_subscription_id (subscriptions d) \<and>
     unique_on slot_key (invoices d) \<and>
     unique_on (\<lambda>e. Some (sev_event_id e)) (stripe_events d) \<and>
     unique_on (\<lambda>p. Some (npf_user_id p)) (preferences d) \<and>
     unique_on (\<lambda>c. slug_key (cat_tenant_id c) (cat_slug c)) (categories d) \<and>
     unique_on (\<lambda>c. slug_key (tag_tenant_id c) (tag_slug c)) (tags d) \<and>
     unique_on (\<lambda>p. slug_key (cpg_tenant_id p) (cpg_slug p)) (cms_pages d) \<and>
     unique_on (\<lambda>p. slug_key (pst_tenant_id p) (pst_slug p)) (cms_posts d) \<and>
     unique_on (\<lambda>f. Some (fil_storage_path f)) (files d) \<and>
     unique_on (\<lambda>t. Some (tst_task_id t)) (task_statuses d) \<and>
     unique_on (\<lambda>c. Some (wac_credential_id c)) (webauthn_credentials d)"

text \<open>Primary keys are distinct and positive in every table.\<close>

definition db_keys :: "db \<Rightarrow> bool" where
  "db_keys d \<longleftrightarrow>
     table_wf user_id (users d) \<and> table_wf tnt_id (tenants d) \<and> table_wf key_id (api_keys d) \<and>
     table_wf plan_id (plans d) \<and> table_wf sub_id (subscriptions d) \<and>
     table_wf inv_id (invoices d) \<and> table_wf sev_id (stripe_events d) \<and>
     table_wf aud_id (audit_logs d) \<and> table_wf wh_id (webhooks d) \<and> table_wf dlv_id (deliveries d) \<and>
     table_wf ntf_id (notifications d) \<and> table_wf npf_id (preferences d) \<and>
     table_wf ipr_id (ip_rules d) \<and> table_wf cat_id (categories d) \<and> table_wf tag_id (tags d) \<and>
     table_wf cpg_id (cms_pages d) \<and> table_wf pst_id (cms_posts d) \<and>
     table_wf fil_id (files d) \<and> table_wf tst_id (task_statuses d) \<and> table_wf wac_id (webauthn_credentials d)"

section \<open>The world\<close>

text \<open>
  A normalised metering configuration \<open>{"unit_amount_cents": .., "included_quantity": ..}\<close>, and
  \<^verbatim>\<open>_Entitlements\<close> of \<^verbatim>\<open>app/billing/api/deps.py\<close>.
\<close>

record dim_config =
  unit_amount_cents :: int
  included_quantity :: int

record entitlements =
  ent_config :: "(string \<times> dim_config) list"
  ent_period_start :: "datetime option"
  ent_period_end :: "datetime option"
  ent_expires_at :: rat

text \<open>
  What the application hands to the Celery broker (\<^verbatim>\<open>task.delay(...)\<close>): a mail with its address, subject, template and
  context, the key of a webhook delivery, or a plain mail with its recipient, subject and body.
\<close>

datatype task =
    Send_email string string string "(string \<times> json) list"
  | Deliver_webhook int
  | Email_notification string string string

text \<open>
  \<open>w_conns\<close> is \<^verbatim>\<open>ConnectionManager.active_connections\<close>: a dictionary in insertion order from user ids to sets of
  sockets (a socket is a number, a set a list without repetition); \<open>w_outbox\<close> is what was sent on the sockets.
  \<open>w_tenant\<close> is the context variable \<^verbatim>\<open>current_tenant_id\<close> of the running request; \<open>w_audited\<close> says whether the
  start-up installed the audit listener on \<^verbatim>\<open>User\<close> (it does in every environment but \<^verbatim>\<open>test\<close>).
\<close>

type_synonym socket = nat

record 'r world =
  w_db :: db
  w_committed :: db
  w_bus :: "event list"
  w_redis :: "'r option"
  w_entitlements :: "int \<rightharpoonup> entitlements"
  w_tasks :: "task list"
  w_conns :: "(string \<times> socket list) list"
  w_outbox :: "(socket \<times> string) list"
  w_tenant :: "int option"
  w_audited :: bool

type_synonym ('r, 'a) app = "('r world, 'a) io"

definition select_all :: "(db \<Rightarrow> 'a table) \<Rightarrow> ('a \<Rightarrow> bool) \<Rightarrow> ('r, 'a list) app" where
  "select_all tbl P = getsM (\<lambda>w. select_where P (tbl (w_db w)))"

definition select_one :: "(db \<Rightarrow> 'a table) \<Rightarrow> ('a \<Rightarrow> bool) \<Rightarrow> ('r, 'a option) app" where
  "select_one tbl P = bindM (select_all tbl P) (\<lambda>rs. liftM (scalar_one_or_none rs))"

text \<open>\<open>db.add(obj)\<close> of a new object, giving the object with its key.\<close>

definition db_add ::
  "(db \<Rightarrow> 'a table) \<Rightarrow> (('a table \<Rightarrow> 'a table) \<Rightarrow> db \<Rightarrow> db) \<Rightarrow> (int \<Rightarrow> 'a \<Rightarrow> 'a) \<Rightarrow> 'a
    \<Rightarrow> ('r, 'a) app" where
  "db_add tbl upd set_id r =
     (\<lambda>w. (Inr (next_row set_id r (tbl (w_db w))),
           w\<lparr>w_db := upd (insert_row set_id r) (w_db w)\<rparr>))"

text \<open>
  The \<^verbatim>\<open>before_insert\<close> listener of a user: it writes an audit row whose \<^verbatim>\<open>record_id\<close> is the key of the new
  object. That key is still null when the listener runs and the column is not nullable, so the flush fails.
\<close>

definition user_inserted :: "('r, unit) app" where
  "user_inserted = (\<lambda>w. (if w_audited w then Inl IntegrityError else Inr (), w))"

text \<open>Attributes of a loaded object were set; the session holds the changed object.\<close>

definition db_save ::
  "(('a table \<Rightarrow> 'a table) \<Rightarrow> db \<Rightarrow> db) \<Rightarrow> ('a \<Rightarrow> int) \<Rightarrow> 'a \<Rightarrow> ('r, unit) app" where
  "db_save upd rid r = modifyM (\<lambda>w. w\<lparr>w_db := upd (update_row rid r) (w_db w)\<rparr>)"

definition commit :: "('r, unit) app" where
  "commit = (\<lambda>w. if db_unique (w_db w) then (Inr (), w\<lparr>w_committed := w_db w\<rparr>)
                 else (Inl IntegrityError, w))"

definition rollback :: "('r, unit) app" where
  "rollback = modifyM (\<lambda>w. w\<lparr>w_db := w_committed w\<rparr>)"

definition with_session :: "('r, 'a) app \<Rightarrow> ('r, 'a) app" where
  "with_session m = (\<lambda>w. case m w of (r, w') \<Rightarrow> (r, w'\<lparr>w_db := w_committed w'\<rparr>))"

text \<open>Between requests: the constraints hold and nothing is pending.\<close>

definition store_ok :: "'r world \<Rightarrow> bool" where
  "store_ok w \<longleftrightarrow> db_unique (w_db w) \<and> db_keys (w_db w) \<and> w_committed w = w_db w"

text \<open>An \<^verbatim>\<open>EventBus\<close>: which publications the transport accepts.\<close>

type_synonym bus = "event \<Rightarrow> bool"

definition publish :: "bus \<Rightarrow> event \<Rightarrow> ('r, unit) app" where
  "publish bus e =
     (if bus e then modifyM (\<lambda>w. w\<lparr>w_bus := w_bus w @ [e]\<rparr>)
      else raiseM (ServiceError ''publish''))"

text \<open>A Celery broker: which tasks it accepts.\<close>

type_synonym broker = "task \<Rightarrow> bool"

definition delay :: "broker \<Rightarrow> task \<Rightarrow> ('r, unit) app" where
  "delay broker t =
     (if broker t then modifyM (\<lambda>w. w\<lparr>w_tasks := w_tasks w @ [t]\<rparr>)
      else raiseM (ServiceError ''broker''))"

section \<open>Specialised tables\<close>

abbreviation save_user :: "user \<Rightarrow> ('r, unit) app" where
  "save_user \<equiv> db_save users_update user_id"

abbreviation save_tenant :: "tenant \<Rightarrow> ('r, unit) app" where
  "save_tenant \<equiv> db_save tenants_update tnt_id"

abbreviation save_key :: "api_key \<Rightarrow> ('r, unit) app" where
  "save_key \<equiv> db_save api_keys_update key_id"

abbreviation save_plan :: "plan \<Rightarrow> ('r, unit) app" where
  "save_plan \<equiv> db_save plans_update plan_id"

abbreviation save_sub :: "subscription \<Rightarrow> ('r, unit) app" where
  "save_sub \<equiv> db_save subscriptions_update sub_id"

abbreviation save_invoice :: "invoice \<Rightarrow> ('r, unit) app" where
  "save_invoice \<equiv> db_save invoices_update inv_id"

abbreviation save_stripe_event :: "stripe_event \<Rightarrow> ('r, unit) app" where
  "save_stripe_event \<equiv> db_save stripe_events_update sev_id"

abbreviation add_user :: "user \<Rightarrow> ('r, user) app" where
  "add_user u \<equiv> thenM user_inserted (db_add users users_update (\<lambda>i r. r\<lparr>user_id := i\<rparr>) u)"

abbreviation add_key :: "api_key \<Rightarrow> ('r, api_key) app" where
  "add_key \<equiv> db_add api_keys api_keys_update (\<lambda>i r. r\<lparr>key_id := i\<rparr>)"

abbreviation add_plan :: "plan \<Rightarrow> ('r, plan) app" where
  "add_plan \<equiv> db_add plans plans_update (\<lambda>i r. r\<lparr>plan_id := i\<rparr>)"

abbreviation add_sub :: "subscription \<Rightarrow> ('r, subscription) app" where
  "add_sub \<equiv> db_add subscriptions subscriptions_update (\<lambda>i r. r\<lparr>sub_id := i\<rparr>)"

abbreviation add_invoice :: "invoice \<Rightarrow> ('r, invoice) app" where
  "add_invoice \<equiv> db_add invoices invoices_update (\<lambda>i r. r\<lparr>inv_id := i\<rparr>)"

abbreviation add_stripe_event :: "stripe_event \<Rightarrow> ('r, stripe_event) app" where
  "add_stripe_event \<equiv> db_add stripe_events stripe_events_update (\<lambda>i r. r\<lparr>sev_id := i\<rparr>)"

abbreviation add_audit :: "audit_log \<Rightarrow> ('r, audit_log) app" where
  "add_audit \<equiv> db_add audit_logs audit_logs_update (\<lambda>i r. r\<lparr>aud_id := i\<rparr>)"

abbreviation save_webhook :: "webhook \<Rightarrow> ('r, unit) app" where
  "save_webhook \<equiv> db_save webhooks_update wh_id"

abbreviation add_webhook :: "webhook \<Rightarrow> ('r, webhook) app" where
  "add_webhook \<equiv> db_add webhooks webhooks_update (\<lambda>i r. r\<lparr>wh_id := i\<rparr>)"

abbreviation save_delivery :: "webhook_delivery \<Rightarrow> ('r, unit) app" where
  "save_delivery \<equiv> db_save deliveries_update dlv_id"

abbreviation add_delivery :: "webhook_delivery \<Rightarrow> ('r, webhook_delivery) app" where
  "add_delivery \<equiv> db_add deliveries deliveries_update (\<lambda>i r. r\<lparr>dlv_id := i\<rparr>)"

abbreviation save_notification :: "notification \<Rightarrow> ('r, unit) app" where
  "save_notification \<equiv> db_save notifications_update ntf_id"

abbreviation add_notification :: "notification \<Rightarrow> ('r, notification) app" where
  "add_notification \<equiv> db_add notifications notifications_update (\<lambda>i r. r\<lparr>ntf_id := i\<rparr>)"

abbreviation save_preference :: "notification_preference \<Rightarrow> ('r, unit) app" where
  "save_preference \<equiv> db_save preferences_update npf_id"

abbreviation add_preference :: "notification_preference \<Rightarrow> ('r, notification_preference) app" where
  "add_preference \<equiv> db_add preferences preferences_update (\<lambda>i r. r\<lparr>npf_id := i\<rparr>)"

abbreviation add_tenant :: "tenant \<Rightarrow> ('r, tenant) app" where
  "add_tenant \<equiv> db_add tenants tenants_update (\<lambda>i r. r\<lparr>tnt_id := i\<rparr>)"

abbreviation save_ip_rule :: "ip_rule \<Rightarrow> ('r, unit) app" where
  "save_ip_rule \<equiv> db_save ip_rules_update ipr_id"

abbreviation add_ip_rule :: "ip_rule \<Rightarrow> ('r, ip_rule) app" where
  "add_ip_rule \<equiv> db_add ip_rules ip_rules_update (\<lambda>i r. r\<lparr>ipr_id := i\<rparr>)"

abbreviation add_file :: "stored_file \<Rightarrow> ('r, stored_file) app" where
  "add_file \<equiv> db_add files files_update (\<lambda>i r. r\<lparr>fil_id := i\<rparr>)"

abbreviation save_task_status :: "task_status \<Rightarrow> ('r, unit) app" where
  "save_task_status \<equiv> db_save task_statuses_update tst_id"

abbreviation add_task_status :: "task_status \<Rightarrow> ('r, task_status) app" where
  "add_task_status \<equiv> db_add task_statuses task_statuses_update (\<lambda>i r. r\<lparr>tst_id := i\<rparr>)"

abbreviation add_credential :: "webauthn_credential \<Rightarrow> ('r, webauthn_credential) app" where
  "add_credential \<equiv> db_add webauthn_credentials webauthn_credentials_update (\<lambda>i r. r\<lparr>wac_id := i\<rparr>)"

section \<open>Running the primitives\<close>

lemma select_all_run [simp, py_simps]:
  "select_all tbl P w = (Inr (select_where P (tbl (w_db w))), w)"
  by (simp add: select_all_def)

lemma select_one_run [simp, py_simps]:
  "select_one tbl P w = (scalar_one_or_none (select_where P (tbl (w_db w))), w)"
  by (simp add: select_one_def)

lemma db_add_run [simp, py_simps]:
  "db_add tbl upd set_id r w =
     (Inr (next_row set_id r (tbl (w_db w))), w\<lparr>w_db := upd (insert_row set_id r) (w_db w)\<rparr>)"
  by (simp add: db_add_def)

lemma user_inserted_run [simp, py_simps]: "user_inserted w = (if w_audited w then Inl IntegrityError else Inr (), w)"
  by (simp add: user_inserted_def)

lemma db_save_run [simp, py_simps]:
  "db_save upd rid r w = (Inr (), w\<lparr>w_db := upd (update_row rid r) (w_db w)\<rparr>)"
  by (simp add: db_save_def)

lemma commit_run [py_simps]:
  "commit w = (if db_unique (w_db w) then (Inr (), w\<lparr>w_committed := w_db w\<rparr>)
               else (Inl IntegrityError, w))"
  by (simp add: commit_def)

lemma rollback_run [simp, py_simps]: "rollback w = (Inr (), w\<lparr>w_db := w_committed w\<rparr>)"
  by (simp add: rollback_def)

lemma publish_run [py_simps]:
  "publish bus e w = (if bus e then (Inr (), w\<lparr>w_bus := w_bus w @ [e]\<rparr>)
                      else (Inl (ServiceError ''publish''), w))"
  by (simp add: publish_def)

lemma delay_run [py_simps]:
  "delay broker t w = (if broker t then (Inr (), w\<lparr>w_tasks := w_tasks w @ [t]\<rparr>)
                       else (Inl (ServiceError ''broker''), w))"
  by (simp add: delay_def)

lemma with_session_run [py_simps]:
  "m w = (r, w') \<Longrightarrow> with_session m w = (r, w'\<lparr>w_db := w_committed w'\<rparr>)"
  by (simp add: with_session_def)

section \<open>Unique indexes under insert and update\<close>

lemma unique_onD:
  assumes "unique_on key t" "r \<in> set (t_rows t)" "s \<in> set (t_rows t)" "key r = Some k" "key s = Some k"
    and "distinct (t_rows t)"
  shows "r = s"
proof -
  have "distinct (List.map_filter key xs) \<Longrightarrow> r \<in> set xs \<Longrightarrow> s \<in> set xs \<Longrightarrow> distinct xs \<Longrightarrow> r = s" for xs
    using assms(4,5)
    by (induction xs) (auto simp: List.map_filter_simps split: option.splits, (force simp: map_filter_def)+)
  then show ?thesis using assms by (auto simp: unique_on_def)
qed

lemma set_map_filter_key: "set (List.map_filter key xs) = {k. \<exists>x \<in> set xs. key x = Some k}"
  by (force simp: List.map_filter_def)

lemma unique_on_insert:
  "unique_on key (insert_row set_id r t) \<longleftrightarrow>
     unique_on key t \<and>
     (\<forall>k. key (next_row set_id r t) = Some k \<longrightarrow> (\<forall>s \<in> set (t_rows t). key s \<noteq> Some k))"
proof -
  have "distinct (List.map_filter key (xs @ [x])) \<longleftrightarrow> distinct (List.map_filter key xs) \<and>
    (\<forall>k. key x = Some k \<longrightarrow> (\<forall>s \<in> set xs. key s \<noteq> Some k))" for xs x
  proof -
    have "List.map_filter key (xs @ [x]) =
      List.map_filter key xs @ (case key x of None \<Rightarrow> [] | Some k \<Rightarrow> [k])"
      by (auto simp: List.map_filter_def split: option.splits)
    then show ?thesis by (auto simp: set_map_filter_key split: option.splits)
  qed
  then show ?thesis by (simp add: unique_on_def insert_row_def next_row_def)
qed

text \<open>An update that keeps a row's key, or drops it from the index, keeps the index unique.\<close>

lemma unique_on_update:
  assumes "unique_on key t" "table_wf rid t" "\<And>s. s \<in> set (t_rows t) \<Longrightarrow> rid s = rid r \<Longrightarrow>
    key r = None \<or> key r = key s"
  shows "unique_on key (update_row rid r t)"
proof -
  let ?u = "\<lambda>x. if rid x = rid r then r else x"
  have "distinct (List.map_filter key xs) \<Longrightarrow> (\<And>s. s \<in> set xs \<Longrightarrow> rid s = rid r \<Longrightarrow> key r = None \<or> key r = key s)
    \<Longrightarrow> distinct (List.map_filter key (map ?u xs)) \<and>
        set (List.map_filter key (map ?u xs)) \<subseteq> set (List.map_filter key xs)" for xs
  proof (induction xs)
    case (Cons x xs)
    have IH: "distinct (List.map_filter key (map ?u xs))"
      "set (List.map_filter key (map ?u xs)) \<subseteq> set (List.map_filter key xs)"
      using Cons by (auto simp: List.map_filter_simps split: option.splits)
    have kx: "key (?u x) = None \<or> key (?u x) = key x" using Cons.prems(2) [of x] by auto
    then show ?case
      using IH Cons.prems(1) by (auto simp: List.map_filter_simps split: option.splits)
  qed (simp add: List.map_filter_simps)
  then show ?thesis using assms by (simp add: unique_on_def update_row_def)
qed

lemma unique_on_empty [simp]: "unique_on key empty_table"
  by (simp add: unique_on_def empty_table_def List.map_filter_simps)

lemma empty_db_ok [simp]: "db_unique empty_db" "db_keys empty_db"
  by (simp_all add: db_unique_def db_keys_def empty_db_def)

text \<open>Which rows the primitives reach.\<close>

lemma wf_distinct_rows: "table_wf rid t \<Longrightarrow> distinct (t_rows t)"
  by (simp add: table_wf_def distinct_map)

lemma unique_on_iff:
  assumes "distinct (t_rows t)"
  shows "unique_on key t \<longleftrightarrow>
    (\<forall>x \<in> set (t_rows t). \<forall>y \<in> set (t_rows t). \<forall>k. key x = Some k \<longrightarrow> key y = Some k \<longrightarrow> x = y)"
proof -
  have "distinct xs \<Longrightarrow> distinct (List.map_filter key xs) \<longleftrightarrow>
    (\<forall>x \<in> set xs. \<forall>y \<in> set xs. \<forall>k. key x = Some k \<longrightarrow> key y = Some k \<longrightarrow> x = y)" for xs
  proof (induction xs)
    case (Cons a xs)
    then show ?case
      by (cases "key a") (auto simp: List.map_filter_simps set_map_filter_key)
  qed (simp add: List.map_filter_simps)
  then show ?thesis using assms by (simp add: unique_on_def)
qed

text \<open>An update that gives a row a key no other row holds keeps the index unique.\<close>

lemma unique_on_update_fresh:
  assumes "unique_on key t" "table_wf rid t"
    and "\<And>x k. x \<in> set (t_rows t) \<Longrightarrow> rid x \<noteq> rid r \<Longrightarrow> key r = Some k \<Longrightarrow> key x \<noteq> Some k"
  shows "unique_on key (update_row rid r t)"
proof -
  have mem: "x = r \<or> x \<in> set (t_rows t) \<and> rid x \<noteq> rid r" if "x \<in> set (t_rows (update_row rid r t))" for x
    using that by (auto simp: update_row_def split: if_splits)
  have "map rid (t_rows (update_row rid r t)) = map rid (t_rows t)"
    by (simp add: update_row_def)
  then have "distinct (t_rows (update_row rid r t))"
    using assms(2) by (metis distinct_map table_wf_def)
  moreover have "x = y" if "x \<in> set (t_rows (update_row rid r t))" "y \<in> set (t_rows (update_row rid r t))"
    "key x = Some k" "key y = Some k" for x y k
    using mem [OF that(1)] mem [OF that(2)] that(3,4) assms(3) unique_onD [OF assms(1) _ _ that(3,4) wf_distinct_rows [OF assms(2)]]
    by metis
  ultimately show ?thesis by (simp add: unique_on_iff)
qed

end
