(* ===== verification/Lifecycle.thy ===== *)
theory Lifecycle
  imports AppState
begin

text \<open>
  \<^verbatim>\<open>app/billing/services/billing.py\<close>: the subscription state machine, billing periods, and hybrid
  proration. The functions are pure; amounts are integer minor units and the fraction of a period is a
  binary64 float, as in the source.

  The locale \<open>state_machine\<close> is the contract of a transition guard; it is interpreted here for
  subscriptions and in \<^verbatim>\<open>Invoicing\<close> for invoices.
\<close>

section \<open>The state machine\<close>

fun ALLOWED_TRANSITIONS :: "sub_status \<Rightarrow> sub_status set" where
  "ALLOWED_TRANSITIONS TRIALING = {ACTIVE, PAST_DUE, CANCELED}"
| "ALLOWED_TRANSITIONS ACTIVE = {PAST_DUE, CANCELED}"
| "ALLOWED_TRANSITIONS PAST_DUE = {ACTIVE, CANCELED, SUSPENDED}"
| "ALLOWED_TRANSITIONS CANCELED = {}"
| "ALLOWED_TRANSITIONS SUSPENDED = {}"

definition assert_transition :: "sub_status \<Rightarrow> sub_status \<Rightarrow> exn + unit" where
  "assert_transition current target =
     (if target \<notin> ALLOWED_TRANSITIONS current
      then Inl (IllegalTransitionError (status_value current) (status_value target))
      else Inr ())"

section \<open>Periods\<close>

fun INTERVAL_DELTA :: "plan_interval \<Rightarrow> timedelta" where
  "INTERVAL_DELTA MONTHLY = days_td 30"
| "INTERVAL_DELTA YEARLY = days_td 365"

definition next_period_end :: "plan \<Rightarrow> datetime \<Rightarrow> datetime" where
  "next_period_end p start = start + INTERVAL_DELTA (plan_interval p)"

definition fraction_remaining :: "datetime \<Rightarrow> datetime \<Rightarrow> datetime \<Rightarrow> rat" where
  "fraction_remaining period_start period_end now =
     (let total = total_seconds (period_end - period_start)
      in if total \<le> 0 then 0
         else let remaining = total_seconds (period_end - now)
              in max 0 (min 1 (fl (remaining / total))))"

section \<open>Proration\<close>

record plan_change_preview =
  credit_cents :: int
  charge_cents :: int
  net_cents :: int

record plan_change_decision =
  effective :: string
  preview :: "plan_change_preview option"
  decision_pending_plan_id :: "int option"

text \<open>\<open>price * frac\<close>: the integer is converted to a float first, then the product is rounded.\<close>

definition scale_price :: "int \<Rightarrow> rat \<Rightarrow> int" where
  "scale_price price fr = py_round (fl (fl (of_int price) * fr))"

definition compute_unused_credit :: "plan \<Rightarrow> subscription \<Rightarrow> datetime \<Rightarrow> int" where
  "compute_unused_credit p sub now =
     (let fr = fraction_remaining (sub_current_period_start sub) (sub_current_period_end sub) now
      in scale_price (plan_price_cents p) fr)"

definition compute_prorated_charge :: "plan \<Rightarrow> datetime \<Rightarrow> datetime \<Rightarrow> datetime \<Rightarrow> int" where
  "compute_prorated_charge p start end' now =
     (let fr = fraction_remaining start end' now
      in scale_price (plan_price_cents p) fr)"

definition decide_plan_change ::
  "plan \<Rightarrow> plan \<Rightarrow> subscription \<Rightarrow> datetime \<Rightarrow> exn + plan_change_decision" where
  "decide_plan_change current_plan new_plan sub now =
     (if plan_currency new_plan \<noteq> plan_currency current_plan
      then Inl (ValueError ''cannot change plans across currencies'')
      else if plan_price_cents new_plan > plan_price_cents current_plan
      then let credit = compute_unused_credit current_plan sub now;
               charge = compute_prorated_charge new_plan (sub_current_period_start sub)
                          (sub_current_period_end sub) now
           in Inr \<lparr>effective = ''immediate'',
                   preview = Some \<lparr>credit_cents = credit, charge_cents = charge,
                                    net_cents = charge - credit\<rparr>,
                   decision_pending_plan_id = None\<rparr>
      else Inr \<lparr>effective = ''scheduled'', preview = None,
                decision_pending_plan_id = Some (plan_id new_plan)\<rparr>)"

section \<open>Events\<close>

definition subscription_event :: "string \<Rightarrow> subscription \<Rightarrow> int option \<Rightarrow> event" where
  "subscription_event event_suffix sub uid =
     mk_event (''billing.subscription.'' @ event_suffix)
       [(''subscription_id'', JInt (sub_id sub)),
        (''tenant_id'', json_opt (sub_tenant_id sub)),
        (''plan_id'', JInt (sub_plan_id sub)),
        (''status'', JStr (status_value (sub_status sub))),
        (''cancel_at_period_end'', JBool (sub_cancel_at_period_end sub)),
        (''pending_plan_id'', json_opt (sub_pending_plan_id sub)),
        (''current_period_end'', JStr (isoformat (sub_current_period_end sub)))] uid"

section \<open>The contract of a transition guard\<close>

locale state_machine =
  fixes allowed :: "'s \<Rightarrow> 's set" and guard :: "'s \<Rightarrow> 's \<Rightarrow> exn + unit"
  assumes guard_iff: "guard s t = Inr () \<longleftrightarrow> t \<in> allowed s"
begin

definition steps :: "('s \<times> 's) set" where
  "steps = {(s, t). guard s t = Inr ()}"

lemma guard_step: "guard s t = Inr () \<Longrightarrow> (s, t) \<in> steps"
  by (simp add: steps_def)

lemma terminal_stuck:
  assumes "(s, t) \<in> steps\<^sup>*" and "allowed s = {}"
  shows "t = s"
  using assms by (induction rule: rtrancl_induct) (auto simp: steps_def guard_iff)

lemma closed_reach:
  assumes "\<And>s. s \<in> S \<Longrightarrow> allowed s \<subseteq> S" and "(s, t) \<in> steps\<^sup>*" and "s \<in> S"
  shows "t \<in> S"
  using assms(2,3) by (induction rule: rtrancl_induct) (use assms(1) in \<open>auto simp: steps_def guard_iff\<close>)

lemma guard_error: "t \<notin> allowed s \<Longrightarrow> \<exists>e. guard s t = Inl e"
  using guard_iff [of s t] by (cases "guard s t") auto

end

interpretation sub_machine: state_machine ALLOWED_TRANSITIONS assert_transition
  by unfold_locales (simp add: assert_transition_def)

lemma assert_transition_Inr: "assert_transition s t = Inr u \<longleftrightarrow> t \<in> ALLOWED_TRANSITIONS s"
  using sub_machine.guard_iff [of s t] by simp

section \<open>Floating-point facts about the proration\<close>

lemma fraction_range: "0 \<le> fraction_remaining s e n" "fraction_remaining s e n \<le> 1"
  by (simp_all add: fraction_remaining_def Let_def)

text \<open>The quotient before clamping, and its monotonicity in the time that remains.\<close>

lemma fraction_eq:
  "s < e \<Longrightarrow> fraction_remaining s e n =
    max 0 (min 1 (fl (total_seconds (e - n) / total_seconds (e - s))))"
  by (simp add: fraction_remaining_def Let_def)

lemma fraction_empty: "e \<le> s \<Longrightarrow> fraction_remaining s e n = 0"
  by (simp add: fraction_remaining_def Let_def)

lemma fraction_antimono: "n \<le> n' \<Longrightarrow> fraction_remaining s e n' \<le> fraction_remaining s e n"
proof (cases "s < e")
  case True
  assume "n \<le> n'"
  then have "fl (total_seconds (e - n') / total_seconds (e - s)) \<le>
    fl (total_seconds (e - n) / total_seconds (e - s))"
    using True by (intro fl_mono divide_right_mono total_seconds_mono) simp_all
  then show ?thesis unfolding fraction_eq [OF True] by (intro max.mono min.mono order_refl)
qed (simp add: fraction_empty)

lemma fraction_at_start:
  assumes "s < e" and "n \<le> s"
  shows "fraction_remaining s e n = 1"
proof -
  have pos: "0 < total_seconds (e - s)" using assms(1) by simp
  have "total_seconds (e - s) \<le> total_seconds (e - n)"
    using assms(2) by (simp add: total_seconds_mono)
  then have "1 \<le> total_seconds (e - n) / total_seconds (e - s)"
    using pos by (simp only: le_divide_eq_1_pos)
  then have "1 \<le> fl (total_seconds (e - n) / total_seconds (e - s))" using fl_mono [of 1] by force
  then show ?thesis using assms(1) by (simp add: fraction_eq)
qed

lemma fraction_at_end:
  assumes "e \<le> n"
  shows "fraction_remaining s e n = 0"
proof (cases "s < e")
  case True
  have "total_seconds (e - n) / total_seconds (e - s) \<le> 0"
    using assms True by (intro divide_nonpos_nonneg) simp_all
  then have "fl (total_seconds (e - n) / total_seconds (e - s)) \<le> 0" by (simp only: fl_sign)
  then have "min 1 (fl (total_seconds (e - n) / total_seconds (e - s))) \<le> 0"
    by (rule min.coboundedI2)
  then show ?thesis unfolding fraction_eq [OF True] by (rule max.absorb1)
qed (simp add: fraction_empty)

lemma scale_price_mono_price:
  "p \<le> q \<Longrightarrow> 0 \<le> f \<Longrightarrow> scale_price p f \<le> scale_price q f"
  unfolding scale_price_def by (intro py_round_mono fl_mono mult_right_mono) simp_all

lemma scale_price_mono_frac:
  "0 \<le> p \<Longrightarrow> f \<le> g \<Longrightarrow> scale_price p f \<le> scale_price p g"
  unfolding scale_price_def by (intro py_round_mono fl_mono mult_left_mono) simp_all

lemma scale_price_0 [simp]: "scale_price p 0 = 0"
  by (simp add: scale_price_def)

lemma scale_price_1: "\<bar>p\<bar> < 2 ^ 53 \<Longrightarrow> scale_price p 1 = p"
  by (simp add: scale_price_def fl_of_int)

lemma scale_price_bounds:
  assumes "0 \<le> p" "p < 2 ^ 53" "0 \<le> f" "f \<le> 1"
  shows "0 \<le> scale_price p f" "scale_price p f \<le> p"
  using scale_price_mono_frac [of p 0 f] scale_price_mono_frac [of p f 1] scale_price_1 [of p] assms
  by simp_all

text \<open>
  Accuracy. The quotient of two rounded durations is within a few units of \<open>2 ^ -53\<close> of the exact
  quotient, so the prorated amount is the exact one rounded to the nearest cent, up to an error far
  below a cent for every price the catalog accepts.
\<close>

lemma quotient_rel_error:
  fixes x y x' y' u :: rat
  assumes "0 \<le> x" "0 < y" "0 < u" "u < 1 / 4" "\<bar>x' - x\<bar> \<le> x * u" "\<bar>y' - y\<bar> \<le> y * u"
  shows "\<bar>x' / y' - x / y\<bar> \<le> x / y * (3 * u)"
proof -
  have y'_lo: "y * (1 - u) \<le> y'" and y'_hi: "y' \<le> y * (1 + u)"
    and x'_lo: "x * (1 - u) \<le> x'" and x'_hi: "x' \<le> x * (1 + u)"
    using assms(5,6) by (auto simp: abs_le_iff algebra_simps)
  have "0 < y * (1 - u)" using assms by simp
  with y'_lo have y': "0 < y'" by linarith
  have uu: "0 \<le> u - 3 * (u * u)" using assms mult_right_mono [of u "1/4" u] by simp
  have up: "x' \<le> x / y * (1 + 3 * u) * y'"
  proof -
    have "x' \<le> x * (1 + u)" by (rule x'_hi)
    also have "\<dots> \<le> x * ((1 + 3 * u) * (1 - u))"
      using assms uu by (intro mult_left_mono) (auto simp: algebra_simps)
    also have "\<dots> = x / y * (1 + 3 * u) * (y * (1 - u))" using assms by simp
    also have "\<dots> \<le> x / y * (1 + 3 * u) * y'" using assms y'_lo by (intro mult_left_mono) auto
    finally show ?thesis .
  qed
  have lo: "x / y * (1 - 3 * u) * y' \<le> x'"
  proof -
    have "x / y * (1 - 3 * u) * y' \<le> x / y * (1 - 3 * u) * (y * (1 + u))"
      using assms y'_hi by (intro mult_left_mono) auto
    also have "\<dots> = x * ((1 - 3 * u) * (1 + u))" using assms by simp
    also have "\<dots> \<le> x * (1 - u)" using assms by (intro mult_left_mono) (auto simp: algebra_simps)
    also have "\<dots> \<le> x'" by (rule x'_lo)
    finally show ?thesis .
  qed
  have "x' / y' \<le> x / y * (1 + 3 * u)" "x / y * (1 - 3 * u) \<le> x' / y'"
    using up lo y' by (simp_all add: pos_divide_le_eq pos_le_divide_eq)
  then show ?thesis by (auto simp: abs_le_iff algebra_simps)
qed

lemma fraction_rel_error:
  assumes "s < e" "s \<le> n" "n \<le> e"
  shows "\<bar>fraction_remaining s e n - of_int (e - n) / of_int (e - s)\<bar> \<le> 5 / 2 ^ 53"
proof -
  define u :: rat where "u = 1 / 2 ^ 53"
  let ?x = "of_int (e - n) / 1000000 :: rat" and ?y = "of_int (e - s) / 1000000 :: rat"
  let ?q = "total_seconds (e - n) / total_seconds (e - s)" and ?r = "of_int (e - n) / of_int (e - s) :: rat"
  have "a / 1000000 / (b / 1000000) = a / b" for a b :: rat by simp
  then have r: "?x / ?y = ?r" .
  have r01: "0 \<le> ?r" "?r \<le> 1" using assms by (simp_all add: divide_le_eq_1)
  have "\<bar>?q - ?r\<bar> \<le> ?r * (3 * u)"
    unfolding r [symmetric]
    by (rule quotient_rel_error)
      (use assms fl_rel_error [of ?x] fl_rel_error [of ?y] in
        \<open>auto simp: u_def total_seconds_def\<close>)
  also have "?r * (3 * u) \<le> 1 * (3 * u)" using r01(2) by (intro mult_right_mono) (simp_all add: u_def)
  finally have q: "\<bar>?q - ?r\<bar> \<le> 3 * u" by simp
  have "0 \<le> ?q" using assms by simp
  then have "\<bar>fl ?q - ?q\<bar> \<le> ?q * u" using fl_rel_error [of ?q] by (simp add: u_def)
  also have "?q * u \<le> (1 + 3 * u) * u"
  proof (rule mult_right_mono)
    show "?q \<le> 1 + 3 * u" using q r01 unfolding abs_le_iff by linarith
  qed (simp add: u_def)
  also have "\<dots> \<le> 2 * u" by (simp add: u_def)
  finally have "\<bar>fl ?q - ?r\<bar> \<le> 5 * u" using q by linarith
  moreover have "\<bar>max 0 (min 1 v) - ?r\<bar> \<le> \<bar>v - ?r\<bar>" for v :: rat using r01 by linarith
  ultimately have "\<bar>fraction_remaining s e n - ?r\<bar> \<le> 5 * u"
    unfolding fraction_eq [OF assms(1)] by (rule order_trans [rotated])
  then show ?thesis by (simp add: u_def)
qed

lemma scale_price_error:
  assumes "0 \<le> p" "p < 2 ^ 53" "0 \<le> f" "f \<le> 1"
  shows "\<bar>of_int (scale_price p f) - of_int p * f\<bar> \<le> 1 / 2 + of_int p / 2 ^ 53"
proof -
  let ?v = "of_int p * f"
  have "\<bar>of_int (scale_price p f) - fl ?v\<bar> \<le> 1 / 2"
    using assms round_half_even_error [of "fl ?v"] by (simp add: scale_price_def py_round_def fl_of_int)
  moreover have "\<bar>fl ?v - ?v\<bar> \<le> ?v / 2 ^ 53" using fl_rel_error [of ?v] assms by simp
  moreover have "?v / 2 ^ 53 \<le> of_int p / 2 ^ 53"
    using assms by (intro divide_right_mono) (simp_all add: mult_left_le)
  ultimately show ?thesis by linarith
qed

lemma prorated_amount_error:
  assumes "s < e" "s \<le> n" "n \<le> e" "0 \<le> p" "p < 2 ^ 53"
  shows "\<bar>of_int (scale_price p (fraction_remaining s e n)) - of_int p * of_int (e - n) / of_int (e - s)\<bar>
    \<le> (1 / 2 + 6 * of_int p / 2 ^ 53 :: rat)"
proof -
  let ?f = "fraction_remaining s e n" and ?r = "of_int (e - n) / of_int (e - s) :: rat"
  have "\<bar>of_int p * a - of_int p * b\<bar> = of_int p * \<bar>a - b\<bar>" for a b :: rat
    using assms by (simp add: abs_mult right_diff_distrib [symmetric])
  then have "\<bar>of_int p * ?f - of_int p * ?r\<bar> = of_int p * \<bar>?f - ?r\<bar>" .
  also have "\<dots> \<le> of_int p * (5 / 2 ^ 53)"
    using assms fraction_rel_error [OF assms(1-3)] by (intro mult_left_mono) simp_all
  finally have "\<bar>of_int p * ?f - of_int p * ?r\<bar> \<le> of_int p * (5 / 2 ^ 53)" .
  moreover have "\<bar>of_int (scale_price p ?f) - of_int p * ?f\<bar> \<le> 1 / 2 + of_int p / 2 ^ 53"
    using assms fraction_range by (intro scale_price_error) simp_all
  moreover have "of_int p * of_int (e - n) / of_int (e - s) = of_int p * ?r" by simp
  moreover have "of_int p * (5 / 2 ^ 53) + of_int p / 2 ^ 53 = (6 * of_int p / 2 ^ 53 :: rat)" by simp
  ultimately show ?thesis unfolding abs_le_iff by linarith
qed

section \<open>Properties\<close>

lemma sub_steps_eq: "sub_machine.steps = {(s, t). assert_transition s t = Inr ()}"
  by (simp add: sub_machine.steps_def)

text \<open>
  The life of a subscription. Along any sequence of transitions that the guard admits, \<open>CANCELED\<close> and
  \<open>SUSPENDED\<close> are final, a subscription that left its trial never returns to it, and it reaches
  \<open>SUSPENDED\<close> only from \<open>PAST_DUE\<close>; a refused transition raises \<open>IllegalTransitionError\<close> naming both states.
\<close>

theorem subscription_machine:
  assumes "(s, t) \<in> {(s, t). assert_transition s t = Inr ()}\<^sup>*"
  shows "(s \<in> {CANCELED, SUSPENDED} \<longrightarrow> t = s) \<and> (s \<noteq> TRIALING \<longrightarrow> t \<noteq> TRIALING) \<and>
    (t = SUSPENDED \<longrightarrow> s = SUSPENDED \<or> (s, PAST_DUE) \<in> {(s, t). assert_transition s t = Inr ()}\<^sup>*) \<and>
    (x \<notin> ALLOWED_TRANSITIONS t \<longrightarrow>
      assert_transition t x = Inl (IllegalTransitionError (status_value t) (status_value x)))"
proof (intro conjI)
  have st: "(s, t) \<in> sub_machine.steps\<^sup>*" using assms by (simp add: sub_steps_eq)
  show "s \<in> {CANCELED, SUSPENDED} \<longrightarrow> t = s"
    using sub_machine.terminal_stuck [OF st] by auto
  have closed: "ALLOWED_TRANSITIONS a \<subseteq> - {TRIALING}" for a by (cases a) simp_all
  show "s \<noteq> TRIALING \<longrightarrow> t \<noteq> TRIALING"
    using sub_machine.closed_reach [of "- {TRIALING}", OF closed st] by simp
  show "t = SUSPENDED \<longrightarrow> s = SUSPENDED \<or> (s, PAST_DUE) \<in> {(s, t). assert_transition s t = Inr ()}\<^sup>*"
    using assms
  proof (cases rule: rtranclE)
    case (step y)
    moreover have "y = PAST_DUE" if "assert_transition y SUSPENDED = Inr ()"
      using that by (cases y) (simp_all add: assert_transition_def)
    ultimately show ?thesis by auto
  qed simp
qed (simp add: assert_transition_def)

theorem subscription_machine_witness:
  "(PAST_DUE, SUSPENDED) \<in> {(s, t). assert_transition s t = Inr ()}\<^sup>* \<and>
   (PAST_DUE, TRIALING) \<notin> {(s, t). assert_transition s t = Inr ()}\<^sup>* \<and>
   (CANCELED, ACTIVE) \<notin> {(s, t). assert_transition s t = Inr ()}\<^sup>*"
proof (intro conjI)
  show "(PAST_DUE, SUSPENDED) \<in> {(s, t). assert_transition s t = Inr ()}\<^sup>*"
    by (rule r_into_rtrancl) (simp add: assert_transition_def)
qed (use subscription_machine [of PAST_DUE TRIALING] subscription_machine [of CANCELED ACTIVE] in blast)+

text \<open>
  What a plan change decides. Across currencies it is refused; a change to a dearer plan is immediate,
  credits at most the old price and charges at most the new one, and what the tenant pays, charge less
  credit, is never negative; any other change is scheduled for the end of the period and costs nothing now.
  Hypotheses: prices are non-negative and representable as floats (the catalog's limit is far below).
\<close>

theorem plan_change_spec:
  assumes "0 \<le> plan_price_cents cur" "0 \<le> plan_price_cents new" "plan_price_cents new < 2 ^ 53"
  shows "case decide_plan_change cur new sub now of
      Inl e \<Rightarrow> plan_currency new \<noteq> plan_currency cur \<and> e = ValueError ''cannot change plans across currencies''
    | Inr d \<Rightarrow> plan_currency new = plan_currency cur \<and>
        (if plan_price_cents cur < plan_price_cents new
         then effective d = ''immediate'' \<and> decision_pending_plan_id d = None \<and>
           (\<exists>pv. preview d = Some pv \<and> net_cents pv = charge_cents pv - credit_cents pv \<and>
             0 \<le> credit_cents pv \<and> credit_cents pv \<le> plan_price_cents cur \<and>
             charge_cents pv \<le> plan_price_cents new \<and> 0 \<le> net_cents pv)
         else effective d = ''scheduled'' \<and> preview d = None \<and>
           decision_pending_plan_id d = Some (plan_id new))"
proof -
  let ?f = "fraction_remaining (sub_current_period_start sub) (sub_current_period_end sub) now"
  have f: "0 \<le> ?f" "?f \<le> 1" by (rule fraction_range)+
  show ?thesis
    using assms f scale_price_bounds [of "plan_price_cents cur" ?f] scale_price_bounds [of "plan_price_cents new" ?f]
      scale_price_mono_price [of "plan_price_cents cur" "plan_price_cents new" ?f]
    by (simp add: decide_plan_change_def compute_unused_credit_def compute_prorated_charge_def Let_def)
qed

definition small_plan :: plan where
  "small_plan = \<lparr>plan_id = 1, plan_name = ''S'', plan_slug = ''s'', plan_description = None,
     plan_price_cents = 1000, plan_currency = ''usd'', plan_interval = MONTHLY, plan_trial_days = 0,
     plan_is_active = True, plan_metering = None\<rparr>"

definition large_plan :: plan where
  "large_plan = small_plan\<lparr>plan_id := 2, plan_slug := ''l'', plan_price_cents := 5000\<rparr>"

theorem plan_change_spec_witness:
  "\<exists>d pv. decide_plan_change small_plan large_plan (new_subscription (Some 7) 1 ACTIVE 0 100 None None) 40 = Inr d \<and>
     effective d = ''immediate'' \<and> preview d = Some pv \<and> 0 \<le> net_cents pv"
  using plan_change_spec [of small_plan large_plan "new_subscription (Some 7) 1 ACTIVE 0 100 None None" 40]
  by (auto simp: small_plan_def large_plan_def split: sum.splits)

text \<open>
  C26: the unused credit. It is the whole price at the start of the period, nothing from its end on, never
  grows as time passes, and within the period it is the exact proportion \<open>price * remaining / total\<close>
  rounded to the nearest cent, up to a floating-point error of at most \<open>6 * price / 2 ^ 53\<close> cents.
\<close>

theorem unused_credit_accuracy:
  assumes "0 \<le> plan_price_cents p" "plan_price_cents p < 2 ^ 53"
    and "s = sub_current_period_start sub" "e = sub_current_period_end sub" "s < e"
  shows "(now \<le> s \<longrightarrow> compute_unused_credit p sub now = plan_price_cents p) \<and>
    (e \<le> now \<longrightarrow> compute_unused_credit p sub now = 0) \<and>
    (now \<le> now' \<longrightarrow> compute_unused_credit p sub now' \<le> compute_unused_credit p sub now) \<and>
    (s \<le> now \<and> now \<le> e \<longrightarrow>
      \<bar>of_int (compute_unused_credit p sub now) -
        of_int (plan_price_cents p) * of_int (e - now) / of_int (e - s)\<bar>
      \<le> (1 / 2 + 6 * of_int (plan_price_cents p) / 2 ^ 53 :: rat))"
proof (intro conjI impI)
  have eq: "compute_unused_credit p sub n = scale_price (plan_price_cents p) (fraction_remaining s e n)" for n
    by (simp add: compute_unused_credit_def assms(3,4))
  { assume "now \<le> s" then show "compute_unused_credit p sub now = plan_price_cents p"
      using assms(1,2,5) by (simp add: eq fraction_at_start scale_price_1) }
  { assume "e \<le> now" then show "compute_unused_credit p sub now = 0"
      by (simp add: eq fraction_at_end) }
  { assume "now \<le> now'" then show "compute_unused_credit p sub now' \<le> compute_unused_credit p sub now"
      using assms(1) by (simp add: eq scale_price_mono_frac fraction_antimono) }
  { assume "s \<le> now \<and> now \<le> e"
    then show "\<bar>of_int (compute_unused_credit p sub now) -
        of_int (plan_price_cents p) * of_int (e - now) / of_int (e - s)\<bar>
      \<le> (1 / 2 + 6 * of_int (plan_price_cents p) / 2 ^ 53 :: rat)"
      unfolding eq by (intro prorated_amount_error assms) simp_all }
qed

theorem unused_credit_accuracy_witness:
  "compute_unused_credit large_plan (new_subscription (Some 7) 2 ACTIVE 0 100 None None) 0 = 5000 \<and>
   compute_unused_credit large_plan (new_subscription (Some 7) 2 ACTIVE 0 100 None None) 100 = 0"
  using unused_credit_accuracy [of large_plan 0 "new_subscription (Some 7) 2 ACTIVE 0 100 None None" 100 0 0]
    unused_credit_accuracy [of large_plan 0 "new_subscription (Some 7) 2 ACTIVE 0 100 None None" 100 100 100]
  by (simp add: small_plan_def large_plan_def new_subscription_def)

end
