(* ===== verification/BillingCrud.thy ===== *)
theory BillingCrud
  imports AppState
begin

text \<open>
  The billing schemas with their field constraints (\<^verbatim>\<open>app/billing/schemas/plan.py\<close>) and the query
  helpers of \<^verbatim>\<open>app/billing/crud/{plan,subscription,invoice}.py\<close>.

  A field of a partial update is \<open>None\<close> when the request left it out, \<open>Some None\<close> for an explicit
  \<open>null\<close>. Writing a \<open>null\<close> to a column declared \<open>nullable=False\<close> is an \<open>IntegrityError\<close> of the commit.
\<close>

section \<open>Schemas\<close>

definition dimension_config_valid :: "dim_config \<Rightarrow> bool" where
  "dimension_config_valid c \<longleftrightarrow>
     0 \<le> unit_amount_cents c \<and> unit_amount_cents c \<le> 100000000 \<and> 0 \<le> included_quantity c"

definition is_lower :: "char \<Rightarrow> bool" where
  "is_lower c \<longleftrightarrow> 97 \<le> (of_char c :: nat) \<and> (of_char c :: nat) \<le> 122"

text \<open>\<open>^[a-z0-9]+(?:-[a-z0-9]+)*$\<close>\<close>

definition slug_pattern :: "string \<Rightarrow> bool" where
  "slug_pattern s \<longleftrightarrow>
     list_all (\<lambda>part. part \<noteq> [] \<and> list_all (\<lambda>c. is_lower c \<or> is_digit c) part) (py_split CHR ''-'' s)"

record plan_create =
  pc_name :: string
  pc_slug :: string
  pc_description :: "string option"
  pc_price_cents :: int
  pc_currency :: string
  pc_interval :: plan_interval
  pc_trial_days :: int
  pc_is_active :: bool
  pc_metering :: "(string \<times> dim_config) list option"

definition plan_create_valid :: "plan_create \<Rightarrow> bool" where
  "plan_create_valid o' \<longleftrightarrow>
     1 \<le> length (pc_name o') \<and> length (pc_name o') \<le> 100 \<and>
     1 \<le> length (pc_slug o') \<and> length (pc_slug o') \<le> 100 \<and> slug_pattern (pc_slug o') \<and>
     0 \<le> pc_price_cents o' \<and> pc_price_cents o' \<le> 10000000000 \<and>
     length (pc_currency o') = 3 \<and> list_all is_lower (pc_currency o') \<and>
     0 \<le> pc_trial_days o' \<and> pc_trial_days o' \<le> 365 \<and>
     (case pc_metering o' of None \<Rightarrow> True
      | Some m \<Rightarrow> list_all (\<lambda>(_, c). dimension_config_valid c) m)"

record plan_update =
  pu_name :: "string option option"
  pu_description :: "string option option"
  pu_price_cents :: "int option option"
  pu_trial_days :: "int option option"
  pu_is_active :: "bool option option"
  pu_metering :: "(string \<times> dim_config) list option option"

definition empty_plan_update :: plan_update where
  "empty_plan_update = \<lparr>pu_name = None, pu_description = None, pu_price_cents = None,
     pu_trial_days = None, pu_is_active = None, pu_metering = None\<rparr>"

definition opt_ok :: "('a \<Rightarrow> bool) \<Rightarrow> 'a option option \<Rightarrow> bool" where
  "opt_ok P v = (case v of Some (Some x) \<Rightarrow> P x | _ \<Rightarrow> True)"

definition plan_update_valid :: "plan_update \<Rightarrow> bool" where
  "plan_update_valid o' \<longleftrightarrow>
     opt_ok (\<lambda>n. 1 \<le> length n \<and> length n \<le> 100) (pu_name o') \<and>
     opt_ok (\<lambda>p. 0 \<le> p \<and> p \<le> 10000000000) (pu_price_cents o') \<and>
     opt_ok (\<lambda>d. 0 \<le> d \<and> d \<le> 365) (pu_trial_days o') \<and>
     opt_ok (list_all (\<lambda>(_, c). dimension_config_valid c)) (pu_metering o')"

text \<open>\<open>model_dump()\<close> of the metering field: a dict of dicts of integers.\<close>

definition dump_metering :: "(string \<times> dim_config) list \<Rightarrow> (string \<times> json) list" where
  "dump_metering m =
     map (\<lambda>(name, c). (name, JObj [(''unit_amount_cents'', JInt (unit_amount_cents c)),
                                    (''included_quantity'', JInt (included_quantity c))])) m"

section \<open>Plans\<close>

definition plan_get :: "int \<Rightarrow> ('r, plan option) app" where
  "plan_get i = select_one plans (\<lambda>p. plan_id p = i)"

definition plan_get_by_slug :: "string \<Rightarrow> ('r, plan option) app" where
  "plan_get_by_slug slug = select_one plans (\<lambda>p. plan_slug p = slug)"

definition plan_list_active :: "('r, plan list) app" where
  "plan_list_active =
     bindM (select_all plans plan_is_active) (\<lambda>rs. returnM (sort_key plan_price_cents rs))"

definition plan_create_row :: "plan_create \<Rightarrow> plan" where
  "plan_create_row o' =
     \<lparr>plan_id = 0, plan_name = pc_name o', plan_slug = pc_slug o',
      plan_description = pc_description o', plan_price_cents = pc_price_cents o',
      plan_currency = pc_currency o', plan_interval = pc_interval o',
      plan_trial_days = pc_trial_days o', plan_is_active = pc_is_active o',
      plan_metering = map_option dump_metering (pc_metering o')\<rparr>"

definition crud_plan_create :: "plan_create \<Rightarrow> ('r, plan) app" where
  "crud_plan_create o' =
     bindM (add_plan (plan_create_row o')) (\<lambda>p. thenM commit (returnM p))"

definition set_field :: "'a option option \<Rightarrow> 'a \<Rightarrow> 'a" where
  "set_field v old = (case v of Some (Some x) \<Rightarrow> x | _ \<Rightarrow> old)"

definition set_nullable :: "'a option option \<Rightarrow> 'a option \<Rightarrow> 'a option" where
  "set_nullable v old = (case v of None \<Rightarrow> old | Some x \<Rightarrow> x)"

definition crud_plan_update :: "plan \<Rightarrow> plan_update \<Rightarrow> ('r, plan) app" where
  "crud_plan_update p o' =
     (let p' = p\<lparr>plan_name := set_field (pu_name o') (plan_name p),
                 plan_description := set_nullable (pu_description o') (plan_description p),
                 plan_price_cents := set_field (pu_price_cents o') (plan_price_cents p),
                 plan_trial_days := set_field (pu_trial_days o') (plan_trial_days p),
                 plan_is_active := set_field (pu_is_active o') (plan_is_active p),
                 plan_metering := set_nullable (map_option (map_option dump_metering) (pu_metering o'))
                                    (plan_metering p)\<rparr>
      in thenM (guardM (pu_name o' \<noteq> Some None \<and> pu_price_cents o' \<noteq> Some None \<and>
                        pu_trial_days o' \<noteq> Some None \<and> pu_is_active o' \<noteq> Some None) IntegrityError)
         (thenM (save_plan p') (thenM commit (returnM p'))))"

section \<open>Subscriptions\<close>

definition subscription_get :: "int \<Rightarrow> ('r, subscription option) app" where
  "subscription_get i = select_one subscriptions (\<lambda>s. sub_id s = i)"

text \<open>\<open>WHERE tenant = .. AND status IN live ORDER BY id DESC LIMIT 1\<close>\<close>

definition live_rows :: "int option \<Rightarrow> subscription table \<Rightarrow> subscription list" where
  "live_rows tenant_id t =
     limit_rows 1 (order_desc sub_id
       (select_where (\<lambda>s. sub_tenant_id s = tenant_id \<and> sub_status s \<in> LIVE_STATUSES) t))"

definition get_live_for_tenant :: "int option \<Rightarrow> ('r, subscription option) app" where
  "get_live_for_tenant tenant_id =
     bindM (getsM (\<lambda>w. live_rows tenant_id (subscriptions (w_db w))))
       (\<lambda>rs. liftM (scalar_one_or_none rs))"

definition crud_subscription_create :: "subscription \<Rightarrow> ('r, subscription) app" where
  "crud_subscription_create s = bindM (add_sub s) (\<lambda>s'. thenM commit (returnM s'))"

section \<open>Invoices\<close>

definition invoice_get :: "int \<Rightarrow> ('r, invoice option) app" where
  "invoice_get i = select_one invoices (\<lambda>v. inv_id v = i)"

definition invoice_get_for_tenant :: "int \<Rightarrow> int \<Rightarrow> ('r, invoice option) app" where
  "invoice_get_for_tenant i tenant_id =
     select_one invoices (\<lambda>v. inv_id v = i \<and> inv_tenant_id v = Some tenant_id)"

definition invoice_list_for_tenant ::
  "int \<Rightarrow> string option \<Rightarrow> int \<Rightarrow> int \<Rightarrow> ('r, invoice list) app" where
  "invoice_list_for_tenant tenant_id status lmt off =
     bindM (select_all invoices (\<lambda>v. inv_tenant_id v = Some tenant_id \<and>
              (case status of None \<Rightarrow> True | Some st \<Rightarrow> inv_status_value (inv_status v) = st)))
       (\<lambda>rs. returnM (limit_rows lmt (offset_rows off (order_desc inv_id rs))))"

definition find_blocking_for_period :: "int \<Rightarrow> datetime \<Rightarrow> ('r, invoice option) app" where
  "find_blocking_for_period sid period_start =
     select_one invoices (\<lambda>v. inv_subscription_id v = sid \<and> inv_period_start v = period_start \<and>
                               inv_status v \<in> BLOCKING_STATUSES)"

text \<open>The lines given are appended to those the invoice already holds.\<close>

definition crud_invoice_create :: "invoice \<Rightarrow> invoice_line list \<Rightarrow> ('r, invoice) app" where
  "crud_invoice_create v lines =
     bindM (add_invoice (v\<lparr>inv_lines := inv_lines v @ lines\<rparr>)) (\<lambda>v'. thenM commit (returnM v'))"

section \<open>What the queries return\<close>

lemma live_rows_cases:
  "live_rows tid t = [] \<or> (\<exists>s. live_rows tid t = [s] \<and> s \<in> set (t_rows t) \<and>
     sub_tenant_id s = tid \<and> is_live s)"
proof -
  let ?xs = "order_desc sub_id
       (select_where (\<lambda>s. sub_tenant_id s = tid \<and> sub_status s \<in> LIVE_STATUSES) t)"
  show ?thesis
  proof (cases ?xs)
    case (Cons s ys)
    then have "s \<in> set ?xs" by simp
    then have "s \<in> set (t_rows t) \<and> sub_tenant_id s = tid \<and> is_live s"
      by (simp only: set_order_desc select_where_iff is_live_def)
    then show ?thesis using Cons by (simp add: live_rows_def limit_rows_def)
  qed (simp add: live_rows_def limit_rows_def)
qed

lemma live_rows_Nil_iff:
  "live_rows tid t = [] \<longleftrightarrow> (\<forall>s \<in> set (t_rows t). sub_tenant_id s = tid \<longrightarrow> \<not> is_live s)"
proof -
  let ?ys = "select_where (\<lambda>s. sub_tenant_id s = tid \<and> sub_status s \<in> LIVE_STATUSES) t"
  have "live_rows tid t = [] \<longleftrightarrow> ?ys = []"
    using length_order_desc [of sub_id ?ys] unfolding live_rows_def limit_rows_def
    by (cases "order_desc sub_id ?ys") (auto simp del: length_order_desc)
  also have "\<dots> \<longleftrightarrow> (\<forall>s \<in> set (t_rows t). sub_tenant_id s = tid \<longrightarrow> \<not> is_live s)"
    by (auto simp: select_where_def filter_empty_conv is_live_def)
  finally show ?thesis .
qed

lemma get_live_run:
  "get_live_for_tenant tid w =
     (Inr (case live_rows tid (subscriptions (w_db w)) of [] \<Rightarrow> None | s # _ \<Rightarrow> Some s), w)"
  using live_rows_cases [of tid "subscriptions (w_db w)"]
  by (auto simp: get_live_for_tenant_def)

lemma get_live_cases [consumes 0, case_names none some]:
  obtains "get_live_for_tenant tid w = (Inr None, w)"
      "\<forall>s \<in> set (t_rows (subscriptions (w_db w))). sub_tenant_id s = tid \<longrightarrow> \<not> is_live s"
  | s where "get_live_for_tenant tid w = (Inr (Some s), w)"
      "s \<in> set (t_rows (subscriptions (w_db w)))" "sub_tenant_id s = tid" "is_live s"
  using live_rows_cases [of tid "subscriptions (w_db w)"]
    live_rows_Nil_iff [of tid "subscriptions (w_db w)"]
  by (auto simp: get_live_run)

lemma get_live_unique:
  assumes "unique_on live_key (subscriptions (w_db w))" "table_wf sub_id (subscriptions (w_db w))"
    and "s \<in> set (t_rows (subscriptions (w_db w)))" "sub_tenant_id s = Some tid" "is_live s"
  shows "get_live_for_tenant (Some tid) w = (Inr (Some s), w)"
proof (cases rule: get_live_cases [of "Some tid" w])
  case none
  then show ?thesis using assms by blast
next
  case (some s')
  have "s' = s"
    using assms some(2,3,4) wf_distinct_rows [OF assms(2)]
    by (intro unique_onD [OF assms(1), of s' s tid]) (auto simp: live_key_def)
  then show ?thesis using some(1) by simp
qed

lemma plan_get_run [simp, py_simps]:
  "plan_get i w = (scalar_one_or_none (select_where (\<lambda>p. plan_id p = i) (plans (w_db w))), w)"
  by (simp add: plan_get_def)

lemma invoice_get_run [simp, py_simps]:
  "invoice_get i w = (scalar_one_or_none (select_where (\<lambda>v. inv_id v = i) (invoices (w_db w))), w)"
  by (simp add: invoice_get_def)

lemma plan_get_found:
  assumes "table_wf plan_id (plans (w_db w))" "p \<in> set (t_rows (plans (w_db w)))"
  shows "plan_get (plan_id p) w = (Inr (Some p), w)"
  using plan_row.by_id [OF assms] by simp

section \<open>Constraints under updates of subscriptions\<close>

lemma sub_by_id_unique:
  "db_keys d \<Longrightarrow> s \<in> set (t_rows (subscriptions d)) \<Longrightarrow> x \<in> set (t_rows (subscriptions d)) \<Longrightarrow>
   sub_id x = sub_id s \<Longrightarrow> x = s"
  using distinct_key_unique [of sub_id "t_rows (subscriptions d)" x s] by (simp add: db_keys_def table_wf_def)

lemma db_unique_save_sub:
  assumes "db_unique d" "db_keys d" "s \<in> set (t_rows (subscriptions d))" "sub_id s' = sub_id s"
    and "live_key s' = live_key s \<or> live_key s' = None"
    and "sub_stripe_subscription_id s' = sub_stripe_subscription_id s \<or> sub_stripe_subscription_id s' = None"
  shows "db_unique (subscriptions_update (update_row sub_id s') d)"
proof -
  have wf: "table_wf sub_id (subscriptions d)" using assms(2) by (simp add: db_keys_def)
  have same: "x = s" if "x \<in> set (t_rows (subscriptions d))" "sub_id x = sub_id s'" for x
    using sub_by_id_unique [OF assms(2,3) that(1)] that(2) assms(4) by simp
  have "unique_on live_key (update_row sub_id s' (subscriptions d))"
    using assms(1,5) same by (intro unique_on_update [OF _ wf]) (auto simp: db_unique_def)
  moreover have "unique_on sub_stripe_subscription_id (update_row sub_id s' (subscriptions d))"
    using assms(1,6) same by (intro unique_on_update [OF _ wf]) (auto simp: db_unique_def)
  ultimately show ?thesis using assms(1) by (simp add: db_unique_def)
qed

text \<open>The general form: the changed row may take a tenant's live slot or a Stripe id that no other row holds.\<close>

lemma db_unique_save_sub_fresh:
  assumes "db_unique d" "db_keys d"
    and "\<And>x t. x \<in> set (t_rows (subscriptions d)) \<Longrightarrow> sub_id x \<noteq> sub_id s' \<Longrightarrow> live_key s' = Some t \<Longrightarrow> live_key x \<noteq> Some t"
    and "\<And>x i. x \<in> set (t_rows (subscriptions d)) \<Longrightarrow> sub_id x \<noteq> sub_id s' \<Longrightarrow>
      sub_stripe_subscription_id s' = Some i \<Longrightarrow> sub_stripe_subscription_id x \<noteq> Some i"
  shows "db_unique (subscriptions_update (update_row sub_id s') d)"
proof -
  have wf: "table_wf sub_id (subscriptions d)" using assms(2) by (simp add: db_keys_def)
  have "unique_on live_key (update_row sub_id s' (subscriptions d))"
    using assms(1,3) by (intro unique_on_update_fresh [OF _ wf]) (auto simp: db_unique_def)
  moreover have "unique_on sub_stripe_subscription_id (update_row sub_id s' (subscriptions d))"
    using assms(1,4) by (intro unique_on_update_fresh [OF _ wf]) (auto simp: db_unique_def)
  ultimately show ?thesis using assms(1) by (simp add: db_unique_def)
qed

lemma db_keys_save_sub: "db_keys d \<Longrightarrow> db_keys (subscriptions_update (update_row sub_id s) d)"
  using sub_row.wf_update [of "subscriptions d" s] by (simp add: db_keys_def)

lemma db_keys_add_sub:
  "db_keys d \<Longrightarrow> db_keys (subscriptions_update (insert_row (\<lambda>i r. r\<lparr>sub_id := i\<rparr>) s) d)"
  using sub_row.wf_insert [of "subscriptions d" s] by (simp add: db_keys_def)

end
