(* ===== verification/Redis.thy ===== *)
theory Redis
  imports AppState "HOL-Library.List_Lexorder" "HOL-Library.Char_ord"
begin

text \<open>
  The Redis client as the application uses it (\<^verbatim>\<open>app/core/cache.py: RedisCache.get_redis\<close>).

  Redis is not part of the repository: the client is a parameter, a record \<open>'r redis\<close> of the commands
  that the code issues, on a state \<open>'r\<close> of its own. A command takes the instant at which the server
  executes it, may raise, and may change the state. What the code relies on is the documented behaviour
  of the commands on a keyspace (a map from keys to typed values with an optional expiry). It is
  the named hypothesis \<open>redis_conforms R \<alpha>\<close>: \<open>R\<close> simulates the documented commands \<open>ks_*\<close> under the
  abstraction \<open>\<alpha>\<close>. The keyspace itself is a client that conforms (\<open>keyspace_redis\<close>), so theorems with
  that hypothesis have witnesses.

  Theorems about failing open hold for every client, conforming or not.
\<close>

section \<open>The documented keyspace\<close>

text \<open>
  Collections are kept in a canonical form: a set as its sorted list of members, a sorted set ordered by
  score and then by member (the order Redis documents), a hash sorted by field.
\<close>

datatype rvalue =
    RStr string
  | RSet "string list"
  | RZset "(string \<times> rat) list"
  | RHash "(string \<times> string) list"

type_synonym keyspace = "string \<rightharpoonup> rvalue \<times> datetime option"

definition WRONGTYPE :: exn where
  "WRONGTYPE = ServiceError ''WRONGTYPE Operation against a key holding the wrong kind of value''"

text \<open>A key whose deadline has passed is missing.\<close>

definition ks_lookup :: "datetime \<Rightarrow> string \<Rightarrow> keyspace \<Rightarrow> rvalue option" where
  "ks_lookup t k ks =
     (case ks k of None \<Rightarrow> None
      | Some (v, None) \<Rightarrow> Some v
      | Some (v, Some d) \<Rightarrow> if d \<le> t then None else Some v)"

definition ks_deadline :: "datetime \<Rightarrow> string \<Rightarrow> keyspace \<Rightarrow> datetime option" where
  "ks_deadline t k ks =
     (case ks k of Some (v, Some d) \<Rightarrow> if d \<le> t then None else Some d | _ \<Rightarrow> None)"

text \<open>Write commands other than \<open>SET\<close> keep the time to live; an empty collection is removed.\<close>

definition ks_store :: "datetime \<Rightarrow> string \<Rightarrow> rvalue \<Rightarrow> keyspace \<Rightarrow> keyspace" where
  "ks_store t k v ks = ks(k \<mapsto> (v, ks_deadline t k ks))"

fun rvalue_empty :: "rvalue \<Rightarrow> bool" where
  "rvalue_empty (RStr s) = False"
| "rvalue_empty (RSet xs) = (xs = [])"
| "rvalue_empty (RZset xs) = (xs = [])"
| "rvalue_empty (RHash xs) = (xs = [])"

definition ks_store_coll :: "datetime \<Rightarrow> string \<Rightarrow> rvalue \<Rightarrow> keyspace \<Rightarrow> keyspace" where
  "ks_store_coll t k v ks = (if rvalue_empty v then ks(k := None) else ks_store t k v ks)"

definition ks_get :: "datetime \<Rightarrow> string \<Rightarrow> (keyspace, string option) io" where
  "ks_get t k ks =
     (case ks_lookup t k ks of None \<Rightarrow> (Inr None, ks)
      | Some (RStr s) \<Rightarrow> (Inr (Some s), ks) | Some _ \<Rightarrow> (Inl WRONGTYPE, ks))"

definition ks_setex :: "datetime \<Rightarrow> string \<Rightarrow> int \<Rightarrow> string \<Rightarrow> (keyspace, unit) io" where
  "ks_setex t k ttl v ks =
     (if ttl \<le> 0 then (Inl (ServiceError ''invalid expire time in setex''), ks)
      else (Inr (), ks(k \<mapsto> (RStr v, Some (t + seconds_td ttl)))))"

definition ks_delete :: "datetime \<Rightarrow> string \<Rightarrow> (keyspace, int) io" where
  "ks_delete t k ks = (Inr (if ks_lookup t k ks = None then 0 else 1), ks(k := None))"

definition ks_expire :: "datetime \<Rightarrow> string \<Rightarrow> int \<Rightarrow> (keyspace, bool) io" where
  "ks_expire t k ttl ks =
     (case ks_lookup t k ks of None \<Rightarrow> (Inr False, ks)
      | Some v \<Rightarrow> (Inr True, if ttl \<le> 0 then ks(k := None) else ks(k \<mapsto> (v, Some (t + seconds_td ttl)))))"

definition ks_incrby :: "datetime \<Rightarrow> string \<Rightarrow> int \<Rightarrow> (keyspace, int) io" where
  "ks_incrby t k n ks =
     (let cur = (case ks_lookup t k ks of None \<Rightarrow> Some 0 | Some (RStr s) \<Rightarrow> py_int s | Some _ \<Rightarrow> None)
      in case cur of None \<Rightarrow> (Inl (ServiceError ''value is not an integer''), ks)
         | Some c \<Rightarrow>
             if - (2 ^ 63) \<le> c + n \<and> c + n < 2 ^ 63
             then (Inr (c + n), ks_store t k (RStr (show_int (c + n))) ks)
             else (Inl (ServiceError ''increment or decrement would overflow''), ks))"

definition ks_sadd :: "datetime \<Rightarrow> string \<Rightarrow> string \<Rightarrow> (keyspace, int) io" where
  "ks_sadd t k m ks =
     (case ks_lookup t k ks of
        None \<Rightarrow> (Inr 1, ks_store t k (RSet [m]) ks)
      | Some (RSet xs) \<Rightarrow> (if m \<in> set xs then (Inr 0, ks) else (Inr 1, ks_store t k (RSet (insort m xs)) ks))
      | Some _ \<Rightarrow> (Inl WRONGTYPE, ks))"

definition ks_smembers :: "datetime \<Rightarrow> string \<Rightarrow> (keyspace, string list) io" where
  "ks_smembers t k ks =
     (case ks_lookup t k ks of None \<Rightarrow> (Inr [], ks) | Some (RSet xs) \<Rightarrow> (Inr xs, ks)
      | Some _ \<Rightarrow> (Inl WRONGTYPE, ks))"

definition ks_scard :: "datetime \<Rightarrow> string \<Rightarrow> (keyspace, int) io" where
  "ks_scard t k ks =
     (case ks_lookup t k ks of None \<Rightarrow> (Inr 0, ks) | Some (RSet xs) \<Rightarrow> (Inr (int (length xs)), ks)
      | Some _ \<Rightarrow> (Inl WRONGTYPE, ks))"

definition zset_put :: "string \<Rightarrow> rat \<Rightarrow> (string \<times> rat) list \<Rightarrow> (string \<times> rat) list" where
  "zset_put m s xs = sort_key snd (sort_key fst ((m, s) # filter (\<lambda>(m', _). m' \<noteq> m) xs))"

definition ks_zset :: "datetime \<Rightarrow> string \<Rightarrow> keyspace \<Rightarrow> exn + (string \<times> rat) list" where
  "ks_zset t k ks =
     (case ks_lookup t k ks of None \<Rightarrow> Inr [] | Some (RZset xs) \<Rightarrow> Inr xs | Some _ \<Rightarrow> Inl WRONGTYPE)"

definition ks_zadd :: "datetime \<Rightarrow> string \<Rightarrow> string \<Rightarrow> rat \<Rightarrow> (keyspace, int) io" where
  "ks_zadd t k m s ks =
     (case ks_zset t k ks of Inl e \<Rightarrow> (Inl e, ks)
      | Inr xs \<Rightarrow> (Inr (if m \<in> fst ` set xs then 0 else 1), ks_store t k (RZset (zset_put m s xs)) ks))"

definition ks_zcard :: "datetime \<Rightarrow> string \<Rightarrow> (keyspace, int) io" where
  "ks_zcard t k ks =
     (case ks_zset t k ks of Inl e \<Rightarrow> (Inl e, ks) | Inr xs \<Rightarrow> (Inr (int (length xs)), ks))"

definition ks_zrem :: "datetime \<Rightarrow> string \<Rightarrow> string \<Rightarrow> (keyspace, int) io" where
  "ks_zrem t k m ks =
     (case ks_zset t k ks of Inl e \<Rightarrow> (Inl e, ks)
      | Inr xs \<Rightarrow>
          (Inr (if m \<in> fst ` set xs then 1 else 0),
           ks_store_coll t k (RZset (filter (\<lambda>(m', _). m' \<noteq> m) xs)) ks))"

text \<open>\<open>ZREMRANGEBYSCORE key -inf max\<close>\<close>

definition ks_zrem_upto :: "datetime \<Rightarrow> string \<Rightarrow> rat \<Rightarrow> (keyspace, int) io" where
  "ks_zrem_upto t k mx ks =
     (case ks_zset t k ks of Inl e \<Rightarrow> (Inl e, ks)
      | Inr xs \<Rightarrow>
          (Inr (int (length (filter (\<lambda>(_, s). s \<le> mx) xs))),
           ks_store_coll t k (RZset (filter (\<lambda>(_, s). \<not> s \<le> mx) xs)) ks))"

text \<open>\<open>ZREVRANGE key 0 -1\<close>: all members, the highest score first.\<close>

definition ks_zrevrange :: "datetime \<Rightarrow> string \<Rightarrow> (keyspace, string list) io" where
  "ks_zrevrange t k ks =
     (case ks_zset t k ks of Inl e \<Rightarrow> (Inl e, ks)
      | Inr xs \<Rightarrow> (Inr (rev (map fst xs)), ks))"

definition ks_hset :: "datetime \<Rightarrow> string \<Rightarrow> (string \<times> string) list \<Rightarrow> (keyspace, unit) io" where
  "ks_hset t k m ks =
     (case ks_lookup t k ks of
        None \<Rightarrow> (Inr (), ks_store t k (RHash (sort_key fst m)) ks)
      | Some (RHash h) \<Rightarrow> (Inr (), ks_store t k (RHash (sort_key fst (m @ filter (\<lambda>(f, _). f \<notin> fst ` set m) h))) ks)
      | Some _ \<Rightarrow> (Inl WRONGTYPE, ks))"

definition ks_hgetall :: "datetime \<Rightarrow> string \<Rightarrow> (keyspace, (string \<times> string) list) io" where
  "ks_hgetall t k ks =
     (case ks_lookup t k ks of None \<Rightarrow> (Inr [], ks) | Some (RHash h) \<Rightarrow> (Inr h, ks)
      | Some _ \<Rightarrow> (Inl WRONGTYPE, ks))"

section \<open>The client\<close>

record 'r redis =
  rd_get :: "datetime \<Rightarrow> string \<Rightarrow> ('r, string option) io"
  rd_setex :: "datetime \<Rightarrow> string \<Rightarrow> int \<Rightarrow> string \<Rightarrow> ('r, unit) io"
  rd_delete :: "datetime \<Rightarrow> string \<Rightarrow> ('r, int) io"
  rd_expire :: "datetime \<Rightarrow> string \<Rightarrow> int \<Rightarrow> ('r, bool) io"
  rd_incrby :: "datetime \<Rightarrow> string \<Rightarrow> int \<Rightarrow> ('r, int) io"
  rd_sadd :: "datetime \<Rightarrow> string \<Rightarrow> string \<Rightarrow> ('r, int) io"
  rd_smembers :: "datetime \<Rightarrow> string \<Rightarrow> ('r, string list) io"
  rd_scard :: "datetime \<Rightarrow> string \<Rightarrow> ('r, int) io"
  rd_zadd :: "datetime \<Rightarrow> string \<Rightarrow> string \<Rightarrow> rat \<Rightarrow> ('r, int) io"
  rd_zcard :: "datetime \<Rightarrow> string \<Rightarrow> ('r, int) io"
  rd_zrem :: "datetime \<Rightarrow> string \<Rightarrow> string \<Rightarrow> ('r, int) io"
  rd_zrem_upto :: "datetime \<Rightarrow> string \<Rightarrow> rat \<Rightarrow> ('r, int) io"
  rd_zrevrange :: "datetime \<Rightarrow> string \<Rightarrow> ('r, string list) io"
  rd_hset :: "datetime \<Rightarrow> string \<Rightarrow> (string \<times> string) list \<Rightarrow> ('r, unit) io"
  rd_hgetall :: "datetime \<Rightarrow> string \<Rightarrow> ('r, (string \<times> string) list) io"

definition keyspace_redis :: "keyspace redis" where
  "keyspace_redis = \<lparr>rd_get = ks_get, rd_setex = ks_setex, rd_delete = ks_delete,
     rd_expire = ks_expire, rd_incrby = ks_incrby, rd_sadd = ks_sadd, rd_smembers = ks_smembers,
     rd_scard = ks_scard, rd_zadd = ks_zadd, rd_zcard = ks_zcard, rd_zrem = ks_zrem,
     rd_zrem_upto = ks_zrem_upto, rd_zrevrange = ks_zrevrange, rd_hset = ks_hset,
     rd_hgetall = ks_hgetall\<rparr>"

text \<open>\<open>sim \<alpha> m m'\<close>: the command \<open>m\<close> answers as \<open>m'\<close> does on the abstract state, and commutes with it.\<close>

definition sim :: "('r \<Rightarrow> keyspace) \<Rightarrow> ('r, 'a) io \<Rightarrow> (keyspace, 'a) io \<Rightarrow> bool" where
  "sim \<alpha> m m' \<longleftrightarrow> (\<forall>r. map_prod id \<alpha> (m r) = m' (\<alpha> r))"

text \<open>For a command that answers with a set, in no particular order.\<close>

definition sim_set :: "('r \<Rightarrow> keyspace) \<Rightarrow> ('r, string list) io \<Rightarrow> (keyspace, string list) io \<Rightarrow> bool" where
  "sim_set \<alpha> m m' \<longleftrightarrow>
     (\<forall>r. map_sum id set (fst (m r)) = map_sum id set (fst (m' (\<alpha> r))) \<and> \<alpha> (snd (m r)) = snd (m' (\<alpha> r)))"

definition redis_conforms :: "'r redis \<Rightarrow> ('r \<Rightarrow> keyspace) \<Rightarrow> bool" where
  "redis_conforms R \<alpha> \<longleftrightarrow>
     (\<forall>t k. sim \<alpha> (rd_get R t k) (ks_get t k)) \<and>
     (\<forall>t k n v. sim \<alpha> (rd_setex R t k n v) (ks_setex t k n v)) \<and>
     (\<forall>t k. sim \<alpha> (rd_delete R t k) (ks_delete t k)) \<and>
     (\<forall>t k n. sim \<alpha> (rd_expire R t k n) (ks_expire t k n)) \<and>
     (\<forall>t k n. sim \<alpha> (rd_incrby R t k n) (ks_incrby t k n)) \<and>
     (\<forall>t k m. sim \<alpha> (rd_sadd R t k m) (ks_sadd t k m)) \<and>
     (\<forall>t k. sim_set \<alpha> (rd_smembers R t k) (ks_smembers t k)) \<and>
     (\<forall>t k. sim \<alpha> (rd_scard R t k) (ks_scard t k)) \<and>
     (\<forall>t k m s. sim \<alpha> (rd_zadd R t k m s) (ks_zadd t k m s)) \<and>
     (\<forall>t k. sim \<alpha> (rd_zcard R t k) (ks_zcard t k)) \<and>
     (\<forall>t k m. sim \<alpha> (rd_zrem R t k m) (ks_zrem t k m)) \<and>
     (\<forall>t k s. sim \<alpha> (rd_zrem_upto R t k s) (ks_zrem_upto t k s)) \<and>
     (\<forall>t k. sim \<alpha> (rd_zrevrange R t k) (ks_zrevrange t k)) \<and>
     (\<forall>t k m. sim \<alpha> (rd_hset R t k m) (ks_hset t k m)) \<and>
     (\<forall>t k. sim \<alpha> (rd_hgetall R t k) (ks_hgetall t k))"

lemma keyspace_conforms: "redis_conforms keyspace_redis (\<lambda>ks. ks)"
  by (simp add: redis_conforms_def keyspace_redis_def sim_def sim_set_def map_prod_def id_def)

text \<open>\<open>cache.get_redis()\<close> followed by a command.\<close>

definition redis_call :: "('r, 'a) io \<Rightarrow> ('r, 'a) app" where
  "redis_call m =
     (\<lambda>w. case w_redis w of
        None \<Rightarrow> (Inl (RuntimeError ''RedisCache is not connected''), w)
      | Some r \<Rightarrow> (case m r of (x, r') \<Rightarrow> (x, w\<lparr>w_redis := Some r'\<rparr>)))"

lemma redis_call_None [simp]:
  "w_redis w = None \<Longrightarrow> redis_call m w = (Inl (RuntimeError ''RedisCache is not connected''), w)"
  by (simp add: redis_call_def)

lemma redis_call_Some:
  "w_redis w = Some r \<Longrightarrow> redis_call m w = (fst (m r), w\<lparr>w_redis := Some (snd (m r))\<rparr>)"
  by (simp add: redis_call_def split: prod.splits)

lemma simD: "sim \<alpha> m m' \<Longrightarrow> fst (m r) = fst (m' (\<alpha> r)) \<and> \<alpha> (snd (m r)) = snd (m' (\<alpha> r))"
  by (metis (no_types, lifting) fst_map_prod id_apply sim_def snd_map_prod)

text \<open>A call of a conforming client, seen through the abstraction.\<close>

lemma redis_call_sim:
  assumes "sim \<alpha> m m'" "w_redis w = Some r"
  obtains r' where "redis_call m w = (fst (m' (\<alpha> r)), w\<lparr>w_redis := Some r'\<rparr>)" "\<alpha> r' = snd (m' (\<alpha> r))"
  using redis_call_Some [OF assms(2), of m] simD [OF assms(1), of r] by auto

lemma redis_call_sim_ex:
  assumes "sim \<alpha> m m'"
  shows "\<exists>r'. redis_call m (w\<lparr>w_redis := Some r\<rparr>) = (fst (m' (\<alpha> r)), w\<lparr>w_redis := Some r'\<rparr>) \<and> \<alpha> r' = snd (m' (\<alpha> r))"
  using redis_call_Some [of "w\<lparr>w_redis := Some r\<rparr>" r m] simD [OF assms, of r] by auto

lemma redis_call_sim_set:
  assumes "sim_set \<alpha> m m'" "w_redis w = Some r" "fst (m' (\<alpha> r)) = Inr xs"
  obtains r' ys where "redis_call m w = (Inr ys, w\<lparr>w_redis := Some r'\<rparr>)" "set ys = set xs" "\<alpha> r' = snd (m' (\<alpha> r))"
proof -
  have "map_sum id set (fst (m r)) = Inr (set xs)" "\<alpha> (snd (m r)) = snd (m' (\<alpha> r))"
    using assms(1,3) by (simp_all add: sim_set_def)
  moreover from this(1) obtain ys where "fst (m r) = Inr ys" "set ys = set xs" by (cases "fst (m r)") auto
  ultimately show ?thesis using redis_call_Some [OF assms(2), of m] that by auto
qed

text \<open>Reading a keyspace after a write.\<close>

lemma ks_lookup_store [simp]:
  "ks_lookup t k (ks_store t k' v ks) = (if k = k' then Some v else ks_lookup t k ks)"
  by (auto simp: ks_lookup_def ks_store_def ks_deadline_def split: option.splits prod.splits)

lemma ks_lookup_delete [simp]: "ks_lookup t k (ks(k' := None)) = (if k = k' then None else ks_lookup t k ks)"
  by (simp add: ks_lookup_def)

lemma ks_lookup_put [simp]:
  "ks_lookup t k (ks(k' \<mapsto> (v, Some d))) =
     (if k = k' then (if d \<le> t then None else Some v) else ks_lookup t k ks)"
  by (simp add: ks_lookup_def)

end
