(* ===== verification/Samples.thy ===== *)
theory Samples
  imports Redis
begin

text \<open>
  A small concrete state on which the properties are instantiated: one user and one tenant, a metered
  monthly plan and an active subscription to it, with an empty Redis keyspace.
\<close>

definition sample_user :: user where
  "sample_user = \<lparr>user_id = 1, user_tenant_id = Some 7, user_email = ''a@b.c'', user_username = ''ann'',
     user_full_name = None, user_hashed_password = ''hx'', user_is_active = True,
     user_is_superuser = False, user_is_verified = True, user_failed_login_attempts = 0,
     user_locked_until = None, user_email_verified_at = None, user_last_login_at = None,
     user_oauth_provider = None, user_oauth_provider_id = None, user_oauth_access_token = None,
     user_oauth_refresh_token = None, user_totp_secret = None, user_totp_enabled = False,
     user_totp_verified_at = None, user_backup_codes = None, user_roles = [],
     user_deleted_at = None\<rparr>"

definition sample_plan :: plan where
  "sample_plan = \<lparr>plan_id = 1, plan_name = ''Pro'', plan_slug = ''pro'', plan_description = None,
     plan_price_cents = 2999, plan_currency = ''usd'', plan_interval = MONTHLY, plan_trial_days = 0,
     plan_is_active = True, plan_metering = Some [(''api_requests'',
       JObj [(''unit_amount_cents'', JInt 1), (''included_quantity'', JInt 2)])]\<rparr>"

definition sample_sub :: subscription where
  "sample_sub = (new_subscription (Some 7) 1 ACTIVE 0 (days_td 30) None (Some ''sub_1''))\<lparr>sub_id := 1\<rparr>"

definition sample_db :: db where
  "sample_db = empty_db\<lparr>users := \<lparr>t_rows = [sample_user], t_seq = 1\<rparr>,
     plans := \<lparr>t_rows = [sample_plan], t_seq = 1\<rparr>,
     subscriptions := \<lparr>t_rows = [sample_sub], t_seq = 1\<rparr>\<rparr>"

definition sample_world :: "keyspace world" where
  "sample_world = \<lparr>w_db = sample_db, w_committed = sample_db, w_bus = [], w_redis = Some Map.empty,
     w_entitlements = Map.empty, w_tasks = [], w_conns = [], w_outbox = [], w_tenant = None, w_audited = False\<rparr>"

lemmas sample_defs = sample_user_def sample_plan_def sample_sub_def sample_db_def sample_world_def
  empty_db_def empty_table_def new_subscription_def

lemma sample_db_ok: "db_unique sample_db" "db_keys sample_db"
  by (simp_all add: sample_defs db_unique_def db_keys_def unique_on_def List.map_filter_simps
      table_wf_def live_key_def is_live_def)

lemma sample_store_ok: "store_ok sample_world"
  using sample_db_ok by (simp add: store_ok_def sample_world_def)

end
