(* ===== verification/Dunning.thy ===== *)
theory Dunning
  imports Lifecycle BillingCrud Samples
begin

text \<open>
  \<^verbatim>\<open>app/billing/services/dunning.py\<close> and \<^verbatim>\<open>app/tasks/dunning.py\<close>: the payment-failure retry schedule,
  reminders and suspension. A failed publication raises out of the service; the sweep counts it and goes
  on, with the changes it made to the row before the failure kept.
\<close>

section \<open>The schedule\<close>

definition MAX_DELAY :: timedelta where
  "MAX_DELAY = days_td 7"

text \<open>\<open>min(int, float)\<close> compares exactly; \<^verbatim>\<open>MAX_DELAY.total_seconds() / 60\<close> is the float 10080.\<close>

definition backoff_delay :: "settings \<Rightarrow> int \<Rightarrow> int option \<Rightarrow> timedelta" where
  "backoff_delay S attempt base_minutes =
     (let base = (case base_minutes of None \<Rightarrow> DUNNING_BASE_DELAY_MINUTES S | Some b \<Rightarrow> b);
          capped_base = min (of_int (base * 2 ^ nat (max 0 (attempt - 1))))
                            (fl (total_seconds MAX_DELAY / 60))
      in minutes_td (py_trunc capped_base))"

definition is_dunning :: "subscription \<Rightarrow> bool" where
  "is_dunning sub \<longleftrightarrow> sub_failed_payment_count sub > 0 \<or> sub_status sub = PAST_DUE"

text \<open>The changed subscription and whether something changed.\<close>

definition reset_dunning :: "subscription \<Rightarrow> subscription \<times> bool" where
  "reset_dunning sub =
     (if sub_failed_payment_count sub = 0 \<and> sub_next_retry_at sub = None
      then (sub\<lparr>sub_last_payment_failure_at := None\<rparr>, False)
      else (sub\<lparr>sub_failed_payment_count := 0, sub_last_payment_failure_at := None,
                sub_next_retry_at := None\<rparr>, True))"

definition resolve_recipients :: "int option \<Rightarrow> ('r, int list) app" where
  "resolve_recipients tenant_id =
     (case tenant_id of None \<Rightarrow> returnM []
      | Some t \<Rightarrow>
          bindM (select_all users (\<lambda>u. user_tenant_id u = Some t \<and> user_is_active u))
            (\<lambda>us. returnM (map user_id us)))"

definition dunning_event :: "string \<Rightarrow> subscription \<Rightarrow> int option \<Rightarrow> event" where
  "dunning_event suffix sub uid =
     mk_event (''billing.dunning.'' @ suffix)
       [(''subscription_id'', JInt (sub_id sub)),
        (''tenant_id'', json_opt (sub_tenant_id sub)),
        (''plan_id'', JInt (sub_plan_id sub)),
        (''status'', JStr (status_value (sub_status sub))),
        (''failed_payment_count'', JInt (sub_failed_payment_count sub))] uid"

definition publish_to_recipients :: "bus option \<Rightarrow> string \<Rightarrow> subscription \<Rightarrow> ('r, int) app" where
  "publish_to_recipients bus suffix sub =
     (case bus of None \<Rightarrow> returnM 0
      | Some b \<Rightarrow>
          bindM (resolve_recipients (sub_tenant_id sub)) (\<lambda>recipients.
            thenM (forM recipients (\<lambda>uid. publish b (dunning_event suffix sub (Some uid))))
              (returnM (int (length recipients)))))"

definition record_payment_failure ::
  "settings \<Rightarrow> bus option \<Rightarrow> datetime \<Rightarrow> subscription \<Rightarrow> ('r, subscription) app" where
  "record_payment_failure S bus now sub =
     bindM (if sub_status sub \<noteq> PAST_DUE
            then thenM (liftM (assert_transition (sub_status sub) PAST_DUE))
                   (returnM (sub\<lparr>sub_status := PAST_DUE\<rparr>))
            else returnM sub) (\<lambda>sub.
       let sub' = sub\<lparr>sub_failed_payment_count := sub_failed_payment_count sub + 1,
                      sub_last_payment_failure_at := Some now,
                      sub_next_retry_at := Some (now + backoff_delay S (sub_failed_payment_count sub + 1) None)\<rparr>
       in thenM (save_sub sub')
            (thenM (publish_to_recipients bus ''payment_failed'' sub') (returnM sub')))"

definition suspend_subscription ::
  "bus option \<Rightarrow> datetime \<Rightarrow> subscription \<Rightarrow> ('r, subscription) app" where
  "suspend_subscription bus now sub =
     (if sub_status sub \<noteq> SUSPENDED
      then thenM (liftM (assert_transition (sub_status sub) SUSPENDED))
             (let sub' = sub\<lparr>sub_status := SUSPENDED, sub_suspended_at := Some now,
                             sub_next_retry_at := None\<rparr>
              in thenM (save_sub sub')
                   (thenM (publish_to_recipients bus ''suspended'' sub') (returnM sub')))
      else returnM sub)"

definition recover_subscription :: "bus option \<Rightarrow> subscription \<Rightarrow> ('r, subscription) app" where
  "recover_subscription bus sub =
     bindM (if sub_status sub = PAST_DUE
            then thenM (liftM (assert_transition (sub_status sub) ACTIVE))
                   (returnM (sub\<lparr>sub_status := ACTIVE\<rparr>))
            else returnM sub) (\<lambda>sub.
       let (sub', had_dunning) = reset_dunning sub
       in thenM (save_sub sub')
            (if had_dunning \<or> sub_status sub' = ACTIVE
             then thenM (publish_to_recipients bus ''recovered'' sub') (returnM sub')
             else returnM sub'))"

section \<open>The sweep\<close>

record dunning_stats =
  st_due :: int
  st_reminded :: int
  st_suspended :: int
  st_failed :: int

definition due :: "datetime \<Rightarrow> subscription \<Rightarrow> bool" where
  "due now s \<longleftrightarrow> sub_status s = PAST_DUE \<and>
     (case sub_next_retry_at s of None \<Rightarrow> False | Some t \<Rightarrow> t \<le> now)"

text \<open>One tick of one subscription; the result tells whether it was suspended.\<close>

definition dunning_tick ::
  "settings \<Rightarrow> bus option \<Rightarrow> datetime \<Rightarrow> datetime \<Rightarrow> subscription \<Rightarrow> ('r, bool) app" where
  "dunning_tick S bus now now' sub =
     (if sub_failed_payment_count sub \<ge> DUNNING_MAX_ATTEMPTS S
      then thenM (suspend_subscription bus now' sub) (returnM True)
      else let sub' = sub\<lparr>sub_failed_payment_count := sub_failed_payment_count sub + 1,
                          sub_next_retry_at :=
                            Some (now + backoff_delay S (sub_failed_payment_count sub + 1) None)\<rparr>
           in thenM (save_sub sub')
                (thenM (publish_to_recipients bus ''payment_reminder'' sub') (returnM False)))"

fun sweep_loop ::
  "settings \<Rightarrow> bus option \<Rightarrow> datetime \<Rightarrow> datetime \<Rightarrow> subscription list \<Rightarrow> dunning_stats
    \<Rightarrow> ('r, dunning_stats) app" where
  "sweep_loop S bus now now' [] st = returnM st"
| "sweep_loop S bus now now' (sub # subs) st =
     bindM (tryM
         (bindM (dunning_tick S bus now now' sub) (\<lambda>suspended.
            returnM (if suspended then st\<lparr>st_suspended := st_suspended st + 1\<rparr>
                     else st\<lparr>st_reminded := st_reminded st + 1\<rparr>)))
         (\<lambda>_. returnM (st\<lparr>st_failed := st_failed st + 1\<rparr>)))
       (sweep_loop S bus now now' subs)"

definition process_due_retries ::
  "settings \<Rightarrow> bus option \<Rightarrow> datetime \<Rightarrow> datetime \<Rightarrow> int option \<Rightarrow> ('r, dunning_stats) app" where
  "process_due_retries S bus now now' lmt =
     bindM (select_all subscriptions (due now)) (\<lambda>rs.
       let ordered = sort_key sub_id rs;
           subs = (case lmt of None \<Rightarrow> ordered | Some n \<Rightarrow> limit_rows n ordered)
       in sweep_loop S bus now now' subs
            \<lparr>st_due = int (length subs), st_reminded = 0, st_suspended = 0, st_failed = 0\<rparr>)"

text \<open>The Celery task; the second component is the \<^verbatim>\<open>disabled\<close> entry of the result.\<close>

definition process_dunning_async ::
  "settings \<Rightarrow> bus \<Rightarrow> datetime \<Rightarrow> datetime \<Rightarrow> ('r, dunning_stats) app" where
  "process_dunning_async S bus now now' =
     with_session (tryM
       (bindM (process_due_retries S (Some bus) now now' None) (\<lambda>st. thenM commit (returnM st)))
       (\<lambda>e. thenM rollback (raiseM e)))"

definition process_dunning ::
  "settings \<Rightarrow> bus \<Rightarrow> datetime \<Rightarrow> datetime \<Rightarrow> ('r, dunning_stats \<times> int) app" where
  "process_dunning S bus now now' =
     (if \<not> BILLING_DUNNING_ENABLED S
      then returnM (\<lparr>st_due = 0, st_reminded = 0, st_suspended = 0, st_failed = 0\<rparr>, 1)
      else bindM (process_dunning_async S bus now now') (\<lambda>st. returnM (st, 0)))"

section \<open>The backoff\<close>

lemma max_delay_minutes: "fl (total_seconds MAX_DELAY / 60) = 10080"
proof -
  have "total_seconds MAX_DELAY = 604800"
    using total_seconds_whole [of 604800] by (simp add: MAX_DELAY_def td_defs)
  then show ?thesis using fl_of_int [of 10080] by simp
qed

lemma backoff_minutes:
  "backoff_delay S n None = minutes_td (min (DUNNING_BASE_DELAY_MINUTES S * 2 ^ nat (max 0 (n - 1))) 10080)"
proof -
  have "min (of_int a) (10080 :: rat) = of_int (min a 10080)" for a by (simp add: min_def)
  then show ?thesis by (simp add: backoff_delay_def max_delay_minutes del: of_int_mult of_int_power)
qed

lemma backoff_pos: "settings_valid S \<Longrightarrow> 0 < backoff_delay S n None"
proof -
  assume "settings_valid S"
  then have "1 \<le> DUNNING_BASE_DELAY_MINUTES S" by (simp add: settings_valid_def)
  then have "1 * 1 \<le> DUNNING_BASE_DELAY_MINUTES S * 2 ^ nat (max 0 (n - 1))"
    by (intro mult_mono) simp_all
  then show ?thesis by (simp add: backoff_minutes minutes_td_def)
qed

lemma backoff_le_cap: "backoff_delay S n None \<le> MAX_DELAY"
  by (simp add: backoff_minutes MAX_DELAY_def td_defs)

lemma backoff_step:
  assumes "1 \<le> n"
  shows "backoff_delay S (n + 1) None = min (2 * backoff_delay S n None) MAX_DELAY"
proof -
  define a where "a = DUNNING_BASE_DELAY_MINUTES S * 2 ^ nat (max 0 (n - 1))"
  have "nat (max 0 n) = Suc (nat (max 0 (n - 1)))" using assms by simp
  then have "DUNNING_BASE_DELAY_MINUTES S * 2 ^ nat (max 0 n) = 2 * a" by (simp only: a_def power_Suc mult.left_commute)
  then show ?thesis by (simp add: backoff_minutes MAX_DELAY_def td_defs min_def flip: a_def)
qed

section \<open>What a tick does to the rows\<close>

text \<open>Publishing leaves the database alone, whatever the bus does.\<close>

lemma keeps_db_publish: "keeps (\<lambda>w. w_db w = d \<and> w_committed w = c) (publish b e)"
  by (simp add: keeps_def publish_run)

lemma keeps_db_recipients: "keeps P (resolve_recipients t)"
  by (auto simp: keeps_def resolve_recipients_def split: option.splits)

lemma keeps_db_publish_to_recipients:
  "keeps (\<lambda>w. w_db w = d \<and> w_committed w = c) (publish_to_recipients b suffix sub)"
  unfolding publish_to_recipients_def
  by (auto intro!: keeps_intros keeps_db_publish keeps_db_recipients split: option.splits)

lemma publish_to_recipients_db:
  assumes "publish_to_recipients b suffix sub w = (x, w')"
  shows "w_db w' = w_db w" "w_committed w' = w_committed w"
  using keepsD_run [OF keeps_db_publish_to_recipients _ assms, of "w_db w" "w_committed w"] by simp_all

text \<open>The row that a tick leaves, whether or not its notifications could be published.\<close>

definition tick_row :: "settings \<Rightarrow> datetime \<Rightarrow> datetime \<Rightarrow> subscription \<Rightarrow> subscription" where
  "tick_row S now now' sub =
     (if sub_failed_payment_count sub \<ge> DUNNING_MAX_ATTEMPTS S
      then sub\<lparr>sub_status := SUSPENDED, sub_suspended_at := Some now', sub_next_retry_at := None\<rparr>
      else sub\<lparr>sub_failed_payment_count := sub_failed_payment_count sub + 1,
               sub_next_retry_at :=
                 Some (now + backoff_delay S (sub_failed_payment_count sub + 1) None)\<rparr>)"

lemma tick_row_id [simp]: "sub_id (tick_row S now now' s) = sub_id s"
  by (simp add: tick_row_def)

lemma dunning_tick_db:
  assumes "sub_status sub = PAST_DUE"
  shows "\<exists>x w'. dunning_tick S bus now now' sub w = (x, w') \<and>
    w_db w' = subscriptions_update (update_row sub_id (tick_row S now now' sub)) (w_db w) \<and>
    w_committed w' = w_committed w"
proof -
  let ?row = "tick_row S now now' sub"
  let ?w = "w\<lparr>w_db := subscriptions_update (update_row sub_id ?row) (w_db w)\<rparr>"
  obtain x w' where p: "publish_to_recipients bus
      (if sub_failed_payment_count sub \<ge> DUNNING_MAX_ATTEMPTS S then ''suspended'' else ''payment_reminder'')
      ?row ?w = (x, w')" by fastforce
  show ?thesis
    using assms p publish_to_recipients_db [OF p]
    by (cases x; cases "sub_failed_payment_count sub \<ge> DUNNING_MAX_ATTEMPTS S")
      (auto simp: dunning_tick_def suspend_subscription_def tick_row_def assert_transition_def Let_def)
qed

text \<open>The whole sweep as a function on the table.\<close>

definition update_rows :: "subscription list \<Rightarrow> subscription table \<Rightarrow> subscription table" where
  "update_rows rs t = fold (update_row sub_id) rs t"

lemma sweep_loop_db:
  assumes "list_all (\<lambda>s. sub_status s = PAST_DUE) subs"
  shows "\<exists>st' w'. sweep_loop S bus now now' subs st w = (Inr st', w') \<and>
    w_db w' = subscriptions_update (update_rows (map (tick_row S now now') subs)) (w_db w) \<and>
    w_committed w' = w_committed w \<and> st_due st' = st_due st \<and>
    st_reminded st' + st_suspended st' + st_failed st' =
      st_reminded st + st_suspended st + st_failed st + int (length subs)"
  using assms
proof (induction subs arbitrary: st w)
  case (Cons s subs)
  obtain x w1 where t: "dunning_tick S bus now now' s w = (x, w1)"
    "w_db w1 = subscriptions_update (update_row sub_id (tick_row S now now' s)) (w_db w)"
    "w_committed w1 = w_committed w"
    using dunning_tick_db [of s S bus now now' w] Cons.prems by auto
  define st1 where "st1 = (case x of Inl _ \<Rightarrow> st\<lparr>st_failed := st_failed st + 1\<rparr>
    | Inr b \<Rightarrow> if b then st\<lparr>st_suspended := st_suspended st + 1\<rparr>
        else st\<lparr>st_reminded := st_reminded st + 1\<rparr>)"
  have step: "sweep_loop S bus now now' (s # subs) st w = sweep_loop S bus now now' subs st1 w1"
    using t(1) by (cases x) (auto simp: st1_def bindM_def tryM_def)
  have st1: "st_due st1 = st_due st"
    "st_reminded st1 + st_suspended st1 + st_failed st1 = st_reminded st + st_suspended st + st_failed st + 1"
    by (auto simp: st1_def split: sum.splits)
  obtain st' w' where "sweep_loop S bus now now' subs st1 w1 = (Inr st', w')"
    "w_db w' = subscriptions_update (update_rows (map (tick_row S now now') subs)) (w_db w1)"
    "w_committed w' = w_committed w1" "st_due st' = st_due st1"
    "st_reminded st' + st_suspended st' + st_failed st' =
      st_reminded st1 + st_suspended st1 + st_failed st1 + int (length subs)"
    using Cons.IH [of st1 w1] Cons.prems by auto
  then show ?case using step t st1 by (auto simp: update_rows_def comp_def)
qed (simp add: update_rows_def)

text \<open>Updating a set of rows with distinct keys, in any order, is a map over the table.\<close>

lemma update_rows_map:
  assumes "distinct (map sub_id rs)" "set rs \<subseteq> set (t_rows t)" "table_wf sub_id t"
    and "\<And>s. sub_id (f s) = sub_id s"
  shows "t_rows (update_rows (map f rs) t) = map (\<lambda>s. if s \<in> set rs then f s else s) (t_rows t)"
  using assms(1,2)
proof (induction rs rule: rev_induct)
  case (snoc r rs)
  have d: "distinct (map sub_id (t_rows t))" using assms(3) by (simp add: table_wf_def)
  have "t_rows (update_rows (map f (rs @ [r])) t) =
    map (\<lambda>x. if sub_id x = sub_id r then f r else x) (t_rows (update_rows (map f rs) t))"
    by (simp add: update_rows_def update_row_def assms(4))
  also have "\<dots> = map (\<lambda>x. if sub_id x = sub_id r then f r else x)
      (map (\<lambda>s. if s \<in> set rs then f s else s) (t_rows t))"
    using snoc by simp
  also have "\<dots> = map (\<lambda>s. if s \<in> set (rs @ [r]) then f s else s) (t_rows t)"
  proof -
    have "(if sub_id x = sub_id r then f r else x) = (if s \<in> set (rs @ [r]) then f s else s)"
      if "s \<in> set (t_rows t)" "x = (if s \<in> set rs then f s else s)" for s x
    proof (cases "sub_id s = sub_id r")
      case True
      then have "s = r" using that snoc.prems distinct_key_unique [OF d, of s r] by auto
      then show ?thesis using that assms(4) by auto
    next
      case False
      then show ?thesis using that assms(4) by auto
    qed
    then show ?thesis by auto
  qed
  finally show ?case .
qed (simp add: update_rows_def)

lemma update_rows_seq [simp]: "t_seq (update_rows rs t) = t_seq t"
  by (induction rs arbitrary: t) (simp_all add: update_rows_def update_row_def)

lemma process_due_retries_run:
  assumes "table_wf sub_id (subscriptions (w_db w))"
  shows "\<exists>st w'. process_due_retries S bus now now' None w = (Inr st, w') \<and>
    w_db w' = (w_db w)\<lparr>subscriptions := (subscriptions (w_db w))\<lparr>t_rows :=
      map (\<lambda>s. if due now s then tick_row S now now' s else s) (t_rows (subscriptions (w_db w)))\<rparr>\<rparr> \<and>
    w_committed w' = w_committed w \<and>
    st_due st = int (length (filter (due now) (t_rows (subscriptions (w_db w))))) \<and>
    st_reminded st + st_suspended st + st_failed st = st_due st"
proof -
  let ?t = "subscriptions (w_db w)"
  let ?rs = "sort_key sub_id (filter (due now) (t_rows ?t))"
  let ?st = "\<lparr>st_due = int (length ?rs), st_reminded = 0, st_suspended = 0, st_failed = 0\<rparr>"
  have pd: "list_all (\<lambda>s. sub_status s = PAST_DUE) ?rs" by (auto simp: list_all_iff due_def)
  obtain st w' where run: "sweep_loop S bus now now' ?rs ?st w = (Inr st, w')"
    "w_db w' = subscriptions_update (update_rows (map (tick_row S now now') ?rs)) (w_db w)"
    "w_committed w' = w_committed w" "st_due st = int (length ?rs)"
    "st_reminded st + st_suspended st + st_failed st = int (length ?rs)"
    using sweep_loop_db [OF pd, of S bus now now' ?st w] by auto
  have "distinct (map sub_id (filter (due now) (t_rows ?t)))"
    using assms by (simp add: table_wf_def distinct_map_filter)
  then have "distinct (map sub_id ?rs)" by (simp add: distinct_map inj_on_def)
  then have "t_rows (update_rows (map (tick_row S now now') ?rs) ?t) =
    map (\<lambda>s. if s \<in> set ?rs then tick_row S now now' s else s) (t_rows ?t)"
    using assms by (intro update_rows_map) auto
  also have "\<dots> = map (\<lambda>s. if due now s then tick_row S now now' s else s) (t_rows ?t)" by auto
  finally have rows: "update_rows (map (tick_row S now now') ?rs) ?t = ?t\<lparr>t_rows :=
      map (\<lambda>s. if due now s then tick_row S now now' s else s) (t_rows ?t)\<rparr>" by simp
  have "process_due_retries S bus now now' None w = (Inr st, w')"
    using run(1) by (simp add: process_due_retries_def Let_def select_where_def)
  then show ?thesis using run rows by (cases "w_db w") auto
qed

section \<open>Notifications\<close>

definition recipients_of :: "db \<Rightarrow> int option \<Rightarrow> int list" where
  "recipients_of d t =
     (case t of None \<Rightarrow> []
      | Some t \<Rightarrow> map user_id (filter (\<lambda>u. user_tenant_id u = Some t \<and> user_is_active u) (t_rows (users d))))"

lemma recipients_of_subs [simp]:
  "recipients_of (subscriptions_update f d) t = recipients_of d t"
  by (simp add: recipients_of_def split: option.split)

lemma resolve_recipients_run [simp]: "resolve_recipients t w = (Inr (recipients_of (w_db w) t), w)"
  by (simp add: resolve_recipients_def recipients_of_def select_where_def split: option.splits)

lemma forM_publish:
  "(\<And>e. b e) \<Longrightarrow> forM us (\<lambda>u. publish b (f u)) w = (Inr (), w\<lparr>w_bus := w_bus w @ map f us\<rparr>)"
  by (induction us arbitrary: w) (simp_all add: publish_run)

text \<open>One event per active user of the tenant, in the order of the rows.\<close>

lemma publish_to_recipients_run:
  assumes "\<And>e. b e"
  shows "publish_to_recipients (Some b) suffix sub w =
    (Inr (int (length (recipients_of (w_db w) (sub_tenant_id sub)))),
     w\<lparr>w_bus := w_bus w @ map (\<lambda>u. dunning_event suffix sub (Some u))
                 (recipients_of (w_db w) (sub_tenant_id sub))\<rparr>)"
  using assms by (simp add: publish_to_recipients_def forM_publish)

section \<open>Repeated sweeps\<close>

fun sweeps :: "settings \<Rightarrow> bus option \<Rightarrow> (datetime \<times> datetime) list \<Rightarrow> 'r world \<Rightarrow> 'r world" where
  "sweeps S bus [] w = w"
| "sweeps S bus ((now, now') # ts) w = sweeps S bus ts (snd (process_due_retries S bus now now' None w))"

definition sweep_row :: "settings \<Rightarrow> (datetime \<times> datetime) list \<Rightarrow> subscription \<Rightarrow> subscription" where
  "sweep_row S ts s = fold (\<lambda>(now, now') s. if due now s then tick_row S now now' s else s) ts s"

lemma sweep_row_simps [simp]:
  "sweep_row S [] s = s"
  "sweep_row S ((now, now') # ts) s = sweep_row S ts (if due now s then tick_row S now now' s else s)"
  by (simp_all add: sweep_row_def)

lemma sweep_keeps_wf:
  assumes "table_wf sub_id t" "\<And>s. sub_id (f s) = sub_id s"
  shows "table_wf sub_id (t\<lparr>t_rows := map f (t_rows t)\<rparr>)"
  using assms by (simp add: table_wf_def list_all_iff comp_def)

lemma sweeps_rows:
  "table_wf sub_id (subscriptions (w_db w)) \<Longrightarrow>
   t_rows (subscriptions (w_db (sweeps S bus ts w))) = map (sweep_row S ts) (t_rows (subscriptions (w_db w)))"
proof (induction ts arbitrary: w)
  case (Cons t ts)
  obtain now now' where t: "t = (now, now')" by (cases t)
  let ?f = "\<lambda>s. if due now s then tick_row S now now' s else s"
  obtain st w' where run: "process_due_retries S bus now now' None w = (Inr st, w')"
    "w_db w' = (w_db w)\<lparr>subscriptions := (subscriptions (w_db w))\<lparr>t_rows :=
      map ?f (t_rows (subscriptions (w_db w)))\<rparr>\<rparr>"
    using process_due_retries_run [OF Cons.prems, of S bus now now'] by blast
  have "table_wf sub_id (subscriptions (w_db w'))"
    using sweep_keeps_wf [OF Cons.prems, of ?f] run(2) by simp
  from Cons.IH [OF this] show ?case
    using run t by (simp add: comp_def)
qed (simp add: map_idI)

lemma sweep_row_suspended: "sub_status s = SUSPENDED \<Longrightarrow> sub_status (sweep_row S ts s) = SUSPENDED"
  by (induction ts) (auto simp: due_def)

lemma sweep_row_id [simp]: "sub_id (sweep_row S ts s) = sub_id s"
  by (induction ts arbitrary: s) auto

text \<open>Sweeps that are at least \<open>MAX_DELAY\<close> apart each find the subscription due again.\<close>

lemma sweep_row_terminates:
  assumes "sorted_wrt (\<lambda>a b. fst a + MAX_DELAY \<le> fst b) ts"
    and "sub_status s = PAST_DUE" "sub_next_retry_at s = Some t" "list_all (\<lambda>a. t \<le> fst a) ts"
    and "DUNNING_MAX_ATTEMPTS S - sub_failed_payment_count s < int (length ts)"
  shows "ts = [] \<or> sub_status (sweep_row S ts s) = SUSPENDED"
  using assms
proof (induction ts arbitrary: s t)
  case (Cons a ts)
  obtain now now' where a: "a = (now, now')" by (cases a)
  have d: "due now s" using Cons.prems a by (simp add: due_def)
  show ?case
  proof (cases "sub_failed_payment_count s \<ge> DUNNING_MAX_ATTEMPTS S")
    case True
    then show ?thesis using d a by (simp add: tick_row_def sweep_row_suspended)
  next
    case False
    let ?s = "tick_row S now now' s"
    let ?t = "now + backoff_delay S (sub_failed_payment_count s + 1) None"
    have s': "sub_status ?s = PAST_DUE" "sub_next_retry_at ?s = Some ?t"
      "sub_failed_payment_count ?s = sub_failed_payment_count s + 1"
      using False Cons.prems(2) by (simp_all add: tick_row_def)
    have "list_all (\<lambda>b. ?t \<le> fst b) ts"
      using Cons.prems(1) a backoff_le_cap [of S "sub_failed_payment_count s + 1"]
      by (force simp: list_all_iff)
    then have "ts = [] \<or> sub_status (sweep_row S ts ?s) = SUSPENDED"
      using Cons.prems(1,5) s' by (intro Cons.IH [of ?s ?t]) auto
    moreover have "ts \<noteq> []" using Cons.prems(5) False by auto
    ultimately show ?thesis using d a by simp
  qed
qed simp

section \<open>Properties\<close>

text \<open>
  The backoff. For settings in their declared ranges the delay of the first position is the base delay
  (capped), each further position doubles the previous delay up to the cap of seven days, and every delay
  is positive and at most seven days.
\<close>

theorem backoff_schedule:
  assumes "settings_valid S" and "1 \<le> n"
  shows "backoff_delay S 1 None = min (minutes_td (DUNNING_BASE_DELAY_MINUTES S)) (days_td 7) \<and>
    backoff_delay S (n + 1) None = min (2 * backoff_delay S n None) (days_td 7) \<and>
    0 < backoff_delay S n None \<and> backoff_delay S n None \<le> days_td 7"
  using backoff_step [OF assms(2), of S] backoff_pos [OF assms(1), of n] backoff_le_cap [of S n]
  by (simp add: backoff_minutes MAX_DELAY_def td_defs min_def)

theorem backoff_schedule_witness:
  "backoff_delay default_settings 1 None = hours_td 1 \<and>
   backoff_delay default_settings (3 + 1) None = min (2 * backoff_delay default_settings 3 None) (days_td 7)"
  using backoff_schedule [OF default_settings_valid, of 3]
  by (simp add: default_settings_def td_defs)

text \<open>
  C5: the sweep refines a map over the subscription rows. Whatever the bus does, one sweep returns
  normally and moves exactly the due rows: by one schedule position, or to suspension when the positions
  are exhausted; no other row changes, nothing is committed, and the counters of the result add up to the
  number of due rows.
\<close>

theorem sweep_refines_row_map:
  assumes "table_wf sub_id (subscriptions (w_db w))"
  shows "\<exists>st w'. process_due_retries S bus now now' None w = (Inr st, w') \<and>
    w_db w' = (w_db w)\<lparr>subscriptions := (subscriptions (w_db w))\<lparr>t_rows :=
      map (\<lambda>s. if due now s then tick_row S now now' s else s) (t_rows (subscriptions (w_db w)))\<rparr>\<rparr> \<and>
    w_committed w' = w_committed w \<and>
    st_due st = int (length (filter (due now) (t_rows (subscriptions (w_db w))))) \<and>
    st_reminded st + st_suspended st + st_failed st = st_due st"
  using process_due_retries_run [OF assms] by blast

definition dunning_sub :: subscription where
  "dunning_sub = sample_sub\<lparr>sub_status := PAST_DUE, sub_failed_payment_count := 1, sub_next_retry_at := Some 3\<rparr>"

definition dunning_world :: "keyspace world" where
  "dunning_world = sample_world\<lparr>w_db := sample_db\<lparr>subscriptions := \<lparr>t_rows = [dunning_sub], t_seq = 1\<rparr>\<rparr>\<rparr>"

lemma dunning_world_wf: "table_wf sub_id (subscriptions (w_db dunning_world))"
  by (simp add: dunning_world_def dunning_sub_def sample_defs table_wf_def)

theorem sweep_refines_row_map_witness:
  "\<exists>st w'. process_due_retries default_settings None 5 6 None dunning_world = (Inr st, w') \<and> st_due st = 1 \<and>
    map sub_next_retry_at (t_rows (subscriptions (w_db w'))) = [Some (5 + backoff_delay default_settings 2 None)] \<and>
    map sub_failed_payment_count (t_rows (subscriptions (w_db w'))) = [2] \<and> w_committed w' = w_committed dunning_world"
proof -
  have due: "due 5 dunning_sub" by (simp add: due_def dunning_sub_def)
  obtain st w' where run: "process_due_retries default_settings None 5 6 None dunning_world = (Inr st, w')"
      "t_rows (subscriptions (w_db w')) = map (\<lambda>s. if due 5 s then tick_row default_settings 5 6 s else s) [dunning_sub]"
      "w_committed w' = w_committed dunning_world" "st_due st = int (length (filter (due 5) [dunning_sub]))"
    using sweep_refines_row_map [OF dunning_world_wf, of default_settings None 5 6] by (auto simp: dunning_world_def)
  have "tick_row default_settings 5 6 dunning_sub =
      dunning_sub\<lparr>sub_failed_payment_count := 2, sub_next_retry_at := Some (5 + backoff_delay default_settings 2 None)\<rparr>"
    by (simp add: tick_row_def dunning_sub_def default_settings_def)
  then show ?thesis using run due by (intro exI [of _ st] exI [of _ w']) (simp add: dunning_sub_def)
qed

text \<open>
  A sweep is idempotent at its instant. With settings in range, after a sweep at \<open>now\<close> no subscription
  is due at \<open>now\<close> any more, even where publishing its notifications failed: a second sweep at the same
  instant reports nothing due and changes nothing in the database.
\<close>

theorem sweep_idempotent:
  assumes "settings_valid S" and "table_wf sub_id (subscriptions (w_db w))"
    and "w' = snd (process_due_retries S bus now now' None w)"
  shows "\<exists>w''. process_due_retries S bus2 now now2' None w' =
      (Inr \<lparr>st_due = 0, st_reminded = 0, st_suspended = 0, st_failed = 0\<rparr>, w'') \<and> w_db w'' = w_db w'"
proof -
  let ?f = "\<lambda>s. if due now s then tick_row S now now' s else s"
  have clear: "\<forall>s. \<not> due now (?f s)"
    using backoff_pos [OF assms(1)] by (auto simp: due_def tick_row_def not_le)
  have rows: "t_rows (subscriptions (w_db w')) = map ?f (t_rows (subscriptions (w_db w)))"
    using process_due_retries_run [OF assms(2), of S bus now now'] assms(3) by auto
  have "\<forall>x \<in> set (t_rows (subscriptions (w_db w'))). \<not> due now x"
    unfolding rows set_map using clear by blast
  then have "filter (due now) (t_rows (subscriptions (w_db w'))) = []"
    by (simp add: filter_empty_conv)
  then show ?thesis by (simp add: process_due_retries_def select_where_def Let_def)
qed

theorem sweep_idempotent_witness:
  "\<exists>w''. process_due_retries default_settings None 5 6 None
      (snd (process_due_retries default_settings None 5 5 None dunning_world)) =
      (Inr \<lparr>st_due = 0, st_reminded = 0, st_suspended = 0, st_failed = 0\<rparr>, w'')"
  using sweep_idempotent [OF default_settings_valid dunning_world_wf refl, of None 5 6 None 5] by blast

text \<open>
  The schedule terminates without further payment webhooks. A past-due subscription with a pending
  retry ends up suspended after at most \<open>DUNNING_MAX_ATTEMPTS - failed_payment_count + 1\<close> sweeps, when
  sweeps are at least seven days apart (the cap of the backoff) and the first is not before the pending
  retry; it stays suspended afterwards. The bus may fail at any publication.
\<close>

theorem dunning_terminates:
  assumes "table_wf sub_id (subscriptions (w_db w))" and "s \<in> set (t_rows (subscriptions (w_db w)))"
    and "sub_status s = PAST_DUE" and "sub_next_retry_at s = Some t"
    and "sorted_wrt (\<lambda>a b. fst a + days_td 7 \<le> fst b) ts" and "list_all (\<lambda>a. t \<le> fst a) ts"
    and "max 0 (DUNNING_MAX_ATTEMPTS S - sub_failed_payment_count s) < int (length ts)"
  shows "\<exists>s' \<in> set (t_rows (subscriptions (w_db (sweeps S bus ts w)))).
    sub_id s' = sub_id s \<and> sub_status s' = SUSPENDED"
proof
  show "sweep_row S ts s \<in> set (t_rows (subscriptions (w_db (sweeps S bus ts w))))"
    using sweeps_rows [OF assms(1), of S bus ts] assms(2) by simp
  show "sub_id (sweep_row S ts s) = sub_id s \<and> sub_status (sweep_row S ts s) = SUSPENDED"
    using sweep_row_terminates [of ts s t S] assms(3-7) by (auto simp: MAX_DELAY_def)
qed

theorem dunning_terminates_witness:
  "\<exists>s' \<in> set (t_rows (subscriptions (w_db (sweeps default_settings (Some (\<lambda>_. False))
      [(days_td 1, 0), (days_td 8, 0), (days_td 15, 0), (days_td 22, 0)] dunning_world)))).
    sub_id s' = 1 \<and> sub_status s' = SUSPENDED"
  using dunning_terminates [OF dunning_world_wf, of dunning_sub 3
      "[(days_td 1, 0), (days_td 8, 0), (days_td 15, 0), (days_td 22, 0)]" default_settings "Some (\<lambda>_. False)"]
  by (simp add: dunning_world_def dunning_sub_def sample_sub_def new_subscription_def default_settings_def td_defs)

text \<open>
  Recording a failed payment, then recovering. On a live subscription with an accepting bus the failure
  makes the row past due, advances the position by one with a retry in the future, and tells every active
  user of the tenant; a recovery then makes the row active and clears the dunning state. On a canceled or
  suspended subscription the failure is rejected by the state machine and nothing changes.
\<close>

theorem failure_and_recovery:
  assumes "settings_valid S" and "\<And>e. b e"
  shows "(is_live s \<longrightarrow> (\<exists>s1 w1. record_payment_failure S (Some b) now s w = (Inr s1, w1) \<and>
      sub_status s1 = PAST_DUE \<and> sub_failed_payment_count s1 = sub_failed_payment_count s + 1 \<and>
      (\<exists>t. sub_next_retry_at s1 = Some t \<and> now < t \<and> t \<le> now + days_td 7) \<and>
      w_db w1 = subscriptions_update (update_row sub_id s1) (w_db w) \<and>
      w_bus w1 = w_bus w @ map (\<lambda>u. dunning_event ''payment_failed'' s1 (Some u))
        (recipients_of (w_db w) (sub_tenant_id s)) \<and>
      (\<exists>s2 w2. recover_subscription (Some b) s1 w1 = (Inr s2, w2) \<and>
        sub_status s2 = ACTIVE \<and> \<not> is_dunning s2 \<and> sub_next_retry_at s2 = None \<and>
        w_db w2 = subscriptions_update (update_row sub_id s2) (w_db w1)))) \<and>
    (\<not> is_live s \<longrightarrow> record_payment_failure S (Some b) now s w =
      (Inl (IllegalTransitionError (status_value (sub_status s)) ''past_due''), w))"
proof -
  let ?s1 = "s\<lparr>sub_status := PAST_DUE, sub_failed_payment_count := sub_failed_payment_count s + 1,
    sub_last_payment_failure_at := Some now,
    sub_next_retry_at := Some (now + backoff_delay S (sub_failed_payment_count s + 1) None)\<rparr>"
  let ?s2 = "fst (reset_dunning (?s1\<lparr>sub_status := ACTIVE\<rparr>))"
  have t: "0 < backoff_delay S (sub_failed_payment_count s + 1) None"
    "backoff_delay S (sub_failed_payment_count s + 1) None \<le> days_td 7"
    using backoff_pos [OF assms(1)] backoff_le_cap by (simp_all add: MAX_DELAY_def)
  note defs = record_payment_failure_def recover_subscription_def publish_to_recipients_run [OF assms(2)]
    assert_transition_def reset_dunning_def Let_def is_dunning_def
  show ?thesis
  proof (intro conjI impI)
    assume "is_live s"
    then have "record_payment_failure S (Some b) now s w = (Inr ?s1,
      w\<lparr>w_db := subscriptions_update (update_row sub_id ?s1) (w_db w),
        w_bus := w_bus w @ map (\<lambda>u. dunning_event ''payment_failed'' ?s1 (Some u))
          (recipients_of (w_db w) (sub_tenant_id s))\<rparr>)" (is "_ = (_, ?w1)")
      by (cases s; cases "sub_status s") (auto simp: defs live_iff)
    moreover have "\<exists>w2. recover_subscription (Some b) ?s1 ?w1 = (Inr ?s2, w2) \<and>
      w_db w2 = subscriptions_update (update_row sub_id ?s2) (w_db ?w1)"
      by (auto simp: defs)
    moreover have "sub_status ?s2 = ACTIVE \<and> \<not> is_dunning ?s2 \<and> sub_next_retry_at ?s2 = None"
      by (auto simp: defs)
    ultimately show "\<exists>s1 w1. record_payment_failure S (Some b) now s w = (Inr s1, w1) \<and>
      sub_status s1 = PAST_DUE \<and> sub_failed_payment_count s1 = sub_failed_payment_count s + 1 \<and>
      (\<exists>t. sub_next_retry_at s1 = Some t \<and> now < t \<and> t \<le> now + days_td 7) \<and>
      w_db w1 = subscriptions_update (update_row sub_id s1) (w_db w) \<and>
      w_bus w1 = w_bus w @ map (\<lambda>u. dunning_event ''payment_failed'' s1 (Some u))
        (recipients_of (w_db w) (sub_tenant_id s)) \<and>
      (\<exists>s2 w2. recover_subscription (Some b) s1 w1 = (Inr s2, w2) \<and>
        sub_status s2 = ACTIVE \<and> \<not> is_dunning s2 \<and> sub_next_retry_at s2 = None \<and>
        w_db w2 = subscriptions_update (update_row sub_id s2) (w_db w1))"
      using t by (intro exI [of _ ?s1] exI [of _ ?w1]) auto
  next
    assume "\<not> is_live s"
    then show "record_payment_failure S (Some b) now s w =
      (Inl (IllegalTransitionError (status_value (sub_status s)) ''past_due''), w)"
      by (auto simp: defs live_iff)
  qed
qed

theorem failure_and_recovery_witness:
  "\<exists>s1 w1. record_payment_failure default_settings (Some (\<lambda>_. True)) 9 sample_sub sample_world = (Inr s1, w1) \<and>
     sub_status s1 = PAST_DUE \<and> sub_failed_payment_count s1 = 1"
  using failure_and_recovery [OF default_settings_valid, of "\<lambda>_. True" sample_sub 9 sample_world]
  by (auto simp: sample_sub_def new_subscription_def live_iff)

end
