(* ===== verification/Usage.thy ===== *)
theory Usage
  imports Redis BillingCrud Samples
begin

text \<open>
  Usage metering (\<^verbatim>\<open>app/billing/services/usage.py\<close>) and quota enforcement (\<^verbatim>\<open>app/billing/api/deps.py\<close>).
  Counters live in Redis under a key per tenant, dimension and billing period; entitlements are cached in
  the process for a minute. Both fail open.
\<close>

section \<open>The metering service\<close>

definition COUNTER_TTL_GRACE_SECONDS :: int where
  "COUNTER_TTL_GRACE_SECONDS = 3600"

definition DEFAULT_DIMENSION :: string where
  "DEFAULT_DIMENSION = ''api_requests''"

definition counter_key :: "int \<Rightarrow> string \<Rightarrow> datetime \<Rightarrow> string" where
  "counter_key tenant_id dimension period_start =
     ''billing:usage:'' @ show_int tenant_id @ '':'' @ dimension @ '':'' @
     show_int (int_timestamp period_start)"

definition ttl_for :: "datetime \<Rightarrow> datetime \<Rightarrow> int" where
  "ttl_for period_end now =
     max 60 (py_trunc (total_seconds (period_end - now)) + COUNTER_TTL_GRACE_SECONDS)"

text \<open>\<open>None\<close> is the fail-open result.\<close>

definition increment ::
  "'r redis \<Rightarrow> datetime \<Rightarrow> int \<Rightarrow> string \<Rightarrow> datetime \<Rightarrow> datetime \<Rightarrow> int \<Rightarrow> ('r, int option) app" where
  "increment R now tenant_id dimension period_start period_end amount =
     (let key = counter_key tenant_id dimension period_start
      in tryM
           (bindM (redis_call (bindM (rd_incrby R now key amount)
                     (\<lambda>v. thenM (rd_expire R now key (ttl_for period_end now)) (returnM v))))
              (\<lambda>v. returnM (Some v)))
           (\<lambda>_. returnM None))"

definition get_usage :: "'r redis \<Rightarrow> datetime \<Rightarrow> int \<Rightarrow> string \<Rightarrow> datetime \<Rightarrow> ('r, int) app" where
  "get_usage R now tenant_id dimension period_start =
     tryM
       (bindM (redis_call (rd_get R now (counter_key tenant_id dimension period_start)))
          (\<lambda>value. case value of None \<Rightarrow> returnM 0
            | Some s \<Rightarrow> (case py_int s of None \<Rightarrow> raiseM (ValueError s) | Some i \<Rightarrow> returnM i)))
       (\<lambda>_. returnM 0)"

definition compute_overage :: "int \<Rightarrow> int \<Rightarrow> int \<Rightarrow> int" where
  "compute_overage used included unit_amount =
     (let billable_units = max 0 (used - included) in billable_units * unit_amount)"

text \<open>\<open>int(v)\<close> on a JSON value; \<open>None\<close> stands for the \<open>TypeError\<close> or \<open>ValueError\<close> that the caller catches.\<close>

fun json_int :: "json \<Rightarrow> int option" where
  "json_int (JInt i) = Some i"
| "json_int (JBool b) = Some (if b then 1 else 0)"
| "json_int (JFloat x) = Some (py_trunc x)"
| "json_int (JStr s) = py_int s"
| "json_int _ = None"

fun metering_config :: "json \<Rightarrow> dim_config option" where
  "metering_config (JObj cfg) =
     (case (json_int (jget_default cfg ''unit_amount_cents'' (JInt 0)),
            json_int (jget_default cfg ''included_quantity'' (JInt 0))) of
        (Some u, Some q) \<Rightarrow> Some \<lparr>unit_amount_cents = u, included_quantity = q\<rparr>
      | _ \<Rightarrow> None)"
| "metering_config _ = None"

definition extract_metering :: "(string \<times> json) list option \<Rightarrow> (string \<times> dim_config) list" where
  "extract_metering raw =
     (case raw of None \<Rightarrow> []
      | Some m \<Rightarrow> List.map_filter (\<lambda>(name, cfg). map_option (Pair name) (metering_config cfg)) m)"

section \<open>The quota dependency\<close>

definition ENTITLEMENTS_TTL_SECONDS :: rat where
  "ENTITLEMENTS_TTL_SECONDS = 60"

definition fresh :: "rat \<Rightarrow> entitlements \<Rightarrow> bool" where
  "fresh clk e \<longleftrightarrow> clk < ent_expires_at e"

definition invalidate_entitlements :: "int option \<Rightarrow> ('r, unit) app" where
  "invalidate_entitlements tenant_id =
     modifyM (\<lambda>w. w\<lparr>w_entitlements :=
       (case tenant_id of None \<Rightarrow> Map.empty | Some t \<Rightarrow> (w_entitlements w)(t := None))\<rparr>)"

definition cache_entitlements :: "int \<Rightarrow> entitlements \<Rightarrow> ('r, unit) app" where
  "cache_entitlements tenant_id e =
     modifyM (\<lambda>w. w\<lparr>w_entitlements := (w_entitlements w)(tenant_id \<mapsto> e)\<rparr>)"

text \<open>
  \<open>clk\<close> and \<open>clk'\<close> are the readings of \<^verbatim>\<open>time.monotonic()\<close> at the freshness test and at the insertion.
  \<^verbatim>\<open>sub.plan\<close> is loaded with the subscription.
\<close>

definition resolve_entitlements :: "rat \<Rightarrow> rat \<Rightarrow> int \<Rightarrow> ('r, entitlements option) app" where
  "resolve_entitlements clk clk' tenant_id =
     bindM (getsM (\<lambda>w. w_entitlements w tenant_id)) (\<lambda>cached.
       let lookup =
         bindM (get_live_for_tenant (Some tenant_id)) (\<lambda>sub.
           case sub of
             None \<Rightarrow>
               thenM (cache_entitlements tenant_id
                        \<lparr>ent_config = [], ent_period_start = None, ent_period_end = None,
                         ent_expires_at = fl (clk' + ENTITLEMENTS_TTL_SECONDS)\<rparr>)
                 (returnM None)
           | Some s \<Rightarrow>
               bindM (plan_get (sub_plan_id s)) (\<lambda>p.
                 let ent = \<lparr>ent_config = extract_metering (Option.bind p plan_metering),
                            ent_period_start = Some (sub_current_period_start s),
                            ent_period_end = Some (sub_current_period_end s),
                            ent_expires_at = fl (clk' + ENTITLEMENTS_TTL_SECONDS)\<rparr>
                 in thenM (cache_entitlements tenant_id ent) (returnM (Some ent))))
       in case cached of
            Some c \<Rightarrow> if fresh clk c
                      then returnM (if ent_period_start c \<noteq> None then Some c else None)
                      else lookup
          | None \<Rightarrow> lookup)"

definition quota_check ::
  "'r redis \<Rightarrow> rat \<Rightarrow> rat \<Rightarrow> datetime \<Rightarrow> int \<Rightarrow> ('r, bool) app" where
  "quota_check R clk clk' now tenant_id =
     bindM (resolve_entitlements clk clk' tenant_id) (\<lambda>ent.
       case ent of None \<Rightarrow> returnM False
       | Some e \<Rightarrow>
           (case (map_of (ent_config e) DEFAULT_DIMENSION, ent_period_start e, ent_period_end e) of
              (Some cfg, Some ps, Some pe) \<Rightarrow>
                bindM (increment R now tenant_id DEFAULT_DIMENSION ps pe 1) (\<lambda>used.
                  returnM (case used of None \<Rightarrow> False | Some u \<Rightarrow> u > included_quantity cfg))
            | _ \<Rightarrow> returnM False))"

definition enforce_api_quota ::
  "settings \<Rightarrow> 'r redis \<Rightarrow> rat \<Rightarrow> rat \<Rightarrow> datetime \<Rightarrow> user option \<Rightarrow> ('r, unit) app" where
  "enforce_api_quota S R clk clk' now current_user =
     (if \<not> BILLING_QUOTA_ENABLED S then returnM ()
      else case current_user of None \<Rightarrow> returnM ()
      | Some u \<Rightarrow>
          (case user_tenant_id u of None \<Rightarrow> returnM ()
           | Some tenant_id \<Rightarrow>
               bindM (tryM (quota_check R clk clk' now tenant_id) (\<lambda>_. returnM False)) (\<lambda>over_quota.
                 if over_quota
                 then raiseM (RateLimitException ''Plan quota exceeded for this billing period'')
                 else returnM ())))"

section \<open>Counter keys and lifetimes\<close>

text \<open>The key determines its parts, whatever characters the dimension's name has.\<close>

lemma rsplit_unique:
  fixes c :: char
  assumes "c \<notin> set t" "c \<notin> set t'" "s @ c # t = s' @ c # t'"
  shows "s = s' \<and> t = t'"
proof -
  have "rev t @ c # rev s = rev t' @ c # rev s'" using assms(3) by (metis append.assoc append_Cons append_Nil rev.simps(2) rev_append rev_rev_ident)
  then have "py_split1 c (rev t @ c # rev s) = py_split1 c (rev t' @ c # rev s')" by simp
  then show ?thesis using assms(1,2) py_split1_append [of c "rev t"] py_split1_append [of c "rev t'"] by simp
qed

lemma counter_key_parts:
  assumes "counter_key a d p = counter_key a' d' p'"
  shows "a = a' \<and> d = d' \<and> int_timestamp p = int_timestamp p'"
proof -
  have eq: "show_int a @ CHR '':'' # (d @ CHR '':'' # show_int (int_timestamp p)) =
    show_int a' @ CHR '':'' # (d' @ CHR '':'' # show_int (int_timestamp p'))"
    using assms by (simp add: counter_key_def)
  then have "py_split1 CHR '':'' (show_int a @ CHR '':'' # (d @ CHR '':'' # show_int (int_timestamp p))) =
    py_split1 CHR '':'' (show_int a' @ CHR '':'' # (d' @ CHR '':'' # show_int (int_timestamp p')))" by simp
  then have "show_int a = show_int a'" and rest:
    "d @ CHR '':'' # show_int (int_timestamp p) = d' @ CHR '':'' # show_int (int_timestamp p')"
    by (simp_all add: py_split1_append)
  then show ?thesis using rsplit_unique [OF _ _ rest] by simp
qed

lemma ttl_for_min: "60 \<le> ttl_for pe now"
  by (simp add: ttl_for_def)

text \<open>A counter touched within its period outlives the period.\<close>

lemma ttl_covers_period:
  assumes "now \<le> pe" and "pe - now \<le> 10 ^ 18"
  shows "pe < now + seconds_td (ttl_for pe now)"
proof -
  let ?y = "of_int (pe - now) / 1000000 :: rat"
  have y: "0 \<le> ?y" "?y \<le> 10 ^ 12" using assms by (simp_all add: divide_le_eq)
  have "\<bar>f - z\<bar> \<le> \<bar>z\<bar> / 2 ^ 53 \<Longrightarrow> 0 \<le> z \<Longrightarrow> z \<le> 10 ^ 12 \<Longrightarrow> z - 1 \<le> f" for f z :: rat
  proof -
    assume a: "\<bar>f - z\<bar> \<le> \<bar>z\<bar> / 2 ^ 53" "0 \<le> z" "z \<le> 10 ^ 12"
    then have "\<bar>z\<bar> / 2 ^ 53 \<le> 1" by simp
    with a(1) show "z - 1 \<le> f" by linarith
  qed
  from this [OF fl_rel_error y] have "?y - 1 \<le> fl ?y" .
  moreover have "0 \<le> fl ?y" using y by simp
  moreover have "z - 1 \<le> f \<Longrightarrow> 0 \<le> f \<Longrightarrow> z - 2 < of_int (py_trunc f)" for f z :: rat
    unfolding py_trunc_def by (cases "f < 0") (simp, simp only: if_False, linarith)
  ultimately have "?y - 2 < of_int (py_trunc (fl ?y))" by blast
  then have "(of_int (pe - now) :: rat) < of_int ((py_trunc (fl ?y) + 2) * 1000000 :: int)" by (simp add: field_simps)
  then have "pe - now < (py_trunc (fl ?y) + 2) * 1000000" by (simp only: of_int_less_iff)
  then have "pe - now < (py_trunc (fl ?y) + 3600) * 1000000" by simp
  also have "\<dots> \<le> seconds_td (ttl_for pe now)"
    unfolding seconds_td_def ttl_for_def total_seconds_def COUNTER_TTL_GRACE_SECONDS_def
    by (rule mult_right_mono) simp_all
  finally show ?thesis by simp
qed

section \<open>Counters on a conforming client\<close>

text \<open>The value that a reader at \<open>t\<close> finds; \<open>counter_at\<close> ignores non-numeric contents.\<close>

definition counter_at :: "datetime \<Rightarrow> string \<Rightarrow> keyspace \<Rightarrow> int option" where
  "counter_at t k ks =
     (case ks_lookup t k ks of None \<Rightarrow> Some 0 | Some (RStr s) \<Rightarrow> py_int s | Some _ \<Rightarrow> None)"

definition in_int64 :: "int \<Rightarrow> bool" where
  "in_int64 n \<longleftrightarrow> - (2 ^ 63) \<le> n \<and> n < 2 ^ 63"

lemma redis_conformsD:
  assumes "redis_conforms R \<alpha>"
  shows "sim \<alpha> (rd_get R t k) (ks_get t k)" "sim \<alpha> (rd_incrby R t k n) (ks_incrby t k n)"
    "sim \<alpha> (rd_expire R t k n) (ks_expire t k n)"
  using assms by (simp_all add: redis_conforms_def)

lemma increment_run:
  assumes R: "redis_conforms R \<alpha>" and w: "w_redis w = Some r"
    and c: "counter_at now (counter_key tid d ps) (\<alpha> r) = Some c" and ov: "in_int64 (c + n)"
  shows "\<exists>r'. increment R now tid d ps pe n w = (Inr (Some (c + n)), w\<lparr>w_redis := Some r'\<rparr>) \<and>
    \<alpha> r' = (\<alpha> r)(counter_key tid d ps \<mapsto>
      (RStr (show_int (c + n)), Some (now + seconds_td (ttl_for pe now))))"
proof -
  let ?k = "counter_key tid d ps" and ?ttl = "ttl_for pe now"
  obtain x r1 where 1: "rd_incrby R now ?k n r = (x, r1)" by fastforce
  have x: "x = Inr (c + n)" and r1: "\<alpha> r1 = ks_store now ?k (RStr (show_int (c + n))) (\<alpha> r)"
    using simD [OF redis_conformsD(2) [OF R, of now ?k n], of r] 1 c ov
    by (auto simp: ks_incrby_def counter_at_def in_int64_def Let_def)
  obtain y r2 where 2: "rd_expire R now ?k ?ttl r1 = (y, r2)" by fastforce
  have "y = Inr True" and r2: "\<alpha> r2 = (\<alpha> r1)(?k \<mapsto> (RStr (show_int (c + n)), Some (now + seconds_td ?ttl)))"
    using simD [OF redis_conformsD(3) [OF R, of now ?k ?ttl], of r1] 2 r1 ttl_for_min [of pe now]
    by (auto simp: ks_expire_def)
  then have "increment R now tid d ps pe n w = (Inr (Some (c + n)), w\<lparr>w_redis := Some r2\<rparr>)"
    using 1 2 x w by (simp add: increment_def Let_def redis_call_def)
  moreover have "\<alpha> r2 = (\<alpha> r)(?k \<mapsto> (RStr (show_int (c + n)), Some (now + seconds_td ?ttl)))"
    using r1 r2 by (auto simp: ks_store_def)
  ultimately show ?thesis by blast
qed

lemma get_usage_run:
  assumes R: "redis_conforms R \<alpha>" and w: "w_redis w = Some r"
    and c: "counter_at now (counter_key tid d ps) (\<alpha> r) = Some c"
  shows "\<exists>r'. get_usage R now tid d ps w = (Inr c, w\<lparr>w_redis := Some r'\<rparr>) \<and> \<alpha> r' = \<alpha> r"
proof -
  let ?k = "counter_key tid d ps"
  obtain x r1 where 1: "rd_get R now ?k r = (x, r1)" by fastforce
  have *: "x = fst (ks_get now ?k (\<alpha> r)) \<and> \<alpha> r1 = \<alpha> r"
    using simD [OF redis_conformsD(1) [OF R, of now ?k], of r] 1
    by (auto simp: ks_get_def split: option.splits rvalue.splits)
  then have "get_usage R now tid d ps w = (Inr c, w\<lparr>w_redis := Some r1\<rparr>)"
    using 1 c w by (auto simp: get_usage_def redis_call_def ks_get_def counter_at_def
        split: option.splits rvalue.splits)
  with * show ?thesis by blast
qed

section \<open>Entitlements\<close>

text \<open>What the cache may hold for a tenant whose live subscription has the given terms.\<close>

definition cache_agrees :: "int \<Rightarrow> (string \<times> dim_config) list \<Rightarrow> datetime \<Rightarrow> datetime \<Rightarrow> 'r world \<Rightarrow> bool" where
  "cache_agrees tid cfgs ps pe w \<longleftrightarrow>
     (case w_entitlements w tid of None \<Rightarrow> True
      | Some e \<Rightarrow> ent_config e = cfgs \<and> ent_period_start e = Some ps \<and> ent_period_end e = Some pe)"

text \<open>The database says that the tenant's live subscription has the given terms.\<close>

definition db_entitles :: "int \<Rightarrow> (string \<times> dim_config) list \<Rightarrow> datetime \<Rightarrow> datetime \<Rightarrow> db \<Rightarrow> bool" where
  "db_entitles tid cfgs ps pe d \<longleftrightarrow>
     (\<exists>s p. live_rows (Some tid) (subscriptions d) = [s] \<and>
        select_where (\<lambda>p. plan_id p = sub_plan_id s) (plans d) = [p] \<and>
        extract_metering (plan_metering p) = cfgs \<and>
        sub_current_period_start s = ps \<and> sub_current_period_end s = pe)"

lemma resolve_run:
  assumes "db_entitles tid cfgs ps pe (w_db w)" and "cache_agrees tid cfgs ps pe w"
  shows "\<exists>e w'. resolve_entitlements clk clk' tid w = (Inr (Some e), w') \<and>
    ent_config e = cfgs \<and> ent_period_start e = Some ps \<and> ent_period_end e = Some pe \<and>
    w_db w' = w_db w \<and> w_redis w' = w_redis w \<and> cache_agrees tid cfgs ps pe w'"
proof -
  obtain s p where s: "live_rows (Some tid) (subscriptions (w_db w)) = [s]"
    "select_where (\<lambda>p. plan_id p = sub_plan_id s) (plans (w_db w)) = [p]"
    "extract_metering (plan_metering p) = cfgs"
    "sub_current_period_start s = ps" "sub_current_period_end s = pe"
    using assms(1) by (auto simp: db_entitles_def)
  show ?thesis
  proof (cases "\<exists>e. w_entitlements w tid = Some e \<and> fresh clk e")
    case True
    then show ?thesis using assms(2) by (auto simp: resolve_entitlements_def cache_agrees_def)
  next
    case False
    then show ?thesis
      using s by (cases "w_entitlements w tid")
        (auto simp: resolve_entitlements_def cache_agrees_def cache_entitlements_def get_live_run Let_def)
  qed
qed

section \<open>A sequence of requests\<close>

text \<open>The outcomes of successive requests of one user; each has its own clock readings.\<close>

fun serve_requests ::
  "settings \<Rightarrow> 'r redis \<Rightarrow> user \<Rightarrow> (rat \<times> rat \<times> datetime) list \<Rightarrow> 'r world \<Rightarrow> (exn + unit) list" where
  "serve_requests S R u [] w = []"
| "serve_requests S R u ((clk, clk', now) # ts) w =
     (case enforce_api_quota S R clk clk' now (Some u) w of
        (res, w') \<Rightarrow> res # serve_requests S R u ts w')"

text \<open>The counter holds \<open>c\<close> for as long as the period lasts.\<close>

definition counter_holds :: "datetime \<Rightarrow> string \<Rightarrow> int \<Rightarrow> keyspace \<Rightarrow> bool" where
  "counter_holds pe k c ks \<longleftrightarrow>
     (ks k = None \<and> c = 0) \<or> (\<exists>d. ks k = Some (RStr (show_int c), Some d) \<and> pe < d)"

lemma counter_holds_at: "counter_holds pe k c ks \<Longrightarrow> t \<le> pe \<Longrightarrow> counter_at t k ks = Some c"
  by (auto simp: counter_holds_def counter_at_def ks_lookup_def)

lemma enforce_run:
  assumes S: "BILLING_QUOTA_ENABLED S" and R: "redis_conforms R \<alpha>"
    and u: "user_tenant_id u = Some tid" and ent: "db_entitles tid cfgs ps pe (w_db w)"
    and ca: "cache_agrees tid cfgs ps pe w" and cfg: "map_of cfgs DEFAULT_DIMENSION = Some cfg"
    and w: "w_redis w = Some r" and c: "counter_holds pe (counter_key tid DEFAULT_DIMENSION ps) c (\<alpha> r)"
    and now: "now \<le> pe" "pe - now \<le> 10 ^ 18" and ov: "in_int64 (c + 1)"
  shows "\<exists>w' r'. enforce_api_quota S R clk clk' now (Some u) w =
      (if c + 1 > included_quantity cfg
       then Inl (RateLimitException ''Plan quota exceeded for this billing period'') else Inr (), w') \<and>
    w_db w' = w_db w \<and> cache_agrees tid cfgs ps pe w' \<and> w_redis w' = Some r' \<and>
    counter_holds pe (counter_key tid DEFAULT_DIMENSION ps) (c + 1) (\<alpha> r')"
proof -
  let ?k = "counter_key tid DEFAULT_DIMENSION ps"
  obtain e w1 where res: "resolve_entitlements clk clk' tid w = (Inr (Some e), w1)"
    and e: "ent_config e = cfgs" "ent_period_start e = Some ps" "ent_period_end e = Some pe"
    and w1: "w_db w1 = w_db w" "w_redis w1 = Some r" "cache_agrees tid cfgs ps pe w1"
    using resolve_run [OF ent ca, of clk clk'] w by auto
  obtain r' where inc: "increment R now tid DEFAULT_DIMENSION ps pe 1 w1 =
      (Inr (Some (c + 1)), w1\<lparr>w_redis := Some r'\<rparr>)"
    and r': "\<alpha> r' = (\<alpha> r)(?k \<mapsto> (RStr (show_int (c + 1)), Some (now + seconds_td (ttl_for pe now))))"
    using increment_run [OF R w1(2) counter_holds_at [OF c now(1)] ov] by blast
  have "counter_holds pe ?k (c + 1) (\<alpha> r')"
    using r' ttl_covers_period [OF now] by (auto simp: counter_holds_def)
  moreover have "cache_agrees tid cfgs ps pe (w1\<lparr>w_redis := Some r'\<rparr>)"
    using w1(3) by (simp add: cache_agrees_def)
  ultimately show ?thesis
    using S u res e inc cfg w1 by (simp add: enforce_api_quota_def quota_check_def)
qed

lemma serve_run:
  assumes S: "BILLING_QUOTA_ENABLED S" and R: "redis_conforms R \<alpha>"
    and u: "user_tenant_id u = Some tid" and cfg: "map_of cfgs DEFAULT_DIMENSION = Some cfg"
  shows "db_entitles tid cfgs ps pe (w_db w) \<Longrightarrow> cache_agrees tid cfgs ps pe w \<Longrightarrow> w_redis w = Some r \<Longrightarrow>
    counter_holds pe (counter_key tid DEFAULT_DIMENSION ps) c (\<alpha> r) \<Longrightarrow>
    list_all (\<lambda>(_, _, now). now \<le> pe \<and> pe - now \<le> 10 ^ 18) ts \<Longrightarrow>
    0 \<le> c \<Longrightarrow> in_int64 (c + int (length ts)) \<Longrightarrow>
    serve_requests S R u ts w =
      map (\<lambda>i. if c + int i < included_quantity cfg then Inr ()
               else Inl (RateLimitException ''Plan quota exceeded for this billing period''))
        [0..<length ts]"
proof (induction ts arbitrary: c w r)
  case (Cons t ts)
  obtain clk clk' now where t: "t = (clk, clk', now)" by (cases t)
  have now: "now \<le> pe" "pe - now \<le> 10 ^ 18" using Cons.prems(5) t by auto
  have ov: "in_int64 (c + 1)" using Cons.prems(6,7) by (simp add: in_int64_def)
  obtain w' r' where step: "enforce_api_quota S R clk clk' now (Some u) w =
      (if c + 1 > included_quantity cfg
       then Inl (RateLimitException ''Plan quota exceeded for this billing period'') else Inr (), w')"
    and w': "w_db w' = w_db w" "cache_agrees tid cfgs ps pe w'" "w_redis w' = Some r'"
      "counter_holds pe (counter_key tid DEFAULT_DIMENSION ps) (c + 1) (\<alpha> r')"
    using enforce_run [OF S R u Cons.prems(1,2) cfg Cons.prems(3,4) now ov] by blast
  have "serve_requests S R u ts w' =
      map (\<lambda>i. if c + 1 + int i < included_quantity cfg then Inr ()
               else Inl (RateLimitException ''Plan quota exceeded for this billing period''))
        [0..<length ts]"
    using Cons.prems
    by (intro Cons.IH [OF _ w'(2,3,4)]) (auto simp: w'(1) add.assoc)
  moreover have "[0..<length (t # ts)] = 0 # map Suc [0..<length ts]"
    using upt_conv_Cons [of 0 "length (t # ts)"] by (simp add: map_Suc_upt del: upt_Suc)
  ultimately show ?case
    using step t by (simp add: add.assoc comp_def)
qed simp

section \<open>Failing open\<close>

lemma keeps_db_redis_call: "keeps (\<lambda>w. w_db w = d) (redis_call m)"
  by (rule keepsI) (simp add: redis_call_def split: option.splits prod.splits)

lemma keeps_db_increment: "keeps (\<lambda>w. w_db w = d) (increment R now tid dm ps pe n)"
  unfolding increment_def Let_def by (intro keeps_intros keeps_db_redis_call)

lemma keeps_disconnected_increment:
  "w_redis w = None \<Longrightarrow> increment R now tid dm ps pe n w = (Inr None, w)"
  by (simp add: increment_def Let_def)

text \<open>Resolving entitlements touches the in-process cache only.\<close>

lemma keeps_resolve:
  assumes "\<And>w f. P w \<Longrightarrow> P (w\<lparr>w_entitlements := f\<rparr>)"
  shows "keeps P (resolve_entitlements clk clk' tid)"
proof -
  have c: "keeps P (cache_entitlements tid e)" for e
    unfolding cache_entitlements_def using assms by (intro keeps_modifyM)
  have l: "keeps P (get_live_for_tenant x)" "keeps P (plan_get i)" for x i
    by (auto simp: keeps_def get_live_run)
  show ?thesis
    unfolding resolve_entitlements_def Let_def
    by (auto intro!: keeps_intros c l split: option.splits)
qed

lemma enforce_keeps_db: "keeps (\<lambda>w. w_db w = d) (enforce_api_quota S R clk clk' now user)"
proof -
  have "keeps (\<lambda>w. w_db w = d) (quota_check R clk clk' now tid)" for tid
    unfolding quota_check_def
    by (auto intro!: keeps_intros keeps_resolve keeps_db_increment split: option.splits)
  then show ?thesis
    unfolding enforce_api_quota_def by (auto intro!: keeps_intros split: option.splits)
qed

lemma enforce_run_check:
  assumes "BILLING_QUOTA_ENABLED S" "user = Some u" "user_tenant_id u = Some tid"
  shows "fst (enforce_api_quota S R clk clk' now user w) =
    (case fst (quota_check R clk clk' now tid w) of Inl _ \<Rightarrow> Inr ()
     | Inr over \<Rightarrow> if over then Inl (RateLimitException ''Plan quota exceeded for this billing period'')
                   else Inr ())"
  using assms
  by (cases "quota_check R clk clk' now tid w"; cases "fst (quota_check R clk clk' now tid w)")
    (auto simp: enforce_api_quota_def bindM_def tryM_def)

lemma enforce_off:
  "\<not> BILLING_QUOTA_ENABLED S \<or> user = None \<or> (\<exists>u. user = Some u \<and> user_tenant_id u = None) \<Longrightarrow>
   enforce_api_quota S R clk clk' now user w = (Inr (), w)"
  by (auto simp: enforce_api_quota_def split: option.splits)

lemma enforce_cases:
  obtains "enforce_api_quota S R clk clk' now user w = (Inr (), w)"
  | u tid where "BILLING_QUOTA_ENABLED S" "user = Some u" "user_tenant_id u = Some tid"
proof -
  consider "\<not> BILLING_QUOTA_ENABLED S \<or> user = None \<or> (\<exists>u. user = Some u \<and> user_tenant_id u = None)"
    | u tid where "BILLING_QUOTA_ENABLED S" "user = Some u" "user_tenant_id u = Some tid"
    by (metis not_None_eq)
  then show ?thesis using enforce_off that by cases blast+
qed

lemma enforce_outcome:
  "fst (enforce_api_quota S R clk clk' now user w) = Inr () \<or>
   fst (enforce_api_quota S R clk clk' now user w) =
     Inl (RateLimitException ''Plan quota exceeded for this billing period'')"
  by (rule enforce_cases [of S R clk clk' now user w]) (auto simp: enforce_run_check split: sum.splits)

lemma quota_check_disconnected:
  assumes "w_redis w = None"
  shows "fst (quota_check R clk clk' now tid w) = Inr False \<or>
    (\<exists>e. fst (quota_check R clk clk' now tid w) = Inl e)"
proof -
  obtain x w1 where res: "resolve_entitlements clk clk' tid w = (x, w1)" by fastforce
  have w1: "w_redis w1 = None"
    using keepsD_run [OF keeps_resolve [where P = "\<lambda>w. w_redis w = None"] assms res] by simp
  show ?thesis
  proof (cases x)
    case (Inr ent)
    then show ?thesis
      using res w1 by (auto simp: quota_check_def keeps_disconnected_increment split: option.splits)
  qed (use res in \<open>simp add: quota_check_def\<close>)
qed

lemma enforce_disconnected:
  assumes "w_redis w = None"
  shows "fst (enforce_api_quota S R clk clk' now user w) = Inr ()"
proof (rule enforce_cases [of S R clk clk' now user w])
  fix u tid assume "BILLING_QUOTA_ENABLED S" "user = Some u" "user_tenant_id u = Some tid"
  then show ?thesis
    using quota_check_disconnected [OF assms, of R clk clk' now tid] by (auto simp: enforce_run_check)
qed simp

section \<open>Properties\<close>

text \<open>
  C2: quota enforcement admits exactly the included number of requests per billing period. For a user
  whose tenant has a live metered subscription, with an unused counter and any mix of cached and
  re-resolved entitlements, the first \<open>included_quantity\<close> requests of the period pass and every later one
  is refused with 429. Hypotheses: quota enforcement is enabled, Redis behaves as documented, the requests
  fall into the period (which is shorter than \<open>10 ^ 12\<close> seconds) and their number fits a 64-bit counter.
\<close>

theorem quota_exact:
  assumes "BILLING_QUOTA_ENABLED S" and "redis_conforms R \<alpha>" and "user_tenant_id u = Some tid"
    and "db_entitles tid cfgs ps pe (w_db w)" and "cache_agrees tid cfgs ps pe w"
    and "map_of cfgs DEFAULT_DIMENSION = Some cfg"
    and "w_redis w = Some r" and "\<alpha> r (counter_key tid DEFAULT_DIMENSION ps) = None"
    and "list_all (\<lambda>(_, _, now). now \<le> pe \<and> pe - now \<le> 10 ^ 18) ts"
    and "int (length ts) < 2 ^ 63"
  shows "serve_requests S R u ts w =
    map (\<lambda>i. if int i < included_quantity cfg then Inr ()
             else Inl (RateLimitException ''Plan quota exceeded for this billing period''))
      [0..<length ts]"
  using serve_run [OF assms(1,2,3,6,4,5,7), of 0 ts] assms(8,9,10)
  by (simp add: counter_holds_def in_int64_def)

lemma sample_entitled:
  "db_entitles 7 [(''api_requests'', \<lparr>unit_amount_cents = 1, included_quantity = 2\<rparr>)] 0 (days_td 30)
     (w_db sample_world)"
  by (simp add: sample_defs db_entitles_def live_rows_def limit_rows_def order_desc_def select_where_def
      extract_metering_def List.map_filter_simps jget_default_def)

theorem quota_exact_witness:
  "serve_requests (default_settings\<lparr>BILLING_QUOTA_ENABLED := True\<rparr>) keyspace_redis sample_user
     [(0, 0, 5), (1, 1, 6), (100, 100, 7)] sample_world =
   [Inr (), Inr (), Inl (RateLimitException ''Plan quota exceeded for this billing period'')]"
proof -
  have "serve_requests (default_settings\<lparr>BILLING_QUOTA_ENABLED := True\<rparr>) keyspace_redis sample_user
     [(0, 0, 5), (1, 1, 6), (100, 100, 7)] sample_world =
    map (\<lambda>i. if int i < included_quantity \<lparr>unit_amount_cents = 1, included_quantity = 2\<rparr> then Inr ()
             else Inl (RateLimitException ''Plan quota exceeded for this billing period''))
      [0..<length [(0 :: rat, 0 :: rat, 5 :: datetime), (1, 1, 6), (100, 100, 7)]]"
    by (rule quota_exact [OF _ keyspace_conforms _ sample_entitled])
      (simp_all add: sample_world_def sample_user_def cache_agrees_def DEFAULT_DIMENSION_def days_td_def)
  then show ?thesis by (simp add: upt_rec)
qed

text \<open>
  Quota enforcement fails open. Whatever the Redis client does (it need not conform, and may raise at
  any command), the dependency never changes the database and either lets the request pass or raises
  \<open>RateLimitException\<close>; without a Redis connection it always lets the request pass.
\<close>

theorem quota_fail_open:
  "(fst (enforce_api_quota S R clk clk' now user w) = Inr () \<or>
    fst (enforce_api_quota S R clk clk' now user w) =
      Inl (RateLimitException ''Plan quota exceeded for this billing period'')) \<and>
   w_db (snd (enforce_api_quota S R clk clk' now user w)) = w_db w \<and>
   (w_redis w = None \<longrightarrow> fst (enforce_api_quota S R clk clk' now user w) = Inr ())"
  using keepsD [OF enforce_keeps_db, of w "w_db w" S R clk clk' now user]
    enforce_outcome [of S R clk clk' now user w] enforce_disconnected [of w S R clk clk' now user]
  by blast

theorem quota_fail_open_witness:
  "fst (enforce_api_quota (default_settings\<lparr>BILLING_QUOTA_ENABLED := True\<rparr>) keyspace_redis 0 0 5
     (Some sample_user) (sample_world\<lparr>w_redis := None\<rparr>)) = Inr ()"
  using quota_fail_open [of "default_settings\<lparr>BILLING_QUOTA_ENABLED := True\<rparr>" keyspace_redis 0 0 5
      "Some sample_user" "sample_world\<lparr>w_redis := None\<rparr>"]
  by simp

text \<open>
  Usage counters are independent and read back what was counted. Counting \<open>n\<close> units for one tenant,
  dimension and period adds \<open>n\<close> to what that counter reads (until the period ends) and leaves every
  counter with another tenant, another dimension (whatever characters its name has) or another period
  start (to the second) as it was. Hypotheses: Redis behaves as documented, the counter holds a number
  and the sum fits 64 bits.
\<close>

theorem increment_then_usage:
  assumes "redis_conforms R \<alpha>" and "w_redis w = Some r"
    and "counter_at now (counter_key tid d ps) (\<alpha> r) = Some c" and "in_int64 (c + n)"
    and "now \<le> now'" and "now' \<le> pe" and "pe - now \<le> 10 ^ 18"
    and "counter_at now' (counter_key tid' d' ps') (\<alpha> r) = Some c'"
  shows "fst (thenM (increment R now tid d ps pe n) (get_usage R now' tid' d' ps') w) =
    Inr (if tid' = tid \<and> d' = d \<and> int_timestamp ps' = int_timestamp ps then c + n else c')"
proof -
  let ?k = "counter_key tid d ps" and ?k' = "counter_key tid' d' ps'"
  obtain r' where inc: "increment R now tid d ps pe n w = (Inr (Some (c + n)), w\<lparr>w_redis := Some r'\<rparr>)"
    and r': "\<alpha> r' = (\<alpha> r)(?k \<mapsto> (RStr (show_int (c + n)), Some (now + seconds_td (ttl_for pe now))))"
    using increment_run [OF assms(1-4)] by blast
  have "now' < now + seconds_td (ttl_for pe now)"
    using ttl_covers_period [of now pe] assms(5-7) by simp
  then have "counter_at now' ?k' (\<alpha> r') = Some (if ?k' = ?k then c + n else c')"
    using assms(8) r' by (auto simp: counter_at_def)
  then obtain r'' where "get_usage R now' tid' d' ps' (w\<lparr>w_redis := Some r'\<rparr>) =
      (Inr (if ?k' = ?k then c + n else c'), w\<lparr>w_redis := Some r''\<rparr>)"
    using get_usage_run [OF assms(1), of "w\<lparr>w_redis := Some r'\<rparr>" r' now' tid' d' ps'] by auto
  moreover have "?k' = ?k \<longleftrightarrow> tid' = tid \<and> d' = d \<and> int_timestamp ps' = int_timestamp ps"
    using counter_key_parts [of tid' d' ps' tid d ps] by (auto simp: counter_key_def)
  ultimately show ?thesis using inc by simp
qed

theorem increment_then_usage_witness:
  "fst (thenM (increment keyspace_redis 5 7 ''api'' 0 (days_td 30) 3)
     (get_usage keyspace_redis 9 7 ''api'' 0) sample_world) = Inr 3"
  using increment_then_usage [OF keyspace_conforms, of sample_world Map.empty 5 7 "''api''" 0 0 3 9 "days_td 30"
      7 "''api''" 0 0]
  by (simp add: sample_world_def counter_at_def ks_lookup_def in_int64_def days_td_def)

end
