(* ===== verification/Invoicing.thy ===== *)
theory Invoicing
  imports Dunning Usage
begin

text \<open>
  \<^verbatim>\<open>app/billing/services/invoicing.py\<close> and the sweep \<^verbatim>\<open>app/tasks/invoicing.py\<close>: invoice generation from
  subscription periods with overage lines, the invoice state machine, and payment with recovery from
  dunning.
\<close>

section \<open>The state machine\<close>

fun ALLOWED_INVOICE_TRANSITIONS :: "inv_status \<Rightarrow> inv_status set" where
  "ALLOWED_INVOICE_TRANSITIONS DRAFT = {OPEN, VOID}"
| "ALLOWED_INVOICE_TRANSITIONS OPEN = {PAID, VOID}"
| "ALLOWED_INVOICE_TRANSITIONS PAID = {}"
| "ALLOWED_INVOICE_TRANSITIONS VOID = {}"

definition assert_invoice_transition :: "inv_status \<Rightarrow> inv_status \<Rightarrow> exn + unit" where
  "assert_invoice_transition current target =
     (if target \<notin> ALLOWED_INVOICE_TRANSITIONS current
      then Inl (IllegalInvoiceTransitionError (inv_status_value current) (inv_status_value target))
      else Inr ())"

interpretation inv_machine: state_machine ALLOWED_INVOICE_TRANSITIONS assert_invoice_transition
  by unfold_locales (simp add: assert_invoice_transition_def)

section \<open>Totals and lines\<close>

definition compute_totals :: "invoice_line list \<Rightarrow> int \<times> int" where
  "compute_totals lines = (sum_list (map compute_amount lines), sum_list (map compute_tax lines))"

definition apply_totals :: "invoice \<Rightarrow> invoice" where
  "apply_totals v =
     (let (subtotal, tax) = compute_totals (inv_lines v)
      in v\<lparr>inv_subtotal_cents := subtotal, inv_tax_cents := tax, inv_total_cents := subtotal + tax\<rparr>)"

fun append_dimension_lines ::
  "'r redis \<Rightarrow> datetime \<Rightarrow> int \<Rightarrow> datetime \<Rightarrow> (string \<times> dim_config) list \<Rightarrow> invoice \<Rightarrow> ('r, invoice) app" where
  "append_dimension_lines R now tenant_id period_start [] v = returnM v"
| "append_dimension_lines R now tenant_id period_start ((dimension, cfg) # rest) v =
     bindM (get_usage R now tenant_id dimension period_start) (\<lambda>used.
       let overage_cents = compute_overage used (included_quantity cfg) (unit_amount_cents cfg)
       in if overage_cents \<le> 0
          then append_dimension_lines R now tenant_id period_start rest v
          else let billable_units = used - included_quantity cfg;
                   line = \<lparr>line_description = dimension @ '' overage ('' @ show_int billable_units @
                             '' units @ '' @ show_int (unit_amount_cents cfg) @ '' cents)'',
                           line_quantity = Some billable_units,
                           line_unit_amount_cents = Some (unit_amount_cents cfg),
                           line_tax_rate_bps = Some 0,
                           line_amount_cents = overage_cents\<rparr>
               in append_dimension_lines R now tenant_id period_start rest
                    (v\<lparr>inv_lines := inv_lines v @ [line]\<rparr>))"

definition append_metered_lines ::
  "'r redis \<Rightarrow> datetime \<Rightarrow> invoice \<Rightarrow> plan \<Rightarrow> int option \<Rightarrow> datetime \<Rightarrow> ('r, invoice) app" where
  "append_metered_lines R now v p tenant_id period_start =
     (case tenant_id of None \<Rightarrow> returnM v
      | Some t \<Rightarrow> append_dimension_lines R now t period_start (extract_metering (plan_metering p)) v)"

section \<open>Generation and lifecycle\<close>

text \<open>The line description has an em dash, here as its UTF-8 bytes.\<close>

definition em_dash :: string where
  "em_dash = [CHR 0xE2, CHR 0x80, CHR 0x94]"

definition period_line :: "plan \<Rightarrow> invoice_line" where
  "period_line p =
     \<lparr>line_description = plan_name p @ '' '' @ em_dash @ '' subscription period'',
      line_quantity = Some 1, line_unit_amount_cents = Some (plan_price_cents p),
      line_tax_rate_bps = Some 0, line_amount_cents = plan_price_cents p\<rparr>"

definition draft_invoice :: "datetime \<Rightarrow> subscription \<Rightarrow> plan \<Rightarrow> datetime \<Rightarrow> datetime \<Rightarrow> invoice" where
  "draft_invoice now sub p p_start p_end =
     \<lparr>inv_id = 0, inv_tenant_id = sub_tenant_id sub, inv_subscription_id = sub_id sub,
      inv_status = DRAFT, inv_currency = plan_currency p,
      inv_subtotal_cents = 0, inv_tax_cents = 0, inv_total_cents = 0,
      inv_period_start = p_start, inv_period_end = p_end, inv_issued_at = None, inv_paid_at = None,
      inv_created_at = now, inv_lines = [period_line p]\<rparr>"

definition generate_invoice ::
  "'r redis \<Rightarrow> datetime \<Rightarrow> subscription \<Rightarrow> plan \<Rightarrow> datetime option \<Rightarrow> datetime option \<Rightarrow> ('r, invoice) app" where
  "generate_invoice R now sub p period_start period_end =
     thenM (guardM (is_live sub) (ConflictException ''Cannot invoice a non-live subscription''))
      (let p_start = (case period_start of None \<Rightarrow> sub_current_period_start sub | Some t \<Rightarrow> t);
           p_end = (case period_end of None \<Rightarrow> sub_current_period_end sub | Some t \<Rightarrow> t)
       in thenM (guardM (\<not> p_end \<le> p_start) (ValueError ''period_end must be after period_start''))
         (bindM (find_blocking_for_period (sub_id sub) p_start) (\<lambda>existing.
            case existing of
              Some ex \<Rightarrow> raiseM (ConflictException
                 (''Invoice '' @ invoice_number ex @ '' already covers this period''))
            | None \<Rightarrow>
                bindM (append_metered_lines R now (draft_invoice now sub p p_start p_end) p
                         (sub_tenant_id sub) p_start) (\<lambda>v.
                  tryM (crud_invoice_create (apply_totals v) [])
                    (\<lambda>e. if e = IntegrityError
                         then thenM rollback
                                (raiseM (ConflictException ''An invoice already covers this period''))
                         else raiseM e)))))"

definition invoice_event :: "string \<Rightarrow> invoice \<Rightarrow> int option \<Rightarrow> event" where
  "invoice_event event_suffix v uid =
     mk_event (''billing.invoice.'' @ event_suffix)
       [(''invoice_id'', JInt (inv_id v)),
        (''tenant_id'', json_opt (inv_tenant_id v)),
        (''subscription_id'', JInt (inv_subscription_id v)),
        (''status'', JStr (inv_status_value (inv_status v))),
        (''total_cents'', JInt (inv_total_cents v)),
        (''currency'', JStr (inv_currency v)),
        (''period_start'', JStr (isoformat (inv_period_start v))),
        (''period_end'', JStr (isoformat (inv_period_end v)))] uid"

definition issue :: "datetime \<Rightarrow> int \<Rightarrow> ('r, invoice) app" where
  "issue now invoice_id =
     bindM (invoice_get invoice_id) (\<lambda>r.
       case r of None \<Rightarrow> raiseM (NotFoundException ''Invoice not found'')
       | Some v \<Rightarrow>
           thenM (liftM (assert_invoice_transition (inv_status v) OPEN))
             (let v' = v\<lparr>inv_status := OPEN, inv_issued_at := Some now\<rparr>
              in thenM (save_invoice v') (thenM commit (returnM v'))))"

definition mark_paid :: "datetime \<Rightarrow> int \<Rightarrow> bus option \<Rightarrow> ('r, invoice) app" where
  "mark_paid now invoice_id bus =
     bindM (invoice_get invoice_id) (\<lambda>r.
       case r of None \<Rightarrow> raiseM (NotFoundException ''Invoice not found'')
       | Some v \<Rightarrow>
           thenM (liftM (assert_invoice_transition (inv_status v) PAID))
             (let v' = v\<lparr>inv_status := PAID, inv_paid_at := Some now\<rparr>
              in thenM (save_invoice v')
                 (bindM (subscription_get (inv_subscription_id v)) (\<lambda>sub.
                    thenM (case sub of None \<Rightarrow> returnM ()
                           | Some s \<Rightarrow> if is_dunning s \<and> sub_status s = PAST_DUE
                                       then thenM (recover_subscription bus s) (returnM ())
                                       else returnM ())
                      (thenM commit (returnM v'))))))"

definition void :: "int \<Rightarrow> ('r, invoice) app" where
  "void invoice_id =
     bindM (invoice_get invoice_id) (\<lambda>r.
       case r of None \<Rightarrow> raiseM (NotFoundException ''Invoice not found'')
       | Some v \<Rightarrow>
           thenM (liftM (assert_invoice_transition (inv_status v) VOID))
             (let v' = v\<lparr>inv_status := VOID\<rparr>
              in thenM (save_invoice v') (thenM commit (returnM v'))))"

section \<open>The sweep\<close>

record invoice_stats =
  gen_generated :: int
  gen_skipped :: int
  gen_failed :: int

definition sweep_subscription ::
  "'r redis \<Rightarrow> datetime \<Rightarrow> subscription \<Rightarrow> invoice_stats \<Rightarrow> ('r, invoice_stats) app" where
  "sweep_subscription R now sub st =
     bindM (plan_get (sub_plan_id sub)) (\<lambda>plan_row.
       case plan_row of None \<Rightarrow> returnM (st\<lparr>gen_failed := gen_failed st + 1\<rparr>)
       | Some p \<Rightarrow>
           tryM
             (bindM (find_blocking_for_period (sub_id sub) (sub_current_period_start sub)) (\<lambda>existing.
                case existing of Some _ \<Rightarrow> returnM (st\<lparr>gen_skipped := gen_skipped st + 1\<rparr>)
                | None \<Rightarrow>
                    bindM (generate_invoice R now sub p None None) (\<lambda>v.
                      thenM (if inv_status v = DRAFT then thenM (issue now (inv_id v)) (returnM ())
                             else returnM ())
                        (returnM (st\<lparr>gen_generated := gen_generated st + 1\<rparr>)))))
             (\<lambda>_. returnM (st\<lparr>gen_failed := gen_failed st + 1\<rparr>)))"

fun sweep_subscriptions ::
  "'r redis \<Rightarrow> datetime \<Rightarrow> subscription list \<Rightarrow> invoice_stats \<Rightarrow> ('r, invoice_stats) app" where
  "sweep_subscriptions R now [] st = returnM st"
| "sweep_subscriptions R now (sub # subs) st =
     bindM (sweep_subscription R now sub st) (sweep_subscriptions R now subs)"

definition invoice_due :: "datetime \<Rightarrow> subscription \<Rightarrow> bool" where
  "invoice_due now s \<longleftrightarrow> sub_status s \<in> LIVE_STATUSES \<and> sub_current_period_end s \<le> now"

definition generate_due_invoices :: "'r redis \<Rightarrow> datetime \<Rightarrow> ('r, invoice_stats) app" where
  "generate_due_invoices R now =
     with_session
       (bindM (select_all subscriptions (invoice_due now)) (\<lambda>subs.
          sweep_subscriptions R now subs \<lparr>gen_generated = 0, gen_skipped = 0, gen_failed = 0\<rparr>))"

section \<open>Totals\<close>

lemma apply_totals_simps [simp]:
  "inv_lines (apply_totals v) = inv_lines v" "inv_status (apply_totals v) = inv_status v"
  "inv_subscription_id (apply_totals v) = inv_subscription_id v"
  "inv_period_start (apply_totals v) = inv_period_start v"
  "inv_period_end (apply_totals v) = inv_period_end v"
  "inv_tenant_id (apply_totals v) = inv_tenant_id v"
  "inv_id (apply_totals v) = inv_id v"
  by (simp_all add: apply_totals_def split: prod.splits)

lemma apply_totals_same_lines [simp]: "(apply_totals v)\<lparr>inv_lines := inv_lines v\<rparr> = apply_totals v"
  by (simp add: apply_totals_def split: prod.splits)

text \<open>The overage that the code bills for one dimension.\<close>

definition billed_overage :: "int \<Rightarrow> dim_config \<Rightarrow> int" where
  "billed_overage used cfg = max 0 (compute_overage used (included_quantity cfg) (unit_amount_cents cfg))"

text \<open>Lines of an overage: the quantity times the unit price is the overage, untaxed.\<close>

lemma overage_units:
  "0 < compute_overage used q u \<Longrightarrow> (used - q) * u = compute_overage used q u"
  by (auto simp: compute_overage_def Let_def max_def split: if_splits)

definition subtotal :: "invoice \<Rightarrow> int" where
  "subtotal v = sum_list (map compute_amount (inv_lines v))"

definition tax_total :: "invoice \<Rightarrow> int" where
  "tax_total v = sum_list (map compute_tax (inv_lines v))"

lemma append_dimension_lines_run:
  assumes R: "redis_conforms R \<alpha>"
    and "w_redis w = Some r"
    and "list_all (\<lambda>(d, _). counter_at now (counter_key tid d ps) (\<alpha> r) = Some (used d)) cfgs"
  shows "\<exists>v' r'. append_dimension_lines R now tid ps cfgs v w = (Inr v', w\<lparr>w_redis := Some r'\<rparr>) \<and> \<alpha> r' = \<alpha> r \<and>
    (\<exists>ls. v' = v\<lparr>inv_lines := inv_lines v @ ls\<rparr>) \<and>
    subtotal v' = subtotal v + (\<Sum>(d, cfg) \<leftarrow> cfgs. billed_overage (used d) cfg) \<and>
    tax_total v' = tax_total v"
  using assms(2,3)
proof (induction cfgs arbitrary: v w r)
  case Nil
  have "append_dimension_lines R now tid ps [] v w = (Inr v, w\<lparr>w_redis := Some r\<rparr>)"
    using Nil by (cases w) simp
  moreover have "\<exists>ls. v = v\<lparr>inv_lines := inv_lines v @ ls\<rparr>" by (rule exI [of _ "[]"]) simp
  ultimately show ?case by (intro exI [of _ v] exI [of _ r] conjI) simp_all
next
  case (Cons dc cfgs)
  obtain d cfg where dc: "dc = (d, cfg)" by (cases dc)
  have c: "counter_at now (counter_key tid d ps) (\<alpha> r) = Some (used d)" using Cons.prems(2) dc by auto
  obtain r1 where g: "get_usage R now tid d ps w = (Inr (used d), w\<lparr>w_redis := Some r1\<rparr>)" and r1: "\<alpha> r1 = \<alpha> r"
    using get_usage_run [OF R Cons.prems(1) c] by blast
  let ?o = "compute_overage (used d) (included_quantity cfg) (unit_amount_cents cfg)"
  let ?line = "\<lparr>line_description = d @ '' overage ('' @ show_int (used d - included_quantity cfg) @
      '' units @ '' @ show_int (unit_amount_cents cfg) @ '' cents)'',
    line_quantity = Some (used d - included_quantity cfg), line_unit_amount_cents = Some (unit_amount_cents cfg),
    line_tax_rate_bps = Some 0, line_amount_cents = ?o\<rparr>"
  let ?v = "if ?o \<le> 0 then v else v\<lparr>inv_lines := inv_lines v @ [?line]\<rparr>"
  have amount: "compute_amount ?line = ?o" if "\<not> ?o \<le> 0"
    using overage_units [of "used d"] that by (simp add: compute_amount_def)
  have v: "subtotal ?v = subtotal v + billed_overage (used d) cfg" "tax_total ?v = tax_total v"
    using amount by (cases "?o \<le> 0"; simp add: subtotal_def tax_total_def billed_overage_def)+
  obtain ls where ls: "?v = v\<lparr>inv_lines := inv_lines v @ ls\<rparr>"
  proof (cases "?o \<le> 0")
    case True
    then show ?thesis by (intro that [of "[]"]) simp
  next
    case False
    then show ?thesis by (intro that [of "[?line]"]) simp
  qed
  obtain v' r' where IH: "append_dimension_lines R now tid ps cfgs ?v (w\<lparr>w_redis := Some r1\<rparr>) =
      (Inr v', w\<lparr>w_redis := Some r1\<rparr>\<lparr>w_redis := Some r'\<rparr>)" "\<alpha> r' = \<alpha> r1"
    "\<exists>ls'. v' = ?v\<lparr>inv_lines := inv_lines ?v @ ls'\<rparr>"
    "subtotal v' = subtotal ?v + (\<Sum>(d, cfg) \<leftarrow> cfgs. billed_overage (used d) cfg)"
    "tax_total v' = tax_total ?v"
    using Cons.IH [of "w\<lparr>w_redis := Some r1\<rparr>" r1 ?v] Cons.prems(2) r1
    by (fastforce simp del: if_split split_paired_All)
  have "append_dimension_lines R now tid ps (dc # cfgs) v w = (Inr v', w\<lparr>w_redis := Some r'\<rparr>)"
    using g IH(1) dc by (simp add: Let_def split: if_splits)
  moreover have "\<exists>ls. v' = v\<lparr>inv_lines := inv_lines v @ ls\<rparr>"
  proof -
    obtain ls' where "v' = ?v\<lparr>inv_lines := inv_lines ?v @ ls'\<rparr>" using IH(3) by blast
    then have "v' = v\<lparr>inv_lines := inv_lines v @ (ls @ ls')\<rparr>" unfolding ls by simp
    then show ?thesis by blast
  qed
  moreover have "subtotal v' = subtotal v + (\<Sum>(d, cfg) \<leftarrow> dc # cfgs. billed_overage (used d) cfg)"
    using IH(4) v(1) dc by simp
  ultimately show ?case using IH(2,5) r1 v(2) by (metis (no_types, lifting))
qed

text \<open>Reading usage touches the Redis client only, and never raises.\<close>

lemma get_usage_total: "\<exists>n r'. get_usage R now tid d ps w = (Inr n, w\<lparr>w_redis := r'\<rparr>)"
proof (cases "w_redis w")
  case None
  then have "get_usage R now tid d ps w = (Inr 0, w\<lparr>w_redis := None\<rparr>)" by (simp add: get_usage_def)
  then show ?thesis by blast
next
  case (Some r)
  obtain x r1 where "rd_get R now (counter_key tid d ps) r = (x, r1)" by fastforce
  then show ?thesis
    using Some by (cases x)
      (auto simp: get_usage_def tryM_def bindM_def redis_call_def split: option.splits)
qed

lemma append_dimension_lines_total:
  "\<exists>ls r'. append_dimension_lines R now tid ps cfgs v w =
    (Inr (v\<lparr>inv_lines := inv_lines v @ ls\<rparr>), w\<lparr>w_redis := r'\<rparr>)"
proof (induction cfgs arbitrary: v w)
  case Nil
  show ?case by (rule exI [of _ "[]"], rule exI [of _ "w_redis w"]) simp
next
  case (Cons dc cfgs)
  obtain d cfg where dc: "dc = (d, cfg)" by (cases dc)
  obtain n r1 where g: "get_usage R now tid d ps w = (Inr n, w\<lparr>w_redis := r1\<rparr>)"
    using get_usage_total by blast
  let ?o = "compute_overage n (included_quantity cfg) (unit_amount_cents cfg)"
  show ?case
  proof (cases "?o \<le> 0")
    case True
    obtain ls r' where "append_dimension_lines R now tid ps cfgs v (w\<lparr>w_redis := r1\<rparr>) =
      (Inr (v\<lparr>inv_lines := inv_lines v @ ls\<rparr>), w\<lparr>w_redis := r1\<rparr>\<lparr>w_redis := r'\<rparr>)"
      using Cons.IH by blast
    then show ?thesis using g dc True by (auto simp: Let_def)
  next
    case False
    let ?l = "\<lparr>line_description = d @ '' overage ('' @ show_int (n - included_quantity cfg) @
        '' units @ '' @ show_int (unit_amount_cents cfg) @ '' cents)'',
      line_quantity = Some (n - included_quantity cfg), line_unit_amount_cents = Some (unit_amount_cents cfg),
      line_tax_rate_bps = Some 0, line_amount_cents = ?o\<rparr>"
    obtain ls r' where "append_dimension_lines R now tid ps cfgs (v\<lparr>inv_lines := inv_lines v @ [?l]\<rparr>)
        (w\<lparr>w_redis := r1\<rparr>) =
      (Inr (v\<lparr>inv_lines := inv_lines v @ [?l]\<rparr>\<lparr>inv_lines :=
        inv_lines (v\<lparr>inv_lines := inv_lines v @ [?l]\<rparr>) @ ls\<rparr>), w\<lparr>w_redis := r1\<rparr>\<lparr>w_redis := r'\<rparr>)"
      using Cons.IH by blast
    then have "append_dimension_lines R now tid ps (dc # cfgs) v w =
      (Inr (v\<lparr>inv_lines := inv_lines v @ (?l # ls)\<rparr>), w\<lparr>w_redis := r'\<rparr>)"
      using g dc False by (simp add: Let_def)
    then show ?thesis by blast
  qed
qed

lemma append_metered_lines_total:
  "\<exists>ls r'. append_metered_lines R now v p tid ps w =
    (Inr (v\<lparr>inv_lines := inv_lines v @ ls\<rparr>), w\<lparr>w_redis := r'\<rparr>)"
proof (cases tid)
  case None
  show ?thesis
    by (rule exI [of _ "[]"], rule exI [of _ "w_redis w"]) (simp add: None append_metered_lines_def)
qed (use append_dimension_lines_total in \<open>auto simp: append_metered_lines_def\<close>)

section \<open>Period slots\<close>

lemma slot_rows_cases:
  assumes "unique_on slot_key t" "table_wf inv_id t"
  shows "(select_where (\<lambda>v. inv_subscription_id v = sid \<and> inv_period_start v = ps \<and>
      inv_status v \<in> BLOCKING_STATUSES) t = [] \<and> (\<forall>v \<in> set (t_rows t). slot_key v \<noteq> Some (sid, ps))) \<or>
    (\<exists>v \<in> set (t_rows t). select_where (\<lambda>v. inv_subscription_id v = sid \<and> inv_period_start v = ps \<and>
      inv_status v \<in> BLOCKING_STATUSES) t = [v] \<and> slot_key v = Some (sid, ps))"
proof -
  let ?P = "\<lambda>v. inv_subscription_id v = sid \<and> inv_period_start v = ps \<and> inv_status v \<in> BLOCKING_STATUSES"
  have P: "?P v \<longleftrightarrow> slot_key v = Some (sid, ps)" for v by (auto simp: slot_key_def)
  have d: "distinct (filter ?P (t_rows t))" using wf_distinct_rows [OF assms(2)] by simp
  have same: "x = y" if "x \<in> set (filter ?P (t_rows t))" "y \<in> set (filter ?P (t_rows t))" for x y
    using that unique_onD [OF assms(1), of x y "(sid, ps)"] wf_distinct_rows [OF assms(2)]
    by (simp add: P del: blocking_iff)
  show ?thesis
  proof (cases "filter ?P (t_rows t)")
    case Nil
    then show ?thesis
      unfolding select_where_def filter_empty_conv P [symmetric] by (intro disjI1 conjI) (auto simp: filter_empty_conv)
  next
    case (Cons v vs)
    then have "vs = []" using same [of v] d by (cases vs) (auto simp del: blocking_iff)
    moreover have "v \<in> set (filter ?P (t_rows t))" using Cons by simp
    ultimately show ?thesis using Cons P by (auto simp: select_where_def simp del: blocking_iff)
  qed
qed

lemma db_unique_add_invoice:
  assumes "db_unique d" "\<forall>v \<in> set (t_rows (invoices d)). slot_key v \<noteq> slot_key v0 \<or> slot_key v0 = None"
  shows "db_unique (invoices_update (insert_row (\<lambda>i r. r\<lparr>inv_id := i\<rparr>) v0) d)"
proof -
  have "slot_key (next_row (\<lambda>i r. r\<lparr>inv_id := i\<rparr>) v0 (invoices d)) = slot_key v0"
    by (simp add: slot_key_def next_row_def)
  then show ?thesis using assms by (auto simp: db_unique_def unique_on_insert)
qed

text \<open>Updates that keep the slot or release it keep the database's constraints.\<close>

lemma db_unique_save_invoice:
  assumes "db_unique d" "db_keys d" "v \<in> set (t_rows (invoices d))" "inv_id v' = inv_id v"
    and "slot_key v' = slot_key v \<or> slot_key v' = None"
  shows "db_unique (invoices_update (update_row inv_id v') d)"
proof -
  have wf: "table_wf inv_id (invoices d)" using assms(2) by (simp add: db_keys_def)
  have "unique_on slot_key (update_row inv_id v' (invoices d))"
  proof (rule unique_on_update)
    show "unique_on slot_key (invoices d)" using assms(1) by (simp add: db_unique_def)
    fix s assume "s \<in> set (t_rows (invoices d))" "inv_id s = inv_id v'"
    then have "s = v" using wf assms(3,4) distinct_key_unique [of inv_id "t_rows (invoices d)" s v]
      by (simp add: table_wf_def)
    then show "slot_key v' = None \<or> slot_key v' = slot_key s" using assms(5) by auto
  qed (rule wf)
  then show ?thesis using assms(1) by (simp add: db_unique_def)
qed

section \<open>Generation\<close>

text \<open>The rows that a successful generation adds.\<close>

lemma generate_invoice_ok:
  assumes "db_unique (w_db w)" "db_keys (w_db w)" "is_live sub" "ps < pe"
    and ps: "ps = (case p_start of None \<Rightarrow> sub_current_period_start sub | Some t \<Rightarrow> t)"
    and pe: "pe = (case p_end of None \<Rightarrow> sub_current_period_end sub | Some t \<Rightarrow> t)"
    and free: "\<forall>v \<in> set (t_rows (invoices (w_db w))). slot_key v \<noteq> Some (sub_id sub, ps)"
    and lines: "append_metered_lines R now (draft_invoice now sub p ps pe) p (sub_tenant_id sub) ps w =
      (Inr v, w\<lparr>w_redis := r'\<rparr>)" "v = (draft_invoice now sub p ps pe)\<lparr>inv_lines := ls\<rparr>"
  defines "v' \<equiv> next_row (\<lambda>i r. r\<lparr>inv_id := i\<rparr>) (apply_totals v) (invoices (w_db w))"
    and "d' \<equiv> invoices_update (insert_row (\<lambda>i r. r\<lparr>inv_id := i\<rparr>) (apply_totals v)) (w_db w)"
  shows "generate_invoice R now sub p p_start p_end w =
      (Inr v', w\<lparr>w_redis := r', w_db := d', w_committed := d'\<rparr>) \<and> db_unique d'"
proof -
  have wf: "unique_on slot_key (invoices (w_db w))" "table_wf inv_id (invoices (w_db w))"
    using assms(1,2) by (simp_all add: db_unique_def db_keys_def)
  have none: "find_blocking_for_period (sub_id sub) ps w = (Inr None, w)"
    using slot_rows_cases [OF wf, of "sub_id sub" ps] free
    by (auto simp: find_blocking_for_period_def simp del: blocking_iff)
  have "slot_key (apply_totals v) = Some (sub_id sub, ps)"
    by (simp add: lines(2) slot_key_def draft_invoice_def)
  then have uniq: "db_unique d'"
    unfolding d'_def using free by (intro db_unique_add_invoice [OF assms(1)]) simp
  have create: "crud_invoice_create (apply_totals v) [] (w\<lparr>w_redis := r'\<rparr>) =
      (Inr v', w\<lparr>w_redis := r', w_db := d', w_committed := d'\<rparr>)"
    using uniq by (simp add: crud_invoice_create_def commit_run v'_def d'_def)
  show ?thesis
    using assms(3,4) none lines(1) create uniq
    by (simp add: generate_invoice_def Let_def flip: ps pe)
qed

lemma generate_invoice_blocked:
  assumes "db_unique (w_db w)" "db_keys (w_db w)" "is_live sub" "ps < pe"
    and ps: "ps = (case p_start of None \<Rightarrow> sub_current_period_start sub | Some t \<Rightarrow> t)"
    and pe: "pe = (case p_end of None \<Rightarrow> sub_current_period_end sub | Some t \<Rightarrow> t)"
    and "v \<in> set (t_rows (invoices (w_db w)))" "slot_key v = Some (sub_id sub, ps)"
  shows "generate_invoice R now sub p p_start p_end w =
    (Inl (ConflictException (''Invoice '' @ invoice_number v @ '' already covers this period'')), w)"
proof -
  have wf: "unique_on slot_key (invoices (w_db w))" "table_wf inv_id (invoices (w_db w))"
    using assms(1,2) by (simp_all add: db_unique_def db_keys_def)
  have "find_blocking_for_period (sub_id sub) ps w = (Inr (Some v), w)"
    using slot_rows_cases [OF wf, of "sub_id sub" ps] assms(7,8)
      unique_onD [OF wf(1), of v _ "(sub_id sub, ps)"] wf_distinct_rows [OF wf(2)]
    by (fastforce simp: find_blocking_for_period_def simp del: blocking_iff)
  then show ?thesis
    using assms(3,4) by (simp add: generate_invoice_def Let_def flip: ps pe)
qed

section \<open>Lifecycle operations on a stored invoice\<close>

lemma invoice_found:
  "db_keys (w_db w) \<Longrightarrow> v \<in> set (t_rows (invoices (w_db w))) \<Longrightarrow> invoice_get (inv_id v) w = (Inr (Some v), w)"
  using inv_row.by_id [of "invoices (w_db w)" v] by (simp add: db_keys_def)

lemma issue_run:
  fixes now :: datetime
  assumes "db_unique (w_db w)" "db_keys (w_db w)" "v \<in> set (t_rows (invoices (w_db w)))"
  defines "d' \<equiv> invoices_update (update_row inv_id (v\<lparr>inv_status := OPEN, inv_issued_at := Some now\<rparr>)) (w_db w)"
  shows "issue now (inv_id v) w =
    (if inv_status v = DRAFT
     then (Inr (v\<lparr>inv_status := OPEN, inv_issued_at := Some now\<rparr>), w\<lparr>w_db := d', w_committed := d'\<rparr>)
     else (Inl (IllegalInvoiceTransitionError (inv_status_value (inv_status v)) ''open''), w))"
proof -
  have "inv_status v = DRAFT \<Longrightarrow> db_unique d'"
    unfolding d'_def by (rule db_unique_save_invoice [OF assms(1-3)]) (simp_all add: slot_key_def)
  then show ?thesis
    using invoice_found [OF assms(2,3)]
    by (cases "inv_status v")
      (simp_all add: issue_def assert_invoice_transition_def Let_def commit_run d'_def)
qed

lemma void_run:
  assumes "db_unique (w_db w)" "db_keys (w_db w)" "v \<in> set (t_rows (invoices (w_db w)))"
  defines "d' \<equiv> invoices_update (update_row inv_id (v\<lparr>inv_status := VOID\<rparr>)) (w_db w)"
  shows "void (inv_id v) w =
    (if inv_status v = DRAFT \<or> inv_status v = OPEN
     then (Inr (v\<lparr>inv_status := VOID\<rparr>), w\<lparr>w_db := d', w_committed := d'\<rparr>)
     else (Inl (IllegalInvoiceTransitionError (inv_status_value (inv_status v)) ''void''), w))"
    and "db_unique d'"
proof -
  show u: "db_unique d'"
    unfolding d'_def by (rule db_unique_save_invoice [OF assms(1-3)]) (simp_all add: slot_key_def)
  then show "void (inv_id v) w =
    (if inv_status v = DRAFT \<or> inv_status v = OPEN
     then (Inr (v\<lparr>inv_status := VOID\<rparr>), w\<lparr>w_db := d', w_committed := d'\<rparr>)
     else (Inl (IllegalInvoiceTransitionError (inv_status_value (inv_status v)) ''void''), w))"
    using invoice_found [OF assms(2,3)]
    by (cases "inv_status v")
      (simp_all add: void_def assert_invoice_transition_def Let_def commit_run d'_def)
qed

lemma db_keys_invoices:
  "db_keys d \<Longrightarrow> table_wf inv_id (f (invoices d)) \<Longrightarrow> db_keys (invoices_update f d)"
  by (simp add: db_keys_def)

lemma db_keys_save_invoice: "db_keys d \<Longrightarrow> db_keys (invoices_update (update_row inv_id v) d)"
  using inv_row.wf_update [of "invoices d" v] by (simp add: db_keys_def)

lemma db_keys_add_invoice:
  "db_keys d \<Longrightarrow> db_keys (invoices_update (insert_row (\<lambda>i r. r\<lparr>inv_id := i\<rparr>) v) d)"
  using inv_row.wf_insert [of "invoices d" v] by (simp add: db_keys_def)

section \<open>The sweep settles every due subscription\<close>

definition covered :: "db \<Rightarrow> subscription \<Rightarrow> bool" where
  "covered d s \<longleftrightarrow> (\<exists>v \<in> set (t_rows (invoices d)). slot_key v = Some (sub_id s, sub_current_period_start s))"

text \<open>Nothing is left to generate: the period has an invoice, or is empty, or the plan row is gone.\<close>

definition settled :: "db \<Rightarrow> subscription \<Rightarrow> bool" where
  "settled d s \<longleftrightarrow> covered d s \<or> sub_current_period_end s \<le> sub_current_period_start s \<or>
     (\<forall>p \<in> set (t_rows (plans d)). plan_id p \<noteq> sub_plan_id s)"

text \<open>How the database may evolve during a sweep.\<close>

definition sweep_evolves :: "db \<Rightarrow> db \<Rightarrow> bool" where
  "sweep_evolves d d' \<longleftrightarrow> plans d' = plans d \<and> subscriptions d' = subscriptions d \<and>
     (\<forall>s. covered d s \<longrightarrow> covered d' s)"

lemma sweep_evolves_trans: "sweep_evolves a b \<Longrightarrow> sweep_evolves b c \<Longrightarrow> sweep_evolves a c"
  by (simp add: sweep_evolves_def)

lemma settled_evolves: "settled d s \<Longrightarrow> sweep_evolves d d' \<Longrightarrow> settled d' s"
  by (auto simp: settled_def sweep_evolves_def)

lemma plan_get_cases:
  assumes "db_keys (w_db w)"
  obtains "plan_get i w = (Inr None, w)" "\<forall>p \<in> set (t_rows (plans (w_db w))). plan_id p \<noteq> i"
  | p where "plan_get i w = (Inr (Some p), w)" "p \<in> set (t_rows (plans (w_db w)))" "plan_id p = i"
proof (cases "\<exists>p \<in> set (t_rows (plans (w_db w))). plan_id p = i")
  case True
  then show ?thesis using plan_get_found [of w] assms that(2) by (auto simp: db_keys_def)
next
  case False
  then have "select_where (\<lambda>p. plan_id p = i) (plans (w_db w)) = []"
    by (auto simp: select_where_def filter_empty_conv)
  then show ?thesis using False that(1) by simp
qed

lemma find_blocking_covered:
  assumes "store_ok w"
  shows "covered (w_db w) s \<Longrightarrow> \<exists>v. find_blocking_for_period (sub_id s) (sub_current_period_start s) w = (Inr (Some v), w)"
    and "\<not> covered (w_db w) s \<Longrightarrow> find_blocking_for_period (sub_id s) (sub_current_period_start s) w = (Inr None, w)"
  using slot_rows_cases [of "invoices (w_db w)" "sub_id s" "sub_current_period_start s"] assms
  by (auto simp: store_ok_def db_unique_def db_keys_def covered_def find_blocking_for_period_def
      simp del: blocking_iff)

lemma sweep_settled:
  assumes "store_ok w" "settled (w_db w) s"
  shows "\<exists>st'. sweep_subscription R now s st w = (Inr st', w) \<and> gen_generated st' = gen_generated st"
proof -
  have k: "db_keys (w_db w)" using assms(1) by (simp add: store_ok_def)
  show ?thesis
  proof (rule plan_get_cases [OF k, of "sub_plan_id s"], goal_cases)
    case 1
    then show ?case by (simp add: sweep_subscription_def)
  next
    case (2 p)
    show ?case
    proof (cases "covered (w_db w) s")
      case True
      then show ?thesis
        using 2(1) find_blocking_covered(1) [OF assms(1) True]
        by (auto simp: sweep_subscription_def tryM_def bindM_def)
    next
      case False
      then have "sub_current_period_end s \<le> sub_current_period_start s"
        using assms(2) 2 by (auto simp: settled_def)
      then have "\<exists>e. generate_invoice R now s p None None w = (Inl e, w)"
        by (simp add: generate_invoice_def thenM_def bindM_def)
      then show ?thesis
        using 2(1) find_blocking_covered(2) [OF assms(1) False]
        by (auto simp: sweep_subscription_def tryM_def bindM_def)
    qed
  qed
qed

lemma sweep_generates:
  assumes ok: "store_ok w" and live: "is_live s" and "\<not> settled (w_db w) s"
  shows "\<exists>w'. sweep_subscription R now s st w =
      (Inr (st\<lparr>gen_generated := gen_generated st + 1\<rparr>), w') \<and>
    store_ok w' \<and> sweep_evolves (w_db w) (w_db w') \<and> covered (w_db w') s"
proof -
  let ?ps = "sub_current_period_start s" and ?pe = "sub_current_period_end s"
  have nc: "\<not> covered (w_db w) s" and per: "?ps < ?pe" using assms(3) by (auto simp: settled_def)
  have db: "db_unique (w_db w)" "db_keys (w_db w)" "w_committed w = w_db w" using ok by (simp_all add: store_ok_def)
  obtain p where p: "plan_get (sub_plan_id s) w = (Inr (Some p), w)"
    using assms(3) plan_get_cases [OF db(2), of "sub_plan_id s"] by (auto simp: settled_def)
  obtain ls r' where ls: "append_metered_lines R now (draft_invoice now s p ?ps ?pe) p (sub_tenant_id s) ?ps w =
      (Inr ((draft_invoice now s p ?ps ?pe)\<lparr>inv_lines := inv_lines (draft_invoice now s p ?ps ?pe) @ ls\<rparr>),
       w\<lparr>w_redis := r'\<rparr>)"
    using append_metered_lines_total by blast
  let ?v = "apply_totals ((draft_invoice now s p ?ps ?pe)\<lparr>inv_lines := inv_lines (draft_invoice now s p ?ps ?pe) @ ls\<rparr>)"
  define v' where "v' = next_row (\<lambda>i r. r\<lparr>inv_id := i\<rparr>) ?v (invoices (w_db w))"
  define d' where "d' = invoices_update (insert_row (\<lambda>i r. r\<lparr>inv_id := i\<rparr>) ?v) (w_db w)"
  define w1 where "w1 = w\<lparr>w_redis := r', w_db := d', w_committed := d'\<rparr>"
  have gen: "generate_invoice R now s p None None w = (Inr v', w1)" and u': "db_unique d'"
    using generate_invoice_ok [where p_start = None and p_end = None, OF db(1,2) live per _ _ _ ls refl] nc
    unfolding v'_def d'_def w1_def covered_def by simp_all
  have v': "inv_status v' = DRAFT" "slot_key v' = Some (sub_id s, ?ps)"
    by (simp_all add: v'_def next_row_def draft_invoice_def slot_key_def)
  have rows: "t_rows (invoices d') = t_rows (invoices (w_db w)) @ [v']"
    by (simp add: d'_def v'_def inv_row.rows_insert)
  have k': "db_keys d'" using db_keys_add_invoice [OF db(2)] by (simp add: d'_def)
  let ?v2 = "v'\<lparr>inv_status := OPEN, inv_issued_at := Some now\<rparr>"
  let ?d2 = "invoices_update (update_row inv_id ?v2) d'"
  have iss: "issue now (inv_id v') w1 = (Inr ?v2, w1\<lparr>w_db := ?d2, w_committed := ?d2\<rparr>)"
    using issue_run [of w1 v' now] u' k' rows v'(1) by (simp add: w1_def)
  have slot2: "slot_key ?v2 = slot_key v'" using v' by (auto simp: slot_key_def split: if_splits)
  have u2: "db_unique ?d2"
    using u' k' rows slot2 by (intro db_unique_save_invoice [of _ v']) simp_all
  have keep: "covered d' x \<Longrightarrow> covered ?d2 x" for x
  proof -
    assume "covered d' x"
    then obtain y where y: "y \<in> set (t_rows (invoices d'))" "slot_key y = Some (sub_id x, sub_current_period_start x)"
      by (auto simp: covered_def)
    show "covered ?d2 x"
    proof (cases "inv_id y = inv_id v'")
      case True
      then have "y = v'" using y(1) k' rows distinct_key_unique [of inv_id "t_rows (invoices d')" y v']
        by (simp add: db_keys_def table_wf_def)
      then have "?v2 \<in> set (t_rows (invoices ?d2))" "slot_key ?v2 = Some (sub_id x, sub_current_period_start x)"
        using y slot2 inv_row.update_in [of v' "invoices d'" ?v2] by simp_all
      then show ?thesis by (auto simp: covered_def)
    next
      case False
      then have "y \<in> set (t_rows (invoices ?d2))"
        using y(1) inv_row.update_keeps_other [of y "invoices d'" ?v2] by simp
      then show ?thesis using y(2) by (auto simp: covered_def)
    qed
  qed
  have cov': "covered d' s" "\<And>x. covered (w_db w) x \<Longrightarrow> covered d' x"
    using v'(2) by (auto simp: covered_def rows)
  have "sweep_subscription R now s st w = (Inr (st\<lparr>gen_generated := gen_generated st + 1\<rparr>),
      w1\<lparr>w_db := ?d2, w_committed := ?d2\<rparr>)"
    using p gen iss v'(1) find_blocking_covered(2) [OF ok nc]
    by (simp add: sweep_subscription_def tryM_def bindM_def thenM_def)
  moreover have "store_ok (w1\<lparr>w_db := ?d2, w_committed := ?d2\<rparr>)"
    using u2 db_keys_save_invoice [OF k'] by (simp add: store_ok_def)
  moreover have "sweep_evolves (w_db w) ?d2"
    using keep cov'(2) by (simp add: sweep_evolves_def d'_def)
  ultimately show ?thesis using keep [OF cov'(1)] by auto
qed

lemma sweep_step:
  assumes "store_ok w" "is_live s"
  shows "\<exists>st' w'. sweep_subscription R now s st w = (Inr st', w') \<and> store_ok w' \<and>
    sweep_evolves (w_db w) (w_db w') \<and> settled (w_db w') s \<and>
    (settled (w_db w) s \<longrightarrow> w' = w \<and> gen_generated st' = gen_generated st)"
proof (cases "settled (w_db w) s")
  case True
  then show ?thesis using sweep_settled [OF assms(1) True, of R now st] assms(1)
    by (auto simp: sweep_evolves_def)
next
  case False
  then show ?thesis using sweep_generates [OF assms False, of R now st] by (auto simp: settled_def)
qed

lemma sweep_all:
  "store_ok w \<Longrightarrow> list_all is_live subs \<Longrightarrow>
   \<exists>st' w'. sweep_subscriptions R now subs st w = (Inr st', w') \<and> store_ok w' \<and>
     sweep_evolves (w_db w) (w_db w') \<and> list_all (settled (w_db w')) subs \<and>
     (list_all (settled (w_db w)) subs \<longrightarrow> w' = w \<and> gen_generated st' = gen_generated st)"
proof (induction subs arbitrary: w st)
  case Nil
  then show ?case by (simp add: sweep_evolves_def)
next
  case (Cons s subs)
  obtain st1 w1 where 1: "sweep_subscription R now s st w = (Inr st1, w1)" "store_ok w1"
    "sweep_evolves (w_db w) (w_db w1)" "settled (w_db w1) s"
    "settled (w_db w) s \<longrightarrow> w1 = w \<and> gen_generated st1 = gen_generated st"
    using sweep_step [of w s R now st] Cons.prems by auto
  obtain st2 w2 where 2: "sweep_subscriptions R now subs st1 w1 = (Inr st2, w2)" "store_ok w2"
    "sweep_evolves (w_db w1) (w_db w2)" "list_all (settled (w_db w2)) subs"
    "list_all (settled (w_db w1)) subs \<longrightarrow> w2 = w1 \<and> gen_generated st2 = gen_generated st1"
    using Cons.IH [of w1 st1] 1(2) Cons.prems by auto
  show ?case
    using 1 2 sweep_evolves_trans [OF 1(3) 2(3)] settled_evolves [OF 1(4) 2(3)] by auto
qed

section \<open>Properties\<close>

text \<open>
  C22: what a generated invoice bills. For a live subscription whose period has no non-void invoice, on a
  database that satisfies its constraints and with readable usage counters, generation commits one new
  draft with a fresh key whose subtotal and total are the plan's price plus, for every metered dimension,
  the unit price times the units beyond the included quantity; the tax is zero. Hypothesis on the
  environment: Redis behaves as documented.
\<close>

theorem generated_invoice_total:
  assumes "redis_conforms R \<alpha>" and "w_redis w = Some r" and "db_unique (w_db w)" and "db_keys (w_db w)"
    and "is_live s" and "sub_tenant_id s = Some tid" and "sub_current_period_start s < sub_current_period_end s"
    and "\<not> covered (w_db w) s"
    and "list_all (\<lambda>(d, _). counter_at now (counter_key tid d (sub_current_period_start s)) (\<alpha> r) =
      Some (used d)) (extract_metering (plan_metering p))"
  shows "\<exists>v w'. generate_invoice R now s p None None w = (Inr v, w') \<and>
    inv_status v = DRAFT \<and> inv_tax_cents v = 0 \<and> inv_total_cents v = inv_subtotal_cents v \<and>
    inv_total_cents v = plan_price_cents p +
      (\<Sum>(d, cfg) \<leftarrow> extract_metering (plan_metering p).
         max 0 (max 0 (used d - included_quantity cfg) * unit_amount_cents cfg)) \<and>
    t_rows (invoices (w_db w')) = t_rows (invoices (w_db w)) @ [v] \<and>
    (\<forall>v' \<in> set (t_rows (invoices (w_db w))). inv_id v' \<noteq> inv_id v) \<and>
    w_committed w' = w_db w' \<and> db_unique (w_db w')"
proof -
  let ?ps = "sub_current_period_start s" and ?pe = "sub_current_period_end s"
  let ?draft = "draft_invoice now s p ?ps ?pe"
  obtain v r' where dim: "append_dimension_lines R now tid ?ps (extract_metering (plan_metering p)) ?draft w =
      (Inr v, w\<lparr>w_redis := Some r'\<rparr>)" and ex: "\<exists>ls. v = ?draft\<lparr>inv_lines := inv_lines ?draft @ ls\<rparr>"
    and st: "subtotal v = subtotal ?draft + (\<Sum>(d, cfg) \<leftarrow> extract_metering (plan_metering p). billed_overage (used d) cfg)"
    and tx: "tax_total v = tax_total ?draft"
    using append_dimension_lines_run [OF assms(1,2,9), of ?draft] by blast
  obtain ls where v: "v = ?draft\<lparr>inv_lines := inv_lines ?draft @ ls\<rparr>" using ex by blast
  have app: "append_metered_lines R now ?draft p (sub_tenant_id s) ?ps w = (Inr v, w\<lparr>w_redis := Some r'\<rparr>)"
    using dim assms(6) by (simp add: append_metered_lines_def)
  have draft: "subtotal ?draft = plan_price_cents p" "tax_total ?draft = 0"
    by (simp_all add: subtotal_def tax_total_def draft_invoice_def period_line_def compute_amount_def)
  let ?v = "next_row (\<lambda>i r. r\<lparr>inv_id := i\<rparr>) (apply_totals v) (invoices (w_db w))"
  let ?d = "invoices_update (insert_row (\<lambda>i r. r\<lparr>inv_id := i\<rparr>) (apply_totals v)) (w_db w)"
  have gen: "generate_invoice R now s p None None w = (Inr ?v, w\<lparr>w_redis := Some r', w_db := ?d, w_committed := ?d\<rparr>)"
    and u: "db_unique ?d"
    using generate_invoice_ok [where p_start = None and p_end = None, OF assms(3,4,5,7) _ _ _ app v] assms(8)
    unfolding covered_def by simp_all
  have totals: "inv_total_cents ?v = subtotal v + tax_total v" "inv_subtotal_cents ?v = subtotal v"
    "inv_tax_cents ?v = tax_total v"
    by (simp_all add: next_row_def apply_totals_def compute_totals_def subtotal_def tax_total_def)
  have "inv_status ?v = DRAFT" by (simp add: next_row_def v draft_invoice_def)
  moreover have "t_rows (invoices ?d) = t_rows (invoices (w_db w)) @ [?v]" by (simp add: inv_row.rows_insert)
  moreover have "\<forall>v' \<in> set (t_rows (invoices (w_db w))). inv_id v' \<noteq> inv_id ?v"
    using inv_row.insert_fresh [of "invoices (w_db w)" _ "apply_totals v"] assms(4) by (auto simp: db_keys_def)
  ultimately show ?thesis
    using gen u totals st tx draft by (simp add: billed_overage_def compute_overage_def Let_def)
qed

lemma sample_uncovered: "\<not> covered (w_db sample_world) sample_sub"
  by (simp add: covered_def sample_world_def sample_db_def empty_db_def empty_table_def)

theorem generated_invoice_total_witness:
  "\<exists>v w'. generate_invoice keyspace_redis 9 sample_sub sample_plan None None sample_world = (Inr v, w') \<and>
     inv_total_cents v = 2999"
  using generated_invoice_total [OF keyspace_conforms, where w = sample_world and r = Map.empty and
      s = sample_sub and tid = 7 and p = sample_plan and now = 9 and used = "\<lambda>_. 0"]
    sample_db_ok sample_uncovered
  by (auto simp: sample_world_def sample_sub_def new_subscription_def live_iff td_defs counter_at_def
      ks_lookup_def sample_plan_def extract_metering_def List.map_filter_simps jget_default_def)

text \<open>
  One non-void invoice per subscription period, and voiding releases the period. On a database that
  satisfies its constraints, generating an invoice for a live subscription's period that already has a
  non-void invoice is refused with 409 and changes nothing; when that invoice is voidable (draft or open),
  voiding it commits, and generation for the same period then succeeds.
\<close>

theorem period_slot:
  assumes "db_unique (w_db w)" and "db_keys (w_db w)" and "is_live s"
    and "sub_current_period_start s < sub_current_period_end s"
    and "v \<in> set (t_rows (invoices (w_db w)))" and "slot_key v = Some (sub_id s, sub_current_period_start s)"
  shows "generate_invoice R now s p None None w =
      (Inl (ConflictException (''Invoice '' @ invoice_number v @ '' already covers this period'')), w) \<and>
    (inv_status v \<noteq> PAID \<longrightarrow>
      (\<exists>w1 v2 w2. void (inv_id v) w = (Inr (v\<lparr>inv_status := VOID\<rparr>), w1) \<and> w_committed w1 = w_db w1 \<and>
        generate_invoice R now s p None None w1 = (Inr v2, w2) \<and> inv_status v2 = DRAFT))"
proof (intro conjI impI)
  show "generate_invoice R now s p None None w =
      (Inl (ConflictException (''Invoice '' @ invoice_number v @ '' already covers this period'')), w)"
    by (rule generate_invoice_blocked [OF assms(1-4) _ _ assms(5,6)]) simp_all
next
  assume "inv_status v \<noteq> PAID"
  let ?ps = "sub_current_period_start s" and ?pe = "sub_current_period_end s"
  let ?d = "invoices_update (update_row inv_id (v\<lparr>inv_status := VOID\<rparr>)) (w_db w)"
  let ?w = "w\<lparr>w_db := ?d, w_committed := ?d\<rparr>"
  have live: "inv_status v = DRAFT \<or> inv_status v = OPEN"
    using \<open>inv_status v \<noteq> PAID\<close> assms(6) by (cases "inv_status v") (simp_all add: slot_key_def)
  have v: "void (inv_id v) w = (Inr (v\<lparr>inv_status := VOID\<rparr>), ?w)" and u: "db_unique ?d"
    using void_run [OF assms(1,2,5)] live by simp_all
  have wf: "table_wf inv_id (invoices (w_db w))" "unique_on slot_key (invoices (w_db w))"
    using assms(1,2) by (simp_all add: db_keys_def db_unique_def)
  have free: "\<forall>x \<in> set (t_rows (invoices (w_db ?w))). slot_key x \<noteq> Some (sub_id s, ?ps)"
  proof
    fix x assume "x \<in> set (t_rows (invoices (w_db ?w)))"
    then have "x = v\<lparr>inv_status := VOID\<rparr> \<or> x \<in> set (t_rows (invoices (w_db w))) \<and> inv_id x \<noteq> inv_id v"
      using inv_row.update_cases [of x "v\<lparr>inv_status := VOID\<rparr>" "invoices (w_db w)"] by simp
    then show "slot_key x \<noteq> Some (sub_id s, ?ps)"
      using unique_onD [OF wf(2), of x v] assms(5,6) wf_distinct_rows [OF wf(1)]
      by (auto simp: slot_key_def split: if_splits)
  qed
  obtain ls r' where ls: "append_metered_lines R now (draft_invoice now s p ?ps ?pe) p (sub_tenant_id s) ?ps ?w =
      (Inr ((draft_invoice now s p ?ps ?pe)\<lparr>inv_lines := inv_lines (draft_invoice now s p ?ps ?pe) @ ls\<rparr>),
       ?w\<lparr>w_redis := r'\<rparr>)"
    using append_metered_lines_total by blast
  have "\<exists>v2 w2. generate_invoice R now s p None None ?w = (Inr v2, w2) \<and> inv_status v2 = DRAFT"
    using generate_invoice_ok [where p_start = None and p_end = None, OF _ _ assms(3,4) _ _ free ls refl]
      u db_keys_save_invoice [OF assms(2)] by (simp add: next_row_def draft_invoice_def)
  then show "\<exists>w1 v2 w2. void (inv_id v) w = (Inr (v\<lparr>inv_status := VOID\<rparr>), w1) \<and> w_committed w1 = w_db w1 \<and>
        generate_invoice R now s p None None w1 = (Inr v2, w2) \<and> inv_status v2 = DRAFT"
    using v by (intro exI [of _ ?w]) auto
qed

definition sample_invoice :: invoice where
  "sample_invoice = (apply_totals (draft_invoice 9 sample_sub sample_plan 0 (days_td 30)))\<lparr>inv_id := 1\<rparr>"

definition invoiced_world :: "keyspace world" where
  "invoiced_world = sample_world\<lparr>w_db := sample_db\<lparr>invoices := \<lparr>t_rows = [sample_invoice], t_seq = 1\<rparr>\<rparr>,
     w_committed := sample_db\<lparr>invoices := \<lparr>t_rows = [sample_invoice], t_seq = 1\<rparr>\<rparr>\<rparr>"

lemma invoiced_world_ok:
  "db_unique (w_db invoiced_world)" "db_keys (w_db invoiced_world)"
  "sample_invoice \<in> set (t_rows (invoices (w_db invoiced_world)))"
  "slot_key sample_invoice = Some (sub_id sample_sub, sub_current_period_start sample_sub)"
  "inv_status sample_invoice = DRAFT" "inv_id sample_invoice = 1" "inv_subscription_id sample_invoice = 1"
  using sample_db_ok
  by (auto simp: invoiced_world_def db_unique_def db_keys_def unique_on_def List.map_filter_simps table_wf_def
      sample_invoice_def draft_invoice_def slot_key_def sample_sub_def new_subscription_def split: option.splits)

theorem period_slot_witness:
  "\<exists>e. generate_invoice keyspace_redis 9 sample_sub sample_plan None None invoiced_world = (Inl (ConflictException e), invoiced_world)"
  using period_slot [OF invoiced_world_ok(1,2) _ _ invoiced_world_ok(3,4), of keyspace_redis 9 sample_plan]
  by (auto simp: sample_sub_def new_subscription_def live_iff td_defs)

text \<open>
  C8: the daily sweep is idempotent. Run on any database that satisfies its constraints (Redis may behave
  in any way), the sweep returns normally, keeps the constraints, commits its work and leaves the subscriptions and plans as they
  are; afterwards every due subscription is settled: an invoice that is not void covers its period, unless its period is
  empty or its plan does not exist. Repeated at the same
  instant it generates nothing and changes nothing in the database. Amounts are taken to fit their columns.
\<close>

theorem invoice_sweep_idempotent:
  assumes "store_ok w"
  shows "\<exists>st1 w1 st2 w2. generate_due_invoices R now w = (Inr st1, w1) \<and> store_ok w1 \<and>
    subscriptions (w_db w1) = subscriptions (w_db w) \<and> plans (w_db w1) = plans (w_db w) \<and>
    (\<forall>s \<in> set (t_rows (subscriptions (w_db w))). invoice_due now s \<longrightarrow> settled (w_db w1) s) \<and>
    generate_due_invoices R now w1 = (Inr st2, w2) \<and> gen_generated st2 = 0 \<and> w_db w2 = w_db w1"
proof -
  let ?st = "\<lparr>gen_generated = 0, gen_skipped = 0, gen_failed = 0\<rparr>"
  let ?subs = "filter (invoice_due now) (t_rows (subscriptions (w_db w)))"
  have live: "list_all is_live ?subs" by (auto simp: list_all_iff invoice_due_def is_live_def)
  obtain st1 w1 where 1: "sweep_subscriptions R now ?subs ?st w = (Inr st1, w1)" "store_ok w1"
    "sweep_evolves (w_db w) (w_db w1)" "list_all (settled (w_db w1)) ?subs"
    using sweep_all [OF assms live, of R now ?st] by blast
  have w1: "w1\<lparr>w_db := w_committed w1\<rparr> = w1" using 1(2) by (cases w1) (simp add: store_ok_def)
  have same: "filter (invoice_due now) (t_rows (subscriptions (w_db w1))) = ?subs"
    using 1(3) by (simp add: sweep_evolves_def)
  have run1: "generate_due_invoices R now w = (Inr st1, w1)"
    using 1(1) w1 by (simp add: generate_due_invoices_def with_session_def select_where_def)
  obtain st2 where 2: "sweep_subscriptions R now ?subs ?st w1 = (Inr st2, w1)" "gen_generated st2 = 0"
    using sweep_all [OF 1(2) live, of R now ?st] 1(4) by auto
  then have "generate_due_invoices R now w1 = (Inr st2, w1)"
    using w1 same by (simp add: generate_due_invoices_def with_session_def select_where_def)
  moreover have "subscriptions (w_db w1) = subscriptions (w_db w)" "plans (w_db w1) = plans (w_db w)" using 1(3) by (simp_all add: sweep_evolves_def)
  moreover have "\<forall>s \<in> set (t_rows (subscriptions (w_db w))). invoice_due now s \<longrightarrow> settled (w_db w1) s"
    using 1(4) by (simp add: list_all_iff)
  ultimately show ?thesis using run1 1(2) 2(2) by blast
qed

theorem invoice_sweep_idempotent_witness:
  "\<exists>st1 w1 st2 w2. generate_due_invoices keyspace_redis (days_td 31) sample_world = (Inr st1, w1) \<and>
    covered (w_db w1) sample_sub \<and>
    generate_due_invoices keyspace_redis (days_td 31) w1 = (Inr st2, w2) \<and> gen_generated st2 = 0"
proof -
  obtain st1 w1 st2 w2 where r: "generate_due_invoices keyspace_redis (days_td 31) sample_world = (Inr st1, w1)"
      "\<forall>s \<in> set (t_rows (subscriptions (w_db sample_world))). invoice_due (days_td 31) s \<longrightarrow> settled (w_db w1) s"
      "generate_due_invoices keyspace_redis (days_td 31) w1 = (Inr st2, w2)" "gen_generated st2 = 0" "plans (w_db w1) = plans (w_db sample_world)"
    using invoice_sweep_idempotent [OF sample_store_ok, of keyspace_redis "days_td 31"] by blast
  have "sample_sub \<in> set (t_rows (subscriptions (w_db sample_world)))" "invoice_due (days_td 31) sample_sub"
    "\<not> sub_current_period_end sample_sub \<le> sub_current_period_start sample_sub"
    "\<exists>p \<in> set (t_rows (plans (w_db w1))). plan_id p = sub_plan_id sample_sub"
    unfolding r(5) by (simp_all add: sample_defs invoice_due_def td_defs live_iff)
  then have "covered (w_db w1) sample_sub" using r(2) by (auto simp: settled_def)
  then show ?thesis using r(1,3,4) by blast
qed

text \<open>
  Invoice numbers identify invoices: two invoices with non-negative keys and the same number have the
  same primary key (and were created in the same year).
\<close>

theorem invoice_number_injective:
  assumes "invoice_number a = invoice_number b" and "0 \<le> inv_id a" and "0 \<le> inv_id b"
  shows "inv_id a = inv_id b \<and> dt_year (inv_created_at a) = dt_year (inv_created_at b)"
proof -
  have dash: "CHR ''-'' \<notin> set (pad_left 6 (show_nat n))" for n
    using sep_notin_show_nat [OF minus_not_digit] by (auto simp: pad_left_def)
  have eq: "show_int (dt_year (inv_created_at a)) @ CHR ''-'' # pad_left 6 (show_nat (nat (inv_id a))) =
    show_int (dt_year (inv_created_at b)) @ CHR ''-'' # pad_left 6 (show_nat (nat (inv_id b)))"
    using assms(1) by (simp add: invoice_number_def)
  show ?thesis using rsplit_unique [OF dash dash eq] assms(2,3) by (auto simp: pad_left_show_nat_inj)
qed

theorem invoice_number_injective_witness:
  "inv_id sample_invoice = inv_id (sample_invoice\<lparr>inv_status := PAID\<rparr>)"
  using invoice_number_injective [of sample_invoice "sample_invoice\<lparr>inv_status := PAID\<rparr>"] invoiced_world_ok(6)
  by (simp add: invoice_number_def)

text \<open>
  The invoice lifecycle. On a stored invoice and a database that satisfies its constraints, issuing
  succeeds exactly from draft, voiding exactly from draft and open; a refused operation raises the
  transition error and changes nothing. Following the guard, paid and void invoices never change again and
  a paid invoice was open before.
\<close>

theorem invoice_lifecycle:
  assumes "db_unique (w_db w)" and "db_keys (w_db w)" and "v \<in> set (t_rows (invoices (w_db w)))"
  shows "((\<exists>v' w'. issue now (inv_id v) w = (Inr v', w')) \<longleftrightarrow> inv_status v = DRAFT) \<and>
    ((\<exists>v' w'. void (inv_id v) w = (Inr v', w')) \<longleftrightarrow> inv_status v \<in> {DRAFT, OPEN}) \<and>
    (inv_status v \<noteq> DRAFT \<longrightarrow> issue now (inv_id v) w =
      (Inl (IllegalInvoiceTransitionError (inv_status_value (inv_status v)) ''open''), w)) \<and>
    (\<forall>st. (PAID, st) \<in> {(a, b). assert_invoice_transition a b = Inr ()}\<^sup>* \<longrightarrow> st = PAID) \<and>
    (\<forall>st. (VOID, st) \<in> {(a, b). assert_invoice_transition a b = Inr ()}\<^sup>* \<longrightarrow> st = VOID) \<and>
    (\<forall>st. assert_invoice_transition st PAID = Inr () \<longrightarrow> st = OPEN)"
proof -
  have steps: "{(a, b). assert_invoice_transition a b = Inr ()} = inv_machine.steps"
    by (simp add: inv_machine.steps_def)
  have paid: "st = OPEN" if "assert_invoice_transition st PAID = Inr ()" for st
    using that by (cases st) (simp_all add: assert_invoice_transition_def)
  show ?thesis
    using issue_run [OF assms, of now] void_run(1) [OF assms] paid
    unfolding steps by (auto dest: inv_machine.terminal_stuck)
qed

theorem invoice_lifecycle_witness: "\<exists>v' w'. issue 10 1 invoiced_world = (Inr v', w')"
  using invoice_lifecycle [OF invoiced_world_ok(1-3), of 10] invoiced_world_ok(5,6) by simp

text \<open>
  C6: Paying the open invoice of a past-due subscription recovers it. The invoice becomes paid, the
  subscription active with its dunning state cleared, both in one commit; no event is published when the
  caller passes no bus.
\<close>

theorem payment_recovers:
  assumes "db_unique (w_db w)" and "db_keys (w_db w)" and "v \<in> set (t_rows (invoices (w_db w)))"
    and "inv_status v = OPEN" and "s \<in> set (t_rows (subscriptions (w_db w)))"
    and "sub_id s = inv_subscription_id v" and "sub_status s = PAST_DUE"
  shows "\<exists>v' s' w'. mark_paid now (inv_id v) None w = (Inr v', w') \<and>
    inv_status v' = PAID \<and> inv_paid_at v' = Some now \<and> v' \<in> set (t_rows (invoices (w_committed w'))) \<and>
    s' \<in> set (t_rows (subscriptions (w_committed w'))) \<and> sub_id s' = sub_id s \<and>
    sub_status s' = ACTIVE \<and> \<not> is_dunning s' \<and> sub_next_retry_at s' = None \<and>
    w_committed w' = w_db w' \<and> w_bus w' = w_bus w"
proof -
  define v' where "v' = v\<lparr>inv_status := PAID, inv_paid_at := Some now\<rparr>"
  define s' where "s' = fst (reset_dunning (s\<lparr>sub_status := ACTIVE\<rparr>))"
  define d1 where "d1 = invoices_update (update_row inv_id v') (w_db w)"
  define d2 where "d2 = subscriptions_update (update_row sub_id s') d1"
  have u1: "db_unique d1"
    unfolding d1_def v'_def using assms(4)
    by (intro db_unique_save_invoice [OF assms(1-3)]) (simp_all add: slot_key_def)
  have k1: "db_keys d1" unfolding d1_def by (rule db_keys_save_invoice [OF assms(2)])
  have s1: "s \<in> set (t_rows (subscriptions d1))" using assms(5) by (simp add: d1_def)
  have s': "sub_status s' = ACTIVE" "sub_id s' = sub_id s" "\<not> is_dunning s'" "sub_next_retry_at s' = None"
    "live_key s' = live_key s" "sub_stripe_subscription_id s' = sub_stripe_subscription_id s"
    using assms(7) by (auto simp: s'_def reset_dunning_def is_dunning_def live_key_def live_iff)
  have u2: "db_unique d2"
    unfolding d2_def using s' by (intro db_unique_save_sub [OF u1 k1 s1]) simp_all
  have inv: "v' \<in> set (t_rows (invoices d2))"
    using inv_row.update_in [OF assms(3), of v'] by (simp add: d2_def d1_def v'_def)
  have sub: "s' \<in> set (t_rows (subscriptions d2))"
    using sub_row.update_in [OF s1, of s'] s'(2) by (simp add: d2_def)
  have get: "subscription_get (inv_subscription_id v) (w\<lparr>w_db := d1\<rparr>) = (Inr (Some s), w\<lparr>w_db := d1\<rparr>)"
    using sub_row.by_id [of "subscriptions d1" s] s1 k1 assms(6) by (simp add: subscription_get_def db_keys_def)
  have rec: "recover_subscription None s (w\<lparr>w_db := d1\<rparr>) = (Inr s', w\<lparr>w_db := d2\<rparr>)"
    using assms(7) s'(1) unfolding s'_def d2_def
    by (auto simp: recover_subscription_def assert_transition_def publish_to_recipients_def reset_dunning_def Let_def)
  have "mark_paid now (inv_id v) None w = (Inr v', w\<lparr>w_db := d2, w_committed := d2\<rparr>)"
    using invoice_found [OF assms(2,3)] assms(4,7) get rec u2
    by (simp add: mark_paid_def assert_invoice_transition_def Let_def is_dunning_def commit_run
        flip: v'_def d1_def)
  then show ?thesis using inv sub s' by (auto simp: v'_def)
qed

definition unpaid_world :: "keyspace world" where
  "unpaid_world = invoiced_world\<lparr>w_db := sample_db\<lparr>invoices := \<lparr>t_rows = [sample_invoice\<lparr>inv_status := OPEN\<rparr>], t_seq = 1\<rparr>,
     subscriptions := \<lparr>t_rows = [dunning_sub], t_seq = 1\<rparr>\<rparr>\<rparr>"

lemma unpaid_world_ok: "db_unique (w_db unpaid_world)" "db_keys (w_db unpaid_world)"
  using sample_db_ok
  by (auto simp: unpaid_world_def db_unique_def db_keys_def unique_on_def List.map_filter_simps table_wf_def
      invoiced_world_ok dunning_sub_def sample_sub_def new_subscription_def split: option.splits)

theorem payment_recovers_witness:
  "\<exists>v' w'. mark_paid 20 1 None unpaid_world = (Inr v', w') \<and> inv_status v' = PAID"
  using payment_recovers [OF unpaid_world_ok, of "sample_invoice\<lparr>inv_status := OPEN\<rparr>" dunning_sub 20]
  by (auto simp: unpaid_world_def invoiced_world_ok dunning_sub_def sample_sub_def new_subscription_def)

end
