(* ===== verification/Signing.thy ===== *)
theory Signing
  imports AppState
begin

text \<open>
  \<^verbatim>\<open>app/core/signing.py\<close>: the \<open>t=<timestamp>,v1=<signature>\<close> header over \<open>"{timestamp}.{body}"\<close>, used for
  outgoing webhooks and for the intake of Stripe webhooks.

  A body is its bytes (characters with codes below 256); \<^verbatim>\<open>body.decode()\<close> raises on bytes that are not
  UTF-8. The digest \<^verbatim>\<open>hmac.new(key, msg, sha256).hexdigest()\<close> is a parameter; the round trip uses only
  that it is a non-empty string of hexadecimal digits (\<open>hex_digests\<close>).
\<close>

section \<open>UTF-8\<close>

definition cont :: "nat \<Rightarrow> bool" where
  "cont b \<longleftrightarrow> 0x80 \<le> b \<and> b \<le> 0xBF"

fun utf8_ok :: "nat list \<Rightarrow> bool" where
  "utf8_ok [] = True"
| "utf8_ok (a # xs) =
     (if a < 0x80 then utf8_ok xs
      else if 0xC2 \<le> a \<and> a \<le> 0xDF
      then (case xs of b # ys \<Rightarrow> cont b \<and> utf8_ok ys | _ \<Rightarrow> False)
      else if 0xE0 \<le> a \<and> a \<le> 0xEF
      then (case xs of b # c # ys \<Rightarrow>
              cont b \<and> cont c \<and> (a = 0xE0 \<longrightarrow> 0xA0 \<le> b) \<and> (a = 0xED \<longrightarrow> b \<le> 0x9F) \<and> utf8_ok ys
            | _ \<Rightarrow> False)
      else if 0xF0 \<le> a \<and> a \<le> 0xF4
      then (case xs of b # c # d # ys \<Rightarrow>
              cont b \<and> cont c \<and> cont d \<and> (a = 0xF0 \<longrightarrow> 0x90 \<le> b) \<and> (a = 0xF4 \<longrightarrow> b \<le> 0x8F) \<and> utf8_ok ys
            | _ \<Rightarrow> False)
      else False)"

definition decodable :: "string \<Rightarrow> bool" where
  "decodable body \<longleftrightarrow> utf8_ok (map of_char body)"

definition is_ascii :: "string \<Rightarrow> bool" where
  "is_ascii s \<longleftrightarrow> list_all (\<lambda>c. (of_char c :: nat) < 128) s"

section \<open>Signing and verification\<close>

type_synonym hmac = "string \<Rightarrow> string \<Rightarrow> string"

definition sign_payload :: "hmac \<Rightarrow> string \<Rightarrow> string \<Rightarrow> int \<Rightarrow> exn + string" where
  "sign_payload hmac body secret timestamp =
     (if decodable body then Inr (hmac secret (show_int timestamp @ ''.'' @ body))
      else Inl (ValueError ''utf-8 codec cannot decode''))"

definition build_signature_header :: "hmac \<Rightarrow> string \<Rightarrow> string \<Rightarrow> int \<Rightarrow> exn + string" where
  "build_signature_header hmac body secret timestamp =
     (case sign_payload hmac body secret timestamp of Inl e \<Rightarrow> Inl e
      | Inr sig \<Rightarrow> Inr (''t='' @ show_int timestamp @ '',v1='' @ sig))"

text \<open>\<open>parts[key.strip()] = value.strip()\<close> for each item with an equals sign; later items win.\<close>

definition header_parts :: "string \<Rightarrow> (string \<times> string) list" where
  "header_parts header =
     fold (\<lambda>item parts. if CHR ''='' \<in> set item
                         then (let (k, v) = py_split1 CHR ''='' item in (py_strip k, py_strip v) # parts)
                         else parts) (py_split CHR '','' header) []"

text \<open>
  \<open>now\<close> is \<^verbatim>\<open>int(time.time())\<close>. \<^verbatim>\<open>hmac.compare_digest\<close> on strings raises \<open>TypeError\<close> for non-ASCII input.
\<close>

definition verify_signature_header ::
  "settings \<Rightarrow> hmac \<Rightarrow> int \<Rightarrow> string \<Rightarrow> string \<Rightarrow> string option \<Rightarrow> int option \<Rightarrow> exn + bool" where
  "verify_signature_header S hmac now body secret signature_header tolerance_seconds =
     (case signature_header of None \<Rightarrow> Inr False
      | Some header \<Rightarrow>
          if header = [] then Inr False
          else (case (map_of (header_parts header) ''t'', map_of (header_parts header) ''v1'') of
                  (Some timestamp_str, Some signature) \<Rightarrow>
                    if timestamp_str = [] \<or> signature = [] then Inr False
                    else (case py_int timestamp_str of None \<Rightarrow> Inr False
                          | Some timestamp \<Rightarrow>
                              let tolerance = (case tolerance_seconds of
                                     Some t \<Rightarrow> t | None \<Rightarrow> WEBHOOK_SIGNATURE_TOLERANCE_SECONDS S)
                              in if \<bar>now - timestamp\<bar> > tolerance then Inr False
                                 else (case sign_payload hmac body secret timestamp of Inl e \<Rightarrow> Inl e
                                       | Inr expected \<Rightarrow>
                                           if is_ascii expected \<and> is_ascii signature
                                           then Inr (expected = signature)
                                           else Inl (PyTypeError ''comparing strings with non-ASCII characters'')))
                | _ \<Rightarrow> Inr False))"

section \<open>Round trip\<close>

definition is_hex :: "char \<Rightarrow> bool" where
  "is_hex c \<longleftrightarrow> c \<in> set ''0123456789abcdef''"

definition hex_digests :: "hmac \<Rightarrow> bool" where
  "hex_digests hmac \<longleftrightarrow> (\<forall>k m. hmac k m \<noteq> [] \<and> list_all is_hex (hmac k m))"

lemma is_hex_plain: "is_hex c \<Longrightarrow> c \<noteq> CHR '','' \<and> c \<noteq> CHR ''='' \<and> \<not> is_space c \<and> (of_char c :: nat) < 128"
  unfolding is_hex_def by (simp, elim disjE) (simp_all add: is_space_def)

lemma hex_ascii: "list_all is_hex s \<Longrightarrow> is_ascii s"
  using is_hex_plain by (auto simp: list_all_iff is_ascii_def)

lemma hex_plain:
  "list_all is_hex s \<Longrightarrow> CHR '','' \<notin> set s" "list_all is_hex s \<Longrightarrow> c \<in> set s \<Longrightarrow> \<not> is_space c"
  using is_hex_plain by (auto simp: list_all_iff)

lemma show_int_plain: "CHR '','' \<notin> set (show_int i)"
  by (simp add: sep_notin_show_int is_digit_def)

lemma show_int_nonempty [simp]: "show_int i \<noteq> []"
  by (simp add: show_int_def)

lemma strip_hex: "list_all is_hex s \<Longrightarrow> py_strip s = s"
  using hex_plain(2) by (intro py_strip_no_space) blast

lemma header_parts_built:
  assumes "list_all is_hex sig"
  shows "header_parts (''t='' @ show_int ts @ '',v1='' @ sig) = [(''v1'', sig), (''t'', show_int ts)]"
proof -
  let ?a = "''t='' @ show_int ts" and ?b = "''v1='' @ sig"
  have ab: "CHR '','' \<notin> set ?a" "CHR '','' \<notin> set ?b"
    using hex_plain(1) [OF assms] show_int_plain [of ts] by auto
  have "py_split CHR '','' (?a @ CHR '','' # ?b) = [?a, ?b]"
    using py_split_append_sep [OF ab(1), of ?b] py_split_no_sep [OF ab(2)] by (simp only:)
  then have split: "py_split CHR '','' (''t='' @ show_int ts @ '',v1='' @ sig) = [?a, ?b]" by simp
  have "py_split1 CHR ''='' (''t'' @ CHR ''='' # show_int ts) = (''t'', show_int ts)"
    by (rule py_split1_append) simp
  moreover have "py_split1 CHR ''='' (''v1'' @ CHR ''='' # sig) = (''v1'', sig)"
    by (rule py_split1_append) simp
  moreover have "py_strip ''t'' = ''t''" "py_strip ''v1'' = ''v1''"
    by (rule py_strip_no_space, auto simp: is_space_def)+
  moreover have "py_strip (show_int ts) = show_int ts"
    by (rule py_strip_no_space) (rule show_int_no_space)
  ultimately show ?thesis unfolding header_parts_def split using strip_hex [OF assms] by simp
qed

lemma verify_parts:
  assumes "header_parts h = [(''v1'', sig), (''t'', show_int ts)]" "h \<noteq> []" "sig \<noteq> []" "is_ascii sig"
    "decodable body" "is_ascii (hmac secret (show_int ts @ ''.'' @ body))"
  shows "verify_signature_header S hmac now body secret (Some h) (Some tol) =
    Inr (\<bar>now - ts\<bar> \<le> tol \<and> hmac secret (show_int ts @ ''.'' @ body) = sig)"
  using assms by (simp add: verify_signature_header_def sign_payload_def Let_def)

section \<open>Properties\<close>

text \<open>
  Signature round trip. A header built for a body, a secret and a timestamp is accepted for that body
  and secret as long as the timestamp is within the tolerance, and rejected once it is older (or lies
  further ahead) than that. Hypotheses: the body is UTF-8 and digests are hexadecimal.
\<close>

theorem signature_roundtrip:
  assumes "hex_digests hmac" and "decodable body"
  shows "\<exists>h. build_signature_header hmac body secret ts = Inr h \<and>
    verify_signature_header S hmac now body secret (Some h) (Some tol) = Inr (\<bar>now - ts\<bar> \<le> tol)"
proof -
  let ?sig = "hmac secret (show_int ts @ ''.'' @ body)"
  let ?h = "''t='' @ show_int ts @ '',v1='' @ ?sig"
  have hex: "list_all is_hex ?sig" "?sig \<noteq> []" using assms(1) by (auto simp: hex_digests_def)
  have "build_signature_header hmac body secret ts = Inr ?h"
    using assms(2) by (simp add: build_signature_header_def sign_payload_def)
  moreover have "verify_signature_header S hmac now body secret (Some ?h) (Some tol) = Inr (\<bar>now - ts\<bar> \<le> tol)"
    using verify_parts [OF header_parts_built [OF hex(1)] _ hex(2) hex_ascii [OF hex(1)] assms(2)]
      hex_ascii [OF hex(1)] by simp
  ultimately show ?thesis by blast
qed

theorem signature_roundtrip_witness:
  "\<exists>h. build_signature_header (\<lambda>_ _. ''ab12'') ''{}'' ''whsec'' 100 = Inr h \<and>
    verify_signature_header default_settings (\<lambda>_ _. ''ab12'') 300 ''{}'' ''whsec'' (Some h) (Some 300) = Inr True"
  using signature_roundtrip [of "\<lambda>_ _. ''ab12''" "''{}''" "''whsec''" 100 default_settings 300 300]
  by (simp add: hex_digests_def is_hex_def decodable_def)

text \<open>
  An accepted header proves knowledge of the digest. Whenever verification answers yes, the header has a
  timestamp within the tolerance of the current time and its signature is the digest of exactly that
  timestamp and body under the secret.
\<close>

theorem verified_means_signed:
  assumes "verify_signature_header S hmac now body secret header (Some tol) = Inr True"
  shows "\<exists>h ts. header = Some h \<and> \<bar>now - ts\<bar> \<le> tol \<and>
    (\<exists>t. map_of (header_parts h) ''t'' = Some t \<and> py_int t = Some ts) \<and>
    map_of (header_parts h) ''v1'' = Some (hmac secret (show_int ts @ ''.'' @ body))"
  using assms
  by (auto simp: verify_signature_header_def sign_payload_def Let_def not_less
      split: option.splits if_splits sum.splits)

theorem verified_means_signed_witness:
  "\<exists>h ts. Some ''t=100,v1=ab12'' = Some h \<and> \<bar>300 - ts\<bar> \<le> (300 :: int) \<and>
    map_of (header_parts h) ''v1'' = Some ''ab12''"
proof -
  have "header_parts (''t='' @ show_int 100 @ '',v1='' @ ''ab12'') = [(''v1'', ''ab12''), (''t'', show_int 100)]"
    by (rule header_parts_built) (simp add: is_hex_def)
  then have "verify_signature_header default_settings (\<lambda>_ _. ''ab12'') 300 ''{}'' ''whsec''
      (Some (''t='' @ show_int 100 @ '',v1='' @ ''ab12'')) (Some 300) = Inr True"
    using verify_parts [of _ "''ab12''" 100 "''{}''" "\<lambda>_ _. ''ab12''"] by (simp add: decodable_def is_ascii_def)
  from verified_means_signed [OF this] show ?thesis
    by (simp add: show_int_def show_nat.simps digit_char_def) blast
qed

end
