(* ===== verification/StripeEvents.thy ===== *)
theory StripeEvents
  imports Signing Dunning
begin

text \<open>
  Inbound Stripe webhooks: \<^verbatim>\<open>app/billing/services/stripe_events.py\<close> and the intake endpoint
  \<^verbatim>\<open>stripe_webhook\<close> of \<^verbatim>\<open>app/billing/api/endpoints/stripe.py\<close>. A delivery is recorded in the ledger of event
  ids first (committed at once), then applied through the subscription state machine, then stamped.

  Parameters: \<open>hmac\<close> (see \<^verbatim>\<open>Signing\<close>), \<open>repr\<close> (the text of a JSON value that is not a string, used in
  identifiers and messages), \<open>json_loads\<close> (the JSON parser, \<open>None\<close> for a syntax error).
\<close>

section \<open>Values from Stripe objects\<close>

type_synonym jobj = "(string \<times> json) list"

fun STRIPE_STATUS_MAP :: "string \<Rightarrow> sub_status option" where
  "STRIPE_STATUS_MAP s =
     (if s = ''active'' then Some ACTIVE
      else if s = ''past_due'' then Some PAST_DUE
      else if s = ''canceled'' then Some CANCELED
      else if s = ''unpaid'' then Some PAST_DUE
      else None)"

text \<open>
  \<open>datetime.fromtimestamp(float(v), tz=UTC)\<close> for a positive number: the fraction of a second is rounded to
  microseconds; instants after the year 9999 raise \<open>ValueError\<close>.
\<close>

definition fromtimestamp :: "rat \<Rightarrow> exn + datetime" where
  "fromtimestamp v =
     (let x = fl v; t = \<lfloor>x\<rfloor>; us = round_half_even (fl ((x - of_int t) * 1000000))
      in if t < 253402300800 then Inr (t * 1000000 + us) else Inl (ValueError ''year is out of range''))"

definition to_dt :: "json \<Rightarrow> datetime \<Rightarrow> exn + datetime" where
  "to_dt value fallback =
     (case positive_number value of Some x \<Rightarrow> fromtimestamp x | None \<Rightarrow> Inr fallback)"

definition period_from_stripe :: "datetime \<Rightarrow> jobj \<Rightarrow> exn + (datetime \<times> datetime)" where
  "period_from_stripe now sub_obj =
     (case to_dt (jget sub_obj ''current_period_start'') now of Inl e \<Rightarrow> Inl e
      | Inr period_start \<Rightarrow>
          (case to_dt (jget sub_obj ''current_period_end'') (period_start + days_td 30) of Inl e \<Rightarrow> Inl e
           | Inr period_end \<Rightarrow> Inr (period_start, max period_end (period_start + minutes_td 1))))"

definition status_from_stripe :: "(json \<Rightarrow> string) \<Rightarrow> datetime \<Rightarrow> jobj \<Rightarrow> exn + sub_status" where
  "status_from_stripe repr now sub_obj =
     (let status = py_str repr (jget_default sub_obj ''status'' (JStr []))
      in if status = ''trialing''
         then (case positive_number (jget sub_obj ''trial_end'') of
                 None \<Rightarrow> Inr TRIALING
               | Some x \<Rightarrow> (case fromtimestamp x of Inl e \<Rightarrow> Inl e
                           | Inr trial_end \<Rightarrow> if trial_end \<le> now then Inr ACTIVE else Inr TRIALING))
         else (case STRIPE_STATUS_MAP status of
                 None \<Rightarrow> Inl (ValueError (''unmapped Stripe subscription status: '' @ repr (JStr status)))
               | Some st \<Rightarrow> Inr st))"

section \<open>The ledger\<close>

definition record_event :: "string \<Rightarrow> string \<Rightarrow> ('r, bool) app" where
  "record_event event_id event_type =
     bindM (select_one stripe_events (\<lambda>e. sev_event_id e = event_id)) (\<lambda>exists'.
       case exists' of Some _ \<Rightarrow> returnM False
       | None \<Rightarrow>
           bindM (add_stripe_event \<lparr>sev_id = 0, sev_event_id = event_id, sev_event_type = event_type,
                                     sev_payload = None, sev_processed_at = None\<rparr>) (\<lambda>_.
             tryM (thenM commit (returnM True))
               (\<lambda>e. if e = IntegrityError then thenM rollback (returnM False) else raiseM e)))"

definition mark_processed :: "datetime \<Rightarrow> string \<Rightarrow> ('r, unit) app" where
  "mark_processed now event_id =
     bindM (select_one stripe_events (\<lambda>e. sev_event_id e = event_id)) (\<lambda>row.
       case row of None \<Rightarrow> returnM ()
       | Some r \<Rightarrow> thenM (save_stripe_event (r\<lparr>sev_processed_at := Some now\<rparr>)) commit)"

definition get_subscription_by_stripe_id :: "string \<Rightarrow> ('r, subscription option) app" where
  "get_subscription_by_stripe_id stripe_id =
     select_one subscriptions (\<lambda>s. sub_stripe_subscription_id s = Some stripe_id)"

section \<open>Handlers\<close>

definition as_dict :: "json \<Rightarrow> exn + jobj" where
  "as_dict v = (case v of JObj d \<Rightarrow> Inr d | _ \<Rightarrow> Inl (PyTypeError ''object is not a mapping''))"

text \<open>\<open>int(str(v))\<close>\<close>

definition int_of_str :: "(json \<Rightarrow> string) \<Rightarrow> json \<Rightarrow> exn + int" where
  "int_of_str repr v =
     (case py_int (py_str repr v) of Some i \<Rightarrow> Inr i | None \<Rightarrow> Inl (ValueError ''invalid literal for int()''))"

text \<open>The status, period and trial end of a new subscription.\<close>

definition checkout_terms ::
  "(json \<Rightarrow> string) \<Rightarrow> datetime \<Rightarrow> json \<Rightarrow> exn + (sub_status \<times> datetime \<times> datetime \<times> datetime option)" where
  "checkout_terms repr now stripe_sub =
     (case stripe_sub of
        JObj d \<Rightarrow>
          (case status_from_stripe repr now d of Inl e \<Rightarrow> Inl e
           | Inr status \<Rightarrow>
               (case period_from_stripe now d of Inl e \<Rightarrow> Inl e
                | Inr (ps, pe) \<Rightarrow>
                    (case positive_number (jget d ''trial_end'') of
                       None \<Rightarrow> Inr (status, ps, pe, None)
                     | Some x \<Rightarrow> (case fromtimestamp x of Inl e \<Rightarrow> Inl e
                                 | Inr te \<Rightarrow> Inr (status, ps, pe, Some te)))))
      | _ \<Rightarrow> (case period_from_stripe now [] of Inl e \<Rightarrow> Inl e | Inr (ps, pe) \<Rightarrow> Inr (ACTIVE, ps, pe, None)))"

definition handle_checkout_completed ::
  "(json \<Rightarrow> string) \<Rightarrow> datetime \<Rightarrow> jobj \<Rightarrow> ('r, string) app" where
  "handle_checkout_completed repr now session_obj =
     (let metadata = (case jget session_obj ''metadata'' of JObj d \<Rightarrow> d | _ \<Rightarrow> []);
          tenant_raw = (if truthy (jget metadata ''tenant_id'') then jget metadata ''tenant_id''
                        else jget session_obj ''client_reference_id'');
          plan_raw = jget metadata ''plan_id''
      in case jget session_obj ''subscription'' of
           JStr stripe_sub_id \<Rightarrow>
             if tenant_raw = JNull \<or> plan_raw = JNull then returnM ''skipped''
             else bindM (liftM (int_of_str repr tenant_raw)) (\<lambda>tenant_id.
               bindM (liftM (int_of_str repr plan_raw)) (\<lambda>pid.
               bindM (plan_get pid) (\<lambda>plan_row.
                 case plan_row of None \<Rightarrow> returnM ''skipped''
                 | Some p \<Rightarrow>
                     bindM (get_live_for_tenant (Some tenant_id)) (\<lambda>existing.
                       case existing of
                         Some s \<Rightarrow>
                           if sub_stripe_subscription_id s = None
                           then thenM (save_sub (s\<lparr>sub_stripe_subscription_id := Some stripe_sub_id\<rparr>))
                                  (thenM commit (returnM ''linked''))
                           else returnM ''duplicate''
                       | None \<Rightarrow>
                           bindM (liftM (checkout_terms repr now (jget session_obj ''stripe_subscription_object'')))
                             (\<lambda>(status, ps, pe, te).
                               thenM (add_sub (new_subscription (Some tenant_id) (plan_id p) status ps pe te
                                                 (Some stripe_sub_id)))
                                 (thenM commit (returnM ''created'')))))))
         | _ \<Rightarrow> returnM ''skipped'')"

text \<open>The status change of a sync, with the guard of the state machine where the code calls it.\<close>

definition sync_status :: "datetime \<Rightarrow> sub_status \<Rightarrow> subscription \<Rightarrow> exn + subscription" where
  "sync_status now target s =
     (if target = CANCELED
      then (case assert_transition (sub_status s) CANCELED of Inl e \<Rightarrow> Inl e
            | Inr _ \<Rightarrow> Inr (s\<lparr>sub_canceled_at := Some now, sub_cancel_at_period_end := False,
                              sub_pending_plan_id := None, sub_status := CANCELED\<rparr>))
      else if target = PAST_DUE
      then (case assert_transition (sub_status s) PAST_DUE of Inl e \<Rightarrow> Inl e
            | Inr _ \<Rightarrow> Inr (s\<lparr>sub_status := PAST_DUE\<rparr>))
      else if target = ACTIVE
      then (case assert_transition (sub_status s) ACTIVE of Inl e \<Rightarrow> Inl e
            | Inr _ \<Rightarrow> Inr ((if sub_status s = PAST_DUE then fst (reset_dunning s) else s)\<lparr>sub_status := ACTIVE\<rparr>))
      else Inr (s\<lparr>sub_status := target\<rparr>))"

definition handle_subscription_sync ::
  "(json \<Rightarrow> string) \<Rightarrow> datetime \<Rightarrow> jobj \<Rightarrow> ('r, string) app" where
  "handle_subscription_sync repr now stripe_sub =
     bindM (get_subscription_by_stripe_id (py_str repr (jget_default stripe_sub ''id'' (JStr [])))) (\<lambda>r.
       case r of None \<Rightarrow> returnM ''unknown''
       | Some sub \<Rightarrow>
           bindM (liftM (status_from_stripe repr now stripe_sub)) (\<lambda>target.
             if target = sub_status sub then returnM ''unchanged''
             else bindM (liftM (sync_status now target sub)) (\<lambda>sub.
               thenM (save_sub sub)
                 (bindM (liftM (period_from_stripe now stripe_sub)) (\<lambda>(ps, pe).
                    thenM (save_sub (sub\<lparr>sub_current_period_start := ps, sub_current_period_end := pe\<rparr>))
                      (thenM (tryM commit (\<lambda>_. thenM rollback
                                 (raiseM (ConflictException ''subscription sync failed''))))
                        (returnM ''synced'')))))))"

definition handle_payment_failed ::
  "settings \<Rightarrow> bus option \<Rightarrow> datetime \<Rightarrow> jobj \<Rightarrow> ('r, string) app" where
  "handle_payment_failed S bus now invoice_obj =
     (case jget invoice_obj ''subscription'' of
        JStr raw \<Rightarrow>
          bindM (get_subscription_by_stripe_id raw) (\<lambda>r.
            case r of None \<Rightarrow> returnM ''unknown''
            | Some sub \<Rightarrow>
                thenM (record_payment_failure S bus now sub) (thenM commit (returnM ''past_due'')))
      | _ \<Rightarrow> returnM ''skipped'')"

definition event_object :: "jobj \<Rightarrow> json" where
  "event_object event =
     (case jget event ''data'' of
        JObj d \<Rightarrow> (if d = [] then JObj [] else jget_default d ''object'' (JObj []))
      | _ \<Rightarrow> JObj [])"

definition dispatch_event ::
  "settings \<Rightarrow> (json \<Rightarrow> string) \<Rightarrow> bus option \<Rightarrow> datetime \<Rightarrow> string \<Rightarrow> json \<Rightarrow> ('r, string) app" where
  "dispatch_event S repr bus now event_type inner =
     (if event_type = ''checkout.session.completed''
      then bindM (liftM (as_dict inner)) (handle_checkout_completed repr now)
      else if event_type = ''customer.subscription.updated''
      then bindM (liftM (as_dict inner)) (handle_subscription_sync repr now)
      else if event_type = ''customer.subscription.deleted''
      then bindM (liftM (as_dict inner)) (\<lambda>d.
             handle_subscription_sync repr now (jset d ''status'' (JStr ''canceled'')))
      else if event_type = ''invoice.payment_failed''
      then bindM (liftM (as_dict inner)) (handle_payment_failed S bus now)
      else returnM ''ignored'')"

definition process_event ::
  "settings \<Rightarrow> (json \<Rightarrow> string) \<Rightarrow> bus option \<Rightarrow> datetime \<Rightarrow> jobj \<Rightarrow> ('r, string) app" where
  "process_event S repr bus now event =
     (let event_id = py_str repr (jget_default event ''id'' (JStr []));
          event_type = py_str repr (jget_default event ''type'' (JStr []))
      in if event_id = [] \<or> event_type = [] then returnM ''invalid''
         else bindM (record_event event_id event_type) (\<lambda>is_new.
           if \<not> is_new then returnM ''duplicate''
           else bindM (dispatch_event S repr bus now event_type (event_object event)) (\<lambda>outcome.
                  thenM (mark_processed now event_id) (returnM outcome))))"

section \<open>The intake endpoint\<close>

definition stripe_configured :: "settings \<Rightarrow> bool" where
  "stripe_configured S \<longleftrightarrow> STRIPE_SECRET_KEY S \<noteq> []"

definition WEBHOOK_TOLERANCE_SECONDS :: int where
  "WEBHOOK_TOLERANCE_SECONDS = 300"

text \<open>A JSON response: its status code and its content.\<close>

record response =
  resp_status :: int
  resp_content :: jobj

definition detail_response :: "int \<Rightarrow> string \<Rightarrow> response" where
  "detail_response status detail = \<lparr>resp_status = status, resp_content = [(''detail'', JStr detail)]\<rparr>"

definition stripe_webhook ::
  "settings \<Rightarrow> hmac \<Rightarrow> (json \<Rightarrow> string) \<Rightarrow> (string \<Rightarrow> json option) \<Rightarrow> bus \<Rightarrow> datetime \<Rightarrow> string \<Rightarrow> string option
    \<Rightarrow> ('r, response) app" where
  "stripe_webhook S hmac repr json_loads bus now body signature =
     thenM (guardM (stripe_configured S) (HTTPException 503 ''Billing provider not configured''))
      (bindM (liftM (verify_signature_header S hmac (int_timestamp now) body (STRIPE_WEBHOOK_SECRET S)
                       signature (Some WEBHOOK_TOLERANCE_SECONDS))) (\<lambda>ok.
        if \<not> ok then returnM (detail_response 400 ''Invalid signature'')
        else case json_loads body of
               None \<Rightarrow> returnM (detail_response 400 ''Invalid JSON'')
             | Some v \<Rightarrow>
                 bindM (liftM (as_dict v)) (\<lambda>event.
                   if py_str repr (jget_default event ''id'' (JStr [])) = [] \<or>
                      py_str repr (jget_default event ''type'' (JStr [])) = []
                   then returnM (detail_response 400 ''Missing id/type'')
                   else bindM (tryM (process_event S repr (Some bus) now event)
                          (\<lambda>e. case e of IllegalTransitionError _ _ \<Rightarrow> returnM ''rejected''
                               | _ \<Rightarrow> returnM ''error'')) (\<lambda>outcome.
                     returnM \<lparr>resp_status = 200,
                              resp_content = [(''received'', JBool True), (''outcome'', JStr outcome)]\<rparr>))))"

section \<open>The ledger remembers\<close>

definition seen :: "string \<Rightarrow> db \<Rightarrow> bool" where
  "seen eid d \<longleftrightarrow> (\<exists>e \<in> set (t_rows (stripe_events d)). sev_event_id e = eid)"

text \<open>The event is recorded in what the session sees and in what is committed; the committed tables
  satisfy the constraints.\<close>

definition recorded :: "string \<Rightarrow> 'r world \<Rightarrow> bool" where
  "recorded eid w \<longleftrightarrow> seen eid (w_db w) \<and> seen eid (w_committed w) \<and> db_unique (w_committed w)"

lemma keeps_recorded_prims:
  "keeps (recorded eid) commit" "keeps (recorded eid) rollback"
  "keeps (recorded eid) (save_sub s)" "keeps (recorded eid) (add_sub s)"
  "keeps (recorded eid) (publish b e)"
  by (auto simp: keeps_def recorded_def seen_def commit_run publish_run)

lemma keeps_recorded_select: "keeps P (select_one tbl Q)" "keeps P (plan_get i)" "keeps P (get_live_for_tenant t)"
  by (simp_all add: keeps_def get_live_run)

lemma keeps_recorded_save_event:
  "keeps (recorded eid) (save_stripe_event (r\<lparr>sev_processed_at := Some now\<rparr>))" if "sev_event_id r = eid"
proof (rule keepsI)
  fix w :: "'a world" assume r: "recorded eid w"
  let ?r = "r\<lparr>sev_processed_at := Some now\<rparr>"
  obtain e where e: "e \<in> set (t_rows (stripe_events (w_db w)))" "sev_event_id e = eid"
    using r by (auto simp: recorded_def seen_def)
  have "\<exists>x \<in> set (t_rows (update_row sev_id ?r (stripe_events (w_db w)))). sev_event_id x = eid"
  proof (cases "sev_id e = sev_id ?r")
    case True
    then have "?r \<in> set (t_rows (update_row sev_id ?r (stripe_events (w_db w))))"
      using sev_row.update_in [OF e(1), of ?r] by simp
    then show ?thesis using that by (intro bexI [of _ ?r]) simp_all
  next
    case False
    then show ?thesis using sev_row.update_keeps_other [OF e(1) False] e(2) by blast
  qed
  then show "recorded eid (snd (save_stripe_event ?r w))" using r by (simp add: recorded_def seen_def)
qed

lemma keeps_case_json:
  assumes "keeps P a" "\<And>x. keeps P (b x)" "\<And>x. keeps P (c x)" "\<And>x. keeps P (d x)" "\<And>x. keeps P (e x)"
    "\<And>x. keeps P (f x)" "\<And>x. keeps P (g x)"
  shows "keeps P (case v of JNull \<Rightarrow> a | JBool x \<Rightarrow> b x | JInt x \<Rightarrow> c x | JFloat x \<Rightarrow> d x | JStr x \<Rightarrow> e x
    | JList x \<Rightarrow> f x | JObj x \<Rightarrow> g x)"
  using assms by (cases v) simp_all

lemmas keeps_recorded_intros = keeps_intros keeps_case_intros keeps_case_json keeps_recorded_prims
  keeps_recorded_select

lemma keeps_recorded_publish: "keeps (recorded eid) (publish_to_recipients b sfx s)"
  unfolding publish_to_recipients_def resolve_recipients_def select_all_def
  by (intro keeps_recorded_intros)

lemma keeps_recorded_failure: "keeps (recorded eid) (record_payment_failure S b now s)"
  unfolding record_payment_failure_def Let_def
  by (intro keeps_recorded_intros keeps_recorded_publish)

lemma keeps_recorded_checkout: "keeps (recorded eid) (handle_checkout_completed repr now d)"
  unfolding handle_checkout_completed_def Let_def by (intro keeps_recorded_intros)

lemma keeps_recorded_sync: "keeps (recorded eid) (handle_subscription_sync repr now d)"
  unfolding handle_subscription_sync_def get_subscription_by_stripe_id_def by (intro keeps_recorded_intros)

lemma keeps_recorded_payment: "keeps (recorded eid) (handle_payment_failed S b now d)"
  unfolding handle_payment_failed_def get_subscription_by_stripe_id_def
  by (intro keeps_recorded_intros keeps_recorded_failure)

lemma keeps_recorded_dispatch: "keeps (recorded eid) (dispatch_event S repr b now typ inner)"
  unfolding dispatch_event_def
  by (intro keeps_recorded_intros keeps_recorded_checkout keeps_recorded_sync keeps_recorded_payment)

lemma keeps_recorded_mark: "keeps (recorded eid) (mark_processed now eid)"
proof (rule keepsI)
  fix w :: "'a world" assume r: "recorded eid w"
  show "recorded eid (snd (mark_processed now eid w))"
  proof (cases "scalar_one_or_none (select_where (\<lambda>e. sev_event_id e = eid) (stripe_events (w_db w)))")
    case (Inr x)
    then show ?thesis
    proof (cases x)
      case (Some e)
      then have "select_where (\<lambda>e. sev_event_id e = eid) (stripe_events (w_db w)) = [e]"
        using Inr by (simp add: scalar_one_or_none_Some)
      then have "e \<in> set (select_where (\<lambda>e. sev_event_id e = eid) (stripe_events (w_db w)))" by simp
      then have "sev_event_id e = eid" by (simp add: select_where_iff)
      then have "keeps (recorded eid) (thenM (save_stripe_event (e\<lparr>sev_processed_at := Some now\<rparr>)) commit)"
        by (intro keeps_thenM keeps_recorded_save_event keeps_recorded_prims)
      from keepsD [OF this r] show ?thesis using Inr Some by (simp add: mark_processed_def)
    qed (use Inr r in \<open>simp add: mark_processed_def\<close>)
  qed (use r in \<open>simp add: mark_processed_def\<close>)
qed

lemma unique_event_rows:
  assumes "db_unique d"
  shows "select_where (\<lambda>e. sev_event_id e = eid) (stripe_events d) = [] \<and> \<not> seen eid d \<or>
    (\<exists>e. select_where (\<lambda>e. sev_event_id e = eid) (stripe_events d) = [e] \<and> seen eid d)"
proof -
  have mf: "List.map_filter (\<lambda>e. Some (sev_event_id e)) xs = map sev_event_id xs" for xs
    by (simp add: List.map_filter_def)
  have "distinct (List.map_filter (\<lambda>e. Some (sev_event_id e)) (t_rows (stripe_events d)))"
    using assms by (simp add: db_unique_def unique_on_def)
  then have d: "distinct (map sev_event_id (t_rows (stripe_events d)))" by (simp only: mf)
  show ?thesis
  proof (cases "\<exists>e \<in> set (t_rows (stripe_events d)). sev_event_id e = eid")
    case True
    then obtain e where e: "e \<in> set (t_rows (stripe_events d))" "sev_event_id e = eid" by blast
    then show ?thesis
      using distinct_filter_key [OF d e(1)] by (auto simp: select_where_def seen_def)
  next
    case False
    then show ?thesis by (auto simp: select_where_def seen_def filter_empty_conv)
  qed
qed

lemma record_event_seen:
  assumes "db_unique (w_db w)" "seen eid (w_db w)"
  shows "record_event eid typ w = (Inr False, w)"
  using unique_event_rows [OF assms(1), of eid] assms(2) by (auto simp: record_event_def)

lemma record_event_fresh:
  assumes "db_unique (w_db w)" "\<not> seen eid (w_db w)"
  shows "\<exists>w'. record_event eid typ w = (Inr True, w') \<and> recorded eid w'"
proof -
  let ?e = "\<lparr>sev_id = 0, sev_event_id = eid, sev_event_type = typ, sev_payload = None, sev_processed_at = None\<rparr>"
  let ?d = "stripe_events_update (insert_row (\<lambda>i r. r\<lparr>sev_id := i\<rparr>) ?e) (w_db w)"
  have "unique_on (\<lambda>e. Some (sev_event_id e)) (insert_row (\<lambda>i r. r\<lparr>sev_id := i\<rparr>) ?e (stripe_events (w_db w)))"
    using assms by (auto simp: unique_on_insert db_unique_def seen_def next_row_def)
  then have u: "db_unique ?d" using assms(1) by (simp add: db_unique_def)
  have "record_event eid typ w = (Inr True, w\<lparr>w_db := ?d, w_committed := ?d\<rparr>)"
    using unique_event_rows [OF assms(1), of eid] assms(2) u
    by (auto simp: record_event_def commit_run thenM_def bindM_def tryM_def)
  moreover have "seen eid ?d" by (simp add: seen_def insert_row_def)
  ultimately show ?thesis using u by (simp add: recorded_def)
qed

text \<open>After a delivery was processed in its own session, however that ended, the event is recorded.\<close>

lemma process_event_records:
  fixes event :: jobj and repr :: "json \<Rightarrow> string"
  assumes "db_unique (w_db w)" "w_committed w = w_db w"
  defines "eid \<equiv> py_str repr (jget_default event ''id'' (JStr []))"
    and "typ \<equiv> py_str repr (jget_default event ''type'' (JStr []))"
  assumes "eid \<noteq> []" "typ \<noteq> []"
  shows "recorded eid (snd (process_event S repr b now event w))"
proof (cases "seen eid (w_db w)")
  case True
  then have "record_event eid typ w = (Inr False, w)" by (rule record_event_seen [OF assms(1)])
  then show ?thesis
    using True assms(1,2,5,6) by (simp add: process_event_def Let_def recorded_def flip: eid_def typ_def)
next
  case False
  then obtain w1 where r: "record_event eid typ w = (Inr True, w1)" "recorded eid w1"
    using record_event_fresh [OF assms(1)] by blast
  have "keeps (recorded eid) (bindM (dispatch_event S repr b now typ (event_object event)) (\<lambda>outcome.
      thenM (mark_processed now eid) (returnM outcome)))"
    by (intro keeps_intros keeps_recorded_dispatch keeps_recorded_mark)
  from keepsD [OF this r(2)] show ?thesis
    using r(1) assms(5,6) by (simp add: process_event_def Let_def flip: eid_def typ_def)
qed

lemma process_event_duplicate:
  fixes event :: jobj
  assumes "db_unique (w_db w)" "seen (py_str repr (jget_default event ''id'' (JStr []))) (w_db w)"
    "py_str repr (jget_default event ''id'' (JStr [])) \<noteq> []" "py_str repr (jget_default event ''type'' (JStr [])) \<noteq> []"
  shows "process_event S repr b now event w = (Inr ''duplicate'', w)"
  using assms record_event_seen [OF assms(1,2)] by (simp add: process_event_def Let_def)

section \<open>Synchronisation\<close>

lemma sync_status_ok:
  assumes "sync_status now target s = Inr s'"
  shows "sub_status s' = target" "sub_id s' = sub_id s" "target = TRIALING \<or> target = SUSPENDED \<or> target \<in> ALLOWED_TRANSITIONS (sub_status s)"
  using assms
  by (auto simp: sync_status_def assert_transition_def reset_dunning_def split: if_splits sum.splits;
      cases target; auto)+

lemma period_nonempty: "period_from_stripe now d = Inr (ps, pe) \<Longrightarrow> ps + minutes_td 1 \<le> pe"
  by (auto simp: period_from_stripe_def split: sum.splits)

lemma status_not_suspended: "status_from_stripe repr now d = Inr st \<Longrightarrow> st \<noteq> SUSPENDED"
  by (auto simp: status_from_stripe_def Let_def split: if_splits option.splits sum.splits)

lemma sync_run:
  assumes "get_subscription_by_stripe_id (py_str repr (jget_default d ''id'' (JStr []))) w = (Inr (Some s), w)"
    and "status_from_stripe repr now d = Inr target" and "target \<noteq> sub_status s"
    and "sync_status now target s = Inr s1" and "period_from_stripe now d = Inr (ps, pe)"
    and "d' = subscriptions_update (update_row sub_id (s1\<lparr>sub_current_period_start := ps, sub_current_period_end := pe\<rparr>))
      (subscriptions_update (update_row sub_id s1) (w_db w))" and "db_unique d'"
  shows "handle_subscription_sync repr now d w = (Inr ''synced'', w\<lparr>w_db := d', w_committed := d'\<rparr>)"
  using assms unfolding handle_subscription_sync_def by (simp add: commit_run tryM_def thenM_def bindM_def)

section \<open>Properties\<close>

text \<open>
  C9: a replayed Stripe delivery is a no-op. After an event with an id and a type was processed in its own
  session, whatever became of it (applied, rejected by the state machine, failed in a handler or at the
  bus), a second delivery of the same event is answered \<open>duplicate\<close> and changes nothing.
\<close>

theorem stripe_replay_noop:
  fixes event :: jobj
  assumes "db_unique (w_db w)" and "w_committed w = w_db w"
    and "py_str repr (jget_default event ''id'' (JStr [])) \<noteq> []"
    and "py_str repr (jget_default event ''type'' (JStr [])) \<noteq> []"
    and "w1 = snd (with_session (process_event S repr b now event) w)"
  shows "process_event S' repr b' now' event w1 = (Inr ''duplicate'', w1)"
proof (rule process_event_duplicate [OF _ _ assms(3,4)])
  obtain r w2 where p: "process_event S repr b now event w = (r, w2)" by fastforce
  have "recorded (py_str repr (jget_default event ''id'' (JStr []))) w2"
    using process_event_records [OF assms(1,2) assms(3,4), of S b now] p by simp
  then show "db_unique (w_db w1)" "seen (py_str repr (jget_default event ''id'' (JStr []))) (w_db w1)"
    using p assms(5) by (simp_all add: with_session_run recorded_def)
qed

definition sample_event :: jobj where
  "sample_event = [(''id'', JStr ''evt_1''), (''type'', JStr ''customer.subscription.updated''),
     (''data'', JObj [(''object'', JObj [(''id'', JStr ''sub_1''), (''status'', JStr ''trialing'')])])]"

theorem stripe_replay_noop_witness:
  "\<exists>w1. w1 = snd (with_session (process_event default_settings (\<lambda>_. []) None 5 sample_event) sample_world) \<and>
     process_event default_settings (\<lambda>_. []) None 6 sample_event w1 = (Inr ''duplicate'', w1)"
  using stripe_replay_noop [OF _ _ _ _ refl, of sample_world "\<lambda>_. []" sample_event default_settings None 6
      default_settings None 5] sample_db_ok
  by (simp add: sample_world_def sample_event_def jget_default_def)

text \<open>
  The intake acknowledges every verified delivery. With Stripe configured, a body whose signature
  verifies and that parses to an object with an id and a type is answered with 200, whatever the handlers,
  the state machine and the bus do; a delivery whose signature does not verify is answered with 400 and
  changes nothing.
\<close>

theorem webhook_acknowledges:
  assumes "stripe_configured S"
    and "verify_signature_header S hmac (int_timestamp now) body (STRIPE_WEBHOOK_SECRET S) signature (Some 300) = Inr ok"
    and "json_loads body = Some (JObj event)"
    and "py_str repr (jget_default event ''id'' (JStr [])) \<noteq> []"
    and "py_str repr (jget_default event ''type'' (JStr [])) \<noteq> []"
  shows "\<exists>resp w'. stripe_webhook S hmac repr json_loads b now body signature w = (Inr resp, w') \<and>
    resp_status resp = (if ok then 200 else 400) \<and> (\<not> ok \<longrightarrow> w' = w)"
proof (cases ok)
  case True
  obtain r w' where p: "process_event S repr (Some b) now event w = (r, w')" by fastforce
  show ?thesis
    using assms True p
    by (cases r) (auto simp: stripe_webhook_def WEBHOOK_TOLERANCE_SECONDS_def as_dict_def bindM_def tryM_def
        split: exn.splits)
next
  case False
  then show ?thesis
    using assms by (simp add: stripe_webhook_def WEBHOOK_TOLERANCE_SECONDS_def detail_response_def)
qed

theorem webhook_acknowledges_witness:
  "\<exists>resp w'. stripe_webhook (default_settings\<lparr>STRIPE_SECRET_KEY := ''sk''\<rparr>) (\<lambda>_ _. ''ab'') (\<lambda>_. [])
      (\<lambda>_. Some (JObj sample_event)) (\<lambda>_. True) 0 ''{}'' None sample_world = (Inr resp, w') \<and>
    resp_status resp = 400"
  using webhook_acknowledges [of "default_settings\<lparr>STRIPE_SECRET_KEY := ''sk''\<rparr>" "\<lambda>_ _. ''ab''" 0 "''{}''" None False
      "\<lambda>_. Some (JObj sample_event)" sample_event "\<lambda>_. []" "\<lambda>_. True" sample_world]
  by (auto simp: stripe_configured_def verify_signature_header_def sample_event_def jget_default_def)

text \<open>
  What a successful sync does. When a \<open>customer.subscription\<close> sync answers \<open>synced\<close>, the local row with
  that Stripe id has a new status that the state machine allows from its old one (or it is \<open>trialing\<close>, see
  the next property), its new period is at least a minute long, and the change is committed.
\<close>

theorem sync_follows_machine:
  assumes "handle_subscription_sync repr now d w = (Inr ''synced'', w')"
  shows "\<exists>s s'. s \<in> set (t_rows (subscriptions (w_db w))) \<and>
    sub_stripe_subscription_id s = Some (py_str repr (jget_default d ''id'' (JStr []))) \<and>
    s' \<in> set (t_rows (subscriptions (w_committed w'))) \<and> sub_id s' = sub_id s \<and>
    (sub_status s' = TRIALING \<or> sub_status s' \<in> ALLOWED_TRANSITIONS (sub_status s)) \<and>
    sub_current_period_start s' + minutes_td 1 \<le> sub_current_period_end s'"
proof -
  let ?sid = "py_str repr (jget_default d ''id'' (JStr []))"
  obtain s where sel: "select_where (\<lambda>s. sub_stripe_subscription_id s = Some ?sid) (subscriptions (w_db w)) = [s]"
    using assms by (auto simp: handle_subscription_sync_def get_subscription_by_stripe_id_def
        io_inversions scalar_one_or_none_Some split: option.splits)
  then have "s \<in> set (select_where (\<lambda>s. sub_stripe_subscription_id s = Some ?sid) (subscriptions (w_db w)))" by simp
  then have s: "s \<in> set (t_rows (subscriptions (w_db w)))" "sub_stripe_subscription_id s = Some ?sid"
    by (simp_all add: select_where_iff)
  obtain target s1 ps pe where t: "status_from_stripe repr now d = Inr target"
    and s1: "sync_status now target s = Inr s1" and p: "period_from_stripe now d = Inr (ps, pe)"
    and w': "w_committed w' = subscriptions_update (update_row sub_id
        (s1\<lparr>sub_current_period_start := ps, sub_current_period_end := pe\<rparr>))
        (subscriptions_update (update_row sub_id s1) (w_db w))"
    using assms sel
    by (auto simp: handle_subscription_sync_def get_subscription_by_stripe_id_def io_inversions commit_run
        tryM_def split: if_splits prod.splits sum.splits)
  let ?s2 = "s1\<lparr>sub_current_period_start := ps, sub_current_period_end := pe\<rparr>"
  have ids: "sub_id s1 = sub_id s" "sub_status s1 = target"
    "target = TRIALING \<or> target \<in> ALLOWED_TRANSITIONS (sub_status s)"
    using sync_status_ok [OF s1] status_not_suspended [OF t] by auto
  have "s1 \<in> set (t_rows (update_row sub_id s1 (subscriptions (w_db w))))"
    using sub_row.update_in [OF s(1), of s1] ids by simp
  then have "?s2 \<in> set (t_rows (update_row sub_id ?s2 (update_row sub_id s1 (subscriptions (w_db w)))))"
    using sub_row.update_in [of s1 _ ?s2] by simp
  then show ?thesis using s ids period_nonempty [OF p] w' by (intro exI [of _ s] exI [of _ ?s2]) simp
qed

lemma sample_sync:
  "fst (handle_subscription_sync (\<lambda>_. []) 5 [(''id'', JStr ''sub_1''), (''status'', JStr ''past_due'')] sample_world) =
    Inr ''synced''"
proof -
  let ?d = "[(''id'', JStr ''sub_1''), (''status'', JStr ''past_due'')] :: jobj"
  define s1 where "s1 = sample_sub\<lparr>sub_status := PAST_DUE\<rparr>"
  define s2 where "s2 = s1\<lparr>sub_current_period_start := 5, sub_current_period_end := 5 + days_td 30\<rparr>"
  have get: "get_subscription_by_stripe_id ''sub_1'' sample_world = (Inr (Some sample_sub), sample_world)"
    by (simp add: get_subscription_by_stripe_id_def select_where_def sample_defs)
  have st: "status_from_stripe (\<lambda>_. []) 5 ?d = Inr PAST_DUE" "period_from_stripe 5 ?d = Inr (5, 5 + days_td 30)"
    "py_str (\<lambda>_. []) (jget_default ?d ''id'' (JStr [])) = ''sub_1''"
    by (simp_all add: status_from_stripe_def period_from_stripe_def to_dt_def jget_default_def jget_def td_defs)
  have sy: "sync_status 5 PAST_DUE sample_sub = Inr s1" "PAST_DUE \<noteq> sub_status sample_sub"
    by (simp_all add: sync_status_def assert_transition_def sample_sub_def new_subscription_def s1_def)
  have mem: "sample_sub \<in> set (t_rows (subscriptions sample_db))" by (simp add: sample_db_def)
  have live: "live_key s1 = live_key sample_sub" "live_key s2 = live_key s1"
    by (simp_all add: s2_def s1_def live_key_def live_iff sample_sub_def new_subscription_def)
  have u1: "db_unique (subscriptions_update (update_row sub_id s1) sample_db)"
    using live by (intro db_unique_save_sub [OF sample_db_ok mem]) (simp_all add: s1_def)
  have mem1: "s1 \<in> set (t_rows (subscriptions (subscriptions_update (update_row sub_id s1) sample_db)))"
    using sub_row.update_in [OF mem, of s1] by (simp add: s1_def)
  have "db_unique (subscriptions_update (update_row sub_id s2) (subscriptions_update (update_row sub_id s1) sample_db))"
    using live by (intro db_unique_save_sub [OF u1 db_keys_save_sub [OF sample_db_ok(2)] mem1]) (simp_all add: s2_def)
  moreover have "w_db sample_world = sample_db" by (simp add: sample_world_def)
  ultimately have "\<exists>w'. handle_subscription_sync (\<lambda>_. []) 5 ?d sample_world = (Inr ''synced'', w')"
    using sync_run [OF _ st(1) sy(2) sy(1) st(2) refl, of sample_world] get st(3) by (simp add: s2_def)
  then show ?thesis by auto
qed

theorem sync_follows_machine_witness:
  "\<exists>s' w'. handle_subscription_sync (\<lambda>_. []) 5 [(''id'', JStr ''sub_1''), (''status'', JStr ''past_due'')]
      sample_world = (Inr ''synced'', w') \<and> s' \<in> set (t_rows (subscriptions (w_committed w'))) \<and>
    sub_current_period_start s' + minutes_td 1 \<le> sub_current_period_end s'"
proof -
  obtain w' where run: "handle_subscription_sync (\<lambda>_. []) 5 [(''id'', JStr ''sub_1''), (''status'', JStr ''past_due'')]
      sample_world = (Inr ''synced'', w')"
    using sample_sync by (metis eq_fst_iff)
  from sync_follows_machine [OF run] show ?thesis using run by auto
qed

text \<open>
  A \<open>trialing\<close> sync bypasses the state machine. The status documentation calls canceled and suspended
  terminal and says that transitions are enforced; a sync whose target is \<open>trialing\<close> (with no trial end)
  puts a canceled or suspended subscription back into a live status and commits it.
\<close>

theorem trialing_sync_revives:
  assumes "db_unique (w_db w)" and "db_keys (w_db w)" and "s \<in> set (t_rows (subscriptions (w_db w)))"
    and "sub_stripe_subscription_id s = Some sid" and "\<not> is_live s"
    and "\<And>x. x \<in> set (t_rows (subscriptions (w_db w))) \<Longrightarrow> sub_tenant_id x = sub_tenant_id s \<Longrightarrow> \<not> is_live x"
  shows "\<exists>s' w'. handle_subscription_sync repr now [(''id'', JStr sid), (''status'', JStr ''trialing'')] w =
      (Inr ''synced'', w') \<and>
    s' \<in> set (t_rows (subscriptions (w_committed w'))) \<and> sub_id s' = sub_id s \<and> sub_status s' = TRIALING"
proof -
  let ?d = "[(''id'', JStr sid), (''status'', JStr ''trialing'')] :: jobj"
  define s1 where "s1 = s\<lparr>sub_status := TRIALING\<rparr>"
  define s2 where "s2 = s1\<lparr>sub_current_period_start := now, sub_current_period_end := now + days_td 30\<rparr>"
  define d1 where "d1 = subscriptions_update (update_row sub_id s1) (w_db w)"
  define d2 where "d2 = subscriptions_update (update_row sub_id s2) d1"
  have wf: "table_wf sub_id (subscriptions (w_db w))" using assms(2) by (simp add: db_keys_def)
  have only: "x = s" if "x \<in> set (t_rows (subscriptions (w_db w)))" "sub_stripe_subscription_id x = Some sid" for x
    using that assms(1,3,4) wf_distinct_rows [OF wf] by (auto simp: db_unique_def dest: unique_onD)
  have "filter (\<lambda>x. sub_stripe_subscription_id x = Some sid) (t_rows (subscriptions (w_db w))) =
    filter (\<lambda>x. sub_id x = sub_id s) (t_rows (subscriptions (w_db w)))"
    using only sub_by_id_unique [OF assms(2,3)] assms(4) by (intro filter_cong) auto
  then have "filter (\<lambda>x. sub_stripe_subscription_id x = Some sid) (t_rows (subscriptions (w_db w))) = [s]"
    using distinct_filter_key [of sub_id _ s] wf assms(3) by (simp add: table_wf_def)
  then have get: "get_subscription_by_stripe_id sid w = (Inr (Some s), w)"
    by (simp add: get_subscription_by_stripe_id_def select_where_def)
  have rows: "t_rows (subscriptions d2) =
    map (\<lambda>x. if sub_id x = sub_id s then s2 else x) (t_rows (subscriptions (w_db w)))"
    by (simp add: d2_def d1_def update_row_def s2_def s1_def comp_def)
  have in1: "s1 \<in> set (t_rows (subscriptions d1))"
    using sub_row.update_in [OF assms(3), of s1] by (simp add: d1_def s1_def)
  have stripe: "x = s" if "x \<in> set (t_rows (subscriptions (w_db w)))"
    "sub_stripe_subscription_id x = sub_stripe_subscription_id s" for x
    using that only assms(4) by simp
  have lk: "live_key s1 = sub_tenant_id s" "live_key s2 = sub_tenant_id s"
    by (simp_all add: s2_def s1_def live_key_def live_iff)
  have others: "live_key x \<noteq> Some t" if "x \<in> set (t_rows (subscriptions (w_db w)))" "sub_tenant_id s = Some t" for x t
    using that assms(6) [of x] by (auto simp: live_key_def)
  have u1: "db_unique d1"
    unfolding d1_def
  proof (rule db_unique_save_sub_fresh [OF assms(1,2)])
    fix x t assume "x \<in> set (t_rows (subscriptions (w_db w)))" "live_key s1 = Some t"
    then show "live_key x \<noteq> Some t" using others lk by simp
  next
    fix x i assume x: "x \<in> set (t_rows (subscriptions (w_db w)))" "sub_id x \<noteq> sub_id s1"
      "sub_stripe_subscription_id s1 = Some i"
    then show "sub_stripe_subscription_id x \<noteq> Some i" using stripe [of x] by (auto simp: s1_def)
  qed
  have k1: "db_keys d1" unfolding d1_def by (rule db_keys_save_sub [OF assms(2)])
  have u: "db_unique d2"
    unfolding d2_def by (rule db_unique_save_sub [OF u1 k1 in1]) (simp_all add: lk, simp_all add: s2_def)
  have st: "status_from_stripe repr now ?d = Inr TRIALING" "period_from_stripe now ?d = Inr (now, now + days_td 30)"
    "py_str repr (jget_default ?d ''id'' (JStr [])) = sid"
    by (simp_all add: status_from_stripe_def period_from_stripe_def to_dt_def jget_default_def jget_def td_defs)
  have "TRIALING \<noteq> sub_status s" "sync_status now TRIALING s = Inr s1"
    using assms(5) by (auto simp: live_iff sync_status_def s1_def)
  then have "handle_subscription_sync repr now ?d w = (Inr ''synced'', w\<lparr>w_db := d2, w_committed := d2\<rparr>)"
    using get st u by (intro sync_run [OF _ st(1) _ _ st(2)]) (simp_all add: d2_def d1_def s2_def)
  moreover have "s2 \<in> set (t_rows (subscriptions d2))"
    using sub_row.update_in [OF in1, of s2] by (simp add: d2_def s2_def)
  ultimately show ?thesis by (intro exI [of _ s2]) (simp add: s2_def s1_def)
qed

definition canceled_world :: "keyspace world" where
  "canceled_world = sample_world\<lparr>w_db := sample_db\<lparr>subscriptions :=
     \<lparr>t_rows = [sample_sub\<lparr>sub_status := CANCELED\<rparr>], t_seq = 1\<rparr>\<rparr>\<rparr>"

theorem trialing_sync_revives_witness:
  "\<exists>s' w'. handle_subscription_sync (\<lambda>_. []) 5 [(''id'', JStr ''sub_1''), (''status'', JStr ''trialing'')]
      canceled_world = (Inr ''synced'', w') \<and>
    s' \<in> set (t_rows (subscriptions (w_committed w'))) \<and> sub_status s' = TRIALING"
proof -
  have "db_unique (w_db canceled_world)" "db_keys (w_db canceled_world)"
    using sample_db_ok
    by (auto simp: canceled_world_def db_unique_def db_keys_def unique_on_def List.map_filter_simps table_wf_def
        live_key_def live_iff sample_sub_def new_subscription_def)
  from trialing_sync_revives [OF this, of "sample_sub\<lparr>sub_status := CANCELED\<rparr>" "''sub_1''" "\<lambda>_. []" 5]
  show ?thesis
    by (auto simp: canceled_world_def live_iff sample_sub_def new_subscription_def)
qed

text \<open>
  An empty webhook secret leaves the intake open. The setting's description says that an empty
  \<^verbatim>\<open>STRIPE_WEBHOOK_SECRET\<close> disables the webhook intake; the endpoint only tests the API key, so with an
  empty secret a header that anyone can compute (the digest under the empty key) is accepted and the event
  is processed with a 200 answer.
\<close>

theorem webhook_empty_secret_forgeable:
  assumes "stripe_configured S" and "STRIPE_WEBHOOK_SECRET S = []" and "hex_digests hmac" and "decodable body"
    and "json_loads body = Some (JObj event)"
    and "py_str repr (jget_default event ''id'' (JStr [])) \<noteq> []"
    and "py_str repr (jget_default event ''type'' (JStr [])) \<noteq> []"
  shows "\<exists>h resp w'. build_signature_header hmac body [] (int_timestamp now) = Inr h \<and>
    stripe_webhook S hmac repr json_loads b now body (Some h) w = (Inr resp, w') \<and> resp_status resp = 200"
proof -
  let ?sig = "hmac [] (show_int (int_timestamp now) @ ''.'' @ body)"
  let ?h = "''t='' @ show_int (int_timestamp now) @ '',v1='' @ ?sig"
  have hex: "list_all is_hex ?sig" "?sig \<noteq> []" using assms(3) by (auto simp: hex_digests_def)
  have h: "build_signature_header hmac body [] (int_timestamp now) = Inr ?h"
    using assms(4) by (simp add: build_signature_header_def sign_payload_def)
  have v: "verify_signature_header S hmac (int_timestamp now) body [] (Some ?h) (Some 300) = Inr True"
    using verify_parts [OF header_parts_built [OF hex(1)] _ hex(2) hex_ascii [OF hex(1)] assms(4)]
      hex_ascii [OF hex(1)] by simp
  obtain r w' where p: "process_event S repr (Some b) now event w = (r, w')" by fastforce
  have "\<exists>resp w'. stripe_webhook S hmac repr json_loads b now body (Some ?h) w = (Inr resp, w') \<and> resp_status resp = 200"
    using assms v p
    by (cases r) (auto simp: stripe_webhook_def WEBHOOK_TOLERANCE_SECONDS_def as_dict_def bindM_def tryM_def
        split: exn.splits)
  with h show ?thesis by blast
qed

theorem webhook_empty_secret_forgeable_witness:
  "\<exists>h resp w'. build_signature_header (\<lambda>_ _. ''ab'') ''{}'' [] (int_timestamp 0) = Inr h \<and>
    stripe_webhook (default_settings\<lparr>STRIPE_SECRET_KEY := ''sk''\<rparr>) (\<lambda>_ _. ''ab'') (\<lambda>_. [])
      (\<lambda>_. Some (JObj sample_event)) (\<lambda>_. True) 0 ''{}'' (Some h) sample_world = (Inr resp, w') \<and>
    resp_status resp = 200"
  by (rule webhook_empty_secret_forgeable [where event = sample_event])
    (simp_all add: stripe_configured_def default_settings_def hex_digests_def is_hex_def decodable_def
      sample_event_def jget_default_def)

end
