(* ===== verification/Permissions.thy ===== *)
theory Permissions
  imports AppState
begin

text \<open>
  \<^verbatim>\<open>app/identity/auth/permissions.py\<close>: permissions through roles, API-key scopes, and the dependency
  \<^verbatim>\<open>PermissionChecker\<close>. The scopes are \<open>None\<close> when the request was not authenticated by an API key.
\<close>

definition has_permission :: "user \<Rightarrow> string list \<Rightarrow> bool" where
  "has_permission u required =
     (if user_is_superuser u then True
      else if user_roles u = [] then False
      else let user_permissions = concat (map role_permissions (user_roles u))
           in list_all (\<lambda>perm. perm \<in> set user_permissions) required)"

definition check_api_key_scope :: "string list \<Rightarrow> string list \<Rightarrow> bool" where
  "check_api_key_scope api_key_scopes required = list_all (\<lambda>p. p \<in> set api_key_scopes) required"

definition permission_checker :: "string list \<Rightarrow> string list option \<Rightarrow> user \<Rightarrow> ('r, user) app" where
  "permission_checker required api_key_scopes current_user =
     thenM (guardM (has_permission current_user required) (HTTPException 403 ''Not enough permissions''))
      (thenM (guardM (case api_key_scopes of None \<Rightarrow> True | Some sc \<Rightarrow> check_api_key_scope sc required)
                (HTTPException 403 ''API key does not have the required scopes''))
        (returnM current_user))"

lemma permission_checker_run:
  "permission_checker required scopes u w =
     (if has_permission u required \<and> (case scopes of None \<Rightarrow> True | Some sc \<Rightarrow> set required \<subseteq> set sc)
      then (Inr u, w)
      else (Inl (HTTPException 403 (if has_permission u required
              then ''API key does not have the required scopes'' else ''Not enough permissions'')), w))"
  by (cases scopes)
    (simp_all add: permission_checker_def check_api_key_scope_def thenM_def bindM_def list_all_iff subset_iff)

lemma has_permission_iff:
  "has_permission u required \<longleftrightarrow> user_is_superuser u \<or>
     (user_roles u \<noteq> [] \<and> (\<forall>p \<in> set required. \<exists>r \<in> set (user_roles u). p \<in> set (role_permissions r)))"
  by (auto simp: has_permission_def list_all_iff Let_def)

text \<open>
  C21: The permission gate. A request passes exactly when the user is a superuser or one of the user's roles
  grants each required permission, and, for a request authenticated by an API key, the key's scopes include
  every required permission (superusers are bound by the scopes of their keys too). The gate never changes
  state; everything else is refused with 403.
\<close>

theorem permission_gate:
  "((\<exists>u' w'. permission_checker required scopes u w = (Inr u', w')) \<longleftrightarrow>
     (user_is_superuser u \<or>
       (user_roles u \<noteq> [] \<and> (\<forall>p \<in> set required. \<exists>r \<in> set (user_roles u). p \<in> set (role_permissions r)))) \<and>
     (\<forall>sc. scopes = Some sc \<longrightarrow> set required \<subseteq> set sc)) \<and>
   snd (permission_checker required scopes u w) = w \<and>
   (\<forall>e. fst (permission_checker required scopes u w) = Inl e \<longrightarrow> (\<exists>d. e = HTTPException 403 d))"
  by (auto simp: permission_checker_run has_permission_iff split: option.splits if_splits)

definition billing_admin :: user where
  "billing_admin = \<lparr>user_id = 2, user_tenant_id = Some 7, user_email = ''b@b.c'', user_username = ''bob'',
     user_full_name = None, user_hashed_password = ''x'', user_is_active = True,
     user_is_superuser = False, user_is_verified = True, user_failed_login_attempts = 0,
     user_locked_until = None, user_email_verified_at = None, user_last_login_at = None,
     user_oauth_provider = None, user_oauth_provider_id = None, user_oauth_access_token = None,
     user_oauth_refresh_token = None, user_totp_secret = None, user_totp_enabled = False,
     user_totp_verified_at = None, user_backup_codes = None,
     user_roles = [\<lparr>role_id = 1, role_name = ''billing'', role_permissions = [''billing:write'']\<rparr>],
     user_deleted_at = None\<rparr>"

definition fresh_world :: "unit world" where
  "fresh_world = \<lparr>w_db = empty_db, w_committed = empty_db, w_bus = [], w_redis = None,
     w_entitlements = Map.empty, w_tasks = [], w_conns = [], w_outbox = [], w_tenant = None, w_audited = False\<rparr>"

theorem permission_gate_witness:
  "(\<exists>u' w'. permission_checker [''billing:write''] None billing_admin fresh_world = (Inr u', w')) \<and>
   \<not> (\<exists>u' w'. permission_checker [''billing:write''] (Some [''user:read'']) billing_admin fresh_world = (Inr u', w'))"
  using permission_gate [of "[''billing:write'']" None billing_admin fresh_world]
    permission_gate [of "[''billing:write'']" "Some [''user:read'']" billing_admin fresh_world]
  by (simp add: billing_admin_def)

end
