(* ===== verification/BillingApi.thy ===== *)
theory BillingApi
  imports Invoicing StripeEvents Permissions
begin

text \<open>
  The billing endpoints (\<^verbatim>\<open>app/billing/api/endpoints/{plans,subscriptions,invoices,stripe}.py\<close>) and the
  Stripe REST client (\<^verbatim>\<open>app/billing/services/stripe_client.py\<close>). A handler takes the resolved
  dependencies: the current user, the API-key scopes of the request, the event bus and the readings of the
  clock. The HTTP transport of the Stripe client is a parameter.
\<close>

section \<open>Plans\<close>

definition list_plans :: "('r, plan list) app" where
  "list_plans = plan_list_active"

definition create_plan :: "string list option \<Rightarrow> user \<Rightarrow> plan_create \<Rightarrow> ('r, plan) app" where
  "create_plan scopes user o' =
     thenM (permission_checker [''billing:write''] scopes user)
      (bindM (plan_get_by_slug (pc_slug o')) (\<lambda>existing.
         case existing of
           Some _ \<Rightarrow> raiseM (ConflictException (''Plan slug '' @ [CHR 0x27] @ pc_slug o' @ [CHR 0x27] @ '' already exists''))
         | None \<Rightarrow> crud_plan_create o'))"

definition update_plan :: "string list option \<Rightarrow> user \<Rightarrow> int \<Rightarrow> plan_update \<Rightarrow> ('r, plan) app" where
  "update_plan scopes user pid o' =
     thenM (permission_checker [''billing:write''] scopes user)
      (bindM (plan_get pid) (\<lambda>r.
         case r of None \<Rightarrow> raiseM (NotFoundException ''Plan not found'')
         | Some p \<Rightarrow> crud_plan_update p o'))"

definition deactivate_plan :: "string list option \<Rightarrow> user \<Rightarrow> int \<Rightarrow> ('r, plan) app" where
  "deactivate_plan scopes user pid =
     thenM (permission_checker [''billing:write''] scopes user)
      (bindM (plan_get pid) (\<lambda>r.
         case r of None \<Rightarrow> raiseM (NotFoundException ''Plan not found'')
         | Some p \<Rightarrow>
             thenM (guardM (plan_is_active p) (BadRequestException ''Plan is already inactive''))
               (crud_plan_update p (empty_plan_update\<lparr>pu_is_active := Some (Some False)\<rparr>))))"

section \<open>Subscriptions\<close>

record subscription_action_response =
  ar_subscription :: subscription
  ar_preview :: "plan_change_preview option"
  ar_applied_plan_id :: "int option"

definition action_response ::
  "subscription \<Rightarrow> plan_change_preview option \<Rightarrow> int option \<Rightarrow> subscription_action_response" where
  "action_response sub pv applied =
     \<lparr>ar_subscription = sub, ar_preview = pv, ar_applied_plan_id = applied\<rparr>"

definition require_live_subscription :: "int option \<Rightarrow> ('r, subscription) app" where
  "require_live_subscription tenant_id =
     bindM (get_live_for_tenant tenant_id) (\<lambda>r.
       case r of None \<Rightarrow> raiseM (NotFoundException ''No active subscription found'') | Some s \<Rightarrow> returnM s)"

definition require_tenant :: "user \<Rightarrow> ('r, int option) app" where
  "require_tenant u =
     thenM (guardM (\<not> (user_tenant_id u = None \<and> \<not> user_is_superuser u))
              (BadRequestException ''Billing requires a tenant membership''))
       (returnM (user_tenant_id u))"

definition require_active_plan :: "int \<Rightarrow> ('r, plan) app" where
  "require_active_plan pid =
     bindM (plan_get pid) (\<lambda>r.
       case r of None \<Rightarrow> raiseM (BadRequestException ''Plan is not available'')
       | Some p \<Rightarrow> if plan_is_active p then returnM p else raiseM (BadRequestException ''Plan is not available''))"

definition subscribe :: "bus \<Rightarrow> datetime \<Rightarrow> user \<Rightarrow> int \<Rightarrow> ('r, subscription_action_response) app" where
  "subscribe bus now current_user pid =
     bindM (require_tenant current_user) (\<lambda>tenant_id.
     bindM (require_active_plan pid) (\<lambda>p.
     bindM (get_live_for_tenant tenant_id) (\<lambda>existing.
       case existing of Some _ \<Rightarrow> raiseM (ConflictException ''Tenant already has an active subscription'')
       | None \<Rightarrow>
           (let trial_end = (if plan_trial_days p > 0 then Some (now + days_td (plan_trial_days p)) else None)
            in bindM (crud_subscription_create
                       (new_subscription tenant_id (plan_id p)
                          (if trial_end \<noteq> None then TRIALING else ACTIVE) now (next_period_end p now)
                          trial_end None)) (\<lambda>sub.
                 thenM (publish bus (subscription_event (if trial_end \<noteq> None then ''trial_started'' else ''started'')
                          sub (Some (user_id current_user))))
                   (returnM (action_response sub None None)))))))"

definition get_current_subscription :: "user \<Rightarrow> ('r, subscription) app" where
  "get_current_subscription current_user = require_live_subscription (user_tenant_id current_user)"

text \<open>\<open>now\<close> is the instant of the proration, \<open>now'\<close> that of the new period.\<close>

definition change_plan :: "bus \<Rightarrow> datetime \<Rightarrow> datetime \<Rightarrow> user \<Rightarrow> int \<Rightarrow> ('r, subscription_action_response) app" where
  "change_plan bus now now' current_user pid =
     bindM (require_live_subscription (user_tenant_id current_user)) (\<lambda>sub.
     bindM (require_active_plan pid) (\<lambda>new_plan.
     bindM (plan_get (sub_plan_id sub)) (\<lambda>r.
       case r of None \<Rightarrow> raiseM (NotFoundException ''Current plan no longer exists'')
       | Some current_plan \<Rightarrow>
           thenM (guardM (plan_id new_plan \<noteq> plan_id current_plan)
                    (BadRequestException ''Subscription is already on this plan''))
            (bindM (tryM (liftM (decide_plan_change current_plan new_plan sub now))
                      (\<lambda>e. case e of ValueError d \<Rightarrow> raiseM (BadRequestException d) | _ \<Rightarrow> raiseM e)) (\<lambda>decision.
               (let (sub', pv, applied) =
                  (if effective decision = ''immediate'' \<and> preview decision \<noteq> None
                   then (sub\<lparr>sub_plan_id := plan_id new_plan, sub_pending_plan_id := None,
                             sub_current_period_start := now',
                             sub_current_period_end := next_period_end new_plan now'\<rparr>,
                         preview decision, None)
                   else (sub\<lparr>sub_pending_plan_id := Some (plan_id new_plan)\<rparr>, None, Some (plan_id new_plan)))
                in thenM (save_sub sub')
                    (thenM commit
                      (thenM (publish bus (subscription_event ''plan_changed'' sub' (Some (user_id current_user))))
                        (returnM (action_response sub' pv applied))))))))))"

definition cancel_subscription :: "bus \<Rightarrow> datetime \<Rightarrow> user \<Rightarrow> bool \<Rightarrow> ('r, subscription_action_response) app" where
  "cancel_subscription bus now current_user immediate =
     bindM (require_live_subscription (user_tenant_id current_user)) (\<lambda>sub.
       if immediate
       then thenM (tryM (liftM (assert_transition (sub_status sub) CANCELED))
                     (\<lambda>e. case e of IllegalTransitionError a b \<Rightarrow>
                            raiseM (ConflictException (''Illegal subscription transition: '' @ a @ '' -> '' @ b))
                          | _ \<Rightarrow> raiseM e))
             (let sub' = sub\<lparr>sub_status := CANCELED, sub_canceled_at := Some now,
                             sub_cancel_at_period_end := False, sub_pending_plan_id := None\<rparr>
              in thenM (save_sub sub')
                  (thenM commit
                    (thenM (publish bus (subscription_event ''canceled'' sub' (Some (user_id current_user))))
                      (returnM (action_response sub' None None)))))
       else thenM (guardM (sub_status sub \<noteq> TRIALING) (BadRequestException ''Trials must be canceled immediately''))
             (let sub' = sub\<lparr>sub_cancel_at_period_end := True\<rparr>
              in thenM (save_sub sub')
                  (thenM commit
                    (thenM (publish bus (subscription_event ''cancel_scheduled'' sub' (Some (user_id current_user))))
                      (returnM (action_response sub' None None))))))"

definition resume_subscription :: "bus \<Rightarrow> user \<Rightarrow> ('r, subscription_action_response) app" where
  "resume_subscription bus current_user =
     bindM (require_live_subscription (user_tenant_id current_user)) (\<lambda>sub.
       thenM (guardM (sub_cancel_at_period_end sub)
                (BadRequestException ''Subscription is not scheduled for cancellation''))
         (let sub' = sub\<lparr>sub_cancel_at_period_end := False\<rparr>
          in thenM (save_sub sub')
              (thenM commit
                (thenM (publish bus (subscription_event ''resumed'' sub' (Some (user_id current_user))))
                  (returnM (action_response sub' None None))))))"

record dimension_usage =
  du_dimension :: string
  du_used :: int
  du_included_quantity :: int
  du_unit_amount_cents :: int

fun collect_usage ::
  "'r redis \<Rightarrow> datetime \<Rightarrow> int \<Rightarrow> datetime \<Rightarrow> (string \<times> dim_config) list \<Rightarrow> ('r, dimension_usage list) app" where
  "collect_usage R now tenant_id ps [] = returnM []"
| "collect_usage R now tenant_id ps ((dimension, cfg) # rest) =
     bindM (get_usage R now tenant_id dimension ps) (\<lambda>used.
       bindM (collect_usage R now tenant_id ps rest) (\<lambda>items.
         returnM (\<lparr>du_dimension = dimension, du_used = used, du_included_quantity = included_quantity cfg,
                   du_unit_amount_cents = unit_amount_cents cfg\<rparr> # items)))"

definition usage_endpoint ::
  "'r redis \<Rightarrow> datetime \<Rightarrow> user \<Rightarrow> ('r, datetime \<times> datetime \<times> dimension_usage list) app" where
  "usage_endpoint R now current_user =
     (case user_tenant_id current_user of
        None \<Rightarrow> raiseM (BadRequestException ''Usage requires a tenant membership'')
      | Some t \<Rightarrow>
          bindM (require_live_subscription (Some t)) (\<lambda>sub.
            bindM (plan_get (sub_plan_id sub)) (\<lambda>plan_row.
              bindM (collect_usage R now t (sub_current_period_start sub)
                       (extract_metering (Option.bind plan_row plan_metering))) (\<lambda>items.
                returnM (sub_current_period_start sub, sub_current_period_end sub, items)))))"

section \<open>Invoices\<close>

definition list_invoices :: "user \<Rightarrow> string option \<Rightarrow> int \<Rightarrow> int \<Rightarrow> ('r, invoice list) app" where
  "list_invoices current_user status lmt off =
     (case user_tenant_id current_user of None \<Rightarrow> returnM []
      | Some t \<Rightarrow> invoice_list_for_tenant t status lmt off)"

definition get_invoice :: "user \<Rightarrow> int \<Rightarrow> ('r, invoice) app" where
  "get_invoice current_user invoice_id =
     (case user_tenant_id current_user of None \<Rightarrow> raiseM (NotFoundException ''Invoice not found'')
      | Some t \<Rightarrow>
          bindM (invoice_get_for_tenant invoice_id t) (\<lambda>r.
            case r of None \<Rightarrow> raiseM (NotFoundException ''Invoice not found'') | Some v \<Rightarrow> returnM v))"

definition ensure_tenant_invoice :: "int \<Rightarrow> user \<Rightarrow> ('r, unit) app" where
  "ensure_tenant_invoice invoice_id current_user =
     (case user_tenant_id current_user of None \<Rightarrow> raiseM (NotFoundException ''Invoice not found'')
      | Some t \<Rightarrow>
          bindM (invoice_get_for_tenant invoice_id t) (\<lambda>r.
            case r of None \<Rightarrow> raiseM (NotFoundException ''Invoice not found'') | Some v \<Rightarrow> returnM ()))"

definition generate_invoice_endpoint ::
  "'r redis \<Rightarrow> bus \<Rightarrow> datetime \<Rightarrow> string list option \<Rightarrow> user \<Rightarrow> datetime option \<Rightarrow> datetime option
    \<Rightarrow> ('r, invoice) app" where
  "generate_invoice_endpoint R bus now scopes current_user period_start period_end =
     thenM (permission_checker [''billing:write''] scopes current_user)
      (case user_tenant_id current_user of
         None \<Rightarrow> raiseM (BadRequestException ''Invoicing requires a tenant membership'')
       | Some t \<Rightarrow>
           bindM (get_live_for_tenant (Some t)) (\<lambda>r.
             case r of None \<Rightarrow> raiseM (NotFoundException ''No live subscription to invoice'')
             | Some sub \<Rightarrow>
                 bindM (plan_get (sub_plan_id sub)) (\<lambda>pr.
                   case pr of None \<Rightarrow> raiseM (NotFoundException ''Subscription plan not found'')
                   | Some p \<Rightarrow>
                       bindM (generate_invoice R now sub p period_start period_end) (\<lambda>v.
                         thenM (publish bus (invoice_event ''generated'' v (Some (user_id current_user))))
                           (returnM v)))))"

text \<open>The three lifecycle endpoints share their shape: ownership, operation, event.\<close>

definition lifecycle_endpoint ::
  "string \<Rightarrow> (int \<Rightarrow> ('r, invoice) app) \<Rightarrow> bus \<Rightarrow> string list option \<Rightarrow> user \<Rightarrow> int \<Rightarrow> ('r, invoice) app" where
  "lifecycle_endpoint suffix operation bus scopes current_user invoice_id =
     thenM (permission_checker [''billing:write''] scopes current_user)
      (thenM (ensure_tenant_invoice invoice_id current_user)
        (bindM (operation invoice_id) (\<lambda>v.
          thenM (publish bus (invoice_event suffix v (Some (user_id current_user)))) (returnM v))))"

definition issue_invoice :: "bus \<Rightarrow> datetime \<Rightarrow> string list option \<Rightarrow> user \<Rightarrow> int \<Rightarrow> ('r, invoice) app" where
  "issue_invoice bus now = lifecycle_endpoint ''issued'' (issue now) bus"

definition pay_invoice :: "bus \<Rightarrow> datetime \<Rightarrow> string list option \<Rightarrow> user \<Rightarrow> int \<Rightarrow> ('r, invoice) app" where
  "pay_invoice bus now = lifecycle_endpoint ''paid'' (\<lambda>i. mark_paid now i None) bus"

definition void_invoice :: "bus \<Rightarrow> string list option \<Rightarrow> user \<Rightarrow> int \<Rightarrow> ('r, invoice) app" where
  "void_invoice bus = lifecycle_endpoint ''voided'' void bus"

section \<open>The Stripe client and hosted checkout\<close>

record http_response =
  http_status :: int
  http_json :: "json option"
  http_text :: string

type_synonym http = "string \<Rightarrow> string \<Rightarrow> (string \<times> string) list \<Rightarrow> exn + http_response"

text \<open>\<open>str(body.get("error", {}).get("message", ""))\<close>\<close>

definition error_message :: "(json \<Rightarrow> string) \<Rightarrow> json \<Rightarrow> exn + string" where
  "error_message repr body =
     (case body of
        JObj d \<Rightarrow> (case jget_default d ''error'' (JObj []) of
                     JObj e \<Rightarrow> Inr (py_str repr (jget_default e ''message'' (JStr [])))
                   | _ \<Rightarrow> Inl (PyTypeError ''error has no attribute get''))
      | _ \<Rightarrow> Inl (PyTypeError ''body has no attribute get''))"

definition stripe_request ::
  "settings \<Rightarrow> (json \<Rightarrow> string) \<Rightarrow> http \<Rightarrow> string \<Rightarrow> string \<Rightarrow> (string \<times> string) list \<Rightarrow> exn + json" where
  "stripe_request S repr http meth path data =
     (if \<not> stripe_configured S then Inl (StripeError 503 ''Stripe is not configured'')
      else case http meth path data of Inl e \<Rightarrow> Inl e
           | Inr resp \<Rightarrow>
               if http_status resp \<ge> 400
               then (case http_json resp of
                       None \<Rightarrow> Inl (StripeError (http_status resp) (take 200 (http_text resp)))
                     | Some body \<Rightarrow> (case error_message repr body of Inl e \<Rightarrow> Inl e
                                     | Inr detail \<Rightarrow> Inl (StripeError (http_status resp) detail)))
               else (case http_json resp of None \<Rightarrow> Inl (ValueError ''invalid JSON'') | Some v \<Rightarrow> Inr v))"

definition create_customer ::
  "settings \<Rightarrow> (json \<Rightarrow> string) \<Rightarrow> http \<Rightarrow> string \<Rightarrow> string option \<Rightarrow> exn + json" where
  "create_customer S repr http name email =
     stripe_request S repr http ''POST'' ''/customers''
       ([(''name'', name)] @ (case email of Some e \<Rightarrow> if e = [] then [] else [(''email'', e)] | None \<Rightarrow> []))"

definition create_checkout_session ::
  "settings \<Rightarrow> (json \<Rightarrow> string) \<Rightarrow> http \<Rightarrow> string \<Rightarrow> plan \<Rightarrow> string \<Rightarrow> string \<Rightarrow> int \<Rightarrow> exn + json" where
  "create_checkout_session S repr http customer_id p success_url cancel_url tenant_id =
     stripe_request S repr http ''POST'' ''/checkout/sessions''
       [(''mode'', ''subscription''), (''customer'', customer_id), (''success_url'', success_url),
        (''cancel_url'', cancel_url), (''client_reference_id'', show_int tenant_id),
        (''metadata[tenant_id]'', show_int tenant_id), (''metadata[plan_id]'', show_int (plan_id p)),
        (''line_items[0][quantity]'', ''1''),
        (''line_items[0][price_data][currency]'', plan_currency p),
        (''line_items[0][price_data][unit_amount]'', show_int (plan_price_cents p)),
        (''line_items[0][price_data][recurring][interval]'', interval_value (plan_interval p)),
        (''line_items[0][price_data][product_data][name]'', plan_name p)]"

definition stripe_get_subscription ::
  "settings \<Rightarrow> (json \<Rightarrow> string) \<Rightarrow> http \<Rightarrow> string \<Rightarrow> exn + json" where
  "stripe_get_subscription S repr http sid = stripe_request S repr http ''GET'' (''/subscriptions/'' @ sid) []"

definition create_refund ::
  "settings \<Rightarrow> (json \<Rightarrow> string) \<Rightarrow> http \<Rightarrow> string option \<Rightarrow> string option \<Rightarrow> int option \<Rightarrow> string option \<Rightarrow> exn + json" where
  "create_refund S repr http payment_intent charge amount_cents reason =
     (if payment_intent = None \<and> charge = None
      then Inl (ValueError ''create_refund requires payment_intent or charge'')
      else stripe_request S repr http ''POST'' ''/refunds''
        ((case payment_intent of Some p \<Rightarrow> [(''payment_intent'', p)] | None \<Rightarrow> []) @
         (case charge of Some c \<Rightarrow> [(''charge'', c)] | None \<Rightarrow> []) @
         (case amount_cents of Some a \<Rightarrow> [(''amount'', show_int a)] | None \<Rightarrow> []) @
         (case reason of Some r \<Rightarrow> if r = [] then [] else [(''reason'', r)] | None \<Rightarrow> [])))"

text \<open>\<open>customer["id"]\<close> and \<open>session_obj.get(..)\<close> on the parsed response.\<close>

definition checkout_customer ::
  "settings \<Rightarrow> (json \<Rightarrow> string) \<Rightarrow> http \<Rightarrow> tenant \<Rightarrow> ('r, string) app" where
  "checkout_customer S repr http t =
     (case tnt_stripe_customer_id t of
        Some (c # cs) \<Rightarrow> returnM (c # cs)
      | _ \<Rightarrow>
          bindM (liftM (create_customer S repr http (tnt_name t) None)) (\<lambda>customer.
          bindM (liftM (as_dict customer)) (\<lambda>d.
          bindM (liftM (case map_of d ''id'' of None \<Rightarrow> Inl (KeyError ''id'') | Some v \<Rightarrow> Inr (py_str repr v))) (\<lambda>cid.
            thenM (save_tenant (t\<lparr>tnt_stripe_customer_id := Some cid\<rparr>)) (thenM commit (returnM cid))))))"

definition create_checkout ::
  "settings \<Rightarrow> (json \<Rightarrow> string) \<Rightarrow> http \<Rightarrow> user \<Rightarrow> int \<Rightarrow> string \<Rightarrow> string \<Rightarrow> ('r, string \<times> string) app" where
  "create_checkout S repr http current_user pid success_url cancel_url =
     (case user_tenant_id current_user of
        None \<Rightarrow> raiseM (BadRequestException ''Checkout requires a tenant membership'')
      | Some t \<Rightarrow>
          thenM (guardM (stripe_configured S) (HTTPException 503 ''Billing provider not configured''))
           (bindM (plan_get pid) (\<lambda>pr.
              case (case pr of None \<Rightarrow> None | Some p \<Rightarrow> if plan_is_active p then Some p else None) of
                None \<Rightarrow> raiseM (NotFoundException ''Plan is not available'')
              | Some p \<Rightarrow>
                  bindM (get_live_for_tenant (Some t)) (\<lambda>live.
                    case live of Some _ \<Rightarrow> raiseM (ConflictException ''Tenant already has an active subscription'')
                    | None \<Rightarrow>
                        bindM (select_one tenants (\<lambda>x. tnt_id x = t)) (\<lambda>tr.
                          case tr of None \<Rightarrow> raiseM (BadRequestException ''Tenant record not found'')
                          | Some tenant_row \<Rightarrow>
                              bindM (checkout_customer S repr http tenant_row) (\<lambda>customer_id.
                              bindM (liftM (create_checkout_session S repr http customer_id p success_url
                                       cancel_url t)) (\<lambda>session_obj.
                              bindM (liftM (as_dict session_obj)) (\<lambda>d.
                                case jget d ''url'' of
                                  JStr url \<Rightarrow>
                                    returnM (url, py_str repr (jget_default d ''id'' (JStr [])))
                                | _ \<Rightarrow> raiseM (BadRequestException ''Stripe did not return a checkout URL'')))))))))"

section \<open>Runs of the subscription endpoints\<close>

lemma require_live_run:
  assumes "store_ok w" "s \<in> set (t_rows (subscriptions (w_db w)))" "sub_tenant_id s = Some t" "is_live s"
  shows "require_live_subscription (Some t) w = (Inr s, w)"
  using get_live_unique [OF _ _ assms(2-4)] assms(1)
  by (simp add: require_live_subscription_def store_ok_def db_unique_def db_keys_def)

lemma require_active_run:
  assumes "store_ok w" "p \<in> set (t_rows (plans (w_db w)))" "plan_is_active p"
  shows "require_active_plan (plan_id p) w = (Inr p, w)"
  using plan_row.by_id [of "plans (w_db w)" p] assms
  by (simp add: require_active_plan_def store_ok_def db_keys_def)

lemma resubscribe_unique:
  assumes "db_unique d" "db_keys d" "\<forall>x \<in> set (t_rows (subscriptions d)). sub_tenant_id x = tid \<longrightarrow> \<not> is_live x"
    and "sub_tenant_id s = tid" "sub_stripe_subscription_id s = None"
  shows "db_unique (subscriptions_update (insert_row (\<lambda>i r. r\<lparr>sub_id := i\<rparr>) s) d)"
proof -
  have "unique_on live_key (insert_row (\<lambda>i r. r\<lparr>sub_id := i\<rparr>) s (subscriptions d))"
    using assms(1,3,4) by (auto simp: unique_on_insert db_unique_def live_key_def next_row_def is_live_def split: if_splits)
  moreover have "unique_on sub_stripe_subscription_id (insert_row (\<lambda>i r. r\<lparr>sub_id := i\<rparr>) s (subscriptions d))"
    using assms(1,5) by (simp add: unique_on_insert db_unique_def next_row_def)
  ultimately show ?thesis using assms(1) by (simp add: db_unique_def)
qed

definition subscription_for :: "datetime \<Rightarrow> int option \<Rightarrow> plan \<Rightarrow> subscription" where
  "subscription_for now tenant_id p =
     (let trial_end = (if plan_trial_days p > 0 then Some (now + days_td (plan_trial_days p)) else None)
      in new_subscription tenant_id (plan_id p) (if trial_end \<noteq> None then TRIALING else ACTIVE) now
           (next_period_end p now) trial_end None)"

lemma subscription_for_sel [simp]:
  "sub_tenant_id (subscription_for now tid p) = tid"
  "sub_stripe_subscription_id (subscription_for now tid p) = None"
  "sub_status (subscription_for now tid p) = (if plan_trial_days p > 0 then TRIALING else ACTIVE)"
  "sub_plan_id (subscription_for now tid p) = plan_id p"
  "sub_current_period_start (subscription_for now tid p) = now"
  "sub_current_period_end (subscription_for now tid p) = next_period_end p now"
  by (simp_all add: subscription_for_def new_subscription_def Let_def)

lemma subscribe_run:
  fixes now :: datetime
  assumes "store_ok w" "\<And>e. bus e" "user_tenant_id u = Some t"
    and "p \<in> set (t_rows (plans (w_db w)))" "plan_is_active p"
    and "\<forall>x \<in> set (t_rows (subscriptions (w_db w))). sub_tenant_id x = Some t \<longrightarrow> \<not> is_live x"
  defines "s \<equiv> next_row (\<lambda>i r. r\<lparr>sub_id := i\<rparr>) (subscription_for now (Some t) p) (subscriptions (w_db w))"
    and "d' \<equiv> subscriptions_update (insert_row (\<lambda>i r. r\<lparr>sub_id := i\<rparr>) (subscription_for now (Some t) p)) (w_db w)"
  shows "subscribe bus now u (plan_id p) w = (Inr (action_response s None None),
    w\<lparr>w_db := d', w_committed := d',
      w_bus := w_bus w @ [subscription_event (if plan_trial_days p > 0 then ''trial_started'' else ''started'')
        s (Some (user_id u))]\<rparr>)"
proof -
  have u: "db_unique d'"
    unfolding d'_def using assms(1,6) by (intro resubscribe_unique [where tid = "Some t"]) (auto simp: store_ok_def)
  have live: "get_live_for_tenant (Some t) w = (Inr None, w)"
    using assms(6) live_rows_Nil_iff [of "Some t" "subscriptions (w_db w)"] by (simp add: get_live_run)
  have "crud_subscription_create (subscription_for now (Some t) p) w = (Inr s, w\<lparr>w_db := d', w_committed := d'\<rparr>)"
    using u by (simp add: crud_subscription_create_def commit_run s_def d'_def)
  then show ?thesis
    using require_active_run [OF assms(1,4,5)] live assms(2,3)
    by (simp add: subscribe_def require_tenant_def publish_run Let_def subscription_for_def)
qed

text \<open>
  C10: subscribing. With an active plan, a tenant without a live subscription gets exactly one new committed
  row: trialing when the plan has trial days and active otherwise, with the plan's period starting now, and
  one event is published. A tenant that has a live subscription is refused with a conflict and nothing
  changes; the unique index is never violated. Hypotheses: the tables satisfy their constraints and the bus
  accepts the event.
\<close>

theorem subscribe_spec:
  assumes "store_ok w" and "\<And>e. bus e" and "user_tenant_id u = Some t"
    and "p \<in> set (t_rows (plans (w_db w)))" and "plan_is_active p"
  shows "if \<exists>x \<in> set (t_rows (subscriptions (w_db w))). sub_tenant_id x = Some t \<and> is_live x
    then subscribe bus now u (plan_id p) w = (Inl (ConflictException ''Tenant already has an active subscription''), w)
    else \<exists>r w' s. subscribe bus now u (plan_id p) w = (Inr r, w') \<and> ar_subscription r = s \<and> store_ok w' \<and>
      t_rows (subscriptions (w_committed w')) = t_rows (subscriptions (w_db w)) @ [s] \<and>
      sub_tenant_id s = Some t \<and> sub_plan_id s = plan_id p \<and>
      sub_status s = (if plan_trial_days p > 0 then TRIALING else ACTIVE) \<and>
      sub_current_period_start s = now \<and> sub_current_period_end s = next_period_end p now \<and>
      length (w_bus w') = Suc (length (w_bus w))"
proof (cases "\<exists>x \<in> set (t_rows (subscriptions (w_db w))). sub_tenant_id x = Some t \<and> is_live x")
  case True
  then obtain x where "x \<in> set (t_rows (subscriptions (w_db w)))" "sub_tenant_id x = Some t" "is_live x" by blast
  then have "get_live_for_tenant (Some t) w = (Inr (Some x), w)"
    using get_live_unique [of w x t] assms(1) by (simp add: store_ok_def db_unique_def db_keys_def)
  then show ?thesis
    using True require_active_run [OF assms(1,4,5)] assms(3) by (simp add: subscribe_def require_tenant_def)
next
  case False
  then have none: "\<forall>x \<in> set (t_rows (subscriptions (w_db w))). sub_tenant_id x = Some t \<longrightarrow> \<not> is_live x" by blast
  have "db_unique (subscriptions_update (insert_row (\<lambda>i r. r\<lparr>sub_id := i\<rparr>) (subscription_for now (Some t) p)) (w_db w))"
    using assms(1) none by (intro resubscribe_unique [where tid = "Some t"]) (auto simp: store_ok_def)
  then show ?thesis
    unfolding subscribe_run [OF assms none] using False assms(1)
    by (simp add: action_response_def store_ok_def db_keys_add_sub sub_row.rows_insert next_row_def)
qed

theorem subscribe_spec_witness:
  "\<exists>r w'. subscribe (\<lambda>_. True) 9 sample_user 1
      (sample_world\<lparr>w_db := sample_db\<lparr>subscriptions := empty_table\<rparr>, w_committed := sample_db\<lparr>subscriptions := empty_table\<rparr>\<rparr>) = (Inr r, w') \<and>
     sub_status (ar_subscription r) = ACTIVE"
proof -
  let ?w = "sample_world\<lparr>w_db := sample_db\<lparr>subscriptions := empty_table\<rparr>, w_committed := sample_db\<lparr>subscriptions := empty_table\<rparr>\<rparr>"
  have "store_ok ?w" using sample_db_ok by (simp add: store_ok_def db_unique_def db_keys_def)
  then show ?thesis
    using subscribe_spec [of ?w "\<lambda>_. True" sample_user 7 sample_plan 9] by (auto simp: sample_defs)
qed

lemma save_live_sub:
  assumes "store_ok w" "s \<in> set (t_rows (subscriptions (w_db w)))" "sub_id s' = sub_id s"
    and "sub_tenant_id s' = sub_tenant_id s" "is_live s' \<Longrightarrow> is_live s"
    and "sub_stripe_subscription_id s' = sub_stripe_subscription_id s"
  defines "d' \<equiv> subscriptions_update (update_row sub_id s') (w_db w)"
  shows "db_unique d'" "db_keys d'" "s' \<in> set (t_rows (subscriptions d'))"
proof -
  have "live_key s' = live_key s \<or> live_key s' = None" using assms(4,5) by (auto simp: live_key_def)
  then show "db_unique d'"
    unfolding d'_def using assms(1,6) by (intro db_unique_save_sub [OF _ _ assms(2,3)]) (auto simp: store_ok_def)
  show "db_keys d'" unfolding d'_def using assms(1) by (intro db_keys_save_sub) (simp add: store_ok_def)
  show "s' \<in> set (t_rows (subscriptions d'))"
    using sub_row.update_in [OF assms(2), of s'] assms(3) by (simp add: d'_def)
qed

lemma sub_save_back:
  assumes "db_keys d" "s \<in> set (t_rows (subscriptions d))" "sub_id s' = sub_id s"
  shows "subscriptions_update (update_row sub_id s) (subscriptions_update (update_row sub_id s') d) = d"
  using assms update_row_same [of sub_id "subscriptions d" s] update_row_twice [of sub_id s s' "subscriptions d"]
  by (simp add: db_keys_def table_wf_def)


lemma sample_world_ok: "store_ok sample_world"
  using sample_db_ok by (simp add: store_ok_def sample_world_def)




text \<open>
  C23: changing the plan. To a dearer plan the change is immediate: the stored row is on the new plan with a
  fresh period, and the response carries a preview whose net amount is not negative. To any other plan it is
  only scheduled: plan and period of the stored row stay and the new plan is pending. Either way the status,
  the tenant and the constraints of the tables are kept. Hypotheses: both plans are stored, distinct, in one
  currency, with non-negative prices below \<open>2 ^ 53\<close>; the new one is active; the bus accepts the event.
\<close>

theorem change_plan_spec:
  assumes "store_ok w" and "\<And>e. bus e" and "user_tenant_id u = Some t"
    and "s \<in> set (t_rows (subscriptions (w_db w)))" and "sub_tenant_id s = Some t" and "is_live s"
    and "cur \<in> set (t_rows (plans (w_db w)))" and "plan_id cur = sub_plan_id s"
    and "new \<in> set (t_rows (plans (w_db w)))" and "plan_is_active new" and "plan_id new \<noteq> plan_id cur"
    and "plan_currency new = plan_currency cur" and "0 \<le> plan_price_cents cur" and "0 \<le> plan_price_cents new"
    and "plan_price_cents new < 2 ^ 53"
  shows "\<exists>r w' s'. change_plan bus now now' u (plan_id new) w = (Inr r, w') \<and> store_ok w' \<and>
    s' = ar_subscription r \<and> s' \<in> set (t_rows (subscriptions (w_committed w'))) \<and>
    sub_id s' = sub_id s \<and> sub_status s' = sub_status s \<and> sub_tenant_id s' = Some t \<and>
    (if plan_price_cents cur < plan_price_cents new
     then sub_plan_id s' = plan_id new \<and> sub_pending_plan_id s' = None \<and>
       sub_current_period_start s' = now' \<and> sub_current_period_end s' = next_period_end new now' \<and>
       (\<exists>pv. ar_preview r = Some pv \<and> 0 \<le> net_cents pv)
     else s' = s\<lparr>sub_pending_plan_id := Some (plan_id new)\<rparr> \<and> ar_preview r = None \<and>
       ar_applied_plan_id r = Some (plan_id new))"
proof -
  let ?f = "fraction_remaining (sub_current_period_start s) (sub_current_period_end s) now"
  let ?up = "plan_price_cents cur < plan_price_cents new"
  define pv where "pv = \<lparr>credit_cents = compute_unused_credit cur s now,
    charge_cents = compute_prorated_charge new (sub_current_period_start s) (sub_current_period_end s) now,
    net_cents = compute_prorated_charge new (sub_current_period_start s) (sub_current_period_end s) now -
      compute_unused_credit cur s now\<rparr>"
  define s' where "s' = (if ?up then s\<lparr>sub_plan_id := plan_id new, sub_pending_plan_id := None,
      sub_current_period_start := now', sub_current_period_end := next_period_end new now'\<rparr>
    else s\<lparr>sub_pending_plan_id := Some (plan_id new)\<rparr>)"
  have net: "?up \<Longrightarrow> 0 \<le> net_cents pv"
    using scale_price_mono_price [of "plan_price_cents cur" "plan_price_cents new" ?f] fraction_range
    by (simp add: pv_def compute_unused_credit_def compute_prorated_charge_def Let_def)
  have s': "sub_id s' = sub_id s" "sub_tenant_id s' = sub_tenant_id s" "sub_status s' = sub_status s"
    "sub_stripe_subscription_id s' = sub_stripe_subscription_id s" by (simp_all add: s'_def)
  let ?d = "subscriptions_update (update_row sub_id s') (w_db w)"
  have d: "db_unique ?d" "db_keys ?d" "s' \<in> set (t_rows (subscriptions ?d))"
    using assms(6) s' by (intro save_live_sub [OF assms(1,4)]; simp)+
  have gets: "plan_get (sub_plan_id s) w = (Inr (Some cur), w)"
    using plan_get_found [of w cur] assms(1,7,8) by (simp add: store_ok_def db_keys_def)
  have "change_plan bus now now' u (plan_id new) w =
    (Inr (action_response s' (if ?up then Some pv else None) (if ?up then None else Some (plan_id new))),
     w\<lparr>w_db := ?d, w_committed := ?d,
       w_bus := w_bus w @ [subscription_event ''plan_changed'' s' (Some (user_id u))]\<rparr>)"
    using require_live_run [OF assms(1,4-6)] require_active_run [OF assms(1,9,10)] gets assms(2,3,11,12) d(1)
    by (cases ?up) (simp_all add: change_plan_def decide_plan_change_def Let_def s'_def pv_def commit_run publish_run
        del: plan_get_run)
  then show ?thesis
    using d s' net assms(5) by (simp add: action_response_def store_ok_def s'_def)
qed

definition upgrade_world :: "keyspace world" where
  "upgrade_world = (let d = sample_db\<lparr>plans := \<lparr>t_rows = [sample_plan,
       sample_plan\<lparr>plan_id := 2, plan_slug := ''max'', plan_price_cents := 9999\<rparr>], t_seq = 2\<rparr>\<rparr>
     in sample_world\<lparr>w_db := d, w_committed := d\<rparr>)"

lemma upgrade_world_ok: "store_ok upgrade_world"
  using sample_db_ok
  by (simp add: store_ok_def upgrade_world_def Let_def db_unique_def db_keys_def unique_on_def
      List.map_filter_simps table_wf_def sample_plan_def)

theorem change_plan_spec_witness:
  "\<exists>r w'. change_plan (\<lambda>_. True) 9 10 sample_user 2 upgrade_world = (Inr r, w') \<and>
     sub_plan_id (ar_subscription r) = 2 \<and> (\<exists>pv. ar_preview r = Some pv \<and> 0 \<le> net_cents pv)"
  using change_plan_spec [OF upgrade_world_ok, of "\<lambda>_. True" sample_user 7 sample_sub sample_plan
      "sample_plan\<lparr>plan_id := 2, plan_slug := ''max'', plan_price_cents := 9999\<rparr>" 9 10]
  by (auto simp: upgrade_world_def sample_defs Let_def is_live_def LIVE_STATUSES_def)

section \<open>Tenant isolation of invoices\<close>

lemma ensure_foreign:
  assumes "\<forall>v \<in> set (t_rows (invoices (w_db w))). inv_id v = i \<longrightarrow> inv_tenant_id v \<noteq> user_tenant_id u"
  shows "ensure_tenant_invoice i u w = (Inl (NotFoundException ''Invoice not found''), w)"
    and "get_invoice u i w = (Inl (NotFoundException ''Invoice not found''), w)"
proof -
  have "select_where (\<lambda>v. inv_id v = i \<and> inv_tenant_id v = Some t) (invoices (w_db w)) = []"
    if "user_tenant_id u = Some t" for t
    using assms that by (auto simp: select_where_def filter_empty_conv)
  then show "ensure_tenant_invoice i u w = (Inl (NotFoundException ''Invoice not found''), w)"
    "get_invoice u i w = (Inl (NotFoundException ''Invoice not found''), w)"
    by (auto simp: ensure_tenant_invoice_def get_invoice_def invoice_get_for_tenant_def split: option.splits)
qed

lemma lifecycle_foreign:
  assumes "ensure_tenant_invoice i u w = (Inl (NotFoundException ''Invoice not found''), w)"
  shows "\<exists>e. lifecycle_endpoint sfx op bus sc u i w = (Inl e, w) \<and>
    (e = NotFoundException ''Invoice not found'' \<or> (\<exists>d. e = HTTPException 403 d))"
  using assms by (simp add: lifecycle_endpoint_def thenM_def bindM_def permission_checker_run)

text \<open>
  C27: invoices are isolated by tenant. For an invoice id that belongs to another tenant (or to none), the
  read endpoint answers 404, the lifecycle endpoints answer 404 (or 403 without the permission) and leave the
  whole state untouched, and a listing contains only invoices of the caller's own tenant.
\<close>

theorem invoice_tenant_isolation:
  assumes "\<forall>v \<in> set (t_rows (invoices (w_db w))). inv_id v = i \<longrightarrow> inv_tenant_id v \<noteq> user_tenant_id u"
  shows "get_invoice u i w = (Inl (NotFoundException ''Invoice not found''), w) \<and>
    (\<forall>m \<in> {issue_invoice bus now sc u i w, pay_invoice bus now sc u i w, void_invoice bus sc u i w}.
      \<exists>e. m = (Inl e, w) \<and> (e = NotFoundException ''Invoice not found'' \<or> (\<exists>d. e = HTTPException 403 d))) \<and>
    (\<exists>vs. list_invoices u status lmt off w = (Inr vs, w) \<and>
      (\<forall>v \<in> set vs. inv_tenant_id v = user_tenant_id u \<and> user_tenant_id u \<noteq> None))"
proof -
  have "v \<in> set rs" if "v \<in> set (limit_rows lmt (offset_rows off (order_desc inv_id rs)))" for v and rs :: "invoice list"
    using that set_order_desc [of inv_id rs]
    by (auto simp: limit_rows_def offset_rows_def dest!: in_set_takeD in_set_dropD)
  then have "\<exists>vs. list_invoices u status lmt off w = (Inr vs, w) \<and>
      (\<forall>v \<in> set vs. inv_tenant_id v = user_tenant_id u \<and> user_tenant_id u \<noteq> None)"
    by (cases "user_tenant_id u")
      (force simp: list_invoices_def invoice_list_for_tenant_def select_where_def)+
  then show ?thesis
    using ensure_foreign [OF assms]
    by (simp add: issue_invoice_def pay_invoice_def void_invoice_def lifecycle_foreign)
qed

theorem invoice_tenant_isolation_witness:
  "get_invoice (sample_user\<lparr>user_tenant_id := Some 8\<rparr>) 1 invoiced_world =
     (Inl (NotFoundException ''Invoice not found''), invoiced_world)"
  using invoice_tenant_isolation [of invoiced_world 1 "sample_user\<lparr>user_tenant_id := Some 8\<rparr>" "\<lambda>_. True" 0 None None 50 0]
  by (simp add: invoiced_world_def sample_invoice_def sample_sub_def new_subscription_def draft_invoice_def)

end
