(* ===== verification/Crud.thy ===== *)
theory Crud
  imports Samples
begin

text \<open>
  \<^verbatim>\<open>app/crud/base.py\<close>: the generic CRUD class, and \<^verbatim>\<open>app/utils/pagination.py\<close>.

  \<open>'a model\<close> is what \<^verbatim>\<open>CRUDBase.model\<close> gives the methods: the table, the primary key and, for a class
  with \<^verbatim>\<open>SoftDeleteMixin\<close>, the column \<^verbatim>\<open>deleted_at\<close>. The locale \<open>crud_model\<close> states what a descriptor
  must satisfy, \<open>soft_model\<close> extends it for soft-deletable classes and proves the soft-delete protocol once;
  both are interpreted for users, API keys, webhooks and notifications. A schema argument is the row it dumps to, or the
  function that sets its attributes. Cascades of a purge into other tables and the cached count are not
  modelled.
\<close>

section \<open>Model descriptors\<close>

record 'a model =
  m_tbl :: "db \<Rightarrow> 'a table"
  m_upd :: "('a table \<Rightarrow> 'a table) \<Rightarrow> db \<Rightarrow> db"
  m_rid :: "'a \<Rightarrow> int"
  m_set_id :: "int \<Rightarrow> 'a \<Rightarrow> 'a"
  m_soft :: "(('a \<Rightarrow> datetime option) \<times> (datetime option \<Rightarrow> 'a \<Rightarrow> 'a)) option"

definition has_soft_delete :: "'a model \<Rightarrow> bool" where
  "has_soft_delete M = (m_soft M \<noteq> None)"

definition visible :: "'a model \<Rightarrow> bool \<Rightarrow> 'a \<Rightarrow> bool" where
  "visible M include_deleted r =
     (include_deleted \<or> (case m_soft M of None \<Rightarrow> True | Some (deleted_at, _) \<Rightarrow> deleted_at r = None))"

section \<open>Reads\<close>

definition crud_get :: "'a model \<Rightarrow> int \<Rightarrow> bool \<Rightarrow> ('r, 'a option) app" where
  "crud_get M i include_deleted =
     select_one (m_tbl M) (\<lambda>r. m_rid M r = i \<and> visible M include_deleted r)"

definition order_by_id :: "'a model \<Rightarrow> 'a list \<Rightarrow> 'a list" where
  "order_by_id M rs = sort_key (m_rid M) rs"

definition get_multi :: "'a model \<Rightarrow> int \<Rightarrow> int \<Rightarrow> bool \<Rightarrow> ('r, 'a list) app" where
  "get_multi M skip lmt include_deleted =
     bindM (select_all (m_tbl M) (visible M include_deleted))
       (\<lambda>rs. returnM (limit_rows lmt (offset_rows skip (order_by_id M rs))))"

definition get_multi_cursor ::
  "'a model \<Rightarrow> int option \<Rightarrow> int \<Rightarrow> bool \<Rightarrow> ('r, 'a list \<times> int option) app" where
  "get_multi_cursor M cursor lmt include_deleted =
     bindM (select_all (m_tbl M) (\<lambda>r. (case cursor of None \<Rightarrow> True | Some c \<Rightarrow> m_rid M r > c) \<and>
              visible M include_deleted r))
       (\<lambda>rs. let rows = limit_rows (lmt + 1) (order_by_id M rs);
                 next_cursor = (if int (length rows) > lmt then Some (m_rid M (last rows)) else None)
             in returnM (take (nat lmt) rows, next_cursor))"

definition crud_count :: "'a model \<Rightarrow> bool \<Rightarrow> ('r, int) app" where
  "crud_count M include_deleted =
     bindM (select_all (m_tbl M) (visible M include_deleted)) (\<lambda>rs. returnM (int (length rs)))"

section \<open>Writes\<close>

definition crud_create :: "'a model \<Rightarrow> 'a \<Rightarrow> ('r, 'a) app" where
  "crud_create M db_obj =
     bindM (db_add (m_tbl M) (m_upd M) (m_set_id M) db_obj) (\<lambda>obj. thenM commit (returnM obj))"

text \<open>\<open>db.add_all(objs)\<close>\<close>

fun db_add_all :: "'a model \<Rightarrow> 'a list \<Rightarrow> ('r, 'a list) app" where
  "db_add_all M [] = returnM []"
| "db_add_all M (r # rs) =
     bindM (db_add (m_tbl M) (m_upd M) (m_set_id M) r) (\<lambda>r'.
       bindM (db_add_all M rs) (\<lambda>rs'. returnM (r' # rs')))"

definition crud_bulk_create :: "'a model \<Rightarrow> 'a list \<Rightarrow> ('r, 'a list) app" where
  "crud_bulk_create M db_objs = bindM (db_add_all M db_objs) (\<lambda>objs. thenM commit (returnM objs))"

definition crud_update :: "'a model \<Rightarrow> 'a \<Rightarrow> ('a \<Rightarrow> 'a) \<Rightarrow> ('r, 'a) app" where
  "crud_update M db_obj set_attributes =
     (let obj = set_attributes db_obj
      in thenM (db_save (m_upd M) (m_rid M) obj) (thenM commit (returnM obj)))"

definition crud_delete :: "'a model \<Rightarrow> datetime \<Rightarrow> int \<Rightarrow> ('r, 'a option) app" where
  "crud_delete M now i =
     bindM (crud_get M i False) (\<lambda>r.
       case r of None \<Rightarrow> returnM None
       | Some obj \<Rightarrow>
           (case m_soft M of
              Some (_, set_deleted_at) \<Rightarrow>
                (let obj' = set_deleted_at (Some now) obj
                 in thenM (db_save (m_upd M) (m_rid M) obj') (thenM commit (returnM (Some obj'))))
            | None \<Rightarrow>
                thenM (modifyM (\<lambda>w. w\<lparr>w_db := m_upd M (delete_row (m_rid M) (m_rid M obj)) (w_db w)\<rparr>))
                  (thenM commit (returnM (Some obj)))))"

definition crud_restore :: "'a model \<Rightarrow> int \<Rightarrow> ('r, 'a option) app" where
  "crud_restore M i =
     (case m_soft M of None \<Rightarrow> returnM None
      | Some (deleted_at, set_deleted_at) \<Rightarrow>
          bindM (crud_get M i True) (\<lambda>r.
            case r of None \<Rightarrow> returnM None
            | Some obj \<Rightarrow>
                if deleted_at obj = None then returnM None
                else (let obj' = set_deleted_at None obj
                      in thenM (db_save (m_upd M) (m_rid M) obj') (thenM commit (returnM (Some obj'))))))"

text \<open>\<open>now.replace(hour=0, minute=0, second=0, microsecond=0)\<close> in UTC\<close>

definition midnight :: "datetime \<Rightarrow> datetime" where
  "midnight now = now - now mod days_td 1"

definition crud_purge :: "'a model \<Rightarrow> datetime \<Rightarrow> int \<Rightarrow> ('r, int) app" where
  "crud_purge M now older_than_days =
     (case m_soft M of None \<Rightarrow> returnM 0
      | Some (deleted_at, _) \<Rightarrow>
          (let cutoff = midnight now - days_td older_than_days;
               old = (\<lambda>r. case deleted_at r of None \<Rightarrow> False | Some t \<Rightarrow> t < cutoff)
           in bindM (getsM (\<lambda>w. int (length (select_where old (m_tbl M (w_db w)))))) (\<lambda>rowcount.
                thenM (modifyM (\<lambda>w. w\<lparr>w_db := m_upd M (\<lambda>t. t\<lparr>t_rows := filter (\<lambda>r. \<not> old r) (t_rows t)\<rparr>) (w_db w)\<rparr>))
                  (thenM commit (returnM rowcount)))))"

section \<open>Pages\<close>

record params =
  pg_page :: int
  pg_size :: int

definition params_valid :: "params \<Rightarrow> bool" where
  "params_valid p \<longleftrightarrow> 1 \<le> pg_page p \<and> 1 \<le> pg_size p \<and> pg_size p \<le> 100"

definition params_skip :: "params \<Rightarrow> int" where
  "params_skip p = (pg_page p - 1) * pg_size p"

record 'a page =
  page_items :: "'a list"
  page_total :: int
  page_page :: int
  page_size :: int
  page_pages :: int

text \<open>\<open>ceil(total / size)\<close>: the quotient is a float.\<close>

definition page_create :: "'a list \<Rightarrow> int \<Rightarrow> params \<Rightarrow> 'a page" where
  "page_create items n p =
     (let pages = (if n > 0 then \<lceil>fl (of_int n / of_int (pg_size p))\<rceil> else 0)
      in \<lparr>page_items = items, page_total = n, page_page = pg_page p, page_size = pg_size p, page_pages = pages\<rparr>)"

record 'a cursor_page =
  cp_items :: "'a list"
  cp_next_cursor :: "int option"
  cp_has_more :: bool
  cp_size :: int

text \<open>The cursor is kept decoded here; its text is in \<^verbatim>\<open>Cursor\<close>.\<close>

definition cursor_page_create :: "('a \<Rightarrow> int) \<Rightarrow> 'a list \<Rightarrow> int \<Rightarrow> 'a cursor_page" where
  "cursor_page_create get_id items sz =
     (let has_more = (int (length items) > sz);
          shown = take (nat sz) items;
          next_cursor = (if has_more \<and> shown \<noteq> [] then Some (get_id (last shown)) else None)
      in \<lparr>cp_items = shown, cp_next_cursor = next_cursor, cp_has_more = has_more,
          cp_size = int (length shown)\<rparr>)"

section \<open>The contract of a model descriptor\<close>

locale crud_model =
  fixes M :: "'a model"
  assumes tbl_upd: "m_tbl M (m_upd M f d) = f (m_tbl M d)"
    and upd_upd: "m_upd M f (m_upd M g d) = m_upd M (\<lambda>t. f (g t)) d"
    and upd_same: "f (m_tbl M d) = m_tbl M d \<Longrightarrow> m_upd M f d = d"
    and rid_set_id: "m_rid M (m_set_id M i r) = i"
begin

lemma get_by_id:
  assumes "table_wf (m_rid M) (m_tbl M (w_db w))" "r \<in> set (t_rows (m_tbl M (w_db w)))" "visible M incl r"
  shows "crud_get M (m_rid M r) incl w = (Inr (Some r), w)"
proof -
  have "filter (\<lambda>x. m_rid M x = m_rid M r \<and> visible M incl x) (t_rows (m_tbl M (w_db w))) =
    filter (\<lambda>x. visible M incl x) (filter (\<lambda>x. m_rid M x = m_rid M r) (t_rows (m_tbl M (w_db w))))"
    by (simp add: conj_commute)
  also have "filter (\<lambda>x. m_rid M x = m_rid M r) (t_rows (m_tbl M (w_db w))) = [r]"
    using assms(1,2) by (intro distinct_filter_key) (simp_all add: table_wf_def)
  finally show ?thesis using assms(3) by (simp add: crud_get_def select_where_def)
qed

lemma get_invisible:
  assumes "\<And>x. x \<in> set (t_rows (m_tbl M (w_db w))) \<Longrightarrow> m_rid M x = i \<Longrightarrow> \<not> visible M incl x"
  shows "crud_get M i incl w = (Inr None, w)"
proof -
  have "filter (\<lambda>x. m_rid M x = i \<and> visible M incl x) (t_rows (m_tbl M (w_db w))) = []"
    using assms by (auto simp: filter_empty_conv)
  then show ?thesis by (simp add: crud_get_def select_where_def)
qed

lemma save_then_save_back:
  assumes "table_wf (m_rid M) (m_tbl M d)" "r \<in> set (t_rows (m_tbl M d))" "m_rid M r' = m_rid M r"
  shows "m_upd M (update_row (m_rid M) r) (m_upd M (update_row (m_rid M) r') d) = d"
  unfolding upd_upd using assms
  by (intro upd_same) (simp add: update_row_twice update_row_same table_wf_def)

text \<open>Offset pages, one after the other, list every visible row once, in the order of the keys.\<close>

lemma pages_cover:
  assumes "0 < lmt" "int (length (filter (visible M incl) (t_rows (m_tbl M (w_db w))))) \<le> int n * lmt"
  shows "concat (map (\<lambda>k. case get_multi M (int k * lmt) lmt incl w of (Inr rs, _) \<Rightarrow> rs | _ \<Rightarrow> []) [0..<n]) =
    order_by_id M (filter (visible M incl) (t_rows (m_tbl M (w_db w))))"
proof -
  let ?xs = "order_by_id M (filter (visible M incl) (t_rows (m_tbl M (w_db w))))"
  have page: "(case get_multi M (int k * lmt) lmt incl w of (Inr rs, _) \<Rightarrow> rs | _ \<Rightarrow> []) =
    take (nat lmt) (drop (k * nat lmt) ?xs)" for k
    using assms(1) by (simp add: get_multi_def limit_rows_def offset_rows_def select_where_def nat_mult_distrib)
  have "concat (map (\<lambda>k. take m (drop (k * m) xs)) [0..<n]) = take (n * m) xs" for m and xs :: "'a list"
  proof (induction n)
    case (Suc n)
    have "take (n * m + m) xs = take (n * m) xs @ take m (drop (n * m) xs)" by (rule take_add)
    then show ?case using Suc by (simp add: add.commute)
  qed simp
  moreover have "length ?xs \<le> n * nat lmt"
    using assms by (simp add: order_by_id_def nat_le_iff [symmetric] nat_mult_distrib flip: zle_int)
  ultimately show ?thesis unfolding page by simp
qed

end

sublocale crud_model \<subseteq> rows: row_type "m_rid M" "m_set_id M"
  by unfold_locales (rule rid_set_id)

locale soft_model = crud_model +
  fixes deleted_at :: "'a \<Rightarrow> datetime option" and set_deleted_at :: "datetime option \<Rightarrow> 'a \<Rightarrow> 'a"
  assumes soft: "m_soft M = Some (deleted_at, set_deleted_at)"
    and get_set: "deleted_at (set_deleted_at v r) = v"
    and set_set: "set_deleted_at v (set_deleted_at v' r) = set_deleted_at v r"
    and set_get: "deleted_at r = v \<Longrightarrow> set_deleted_at v r = r"
    and rid_set: "m_rid M (set_deleted_at v r) = m_rid M r"
    and soft_unique: "db_unique d \<Longrightarrow> table_wf (m_rid M) (m_tbl M d) \<Longrightarrow> r \<in> set (t_rows (m_tbl M d)) \<Longrightarrow>
      db_unique (m_upd M (update_row (m_rid M) (set_deleted_at v r)) d)"
begin

lemma visible_soft: "visible M incl r \<longleftrightarrow> incl \<or> deleted_at r = None"
  by (simp add: visible_def soft)

lemma delete_run:
  fixes now :: datetime
  assumes "db_unique (w_db w)" "table_wf (m_rid M) (m_tbl M (w_db w))" "r \<in> set (t_rows (m_tbl M (w_db w)))"
    and "deleted_at r = None"
  defines "d' \<equiv> m_upd M (update_row (m_rid M) (set_deleted_at (Some now) r)) (w_db w)"
  shows "crud_delete M now (m_rid M r) w = (Inr (Some (set_deleted_at (Some now) r)), w\<lparr>w_db := d', w_committed := d'\<rparr>)"
  using get_by_id [OF assms(2,3), of False] soft_unique [OF assms(1-3), of "Some now"] assms(4)
  by (simp add: crud_delete_def soft visible_soft Let_def commit_run d'_def)

lemma restore_run:
  assumes "db_unique (w_db w)" "table_wf (m_rid M) (m_tbl M (w_db w))" "r \<in> set (t_rows (m_tbl M (w_db w)))"
    and "deleted_at r \<noteq> None"
  defines "d' \<equiv> m_upd M (update_row (m_rid M) (set_deleted_at None r)) (w_db w)"
  shows "crud_restore M (m_rid M r) w = (Inr (Some (set_deleted_at None r)), w\<lparr>w_db := d', w_committed := d'\<rparr>)"
  using get_by_id [OF assms(2,3), of True] soft_unique [OF assms(1-3), of None] assms(4)
  by (simp add: crud_restore_def soft visible_soft Let_def commit_run d'_def)

text \<open>A deleted row is out of sight, and restoring it undoes the deletion.\<close>

lemma delete_restore:
  assumes "db_unique (w_db w)" "table_wf (m_rid M) (m_tbl M (w_db w))" "r \<in> set (t_rows (m_tbl M (w_db w)))"
    and "deleted_at r = None"
  shows "\<exists>w1 w2. crud_delete M now (m_rid M r) w = (Inr (Some (set_deleted_at (Some now) r)), w1) \<and>
    crud_get M (m_rid M r) False w1 = (Inr None, w1) \<and>
    crud_restore M (m_rid M r) w1 = (Inr (Some r), w2) \<and> w_committed w2 = w_db w \<and> w_db w2 = w_db w"
proof -
  let ?r = "set_deleted_at (Some now) r"
  let ?t' = "update_row (m_rid M) ?r (m_tbl M (w_db w))"
  define w1 where "w1 = w\<lparr>w_db := m_upd M (update_row (m_rid M) ?r) (w_db w),
    w_committed := m_upd M (update_row (m_rid M) ?r) (w_db w)\<rparr>"
  have tab: "m_tbl M (w_db w1) = ?t'" by (simp add: w1_def tbl_upd)
  have wf: "table_wf (m_rid M) ?t'"
    by (rule rows.wf_update [OF assms(2)])
  have mem: "?r \<in> set (t_rows ?t')" using assms(3) by (force simp: update_row_def rid_set)
  have other: "x = ?r" if "x \<in> set (t_rows ?t')" "m_rid M x = m_rid M r" for x
    using distinct_key_unique [of "m_rid M" "t_rows ?t'" x ?r] wf mem that by (simp add: table_wf_def rid_set)
  have "crud_get M (m_rid M r) False w1 = (Inr None, w1)"
    using other by (intro get_invisible) (force simp: tab visible_soft get_set)
  moreover have "crud_get M (m_rid M ?r) True w1 = (Inr (Some ?r), w1)"
    using wf mem by (intro get_by_id) (simp_all add: tab visible_soft)
  then have "crud_restore M (m_rid M r) w1 = (Inr (Some r), w1\<lparr>w_db := w_db w, w_committed := w_db w\<rparr>)"
    using save_then_save_back [OF assms(2,3), of ?r] assms(1,4)
    by (simp add: crud_restore_def soft Let_def commit_run get_set set_set set_get rid_set w1_def)
  ultimately show ?thesis using delete_run [OF assms, of now] by (auto simp: w1_def)
qed

end

section \<open>The soft-deletable classes\<close>

definition user_model :: "user model" where
  "user_model = \<lparr>m_tbl = users, m_upd = users_update, m_rid = user_id, m_set_id = (\<lambda>i r. r\<lparr>user_id := i\<rparr>),
     m_soft = Some (user_deleted_at, \<lambda>v r. r\<lparr>user_deleted_at := v\<rparr>)\<rparr>"

definition key_model :: "api_key model" where
  "key_model = \<lparr>m_tbl = api_keys, m_upd = api_keys_update, m_rid = key_id, m_set_id = (\<lambda>i r. r\<lparr>key_id := i\<rparr>),
     m_soft = Some (key_deleted_at, \<lambda>v r. r\<lparr>key_deleted_at := v\<rparr>)\<rparr>"

definition webhook_model :: "webhook model" where
  "webhook_model = \<lparr>m_tbl = webhooks, m_upd = webhooks_update, m_rid = wh_id, m_set_id = (\<lambda>i r. r\<lparr>wh_id := i\<rparr>),
     m_soft = Some (wh_deleted_at, \<lambda>v r. r\<lparr>wh_deleted_at := v\<rparr>)\<rparr>"

definition notification_model :: "notification model" where
  "notification_model = \<lparr>m_tbl = notifications, m_upd = notifications_update, m_rid = ntf_id,
     m_set_id = (\<lambda>i r. r\<lparr>ntf_id := i\<rparr>), m_soft = Some (ntf_deleted_at, \<lambda>v r. r\<lparr>ntf_deleted_at := v\<rparr>)\<rparr>"

lemmas model_defs = user_model_def key_model_def webhook_model_def notification_model_def

text \<open>An update of a user that keeps email and username keeps every constraint.\<close>

lemma user_by_id_unique:
  "table_wf user_id t \<Longrightarrow> u \<in> set (t_rows t) \<Longrightarrow> x \<in> set (t_rows t) \<Longrightarrow> user_id x = user_id u \<Longrightarrow> x = u"
  using distinct_key_unique [of user_id "t_rows t" x u] by (simp add: table_wf_def)

lemma db_unique_save_user:
  assumes "db_unique d" "table_wf user_id (users d)" "u \<in> set (t_rows (users d))" "user_id u' = user_id u"
    and "user_email u' = user_email u" "user_username u' = user_username u"
  shows "db_unique (users_update (update_row user_id u') d)"
proof -
  have same: "x = u" if "x \<in> set (t_rows (users d))" "user_id x = user_id u'" for x
    using user_by_id_unique [OF assms(2,3) that(1)] that(2) assms(4) by simp
  have "unique_on (\<lambda>u. Some (user_email u)) (update_row user_id u' (users d))"
    using assms(1,5) same by (intro unique_on_update [OF _ assms(2)]) (auto simp: db_unique_def)
  moreover have "unique_on (\<lambda>u. Some (user_username u)) (update_row user_id u' (users d))"
    using assms(1,6) same by (intro unique_on_update [OF _ assms(2)]) (auto simp: db_unique_def)
  ultimately show ?thesis using assms(1) by (simp add: db_unique_def)
qed

interpretation user_crud: soft_model user_model user_deleted_at "\<lambda>v r. r\<lparr>user_deleted_at := v\<rparr>"
proof unfold_locales
  fix d r v
  assume "db_unique d" "table_wf (m_rid user_model) (m_tbl user_model d)" "r \<in> set (t_rows (m_tbl user_model d))"
  then show "db_unique (m_upd user_model (update_row (m_rid user_model) (r\<lparr>user_deleted_at := v\<rparr>)) d)"
    using db_unique_save_user [of d r "r\<lparr>user_deleted_at := v\<rparr>"] by (simp add: model_defs)
qed (simp_all add: model_defs comp_def)

interpretation key_crud: soft_model key_model key_deleted_at "\<lambda>v r. r\<lparr>key_deleted_at := v\<rparr>"
  by unfold_locales (simp_all add: model_defs comp_def db_unique_def)

interpretation webhook_crud: soft_model webhook_model wh_deleted_at "\<lambda>v r. r\<lparr>wh_deleted_at := v\<rparr>"
  by unfold_locales (simp_all add: model_defs comp_def db_unique_def)

interpretation notification_crud: soft_model notification_model ntf_deleted_at "\<lambda>v r. r\<lparr>ntf_deleted_at := v\<rparr>"
  by unfold_locales (simp_all add: model_defs comp_def db_unique_def)

section \<open>Cursor pages\<close>

text \<open>In a list sorted by distinct keys, the rows beyond the key of row \<open>n\<close> are those after it.\<close>

lemma filter_beyond:
  fixes key :: "'a \<Rightarrow> int"
  assumes "sorted (map key xs)" "distinct (map key xs)" "n < length xs"
  shows "filter (\<lambda>r. key r > key (xs ! n)) xs = drop (Suc n) xs"
proof -
  have lt: "key (xs ! i) < key (xs ! j)" if "i < j" "j < length xs" for i j
    using assms(1,2) that sorted_nth_mono [of "map key xs" i j] nth_eq_iff_index_eq [of "map key xs" i j]
    by (simp add: less_le)
  have "filter (\<lambda>r. key r > key (xs ! n)) (take (Suc n) xs) = []"
    using lt assms(3) by (fastforce simp: filter_empty_conv in_set_conv_nth not_less less_Suc_eq intro: less_imp_le)
  moreover have "filter (\<lambda>r. key r > key (xs ! n)) (drop (Suc n) xs) = drop (Suc n) xs"
    using lt assms(3) by (auto simp: filter_id_conv in_set_conv_nth)
  ultimately show ?thesis
    using filter_append [of "\<lambda>r. key r > key (xs ! n)" "take (Suc n) xs" "drop (Suc n) xs"] by simp
qed

lemma order_by_id_sorted:
  assumes "distinct (map (m_rid M) rs)"
  shows "sorted (map (m_rid M) (order_by_id M rs))" "distinct (map (m_rid M) (order_by_id M rs))"
  using assms by (simp_all add: order_by_id_def distinct_map)

text \<open>The query fetches one row more than the page shows, to learn whether there are more.\<close>

lemma overfetch:
  fixes ys :: "'a list"
  assumes "0 \<le> lmt" and "rows = limit_rows (lmt + 1) ys"
  shows "take (nat lmt) rows = take (nat lmt) ys"
    "(if int (length rows) > lmt then Some (f (last rows)) else None) =
     (if int (length ys) > lmt then Some (f (ys ! nat lmt)) else None)"
proof -
  obtain k where k: "lmt = int k" using assms(1) nonneg_int_cases by blast
  have "nat (int k + 1) = Suc k" by simp
  then have rows: "rows = take (Suc k) ys" using assms(2) by (simp add: limit_rows_def k)
  show "take (nat lmt) rows = take (nat lmt) ys" by (simp add: rows k min_def)
  have "last rows = ys ! k" if "k < length ys"
    using that by (simp add: rows take_Suc_conv_app_nth)
  then show "(if int (length rows) > lmt then Some (f (last rows)) else None) =
     (if int (length ys) > lmt then Some (f (ys ! nat lmt)) else None)"
    by (auto simp: rows k min_def)
qed

lemma get_multi_cursor_from:
  fixes M :: "'a model" and w :: "'r world" and incl :: bool
  assumes "table_wf (m_rid M) (m_tbl M (w_db w))" "0 \<le> lmt"
  defines "xs \<equiv> order_by_id M (select_where (visible M incl) (m_tbl M (w_db w)))"
  assumes "n < length xs"
  shows "get_multi_cursor M (Some (m_rid M (xs ! n))) lmt incl w =
    (Inr (take (nat lmt) (drop (Suc n) xs),
      if int (length (drop (Suc n) xs)) > lmt then Some (m_rid M (drop (Suc n) xs ! nat lmt)) else None), w)"
proof -
  let ?c = "m_rid M (xs ! n)" and ?ys = "drop (Suc n) xs"
  have dist: "distinct (map (m_rid M) (select_where (visible M incl) (m_tbl M (w_db w))))"
    using assms(1) by (simp add: table_wf_def select_where_def distinct_map_filter)
  have "order_by_id M (filter (\<lambda>r. m_rid M r > ?c \<and> visible M incl r) (t_rows (m_tbl M (w_db w)))) =
    filter (\<lambda>r. m_rid M r > ?c) xs"
    by (simp add: xs_def order_by_id_def select_where_def filter_sort [symmetric] conj_commute)
  also have "\<dots> = ?ys"
    using order_by_id_sorted [OF dist] assms(4) unfolding xs_def by (rule filter_beyond)
  finally have rows: "order_by_id M (filter (\<lambda>r. m_rid M r > ?c \<and> visible M incl r) (t_rows (m_tbl M (w_db w)))) = ?ys" .
  show ?thesis
    using overfetch(1) [OF assms(2) refl, of ?ys] overfetch(2) [OF assms(2) refl, of ?ys "m_rid M"] by (simp only: get_multi_cursor_def select_where_def rows Let_def
        bindM_Inr [OF select_all_run] returnM_run option.case)
qed

lemma get_multi_cursor_first:
  fixes M :: "'a model" and w :: "'r world" and incl :: bool
  assumes "0 \<le> lmt"
  defines "xs \<equiv> order_by_id M (select_where (visible M incl) (m_tbl M (w_db w)))"
  shows "get_multi_cursor M None lmt incl w =
    (Inr (take (nat lmt) xs, if int (length xs) > lmt then Some (m_rid M (xs ! nat lmt)) else None), w)"
  using overfetch(1) [OF assms(1) refl, of xs] overfetch(2) [OF assms(1) refl, of xs "m_rid M"]
  by (simp only: get_multi_cursor_def select_where_def Let_def xs_def bindM_Inr [OF select_all_run] returnM_run
      option.case simp_thms)

section \<open>Properties\<close>

text \<open>
  Offset pagination is complete. Reading the pages \<open>0, 1, 2, ..\<close> of a fixed positive size lists every
  user that is not deleted exactly once, in the order of the ids.
\<close>

theorem offset_pages_complete:
  assumes "0 < lmt" and "int (length (filter (\<lambda>u. user_deleted_at u = None) (t_rows (users (w_db w))))) \<le> int n * lmt"
  shows "concat (map (\<lambda>k. case get_multi user_model (int k * lmt) lmt False w of (Inr us, _) \<Rightarrow> us | _ \<Rightarrow> []) [0..<n]) =
    sort_key user_id (filter (\<lambda>u. user_deleted_at u = None) (t_rows (users (w_db w))))"
proof -
  have v: "visible user_model False = (\<lambda>u. user_deleted_at u = None)"
    by (rule ext) (simp add: user_crud.visible_soft)
  show ?thesis
    using user_crud.pages_cover [of lmt False w n] assms unfolding v by (simp add: order_by_id_def model_defs)
qed

theorem offset_pages_complete_witness:
  "concat (map (\<lambda>k. case get_multi user_model (int k * 10) 10 False sample_world of (Inr us, _) \<Rightarrow> us | _ \<Rightarrow> []) [0..<1]) =
    [sample_user]"
  using offset_pages_complete [of 10 sample_world 1] by (simp add: sample_defs)

text \<open>
  Cursor pagination loses a row at every page boundary. When more rows than the page size remain, the
  cursor returned with a page is the id of the first row that the page does not show, and the next page
  starts after it: the row is on neither page.
\<close>

theorem cursor_skips_row:
  assumes "table_wf user_id (users (w_db w))" and "0 \<le> lmt"
    and "xs = sort_key user_id (filter (\<lambda>u. user_deleted_at u = None) (t_rows (users (w_db w))))"
    and "int (length xs) > lmt"
  shows "\<exists>c nc. get_multi_cursor user_model None lmt False w = (Inr (take (nat lmt) xs, Some c), w) \<and>
    c = user_id (xs ! nat lmt) \<and>
    get_multi_cursor user_model (Some c) lmt False w = (Inr (take (nat lmt) (drop (Suc (nat lmt)) xs), nc), w)"
proof -
  have v: "visible user_model False = (\<lambda>u. user_deleted_at u = None)"
    by (rule ext) (simp add: user_crud.visible_soft)
  have xs: "order_by_id user_model (select_where (visible user_model False) (m_tbl user_model (w_db w))) = xs"
    unfolding v by (simp add: assms(3) order_by_id_def select_where_def model_defs)
  have wf: "table_wf (m_rid user_model) (m_tbl user_model (w_db w))" using assms(1) by (simp add: model_defs)
  show ?thesis
    using get_multi_cursor_first [OF assms(2), of user_model False w]
      get_multi_cursor_from [OF wf assms(2), of "nat lmt" False] assms(2,4)
    unfolding xs by (simp add: model_defs)
qed

definition two_users :: "keyspace world" where
  "two_users = sample_world\<lparr>w_db := sample_db\<lparr>users := \<lparr>t_rows = [sample_user,
     sample_user\<lparr>user_id := 2, user_email := ''c@d.e'', user_username := ''bob''\<rparr>], t_seq = 2\<rparr>\<rparr>\<rparr>"

theorem cursor_skips_row_witness:
  "\<exists>c nc. get_multi_cursor user_model None 1 False two_users = (Inr ([sample_user], Some c), two_users) \<and>
     get_multi_cursor user_model (Some c) 1 False two_users = (Inr ([], nc), two_users)"
  using cursor_skips_row [of two_users 1 "sort_key user_id (filter (\<lambda>u. user_deleted_at u = None) (t_rows (users (w_db two_users))))"]
  by (auto simp: two_users_def table_wf_def sample_user_def)

text \<open>
  Soft deletion of users. A deleted user is no longer found, and restoring the user returns the database
  to exactly the state before the deletion.
\<close>

theorem soft_delete_roundtrip:
  assumes "db_unique (w_db w)" and "db_keys (w_db w)" and "u \<in> set (t_rows (users (w_db w)))"
    and "user_deleted_at u = None"
  shows "\<exists>w1 w2. crud_delete user_model now (user_id u) w = (Inr (Some (u\<lparr>user_deleted_at := Some now\<rparr>)), w1) \<and>
    crud_get user_model (user_id u) False w1 = (Inr None, w1) \<and>
    crud_restore user_model (user_id u) w1 = (Inr (Some u), w2) \<and> w_committed w2 = w_db w \<and> w_db w2 = w_db w"
  using user_crud.delete_restore [of w u now] assms by (simp add: model_defs db_keys_def)

theorem soft_delete_roundtrip_witness:
  "\<exists>w1. crud_delete user_model 9 1 sample_world = (Inr (Some (sample_user\<lparr>user_deleted_at := Some 9\<rparr>)), w1) \<and>
     crud_get user_model 1 False w1 = (Inr None, w1)"
  using soft_delete_roundtrip [of sample_world sample_user 9] sample_db_ok
  by (auto simp: sample_world_def sample_db_def sample_user_def)

end
