(* ===== verification/Security.thy ===== *)
theory Security
  imports Crud
begin

text \<open>
  \<^verbatim>\<open>app/core/security.py\<close>, \<^verbatim>\<open>app/identity/services/auth_audit.py\<close> and the challenge tokens and backup
  codes of \<^verbatim>\<open>app/identity/auth/totp.py\<close>: password hashing, JSON web tokens and their purposes, brute-force
  lockout, API-key material.

  bcrypt, the JOSE library, SHA-256 and the TOTP check are parameters. Random values (UUIDs, salts, hex
  strings) and readings of the clock are arguments. A password is the list of its UTF-8 bytes. The
  \<open>claims\<close> are the registered claims the code reads, at the types that the JOSE library's validation
  ensures, and the private claim \<^verbatim>\<open>purpose\<close>; an instant in a payload is encoded in whole seconds.
\<close>

section \<open>Parameters\<close>

record bcrypt =
  hashpw :: "string \<Rightarrow> string \<Rightarrow> string"
  checkpw :: "string \<Rightarrow> string \<Rightarrow> exn + bool"

definition bcrypt_ok :: "bcrypt \<Rightarrow> bool" where
  "bcrypt_ok B \<longleftrightarrow> (\<forall>p salt. length p \<le> 72 \<longrightarrow> checkpw B p (hashpw B p salt) = Inr True)"

record claims =
  cl_jti :: "string option"
  cl_sub :: "string option"
  cl_iat :: "int option"
  cl_exp :: "int option"
  cl_purpose :: "string option"

text \<open>\<open>jwt_decode\<close> and \<open>rs_decode\<close> take the clock in seconds; \<open>None\<close> is a \<^verbatim>\<open>JWTError\<close>.\<close>

record jose =
  jwt_encode :: "string \<Rightarrow> string \<Rightarrow> claims \<Rightarrow> string"
  jwt_decode :: "int \<Rightarrow> string \<Rightarrow> string \<Rightarrow> string \<Rightarrow> claims option"
  rs_encode :: "claims \<Rightarrow> string"
  rs_decode :: "int \<Rightarrow> string \<Rightarrow> claims option"

definition unexpired :: "int \<Rightarrow> claims \<Rightarrow> bool" where
  "unexpired t c \<longleftrightarrow> (case cl_exp c of None \<Rightarrow> True | Some e \<Rightarrow> t \<le> e)"

text \<open>Documented behaviour: a token decodes with its key to its claims exactly until it expires.\<close>

definition jose_ok :: "jose \<Rightarrow> bool" where
  "jose_ok J \<longleftrightarrow>
     (\<forall>t key alg c. jwt_decode J t (jwt_encode J key alg c) key alg = (if unexpired t c then Some c else None)) \<and>
     (\<forall>t c. rs_decode J t (rs_encode J c) = (if unexpired t c then Some c else None))"

type_synonym sha256 = "string \<Rightarrow> string"

section \<open>Passwords\<close>

definition verify_password :: "bcrypt \<Rightarrow> string \<Rightarrow> string \<Rightarrow> exn + bool" where
  "verify_password B plain_password hashed_password =
     (let plain_bytes = (if length plain_password > 72 then take 72 plain_password else plain_password)
      in checkpw B plain_bytes hashed_password)"

definition get_password_hash :: "bcrypt \<Rightarrow> string \<Rightarrow> string \<Rightarrow> string" where
  "get_password_hash B salt password =
     (let plain_bytes = (if length password > 72 then take 72 password else password)
      in hashpw B plain_bytes salt)"

section \<open>Tokens\<close>

text \<open>How the JOSE library encodes an instant: whole seconds of the UTC time.\<close>

definition timegm :: "datetime \<Rightarrow> int" where
  "timegm d = d div 1000000"

text \<open>\<open>if expires_delta\<close>: a zero \<^verbatim>\<open>timedelta\<close> counts as absent.\<close>

definition make_jwt_payload ::
  "settings \<Rightarrow> datetime \<Rightarrow> string \<Rightarrow> string \<Rightarrow> timedelta option \<Rightarrow> string option \<Rightarrow> claims" where
  "make_jwt_payload S now uuid subject expires_delta purpose =
     (let expire = (case expires_delta of
                      Some d \<Rightarrow> if d \<noteq> 0 then now + d else now + minutes_td (ACCESS_TOKEN_EXPIRE_MINUTES S)
                    | None \<Rightarrow> now + minutes_td (ACCESS_TOKEN_EXPIRE_MINUTES S))
      in \<lparr>cl_jti = Some uuid, cl_sub = Some subject, cl_iat = Some (int_timestamp now),
          cl_exp = Some (timegm expire),
          cl_purpose = (case purpose of Some (c # cs) \<Rightarrow> Some (c # cs) | _ \<Rightarrow> None)\<rparr>)"

definition encode_token :: "settings \<Rightarrow> jose \<Rightarrow> claims \<Rightarrow> string" where
  "encode_token S J to_encode =
     (if ALGORITHM S = ''RS256'' then rs_encode J to_encode
      else jwt_encode J (SECRET_KEY S) (ALGORITHM S) to_encode)"

definition create_access_token ::
  "settings \<Rightarrow> jose \<Rightarrow> datetime \<Rightarrow> string \<Rightarrow> string \<Rightarrow> timedelta option \<Rightarrow> string" where
  "create_access_token S J now uuid subject expires_delta =
     encode_token S J (make_jwt_payload S now uuid subject expires_delta None)"

definition decode_access_token :: "settings \<Rightarrow> jose \<Rightarrow> int \<Rightarrow> string \<Rightarrow> exn + claims" where
  "decode_access_token S J t token =
     (case (if ALGORITHM S = ''RS256'' then rs_decode J t token
            else jwt_decode J t token (SECRET_KEY S) (ALGORITHM S)) of
        Some c \<Rightarrow> Inr c | None \<Rightarrow> Inl (HTTPException 401 ''Could not validate credentials''))"

definition create_refresh_token :: "settings \<Rightarrow> jose \<Rightarrow> datetime \<Rightarrow> string \<Rightarrow> string \<Rightarrow> string" where
  "create_refresh_token S J now uuid subject =
     encode_token S J (make_jwt_payload S now uuid subject
       (Some (days_td (REFRESH_TOKEN_EXPIRE_DAYS S))) (Some ''refresh''))"

definition decode_refresh_token :: "settings \<Rightarrow> jose \<Rightarrow> int \<Rightarrow> string \<Rightarrow> exn + claims" where
  "decode_refresh_token S J t token =
     (if ALGORITHM S = ''RS256''
      then (case rs_decode J t token of Some c \<Rightarrow> Inr c
            | None \<Rightarrow> Inl (HTTPException 401 ''Could not validate refresh token''))
      else (case jwt_decode J t token (SECRET_KEY S) (ALGORITHM S) of
              None \<Rightarrow> Inl (HTTPException 401 ''Could not validate refresh token'')
            | Some c \<Rightarrow> if cl_purpose c \<noteq> Some ''refresh'' then Inl (HTTPException 401 ''Invalid token purpose'')
                        else Inr c))"

definition create_magic_link_token :: "settings \<Rightarrow> jose \<Rightarrow> datetime \<Rightarrow> string \<Rightarrow> string \<Rightarrow> string" where
  "create_magic_link_token S J now uuid email =
     encode_token S J (make_jwt_payload S now uuid email
       (Some (minutes_td (MAGIC_LINK_EXPIRE_MINUTES S))) (Some ''magic_link''))"

definition decode_magic_link_token :: "settings \<Rightarrow> jose \<Rightarrow> int \<Rightarrow> string \<Rightarrow> exn + claims" where
  "decode_magic_link_token S J t token =
     (if ALGORITHM S = ''RS256''
      then (case rs_decode J t token of Some c \<Rightarrow> Inr c
            | None \<Rightarrow> Inl (HTTPException 400 ''Invalid or expired magic link''))
      else (case jwt_decode J t token (SECRET_KEY S) (ALGORITHM S) of
              None \<Rightarrow> Inl (HTTPException 400 ''Invalid or expired magic link'')
            | Some c \<Rightarrow> if cl_purpose c \<noteq> Some ''magic_link'' then Inl (HTTPException 400 ''Invalid token purpose'')
                        else Inr c))"

definition create_verification_token :: "settings \<Rightarrow> jose \<Rightarrow> datetime \<Rightarrow> int \<Rightarrow> string" where
  "create_verification_token S J now uid =
     jwt_encode J (SECRET_KEY S) (ALGORITHM S)
       \<lparr>cl_jti = None, cl_sub = Some (show_int uid), cl_iat = None,
        cl_exp = Some (timegm (now + hours_td 24)), cl_purpose = Some ''email_verify''\<rparr>"

definition decode_verification_token :: "settings \<Rightarrow> jose \<Rightarrow> int \<Rightarrow> string \<Rightarrow> exn + claims" where
  "decode_verification_token S J t token =
     (case jwt_decode J t token (SECRET_KEY S) (ALGORITHM S) of
        None \<Rightarrow> Inl (HTTPException 400 ''Invalid or expired verification token'')
      | Some c \<Rightarrow> if cl_purpose c \<noteq> Some ''email_verify'' then Inl (HTTPException 400 ''Invalid token purpose'')
                  else Inr c)"

definition create_totp_challenge_token :: "settings \<Rightarrow> jose \<Rightarrow> datetime \<Rightarrow> string \<Rightarrow> int \<Rightarrow> string" where
  "create_totp_challenge_token S J now hex uid =
     jwt_encode J (SECRET_KEY S) (ALGORITHM S)
       \<lparr>cl_jti = Some hex, cl_sub = Some (show_int uid), cl_iat = Some (int_timestamp now),
        cl_exp = Some (timegm (now + seconds_td (TOTP_CHALLENGE_EXPIRE_SECONDS S))),
        cl_purpose = Some ''totp_challenge''\<rparr>"

definition decode_totp_challenge_token :: "settings \<Rightarrow> jose \<Rightarrow> int \<Rightarrow> string \<Rightarrow> exn + claims" where
  "decode_totp_challenge_token S J t token =
     (case jwt_decode J t token (SECRET_KEY S) (ALGORITHM S) of
        None \<Rightarrow> Inl (HTTPException 400 ''Invalid or expired challenge token'')
      | Some c \<Rightarrow> if cl_purpose c \<noteq> Some ''totp_challenge'' then Inl (HTTPException 400 ''Invalid token purpose'')
                  else Inr c)"

section \<open>API-key material\<close>

definition generate_api_key :: "sha256 \<Rightarrow> string \<Rightarrow> string \<times> string \<times> string" where
  "generate_api_key sha hex =
     (let raw_key = ''ak_'' @ hex in (raw_key, sha raw_key, take 10 raw_key))"

definition verify_api_key :: "sha256 \<Rightarrow> string \<Rightarrow> string \<Rightarrow> bool" where
  "verify_api_key sha raw_key hashed_key = (sha raw_key = hashed_key)"

section \<open>Backup codes\<close>

definition hash_backup_code :: "sha256 \<Rightarrow> string \<Rightarrow> string" where
  "hash_backup_code sha code = sha code"

definition stored_hashes :: "string \<Rightarrow> string list" where
  "stored_hashes codes = filter (\<lambda>h. h \<noteq> []) (map py_strip (py_split (CHR '','') codes))"

definition verify_backup_code :: "sha256 \<Rightarrow> string \<Rightarrow> string option \<Rightarrow> string option" where
  "verify_backup_code sha code hashed_codes =
     (case hashed_codes of None \<Rightarrow> None
      | Some codes \<Rightarrow> if codes = [] then None
                      else List.find (\<lambda>stored. hash_backup_code sha code = stored) (stored_hashes codes))"

definition remove_used_backup_code :: "string \<Rightarrow> string option \<Rightarrow> string option" where
  "remove_used_backup_code used_hash stored_codes =
     (case stored_codes of None \<Rightarrow> None
      | Some codes \<Rightarrow>
          if codes = [] then None
          else let remaining = filter (\<lambda>h. h \<noteq> used_hash) (stored_hashes codes)
               in if remaining \<noteq> [] then Some (py_join '','' remaining) else None)"

section \<open>The audit log\<close>

definition AUTH_EVENT_TYPES :: "string set" where
  "AUTH_EVENT_TYPES = {''login_success'', ''login_failure'', ''account_locked'', ''token_refresh'',
     ''token_revoke'', ''password_change'', ''mfa_enroll'', ''mfa_disable'', ''magic_link_request'',
     ''magic_link_login''}"

text \<open>Who acts, and from where.\<close>

record client =
  c_ip :: "string option"
  c_user_agent :: "string option"

definition log_auth_event ::
  "client \<Rightarrow> string \<Rightarrow> int option \<Rightarrow> int option \<Rightarrow> (string \<times> json) list \<Rightarrow> ('r, audit_log) app" where
  "log_auth_event c event_type uid tid details =
     thenM (guardM (event_type \<in> AUTH_EVENT_TYPES) (ValueError (''Invalid auth event type: '' @ event_type)))
      (bindM (add_audit \<lparr>aud_id = 0, aud_tenant_id = tid, aud_user_id = uid, aud_event_type = event_type,
                aud_ip_address = c_ip c, aud_user_agent = c_user_agent c,
                aud_details = (if details = [] then None else Some details)\<rparr>) (\<lambda>entry.
         thenM commit (returnM entry)))"

section \<open>Users\<close>

definition get_by_email :: "string \<Rightarrow> ('r, user option) app" where
  "get_by_email email = select_one users (\<lambda>u. user_email u = email)"

definition get_by_username :: "string \<Rightarrow> ('r, user option) app" where
  "get_by_username username = select_one users (\<lambda>u. user_username u = username)"

definition get_with_roles :: "int \<Rightarrow> ('r, user option) app" where
  "get_with_roles i = select_one users (\<lambda>u. user_id u = i)"

definition get_by_oauth :: "string \<Rightarrow> string \<Rightarrow> ('r, user option) app" where
  "get_by_oauth provider provider_id =
     select_one users (\<lambda>u. user_oauth_provider u = Some provider \<and> user_oauth_provider_id u = Some provider_id)"

section \<open>Password authentication and lockout\<close>

definition login_failed ::
  "settings \<Rightarrow> datetime \<Rightarrow> client \<Rightarrow> user \<Rightarrow> ('r, user option) app" where
  "login_failed S now c u =
     (let attempts = user_failed_login_attempts u + 1;
          was_locked = (attempts \<ge> MAX_LOGIN_ATTEMPTS S);
          locked_until = (if was_locked then Some (now + minutes_td (LOGIN_LOCKOUT_MINUTES S)) else user_locked_until u);
          u' = u\<lparr>user_failed_login_attempts := attempts, user_locked_until := locked_until\<rparr>
      in thenM (save_user u')
          (thenM commit
            (thenM (log_auth_event c (if was_locked then ''account_locked'' else ''login_failure'')
                      (Some (user_id u')) (user_tenant_id u')
                      ([(''failed_attempts'', JInt attempts), (''max_attempts'', JInt (MAX_LOGIN_ATTEMPTS S))] @
                       (case locked_until of Some l \<Rightarrow> if was_locked then [(''locked_until'', JStr (isoformat l))] else []
                        | None \<Rightarrow> [])))
              (returnM None))))"

definition login_ok :: "datetime \<Rightarrow> client \<Rightarrow> user \<Rightarrow> ('r, user option) app" where
  "login_ok now c u =
     (let u' = u\<lparr>user_failed_login_attempts := 0, user_locked_until := None, user_last_login_at := Some now\<rparr>
      in thenM (save_user u')
          (thenM commit
            (thenM (log_auth_event c ''login_success'' (Some (user_id u')) (user_tenant_id u') [])
              (returnM (Some u')))))"

definition authenticate_user ::
  "settings \<Rightarrow> bcrypt \<Rightarrow> datetime \<Rightarrow> client \<Rightarrow> string \<Rightarrow> string \<Rightarrow> ('r, user option) app" where
  "authenticate_user S B now c email password =
     bindM (get_by_email email) (\<lambda>r.
       case r of
         None \<Rightarrow>
           thenM (log_auth_event c ''login_failure'' None None
                    [(''email'', JStr email), (''reason'', JStr ''user_not_found'')])
             (returnM None)
       | Some u \<Rightarrow>
           (case user_locked_until u of
              Some l \<Rightarrow>
                if l > now
                then thenM (log_auth_event c ''account_locked'' (Some (user_id u)) (user_tenant_id u)
                              [(''locked_until'', JStr (isoformat l))])
                      (raiseM (LockedOutException (''Account locked until '' @ isoformat l @ ''. Try again later.'')))
                else bindM (liftM (verify_password B password (user_hashed_password u))) (\<lambda>ok.
                       if \<not> ok then login_failed S now c u else login_ok now c u)
            | None \<Rightarrow> bindM (liftM (verify_password B password (user_hashed_password u))) (\<lambda>ok.
                       if \<not> ok then login_failed S now c u else login_ok now c u)))"

section \<open>Runs\<close>

lemma db_unique_audit [simp]: "db_unique (audit_logs_update f d) = db_unique d"
  by (simp add: db_unique_def)

lemma db_keys_audit: "db_keys d \<Longrightarrow> db_keys (audit_logs_update (insert_row (\<lambda>i r. r\<lparr>aud_id := i\<rparr>) e) d)"
  using aud_row.wf_insert [of "audit_logs d" e] by (simp add: db_keys_def)

lemma db_keys_save_user: "db_keys d \<Longrightarrow> db_keys (users_update (update_row user_id u) d)"
  using user_row.wf_update [of "users d" u] by (simp add: db_keys_def)

text \<open>Writing an audit entry commits what the session holds and touches no other table.\<close>

lemma log_auth_event_run:
  assumes "event_type \<in> AUTH_EVENT_TYPES" "db_unique (w_db w)" "db_keys (w_db w)"
  obtains e where "log_auth_event c event_type uid tid details w =
      (Inr e, w\<lparr>w_db := audit_logs_update (insert_row (\<lambda>i r. r\<lparr>aud_id := i\<rparr>) (e\<lparr>aud_id := 0\<rparr>)) (w_db w),
                w_committed := audit_logs_update (insert_row (\<lambda>i r. r\<lparr>aud_id := i\<rparr>) (e\<lparr>aud_id := 0\<rparr>)) (w_db w)\<rparr>)"
    and "aud_event_type e = event_type" "aud_user_id e = uid"
  using assms by (simp add: log_auth_event_def commit_run next_row_def)

lemma get_by_email_found:
  assumes "db_unique (w_db w)" "db_keys (w_db w)" "u \<in> set (t_rows (users (w_db w)))"
  shows "get_by_email (user_email u) w = (Inr (Some u), w)"
proof -
  have "distinct (map user_email (t_rows (users (w_db w))))"
    using assms(1) by (simp add: db_unique_def unique_on_def List.map_filter_def comp_def)
  then have "filter (\<lambda>x. user_email x = user_email u) (t_rows (users (w_db w))) = [u]"
    using assms(3) by (rule distinct_filter_key)
  then show ?thesis by (simp add: get_by_email_def select_where_def)
qed

definition unlocked :: "datetime \<Rightarrow> user \<Rightarrow> bool" where
  "unlocked now u \<longleftrightarrow> (case user_locked_until u of None \<Rightarrow> True | Some l \<Rightarrow> l \<le> now)"

definition failed_once :: "settings \<Rightarrow> datetime \<Rightarrow> user \<Rightarrow> user" where
  "failed_once S now u =
     (let n = user_failed_login_attempts u + 1
      in u\<lparr>user_failed_login_attempts := n,
           user_locked_until := (if n \<ge> MAX_LOGIN_ATTEMPTS S then Some (now + minutes_td (LOGIN_LOCKOUT_MINUTES S))
                                 else user_locked_until u)\<rparr>)"

lemma failed_once_same [simp]:
  "user_id (failed_once S now u) = user_id u" "user_email (failed_once S now u) = user_email u"
  "user_username (failed_once S now u) = user_username u"
  "user_hashed_password (failed_once S now u) = user_hashed_password u"
  by (simp_all add: failed_once_def Let_def)

text \<open>What a request leaves of the users, with the audit trail set aside.\<close>

definition users_become :: "user table \<Rightarrow> 'r world \<Rightarrow> bool" where
  "users_become t w \<longleftrightarrow> store_ok w \<and> users (w_committed w) = t"

lemma failed_login_run:
  assumes "store_ok w" "u \<in> set (t_rows (users (w_db w)))" "unlocked now u"
    and "verify_password B pw (user_hashed_password u) = Inr False"
  shows "\<exists>w'. authenticate_user S B now c (user_email u) pw w = (Inr None, w') \<and>
    users_become (update_row user_id (failed_once S now u) (users (w_db w))) w'"
proof -
  let ?u = "failed_once S now u"
  let ?d = "users_update (update_row user_id ?u) (w_db w)"
  have u: "db_unique (w_db w)" "db_keys (w_db w)" using assms(1) by (simp_all add: store_ok_def)
  have d: "db_unique ?d" "db_keys ?d"
    using u assms(2) db_keys_save_user [OF u(2)]
    by (auto intro!: db_unique_save_user [of _ u] simp: db_keys_def)
  have run: "authenticate_user S B now c (user_email u) pw w = login_failed S now c u w"
    using get_by_email_found [OF u assms(2)] assms(3,4)
    by (cases "user_locked_until u") (auto simp: authenticate_user_def unlocked_def)
  have row: "u\<lparr>user_failed_login_attempts := user_failed_login_attempts u + 1,
      user_locked_until := if MAX_LOGIN_ATTEMPTS S \<le> user_failed_login_attempts u + 1
        then Some (now + minutes_td (LOGIN_LOCKOUT_MINUTES S)) else user_locked_until u\<rparr> = ?u"
    by (simp add: failed_once_def Let_def)
  have ev: "(if b then ''account_locked'' else ''login_failure'') \<in> AUTH_EVENT_TYPES" for b
    by (simp add: AUTH_EVENT_TYPES_def)
  show ?thesis
    unfolding run login_failed_def Let_def row
    using d db_keys_audit [OF d(2)]
    by (simp add: commit_run log_auth_event_def ev users_become_def store_ok_def thenM_def bindM_def)
qed

lemma locked_login_run:
  assumes "store_ok w" "u \<in> set (t_rows (users (w_db w)))" "\<not> unlocked now u"
  shows "\<exists>w' l. authenticate_user S B now c (user_email u) pw w =
      (Inl (LockedOutException (''Account locked until '' @ isoformat l @ ''. Try again later.'')), w') \<and>
    user_locked_until u = Some l \<and> users_become (users (w_db w)) w'"
proof -
  obtain l where l: "user_locked_until u = Some l" "now < l"
    using assms(3) by (auto simp: unlocked_def split: option.splits)
  have u: "db_unique (w_db w)" "db_keys (w_db w)" using assms(1) by (simp_all add: store_ok_def)
  show ?thesis
    using get_by_email_found [OF u assms(2)] l u db_keys_audit [OF u(2)]
    by (simp add: authenticate_user_def log_auth_event_def commit_run users_become_def store_ok_def
        AUTH_EVENT_TYPES_def thenM_def bindM_def)
qed

section \<open>Lockout\<close>

text \<open>Login attempts for one account, one after the other.\<close>

fun logins :: "settings \<Rightarrow> bcrypt \<Rightarrow> client \<Rightarrow> string \<Rightarrow> (datetime \<times> string) list \<Rightarrow> 'r world \<Rightarrow> 'r world" where
  "logins S B c email [] w = w"
| "logins S B c email ((now, pw) # rest) w =
     logins S B c email rest (snd (authenticate_user S B now c email pw w))"

lemma failures_lock:
  assumes "store_ok w" "u \<in> set (t_rows (users (w_db w)))" "user_locked_until u = None" "ts \<noteq> []"
    and "user_failed_login_attempts u + int (length ts) = MAX_LOGIN_ATTEMPTS S"
    and "\<forall>(t, pw) \<in> set ts. verify_password B pw (user_hashed_password u) = Inr False"
  shows "store_ok (logins S B c (user_email u) ts w) \<and>
    (\<exists>u' \<in> set (t_rows (users (w_db (logins S B c (user_email u) ts w)))).
      user_email u' = user_email u \<and>
      user_locked_until u' = Some (fst (last ts) + minutes_td (LOGIN_LOCKOUT_MINUTES S)))"
  using assms
proof (induction ts arbitrary: u w)
  case (Cons x ts)
  obtain t pw where x: "x = (t, pw)" by (cases x)
  let ?u = "failed_once S t u"
  have "unlocked t u" using Cons.prems(3) by (simp add: unlocked_def)
  then obtain w' where run: "authenticate_user S B t c (user_email u) pw w = (Inr None, w')"
    and w': "users_become (update_row user_id ?u (users (w_db w))) w'"
    using failed_login_run [OF Cons.prems(1,2), of t B pw S c] Cons.prems(6) by (auto simp: x)
  have ok: "store_ok w'" and users: "users (w_db w') = update_row user_id ?u (users (w_db w))"
    using w' by (auto simp: users_become_def store_ok_def)
  have mem: "?u \<in> set (t_rows (users (w_db w')))"
    using user_row.update_in [OF Cons.prems(2), of ?u] by (simp add: users)
  show ?case
  proof (cases "ts = []")
    case True
    then show ?thesis
      using Cons.prems(5) ok mem run by (auto simp: x failed_once_def Let_def intro!: bexI [of _ ?u])
  next
    case False
    then have still: "user_locked_until ?u = None" "user_failed_login_attempts ?u = user_failed_login_attempts u + 1"
      using Cons.prems(3,5) by (auto simp: failed_once_def Let_def neq_Nil_conv)
    show ?thesis
      using Cons.IH [OF ok mem still(1) False] Cons.prems(5,6) still(2) False run by (auto simp: x)
  qed
qed simp

section \<open>Token runs\<close>

lemma decode_encoded:
  assumes "jose_ok J" "ALGORITHM S \<noteq> ''RS256''"
  shows "jwt_decode J t (encode_token S J c) (SECRET_KEY S) (ALGORITHM S) = (if unexpired t c then Some c else None)"
    "jwt_decode J t (jwt_encode J (SECRET_KEY S) (ALGORITHM S) c) (SECRET_KEY S) (ALGORITHM S) =
      (if unexpired t c then Some c else None)"
  using assms by (simp_all add: encode_token_def jose_ok_def)

lemmas token_defs = create_access_token_def create_refresh_token_def create_magic_link_token_def
  create_verification_token_def create_totp_challenge_token_def make_jwt_payload_def
  decode_access_token_def decode_refresh_token_def decode_magic_link_token_def decode_verification_token_def
  decode_totp_challenge_token_def

section \<open>Backup codes\<close>

lemma stored_hashes_join:
  assumes "hs \<noteq> []" "\<forall>h \<in> set hs. h \<noteq> [] \<and> (\<forall>x \<in> set h. x \<noteq> CHR '','' \<and> \<not> is_space x)"
  shows "stored_hashes (py_join '','' hs) = hs"
proof -
  have "py_split (CHR '','') (py_join '','' hs) = hs" using assms by (intro py_split_join) auto
  moreover have "map py_strip hs = hs" using assms(2) by (intro map_idI py_strip_no_space) auto
  ultimately show ?thesis using assms(2) by (simp add: stored_hashes_def)
qed

section \<open>A codec that decodes what it encodes\<close>

text \<open>Length-prefixed fields; used to show that the hypotheses on the JOSE library can be met.\<close>

definition put_field :: "string option \<Rightarrow> string" where
  "put_field f = (case f of None \<Rightarrow> ''0'' | Some v \<Rightarrow> replicate (Suc (length v)) (CHR ''1'') @ ''0'' @ v)"

definition get_field :: "string \<Rightarrow> string option \<times> string" where
  "get_field s =
     (let n = length (takeWhile (\<lambda>x. x = CHR ''1'') s); r = drop (Suc n) s
      in if n = 0 then (None, r) else (Some (take (n - 1) r), drop (n - 1) r))"

lemma get_put_field: "get_field (put_field f @ r) = (f, r)"
proof (cases f)
  case (Some v)
  have "takeWhile (\<lambda>x. x = CHR ''1'') (replicate n (CHR ''1'') @ CHR ''0'' # v @ r) = replicate n (CHR ''1'')" for n
    by (induction n) simp_all
  from this [of "Suc (length v)"] show ?thesis
    by (simp add: Some put_field_def get_field_def Let_def del: replicate_Suc)
qed (simp add: put_field_def get_field_def Let_def)

definition put_claims :: "claims \<Rightarrow> string" where
  "put_claims c = put_field (cl_jti c) @ put_field (cl_sub c) @ put_field (map_option show_int (cl_iat c)) @
     put_field (map_option show_int (cl_exp c)) @ put_field (cl_purpose c)"

definition get_claims :: "string \<Rightarrow> claims" where
  "get_claims s0 =
     (case get_field s0 of (jti, s1) \<Rightarrow> case get_field s1 of (sb, s2) \<Rightarrow> case get_field s2 of (ia, s3) \<Rightarrow>
      case get_field s3 of (ex, s4) \<Rightarrow>
        \<lparr>cl_jti = jti, cl_sub = sb, cl_iat = Option.bind ia py_int, cl_exp = Option.bind ex py_int,
         cl_purpose = fst (get_field s4)\<rparr>)"

lemma get_put_claims: "get_claims (put_claims c) = c"
proof -
  have "Option.bind (map_option show_int v) py_int = v" for v by (cases v) simp_all
  moreover have "get_field (put_field f) = (f, [])" for f using get_put_field [of f "[]"] by simp
  ultimately show ?thesis by (simp add: get_claims_def put_claims_def get_put_field)
qed

definition plain_jose :: jose where
  "plain_jose = \<lparr>
     jwt_encode = (\<lambda>key alg c. put_field (Some key) @ put_field (Some alg) @ put_claims c),
     jwt_decode = (\<lambda>t tok key alg.
       case get_field tok of (k, s1) \<Rightarrow> case get_field s1 of (a, s2) \<Rightarrow>
         if k = Some key \<and> a = Some alg \<and> unexpired t (get_claims s2) then Some (get_claims s2) else None),
     rs_encode = put_claims,
     rs_decode = (\<lambda>t tok. if unexpired t (get_claims tok) then Some (get_claims tok) else None)\<rparr>"

lemma plain_jose_ok: "jose_ok plain_jose"
  by (simp add: jose_ok_def plain_jose_def get_put_field get_put_claims)

definition plain_bcrypt :: bcrypt where
  "plain_bcrypt = \<lparr>hashpw = (\<lambda>p salt. ''h'' @ p), checkpw = (\<lambda>p h. Inr (h = ''h'' @ p))\<rparr>"

lemma plain_bcrypt_ok: "bcrypt_ok plain_bcrypt"
  by (simp add: bcrypt_ok_def plain_bcrypt_def)

section \<open>Properties\<close>

text \<open>
  Tokens are bound to their purpose. With a symmetric algorithm, each of the refresh, magic-link,
  verification and challenge decoders accepts an unexpired token of its own kind with exactly the claims it
  was created with, and refuses every token of the other kinds, access tokens included. Hypothesis: the JOSE
  library decodes what it encoded until it expires.
\<close>

theorem purpose_separation:
  assumes "jose_ok J" and "ALGORITHM S \<noteq> ''RS256''"
    and "acc = create_access_token S J now ua sub None" and "ref = create_refresh_token S J now ub sub"
    and "mag = create_magic_link_token S J now uc email" and "ver = create_verification_token S J now uid"
    and "cha = create_totp_challenge_token S J now ud uid"
  shows "(\<forall>tok \<in> {acc, mag, ver, cha}. \<exists>d. decode_refresh_token S J t tok = Inl (HTTPException 401 d)) \<and>
    (\<forall>tok \<in> {acc, ref, ver, cha}. \<exists>d. decode_magic_link_token S J t tok = Inl (HTTPException 400 d)) \<and>
    (\<forall>tok \<in> {acc, ref, mag, cha}. \<exists>d. decode_verification_token S J t tok = Inl (HTTPException 400 d)) \<and>
    (\<forall>tok \<in> {acc, ref, mag, ver}. \<exists>d. decode_totp_challenge_token S J t tok = Inl (HTTPException 400 d)) \<and>
    (t \<le> timegm (now + seconds_td (TOTP_CHALLENGE_EXPIRE_SECONDS S)) \<longrightarrow>
      (\<exists>c. decode_totp_challenge_token S J t cha = Inr c \<and> cl_sub c = Some (show_int uid) \<and> cl_jti c = Some ud)) \<and>
    (t \<le> timegm (now + hours_td 24) \<longrightarrow>
      (\<exists>c. decode_verification_token S J t ver = Inr c \<and> cl_sub c = Some (show_int uid)))"
  unfolding assms(3-7)
  by (intro conjI) (simp_all add: token_defs decode_encoded [OF assms(1,2)] assms(2) Let_def unexpired_def
      split: option.splits)

theorem purpose_separation_witness:
  "\<exists>d. decode_refresh_token default_settings plain_jose 5
     (create_totp_challenge_token default_settings plain_jose 0 ''aa'' 1) = Inl (HTTPException 401 d)"
  using purpose_separation [OF plain_jose_ok _ refl refl refl refl refl, where S = default_settings and now = 0 and ud = "''aa''" and uid = 1 and t = 5]
  by (simp add: default_settings_def)

text \<open>
  C18: brute-force lockout. After \<open>MAX_LOGIN_ATTEMPTS\<close> wrong passwords in a row for an account that was not
  locked, every login until \<open>LOGIN_LOCKOUT_MINUTES\<close> after the last of them is refused as locked, whatever the
  password, and changes no user.
\<close>

theorem lockout_after_failures:
  assumes "store_ok w" and "u \<in> set (t_rows (users (w_db w)))" and "user_locked_until u = None"
    and "user_failed_login_attempts u = 0" and "ts \<noteq> []" and "int (length ts) = MAX_LOGIN_ATTEMPTS S"
    and "\<forall>(t, pw) \<in> set ts. verify_password B pw (user_hashed_password u) = Inr False"
    and "t' < fst (last ts) + minutes_td (LOGIN_LOCKOUT_MINUTES S)"
    and "w1 = logins S B c (user_email u) ts w"
  shows "\<exists>d w2. authenticate_user S B t' c (user_email u) pw w1 = (Inl (LockedOutException d), w2) \<and>
    users (w_committed w2) = users (w_committed w1)"
proof -
  obtain u' where ok: "store_ok w1" and u': "u' \<in> set (t_rows (users (w_db w1)))" "user_email u' = user_email u"
    "user_locked_until u' = Some (fst (last ts) + minutes_td (LOGIN_LOCKOUT_MINUTES S))"
    using failures_lock [OF assms(1-3,5) _ assms(7), of S c] assms(4,6,9) by auto
  have "\<not> unlocked t' u'" using u'(3) assms(8) by (simp add: unlocked_def)
  then show ?thesis
    using locked_login_run [OF ok u'(1), of t' S B c pw] u'(2) ok by (auto simp: users_become_def store_ok_def)
qed

theorem lockout_after_failures_witness:
  "\<exists>d w2. authenticate_user (default_settings\<lparr>MAX_LOGIN_ATTEMPTS := 2\<rparr>) plain_bcrypt 9 \<lparr>c_ip = None, c_user_agent = None\<rparr>
     ''a@b.c'' ''x'' (logins (default_settings\<lparr>MAX_LOGIN_ATTEMPTS := 2\<rparr>) plain_bcrypt
       \<lparr>c_ip = None, c_user_agent = None\<rparr> ''a@b.c'' [(1, ''y''), (2, ''z'')] sample_world) = (Inl (LockedOutException d), w2)"
  using lockout_after_failures [of sample_world sample_user "[(1, ''y''), (2, ''z'')]"
      "default_settings\<lparr>MAX_LOGIN_ATTEMPTS := 2\<rparr>" plain_bcrypt 9 _ "\<lparr>c_ip = None, c_user_agent = None\<rparr>" "''x''"]
    sample_db_ok
  by (auto simp: store_ok_def sample_world_def sample_db_def sample_user_def verify_password_def plain_bcrypt_def
      default_settings_def minutes_td_def)

text \<open>
  A backup code works once. A code whose hash is stored is recognised, and after the removal of the
  recognised hash neither this code nor any other code with the same hash is; the other codes stay valid.
  Hypotheses: the stored text is a comma-separated list of distinct, non-empty hashes without spaces.
\<close>

theorem backup_code_once:
  assumes "hs \<noteq> []" and "distinct hs" and "\<forall>h \<in> set hs. h \<noteq> [] \<and> (\<forall>x \<in> set h. x \<noteq> CHR '','' \<and> \<not> is_space x)"
    and "sha code \<in> set hs" and "stored = Some (py_join '','' hs)"
  shows "verify_backup_code sha code stored = Some (sha code) \<and>
    verify_backup_code sha code (remove_used_backup_code (sha code) stored) = None \<and>
    (\<forall>code'. sha code' \<in> set hs \<and> sha code' \<noteq> sha code \<longrightarrow>
      verify_backup_code sha code' (remove_used_backup_code (sha code) stored) = Some (sha code'))"
proof -
  have ne: "py_join '','' hs' \<noteq> []" if "hs' \<noteq> []" "\<forall>h \<in> set hs'. h \<noteq> []" for hs'
    using that by (cases "('','', hs')" rule: py_join.cases) auto
  let ?rest = "filter (\<lambda>h. h \<noteq> sha code) hs"
  have found: "List.find (\<lambda>h. sha x = h) l = (if sha x \<in> set l then Some (sha x) else None)" for x l
    by (induction l) auto
  have rem: "remove_used_backup_code (sha code) stored = (if ?rest = [] then None else Some (py_join '','' ?rest))"
    using assms ne [OF assms(1)] stored_hashes_join [OF assms(1,3)] by (simp add: remove_used_backup_code_def Let_def)
  have rest: "stored_hashes (py_join '','' ?rest) = ?rest" if "?rest \<noteq> []"
    using that assms(3) by (intro stored_hashes_join) auto
  have check: "verify_backup_code sha x (remove_used_backup_code (sha code) stored) =
    (if sha x \<in> set ?rest then Some (sha x) else None)" for x
  proof (cases "?rest = []")
    case True
    then show ?thesis unfolding rem by (simp only: verify_backup_code_def option.case if_True) simp
  next
    case False
    then have "py_join '','' ?rest \<noteq> []" using ne [of ?rest] assms(3) by auto
    then show ?thesis
      using False unfolding rem
      by (simp only: verify_backup_code_def hash_backup_code_def option.case if_False rest [OF False] found)
  qed
  have "verify_backup_code sha code stored = Some (sha code)"
  proof -
    have "py_join '','' hs \<noteq> []" using ne [OF assms(1)] assms(3) by blast
    then show ?thesis
      by (simp only: assms(5) verify_backup_code_def hash_backup_code_def option.case if_False
          stored_hashes_join [OF assms(1,3)] found assms(4) if_True)
  qed
  then show ?thesis unfolding check by simp
qed

theorem backup_code_once_witness:
  "verify_backup_code (\<lambda>x. ''h'' @ x) ''a'' (remove_used_backup_code ''ha'' (Some ''ha,hb'')) = None"
  using backup_code_once [of "[''ha'', ''hb'']" "\<lambda>x. ''h'' @ x" "''a''"] by (simp add: is_space_def)

end
