(* ===== verification/JwtSessions.thy ===== *)
theory JwtSessions
  imports Security
begin

text \<open>
  \<^verbatim>\<open>app/core/jwt_blacklist.py\<close>: revoked tokens and the list of active sessions, kept in Redis. A revoked
  token is a member \<^verbatim>\<open>jti:exp\<close> of the user's set; a session is a member of the user's sorted set with a hash
  of its details. \<open>now\<close> is the instant of the call.
\<close>

record session_create_payload =
  sp_jti :: string
  sp_token_type :: string
  sp_ip :: "string option"
  sp_user_agent :: "string option"
  sp_iat :: int
  sp_exp :: int

definition user_key :: "int \<Rightarrow> string" where
  "user_key uid = ''jwt:blacklist:'' @ show_int uid"

definition revoked_all_key :: "int \<Rightarrow> string" where
  "revoked_all_key uid = ''jwt:revoked-all:'' @ show_int uid"

definition sessions_key :: "int \<Rightarrow> string" where
  "sessions_key uid = ''user:sessions:'' @ show_int uid"

definition session_meta_key :: "int \<Rightarrow> string \<Rightarrow> string" where
  "session_meta_key uid jti = ''user:session:meta:'' @ show_int uid @ '':'' @ jti"

definition token_ttl :: "settings \<Rightarrow> datetime \<Rightarrow> int \<Rightarrow> int" where
  "token_ttl S now ex = min (JWT_BLACKLIST_TTL S) (max 1 (ex - int_timestamp now))"

definition blacklist_token :: "settings \<Rightarrow> 'r redis \<Rightarrow> datetime \<Rightarrow> int \<Rightarrow> string \<Rightarrow> int \<Rightarrow> ('r, unit) app" where
  "blacklist_token S R now uid jti ex =
     (if \<not> JWT_BLACKLIST_ENABLED S then returnM ()
      else let ttl = token_ttl S now ex; key = user_key uid; member = jti @ '':'' @ show_int ex
           in thenM (redis_call (rd_sadd R now key member))
               (thenM (redis_call (rd_expire R now key ttl)) (returnM ())))"

text \<open>The loop over the members; \<open>member.split(":", 1)\<close>\<close>

fun scan_members :: "int \<Rightarrow> string \<Rightarrow> string list \<Rightarrow> exn + bool" where
  "scan_members now jti [] = Inr False"
| "scan_members now jti (member # members) =
     (if CHR '':'' \<notin> set member then scan_members now jti members
      else let (stored_jti, stored_exp) = py_split1 (CHR '':'') member
           in case py_int stored_exp of None \<Rightarrow> Inl (ValueError stored_exp)
              | Some e \<Rightarrow> if e < now then scan_members now jti members
                          else if stored_jti = jti then Inr True
                          else scan_members now jti members)"

definition is_token_blacklisted :: "settings \<Rightarrow> 'r redis \<Rightarrow> datetime \<Rightarrow> int \<Rightarrow> string \<Rightarrow> ('r, bool) app" where
  "is_token_blacklisted S R now uid jti =
     (if \<not> JWT_BLACKLIST_ENABLED S then returnM False
      else bindM (redis_call (rd_smembers R now (user_key uid)))
             (\<lambda>members. liftM (scan_members (int_timestamp now) jti members)))"

definition revoke_all_user_tokens :: "settings \<Rightarrow> 'r redis \<Rightarrow> datetime \<Rightarrow> int \<Rightarrow> ('r, int) app" where
  "revoke_all_user_tokens S R now uid =
     (if \<not> JWT_BLACKLIST_ENABLED S then returnM 0
      else bindM (redis_call (rd_scard R now (user_key uid))) (\<lambda>member_count.
             thenM (redis_call (rd_delete R now (user_key uid)))
              (thenM (redis_call (rd_setex R now (revoked_all_key uid) (JWT_BLACKLIST_TTL S)
                        (show_int (int_timestamp now))))
                (returnM member_count))))"

definition get_blacklisted_at :: "'r redis \<Rightarrow> datetime \<Rightarrow> int \<Rightarrow> ('r, int option) app" where
  "get_blacklisted_at R now uid =
     bindM (redis_call (rd_get R now (revoked_all_key uid))) (\<lambda>val.
       case val of None \<Rightarrow> returnM None
       | Some v \<Rightarrow> (case py_int v of None \<Rightarrow> raiseM (ValueError v) | Some i \<Rightarrow> returnM (Some i)))"

definition store_session ::
  "settings \<Rightarrow> 'r redis \<Rightarrow> datetime \<Rightarrow> int \<Rightarrow> session_create_payload \<Rightarrow> ('r, unit) app" where
  "store_session S R now uid p =
     (if \<not> JWT_BLACKLIST_ENABLED S then returnM ()
      else let ttl = token_ttl S now (sp_exp p); skey = sessions_key uid; mkey = session_meta_key uid (sp_jti p)
           in thenM (redis_call (rd_zadd R now skey (sp_jti p) (of_int (sp_iat p))))
              (thenM (redis_call (rd_expire R now skey ttl))
              (thenM (redis_call (rd_hset R now mkey
                        [(''jti'', sp_jti p), (''token_type'', sp_token_type p),
                         (''ip'', case sp_ip p of None \<Rightarrow> [] | Some i \<Rightarrow> i),
                         (''user_agent'', case sp_user_agent p of None \<Rightarrow> [] | Some a \<Rightarrow> a),
                         (''created_at'', show_int (sp_iat p)), (''expires_at'', show_int (sp_exp p)),
                         (''user_id'', show_int uid)]))
              (thenM (redis_call (rd_expire R now mkey ttl)) (returnM ())))))"

text \<open>\<open>int(meta.get("expires_at", 0))\<close>\<close>

definition meta_exp :: "(string \<times> string) list \<Rightarrow> exn + int" where
  "meta_exp meta =
     (case map_of meta ''expires_at'' of None \<Rightarrow> Inr 0
      | Some v \<Rightarrow> (case py_int v of None \<Rightarrow> Inl (ValueError v) | Some i \<Rightarrow> Inr i))"

fun collect_sessions ::
  "'r redis \<Rightarrow> datetime \<Rightarrow> int \<Rightarrow> string list \<Rightarrow> ('r, (string \<times> string) list list) app" where
  "collect_sessions R now uid [] = returnM []"
| "collect_sessions R now uid (jti # members) =
     (let skey = sessions_key uid; mkey = session_meta_key uid jti
      in bindM (redis_call (rd_hgetall R now mkey)) (\<lambda>meta.
           if meta = [] \<or> map_of meta ''jti'' = None then collect_sessions R now uid members
           else bindM (liftM (meta_exp meta)) (\<lambda>e.
                  if e < int_timestamp now
                  then thenM (redis_call (rd_zrem R now skey jti))
                        (thenM (redis_call (rd_delete R now mkey)) (collect_sessions R now uid members))
                  else bindM (collect_sessions R now uid members) (\<lambda>rest. returnM (meta # rest)))))"

definition list_active_sessions ::
  "settings \<Rightarrow> 'r redis \<Rightarrow> datetime \<Rightarrow> int \<Rightarrow> ('r, (string \<times> string) list list) app" where
  "list_active_sessions S R now uid =
     (if \<not> JWT_BLACKLIST_ENABLED S then returnM []
      else bindM (redis_call (rd_zrevrange R now (sessions_key uid))) (\<lambda>members.
             collect_sessions R now uid members))"

definition get_session :: "'r redis \<Rightarrow> datetime \<Rightarrow> int \<Rightarrow> string \<Rightarrow> ('r, (string \<times> string) list option) app" where
  "get_session R now uid jti =
     bindM (redis_call (rd_hgetall R now (session_meta_key uid jti))) (\<lambda>meta.
       returnM (if meta = [] \<or> map_of meta ''jti'' = None then None else Some meta))"

definition revoke_session :: "settings \<Rightarrow> 'r redis \<Rightarrow> datetime \<Rightarrow> int \<Rightarrow> string \<Rightarrow> int \<Rightarrow> ('r, unit) app" where
  "revoke_session S R now uid jti ex =
     (if \<not> JWT_BLACKLIST_ENABLED S then returnM ()
      else thenM (redis_call (rd_zrem R now (sessions_key uid) jti))
            (thenM (redis_call (rd_delete R now (session_meta_key uid jti)))
              (blacklist_token S R now uid jti ex)))"

fun revoke_each :: "settings \<Rightarrow> 'r redis \<Rightarrow> datetime \<Rightarrow> int \<Rightarrow> string list \<Rightarrow> ('r, int) app" where
  "revoke_each S R now uid [] = returnM 0"
| "revoke_each S R now uid (jti # members) =
     (let mkey = session_meta_key uid jti
      in bindM (redis_call (rd_hgetall R now mkey)) (\<lambda>meta.
           bindM (liftM (if meta = [] then Inr 0 else meta_exp meta)) (\<lambda>e.
             thenM (blacklist_token S R now uid jti e)
              (thenM (redis_call (rd_delete R now mkey))
                (bindM (revoke_each S R now uid members) (\<lambda>count. returnM (count + 1)))))))"

definition revoke_all_user_sessions :: "settings \<Rightarrow> 'r redis \<Rightarrow> datetime \<Rightarrow> int \<Rightarrow> ('r, int) app" where
  "revoke_all_user_sessions S R now uid =
     (if \<not> JWT_BLACKLIST_ENABLED S then returnM 0
      else bindM (redis_call (rd_zrevrange R now (sessions_key uid))) (\<lambda>members.
             bindM (revoke_each S R now uid members) (\<lambda>count.
               thenM (redis_call (rd_delete R now (sessions_key uid)))
                (thenM (redis_call (rd_setex R now (revoked_all_key uid) (JWT_BLACKLIST_TTL S)
                          (show_int (int_timestamp now))))
                  (returnM count)))))"

section \<open>The blacklist on a conforming client\<close>

lemma conforms_set:
  assumes "redis_conforms R \<alpha>"
  shows "sim \<alpha> (rd_sadd R t k m) (ks_sadd t k m)" "sim \<alpha> (rd_expire R t k n) (ks_expire t k n)"
    "sim_set \<alpha> (rd_smembers R t k) (ks_smembers t k)"
  using assms by (simp_all add: redis_conforms_def)

text \<open>The members that a reader at \<open>t\<close> finds; every stored member has the form \<open>jti:exp\<close>.\<close>

definition blacklist_at :: "datetime \<Rightarrow> int \<Rightarrow> keyspace \<Rightarrow> string list option" where
  "blacklist_at t uid ks =
     (case ks_lookup t (user_key uid) ks of None \<Rightarrow> Some [] | Some (RSet xs) \<Rightarrow> Some xs | Some _ \<Rightarrow> None)"

definition entry :: "string \<times> int \<Rightarrow> string" where
  "entry p = fst p @ '':'' @ show_int (snd p)"

lemma scan_entries:
  assumes "\<forall>p \<in> set ps. CHR '':'' \<notin> set (fst p)"
  shows "scan_members now jti (map entry ps) = Inr (\<exists>e. (jti, e) \<in> set ps \<and> now \<le> e)"
  using assms
proof (induction ps)
  case (Cons p ps)
  then show ?case
    by (cases p) (auto simp: entry_def py_split1_append not_less)
qed simp

lemma entries_exist:
  assumes "\<forall>m \<in> set ms. \<exists>p. CHR '':'' \<notin> set (fst p) \<and> m = entry p"
  obtains ps where "ms = map entry ps" "\<forall>p \<in> set ps. CHR '':'' \<notin> set (fst p)"
proof -
  have "\<exists>ps. ms = map entry ps \<and> (\<forall>p \<in> set ps. CHR '':'' \<notin> set (fst p))"
    using assms
  proof (induction ms)
    case (Cons m ms)
    then obtain p ps where "m = entry p" "CHR '':'' \<notin> set (fst p)" "ms = map entry ps"
      "\<forall>p \<in> set ps. CHR '':'' \<notin> set (fst p)" by auto
    then show ?case by (intro exI [of _ "p # ps"]) simp
  qed simp
  then show ?thesis using that by blast
qed

lemma entry_inj: "CHR '':'' \<notin> set (fst p) \<Longrightarrow> CHR '':'' \<notin> set (fst q) \<Longrightarrow> entry p = entry q \<longleftrightarrow> p = q"
proof
  assume *: "CHR '':'' \<notin> set (fst p)" "CHR '':'' \<notin> set (fst q)" "entry p = entry q"
  have "py_split1 (CHR '':'') (entry p) = py_split1 (CHR '':'') (entry q)" using *(3) by simp
  then show "p = q" using *(1,2) by (simp add: entry_def py_split1_append prod_eq_iff)
qed simp

lemma blacklist_run:
  assumes R: "redis_conforms R \<alpha>" and S: "JWT_BLACKLIST_ENABLED S" "0 < JWT_BLACKLIST_TTL S"
    and w: "w_redis w = Some r" and xs: "blacklist_at now uid (\<alpha> r) = Some xs"
  shows "\<exists>r' ys. blacklist_token S R now uid jti ex w = (Inr (), w\<lparr>w_redis := Some r'\<rparr>) \<and>
    \<alpha> r' = (\<alpha> r)(user_key uid \<mapsto> (RSet ys, Some (now + seconds_td (token_ttl S now ex)))) \<and>
    set ys = insert (entry (jti, ex)) (set xs)"
proof -
  let ?k = "user_key uid" and ?m = "entry (jti, ex)" and ?ttl = "token_ttl S now ex"
  have ttl: "0 < ?ttl" using S(2) by (simp add: token_ttl_def)
  define ys where "ys = (if ?m \<in> set xs then xs else insort ?m xs)"
  obtain r1 where 1: "redis_call (rd_sadd R now ?k ?m) w = (fst (ks_sadd now ?k ?m (\<alpha> r)), w\<lparr>w_redis := Some r1\<rparr>)"
    "\<alpha> r1 = snd (ks_sadd now ?k ?m (\<alpha> r))"
    using redis_call_sim [OF conforms_set(1) [OF R] w] by blast
  have sadd: "\<exists>v. fst (ks_sadd now ?k ?m (\<alpha> r)) = Inr v"
    and look: "ks_lookup now ?k (\<alpha> r1) = Some (RSet ys)" and other: "k \<noteq> ?k \<Longrightarrow> \<alpha> r1 k = \<alpha> r k" for k
    using xs unfolding 1(2)
    by (auto simp: ks_sadd_def blacklist_at_def ys_def ks_store_def ks_lookup_def ks_deadline_def
        split: option.splits rvalue.splits if_splits prod.splits)
  obtain r2 where 2: "redis_call (rd_expire R now ?k ?ttl) (w\<lparr>w_redis := Some r1\<rparr>) =
      (fst (ks_expire now ?k ?ttl (\<alpha> r1)), w\<lparr>w_redis := Some r2\<rparr>)" "\<alpha> r2 = snd (ks_expire now ?k ?ttl (\<alpha> r1))"
    using redis_call_sim_ex [OF conforms_set(2) [OF R]] by blast
  have "\<alpha> r2 = (\<alpha> r)(?k \<mapsto> (RSet ys, Some (now + seconds_td ?ttl)))"
    using look other ttl unfolding 2(2) by (auto simp: ks_expire_def fun_eq_iff)
  moreover have "blacklist_token S R now uid jti ex w = (Inr (), w\<lparr>w_redis := Some r2\<rparr>)"
    using 1(1) 2(1) sadd look S(1) by (auto simp: blacklist_token_def Let_def entry_def ks_expire_def)
  moreover have "set ys = insert ?m (set xs)" by (auto simp: ys_def set_insort_key)
  ultimately show ?thesis by blast
qed

lemma is_blacklisted_run:
  assumes R: "redis_conforms R \<alpha>" and S: "JWT_BLACKLIST_ENABLED S" and w: "w_redis w = Some r"
    and xs: "blacklist_at now uid (\<alpha> r) = Some xs"
    and wf: "\<forall>m \<in> set xs. \<exists>p. CHR '':'' \<notin> set (fst p) \<and> m = entry p" and jti: "CHR '':'' \<notin> set jti"
  shows "\<exists>r'. is_token_blacklisted S R now uid jti w =
    (Inr (\<exists>e. entry (jti, e) \<in> set xs \<and> int_timestamp now \<le> e), w\<lparr>w_redis := Some r'\<rparr>)"
proof -
  have "fst (ks_smembers now (user_key uid) (\<alpha> r)) = Inr xs"
    using xs by (auto simp: ks_smembers_def blacklist_at_def split: option.splits rvalue.splits)
  then obtain r' ms where run: "redis_call (rd_smembers R now (user_key uid)) w = (Inr ms, w\<lparr>w_redis := Some r'\<rparr>)"
    and ms: "set ms = set xs"
    using redis_call_sim_set [OF conforms_set(3) [OF R] w] by metis
  obtain ps where ps: "ms = map entry ps" "\<forall>p \<in> set ps. CHR '':'' \<notin> set (fst p)"
    using entries_exist [of ms] wf ms by blast
  have "entry (jti, e) \<in> set xs \<longleftrightarrow> (jti, e) \<in> set ps" for e
    using ps jti ms [symmetric] entry_inj [of "(jti, e)"] by (auto simp: image_iff)
  then have "is_token_blacklisted S R now uid jti w =
    (Inr (\<exists>e. entry (jti, e) \<in> set xs \<and> int_timestamp now \<le> e), w\<lparr>w_redis := Some r'\<rparr>)"
    using run S scan_entries [OF ps(2)] by (simp add: is_token_blacklisted_def ps(1))
  then show ?thesis by blast
qed

section \<open>Properties\<close>

text \<open>
  C20: A revoked token is recognised until it expires, for as long as the user's blacklist lives. After a
  token is blacklisted, a check of the same token finds it as long as its expiry has not passed and the key's
  time to live has not run out; other tokens are judged as before. Hypotheses: Redis behaves as documented,
  the blacklist is enabled and holds entries of the form \<open>jti:exp\<close>, and token ids contain no colon.
\<close>

theorem blacklisted_until_expiry:
  assumes "redis_conforms R \<alpha>" and "JWT_BLACKLIST_ENABLED S" and "0 < JWT_BLACKLIST_TTL S"
    and "w_redis w = Some r" and "blacklist_at now uid (\<alpha> r) = Some xs"
    and "\<forall>m \<in> set xs. \<exists>p. CHR '':'' \<notin> set (fst p) \<and> m = entry p"
    and "CHR '':'' \<notin> set jti" and "CHR '':'' \<notin> set jti'"
    and "now \<le> now'" and "now' < now + seconds_td (token_ttl S now ex)"
  shows "\<exists>w1 w2. blacklist_token S R now uid jti ex w = (Inr (), w1) \<and>
    is_token_blacklisted S R now' uid jti' w1 =
      (Inr (jti' = jti \<and> int_timestamp now' \<le> ex \<or> (\<exists>e. entry (jti', e) \<in> set xs \<and> int_timestamp now' \<le> e)), w2)"
proof -
  obtain r1 ys where 1: "blacklist_token S R now uid jti ex w = (Inr (), w\<lparr>w_redis := Some r1\<rparr>)"
    "\<alpha> r1 = (\<alpha> r)(user_key uid \<mapsto> (RSet ys, Some (now + seconds_td (token_ttl S now ex))))"
    "set ys = insert (entry (jti, ex)) (set xs)"
    using blacklist_run [OF assms(1-5), of jti ex] by blast
  have ys: "blacklist_at now' uid (\<alpha> r1) = Some ys" using assms(10) by (simp add: blacklist_at_def 1(2))
  have wf: "\<forall>m \<in> set ys. \<exists>p. CHR '':'' \<notin> set (fst p) \<and> m = entry p"
    using assms(6,7) unfolding 1(3) by (auto intro!: exI [of _ "(jti, ex)"])
  have mem: "entry (jti', e) \<in> set ys \<longleftrightarrow> jti' = jti \<and> e = ex \<or> entry (jti', e) \<in> set xs" for e
    using entry_inj [of "(jti', e)" "(jti, ex)"] assms(7,8) unfolding 1(3) by auto
  obtain r2 where "is_token_blacklisted S R now' uid jti' (w\<lparr>w_redis := Some r1\<rparr>) =
    (Inr (\<exists>e. entry (jti', e) \<in> set ys \<and> int_timestamp now' \<le> e), w\<lparr>w_redis := Some r2\<rparr>)"
    using is_blacklisted_run [OF assms(1,2) _ ys wf assms(8), of "w\<lparr>w_redis := Some r1\<rparr>"] by auto
  moreover have "(\<exists>e. entry (jti', e) \<in> set ys \<and> int_timestamp now' \<le> e) \<longleftrightarrow>
    jti' = jti \<and> int_timestamp now' \<le> ex \<or> (\<exists>e. entry (jti', e) \<in> set xs \<and> int_timestamp now' \<le> e)"
    unfolding mem by blast
  ultimately show ?thesis using 1(1) by auto
qed

lemma timestamp_0 [simp]: "int_timestamp 0 = 0"
  using int_timestamp_whole [of 0] by (simp add: from_timestamp_def)

theorem blacklisted_until_expiry_witness:
  "\<exists>w1 w2. blacklist_token default_settings keyspace_redis 0 1 ''a'' 100 sample_world = (Inr (), w1) \<and>
     is_token_blacklisted default_settings keyspace_redis (seconds_td 50) 1 ''a'' w1 = (Inr True, w2)"
  using blacklisted_until_expiry [OF keyspace_conforms, of default_settings sample_world Map.empty 0 1 "[]" "''a''" "''a''"
      "seconds_td 50" 100] int_timestamp_whole [of 50]
  by (auto simp: default_settings_def sample_world_def blacklist_at_def ks_lookup_def token_ttl_def seconds_td_def
      from_timestamp_def)

text \<open>
  Revoking a second token can cancel the first revocation. Blacklisting a token sets the time to live of
  the whole set, so after a token that expires soon is blacklisted, a longer-lived token that was blacklisted
  before is accepted again once the short one has expired, although its own expiry is still ahead.
\<close>

theorem revocation_forgotten:
  assumes "redis_conforms R \<alpha>" and "JWT_BLACKLIST_ENABLED S" and "0 < JWT_BLACKLIST_TTL S"
    and "w_redis w = Some r" and "blacklist_at now uid (\<alpha> r) = Some []" and "CHR '':'' \<notin> set jti"
    and "now + seconds_td (token_ttl S now short) \<le> now'"
  shows "\<exists>w1 w2 w3. blacklist_token S R now uid jti long w = (Inr (), w1) \<and>
    blacklist_token S R now uid jti' short w1 = (Inr (), w2) \<and>
    is_token_blacklisted S R now' uid jti w2 = (Inr False, w3)"
proof -
  obtain r1 ys where 1: "blacklist_token S R now uid jti long w = (Inr (), w\<lparr>w_redis := Some r1\<rparr>)"
    "\<alpha> r1 = (\<alpha> r)(user_key uid \<mapsto> (RSet ys, Some (now + seconds_td (token_ttl S now long))))"
    using blacklist_run [OF assms(1-5), of jti long] by blast
  have "0 < seconds_td (token_ttl S now long)" using assms(3) by (simp add: token_ttl_def seconds_td_def)
  then have ys: "blacklist_at now uid (\<alpha> r1) = Some ys" by (simp add: blacklist_at_def 1(2))
  obtain r2 zs where 2: "blacklist_token S R now uid jti' short (w\<lparr>w_redis := Some r1\<rparr>) = (Inr (), w\<lparr>w_redis := Some r2\<rparr>)"
    "\<alpha> r2 = (\<alpha> r1)(user_key uid \<mapsto> (RSet zs, Some (now + seconds_td (token_ttl S now short))))"
    using blacklist_run [OF assms(1-3) _ ys, of "w\<lparr>w_redis := Some r1\<rparr>" jti' short] by auto
  have "blacklist_at now' uid (\<alpha> r2) = Some []" using assms(7) by (simp add: blacklist_at_def 2(2))
  from is_blacklisted_run [OF assms(1,2) _ this _ assms(6), of "w\<lparr>w_redis := Some r2\<rparr>"]
  show ?thesis using 1(1) 2(1) by auto
qed

theorem revocation_forgotten_witness:
  "\<exists>w1 w2 w3. blacklist_token default_settings keyspace_redis 0 1 ''a'' 5000 sample_world = (Inr (), w1) \<and>
     blacklist_token default_settings keyspace_redis 0 1 ''b'' 10 w1 = (Inr (), w2) \<and>
     is_token_blacklisted default_settings keyspace_redis (seconds_td 11) 1 ''a'' w2 = (Inr False, w3)"
  using revocation_forgotten [OF keyspace_conforms, of default_settings sample_world Map.empty 0 1 "''a''" 10
      "seconds_td 11" 5000 "''b''"]
  by (simp add: default_settings_def sample_world_def blacklist_at_def ks_lookup_def token_ttl_def seconds_td_def)

end
