(* ===== verification/AuthApi.thy ===== *)
theory AuthApi
  imports JwtSessions Permissions
begin

text \<open>
  Authentication at the API: the dependencies of \<^verbatim>\<open>app/api/deps.py\<close>, API keys
  (\<^verbatim>\<open>app/identity/crud/api_key.py\<close>), the endpoints of \<^verbatim>\<open>app/identity/api/endpoints/auth.py\<close> without
  WebAuthn, and the TOTP endpoints (\<^verbatim>\<open>app/identity/api/endpoints/totp.py\<close>).

  A handler takes the resolved request data, the readings of the clock and the random values it draws. The
  e-mail service only logs and is left out of the effects; the OAuth provider is a parameter. A dictionary
  in an answer is a datatype or a record.
\<close>

definition int_exn :: "string \<Rightarrow> exn + int" where
  "int_exn s = (case py_int s of None \<Rightarrow> Inl (ValueError s) | Some i \<Rightarrow> Inr i)"

text \<open>\<open>payload["sub"]\<close>\<close>

definition sub_of :: "claims \<Rightarrow> exn + string" where
  "sub_of p = (case cl_sub p of None \<Rightarrow> Inl (KeyError ''sub'') | Some s \<Rightarrow> Inr s)"

section \<open>API keys\<close>

record api_key_create =
  akc_name :: string
  akc_scopes :: "string list option"
  akc_expires_at :: "datetime option"

text \<open>
  \<^verbatim>\<open>key_prefix\<close> is a column of at most 8 characters: the database refuses a longer value at the flush.
\<close>

definition create_with_raw_key ::
  "sha256 \<Rightarrow> string \<Rightarrow> int \<Rightarrow> api_key_create \<Rightarrow> ('r, api_key \<times> string) app" where
  "create_with_raw_key sha hex uid o' =
     (case generate_api_key sha hex of (raw_key, hashed_key, prefix) \<Rightarrow>
        thenM (guardM (length prefix \<le> 8) DataError)
        (bindM (add_key \<lparr>key_id = 0, key_user_id = uid, key_name = akc_name o', key_prefix = prefix,
                  key_hashed_key = hashed_key,
                  key_scopes = (case akc_scopes o' of Some (s # ss) \<Rightarrow> Some (s # ss) | _ \<Rightarrow> None),
                  key_is_active = True, key_last_used_at = None, key_expires_at = akc_expires_at o',
                  key_deleted_at = None\<rparr>) (\<lambda>k.
          thenM commit (returnM (k, raw_key)))))"

definition get_by_prefix :: "string \<Rightarrow> ('r, api_key option) app" where
  "get_by_prefix prefix = select_one api_keys (\<lambda>k. key_prefix k = prefix \<and> key_is_active k)"

definition get_active_for_user :: "int \<Rightarrow> ('r, api_key list) app" where
  "get_active_for_user uid = select_all api_keys (\<lambda>k. key_user_id k = uid)"

definition api_key_verify :: "sha256 \<Rightarrow> datetime \<Rightarrow> string \<Rightarrow> ('r, api_key option) app" where
  "api_key_verify sha now raw_key =
     bindM (get_by_prefix (take 10 raw_key)) (\<lambda>r.
       case r of None \<Rightarrow> returnM None
       | Some k \<Rightarrow>
           if \<not> verify_api_key sha raw_key (key_hashed_key k) then returnM None
           else if \<not> key_is_active k then returnM None
           else if (case key_expires_at k of None \<Rightarrow> False | Some e \<Rightarrow> e < now) then returnM None
           else (let k' = k\<lparr>key_last_used_at := Some now\<rparr>
                 in thenM (save_key k') (thenM commit (returnM (Some k')))))"

section \<open>Who is calling\<close>

definition get_current_user :: "settings \<Rightarrow> jose \<Rightarrow> 'r redis \<Rightarrow> datetime \<Rightarrow> string \<Rightarrow> ('r, user) app" where
  "get_current_user S J R now token =
     bindM (liftM (decode_access_token S J (timegm now) token)) (\<lambda>payload.
       case cl_sub payload of
         None \<Rightarrow> raiseM (HTTPException 401 ''Invalid token payload: subject missing'')
       | Some sub \<Rightarrow>
           bindM (case cl_jti payload of
                    Some (c # cs) \<Rightarrow> bindM (liftM (int_exn sub)) (\<lambda>uid. is_token_blacklisted S R now uid (c # cs))
                  | _ \<Rightarrow> returnM False) (\<lambda>revoked.
             thenM (guardM (\<not> revoked) (HTTPException 401 ''Token has been revoked''))
              (bindM (liftM (int_exn sub)) (\<lambda>uid.
               bindM (get_with_roles uid) (\<lambda>r.
                 case r of None \<Rightarrow> raiseM (HTTPException 404 ''User not found'')
                 | Some u \<Rightarrow>
                     thenM (guardM (user_is_active u) (HTTPException 400 ''Inactive user'')) (returnM u))))))"

definition get_api_key_user :: "sha256 \<Rightarrow> datetime \<Rightarrow> string option \<Rightarrow> ('r, user) app" where
  "get_api_key_user sha now api_key =
     (case api_key of
        Some (c # cs) \<Rightarrow>
          bindM (api_key_verify sha now (c # cs)) (\<lambda>r.
            case r of None \<Rightarrow> raiseM (HTTPException 401 ''Invalid or expired API key.'')
            | Some key_record \<Rightarrow>
                bindM (get_with_roles (key_user_id key_record)) (\<lambda>ur.
                  case ur of
                    Some u \<Rightarrow> if user_is_active u then returnM u
                              else raiseM (HTTPException 401 ''User account is inactive or not found.'')
                  | None \<Rightarrow> raiseM (HTTPException 401 ''User account is inactive or not found.'')))
      | _ \<Rightarrow> raiseM (HTTPException 401 ''API key required. Provide it via the X-API-Key header.''))"

text \<open>The user, and the scopes that the dependency stores in the request state.\<close>

definition get_current_user_or_api_key ::
  "settings \<Rightarrow> jose \<Rightarrow> 'r redis \<Rightarrow> sha256 \<Rightarrow> datetime \<Rightarrow> string option \<Rightarrow> string option
    \<Rightarrow> ('r, user \<times> string list option) app" where
  "get_current_user_or_api_key S J R sha now token api_key =
     (let with_token =
        (case token of Some (c # cs) \<Rightarrow> bindM (get_current_user S J R now (c # cs)) (\<lambda>u. returnM (u, None))
         | _ \<Rightarrow> raiseM (HTTPException 401 ''Not authenticated. Provide a Bearer token or X-API-Key header.''))
      in case api_key of
           Some (c # cs) \<Rightarrow>
             bindM (api_key_verify sha now (c # cs)) (\<lambda>r.
               case r of None \<Rightarrow> with_token
               | Some k \<Rightarrow>
                   bindM (get_with_roles (key_user_id k)) (\<lambda>ur.
                     case ur of
                       Some u \<Rightarrow> if user_is_active u
                                 then returnM (u, Some (case key_scopes k of None \<Rightarrow> [] | Some sc \<Rightarrow> sc))
                                 else with_token
                     | None \<Rightarrow> with_token))
         | _ \<Rightarrow> with_token)"

definition require_2fa :: "user \<Rightarrow> ('r, user) app" where
  "require_2fa u =
     thenM (guardM (user_totp_enabled u)
              (HTTPException 403 ''2FA is required for this endpoint. Enable TOTP first.''))
       (returnM u)"

section \<open>API-key endpoints\<close>

definition create_api_key ::
  "sha256 \<Rightarrow> string \<Rightarrow> string list option \<Rightarrow> user \<Rightarrow> api_key_create \<Rightarrow> ('r, api_key \<times> string) app" where
  "create_api_key sha hex scopes user o' =
     thenM (permission_checker [''api_key:write''] scopes user) (create_with_raw_key sha hex (user_id user) o')"

definition owned_key :: "string \<Rightarrow> user \<Rightarrow> api_key option \<Rightarrow> ('r, api_key) app" where
  "owned_key detail u r =
     (case r of
        Some k \<Rightarrow> if key_user_id k \<noteq> user_id u then raiseM (HTTPException 404 detail) else returnM k
      | None \<Rightarrow> raiseM (HTTPException 404 detail))"

definition update_api_key :: "user \<Rightarrow> int \<Rightarrow> (api_key \<Rightarrow> api_key) \<Rightarrow> ('r, api_key) app" where
  "update_api_key current_user i set_attributes =
     bindM (crud_get key_model i False) (\<lambda>r.
       bindM (owned_key ''API key not found'' current_user r) (\<lambda>k. crud_update key_model k set_attributes))"

definition delete_api_key :: "datetime \<Rightarrow> user \<Rightarrow> int \<Rightarrow> ('r, unit) app" where
  "delete_api_key now current_user i =
     bindM (crud_get key_model i False) (\<lambda>r.
       bindM (owned_key ''API key not found'' current_user r) (\<lambda>k.
         thenM (crud_delete key_model now i) (returnM ())))"

definition restore_api_key :: "user \<Rightarrow> int \<Rightarrow> ('r, api_key) app" where
  "restore_api_key current_user i =
     bindM (crud_restore key_model i) (owned_key ''Deleted API key not found'' current_user)"

end
