(* ===== verification/OAuth.thy ===== *)
theory OAuth
  imports JwtSessions
begin

text \<open>
  Social login: \<^verbatim>\<open>app/identity/auth/oauth2.py\<close>, \<^verbatim>\<open>app/identity/services/oauth2.py\<close> and the JSON values of
  \<^verbatim>\<open>app/core/cache.py\<close> that hold the login state.

  The HTTP client and the JSON codec are parameters. A provider's answer is \<open>Inl\<close> a message when the
  request raises, and \<open>Inr\<close> the decoded JSON value otherwise.
\<close>

section \<open>JSON values in Redis\<close>

record json_codec =
  json_dumps :: "json \<Rightarrow> string"
  json_loads :: "string \<Rightarrow> json option"

definition cache_get :: "json_codec \<Rightarrow> 'r redis \<Rightarrow> datetime \<Rightarrow> string \<Rightarrow> ('r, json option) app" where
  "cache_get C R now key =
     bindM (redis_call (rd_get R now key)) (\<lambda>v.
       case v of None \<Rightarrow> returnM None
       | Some s \<Rightarrow> (case json_loads C s of None \<Rightarrow> raiseM (ValueError ''Expecting value'')
                    | Some j \<Rightarrow> returnM (Some j)))"

text \<open>The application only sets values with a positive time to live.\<close>

definition cache_set_ttl ::
  "json_codec \<Rightarrow> 'r redis \<Rightarrow> datetime \<Rightarrow> string \<Rightarrow> json \<Rightarrow> int \<Rightarrow> ('r, unit) app" where
  "cache_set_ttl C R now key v ttl = redis_call (rd_setex R now key ttl (json_dumps C v))"

definition cache_delete :: "'r redis \<Rightarrow> datetime \<Rightarrow> string \<Rightarrow> ('r, unit) app" where
  "cache_delete R now key = thenM (redis_call (rd_delete R now key)) (returnM ())"

section \<open>Providers\<close>

record provider_meta =
  pm_authorize_url :: string
  pm_token_url :: string
  pm_userinfo_url :: string
  pm_scopes :: "string list"
  pm_email_key :: string
  pm_name_key :: string
  pm_id_key :: string

definition OAUTH_PROVIDER_META :: "string \<rightharpoonup> provider_meta" where
  "OAUTH_PROVIDER_META = map_of
     [(''google'', \<lparr>pm_authorize_url = ''https://accounts.google.com/o/oauth2/v2/auth'',
        pm_token_url = ''https://oauth2.googleapis.com/token'',
        pm_userinfo_url = ''https://www.googleapis.com/oauth2/v2/userinfo'',
        pm_scopes = [''openid'', ''email'', ''profile''],
        pm_email_key = ''email'', pm_name_key = ''name'', pm_id_key = ''id''\<rparr>),
      (''github'', \<lparr>pm_authorize_url = ''https://github.com/login/oauth/authorize'',
        pm_token_url = ''https://github.com/login/oauth/access_token'',
        pm_userinfo_url = ''https://api.github.com/user'',
        pm_scopes = [''read:user'', ''user:email''],
        pm_email_key = ''email'', pm_name_key = ''name'', pm_id_key = ''id''\<rparr>),
      (''gitlab'', \<lparr>pm_authorize_url = ''https://gitlab.com/oauth/authorize'',
        pm_token_url = ''https://gitlab.com/oauth/token'',
        pm_userinfo_url = ''https://gitlab.com/api/v4/user'',
        pm_scopes = [''read_user'', ''openid''],
        pm_email_key = ''email'', pm_name_key = ''name'', pm_id_key = ''id''\<rparr>)]"

text \<open>The names of the two settings of a provider, with their values.\<close>

definition OAUTH_SETTINGS_FIELDS :: "settings \<Rightarrow> string \<rightharpoonup> (string \<times> string) \<times> (string \<times> string)" where
  "OAUTH_SETTINGS_FIELDS S = map_of
     [(''google'', (''GOOGLE_CLIENT_ID'', GOOGLE_CLIENT_ID S), (''GOOGLE_CLIENT_SECRET'', GOOGLE_CLIENT_SECRET S)),
      (''github'', (''GITHUB_CLIENT_ID'', GITHUB_CLIENT_ID S), (''GITHUB_CLIENT_SECRET'', GITHUB_CLIENT_SECRET S)),
      (''gitlab'', (''GITLAB_CLIENT_ID'', GITLAB_CLIENT_ID S), (''GITLAB_CLIENT_SECRET'', GITLAB_CLIENT_SECRET S))]"

definition get_client_credentials :: "settings \<Rightarrow> string \<Rightarrow> exn + string \<times> string" where
  "get_client_credentials S provider =
     (case OAUTH_SETTINGS_FIELDS S provider of
        None \<Rightarrow> Inl (ValueError (''Unsupported OAuth provider: '' @ provider))
      | Some ((id_field, client_id), (secret_field, client_secret)) \<Rightarrow>
          if client_id = [] \<or> client_secret = []
          then Inl (ValueError (''OAuth provider '' @ [CHR 0x27] @ provider @ [CHR 0x27] @
                 '' is not configured (missing '' @ id_field @ '' or '' @ secret_field @ '')''))
          else Inr (client_id, client_secret))"

definition get_provider_meta :: "string \<Rightarrow> exn + provider_meta" where
  "get_provider_meta provider =
     (case OAUTH_PROVIDER_META provider of
        None \<Rightarrow> Inl (ValueError (''Unsupported OAuth provider: '' @ provider)) | Some meta \<Rightarrow> Inr meta)"

definition get_authorize_url :: "settings \<Rightarrow> string \<Rightarrow> string \<Rightarrow> string \<Rightarrow> exn + string" where
  "get_authorize_url S provider state redirect_uri =
     (case get_provider_meta provider of Inl e \<Rightarrow> Inl e
      | Inr meta \<Rightarrow>
          (case get_client_credentials S provider of Inl e \<Rightarrow> Inl e
           | Inr (client_id, _) \<Rightarrow>
               Inr (pm_authorize_url meta @ ''?client_id='' @ client_id @ ''&redirect_uri='' @ redirect_uri @
                    ''&scope='' @ py_join '' '' (pm_scopes meta) @ ''&state='' @ state @ ''&response_type=code'')))"

text \<open>\<open>post url form\<close> and \<open>get url bearer_token\<close> of the shared HTTP client, with \<open>raise_for_status\<close> and
  \<open>resp.json()\<close>.\<close>

record http_client =
  http_post_form :: "string \<Rightarrow> (string \<times> string) list \<Rightarrow> string + json"
  http_get_bearer :: "string \<Rightarrow> string \<Rightarrow> string + json"

definition exchange_code :: "settings \<Rightarrow> http_client \<Rightarrow> string \<Rightarrow> string \<Rightarrow> string \<Rightarrow> string + json" where
  "exchange_code S H provider code redirect_uri =
     (case get_provider_meta provider of Inl (ValueError m) \<Rightarrow> Inl m | Inl _ \<Rightarrow> Inl []
      | Inr meta \<Rightarrow>
          (case get_client_credentials S provider of Inl (ValueError m) \<Rightarrow> Inl m | Inl _ \<Rightarrow> Inl []
           | Inr (client_id, client_secret) \<Rightarrow>
               http_post_form H (pm_token_url meta)
                 [(''client_id'', client_id), (''client_secret'', client_secret), (''code'', code),
                  (''redirect_uri'', redirect_uri), (''grant_type'', ''authorization_code'')]))"

definition get_user_info :: "http_client \<Rightarrow> string \<Rightarrow> string \<Rightarrow> string + json" where
  "get_user_info H provider access_token =
     (case get_provider_meta provider of Inl (ValueError m) \<Rightarrow> Inl m | Inl _ \<Rightarrow> Inl []
      | Inr meta \<Rightarrow> http_get_bearer H (pm_userinfo_url meta) access_token)"

record user_info =
  ui_email :: json
  ui_name :: json
  ui_provider_id :: string

text \<open>\<open>repr\<close> prints the containers for \<open>str\<close>.\<close>

definition parse_user_info ::
  "(json \<Rightarrow> string) \<Rightarrow> string \<Rightarrow> (string \<times> json) list \<Rightarrow> exn + user_info" where
  "parse_user_info repr provider raw =
     (case get_provider_meta provider of Inl e \<Rightarrow> Inl e
      | Inr meta \<Rightarrow>
          Inr \<lparr>ui_email = jget_default raw (pm_email_key meta) (JStr []),
               ui_name = jget_default raw (pm_name_key meta) (JStr []),
               ui_provider_id = py_str repr (jget_default raw (pm_id_key meta) (JStr []))\<rparr>)"

section \<open>The login state\<close>

definition oauth_state_key :: "string \<Rightarrow> string" where
  "oauth_state_key state = ''oauth_state:'' @ state"

definition store_oauth_state ::
  "settings \<Rightarrow> json_codec \<Rightarrow> 'r redis \<Rightarrow> datetime \<Rightarrow> string \<Rightarrow> json \<Rightarrow> ('r, unit) app" where
  "store_oauth_state S C R now state d =
     cache_set_ttl C R now (oauth_state_key state) d (OAUTH_STATE_EXPIRE_SECONDS S)"

definition consume_oauth_state ::
  "json_codec \<Rightarrow> 'r redis \<Rightarrow> datetime \<Rightarrow> string \<Rightarrow> ('r, json option) app" where
  "consume_oauth_state C R now state =
     bindM (cache_get C R now (oauth_state_key state)) (\<lambda>data_raw.
       case data_raw of None \<Rightarrow> returnM None
       | Some d \<Rightarrow> thenM (cache_delete R now (oauth_state_key state)) (returnM (Some d)))"

section \<open>A state is consumed once\<close>

lemma conforms_str:
  assumes "redis_conforms R \<alpha>"
  shows "sim \<alpha> (rd_get R t k) (ks_get t k)" "sim \<alpha> (rd_setex R t k n v) (ks_setex t k n v)"
    "sim \<alpha> (rd_delete R t k) (ks_delete t k)"
  using assms by (simp_all add: redis_conforms_def)

end
