(* ===== verification/AuthEndpoints.thy ===== *)
theory AuthEndpoints
  imports AuthApi OAuth
begin

text \<open>
  The endpoints of \<^verbatim>\<open>app/identity/api/endpoints/auth.py\<close> (those for passkeys are in \<^verbatim>\<open>WebAuthn\<close>) and
  \<^verbatim>\<open>app/identity/api/endpoints/totp.py\<close>, and the user operations of \<^verbatim>\<open>app/identity/crud/user.py\<close> that they
  call.

  A handler takes the request data after validation, the instant of the request, and the random values it
  draws (salts, token identifiers, codes). A handler that depends on \<^verbatim>\<open>get_current_user\<close> takes that user as
  an argument. Sending an e-mail only logs; a handler that sends one returns the token it puts into
  the message. \<open>pyotp\<close> is a parameter. A dictionary in an answer is a datatype or a record.
\<close>

section \<open>Creating and changing users\<close>

record user_create =
  uc_email :: string
  uc_username :: string
  uc_full_name :: "string option"
  uc_password :: string

definition is_alnum :: "char \<Rightarrow> bool" where
  "is_alnum c \<longleftrightarrow>
     (let n = of_char c :: nat in 48 \<le> n \<and> n \<le> 57 \<or> 65 \<le> n \<and> n \<le> 90 \<or> 97 \<le> n \<and> n \<le> 122)"

definition username_valid :: "string \<Rightarrow> bool" where
  "username_valid s \<longleftrightarrow> 3 \<le> length s \<and> length s \<le> 50 \<and> (\<forall>c \<in> set s. is_alnum c \<or> c \<in> set ''_-'')"

text \<open>\<open>email_ok\<close> is the e-mail validator.\<close>

definition user_create_valid :: "(string \<Rightarrow> bool) \<Rightarrow> user_create \<Rightarrow> bool" where
  "user_create_valid email_ok o' \<longleftrightarrow>
     email_ok (uc_email o') \<and> username_valid (uc_username o') \<and>
     (case uc_full_name o' of None \<Rightarrow> True | Some n \<Rightarrow> length n \<le> 100) \<and>
     8 \<le> length (uc_password o') \<and> length (uc_password o') \<le> 100"

text \<open>\<open>User(...)\<close> with the column defaults.\<close>

definition new_user :: "string \<Rightarrow> string \<Rightarrow> string option \<Rightarrow> string \<Rightarrow> user" where
  "new_user email username full_name hashed_password =
     \<lparr>user_id = 0, user_tenant_id = None, user_email = email, user_username = username,
      user_full_name = full_name, user_hashed_password = hashed_password, user_is_active = True,
      user_is_superuser = False, user_is_verified = False, user_failed_login_attempts = 0,
      user_locked_until = None, user_email_verified_at = None, user_last_login_at = None,
      user_oauth_provider = None, user_oauth_provider_id = None, user_oauth_access_token = None,
      user_oauth_refresh_token = None, user_totp_secret = None, user_totp_enabled = False,
      user_totp_verified_at = None, user_backup_codes = None, user_roles = [], user_deleted_at = None\<rparr>"

definition user_of_create :: "bcrypt \<Rightarrow> string \<Rightarrow> user_create \<Rightarrow> user" where
  "user_of_create B salt o' =
     new_user (uc_email o') (uc_username o') (uc_full_name o') (get_password_hash B salt (uc_password o'))"

definition crud_user_create :: "bcrypt \<Rightarrow> string \<Rightarrow> user_create \<Rightarrow> ('r, user) app" where
  "crud_user_create B salt obj_in = thenM user_inserted (crud_create user_model (user_of_create B salt obj_in))"

text \<open>\<open>salt i\<close> is the salt of the \<open>i\<close>-th user.\<close>

definition crud_user_bulk_create :: "bcrypt \<Rightarrow> (nat \<Rightarrow> string) \<Rightarrow> user_create list \<Rightarrow> ('r, user list) app" where
  "crud_user_bulk_create B salt objs_in =
     thenM (if objs_in = [] then returnM () else user_inserted)
       (crud_bulk_create user_model (map (\<lambda>(i, o'). user_of_create B (salt i) o') (List.enumerate 0 objs_in)))"

text \<open>\<open>None\<close>: the field is unset; \<open>Some None\<close>: it is set to null.\<close>

record user_update =
  uu_email :: "string option option"
  uu_username :: "string option option"
  uu_full_name :: "string option option"
  uu_password :: "string option option"
  uu_is_active :: "bool option option"

definition user_update_valid :: "(string \<Rightarrow> bool) \<Rightarrow> user_update \<Rightarrow> bool" where
  "user_update_valid email_ok o' \<longleftrightarrow>
     (case uu_email o' of Some (Some e) \<Rightarrow> email_ok e | _ \<Rightarrow> True) \<and>
     (case uu_username o' of Some (Some n) \<Rightarrow> username_valid n | _ \<Rightarrow> True) \<and>
     (case uu_full_name o' of Some (Some n) \<Rightarrow> length n \<le> 100 | _ \<Rightarrow> True) \<and>
     (case uu_password o' of Some (Some p) \<Rightarrow> 8 \<le> length p \<and> length p \<le> 100 | _ \<Rightarrow> True)"

definition apply_field :: "'v option option \<Rightarrow> ('v \<Rightarrow> 'a \<Rightarrow> 'a) \<Rightarrow> 'a \<Rightarrow> 'a" where
  "apply_field f set_attr r = (case f of Some (Some v) \<Rightarrow> set_attr v r | _ \<Rightarrow> r)"

definition apply_user_update :: "bcrypt \<Rightarrow> string \<Rightarrow> user_update \<Rightarrow> user \<Rightarrow> user" where
  "apply_user_update B salt o' u =
     (let u = apply_field (uu_email o') (\<lambda>v r. r\<lparr>user_email := v\<rparr>) u;
          u = apply_field (uu_username o') (\<lambda>v r. r\<lparr>user_username := v\<rparr>) u;
          u = (case uu_full_name o' of Some v \<Rightarrow> u\<lparr>user_full_name := v\<rparr> | None \<Rightarrow> u);
          u = apply_field (uu_password o') (\<lambda>v r. r\<lparr>user_hashed_password := get_password_hash B salt v\<rparr>) u
      in apply_field (uu_is_active o') (\<lambda>v r. r\<lparr>user_is_active := v\<rparr>) u)"

text \<open>A null in a column that is declared \<^verbatim>\<open>nullable=False\<close> fails at the commit.\<close>

definition nulls_required :: "user_update \<Rightarrow> bool" where
  "nulls_required o' \<longleftrightarrow> uu_email o' = Some None \<or> uu_username o' = Some None \<or> uu_is_active o' = Some None"

definition crud_user_update :: "bcrypt \<Rightarrow> string \<Rightarrow> user \<Rightarrow> user_update \<Rightarrow> ('r, user) app" where
  "crud_user_update B salt db_obj obj_in =
     (if nulls_required obj_in then raiseM IntegrityError
      else crud_update user_model db_obj (apply_user_update B salt obj_in))"

definition create_oauth_user ::
  "bcrypt \<Rightarrow> string \<Rightarrow> string \<Rightarrow> datetime \<Rightarrow> string \<Rightarrow> string \<Rightarrow> string \<Rightarrow> string
    \<Rightarrow> string option \<Rightarrow> string option \<Rightarrow> ('r, user) app" where
  "create_oauth_user B salt random_password now email username provider provider_id access_token refresh_token =
     bindM (add_user ((new_user email username None (get_password_hash B salt random_password))
              \<lparr>user_is_verified := True, user_email_verified_at := Some now,
               user_oauth_provider := Some provider, user_oauth_provider_id := Some provider_id,
               user_oauth_access_token := access_token, user_oauth_refresh_token := refresh_token\<rparr>)) (\<lambda>u.
       thenM commit (returnM u))"

definition link_oauth_account ::
  "user \<Rightarrow> string \<Rightarrow> string \<Rightarrow> string option \<Rightarrow> string option \<Rightarrow> ('r, user) app" where
  "link_oauth_account u provider provider_id access_token refresh_token =
     (let u = u\<lparr>user_oauth_provider := Some provider, user_oauth_provider_id := Some provider_id\<rparr>;
          u = (case access_token of Some (c # cs) \<Rightarrow> u\<lparr>user_oauth_access_token := Some (c # cs)\<rparr> | _ \<Rightarrow> u);
          u = (case refresh_token of Some (c # cs) \<Rightarrow> u\<lparr>user_oauth_refresh_token := Some (c # cs)\<rparr> | _ \<Rightarrow> u)
      in thenM (save_user u) (thenM commit (returnM u)))"

section \<open>Registration\<close>

definition register :: "bcrypt \<Rightarrow> string \<Rightarrow> user_create \<Rightarrow> ('r, user) app" where
  "register B salt user_in =
     bindM (get_by_email (uc_email user_in)) (\<lambda>r1.
       thenM (guardM (r1 = None) (HTTPException 400 ''A user with this email already exists.''))
        (bindM (get_by_username (uc_username user_in)) (\<lambda>r2.
          thenM (guardM (r2 = None) (HTTPException 400 ''A user with this username already exists.''))
            (crud_user_create B salt user_in))))"

section \<open>Tokens for a session\<close>

record token =
  tok_access :: string
  tok_refresh :: string

datatype login_response = Tokens token | TotpRequired string

definition session_payload :: "string \<Rightarrow> client \<Rightarrow> claims \<Rightarrow> exn + session_create_payload" where
  "session_payload token_type c p =
     (case cl_jti p of None \<Rightarrow> Inl (KeyError ''jti'')
      | Some jti \<Rightarrow>
          (case cl_iat p of None \<Rightarrow> Inl (KeyError ''iat'')
           | Some iat \<Rightarrow>
               (case cl_exp p of None \<Rightarrow> Inl (KeyError ''exp'')
                | Some ex \<Rightarrow> Inr \<lparr>sp_jti = jti, sp_token_type = token_type, sp_ip = c_ip c,
                                 sp_user_agent = c_user_agent c, sp_iat = iat, sp_exp = ex\<rparr>)))"

definition store_sessions ::
  "settings \<Rightarrow> jose \<Rightarrow> 'r redis \<Rightarrow> datetime \<Rightarrow> client \<Rightarrow> int \<Rightarrow> token \<Rightarrow> ('r, unit) app" where
  "store_sessions S J R now c uid tok =
     bindM (liftM (decode_access_token S J (timegm now) (tok_access tok))) (\<lambda>access_payload.
     bindM (liftM (decode_refresh_token S J (timegm now) (tok_refresh tok))) (\<lambda>refresh_payload.
     bindM (liftM (session_payload ''access'' c access_payload)) (\<lambda>sa.
     thenM (store_session S R now uid sa)
      (bindM (liftM (session_payload ''refresh'' c refresh_payload)) (\<lambda>sr. store_session S R now uid sr)))))"

text \<open>\<open>ids\<close>: the identifiers of the access and of the refresh token.\<close>

definition new_tokens :: "settings \<Rightarrow> jose \<Rightarrow> datetime \<Rightarrow> string \<times> string \<Rightarrow> int \<Rightarrow> token" where
  "new_tokens S J now ids uid =
     \<lparr>tok_access = create_access_token S J now (fst ids) (show_int uid) None,
      tok_refresh = create_refresh_token S J now (snd ids) (show_int uid)\<rparr>"

definition issue_tokens ::
  "settings \<Rightarrow> jose \<Rightarrow> 'r redis \<Rightarrow> datetime \<Rightarrow> string \<times> string \<Rightarrow> client \<Rightarrow> user \<Rightarrow> ('r, token) app" where
  "issue_tokens S J R now ids c u =
     (let tok = new_tokens S J now ids (user_id u)
      in thenM (store_sessions S J R now c (user_id u) tok) (returnM tok))"

section \<open>Login\<close>

definition login_for_access_token ::
  "settings \<Rightarrow> bcrypt \<Rightarrow> jose \<Rightarrow> 'r redis \<Rightarrow> datetime \<Rightarrow> string \<Rightarrow> string \<times> string \<Rightarrow> client
    \<Rightarrow> string \<Rightarrow> string \<Rightarrow> ('r, login_response) app" where
  "login_for_access_token S B J R now hex ids c username password =
     bindM (tryM (authenticate_user S B now c username password)
              (\<lambda>e. case e of LockedOutException d \<Rightarrow> raiseM (HTTPException 423 d) | _ \<Rightarrow> raiseM e)) (\<lambda>r.
       case r of None \<Rightarrow> raiseM (HTTPException 401 ''Incorrect email or password'')
       | Some u \<Rightarrow>
           if user_totp_enabled u
           then returnM (TotpRequired (create_totp_challenge_token S J now hex (user_id u)))
           else bindM (issue_tokens S J R now ids c u) (\<lambda>tok. returnM (Tokens tok)))"

text \<open>\<open>provisioning_uri secret interval digits name issuer\<close> and
  \<open>totp_verify now secret interval digits code\<close> with a window of one interval; the latter raises for a
  secret that is not Base32.\<close>

record pyotp =
  provisioning_uri :: "string \<Rightarrow> int \<Rightarrow> int \<Rightarrow> string \<Rightarrow> string \<Rightarrow> string"
  totp_verify :: "datetime \<Rightarrow> string \<Rightarrow> int \<Rightarrow> int \<Rightarrow> string \<Rightarrow> exn + bool"

definition verify_totp_code :: "settings \<Rightarrow> pyotp \<Rightarrow> datetime \<Rightarrow> string \<Rightarrow> string \<Rightarrow> exn + bool" where
  "verify_totp_code S P now secret code =
     totp_verify P now secret (TOTP_CODE_EXPIRE_SECONDS S) (TOTP_CODE_LENGTH S) code"

definition get_totp_uri :: "settings \<Rightarrow> pyotp \<Rightarrow> string \<Rightarrow> string \<Rightarrow> string" where
  "get_totp_uri S P secret email =
     provisioning_uri P secret (TOTP_CODE_EXPIRE_SECONDS S) (TOTP_CODE_LENGTH S) email (TOTP_ISSUER_NAME S)"

definition totp_code_valid :: "string \<Rightarrow> bool" where
  "totp_code_valid code \<longleftrightarrow> length code = 6"

definition login_with_totp ::
  "settings \<Rightarrow> jose \<Rightarrow> 'r redis \<Rightarrow> sha256 \<Rightarrow> pyotp \<Rightarrow> datetime \<Rightarrow> string \<times> string \<Rightarrow> client
    \<Rightarrow> string \<Rightarrow> string \<Rightarrow> ('r, token) app" where
  "login_with_totp S J R sha P now ids c challenge_token code =
     bindM (liftM (decode_totp_challenge_token S J (timegm now) challenge_token)) (\<lambda>payload.
     bindM (liftM (sub_of payload)) (\<lambda>sub.
     bindM (liftM (int_exn sub)) (\<lambda>uid.
     bindM (crud_get user_model uid False) (\<lambda>r.
       case r of None \<Rightarrow> raiseM (HTTPException 400 ''User not found or inactive'')
       | Some u \<Rightarrow>
           thenM (guardM (user_is_active u) (HTTPException 400 ''User not found or inactive''))
            (case (user_totp_enabled u, user_totp_secret u) of
               (True, Some (x # xs)) \<Rightarrow>
                 bindM (liftM (verify_totp_code S P now (x # xs) code)) (\<lambda>ok.
                   if ok then issue_tokens S J R now ids c u
                   else (case verify_backup_code sha code (user_backup_codes u) of
                           Some (h # hs) \<Rightarrow>
                             (let u' = u\<lparr>user_backup_codes := remove_used_backup_code (h # hs) (user_backup_codes u)\<rparr>
                              in thenM (save_user u') (thenM commit (issue_tokens S J R now ids c u')))
                         | _ \<Rightarrow> raiseM (HTTPException 400 ''Invalid TOTP or backup code'')))
             | _ \<Rightarrow> raiseM (HTTPException 400 ''TOTP is not enabled for this user''))))))"

definition refresh_access_token ::
  "settings \<Rightarrow> jose \<Rightarrow> 'r redis \<Rightarrow> datetime \<Rightarrow> string \<times> string \<Rightarrow> client \<Rightarrow> string \<Rightarrow> ('r, token) app" where
  "refresh_access_token S J R now ids c refresh_token =
     bindM (liftM (decode_refresh_token S J (timegm now) refresh_token)) (\<lambda>payload.
     bindM (liftM (sub_of payload)) (\<lambda>sub.
     bindM (liftM (int_exn sub)) (\<lambda>uid.
     bindM (crud_get user_model uid False) (\<lambda>r.
       case r of None \<Rightarrow> raiseM (HTTPException 401 ''Invalid refresh token'')
       | Some u \<Rightarrow>
           thenM (guardM (user_is_active u) (HTTPException 401 ''Invalid refresh token''))
            (let tok = new_tokens S J now ids (user_id u);
                 old_exp = (case cl_exp payload of None \<Rightarrow> 0 | Some e \<Rightarrow> e)
             in thenM (case cl_jti payload of
                         Some (x # xs) \<Rightarrow> revoke_session S R now (user_id u) (x # xs) old_exp
                       | _ \<Rightarrow> returnM ())
                 (thenM (store_sessions S J R now c (user_id u) tok)
                   (thenM (log_auth_event c ''token_refresh'' (Some (user_id u)) (user_tenant_id u) [])
                     (returnM tok))))))))"

section \<open>Magic links\<close>

definition request_magic_link ::
  "settings \<Rightarrow> jose \<Rightarrow> datetime \<Rightarrow> string \<Rightarrow> client \<Rightarrow> string \<Rightarrow> ('r, string) app" where
  "request_magic_link S J now uuid c email =
     (let tok = create_magic_link_token S J now uuid email
      in thenM (log_auth_event c ''magic_link_request'' None None [(''email'', JStr email)]) (returnM tok))"

text \<open>\<open>email.split("@")[0]\<close> without the characters that a user name may not have\<close>

definition safe_prefix :: "string \<Rightarrow> string" where
  "safe_prefix email = filter (\<lambda>c. is_alnum c \<or> c \<in> set ''._-'') (hd (py_split (CHR ''@'') email))"

definition verify_magic_link ::
  "settings \<Rightarrow> jose \<Rightarrow> 'r redis \<Rightarrow> datetime \<Rightarrow> string \<Rightarrow> string \<Rightarrow> string \<times> string \<Rightarrow> client
    \<Rightarrow> string \<Rightarrow> ('r, token) app" where
  "verify_magic_link S J R now hex random_password ids c tok =
     bindM (liftM (decode_magic_link_token S J (timegm now) tok)) (\<lambda>payload.
     bindM (liftM (sub_of payload)) (\<lambda>email.
     bindM (get_by_email email) (\<lambda>r.
     bindM (case r of
              None \<Rightarrow>
                if \<not> MAGIC_LINK_ALLOW_REGISTRATION S
                then raiseM (HTTPException 400 ''User not found. Registration via magic link is disabled.'')
                else bindM (add_user ((new_user email (safe_prefix email @ ''_'' @ hex) None random_password)
                              \<lparr>user_is_verified := True\<rparr>)) (\<lambda>u. thenM commit (returnM u))
            | Some u \<Rightarrow>
                if \<not> user_is_verified u
                then (let u' = u\<lparr>user_is_verified := True, user_email_verified_at := Some now\<rparr>
                      in thenM (save_user u') (thenM commit (returnM u')))
                else returnM u) (\<lambda>u.
       let tok = new_tokens S J now ids (user_id u)
       in thenM (store_sessions S J R now c (user_id u) tok)
           (thenM (log_auth_event c ''magic_link_login'' (Some (user_id u)) (user_tenant_id u) [])
             (returnM tok))))))"

section \<open>Social login\<close>

text \<open>The authorize URL and the state.\<close>

definition oauth_login ::
  "settings \<Rightarrow> string \<Rightarrow> string \<Rightarrow> string option \<Rightarrow> ('r, string \<times> string) app" where
  "oauth_login S state provider redirect_uri =
     (let actual_redirect = (case redirect_uri of Some (c # cs) \<Rightarrow> c # cs | _ \<Rightarrow> OAUTH_REDIRECT_URL S)
      in case get_authorize_url S provider state actual_redirect of
           Inr url \<Rightarrow> returnM (url, state)
         | Inl (ValueError m) \<Rightarrow> raiseM (HTTPException 400 m)
         | Inl e \<Rightarrow> raiseM e)"

text \<open>\<open>d.get(k, "")\<close> of a decoded answer, and its use as a text column.\<close>

definition answer_field :: "json \<Rightarrow> string \<Rightarrow> exn + json" where
  "answer_field j k = (case j of JObj d \<Rightarrow> Inr (jget_default d k (JStr [])) | _ \<Rightarrow> Inl (PyTypeError ''get''))"

definition text_column :: "json \<Rightarrow> exn + string option" where
  "text_column j = (case j of JStr s \<Rightarrow> Inr (Some s) | JNull \<Rightarrow> Inr None | _ \<Rightarrow> Inl (PyTypeError ''expected str''))"

text \<open>Linking an account skips a value that is false.\<close>

definition truthy_column :: "json \<Rightarrow> exn + string option" where
  "truthy_column j = (if truthy j then text_column j else Inr None)"

definition oauth_callback ::
  "settings \<Rightarrow> bcrypt \<Rightarrow> jose \<Rightarrow> 'r redis \<Rightarrow> json_codec \<Rightarrow> http_client \<Rightarrow> (json \<Rightarrow> string) \<Rightarrow> datetime
    \<Rightarrow> string \<Rightarrow> string \<Rightarrow> string \<times> string \<Rightarrow> client
    \<Rightarrow> string \<Rightarrow> string \<Rightarrow> string \<Rightarrow> string option \<Rightarrow> ('r, token) app" where
  "oauth_callback S B J R C H repr now salt random_password ids c provider code state redirect_uri =
     bindM (consume_oauth_state C R now state) (\<lambda>state_data.
     thenM (guardM (state_data \<noteq> None) (HTTPException 400 ''Invalid or expired OAuth state. Please try again.''))
      (let actual_redirect = (case redirect_uri of Some (c # cs) \<Rightarrow> c # cs | _ \<Rightarrow> OAUTH_REDIRECT_URL S)
       in bindM (case exchange_code S H provider code actual_redirect of
                   Inl m \<Rightarrow> raiseM (HTTPException 400 (''Failed to exchange authorization code: '' @ m))
                 | Inr j \<Rightarrow> returnM j) (\<lambda>token_data.
          bindM (liftM (answer_field token_data ''access_token'')) (\<lambda>access_resp.
          bindM (liftM (answer_field token_data ''refresh_token'')) (\<lambda>refresh_resp.
          bindM (case get_user_info H provider (py_str repr access_resp) of
                   Inl m \<Rightarrow> raiseM (HTTPException 400 (''Failed to fetch user info: '' @ m))
                 | Inr (JObj d) \<Rightarrow> returnM d
                 | Inr _ \<Rightarrow> raiseM (PyTypeError ''get'')) (\<lambda>raw.
          bindM (liftM (parse_user_info repr provider raw)) (\<lambda>info.
          let provider_id = ui_provider_id info
          in if \<not> truthy (ui_email info)
             then raiseM (HTTPException 400 ''OAuth provider did not return an email address.'')
             else
          bindM (liftM (case ui_email info of JStr s \<Rightarrow> Inr s | _ \<Rightarrow> Inl (PyTypeError ''expected str''))) (\<lambda>email.
          bindM (get_by_oauth provider provider_id) (\<lambda>by_id.
          bindM (if by_id = None then get_by_email email else returnM by_id) (\<lambda>found.
          bindM (case found of
                   Some u \<Rightarrow>
                     if user_oauth_provider_id u = None \<or> user_oauth_provider_id u = Some []
                     then bindM (liftM (truthy_column access_resp)) (\<lambda>access_token.
                          bindM (liftM (truthy_column refresh_resp)) (\<lambda>refresh_token.
                            link_oauth_account u provider provider_id access_token refresh_token))
                     else if user_oauth_provider u \<noteq> Some provider \<or> user_oauth_provider_id u \<noteq> Some provider_id
                     then raiseM (HTTPException 409 ''This email is already linked to a different OAuth account.'')
                     else returnM u
                 | None \<Rightarrow>
                     bindM (liftM (text_column access_resp)) (\<lambda>access_token.
                     bindM (liftM (text_column refresh_resp)) (\<lambda>refresh_token.
                       create_oauth_user B salt random_password now email (safe_prefix email @ ''_oauth'')
                         provider provider_id access_token refresh_token))) (\<lambda>u.
            thenM (guardM (user_is_active u) (HTTPException 400 ''User account is inactive.''))
              (issue_tokens S J R now ids c u))))))))))))"

section \<open>Revocation and sessions\<close>

definition revoke_token ::
  "settings \<Rightarrow> jose \<Rightarrow> 'r redis \<Rightarrow> datetime \<Rightarrow> client \<Rightarrow> string \<Rightarrow> user \<Rightarrow> ('r, unit) app" where
  "revoke_token S J R now c tok current_user =
     bindM (liftM (decode_access_token S J (timegm now) tok)) (\<lambda>payload.
       let ex = (case cl_exp payload of None \<Rightarrow> 0 | Some e \<Rightarrow> e)
       in thenM (case cl_jti payload of
                   Some (x # xs) \<Rightarrow> revoke_session S R now (user_id current_user) (x # xs) ex
                 | _ \<Rightarrow> returnM ())
           (thenM (log_auth_event c ''token_revoke'' (Some (user_id current_user)) (user_tenant_id current_user)
                     (case cl_jti payload of
                        Some (x # xs) \<Rightarrow>
                          [(''jti'', JStr (x # xs)),
                           (''purpose'', case cl_purpose payload of None \<Rightarrow> JNull | Some p \<Rightarrow> JStr p)]
                      | _ \<Rightarrow> []))
             (returnM ())))"

definition revoke_all_tokens ::
  "settings \<Rightarrow> 'r redis \<Rightarrow> datetime \<Rightarrow> client \<Rightarrow> user \<Rightarrow> ('r, int) app" where
  "revoke_all_tokens S R now c current_user =
     bindM (revoke_all_user_sessions S R now (user_id current_user)) (\<lambda>count.
       thenM (log_auth_event c ''token_revoke'' (Some (user_id current_user)) (user_tenant_id current_user)
                [(''count'', JInt count), (''all_tokens'', JBool True)])
         (returnM count))"

definition list_sessions_endpoint ::
  "settings \<Rightarrow> 'r redis \<Rightarrow> datetime \<Rightarrow> user \<Rightarrow> ('r, (string \<times> string) list list) app" where
  "list_sessions_endpoint S R now current_user = list_active_sessions S R now (user_id current_user)"

definition revoke_session_endpoint ::
  "settings \<Rightarrow> 'r redis \<Rightarrow> datetime \<Rightarrow> client \<Rightarrow> string \<Rightarrow> user \<Rightarrow> ('r, unit) app" where
  "revoke_session_endpoint S R now c jti current_user =
     thenM (guardM (jti \<noteq> []) (HTTPException 400 ''jti is required''))
      (bindM (get_session R now (user_id current_user) jti) (\<lambda>session_data.
        case session_data of None \<Rightarrow> raiseM (HTTPException 404 ''Session not found'')
        | Some meta \<Rightarrow>
            bindM (liftM (meta_exp meta)) (\<lambda>ex.
              thenM (revoke_session S R now (user_id current_user) jti ex)
               (thenM (log_auth_event c ''token_revoke'' (Some (user_id current_user))
                         (user_tenant_id current_user) [(''jti'', JStr jti), (''via'', JStr ''sessions/revoke'')])
                 (returnM ())))))"

section \<open>E-mail verification\<close>

definition request_email_verification ::
  "settings \<Rightarrow> jose \<Rightarrow> datetime \<Rightarrow> user \<Rightarrow> ('r, string) app" where
  "request_email_verification S J now current_user =
     thenM (guardM (\<not> user_is_verified current_user) (HTTPException 400 ''Email already verified''))
       (returnM (create_verification_token S J now (user_id current_user)))"

definition verify_email :: "settings \<Rightarrow> jose \<Rightarrow> datetime \<Rightarrow> string \<Rightarrow> ('r, unit) app" where
  "verify_email S J now tok =
     bindM (liftM (decode_verification_token S J (timegm now) tok)) (\<lambda>payload.
     bindM (liftM (sub_of payload)) (\<lambda>sub.
     bindM (liftM (int_exn sub)) (\<lambda>uid.
     bindM (crud_get user_model uid False) (\<lambda>r.
       case r of None \<Rightarrow> raiseM (HTTPException 404 ''User not found'')
       | Some u \<Rightarrow>
           thenM (guardM (\<not> user_is_verified u) (HTTPException 400 ''Email already verified''))
            (thenM (save_user (u\<lparr>user_is_verified := True, user_email_verified_at := Some now\<rparr>)) commit)))))"

section \<open>Managing the second factor\<close>

record totp_setup =
  ts_secret :: string
  ts_uri :: string
  ts_backup_codes :: "string list"

definition to_upper :: "char \<Rightarrow> char" where
  "to_upper c = (let n = of_char c :: nat in if 97 \<le> n \<and> n \<le> 122 then char_of (n - 32) else c)"

definition generate_totp_secret :: "string \<Rightarrow> string" where
  "generate_totp_secret hex = map to_upper hex"

text \<open>\<open>hex i\<close> is the \<open>i\<close>-th random value.\<close>

definition generate_backup_codes :: "settings \<Rightarrow> (nat \<Rightarrow> string) \<Rightarrow> string list" where
  "generate_backup_codes S hex = map (\<lambda>i. map to_upper (hex i)) [0..<nat (TOTP_BACKUP_CODE_COUNT S)]"

definition get_totp_status :: "user \<Rightarrow> ('r, bool \<times> datetime option) app" where
  "get_totp_status current_user = returnM (user_totp_enabled current_user, user_totp_verified_at current_user)"

definition enable_totp ::
  "settings \<Rightarrow> pyotp \<Rightarrow> sha256 \<Rightarrow> string \<Rightarrow> (nat \<Rightarrow> string) \<Rightarrow> user \<Rightarrow> ('r, totp_setup) app" where
  "enable_totp S P sha secret_hex code_hex current_user =
     thenM (guardM (\<not> user_totp_enabled current_user) (HTTPException 400 ''TOTP is already enabled''))
      (let secret = generate_totp_secret secret_hex;
           uri = get_totp_uri S P secret (user_email current_user);
           raw_codes = generate_backup_codes S code_hex;
           hashed_codes = py_join '','' (map (hash_backup_code sha) raw_codes)
       in thenM (save_user (current_user\<lparr>user_totp_secret := Some secret, user_backup_codes := Some hashed_codes,
                   user_totp_enabled := False\<rparr>))
           (thenM commit (returnM \<lparr>ts_secret = secret, ts_uri = uri, ts_backup_codes = raw_codes\<rparr>)))"

definition no_client :: client where
  "no_client = \<lparr>c_ip = None, c_user_agent = None\<rparr>"

definition verify_enable_totp ::
  "settings \<Rightarrow> pyotp \<Rightarrow> datetime \<Rightarrow> string \<Rightarrow> user \<Rightarrow> ('r, unit) app" where
  "verify_enable_totp S P now code current_user =
     thenM (guardM (\<not> user_totp_enabled current_user) (HTTPException 400 ''TOTP is already enabled''))
      (case user_totp_secret current_user of
         Some (x # xs) \<Rightarrow>
           bindM (liftM (verify_totp_code S P now (x # xs) code)) (\<lambda>ok.
             thenM (guardM ok (HTTPException 400 ''Invalid TOTP code''))
              (thenM (save_user (current_user\<lparr>user_totp_enabled := True, user_totp_verified_at := Some now\<rparr>))
                (thenM commit
                  (thenM (log_auth_event no_client ''mfa_enroll'' (Some (user_id current_user))
                            (user_tenant_id current_user) []) (returnM ())))))
       | _ \<Rightarrow> raiseM (HTTPException 400 ''No pending TOTP setup. Call POST /totp/enable first.''))"

definition disable_totp :: "bcrypt \<Rightarrow> string \<Rightarrow> user \<Rightarrow> ('r, unit) app" where
  "disable_totp B password current_user =
     thenM (guardM (user_totp_enabled current_user) (HTTPException 400 ''TOTP is not currently enabled''))
      (bindM (liftM (verify_password B password (user_hashed_password current_user))) (\<lambda>ok.
        thenM (guardM ok (HTTPException 400 ''Invalid password''))
         (thenM (save_user (current_user\<lparr>user_totp_secret := None, user_totp_enabled := False,
                   user_totp_verified_at := None, user_backup_codes := None\<rparr>))
           (thenM commit
             (thenM (log_auth_event no_client ''mfa_disable'' (Some (user_id current_user))
                       (user_tenant_id current_user) []) (returnM ()))))))"

end
