(* ===== verification/UsersApi.thy ===== *)
theory UsersApi
  imports AuthEndpoints
begin

text \<open>
  User management, \<^verbatim>\<open>app/identity/api/endpoints/users.py\<close>. Every handler starts with the permission
  dependency; the read replica is the same database. Cursors are kept decoded. The writers of the export
  formats (\<^verbatim>\<open>csv\<close>, \<^verbatim>\<open>openpyxl\<close>) and the CSV reader are parameters.
\<close>

definition list_users ::
  "string list option \<Rightarrow> user \<Rightarrow> int option \<Rightarrow> int \<Rightarrow> ('r, user cursor_page) app" where
  "list_users scopes current_user cursor sz =
     thenM (permission_checker [''user:read''] scopes current_user)
      (bindM (get_multi_cursor user_model cursor sz False) (\<lambda>(rows, next_cursor).
        returnM (cursor_page_create user_id rows sz)))"

definition list_trashed_users ::
  "string list option \<Rightarrow> user \<Rightarrow> int option \<Rightarrow> int \<Rightarrow> ('r, user cursor_page) app" where
  "list_trashed_users scopes current_user cursor sz =
     thenM (permission_checker [''user:read''] scopes current_user)
      (bindM (get_multi_cursor user_model cursor sz True) (\<lambda>(rows, next_cursor).
        returnM (cursor_page_create user_id rows sz)))"

text \<open>A row of the export without \<^verbatim>\<open>created_at\<close>, which the model of a user leaves out.\<close>

record export_row =
  ex_id :: int
  ex_email :: string
  ex_username :: string
  ex_full_name :: "string option"
  ex_is_active :: bool
  ex_is_verified :: bool

definition export_row_of :: "user \<Rightarrow> export_row" where
  "export_row_of u = \<lparr>ex_id = user_id u, ex_email = user_email u, ex_username = user_username u,
     ex_full_name = user_full_name u, ex_is_active = user_is_active u, ex_is_verified = user_is_verified u\<rparr>"

record export_writers =
  export_to_csv :: "export_row list \<Rightarrow> string"
  export_to_excel :: "export_row list \<Rightarrow> string"

text \<open>The content, the media type and the file name of the answer.\<close>

definition export_users ::
  "export_writers \<Rightarrow> string list option \<Rightarrow> user \<Rightarrow> string \<Rightarrow> ('r, string \<times> string \<times> string) app" where
  "export_users X scopes current_user format =
     thenM (permission_checker [''user:read''] scopes current_user)
      (bindM (get_multi user_model 0 10000 False) (\<lambda>rows.
        let d = map export_row_of rows
        in returnM
             (if format = ''excel''
              then (export_to_excel X d, ''application/vnd.openxmlformats-officedocument.spreadsheetml.sheet'',
                    ''users.xlsx'')
              else (export_to_csv X d, ''text/csv'', ''users.csv''))))"

definition found_user :: "string \<Rightarrow> user option \<Rightarrow> ('r, user) app" where
  "found_user detail r = (case r of None \<Rightarrow> raiseM (HTTPException 404 detail) | Some u \<Rightarrow> returnM u)"

definition get_user :: "string list option \<Rightarrow> user \<Rightarrow> int \<Rightarrow> ('r, user) app" where
  "get_user scopes current_user uid =
     thenM (permission_checker [''user:read''] scopes current_user)
      (bindM (get_with_roles uid) (found_user ''User not found''))"

definition update_user ::
  "bcrypt \<Rightarrow> string \<Rightarrow> string list option \<Rightarrow> user \<Rightarrow> int \<Rightarrow> user_update \<Rightarrow> ('r, user option) app" where
  "update_user B salt scopes current_user uid user_in =
     thenM (permission_checker [''user:write''] scopes current_user)
      (bindM (crud_get user_model uid False) (\<lambda>r.
       bindM (found_user ''User not found'' r) (\<lambda>u.
       bindM (crud_user_update B salt u user_in) (\<lambda>updated. get_with_roles (user_id updated)))))"

definition delete_user :: "datetime \<Rightarrow> string list option \<Rightarrow> user \<Rightarrow> int \<Rightarrow> ('r, unit) app" where
  "delete_user now scopes current_user uid =
     thenM (permission_checker [''user:delete''] scopes current_user)
      (bindM (crud_delete user_model now uid) (\<lambda>r.
        thenM (found_user ''User not found'' r) (returnM ())))"

definition restore_user :: "string list option \<Rightarrow> user \<Rightarrow> int \<Rightarrow> ('r, user option) app" where
  "restore_user scopes current_user uid =
     thenM (permission_checker [''user:delete''] scopes current_user)
      (bindM (crud_restore user_model uid) (\<lambda>r.
       bindM (found_user ''Deleted user not found'' r) (\<lambda>u. get_with_roles (user_id u))))"

definition purge_deleted_users ::
  "datetime \<Rightarrow> string list option \<Rightarrow> user \<Rightarrow> int \<Rightarrow> ('r, int) app" where
  "purge_deleted_users now scopes current_user older_than_days =
     thenM (permission_checker [''user:delete''] scopes current_user)
      (thenM (guardM (user_is_superuser current_user) (HTTPException 403 ''Superuser required''))
        (crud_purge user_model now older_than_days))"

definition bulk_create_users ::
  "bcrypt \<Rightarrow> (nat \<Rightarrow> string) \<Rightarrow> string list option \<Rightarrow> user \<Rightarrow> user_create list \<Rightarrow> ('r, user list) app" where
  "bulk_create_users B salt scopes current_user us =
     thenM (permission_checker [''user:write''] scopes current_user) (crud_user_bulk_create B salt us)"

section \<open>Import from CSV\<close>

text \<open>A row as \<^verbatim>\<open>csv.DictReader\<close> yields it: a short row has \<open>None\<close> in its last fields.\<close>

type_synonym csv_row = "(string \<times> string option) list"

record raw_user =
  raw_email :: "string option"
  raw_username :: "string option"
  raw_password :: "string option"
  raw_full_name :: "string option"

definition csv_field :: "csv_row \<Rightarrow> string \<Rightarrow> exn + string option" where
  "csv_field r k = (case map_of r k of None \<Rightarrow> Inl (KeyError k) | Some v \<Rightarrow> Inr v)"

fun raw_rows :: "csv_row list \<Rightarrow> exn + raw_user list" where
  "raw_rows [] = Inr []"
| "raw_rows (r # rs) =
     (case csv_field r ''email'' of Inl e \<Rightarrow> Inl e
      | Inr em \<Rightarrow> (case csv_field r ''username'' of Inl e \<Rightarrow> Inl e
      | Inr un \<Rightarrow> (case csv_field r ''password'' of Inl e \<Rightarrow> Inl e
      | Inr pw \<Rightarrow> (case raw_rows rs of Inl e \<Rightarrow> Inl e
      | Inr xs \<Rightarrow>
          Inr (\<lparr>raw_email = em, raw_username = un, raw_password = pw,
                raw_full_name = (case map_of r ''full_name'' of None \<Rightarrow> None | Some v \<Rightarrow> v)\<rparr> # xs)))))"

text \<open>The columns of a new row that may not be null; \<open>i\<close> is the row's position.\<close>

definition prepare_row :: "bcrypt \<Rightarrow> (nat \<Rightarrow> string) \<Rightarrow> nat \<times> raw_user \<Rightarrow> user option" where
  "prepare_row B salt = (\<lambda>(i, r).
     case (raw_email r, raw_username r, raw_password r) of
       (Some em, Some un, Some pw) \<Rightarrow> Some (new_user em un (raw_full_name r) (get_password_hash B (salt i) pw))
     | _ \<Rightarrow> None)"

definition import_users_csv ::
  "bcrypt \<Rightarrow> (nat \<Rightarrow> string) \<Rightarrow> (string \<Rightarrow> exn + csv_row list) \<Rightarrow> string list option \<Rightarrow> user \<Rightarrow> string
    \<Rightarrow> ('r, user list) app" where
  "import_users_csv B salt read_csv scopes current_user content =
     thenM (permission_checker [''user:write''] scopes current_user)
      (bindM (liftM (read_csv content)) (\<lambda>reader.
       bindM (liftM (raw_rows reader)) (\<lambda>rows.
         if rows = [] then returnM []
         else
       bindM (select_all users (\<lambda>u. Some (user_email u) \<in> set (map raw_email rows))) (\<lambda>existing.
         let existing_emails = map (\<lambda>u. Some (user_email u)) existing;
             fresh = filter (\<lambda>(i, r). raw_email r \<notin> set existing_emails) (List.enumerate 0 rows);
             orm_objs = List.map_filter (prepare_row B salt) fresh
         in if \<exists>(i, r) \<in> set fresh. raw_password r = None then raiseM (PyTypeError ''expected str'')
            else if fresh = [] then returnM []
            else if length orm_objs < length fresh then raiseM IntegrityError
            else thenM user_inserted (crud_bulk_create user_model orm_objs)))))"

end
