(* ===== verification/Cursor.thy ===== *)
theory Cursor
  imports OAuth
begin

text \<open>
  The opaque cursors of \<^verbatim>\<open>app/utils/pagination.py\<close>: \<^verbatim>\<open>encode_cursor\<close> and \<^verbatim>\<open>decode_cursor\<close>, with the two
  functions of the standard library's \<^verbatim>\<open>base64\<close> that they call. The decoder is lenient, as in Python: characters outside the
  alphabet are skipped, padding ends the text, and a group that is cut short raises. Bytes are numbers
  below 256. The JSON parser is a parameter.
\<close>

section \<open>Base64 with the URL-safe alphabet\<close>

definition b64_alphabet :: string where
  "b64_alphabet = ''ABCDEFGHIJKLMNOPQRSTUVWXYZabcdefghijklmnopqrstuvwxyz0123456789-_''"

definition b64_char :: "nat \<Rightarrow> char" where
  "b64_char n = b64_alphabet ! n"

definition b64_range :: "char \<Rightarrow> char \<Rightarrow> char \<Rightarrow> bool" where
  "b64_range lo hi c \<longleftrightarrow> (of_char lo :: nat) \<le> of_char c \<and> (of_char c :: nat) \<le> of_char hi"

text \<open>
  The decoder's table after \<^verbatim>\<open>urlsafe_b64decode\<close> has replaced \<open>-\<close> and \<open>_\<close> by \<open>+\<close> and \<open>/\<close>; the latter two are
  therefore accepted as they stand.
\<close>

definition b64_val :: "char \<Rightarrow> nat option" where
  "b64_val c =
     (if b64_range CHR ''A'' CHR ''Z'' c then Some (of_char c - 65)
      else if b64_range CHR ''a'' CHR ''z'' c then Some (of_char c - 71)
      else if b64_range CHR ''0'' CHR ''9'' c then Some (of_char c + 4)
      else if c = CHR ''-'' \<or> c = CHR ''+'' then Some 62
      else if c = CHR ''_'' \<or> c = CHR ''/'' then Some 63
      else None)"

fun urlsafe_b64encode :: "nat list \<Rightarrow> string" where
  "urlsafe_b64encode [] = []"
| "urlsafe_b64encode [a] = [b64_char (a div 4), b64_char (a mod 4 * 16), CHR ''='', CHR ''='']"
| "urlsafe_b64encode [a, b] =
     [b64_char (a div 4), b64_char (a mod 4 * 16 + b div 16), b64_char (b mod 16 * 4), CHR ''='']"
| "urlsafe_b64encode (a # b # c # bs) =
     b64_char (a div 4) # b64_char (a mod 4 * 16 + b div 16) # b64_char (b mod 16 * 4 + c div 64) #
     b64_char (c mod 64) # urlsafe_b64encode bs"

text \<open>
  The loop of \<^verbatim>\<open>binascii.a2b_base64\<close>: the position in the current group of four, the bits left over from the last
  character, the number of padding characters seen in a row, and the bytes so far.
\<close>

fun a2b_loop :: "nat \<Rightarrow> nat \<Rightarrow> nat \<Rightarrow> nat list \<Rightarrow> string \<Rightarrow> exn + nat list" where
  "a2b_loop quad left pads out [] =
     (if quad = 0 then Inr out
      else if quad = 1
      then Inl (ValueError ''Invalid base64-encoded string: number of data characters cannot be 1 more than a multiple of 4'')
      else Inl (ValueError ''Incorrect padding''))"
| "a2b_loop quad left pads out (ch # cs) =
     (if ch = CHR ''=''
      then (if 2 \<le> quad then (if 4 \<le> quad + (pads + 1) then Inr out else a2b_loop quad left (pads + 1) out cs)
            else a2b_loop quad left pads out cs)
      else (case b64_val ch of None \<Rightarrow> a2b_loop quad left pads out cs
            | Some v \<Rightarrow>
                if quad = 0 then a2b_loop 1 v 0 out cs
                else if quad = 1 then a2b_loop 2 (v mod 16) 0 (out @ [left * 4 + v div 16]) cs
                else if quad = 2 then a2b_loop 3 (v mod 4) 0 (out @ [left * 16 + v div 4]) cs
                else a2b_loop 0 0 0 (out @ [left * 64 + v]) cs))"

definition urlsafe_b64decode :: "string \<Rightarrow> exn + nat list" where
  "urlsafe_b64decode s = a2b_loop 0 0 0 [] s"

section \<open>Cursors\<close>

text \<open>\<open>int(value)\<close> of a decoded JSON value\<close>

fun int_of_json :: "json \<Rightarrow> exn + int" where
  "int_of_json (JInt i) = Inr i"
| "int_of_json (JBool b) = Inr (if b then 1 else 0)"
| "int_of_json (JFloat x) = Inr (py_trunc x)"
| "int_of_json (JStr s) =
     (case py_int s of None \<Rightarrow> Inl (ValueError ''invalid literal for int()'') | Some i \<Rightarrow> Inr i)"
| "int_of_json JNull = Inl (PyTypeError ''int() argument must be a string or a number'')"
| "int_of_json (JList xs) = Inl (PyTypeError ''int() argument must be a string or a number'')"
| "int_of_json (JObj d) = Inl (PyTypeError ''int() argument must be a string or a number'')"

definition encode_cursor :: "int \<Rightarrow> string" where
  "encode_cursor v = urlsafe_b64encode (map of_char (show_int v))"

definition decode_cursor :: "json_codec \<Rightarrow> string \<Rightarrow> exn + int" where
  "decode_cursor C cursor =
     (case urlsafe_b64decode cursor of Inl e \<Rightarrow> Inl e
      | Inr bs \<Rightarrow> (case json_loads C (map char_of bs) of None \<Rightarrow> Inl (ValueError ''Expecting value'')
                  | Some j \<Rightarrow> int_of_json j))"

section \<open>Decoding inverts encoding\<close>

lemma b64_val_char: "n < 64 \<Longrightarrow> b64_val (b64_char n) = Some n"
proof -
  have "\<forall>n \<in> set [0..<64]. b64_val (b64_char n) = Some n"
    by (simp add: upt_rec b64_val_def b64_char_def b64_alphabet_def b64_range_def)
  then show "n < 64 \<Longrightarrow> b64_val (b64_char n) = Some n" by simp
qed

lemma b64_char_not_pad: "n < 64 \<Longrightarrow> b64_char n \<noteq> CHR ''=''"
  using b64_val_char [of n] by (auto simp: b64_val_def b64_range_def)

lemma a2b_char:
  assumes "n < 64"
  shows "a2b_loop 0 l p out (b64_char n # cs) = a2b_loop 1 n 0 out cs"
    "a2b_loop 1 l p out (b64_char n # cs) = a2b_loop 2 (n mod 16) 0 (out @ [l * 4 + n div 16]) cs"
    "a2b_loop 2 l p out (b64_char n # cs) = a2b_loop 3 (n mod 4) 0 (out @ [l * 16 + n div 4]) cs"
    "a2b_loop 3 l p out (b64_char n # cs) = a2b_loop 0 0 0 (out @ [l * 64 + n]) cs"
  using b64_val_char [OF assms] b64_char_not_pad [OF assms] by simp_all

lemma sextets:
  fixes a b c :: nat
  assumes "a < 256" "b < 256" "c < 256"
  shows "a div 4 < 64" "a mod 4 * 16 < 64" "a mod 4 * 16 + b div 16 < 64" "b mod 16 * 4 < 64"
    "b mod 16 * 4 + c div 64 < 64" "c mod 64 < 64"
proof -
  have "a mod 4 \<le> 3" "b mod 16 \<le> 15" "b div 16 < 16" "c div 64 < 4" "a div 4 < 64"
    using assms by (simp_all add: less_mult_imp_div_less mod_less_eq_dividend less_Suc_eq_le [symmetric])
  then show "a div 4 < 64" "a mod 4 * 16 < 64" "a mod 4 * 16 + b div 16 < 64" "b mod 16 * 4 < 64"
    "b mod 16 * 4 + c div 64 < 64" "c mod 64 < 64" by simp_all
qed

lemma octets:
  fixes a b c :: nat
  assumes "a < 256" "b < 256" "c < 256"
  shows "a div 4 * 4 + a mod 4 * 16 div 16 = a" "a div 4 * 4 + (a mod 4 * 16 + b div 16) div 16 = a"
    "(a mod 4 * 16 + b div 16) mod 16 * 16 + b mod 16 * 4 div 4 = b"
    "(a mod 4 * 16 + b div 16) mod 16 * 16 + (b mod 16 * 4 + c div 64) div 4 = b"
    "(b mod 16 * 4 + c div 64) mod 4 * 64 + c mod 64 = c"
proof -
  have "b div 16 < 16" "c div 64 < 4" using assms by (simp_all add: less_mult_imp_div_less)
  then show "a div 4 * 4 + a mod 4 * 16 div 16 = a" "a div 4 * 4 + (a mod 4 * 16 + b div 16) div 16 = a"
    "(a mod 4 * 16 + b div 16) mod 16 * 16 + b mod 16 * 4 div 4 = b"
    "(a mod 4 * 16 + b div 16) mod 16 * 16 + (b mod 16 * 4 + c div 64) div 4 = b"
    "(b mod 16 * 4 + c div 64) mod 4 * 64 + c mod 64 = c"
    by simp_all
qed

lemma a2b_encoded:
  assumes "\<forall>b \<in> set bs. b < 256"
  shows "a2b_loop 0 l p out (urlsafe_b64encode bs) = Inr (out @ bs)"
  using assms
proof (induction bs arbitrary: l p out rule: urlsafe_b64encode.induct)
  case (2 a)
  then have a: "a < 256" by simp
  note s = sextets [OF a a a]
  show ?case using octets(1) [OF a a a] by (simp only: urlsafe_b64encode.simps a2b_char s) simp
next
  case (3 a b)
  then have ab: "a < 256" "b < 256" by simp_all
  note s = sextets [OF ab ab(2)]
  show ?case using octets [OF ab ab(2)] by (simp only: urlsafe_b64encode.simps a2b_char s) simp
next
  case (4 a b c bs)
  then have abc: "a < 256" "b < 256" "c < 256" by simp_all
  note s = sextets [OF abc]
  show ?case using octets [OF abc] 4 by (simp only: urlsafe_b64encode.simps a2b_char s) simp
qed simp

lemma b64_roundtrip: "\<forall>b \<in> set bs. b < 256 \<Longrightarrow> urlsafe_b64decode (urlsafe_b64encode bs) = Inr bs"
  by (simp add: urlsafe_b64decode_def a2b_encoded)

lemma decode_encode_cursor:
  assumes "json_loads C (show_int v) = Some (JInt v)"
  shows "decode_cursor C (encode_cursor v) = Inr v"
proof -
  have "urlsafe_b64decode (encode_cursor v) = Inr (map of_char (show_int v))"
    unfolding encode_cursor_def by (rule b64_roundtrip) auto
  then show ?thesis using assms by (simp add: decode_cursor_def comp_def)
qed

lemma encode_cursor_nonempty [simp]: "encode_cursor v \<noteq> []"
proof -
  have "urlsafe_b64encode bs = [] \<longleftrightarrow> bs = []" for bs by (cases bs rule: urlsafe_b64encode.cases) simp_all
  then show ?thesis by (simp add: encode_cursor_def show_int_def)
qed

end
