(* ===== verification/Sockets.thy ===== *)
theory Sockets
  imports Crud "HOL-Library.AList"
begin

text \<open>
  \<^verbatim>\<open>app/websocket/manager.py\<close>: the live WebSocket connections of the process.

  The lock regions of the manager (\<open>add_connection\<close>, \<open>drop_connection\<close>, \<open>prune_connections\<close>) are functions on the
  dictionary; sending happens between them, outside the lock. Which sockets still accept a message is a parameter
  \<open>alive\<close>. \<open>conns_rel\<close> is the abstract view, a relation between users and sockets; the dictionary refines it under every
  interleaving of lock regions.
\<close>

section \<open>The dictionary\<close>

type_synonym conns = "(string \<times> socket list) list"

definition sockets_of :: "conns \<Rightarrow> string \<Rightarrow> socket list" where
  "sockets_of cs uid = (case map_of cs uid of None \<Rightarrow> [] | Some xs \<Rightarrow> xs)"

text \<open>\<open>active_connections.setdefault(user_id, set()).add(websocket)\<close>\<close>

definition add_connection :: "socket \<Rightarrow> string \<Rightarrow> conns \<Rightarrow> conns" where
  "add_connection ws uid cs =
     (let xs = sockets_of cs uid in AList.update uid (if ws \<in> set xs then xs else xs @ [ws]) cs)"

text \<open>\<open>discard\<close> each of the sockets, and delete the entry when nothing is left.\<close>

definition discard_all :: "string \<Rightarrow> socket list \<Rightarrow> socket list \<Rightarrow> conns \<Rightarrow> conns" where
  "discard_all uid gone xs cs =
     (let rest = filter (\<lambda>ws. ws \<notin> set gone) xs
      in if rest = [] then AList.delete uid cs else AList.update uid rest cs)"

definition drop_connection :: "socket \<Rightarrow> string \<Rightarrow> conns \<Rightarrow> conns" where
  "drop_connection ws uid cs =
     (case map_of cs uid of None \<Rightarrow> cs | Some xs \<Rightarrow> discard_all uid [ws] xs cs)"

definition prune_connections :: "string \<Rightarrow> socket list \<Rightarrow> conns \<Rightarrow> conns" where
  "prune_connections uid dead cs =
     (if sockets_of cs uid = [] then cs else discard_all uid dead (sockets_of cs uid) cs)"

section \<open>The operations of the manager\<close>

definition ws_connect :: "socket \<Rightarrow> string \<Rightarrow> ('r, unit) app" where
  "ws_connect ws uid = modifyM (\<lambda>w. w\<lparr>w_conns := add_connection ws uid (w_conns w)\<rparr>)"

definition ws_disconnect :: "socket \<Rightarrow> string \<Rightarrow> ('r, unit) app" where
  "ws_disconnect ws uid = modifyM (\<lambda>w. w\<lparr>w_conns := drop_connection ws uid (w_conns w)\<rparr>)"

definition send_text :: "(socket \<Rightarrow> bool) \<Rightarrow> string \<Rightarrow> socket \<Rightarrow> ('r, unit) app" where
  "send_text alive message ws =
     (if alive ws then modifyM (\<lambda>w. w\<lparr>w_outbox := w_outbox w @ [(ws, message)]\<rparr>)
      else raiseM (ServiceError ''WebSocket is not connected''))"

text \<open>The loop that sends to a snapshot of the connections and collects those that failed.\<close>

fun send_each :: "(socket \<Rightarrow> bool) \<Rightarrow> string \<Rightarrow> (string \<times> socket) list \<Rightarrow> ('r, (string \<times> socket) list) app" where
  "send_each alive message [] = returnM []"
| "send_each alive message ((uid, ws) # cs) =
     bindM (tryM (thenM (send_text alive message ws) (returnM [])) (\<lambda>_. returnM [(uid, ws)])) (\<lambda>dead.
       bindM (send_each alive message cs) (\<lambda>rest. returnM (dead @ rest)))"

definition send_personal_message :: "(socket \<Rightarrow> bool) \<Rightarrow> string \<Rightarrow> string \<Rightarrow> ('r, unit) app" where
  "send_personal_message alive message uid =
     bindM (getsM (\<lambda>w. map (Pair uid) (sockets_of (w_conns w) uid))) (\<lambda>connections.
       bindM (send_each alive message connections) (\<lambda>dead.
         if dead = [] then returnM ()
         else modifyM (\<lambda>w. w\<lparr>w_conns := prune_connections uid (map snd dead) (w_conns w)\<rparr>)))"

definition broadcast :: "(socket \<Rightarrow> bool) \<Rightarrow> string \<Rightarrow> ('r, unit) app" where
  "broadcast alive message =
     bindM (getsM (\<lambda>w. concat (map (\<lambda>(uid, xs). map (Pair uid) xs) (w_conns w)))) (\<lambda>targets.
       bindM (send_each alive message targets) (\<lambda>dead.
         if dead = [] then returnM ()
         else modifyM (\<lambda>w. w\<lparr>w_conns := fold (\<lambda>(uid, ws). prune_connections uid [ws]) dead (w_conns w)\<rparr>)))"

section \<open>The abstract view\<close>

definition conns_rel :: "conns \<Rightarrow> (string \<times> socket) set" where
  "conns_rel cs = {(uid, ws). ws \<in> set (sockets_of cs uid)}"

text \<open>No user is listed twice or without a socket, and no socket twice for a user.\<close>

definition conns_ok :: "conns \<Rightarrow> bool" where
  "conns_ok cs \<longleftrightarrow> distinct (map fst cs) \<and> (\<forall>(uid, xs) \<in> set cs. xs \<noteq> [] \<and> distinct xs)"

lemma sockets_of_update [simp]: "sockets_of (AList.update k v cs) u = (if u = k then v else sockets_of cs u)"
  by (simp add: sockets_of_def update_conv)

lemma sockets_of_delete [simp]: "sockets_of (AList.delete k cs) u = (if u = k then [] else sockets_of cs u)"
  by (simp add: sockets_of_def delete_conv)

lemma conns_ok_entry: "conns_ok cs \<Longrightarrow> map_of cs uid = Some xs \<Longrightarrow> xs \<noteq> [] \<and> distinct xs"
  unfolding conns_ok_def by (auto dest!: map_of_SomeD)

lemma sockets_of_distinct: "conns_ok cs \<Longrightarrow> distinct (sockets_of cs uid)"
  using conns_ok_entry by (auto simp: sockets_of_def split: option.splits)

lemma set_update_entry: "(u, ys) \<in> set (AList.update k v cs) \<Longrightarrow> (u = k \<and> ys = v) \<or> (u, ys) \<in> set cs"
  by (induction cs) (auto split: if_splits)

lemma conns_ok_update: "conns_ok cs \<Longrightarrow> v \<noteq> [] \<Longrightarrow> distinct v \<Longrightarrow> conns_ok (AList.update k v cs)"
  by (auto simp: conns_ok_def distinct_update dest!: set_update_entry)

lemma conns_ok_delete: "conns_ok cs \<Longrightarrow> conns_ok (AList.delete k cs)"
  by (auto simp: conns_ok_def AList.delete_eq distinct_map_filter)

lemma discard_all_ok: "conns_ok cs \<Longrightarrow> distinct xs \<Longrightarrow> conns_ok (discard_all uid gone xs cs)"
  by (auto simp: discard_all_def Let_def intro: conns_ok_delete conns_ok_update)

lemma discard_all_rel:
  "sockets_of cs uid = xs \<Longrightarrow> conns_rel (discard_all uid gone xs cs) = conns_rel cs - {uid} \<times> set gone"
  by (auto simp: conns_rel_def discard_all_def Let_def filter_empty_conv split: if_splits)

lemma add_connection_ok: "conns_ok cs \<Longrightarrow> conns_ok (add_connection ws uid cs)"
  using sockets_of_distinct [of cs uid]
  by (auto simp: add_connection_def Let_def intro!: conns_ok_update split: if_splits)

lemma drop_connection_ok: "conns_ok cs \<Longrightarrow> conns_ok (drop_connection ws uid cs)"
  using conns_ok_entry [of cs uid] by (auto simp: drop_connection_def intro!: discard_all_ok split: option.splits)

lemma prune_connections_ok: "conns_ok cs \<Longrightarrow> conns_ok (prune_connections uid dead cs)"
  using sockets_of_distinct [of cs uid] by (simp add: prune_connections_def discard_all_ok)

lemma add_connection_rel: "conns_rel (add_connection ws uid cs) = insert (uid, ws) (conns_rel cs)"
  by (auto simp: conns_rel_def add_connection_def Let_def split: if_splits)

lemma drop_connection_rel: "conns_rel (drop_connection ws uid cs) = conns_rel cs - {(uid, ws)}"
proof (cases "map_of cs uid")
  case None
  then show ?thesis by (auto simp: drop_connection_def conns_rel_def sockets_of_def)
next
  case (Some xs)
  then show ?thesis using discard_all_rel [of cs uid xs "[ws]"] by (simp add: drop_connection_def sockets_of_def)
qed

lemma prune_connections_rel: "conns_rel (prune_connections uid dead cs) = conns_rel cs - {uid} \<times> set dead"
proof (cases "sockets_of cs uid")
  case Nil
  then show ?thesis by (auto simp: prune_connections_def conns_rel_def)
qed (simp add: prune_connections_def discard_all_rel)

lemmas conns_ops_ok = add_connection_ok drop_connection_ok prune_connections_ok
lemmas conns_ops_rel = add_connection_rel drop_connection_rel prune_connections_rel

section \<open>Sending\<close>

lemma send_each_run:
  "send_each alive message cs w =
     (Inr (filter (\<lambda>(_, ws). \<not> alive ws) cs),
      w\<lparr>w_outbox := w_outbox w @ map (\<lambda>(_, ws). (ws, message)) (filter (\<lambda>(_, ws). alive ws) cs)\<rparr>)"
proof (induction alive message cs arbitrary: w rule: send_each.induct)
  case (2 alive message uid ws cs)
  show ?case
  proof (cases "alive ws")
    case True
    then have "tryM (thenM (send_text alive message ws) (returnM [])) (\<lambda>_. returnM [(uid, ws)]) w =
      (Inr [], w\<lparr>w_outbox := w_outbox w @ [(ws, message)]\<rparr>)" by (simp add: send_text_def)
    then show ?thesis using True by (simp add: 2)
  next
    case False
    then have "tryM (thenM (send_text alive message ws) (returnM [])) (\<lambda>_. returnM [(uid, ws)]) w = (Inr [(uid, ws)], w)"
      by (simp add: send_text_def)
    then show ?thesis using False by (simp add: 2)
  qed
qed simp

lemma personal_run:
  "send_personal_message alive message uid w =
     (Inr (), w\<lparr>w_outbox := w_outbox w @ map (\<lambda>ws. (ws, message)) (filter alive (sockets_of (w_conns w) uid)),
               w_conns := (if list_all alive (sockets_of (w_conns w) uid) then w_conns w
                           else prune_connections uid (filter (\<lambda>ws. \<not> alive ws) (sockets_of (w_conns w) uid)) (w_conns w))\<rparr>)"
proof -
  have "filter (\<lambda>(_, ws). \<not> alive ws) (map (Pair uid) xs) = map (Pair uid) (filter (\<lambda>ws. \<not> alive ws) xs)"
    "map (\<lambda>(_, ws). (ws, message)) (filter (\<lambda>(_, ws). alive ws) (map (Pair uid) xs)) =
      map (\<lambda>ws. (ws, message)) (filter alive xs)" for xs
    by (induction xs) auto
  moreover have "(filter (\<lambda>ws. \<not> alive ws) xs = []) = list_all alive xs" for xs by (induction xs) auto
  ultimately show ?thesis by (simp add: send_personal_message_def send_each_run comp_def)
qed

lemma personal_total: "\<exists>w'. send_personal_message alive message uid w = (Inr (), w')"
  by (simp add: personal_run)

section \<open>Properties\<close>

text \<open>The lock regions as operations of their own, for an arbitrary interleaving of tasks.\<close>

datatype conn_op = Connect socket string | Disconnect socket string | Prune string "socket list"

fun run_op :: "conn_op \<Rightarrow> conns \<Rightarrow> conns" where
  "run_op (Connect ws uid) cs = add_connection ws uid cs"
| "run_op (Disconnect ws uid) cs = drop_connection ws uid cs"
| "run_op (Prune uid dead) cs = prune_connections uid dead cs"

fun abs_op :: "conn_op \<Rightarrow> (string \<times> socket) set \<Rightarrow> (string \<times> socket) set" where
  "abs_op (Connect ws uid) r = insert (uid, ws) r"
| "abs_op (Disconnect ws uid) r = r - {(uid, ws)}"
| "abs_op (Prune uid dead) r = r - {uid} \<times> set dead"

text \<open>
  C32: The connection manager refines a relation between users and sockets. Whatever the interleaving of the lock regions
  of connecting, disconnecting and sending tasks, starting without connections, the dictionary stands for exactly
  the relation that the same operations build, lists no user without a socket and no socket twice; in particular
  a socket that connects while a message is being sent is not lost.
\<close>

theorem manager_refines_relation:
  "conns_rel (fold run_op ops []) = fold abs_op ops {} \<and> conns_ok (fold run_op ops [])"
proof -
  have step: "conns_rel (run_op a cs) = abs_op a (conns_rel cs)" "conns_ok cs \<Longrightarrow> conns_ok (run_op a cs)" for a cs
    by (cases a; simp add: conns_ops_rel conns_ops_ok)+
  have "conns_rel (fold run_op ops cs) = fold abs_op ops (conns_rel cs)" for cs
    by (induction ops arbitrary: cs) (simp_all add: step)
  moreover have "conns_ok cs \<Longrightarrow> conns_ok (fold run_op ops cs)" for cs
    by (induction ops arbitrary: cs) (simp_all add: step)
  moreover have "conns_rel [] = {}" "conns_ok []" by (simp_all add: conns_rel_def sockets_of_def conns_ok_def)
  ultimately show ?thesis by metis
qed

text \<open>
  Delivery. A message to a user is sent once on each of the user's sockets that accepts it, the sockets
  that fail are forgotten, and every other connection stays.
\<close>

theorem personal_message_spec:
  assumes "conns_ok (w_conns w)"
  shows "\<exists>w'. send_personal_message alive message uid w = (Inr (), w') \<and>
    w_outbox w' = w_outbox w @ map (\<lambda>ws. (ws, message)) (filter alive (sockets_of (w_conns w) uid)) \<and>
    conns_rel (w_conns w') = {(u, ws) \<in> conns_rel (w_conns w). u = uid \<longrightarrow> alive ws} \<and> conns_ok (w_conns w')"
  using assms prune_connections_rel [of uid _ "w_conns w"]
  by (auto simp: personal_run prune_connections_ok conns_rel_def list_all_iff)

theorem personal_message_spec_witness:
  "\<exists>w'. send_personal_message (\<lambda>ws. ws = 1) ''hi'' ''7'' (sample_world\<lparr>w_conns := [(''7'', [1, 2])]\<rparr>) = (Inr (), w') \<and>
    w_outbox w' = [(1, ''hi'')]"
  using personal_message_spec [of "sample_world\<lparr>w_conns := [(''7'', [1, 2])]\<rparr>" "\<lambda>ws. ws = 1" "''hi''" "''7''"]
  by (auto simp: conns_ok_def sockets_of_def sample_world_def)

end
