(* ===== verification/Notifications.thy ===== *)
theory Notifications
  imports Cursor Sockets
begin

text \<open>
  Notifications: preferences and inbox (\<^verbatim>\<open>app/notifications/crud/notification.py\<close>), the dispatch of events to channels
  (\<^verbatim>\<open>app/notifications/services/notifications.py\<close>) and the endpoints
  (\<^verbatim>\<open>app/notifications/api/endpoints/notifications.py\<close>).

  Events that handlers receive were completed by the bus: \<open>event_id\<close> reads the id. A field of an update schema is
  \<open>None\<close> when the request leaves it out, \<open>Some None\<close> when it is an explicit null and \<open>Some (Some v)\<close> otherwise.
  The mail broker and the sockets that still accept messages are parameters.
\<close>

section \<open>Preferences\<close>

datatype channel = Email | In_app | Webhook_channel

definition npf_get_for_user :: "int \<Rightarrow> ('r, notification_preference option) app" where
  "npf_get_for_user uid = select_one preferences (\<lambda>p. npf_user_id p = uid)"

definition new_preference :: "int \<Rightarrow> notification_preference" where
  "new_preference uid = \<lparr>npf_id = 0, npf_user_id = uid, npf_email_enabled = True, npf_in_app_enabled = True,
     npf_webhook_enabled = True\<rparr>"

definition npf_get_or_create :: "int \<Rightarrow> ('r, notification_preference) app" where
  "npf_get_or_create uid =
     bindM (npf_get_for_user uid) (\<lambda>r.
       case r of Some pref \<Rightarrow> returnM pref
       | None \<Rightarrow> bindM (add_preference (new_preference uid)) (\<lambda>pref. thenM commit (returnM pref)))"

record preference_update =
  pu_email_enabled :: "bool option option"
  pu_in_app_enabled :: "bool option option"
  pu_webhook_enabled :: "bool option option"

definition set_opt :: "bool option option \<Rightarrow> (bool \<Rightarrow> 'a \<Rightarrow> 'a) \<Rightarrow> 'a \<Rightarrow> 'a" where
  "set_opt v f x = (case v of Some (Some b) \<Rightarrow> f b x | _ \<Rightarrow> x)"

definition apply_preference_update :: "preference_update \<Rightarrow> notification_preference \<Rightarrow> notification_preference" where
  "apply_preference_update o' p =
     set_opt (pu_webhook_enabled o') (\<lambda>b x. x\<lparr>npf_webhook_enabled := b\<rparr>)
      (set_opt (pu_in_app_enabled o') (\<lambda>b x. x\<lparr>npf_in_app_enabled := b\<rparr>)
        (set_opt (pu_email_enabled o') (\<lambda>b x. x\<lparr>npf_email_enabled := b\<rparr>) p))"

text \<open>An explicit null reaches a column that is not nullable and fails at the commit.\<close>

definition npf_update_for_user :: "int \<Rightarrow> preference_update \<Rightarrow> ('r, notification_preference) app" where
  "npf_update_for_user uid o' =
     bindM (npf_get_or_create uid) (\<lambda>pref.
       let fields = [pu_email_enabled o', pu_in_app_enabled o', pu_webhook_enabled o']
       in if list_all (\<lambda>v. v = None) fields then returnM pref
          else thenM (guardM (Some None \<notin> set fields) IntegrityError)
            (let pref' = apply_preference_update o' pref
             in thenM (save_preference pref') (thenM commit (returnM pref'))))"

section \<open>The inbox\<close>

definition ntf_create_for_user :: "int \<Rightarrow> string \<Rightarrow> string \<Rightarrow> string option \<Rightarrow> ('r, notification) app" where
  "ntf_create_for_user uid event_type title body =
     bindM (add_notification \<lparr>ntf_id = 0, ntf_user_id = uid, ntf_event_type = event_type, ntf_title = title,
              ntf_body = body, ntf_is_read = False, ntf_read_at = None, ntf_deleted_at = None\<rparr>)
       (\<lambda>n. thenM commit (returnM n))"

definition ntf_get_for_user :: "int \<Rightarrow> int \<Rightarrow> ('r, notification option) app" where
  "ntf_get_for_user notification_id uid =
     select_one notifications (\<lambda>n. ntf_id n = notification_id \<and> ntf_user_id n = uid)"

definition ntf_list_for_user :: "int \<Rightarrow> int \<Rightarrow> int \<Rightarrow> bool \<Rightarrow> ('r, notification list) app" where
  "ntf_list_for_user uid skip lmt unread_only =
     bindM (select_all notifications (\<lambda>n. ntf_user_id n = uid \<and> (unread_only \<longrightarrow> \<not> ntf_is_read n)))
       (\<lambda>rs. returnM (limit_rows lmt (offset_rows skip (order_desc ntf_id rs))))"

definition list_for_user_cursor :: "int \<Rightarrow> int option \<Rightarrow> int \<Rightarrow> bool \<Rightarrow> ('r, notification list) app" where
  "list_for_user_cursor uid cursor sz unread_only =
     bindM (select_all notifications (\<lambda>n. ntf_user_id n = uid \<and>
              (case cursor of None \<Rightarrow> True | Some c \<Rightarrow> ntf_id n < c) \<and> (unread_only \<longrightarrow> \<not> ntf_is_read n)))
       (\<lambda>rs. returnM (limit_rows (sz + 1) (order_desc ntf_id rs)))"

definition count_for_user :: "int \<Rightarrow> ('r, int) app" where
  "count_for_user uid =
     bindM (select_all notifications (\<lambda>n. ntf_user_id n = uid)) (\<lambda>rs. returnM (int (length rs)))"

definition count_unread :: "int \<Rightarrow> ('r, int) app" where
  "count_unread uid =
     bindM (select_all notifications (\<lambda>n. ntf_user_id n = uid \<and> \<not> ntf_is_read n)) (\<lambda>rs. returnM (int (length rs)))"

definition ntf_mark_read :: "datetime \<Rightarrow> notification \<Rightarrow> ('r, notification) app" where
  "ntf_mark_read now n =
     (if ntf_is_read n then returnM n
      else let n' = n\<lparr>ntf_is_read := True, ntf_read_at := Some now\<rparr>
           in thenM (save_notification n') (thenM commit (returnM n')))"

text \<open>\<open>UPDATE notifications SET is_read = true, read_at = now WHERE user_id = .. AND NOT is_read\<close>\<close>

definition read_all_rows :: "datetime \<Rightarrow> int \<Rightarrow> notification table \<Rightarrow> notification table" where
  "read_all_rows now uid t = t\<lparr>t_rows := map (\<lambda>n. if ntf_user_id n = uid \<and> \<not> ntf_is_read n
     then n\<lparr>ntf_is_read := True, ntf_read_at := Some now\<rparr> else n) (t_rows t)\<rparr>"

definition ntf_mark_all_read :: "datetime \<Rightarrow> int \<Rightarrow> ('r, int) app" where
  "ntf_mark_all_read now uid =
     bindM (getsM (\<lambda>w. int (length (select_where (\<lambda>n. ntf_user_id n = uid \<and> \<not> ntf_is_read n) (notifications (w_db w))))))
       (\<lambda>rowcount.
         thenM (modifyM (\<lambda>w. w\<lparr>w_db := notifications_update (read_all_rows now uid) (w_db w)\<rparr>))
          (thenM commit (returnM rowcount)))"

section \<open>Dispatch\<close>

definition event_id :: "event \<Rightarrow> string" where
  "event_id e = (case ev_id e of None \<Rightarrow> [] | Some i \<Rightarrow> i)"

fun channel_enabled_for_preference :: "notification_preference \<Rightarrow> channel \<Rightarrow> bool" where
  "channel_enabled_for_preference pref Email = npf_email_enabled pref"
| "channel_enabled_for_preference pref In_app = npf_in_app_enabled pref"
| "channel_enabled_for_preference pref Webhook_channel = npf_webhook_enabled pref"

definition channel_enabled :: "int \<Rightarrow> channel \<Rightarrow> ('r, bool) app" where
  "channel_enabled uid ch =
     bindM (npf_get_for_user uid) (\<lambda>r.
       case r of None \<Rightarrow> returnM True | Some pref \<Rightarrow> returnM (channel_enabled_for_preference pref ch))"

definition payload_str :: "(json \<Rightarrow> string) \<Rightarrow> (string \<times> json) list \<Rightarrow> string \<Rightarrow> string \<Rightarrow> string" where
  "payload_str repr payload key dflt = (case jget payload key of JNull \<Rightarrow> dflt | v \<Rightarrow> py_str repr v)"

text \<open>\<open>body_value if isinstance(body_value, str) else None\<close>\<close>

definition body_of :: "event \<Rightarrow> string option" where
  "body_of e = (case jget (ev_payload e) ''body'' of JStr s \<Rightarrow> Some s | _ \<Rightarrow> None)"

definition push_message :: "event \<Rightarrow> string \<Rightarrow> string option \<Rightarrow> json" where
  "push_message e title body =
     JObj [(''type'', JStr ''notification''),
           (''notification'', JObj [(''id'', JStr (event_id e)), (''event_type'', JStr (ev_type e)),
             (''title'', JStr title), (''body'', case body of None \<Rightarrow> JNull | Some b \<Rightarrow> JStr b)])]"

definition push_websocket ::
  "json_codec \<Rightarrow> (socket \<Rightarrow> bool) \<Rightarrow> int \<Rightarrow> event \<Rightarrow> string \<Rightarrow> string option \<Rightarrow> ('r, unit) app" where
  "push_websocket C alive uid e title body =
     tryM (send_personal_message alive (json_dumps C (push_message e title body)) (show_int uid)) (\<lambda>_. returnM ())"

definition create_in_app ::
  "json_codec \<Rightarrow> (json \<Rightarrow> string) \<Rightarrow> (socket \<Rightarrow> bool) \<Rightarrow> int \<Rightarrow> event \<Rightarrow> ('r, unit) app" where
  "create_in_app C repr alive uid e =
     bindM (ntf_create_for_user uid (ev_type e) (payload_str repr (ev_payload e) ''title'' (ev_type e)) (body_of e))
       (\<lambda>n. push_websocket C alive uid e (ntf_title n) (ntf_body n))"

definition notification_mail :: "(json \<Rightarrow> string) \<Rightarrow> string \<Rightarrow> event \<Rightarrow> task" where
  "notification_mail repr address e =
     (let title = payload_str repr (ev_payload e) ''title'' (''New '' @ ev_type e @ '' notification'');
          context = [(''title'', JStr title), (''event_type'', JStr (ev_type e))] @
            (case body_of e of None \<Rightarrow> [] | Some b \<Rightarrow> [(''body'', JStr b)])
      in Send_email address title ''notification.html'' context)"

definition dispatch_email :: "(json \<Rightarrow> string) \<Rightarrow> broker \<Rightarrow> int \<Rightarrow> event \<Rightarrow> ('r, unit) app" where
  "dispatch_email repr broker uid e =
     bindM (crud_get user_model uid False) (\<lambda>r.
       case r of None \<Rightarrow> returnM ()
       | Some u \<Rightarrow>
           if user_email u = [] then returnM ()
           else tryM (delay broker (notification_mail repr (user_email u) e)) (\<lambda>_. returnM ()))"

definition handle_notification_event ::
  "settings \<Rightarrow> json_codec \<Rightarrow> (json \<Rightarrow> string) \<Rightarrow> (socket \<Rightarrow> bool) \<Rightarrow> broker \<Rightarrow> event \<Rightarrow> ('r, unit) app" where
  "handle_notification_event S C repr alive broker e =
     (if \<not> NOTIFICATION_ENABLED S then returnM ()
      else case ev_user_id e of None \<Rightarrow> returnM ()
      | Some uid \<Rightarrow>
          tryM (with_session
            (bindM (channel_enabled uid In_app) (\<lambda>in_app.
              thenM (if in_app then create_in_app C repr alive uid e else returnM ())
               (bindM (channel_enabled uid Email) (\<lambda>email.
                 if email then dispatch_email repr broker uid e else returnM ())))))
           (\<lambda>_. returnM ()))"

section \<open>Endpoints\<close>

definition get_preferences :: "user \<Rightarrow> ('r, notification_preference) app" where
  "get_preferences current_user = npf_get_or_create (user_id current_user)"

definition update_preferences :: "preference_update \<Rightarrow> user \<Rightarrow> ('r, notification_preference) app" where
  "update_preferences obj_in current_user = npf_update_for_user (user_id current_user) obj_in"

record cursor_params =
  crp_cursor :: "string option"
  crp_size :: int

definition cursor_params_valid :: "cursor_params \<Rightarrow> bool" where
  "cursor_params_valid p \<longleftrightarrow> 1 \<le> crp_size p \<and> crp_size p \<le> 100"

record notification_page =
  ncr_items :: "notification list"
  ncr_next_cursor :: "string option"
  ncr_has_more :: bool
  ncr_size :: int
  ncr_unread_count :: int

definition list_notifications :: "json_codec \<Rightarrow> cursor_params \<Rightarrow> bool \<Rightarrow> user \<Rightarrow> ('r, notification_page) app" where
  "list_notifications C params unread_only current_user =
     bindM (case crp_cursor params of Some (c # cs) \<Rightarrow> bindM (liftM (decode_cursor C (c # cs))) (\<lambda>i. returnM (Some i))
            | _ \<Rightarrow> returnM None) (\<lambda>cursor.
       bindM (list_for_user_cursor (user_id current_user) cursor (crp_size params) unread_only) (\<lambda>items.
         let has_more = (int (length items) > crp_size params);
             shown = take (nat (crp_size params)) items;
             next_cursor = (if has_more \<and> shown \<noteq> [] then Some (encode_cursor (ntf_id (last shown))) else None)
         in bindM (count_unread (user_id current_user)) (\<lambda>unread_count.
              returnM \<lparr>ncr_items = shown, ncr_next_cursor = next_cursor, ncr_has_more = has_more,
                ncr_size = int (length shown), ncr_unread_count = unread_count\<rparr>)))"

definition get_owned_notification :: "notification option \<Rightarrow> ('r, notification) app" where
  "get_owned_notification r =
     (case r of None \<Rightarrow> raiseM (HTTPException 404 ''Notification not found'') | Some n \<Rightarrow> returnM n)"

definition mark_read :: "datetime \<Rightarrow> int \<Rightarrow> user \<Rightarrow> ('r, notification) app" where
  "mark_read now notification_id current_user =
     bindM (ntf_get_for_user notification_id (user_id current_user)) (\<lambda>r.
       bindM (get_owned_notification r) (ntf_mark_read now))"

definition mark_all_read :: "datetime \<Rightarrow> user \<Rightarrow> ('r, int) app" where
  "mark_all_read now current_user = ntf_mark_all_read now (user_id current_user)"

definition delete_notification :: "datetime \<Rightarrow> int \<Rightarrow> user \<Rightarrow> ('r, unit) app" where
  "delete_notification now notification_id current_user =
     bindM (ntf_get_for_user notification_id (user_id current_user)) (\<lambda>r.
       thenM (get_owned_notification r)
        (thenM (crud_delete notification_model now notification_id) (returnM ())))"

definition restore_notification :: "int \<Rightarrow> user \<Rightarrow> ('r, notification option) app" where
  "restore_notification notification_id current_user =
     bindM (crud_restore notification_model notification_id) (\<lambda>r.
       thenM (get_owned_notification r) (returnM r))"

definition send_test_notification :: "bus \<Rightarrow> string \<Rightarrow> string option \<Rightarrow> user \<Rightarrow> ('r, event) app" where
  "send_test_notification bus title body current_user =
     (let event = mk_event ''notification.test''
            [(''title'', JStr title), (''body'', case body of None \<Rightarrow> JNull | Some b \<Rightarrow> JStr b)]
            (Some (user_id current_user))
      in thenM (publish bus event) (returnM event))"

section \<open>Preferences decide\<close>

text \<open>No stored preference of the user turns the channel off.\<close>

definition wants :: "db \<Rightarrow> int \<Rightarrow> channel \<Rightarrow> bool" where
  "wants d uid ch \<longleftrightarrow>
     list_all (\<lambda>p. npf_user_id p = uid \<longrightarrow>
         (case ch of Email \<Rightarrow> npf_email_enabled p | In_app \<Rightarrow> npf_in_app_enabled p | Webhook_channel \<Rightarrow> npf_webhook_enabled p))
       (t_rows (preferences d))"

lemma enabled_by_field:
  "channel_enabled_for_preference p ch =
    (case ch of Email \<Rightarrow> npf_email_enabled p | In_app \<Rightarrow> npf_in_app_enabled p | Webhook_channel \<Rightarrow> npf_webhook_enabled p)"
  by (cases ch) simp_all

lemma preference_rows:
  assumes "unique_on (\<lambda>p. Some (npf_user_id p)) t"
  shows "(\<exists>p. select_where (\<lambda>p. npf_user_id p = uid) t = [p]) \<or> select_where (\<lambda>p. npf_user_id p = uid) t = []"
proof -
  let ?rs = "select_where (\<lambda>p. npf_user_id p = uid) t"
  have "distinct (map npf_user_id (t_rows t))"
    using assms by (simp add: unique_on_def List.map_filter_def comp_def)
  then have d: "distinct (map npf_user_id ?rs)" by (simp add: select_where_def distinct_map_filter)
  have uid: "\<forall>p \<in> set ?rs. npf_user_id p = uid" by (simp add: select_where_def)
  show ?thesis
  proof (cases ?rs)
    case (Cons p ps)
    then have "ps = []" using d uid by (cases ps) auto
    then show ?thesis using Cons by blast
  qed simp
qed

lemma channel_enabled_run:
  assumes "db_unique (w_db w)"
  shows "channel_enabled uid ch w = (Inr (wants (w_db w) uid ch), w)"
proof -
  have wants: "wants (w_db w) uid ch = list_all (\<lambda>p. channel_enabled_for_preference p ch)
      (select_where (\<lambda>p. npf_user_id p = uid) (preferences (w_db w)))"
    by (auto simp: wants_def enabled_by_field select_where_def list_all_iff)
  have "unique_on (\<lambda>p. Some (npf_user_id p)) (preferences (w_db w))" using assms by (simp add: db_unique_def)
  from preference_rows [OF this, of uid] show ?thesis unfolding wants
    by (auto simp: channel_enabled_def npf_get_for_user_def)
qed

section \<open>Walking the inbox\<close>

definition inbox :: "db \<Rightarrow> int \<Rightarrow> bool \<Rightarrow> notification list" where
  "inbox d uid unread_only =
     order_desc ntf_id (filter (\<lambda>n. ntf_user_id n = uid \<and> (unread_only \<longrightarrow> \<not> ntf_is_read n)) (t_rows (notifications d)))"

text \<open>A client that follows the cursors, for at most the given number of pages.\<close>

fun walk_inbox ::
  "json_codec \<Rightarrow> int \<Rightarrow> bool \<Rightarrow> user \<Rightarrow> nat \<Rightarrow> string option \<Rightarrow> ('r, notification list) app" where
  "walk_inbox C sz unread_only u 0 cursor = returnM []"
| "walk_inbox C sz unread_only u (Suc n) cursor =
     bindM (list_notifications C \<lparr>crp_cursor = cursor, crp_size = sz\<rparr> unread_only u) (\<lambda>pg.
       case ncr_next_cursor pg of None \<Rightarrow> returnM (ncr_items pg)
       | Some c \<Rightarrow> bindM (walk_inbox C sz unread_only u n (Some c)) (\<lambda>rest. returnM (ncr_items pg @ rest)))"

definition cursor_at :: "notification list \<Rightarrow> nat \<Rightarrow> string option" where
  "cursor_at xs k = (if k = 0 then None else Some (encode_cursor (ntf_id (xs ! (k - 1)))))"

lemma inbox_sorted:
  assumes "table_wf ntf_id (notifications d)"
  shows "sorted (map (\<lambda>n. - ntf_id n) (inbox d uid b))" "distinct (map (\<lambda>n. - ntf_id n) (inbox d uid b))"
proof -
  show "sorted (map (\<lambda>n. - ntf_id n) (inbox d uid b))" by (simp add: inbox_def order_desc_def)
  have "distinct (map ntf_id (filter P (t_rows (notifications d))))" for P
    using assms by (simp add: table_wf_def distinct_map_filter)
  then have "distinct (map ntf_id (inbox d uid b))" by (simp add: inbox_def order_desc_def distinct_map)
  then show "distinct (map (\<lambda>n. - ntf_id n) (inbox d uid b))" by (auto simp: distinct_map inj_on_def)
qed

text \<open>The query behind a page reads the inbox from a position on.\<close>

lemma list_from:
  assumes "table_wf ntf_id (notifications (w_db w))" "k \<le> length (inbox (w_db w) uid b)"
    and "c = (if k = 0 then None else Some (ntf_id (inbox (w_db w) uid b ! (k - 1))))"
  shows "list_for_user_cursor uid c sz b w = (Inr (take (nat (sz + 1)) (drop k (inbox (w_db w) uid b))), w)"
proof (cases k)
  case 0
  then show ?thesis using assms(3)
    by (simp add: list_for_user_cursor_def inbox_def limit_rows_def select_where_def)
next
  case (Suc j)
  let ?xs = "inbox (w_db w) uid b"
  have j: "j < length ?xs" using assms(2) Suc by simp
  have "filter (\<lambda>n. ntf_id n < ntf_id (?xs ! j)) ?xs = drop (Suc j) ?xs"
    using filter_beyond [OF inbox_sorted [OF assms(1)] j] by simp
  moreover have "filter (\<lambda>n. ntf_id n < c) ?xs = order_desc ntf_id (filter (\<lambda>n. ntf_user_id n = uid \<and> ntf_id n < c \<and>
      (b \<longrightarrow> \<not> ntf_is_read n)) (t_rows (notifications (w_db w))))" for c
    by (simp add: inbox_def order_desc_def filter_sort) (metis (mono_tags, lifting))
  ultimately show ?thesis using assms(3) Suc
    by (simp add: list_for_user_cursor_def limit_rows_def select_where_def)
qed

lemma page_from:
  assumes "table_wf ntf_id (notifications (w_db w))" "k \<le> length (inbox (w_db w) (user_id u) b)" "1 \<le> sz"
    and "\<forall>i. json_loads C (show_int i) = Some (JInt i)"
  defines "ys \<equiv> drop k (inbox (w_db w) (user_id u) b)"
  shows "\<exists>pg. list_notifications C \<lparr>crp_cursor = cursor_at (inbox (w_db w) (user_id u) b) k, crp_size = sz\<rparr> b u w = (Inr pg, w) \<and>
    ncr_items pg = take (nat sz) ys \<and>
    ncr_next_cursor pg = (if int (length ys) > sz then cursor_at (inbox (w_db w) (user_id u) b) (k + nat sz) else None)"
proof -
  let ?xs = "inbox (w_db w) (user_id u) b"
  define c where "c = (if k = 0 then None else Some (ntf_id (?xs ! (k - 1))))"
  have cur: "(case cursor_at ?xs k of Some (c # cs) \<Rightarrow> bindM (liftM (decode_cursor C (c # cs))) (\<lambda>i. returnM (Some i))
      | _ \<Rightarrow> returnM None) = returnM c"
  proof (cases "k = 0")
    case False
    obtain x xs where e: "encode_cursor (ntf_id (?xs ! (k - 1))) = x # xs"
      using encode_cursor_nonempty list.exhaust by metis
    have "decode_cursor C (x # xs) = Inr (ntf_id (?xs ! (k - 1)))"
      using decode_encode_cursor [of C "ntf_id (?xs ! (k - 1))"] assms(4) e by simp
    then show ?thesis using False e by (simp add: cursor_at_def c_def fun_eq_iff)
  qed (simp add: cursor_at_def c_def)
  define items where "items = take (nat (sz + 1)) ys"
  have run: "list_for_user_cursor (user_id u) c sz b w = (Inr items, w)"
    using list_from [OF assms(1,2) c_def] by (simp add: items_def ys_def)
  have m: "sz = int (Suc (nat (sz - 1)))" using assms(3) by simp
  define m where "m = nat (sz - 1)"
  note m = m [folded m_def]
  have suc: "nat (1 + int m) = Suc m" by simp
  have shown: "take (nat sz) items = take (nat sz) ys" by (simp add: items_def m min_def)
  have more: "int (length items) > sz \<longleftrightarrow> int (length ys) > sz" by (auto simp: items_def m)
  have "last (take (Suc m) ys) = ?xs ! (k + m)" if "int (length ys) > sz"
    using that by (simp add: m last_conv_nth ys_def)
  then have next_cur: "(if int (length items) > sz \<and> take (nat sz) items \<noteq> [] then Some (encode_cursor (ntf_id (last (take (nat sz) items))))
      else None) = (if int (length ys) > sz then cursor_at ?xs (k + nat sz) else None)"
    unfolding shown more using suc by (auto simp: cursor_at_def m)
  have "count_unread (user_id u) w =
      (Inr (int (length (select_where (\<lambda>n. ntf_user_id n = user_id u \<and> \<not> ntf_is_read n) (notifications (w_db w))))), w)"
    by (simp add: count_unread_def)
  then have "list_notifications C \<lparr>crp_cursor = cursor_at ?xs k, crp_size = sz\<rparr> b u w =
    (Inr \<lparr>ncr_items = take (nat sz) items,
       ncr_next_cursor = (if int (length items) > sz \<and> take (nat sz) items \<noteq> []
         then Some (encode_cursor (ntf_id (last (take (nat sz) items)))) else None),
       ncr_has_more = (int (length items) > sz), ncr_size = int (length (take (nat sz) items)),
       ncr_unread_count = int (length (select_where (\<lambda>n. ntf_user_id n = user_id u \<and> \<not> ntf_is_read n) (notifications (w_db w))))\<rparr>, w)"
    using run by (simp add: list_notifications_def cur Let_def del: length_take take_eq_Nil)
  with next_cur shown show ?thesis by (simp only: prod.inject sum.inject notification_page.simps ex_simps simp_thms)
qed

lemma walk_from:
  assumes "table_wf ntf_id (notifications (w_db w))" "1 \<le> sz" "\<forall>i. json_loads C (show_int i) = Some (JInt i)"
  shows "k \<le> length (inbox (w_db w) (user_id u) b) \<Longrightarrow> length (inbox (w_db w) (user_id u) b) - k < n \<Longrightarrow>
    walk_inbox C sz b u n (cursor_at (inbox (w_db w) (user_id u) b) k) w = (Inr (drop k (inbox (w_db w) (user_id u) b)), w)"
proof (induction n arbitrary: k)
  case (Suc n)
  let ?xs = "inbox (w_db w) (user_id u) b"
  obtain pg where pg: "list_notifications C \<lparr>crp_cursor = cursor_at ?xs k, crp_size = sz\<rparr> b u w = (Inr pg, w)"
    "ncr_items pg = take (nat sz) (drop k ?xs)"
    "ncr_next_cursor pg = (if int (length (drop k ?xs)) > sz then cursor_at ?xs (k + nat sz) else None)"
    using page_from [OF assms(1) Suc.prems(1) assms(2,3)] by blast
  show ?case
  proof (cases "int (length (drop k ?xs)) > sz")
    case True
    then have "k + nat sz \<le> length ?xs" "length ?xs - (k + nat sz) < n" using Suc.prems assms(2) by auto
    from Suc.IH [OF this] have "walk_inbox C sz b u n (cursor_at ?xs (k + nat sz)) w = (Inr (drop (k + nat sz) ?xs), w)" .
    moreover have "take (nat sz) (drop k ?xs) @ drop (k + nat sz) ?xs = drop k ?xs"
      by (metis add.commute append_take_drop_id drop_drop)
    ultimately show ?thesis using pg True assms(2) by (simp add: cursor_at_def)
  next
    case False
    then have "take (nat sz) (drop k ?xs) = drop k ?xs" by simp
    then show ?thesis using pg False by simp
  qed
qed simp

section \<open>Dispatch, step by step\<close>

lemma db_unique_notifications [simp]: "db_unique (notifications_update f d) = db_unique d"
  by (simp add: db_unique_def)

lemma push_run:
  "\<exists>cs ob. push_websocket C alive uid e title body w = (Inr (), w\<lparr>w_outbox := w_outbox w @ ob, w_conns := cs\<rparr>)"
proof -
  have "\<exists>cs ob. send_personal_message alive msg us w = (Inr (), w\<lparr>w_outbox := w_outbox w @ ob, w_conns := cs\<rparr>)" for msg us
    unfolding personal_run by blast
  then show ?thesis unfolding push_websocket_def by (metis tryM_Inr)
qed

lemma create_in_app_run:
  assumes "db_unique (w_db w)"
  shows "\<exists>cs ob. create_in_app C repr alive uid e w = (Inr (),
    (let n = \<lparr>ntf_id = 0, ntf_user_id = uid, ntf_event_type = ev_type e,
           ntf_title = payload_str repr (ev_payload e) ''title'' (ev_type e), ntf_body = body_of e, ntf_is_read = False,
           ntf_read_at = None, ntf_deleted_at = None\<rparr>;
         d = notifications_update (insert_row (\<lambda>i r. r\<lparr>ntf_id := i\<rparr>) n) (w_db w)
     in w\<lparr>w_db := d, w_committed := d, w_outbox := w_outbox w @ ob, w_conns := cs\<rparr>))"
proof -
  let ?n = "\<lparr>ntf_id = 0, ntf_user_id = uid, ntf_event_type = ev_type e,
    ntf_title = payload_str repr (ev_payload e) ''title'' (ev_type e), ntf_body = body_of e, ntf_is_read = False,
    ntf_read_at = None, ntf_deleted_at = None\<rparr>"
  let ?d = "notifications_update (insert_row (\<lambda>i r. r\<lparr>ntf_id := i\<rparr>) ?n) (w_db w)"
  have "create_in_app C repr alive uid e w =
    push_websocket C alive uid e (ntf_title ?n) (ntf_body ?n) (w\<lparr>w_db := ?d, w_committed := ?d\<rparr>)"
    using assms by (simp add: create_in_app_def ntf_create_for_user_def commit_run next_row_def)
  then show ?thesis using push_run [of C alive uid e _ _ "w\<lparr>w_db := ?d, w_committed := ?d\<rparr>"] by (auto simp: Let_def)
qed

definition dispatched_mails :: "(json \<Rightarrow> string) \<Rightarrow> broker \<Rightarrow> db \<Rightarrow> int \<Rightarrow> event \<Rightarrow> task list" where
  "dispatched_mails repr broker d uid e =
     filter broker (map (\<lambda>u. notification_mail repr (user_email u) e)
       (filter (\<lambda>u. user_id u = uid \<and> user_deleted_at u = None \<and> user_email u \<noteq> []) (t_rows (users d))))"

lemma dispatch_email_run:
  assumes "table_wf user_id (users (w_db w))"
  shows "dispatch_email repr broker uid e w =
    (Inr (), w\<lparr>w_tasks := w_tasks w @ dispatched_mails repr broker (w_db w) uid e\<rparr>)"
proof (cases "\<exists>u \<in> set (t_rows (users (w_db w))). user_id u = uid \<and> user_deleted_at u = None")
  case True
  then obtain u where u: "u \<in> set (t_rows (users (w_db w)))" "user_id u = uid" "user_deleted_at u = None" by blast
  have wf: "table_wf (m_rid user_model) (m_tbl user_model (w_db w))" using assms by (simp add: model_defs)
  have "visible user_model False u" using u(3) by (simp add: user_crud.visible_soft)
  then have "crud_get user_model (m_rid user_model u) False w = (Inr (Some u), w)"
    using u(1) by (intro user_crud.get_by_id [OF wf]) (simp_all add: model_defs)
  then have get: "crud_get user_model uid False w = (Inr (Some u), w)" using u(2) by (simp add: user_model_def)
  have "filter (\<lambda>x. user_id x = user_id u) (t_rows (users (w_db w))) = [u]"
    using u(1) assms by (intro distinct_filter_key) (simp_all add: table_wf_def)
  then have "filter (\<lambda>x. user_deleted_at x = None \<and> user_email x \<noteq> []) (filter (\<lambda>x. user_id x = uid) (t_rows (users (w_db w)))) =
      (if user_email u = [] then [] else [u])" using u by simp
  then have "dispatched_mails repr broker (w_db w) uid e =
      (if user_email u = [] then [] else filter broker [notification_mail repr (user_email u) e])"
    by (simp add: dispatched_mails_def conj_commute conj_left_commute)
  then show ?thesis using get by (simp add: dispatch_email_def delay_run tryM_def)
next
  case False
  have "crud_get user_model uid False w = (Inr None, w)"
    using False by (intro user_crud.get_invisible) (simp add: user_crud.visible_soft, force simp: user_model_def)
  moreover have "filter (\<lambda>u. user_id u = uid \<and> user_deleted_at u = None \<and> user_email u \<noteq> []) (t_rows (users (w_db w))) = []"
    using False by (auto simp: filter_empty_conv)
  ultimately show ?thesis by (simp add: dispatch_email_def dispatched_mails_def)
qed

section \<open>Properties\<close>

text \<open>
  C12: the dispatch of an event to its user. Whatever the event, the handler returns normally. With notifications on and an
  event for a user, the inbox gains one unread notification with the event's title exactly when the user has not turned the
  in-app channel off, a mail is handed to the broker exactly when the user has not turned the e-mail channel off, exists
  and has an address, and nothing stays uncommitted. Without a preference row every channel is on.
\<close>

theorem dispatch_respects_preferences:
  assumes "store_ok w" and "NOTIFICATION_ENABLED S" and "ev_user_id e = Some uid"
    and "n = \<lparr>ntf_id = 0, ntf_user_id = uid, ntf_event_type = ev_type e,
      ntf_title = payload_str repr (ev_payload e) ''title'' (ev_type e), ntf_body = body_of e, ntf_is_read = False,
      ntf_read_at = None, ntf_deleted_at = None\<rparr>"
  shows "\<exists>w'. handle_notification_event S C repr alive broker e w = (Inr (), w') \<and>
    w_db w' = (if wants (w_db w) uid In_app then notifications_update (insert_row (\<lambda>i r. r\<lparr>ntf_id := i\<rparr>) n) (w_db w) else w_db w) \<and>
    w_committed w' = w_db w' \<and>
    w_tasks w' = w_tasks w @ (if wants (w_db w) uid Email then dispatched_mails repr broker (w_db w) uid e else [])"
proof -
  have u: "db_unique (w_db w)" and wf: "table_wf user_id (users (w_db w))" and c: "w_committed w = w_db w"
    using assms(1) by (auto simp: store_ok_def db_keys_def)
  define w1 where "w1 = (if wants (w_db w) uid In_app then snd (create_in_app C repr alive uid e w) else w)"
  have in_app: "(if wants (w_db w) uid In_app then create_in_app C repr alive uid e else returnM ()) w = (Inr (), w1)"
    and db1: "w_db w1 = (if wants (w_db w) uid In_app then notifications_update (insert_row (\<lambda>i r. r\<lparr>ntf_id := i\<rparr>) n) (w_db w) else w_db w)"
    and rest1: "w_committed w1 = w_db w1" "w_tasks w1 = w_tasks w"
    using create_in_app_run [OF u, of C repr alive uid e] c by (auto simp: w1_def assms(4) Let_def)
  have u1: "db_unique (w_db w1)" and wants1: "wants (w_db w1) uid ch = wants (w_db w) uid ch" for ch
    using u by (simp_all add: db1 wants_def)
  have users1: "users (w_db w1) = users (w_db w)" by (simp add: db1)
  define w2 where "w2 = (if wants (w_db w) uid Email
    then w1\<lparr>w_tasks := w_tasks w1 @ dispatched_mails repr broker (w_db w) uid e\<rparr> else w1)"
  have "(if wants (w_db w) uid Email then dispatch_email repr broker uid e else returnM ()) w1 = (Inr (), w2)"
    using dispatch_email_run [of w1 repr broker uid e] wf users1 by (simp add: w2_def dispatched_mails_def)
  then have run: "bindM (channel_enabled uid In_app) (\<lambda>in_app.
      thenM (if in_app then create_in_app C repr alive uid e else returnM ())
       (bindM (channel_enabled uid Email) (\<lambda>email. if email then dispatch_email repr broker uid e else returnM ()))) w = (Inr (), w2)"
    using in_app channel_enabled_run [OF u, of uid In_app] channel_enabled_run [OF u1, of uid Email] wants1 by simp
  have "handle_notification_event S C repr alive broker e w = (Inr (), w2\<lparr>w_db := w_committed w2\<rparr>)"
    using assms(2,3) by (simp add: handle_notification_event_def with_session_def run)
  moreover have "w_committed w2 = w_db w1" "w_tasks w2 = w_tasks w @
      (if wants (w_db w) uid Email then dispatched_mails repr broker (w_db w) uid e else [])"
    using rest1 by (simp_all add: w2_def)
  ultimately show ?thesis using db1 by simp
qed

definition sample_event :: event where
  "sample_event = \<lparr>ev_type = ''ping'', ev_payload = [(''title'', JStr ''Hello'')], ev_id = Some ''e1'', ev_timestamp = Some ''t'',
     ev_user_id = Some 1\<rparr>"

definition plain_codec :: json_codec where
  "plain_codec = \<lparr>json_dumps = (\<lambda>_. []), json_loads = (\<lambda>s. map_option JInt (py_int s))\<rparr>"

theorem dispatch_respects_preferences_witness:
  "\<exists>w'. handle_notification_event default_settings plain_codec (\<lambda>_. []) (\<lambda>_. True) (\<lambda>_. True) sample_event sample_world = (Inr (), w') \<and>
    length (t_rows (notifications (w_committed w'))) = 1 \<and>
    w_tasks w' = [Send_email ''a@b.c'' ''Hello'' ''notification.html''
      [(''title'', JStr ''Hello''), (''event_type'', JStr ''ping'')]]"
proof -
  have "NOTIFICATION_ENABLED default_settings" "ev_user_id sample_event = Some 1"
    by (simp_all add: default_settings_def sample_event_def)
  from dispatch_respects_preferences [OF sample_store_ok this refl, where repr = "\<lambda>_. []" and C = plain_codec and
      alive = "\<lambda>_. True" and broker = "\<lambda>_. True"]
  obtain w' where w': "handle_notification_event default_settings plain_codec (\<lambda>_. []) (\<lambda>_. True) (\<lambda>_. True) sample_event sample_world = (Inr (), w')"
    "t_rows (notifications (w_db w')) \<noteq> []" "length (t_rows (notifications (w_db w'))) = 1" "w_committed w' = w_db w'"
    "w_tasks w' = dispatched_mails (\<lambda>_. []) (\<lambda>_. True) (w_db sample_world) 1 sample_event"
    by (auto simp: wants_def sample_defs insert_row_def)
  moreover have "dispatched_mails (\<lambda>_. []) (\<lambda>_. True) (w_db sample_world) 1 sample_event =
      [Send_email ''a@b.c'' ''Hello'' ''notification.html'' [(''title'', JStr ''Hello''), (''event_type'', JStr ''ping'')]]"
    by (simp add: sample_defs dispatched_mails_def notification_mail_def payload_str_def jget_def body_of_def sample_event_def Let_def)
  ultimately show ?thesis by auto
qed

text \<open>
  C7: the pages of the inbox are complete. Following the cursors from the first page ends, for every page size, and lists
  notifications of the user only (unread ones only, when asked for those), none twice and the newest first, and among them
  every such notification that is not soft-deleted. The only
  hypothesis on JSON is that integers parse as themselves; the cursors travel as Base64 text.
\<close>

theorem inbox_pages_complete:
  assumes "table_wf ntf_id (notifications (w_db w))" and "1 \<le> sz"
    and "\<forall>i. json_loads C (show_int i) = Some (JInt i)" and "length (inbox (w_db w) (user_id u) b) < n"
  shows "\<exists>ms. walk_inbox C sz b u n None w = (Inr ms, w) \<and>
    {m \<in> set ms. ntf_deleted_at m = None} = {m \<in> set (t_rows (notifications (w_db w))).
      ntf_user_id m = user_id u \<and> (b \<longrightarrow> \<not> ntf_is_read m) \<and> ntf_deleted_at m = None} \<and>
    (\<forall>m \<in> set ms. m \<in> set (t_rows (notifications (w_db w))) \<and> ntf_user_id m = user_id u \<and> (b \<longrightarrow> \<not> ntf_is_read m)) \<and>
    distinct ms \<and> sorted_wrt (\<lambda>m m'. ntf_id m > ntf_id m') ms"
proof -
  let ?xs = "inbox (w_db w) (user_id u) b"
  have "walk_inbox C sz b u n None w = (Inr ?xs, w)"
    using walk_from [OF assms(1-3), of 0 u b n] assms(4) by (simp add: cursor_at_def)
  moreover have "sorted_wrt (<) (map (\<lambda>m. - ntf_id m) ?xs)"
    using inbox_sorted [OF assms(1), of "user_id u" b] by (simp only: strict_sorted_iff simp_thms)
  then have "sorted_wrt (\<lambda>m m'. ntf_id m > ntf_id m') ?xs" by (simp add: sorted_wrt_map)
  moreover have "distinct ?xs" using inbox_sorted(2) [OF assms(1)] by (simp add: distinct_map)
  ultimately show ?thesis by (intro exI [of _ ?xs]) (auto simp: inbox_def)
qed

definition three_notices :: "keyspace world" where
  "three_notices = sample_world\<lparr>w_db := sample_db\<lparr>notifications := \<lparr>t_rows = map (\<lambda>(i, b). \<lparr>ntf_id = i, ntf_user_id = 1,
     ntf_event_type = ''e'', ntf_title = ''t'', ntf_body = None, ntf_is_read = b, ntf_read_at = None, ntf_deleted_at = None\<rparr>)
     [(1, False), (2, True), (3, False)], t_seq = 3\<rparr>\<rparr>\<rparr>"

theorem inbox_pages_complete_witness:
  "\<exists>ms. walk_inbox plain_codec 1 True sample_user 3 None three_notices = (Inr ms, three_notices) \<and> set (map ntf_id ms) = {1, 3}"
proof -
  have rows: "table_wf ntf_id (notifications (w_db three_notices))" "length (inbox (w_db three_notices) (user_id sample_user) True) < 3"
    by (simp_all add: three_notices_def table_wf_def inbox_def order_desc_def sample_user_def)
  have live: "\<forall>m \<in> set (t_rows (notifications (w_db three_notices))). ntf_deleted_at m = None"
    "ntf_id ` {m \<in> set (t_rows (notifications (w_db three_notices))). ntf_user_id m = 1 \<and> \<not> ntf_is_read m} = {1, 3}"
    unfolding three_notices_def by (simp, force)
  obtain ms where ms: "walk_inbox plain_codec 1 True sample_user 3 None three_notices = (Inr ms, three_notices)"
      "{m \<in> set ms. ntf_deleted_at m = None} = {m \<in> set (t_rows (notifications (w_db three_notices))).
        ntf_user_id m = user_id sample_user \<and> (True \<longrightarrow> \<not> ntf_is_read m) \<and> ntf_deleted_at m = None}"
      "\<forall>m \<in> set ms. m \<in> set (t_rows (notifications (w_db three_notices)))"
    using inbox_pages_complete [OF rows(1) _ _ rows(2), of 1 plain_codec] by (auto simp: plain_codec_def)
  have "set ms = {m \<in> set (t_rows (notifications (w_db three_notices))). ntf_user_id m = 1 \<and> \<not> ntf_is_read m}"
    using ms(2,3) live(1) by (auto simp: sample_user_def)
  then show ?thesis using ms(1) live(2) by auto
qed

text \<open>
  Marking everything read. The answer is the number of unread notifications of the user; afterwards none is unread,
  doing it again changes nothing and answers zero, and the notifications of other users and those already read are as
  before.
\<close>

theorem mark_all_read_spec:
  assumes "db_unique (w_db w)"
  shows "\<exists>w'. mark_all_read now u w =
      (Inr (int (length (inbox (w_db w) (user_id u) True))), w') \<and> w_committed w' = w_db w' \<and>
    inbox (w_db w') (user_id u) True = [] \<and> mark_all_read now' u w' = (Inr 0, w') \<and>
    map ntf_id (t_rows (notifications (w_db w'))) = map ntf_id (t_rows (notifications (w_db w))) \<and>
    (\<forall>m \<in> set (t_rows (notifications (w_db w))). ntf_user_id m \<noteq> user_id u \<or> ntf_is_read m \<longrightarrow>
      m \<in> set (t_rows (notifications (w_db w'))))"
proof -
  let ?f = "read_all_rows now (user_id u)"
  define w' where "w' = w\<lparr>w_db := notifications_update ?f (w_db w), w_committed := notifications_update ?f (w_db w)\<rparr>"
  have "mark_all_read now u w = (Inr (int (length (inbox (w_db w) (user_id u) True))), w')"
    using assms by (simp add: mark_all_read_def ntf_mark_all_read_def commit_run inbox_def select_where_def w'_def)
  moreover have rows: "t_rows (notifications (w_db w')) = map (\<lambda>n. if ntf_user_id n = user_id u \<and> \<not> ntf_is_read n
      then n\<lparr>ntf_is_read := True, ntf_read_at := Some now\<rparr> else n) (t_rows (notifications (w_db w)))"
    by (simp add: w'_def read_all_rows_def)
  then have none: "filter (\<lambda>n. ntf_user_id n = user_id u \<and> \<not> ntf_is_read n) (t_rows (notifications (w_db w'))) = []"
    by (auto simp: filter_empty_conv)
  have "read_all_rows now' (user_id u) (notifications (w_db w')) = notifications (w_db w')"
    unfolding read_all_rows_def by (rule table.equality) (use none in \<open>auto simp: filter_empty_conv intro!: map_idI\<close>)
  then have "w'\<lparr>w_db := notifications_update (read_all_rows now' (user_id u)) (w_db w'),
      w_committed := notifications_update (read_all_rows now' (user_id u)) (w_db w')\<rparr> = w'"
    by (simp add: w'_def)
  then have "mark_all_read now' u w' = (Inr 0, w')"
    using assms none by (simp add: mark_all_read_def ntf_mark_all_read_def commit_run select_where_def w'_def)
  moreover have "inbox (w_db w') (user_id u) True = []" using none by (simp add: inbox_def order_desc_def)
  moreover have "map ntf_id (t_rows (notifications (w_db w'))) = map ntf_id (t_rows (notifications (w_db w)))"
    by (simp add: rows)
  moreover have "m \<in> set (t_rows (notifications (w_db w')))"
    if "m \<in> set (t_rows (notifications (w_db w)))" "ntf_user_id m \<noteq> user_id u \<or> ntf_is_read m" for m
    using that by (force simp: rows)
  moreover have "w_committed w' = w_db w'" by (simp add: w'_def)
  ultimately show ?thesis by blast
qed

theorem mark_all_read_spec_witness:
  "\<exists>w'. mark_all_read 5 sample_user three_notices = (Inr 2, w') \<and> mark_all_read 6 sample_user w' = (Inr 0, w')"
  using mark_all_read_spec [of three_notices 5 sample_user 6] sample_db_ok(1)
  by (auto simp: three_notices_def inbox_def order_desc_def sample_user_def)

text \<open>
  An inbox belongs to its user: reading or deleting a notification of somebody else is answered 404 and
  changes nothing, whereas restoring one does not look at the owner at all.
\<close>

theorem notification_ownership:
  assumes "store_ok w" and "m \<in> set (t_rows (notifications (w_db w)))" and "ntf_user_id m \<noteq> user_id u"
  shows "mark_read now (ntf_id m) u w = (Inl (HTTPException 404 ''Notification not found''), w) \<and>
    delete_notification now (ntf_id m) u w = (Inl (HTTPException 404 ''Notification not found''), w) \<and>
    (ntf_deleted_at m \<noteq> None \<longrightarrow>
      (\<exists>w'. restore_notification (ntf_id m) u w = (Inr (Some (m\<lparr>ntf_deleted_at := None\<rparr>)), w')))"
proof -
  have wf: "table_wf ntf_id (notifications (w_db w))" and u: "db_unique (w_db w)"
    using assms(1) by (auto simp: store_ok_def db_keys_def)
  have "select_where (\<lambda>n. ntf_id n = ntf_id m \<and> ntf_user_id n = user_id u) (notifications (w_db w)) = []"
    using assms(2,3) wf distinct_key_unique [of ntf_id "t_rows (notifications (w_db w))" _ m]
    by (auto simp: select_where_def filter_empty_conv table_wf_def)
  then have "ntf_get_for_user (ntf_id m) (user_id u) w = (Inr None, w)" by (simp add: ntf_get_for_user_def)
  moreover have "\<exists>w'. crud_restore notification_model (ntf_id m) w = (Inr (Some (m\<lparr>ntf_deleted_at := None\<rparr>)), w')"
    if "ntf_deleted_at m \<noteq> None"
    using notification_crud.restore_run [of w m] u wf assms(2) that by (simp add: notification_model_def)
  ultimately show ?thesis
    by (auto simp: mark_read_def delete_notification_def restore_notification_def get_owned_notification_def)
qed

theorem notification_ownership_witness:
  "mark_read 5 2 (sample_user\<lparr>user_id := 9\<rparr>) (three_notices\<lparr>w_committed := w_db three_notices\<rparr>) =
     (Inl (HTTPException 404 ''Notification not found''), three_notices\<lparr>w_committed := w_db three_notices\<rparr>)"
  using notification_ownership [of "three_notices\<lparr>w_committed := w_db three_notices\<rparr>" "t_rows (notifications (w_db three_notices)) ! 1"
      "sample_user\<lparr>user_id := 9\<rparr>" 5] sample_db_ok
  by (simp add: three_notices_def store_ok_def db_keys_def table_wf_def)

end
