(* ===== verification/Webhooks.thy ===== *)
theory Webhooks
  imports Notifications Signing Permissions
begin

text \<open>
  Outgoing webhooks: \<^verbatim>\<open>app/notifications/crud/webhook.py\<close>, \<^verbatim>\<open>app/notifications/services/webhook.py\<close>, the delivery task
  \<^verbatim>\<open>app/notifications/tasks/webhook.py\<close> and the endpoints \<^verbatim>\<open>app/notifications/api/endpoints/webhooks.py\<close>.

  The HTTP client is a parameter: it answers a request with a status and a text, or raises \<^verbatim>\<open>httpx.HTTPError\<close> with a
  message. So are the HMAC, the compact JSON printer, the clock readings and the random secret. A Celery task ends with
  a result or asks to be run again after a delay (\<open>Retry\<close>). Times to live of rows are as for the other tables.
\<close>

section \<open>CRUD\<close>

record webhook_create =
  whc_name :: string
  whc_url :: string
  whc_event_types :: "string list option"

definition create_with_secret :: "string \<Rightarrow> webhook_create \<Rightarrow> ('r, webhook \<times> string) app" where
  "create_with_secret secret o' =
     bindM (add_webhook \<lparr>wh_id = 0, wh_tenant_id = None, wh_name = whc_name o', wh_url = whc_url o', wh_secret = secret,
              wh_event_types = whc_event_types o', wh_is_active = True, wh_last_delivery_at = None, wh_last_status = None,
              wh_failure_count = 0, wh_deleted_at = None\<rparr>)
       (\<lambda>wh. thenM commit (returnM (wh, secret)))"

definition subscribed :: "string \<Rightarrow> webhook \<Rightarrow> bool" where
  "subscribed event_type wh \<longleftrightarrow>
     (case wh_event_types wh of None \<Rightarrow> True | Some ts \<Rightarrow> ts = [] \<or> event_type \<in> set ts)"

definition get_active_for_event_type :: "string \<Rightarrow> ('r, webhook list) app" where
  "get_active_for_event_type event_type =
     bindM (select_all webhooks wh_is_active) (\<lambda>whs. returnM (filter (subscribed event_type) whs))"

definition list_for_tenant :: "int option \<Rightarrow> int \<Rightarrow> int \<Rightarrow> ('r, webhook list) app" where
  "list_for_tenant tenant_id skip lmt =
     bindM (select_all webhooks (\<lambda>wh. case tenant_id of None \<Rightarrow> True | Some t \<Rightarrow> wh_tenant_id wh = Some t))
       (\<lambda>rs. returnM (limit_rows lmt (offset_rows skip (order_desc wh_id rs))))"

definition new_delivery :: "datetime \<Rightarrow> int \<Rightarrow> event \<Rightarrow> int \<Rightarrow> webhook_delivery" where
  "new_delivery now webhook_id e max_attempts =
     \<lparr>dlv_id = 0, dlv_tenant_id = None, dlv_webhook_id = webhook_id, dlv_event_id = event_id e, dlv_event_type = ev_type e,
      dlv_payload = Some (ev_payload e), dlv_attempt = 0, dlv_max_attempts = max_attempts, dlv_status = ''pending'',
      dlv_response_status = None, dlv_response_body = None, dlv_error = None, dlv_next_retry_at = None,
      dlv_delivered_at = None, dlv_created_at = now\<rparr>"

definition create_delivery :: "datetime \<Rightarrow> int \<Rightarrow> event \<Rightarrow> int \<Rightarrow> ('r, webhook_delivery) app" where
  "create_delivery now webhook_id e max_attempts =
     bindM (add_delivery (new_delivery now webhook_id e max_attempts)) (\<lambda>d. thenM commit (returnM d))"

definition get_delivery :: "int \<Rightarrow> ('r, webhook_delivery option) app" where
  "get_delivery delivery_id = select_one deliveries (\<lambda>d. dlv_id d = delivery_id)"

text \<open>\<open>select(WebhookDelivery, Webhook).join(...)\<close>, then \<open>first()\<close>\<close>

definition delivery_pairs :: "int \<Rightarrow> db \<Rightarrow> (webhook_delivery \<times> webhook) list" where
  "delivery_pairs delivery_id d =
     concat (map (\<lambda>dl. map (Pair dl) (filter (\<lambda>wh. wh_id wh = dlv_webhook_id dl) (t_rows (webhooks d))))
       (filter (\<lambda>dl. dlv_id dl = delivery_id) (t_rows (deliveries d))))"

definition get_delivery_with_webhook :: "int \<Rightarrow> ('r, (webhook_delivery \<times> webhook) option) app" where
  "get_delivery_with_webhook delivery_id =
     getsM (\<lambda>w. case delivery_pairs delivery_id (w_db w) of [] \<Rightarrow> None | p # _ \<Rightarrow> Some p)"

definition crud_list_deliveries :: "int \<Rightarrow> int \<Rightarrow> int \<Rightarrow> ('r, webhook_delivery list) app" where
  "crud_list_deliveries webhook_id skip lmt =
     bindM (select_all deliveries (\<lambda>d. dlv_webhook_id d = webhook_id))
       (\<lambda>rs. returnM (limit_rows lmt (offset_rows skip (order_desc dlv_id rs))))"

section \<open>Dispatch\<close>

text \<open>The product of a float and a power of two is exact.\<close>

definition compute_backoff :: "settings \<Rightarrow> int \<Rightarrow> int" where
  "compute_backoff S attempt =
     (let seconds = WEBHOOK_BACKOFF_BASE_SECONDS S * 2 ^ nat (attempt - 1)
      in py_trunc (min seconds (WEBHOOK_BACKOFF_MAX_SECONDS S)))"

definition build_delivery_payload :: "event \<Rightarrow> int \<Rightarrow> int \<Rightarrow> json" where
  "build_delivery_payload e delivery_id attempt =
     JObj [(''id'', JStr (event_id e)), (''event_type'', JStr (ev_type e)),
           (''timestamp'', case ev_timestamp e of None \<Rightarrow> JNull | Some t \<Rightarrow> JStr t),
           (''data'', JObj (ev_payload e)), (''delivery_id'', JInt delivery_id), (''attempt'', JInt attempt)]"

definition enqueue_delivery :: "settings \<Rightarrow> broker \<Rightarrow> datetime \<Rightarrow> event \<Rightarrow> webhook \<Rightarrow> ('r, unit) app" where
  "enqueue_delivery S broker now e wh =
     bindM (create_delivery now (wh_id wh) e (WEBHOOK_MAX_RETRIES S + 1)) (\<lambda>d.
       tryM (delay broker (Deliver_webhook (dlv_id d))) (\<lambda>_. returnM ()))"

definition handle_event :: "settings \<Rightarrow> broker \<Rightarrow> datetime \<Rightarrow> event \<Rightarrow> ('r, unit) app" where
  "handle_event S broker now e =
     (if \<not> WEBHOOK_ENABLED S then returnM ()
      else tryM (with_session
        (bindM (case ev_user_id e of None \<Rightarrow> returnM True | Some uid \<Rightarrow> channel_enabled uid Webhook_channel) (\<lambda>enabled.
           if \<not> enabled then returnM ()
           else bindM (get_active_for_event_type (ev_type e)) (\<lambda>whs. forM whs (enqueue_delivery S broker now e)))))
       (\<lambda>_. returnM ()))"

section \<open>Delivery\<close>

record outcome =
  out_status :: string
  out_error :: "string option"
  out_response_status :: "int option"
  out_response_body :: "string option"
  out_next_retry_at :: "datetime option"

definition apply_outcome :: "datetime \<Rightarrow> int \<Rightarrow> outcome \<Rightarrow> webhook_delivery \<Rightarrow> webhook_delivery" where
  "apply_outcome now attempt o' d =
     d\<lparr>dlv_attempt := attempt, dlv_status := out_status o', dlv_error := out_error o',
       dlv_response_status := out_response_status o', dlv_response_body := out_response_body o',
       dlv_next_retry_at := out_next_retry_at o',
       dlv_delivered_at := (if out_status o' = ''delivered'' then Some now else None)\<rparr>"

definition roll_up :: "datetime \<Rightarrow> string \<Rightarrow> webhook \<Rightarrow> webhook" where
  "roll_up now status wh =
     wh\<lparr>wh_last_delivery_at := Some now, wh_last_status := Some status,
        wh_failure_count := (if status = ''delivered'' then 0
                             else if status = ''failed'' then wh_failure_count wh + 1 else wh_failure_count wh)\<rparr>"

definition record_delivery_outcome :: "datetime \<Rightarrow> int \<Rightarrow> int \<Rightarrow> outcome \<Rightarrow> ('r, unit) app" where
  "record_delivery_outcome now delivery_id attempt o' =
     with_session (bindM (get_delivery_with_webhook delivery_id) (\<lambda>pair.
       case pair of None \<Rightarrow> returnM ()
       | Some (d, wh) \<Rightarrow>
           thenM (save_delivery (apply_outcome now attempt o' d))
            (thenM (save_webhook (roll_up now (out_status o') wh)) commit)))"

record webhook_request =
  rq_url :: string
  rq_body :: string
  rq_headers :: "(string \<times> string) list"

text \<open>
  The HTTP client answers with a status and a text or raises: an \<^verbatim>\<open>httpx.HTTPError\<close> with its text, or any other
  exception (\<^verbatim>\<open>httpx.InvalidURL\<close>, a header that is not ASCII), which the handler does not catch.
\<close>

type_synonym webhook_client = "webhook_request \<Rightarrow> exn + int \<times> string"

definition delivery_event :: "webhook_delivery \<Rightarrow> event" where
  "delivery_event d = \<lparr>ev_type = dlv_event_type d, ev_payload = (case dlv_payload d of None \<Rightarrow> [] | Some p \<Rightarrow> p),
     ev_id = Some (dlv_event_id d), ev_timestamp = Some (isoformat (dlv_created_at d)), ev_user_id = None\<rparr>"

definition delivery_request ::
  "hmac \<Rightarrow> (json \<Rightarrow> string) \<Rightarrow> int \<Rightarrow> webhook_delivery \<Rightarrow> webhook \<Rightarrow> exn + webhook_request" where
  "delivery_request hmac dumps timestamp d wh =
     (let attempt = dlv_attempt d + 1;
          body = dumps (build_delivery_payload (delivery_event d) (dlv_id d) attempt)
      in case build_signature_header hmac body (wh_secret wh) timestamp of Inl e \<Rightarrow> Inl e
         | Inr sig \<Rightarrow> Inr \<lparr>rq_url = wh_url wh, rq_body = body, rq_headers =
             [(''Content-Type'', ''application/json''), (''User-Agent'', ''async-fastapi-template-webhook/1.0''),
              (''X-Webhook-Signature'', sig), (''X-Webhook-Event'', dlv_event_type d), (''X-Webhook-Id'', dlv_event_id d),
              (''X-Webhook-Delivery'', show_int (dlv_id d)), (''X-Webhook-Attempt'', show_int attempt)]\<rparr>)"

definition perform_delivery ::
  "settings \<Rightarrow> hmac \<Rightarrow> (json \<Rightarrow> string) \<Rightarrow> int \<Rightarrow> datetime \<Rightarrow> webhook_client \<Rightarrow> webhook_delivery \<Rightarrow> webhook
    \<Rightarrow> ('r, string) app" where
  "perform_delivery S hmac dumps timestamp now http d wh =
     (let attempt = dlv_attempt d + 1;
          will_retry = (attempt < dlv_max_attempts d);
          retry_at = (if will_retry then Some (now + seconds_td (compute_backoff S attempt)) else None);
          status = (if will_retry then ''retrying'' else ''failed'');
          answer = (if will_retry then ''retry'' else ''failed'')
      in bindM (liftM (delivery_request hmac dumps timestamp d wh)) (\<lambda>rq.
        case http rq of
          Inl (HTTPError err) \<Rightarrow>
            thenM (record_delivery_outcome now (dlv_id d) attempt \<lparr>out_status = status, out_error = Some err,
                     out_response_status = None, out_response_body = None, out_next_retry_at = retry_at\<rparr>) (returnM answer)
        | Inl e \<Rightarrow> raiseM e
        | Inr (code, text) \<Rightarrow>
            if 200 \<le> code \<and> code < 300
            then thenM (record_delivery_outcome now (dlv_id d) attempt \<lparr>out_status = ''delivered'', out_error = None,
                     out_response_status = Some code, out_response_body = Some (take 1000 text),
                     out_next_retry_at = None\<rparr>) (returnM ''delivered'')
            else thenM (record_delivery_outcome now (dlv_id d) attempt \<lparr>out_status = status,
                     out_error = Some (''HTTP '' @ show_int code), out_response_status = Some code,
                     out_response_body = Some (take 1000 text), out_next_retry_at = retry_at\<rparr>) (returnM answer)))"

datatype task_result = Done string | Retry int

definition deliver_webhook ::
  "settings \<Rightarrow> hmac \<Rightarrow> (json \<Rightarrow> string) \<Rightarrow> int \<Rightarrow> datetime \<Rightarrow> webhook_client \<Rightarrow> int \<Rightarrow> ('r, task_result) app" where
  "deliver_webhook S hmac dumps timestamp now http delivery_id =
     bindM (with_session (get_delivery_with_webhook delivery_id)) (\<lambda>pair.
       case pair of None \<Rightarrow> returnM (Done ''not-found'')
       | Some (d, wh) \<Rightarrow>
           if dlv_status d = ''delivered'' then returnM (Done ''already-delivered'')
           else if \<not> wh_is_active wh
           then thenM (record_delivery_outcome now (dlv_id d) (dlv_attempt d) \<lparr>out_status = ''failed'',
                  out_error = Some ''webhook disabled'', out_response_status = None, out_response_body = None,
                  out_next_retry_at = None\<rparr>) (returnM (Done ''webhook-disabled''))
           else bindM (perform_delivery S hmac dumps timestamp now http d wh) (\<lambda>outcome.
             if outcome = ''retry'' then returnM (Retry (compute_backoff S (dlv_attempt d + 1)))
             else returnM (Done outcome)))"

text \<open>
  The worker runs a task again when it asks for it, at most \<^verbatim>\<open>max_retries\<close> times: \<^verbatim>\<open>self.retry\<close> in the \<open>k\<close>-th run
  (from 0) raises the given exception when \<open>k + 1 > max_retries\<close>. \<open>env k\<close> is what that run finds (clock and client).
\<close>

fun celery_run ::
  "settings \<Rightarrow> hmac \<Rightarrow> (json \<Rightarrow> string) \<Rightarrow> (nat \<Rightarrow> int \<times> datetime \<times> webhook_client) \<Rightarrow> int \<Rightarrow> nat \<Rightarrow> nat
    \<Rightarrow> ('r, string option) app" where
  "celery_run S hmac dumps env delivery_id k 0 = returnM None"
| "celery_run S hmac dumps env delivery_id k (Suc n) =
     (case env k of (timestamp, now, http) \<Rightarrow>
        bindM (deliver_webhook S hmac dumps timestamp now http delivery_id) (\<lambda>r.
          case r of
            Done s \<Rightarrow> returnM (Some s)
          | Retry _ \<Rightarrow>
              thenM (guardM (int (Suc k) \<le> WEBHOOK_MAX_RETRIES S)
                       (ServiceError (''webhook delivery '' @ show_int delivery_id @ '' failed'')))
                (celery_run S hmac dumps env delivery_id (Suc k) n)))"

section \<open>Endpoints\<close>

definition get_owned_webhook :: "webhook option \<Rightarrow> user \<Rightarrow> ('r, webhook) app" where
  "get_owned_webhook r current_user =
     (case r of None \<Rightarrow> raiseM (HTTPException 404 ''Webhook not found'')
      | Some wh \<Rightarrow>
          if \<not> user_is_superuser current_user \<and> wh_tenant_id wh \<noteq> None \<and> wh_tenant_id wh \<noteq> user_tenant_id current_user
          then raiseM (HTTPException 404 ''Webhook not found'')
          else returnM wh)"

definition create_webhook :: "string \<Rightarrow> string list option \<Rightarrow> user \<Rightarrow> webhook_create \<Rightarrow> ('r, webhook \<times> string) app" where
  "create_webhook secret scopes current_user o' =
     thenM (permission_checker [''webhook:write''] scopes current_user) (create_with_secret secret o')"

definition list_webhooks :: "user \<Rightarrow> ('r, webhook list) app" where
  "list_webhooks current_user =
     list_for_tenant (if user_is_superuser current_user then None else user_tenant_id current_user) 0 100"

definition get_webhook :: "int \<Rightarrow> user \<Rightarrow> ('r, webhook) app" where
  "get_webhook webhook_id current_user =
     bindM (crud_get webhook_model webhook_id False) (\<lambda>r. get_owned_webhook r current_user)"

record webhook_update =
  whu_name :: "string option option"
  whu_url :: "string option option"
  whu_event_types :: "string list option option"
  whu_is_active :: "bool option option"

definition apply_webhook_update :: "webhook_update \<Rightarrow> webhook \<Rightarrow> webhook" where
  "apply_webhook_update o' wh =
     wh\<lparr>wh_name := (case whu_name o' of Some (Some v) \<Rightarrow> v | _ \<Rightarrow> wh_name wh),
        wh_event_types := (case whu_event_types o' of Some v \<Rightarrow> v | _ \<Rightarrow> wh_event_types wh),
        wh_is_active := (case whu_is_active o' of Some (Some v) \<Rightarrow> v | _ \<Rightarrow> wh_is_active wh)\<rparr>"

text \<open>
  A new URL is assigned to the column as a pydantic URL object, which the database driver refuses to bind; a null in a
  column that is not nullable fails at the commit.
\<close>

definition update_webhook :: "int \<Rightarrow> string list option \<Rightarrow> user \<Rightarrow> webhook_update \<Rightarrow> ('r, webhook) app" where
  "update_webhook webhook_id scopes current_user o' =
     thenM (permission_checker [''webhook:write''] scopes current_user)
      (bindM (crud_get webhook_model webhook_id False) (\<lambda>r.
       bindM (get_owned_webhook r current_user) (\<lambda>wh.
         thenM (guardM (\<forall>v. whu_url o' \<noteq> Some (Some v)) (ServiceError ''invalid input for query argument: expected str''))
          (thenM (guardM (whu_name o' \<noteq> Some None \<and> whu_url o' \<noteq> Some None \<and> whu_is_active o' \<noteq> Some None) IntegrityError)
            (crud_update webhook_model wh (apply_webhook_update o'))))))"

definition delete_webhook :: "datetime \<Rightarrow> int \<Rightarrow> string list option \<Rightarrow> user \<Rightarrow> ('r, unit) app" where
  "delete_webhook now webhook_id scopes current_user =
     thenM (permission_checker [''webhook:write''] scopes current_user)
      (bindM (crud_get webhook_model webhook_id False) (\<lambda>r.
       thenM (get_owned_webhook r current_user)
        (thenM (crud_delete webhook_model now webhook_id) (returnM ()))))"

definition restore_webhook :: "int \<Rightarrow> string list option \<Rightarrow> user \<Rightarrow> ('r, webhook) app" where
  "restore_webhook webhook_id scopes current_user =
     thenM (permission_checker [''webhook:write''] scopes current_user)
      (bindM (crud_restore webhook_model webhook_id) (\<lambda>r. get_owned_webhook r current_user))"

text \<open>\<open>eid\<close> is the fresh id of the synthetic event.\<close>

definition ping_webhook ::
  "settings \<Rightarrow> broker \<Rightarrow> datetime \<Rightarrow> string \<Rightarrow> int \<Rightarrow> string list option \<Rightarrow> user \<Rightarrow> ('r, webhook_delivery) app" where
  "ping_webhook S broker now eid webhook_id scopes current_user =
     thenM (permission_checker [''webhook:write''] scopes current_user)
      (bindM (crud_get webhook_model webhook_id False) (\<lambda>r.
       bindM (get_owned_webhook r current_user) (\<lambda>wh.
         let event = (mk_event ''webhook.test'' [(''message'', JStr ''ping''), (''webhook_id'', JInt (wh_id wh))] None)\<lparr>ev_id := Some eid\<rparr>
         in bindM (create_delivery now (wh_id wh) event (WEBHOOK_MAX_RETRIES S + 1)) (\<lambda>d.
              thenM (delay broker (Deliver_webhook (dlv_id d))) (returnM d)))))"

definition list_deliveries :: "int \<Rightarrow> user \<Rightarrow> ('r, webhook_delivery list) app" where
  "list_deliveries webhook_id current_user =
     bindM (crud_get webhook_model webhook_id False) (\<lambda>r.
       thenM (get_owned_webhook r current_user) (crud_list_deliveries webhook_id 0 100))"

section \<open>Facts about deliveries\<close>

lemma db_unique_webhooks [simp]:
  "db_unique (webhooks_update f d) = db_unique d" "db_unique (deliveries_update g d) = db_unique d"
  by (simp_all add: db_unique_def)

definition linked :: "db \<Rightarrow> webhook_delivery \<Rightarrow> webhook \<Rightarrow> bool" where
  "linked d dl wh \<longleftrightarrow> dl \<in> set (t_rows (deliveries d)) \<and> wh \<in> set (t_rows (webhooks d)) \<and> dlv_webhook_id dl = wh_id wh"

lemma pair_run:
  assumes "store_ok w" "linked (w_db w) dl wh"
  shows "get_delivery_with_webhook (dlv_id dl) w = (Inr (Some (dl, wh)), w)"
proof -
  have "filter (\<lambda>x. dlv_id x = dlv_id dl) (t_rows (deliveries (w_db w))) = [dl]"
    "filter (\<lambda>x. wh_id x = wh_id wh) (t_rows (webhooks (w_db w))) = [wh]"
    using assms by (auto intro!: distinct_filter_key simp: store_ok_def db_keys_def table_wf_def linked_def)
  then show ?thesis using assms(2) by (simp add: get_delivery_with_webhook_def delivery_pairs_def linked_def)
qed

lemma record_run:
  assumes "store_ok w" "linked (w_db w) dl wh"
  shows "\<exists>w'. record_delivery_outcome now (dlv_id dl) attempt o' w = (Inr (), w') \<and> store_ok w' \<and>
    linked (w_db w') (apply_outcome now attempt o' dl) (roll_up now (out_status o') wh)"
proof -
  let ?dl = "apply_outcome now attempt o' dl" and ?wh = "roll_up now (out_status o') wh"
  let ?d = "webhooks_update (update_row wh_id ?wh) (deliveries_update (update_row dlv_id ?dl) (w_db w))"
  define w' where "w' = w\<lparr>w_db := ?d, w_committed := ?d\<rparr>"
  have "record_delivery_outcome now (dlv_id dl) attempt o' w = (Inr (), w')"
    using assms(1) pair_run [OF assms]
    by (simp add: record_delivery_outcome_def with_session_def commit_run store_ok_def w'_def)
  moreover have "store_ok w'"
    using assms(1) by (simp add: store_ok_def db_keys_def w'_def wh_row.wf_update dlv_row.wf_update)
  moreover have "linked (w_db w') ?dl ?wh"
    using assms(2) dlv_row.update_in [of dl "deliveries (w_db w)" ?dl] wh_row.update_in [of wh "webhooks (w_db w)" ?wh]
    by (simp add: linked_def w'_def apply_outcome_def roll_up_def)
  ultimately show ?thesis by blast
qed

fun accepted :: "exn + int \<times> string \<Rightarrow> bool" where
  "accepted (Inl err) = False"
| "accepted (Inr (code, text)) = (200 \<le> code \<and> code < 300)"

text \<open>What the handler of the task can record: an answer or an \<^verbatim>\<open>httpx.HTTPError\<close>.\<close>

fun handled :: "exn + int \<times> string \<Rightarrow> bool" where
  "handled (Inl (HTTPError err)) = True"
| "handled (Inl _) = False"
| "handled (Inr _) = True"

text \<open>The outcome that an answer leaves behind, and what the attempt returns.\<close>

fun error_text :: "exn \<Rightarrow> string" where
  "error_text (HTTPError err) = err"
| "error_text _ = []"

definition outcome_of :: "settings \<Rightarrow> datetime \<Rightarrow> int \<Rightarrow> int \<Rightarrow> exn + int \<times> string \<Rightarrow> outcome" where
  "outcome_of S now attempt max_attempts ans =
     (let will_retry = (attempt < max_attempts)
      in \<lparr>out_status = (if accepted ans then ''delivered'' else if will_retry then ''retrying'' else ''failed''),
          out_error = (case ans of Inl e \<Rightarrow> Some (error_text e) | Inr (code, _) \<Rightarrow> if accepted ans then None else Some (''HTTP '' @ show_int code)),
          out_response_status = (case ans of Inl _ \<Rightarrow> None | Inr (code, _) \<Rightarrow> Some code),
          out_response_body = (case ans of Inl _ \<Rightarrow> None | Inr (_, text) \<Rightarrow> Some (take 1000 text)),
          out_next_retry_at = (if \<not> accepted ans \<and> will_retry then Some (now + seconds_td (compute_backoff S attempt)) else None)\<rparr>)"

lemma perform_run:
  assumes "delivery_request hmac dumps ts dl wh = Inr rq" and "handled (http rq)"
  shows "perform_delivery S hmac dumps ts now http dl wh =
    thenM (record_delivery_outcome now (dlv_id dl) (dlv_attempt dl + 1) (outcome_of S now (dlv_attempt dl + 1) (dlv_max_attempts dl) (http rq)))
     (returnM (if accepted (http rq) then ''delivered'' else if dlv_attempt dl + 1 < dlv_max_attempts dl then ''retry'' else ''failed''))"
  using assms by (cases "http rq" rule: handled.cases) (auto simp: perform_delivery_def outcome_of_def Let_def)

text \<open>One run of the task for a delivery that is not finished.\<close>

lemma deliver_once:
  assumes "store_ok w" "linked (w_db w) dl wh" "dlv_status dl \<noteq> ''delivered''" "wh_is_active wh"
    and "\<forall>j. decodable (dumps j)" and "handled ans"
  defines "attempt \<equiv> dlv_attempt dl + 1"
  shows "\<exists>w' dl' wh'. deliver_webhook S hmac dumps ts now (\<lambda>_. ans) (dlv_id dl) w =
      (Inr (if accepted ans then Done ''delivered'' else if attempt < dlv_max_attempts dl then Retry (compute_backoff S attempt)
            else Done ''failed''), w') \<and>
    store_ok w' \<and> linked (w_db w') dl' wh' \<and> wh_is_active wh' \<and> dlv_id dl' = dlv_id dl \<and> dlv_attempt dl' = attempt \<and>
    dlv_max_attempts dl' = dlv_max_attempts dl \<and>
    dlv_status dl' = (if accepted ans then ''delivered'' else if attempt < dlv_max_attempts dl then ''retrying'' else ''failed'')"
proof -
  have load: "with_session (get_delivery_with_webhook (dlv_id dl)) w = (Inr (Some (dl, wh)), w)"
    using pair_run [OF assms(1,2)] assms(1) by (simp add: with_session_def store_ok_def)
  obtain rq where rq: "delivery_request hmac dumps ts dl wh = Inr rq"
    using assms(5) by (auto simp: delivery_request_def build_signature_header_def sign_payload_def Let_def)
  define o' where "o' = outcome_of S now attempt (dlv_max_attempts dl) ans"
  obtain w' where rec: "record_delivery_outcome now (dlv_id dl) attempt o' w = (Inr (), w')" and w'2: "store_ok w'"
    "linked (w_db w') (apply_outcome now attempt o' dl) (roll_up now (out_status o') wh)"
    using record_run [OF assms(1,2)] by blast
  have w'1: "perform_delivery S hmac dumps ts now (\<lambda>_. ans) dl wh w =
      (Inr (if accepted ans then ''delivered'' else if attempt < dlv_max_attempts dl then ''retry'' else ''failed''), w')"
    using rec assms(6) by (simp add: perform_run [OF rq] o'_def attempt_def)
  have st: "out_status o' = (if accepted ans then ''delivered'' else if attempt < dlv_max_attempts dl then ''retrying'' else ''failed'')"
    by (simp add: o'_def outcome_of_def Let_def)
  have "deliver_webhook S hmac dumps ts now (\<lambda>_. ans) (dlv_id dl) w =
      (Inr (if accepted ans then Done ''delivered'' else if attempt < dlv_max_attempts dl then Retry (compute_backoff S attempt)
            else Done ''failed''), w')"
    using load w'1 assms(3,4) by (simp add: deliver_webhook_def attempt_def)
  moreover have "dlv_id (apply_outcome now attempt o' dl) = dlv_id dl" "dlv_attempt (apply_outcome now attempt o' dl) = attempt"
    "dlv_max_attempts (apply_outcome now attempt o' dl) = dlv_max_attempts dl" "wh_is_active (roll_up now (out_status o') wh)"
    "dlv_status (apply_outcome now attempt o' dl) = out_status o'"
    using assms(4) by (simp_all add: apply_outcome_def roll_up_def)
  ultimately show ?thesis using w'2 st by metis
qed

text \<open>The runs of a delivery that has made \<open>a\<close> attempts.\<close>

lemma celery_from:
  assumes "\<forall>j. decodable (dumps j)" "\<forall>k. snd (snd (env k)) = (\<lambda>_. ans k)" "\<forall>k. handled (ans k)"
    "int m \<le> WEBHOOK_MAX_RETRIES S + 1"
  shows "store_ok w \<Longrightarrow> linked (w_db w) dl wh \<Longrightarrow> dlv_status dl \<noteq> ''delivered'' \<Longrightarrow> wh_is_active wh \<Longrightarrow>
    dlv_attempt dl = int a \<Longrightarrow> dlv_max_attempts dl = int m \<Longrightarrow> a < m \<Longrightarrow> m - a \<le> n \<Longrightarrow>
    \<exists>s w' dl' wh'. celery_run S hmac dumps env (dlv_id dl) a n w = (Inr (Some s), w') \<and> store_ok w' \<and> linked (w_db w') dl' wh' \<and>
      dlv_id dl' = dlv_id dl \<and> dlv_status dl' = s \<and>
      ((\<exists>k. a \<le> k \<and> k < m \<and> accepted (ans k) \<and> (\<forall>j. a \<le> j \<and> j < k \<longrightarrow> \<not> accepted (ans j)) \<and>
          s = ''delivered'' \<and> dlv_attempt dl' = int k + 1) \<or>
       (\<forall>k. a \<le> k \<and> k < m \<longrightarrow> \<not> accepted (ans k)) \<and> s = ''failed'' \<and> dlv_attempt dl' = int m)"
proof (induction n arbitrary: a dl wh w)
  case (Suc n)
  obtain ts now where env: "env a = (ts, now, \<lambda>_. ans a)" using assms(2) by (metis prod.collapse)
  obtain w' dl' wh' where run: "deliver_webhook S hmac dumps ts now (\<lambda>_. ans a) (dlv_id dl) w =
      (Inr (if accepted (ans a) then Done ''delivered'' else if int a + 1 < int m then Retry (compute_backoff S (int a + 1))
            else Done ''failed''), w')"
    and ok: "store_ok w'" "linked (w_db w') dl' wh'" "wh_is_active wh'" "dlv_id dl' = dlv_id dl" "dlv_attempt dl' = int a + 1"
      "dlv_max_attempts dl' = int m"
    and st: "dlv_status dl' = (if accepted (ans a) then ''delivered'' else if int a + 1 < int m then ''retrying'' else ''failed'')"
    using deliver_once [OF Suc.prems(1-4) assms(1) assms(3) [rule_format], of S hmac ts now a] Suc.prems(5,6) by auto
  consider "accepted (ans a)" | "\<not> accepted (ans a)" "\<not> Suc a < m" | "\<not> accepted (ans a)" "Suc a < m" by blast
  then show ?case
  proof cases
    case 1
    then have "celery_run S hmac dumps env (dlv_id dl) a (Suc n) w = (Inr (Some ''delivered''), w')" using run by (simp add: env)
    then show ?thesis using 1 ok st Suc.prems(7) by fastforce
  next
    case 2
    then have m: "m = Suc a" using Suc.prems(7) by simp
    then have "celery_run S hmac dumps env (dlv_id dl) a (Suc n) w = (Inr (Some ''failed''), w')" using run 2 by (simp add: env)
    moreover have "\<forall>k. a \<le> k \<and> k < m \<longrightarrow> \<not> accepted (ans k)" using 2 m by (auto simp: less_Suc_eq_le)
    ultimately show ?thesis using 2 ok st m by (auto simp: less_Suc_eq_le)
  next
    case 3
    have "dlv_attempt dl' = int (Suc a)" "m - Suc a \<le> n" "dlv_status dl' \<noteq> ''delivered''" using ok(5) Suc.prems(8) st 3 by auto
    from Suc.IH [OF ok(1,2) this(3) ok(3) this(1) ok(6) 3(2) this(2)] obtain s w2 dl2 wh2 where
      IH: "celery_run S hmac dumps env (dlv_id dl) (Suc a) n w' = (Inr (Some s), w2)" "store_ok w2" "linked (w_db w2) dl2 wh2"
        "dlv_id dl2 = dlv_id dl" "dlv_status dl2 = s"
        "(\<exists>k. Suc a \<le> k \<and> k < m \<and> accepted (ans k) \<and> (\<forall>j. Suc a \<le> j \<and> j < k \<longrightarrow> \<not> accepted (ans j)) \<and>
            s = ''delivered'' \<and> dlv_attempt dl2 = int k + 1) \<or>
         (\<forall>k. Suc a \<le> k \<and> k < m \<longrightarrow> \<not> accepted (ans k)) \<and> s = ''failed'' \<and> dlv_attempt dl2 = int m"
      unfolding ok(4) by blast
    have "int (Suc a) \<le> WEBHOOK_MAX_RETRIES S" using 3(2) assms(4) by linarith
    then have "celery_run S hmac dumps env (dlv_id dl) a (Suc n) w = (Inr (Some s), w2)"
      using run 3 IH(1) by (simp add: env guardM_def)
    moreover have from_a: "(\<forall>j. a \<le> j \<and> j < k \<longrightarrow> \<not> accepted (ans j)) \<longleftrightarrow> (\<forall>j. Suc a \<le> j \<and> j < k \<longrightarrow> \<not> accepted (ans j))" for k
      using 3(1) by (metis Suc_leI le_antisym not_less_eq_eq Suc_leD)
    ultimately show ?thesis using IH(2-6) unfolding from_a by (metis Suc_leD)
  qed
qed simp

section \<open>Properties\<close>

text \<open>
  C4: a delivery ends when the client answers or fails with an \<^verbatim>\<open>httpx.HTTPError\<close>. A pending delivery of an active
  webhook with at most \<^verbatim>\<open>WEBHOOK_MAX_RETRIES + 1\<close> attempts (every delivery is created with exactly that many), run by
  the worker as often as it asks for, is done after at most \<open>max_attempts\<close> runs, before Celery's own bound is
  reached: it is stored as delivered by the first attempt that was
  answered with a success status, and as failed after exactly \<open>max_attempts\<close> attempts when there was none.
  Another exception of the client escapes the handler and leaves the row as it was: see \<open>unhandled_stays\<close>.
\<close>

theorem delivery_terminates:
  assumes "store_ok w" and "linked (w_db w) dl wh" and "dlv_status dl = ''pending''" and "dlv_attempt dl = 0"
    and "wh_is_active wh" and "dlv_max_attempts dl = int m" and "0 < m"
    and "int m \<le> WEBHOOK_MAX_RETRIES S + 1"
    and "\<forall>j. decodable (dumps j)" and "\<forall>k. snd (snd (env k)) = (\<lambda>_. ans k)" and "\<forall>k. handled (ans k)"
  shows "\<exists>s w' dl' wh'. celery_run S hmac dumps env (dlv_id dl) 0 m w = (Inr (Some s), w') \<and> store_ok w' \<and>
    linked (w_db w') dl' wh' \<and> dlv_id dl' = dlv_id dl \<and> dlv_status dl' = s \<and>
    ((\<exists>k < m. accepted (ans k) \<and> (\<forall>j < k. \<not> accepted (ans j)) \<and> s = ''delivered'' \<and> dlv_attempt dl' = int k + 1) \<or>
     (\<forall>k < m. \<not> accepted (ans k)) \<and> s = ''failed'' \<and> dlv_attempt dl' = int m)"
proof -
  have "dlv_status dl \<noteq> ''delivered''" "dlv_attempt dl = int 0" "m - 0 \<le> m" using assms(3,4) by simp_all
  from celery_from [OF assms(9-11,8,1,2) this(1) assms(5) this(2) assms(6,7) this(3), of hmac]
  show ?thesis by (simp add: conj_assoc)
qed

definition sample_webhook :: webhook where
  "sample_webhook = \<lparr>wh_id = 1, wh_tenant_id = Some 7, wh_name = ''hook'', wh_url = ''https://x'', wh_secret = ''whsec'',
     wh_event_types = None, wh_is_active = True, wh_last_delivery_at = None, wh_last_status = None, wh_failure_count = 0,
     wh_deleted_at = None\<rparr>"

definition hook_db :: db where
  "hook_db = sample_db\<lparr>webhooks := \<lparr>t_rows = [sample_webhook], t_seq = 1\<rparr>,
     deliveries := \<lparr>t_rows = [(new_delivery 0 1 sample_event 3)\<lparr>dlv_id := 1\<rparr>], t_seq = 1\<rparr>\<rparr>"

definition hook_world :: "keyspace world" where
  "hook_world = sample_world\<lparr>w_db := hook_db, w_committed := hook_db\<rparr>"

lemma hook_world_ok: "store_ok hook_world"
  using sample_db_ok
  by (simp add: store_ok_def hook_world_def hook_db_def db_keys_def db_unique_def table_wf_def sample_webhook_def)

theorem delivery_terminates_witness:
  "\<exists>w'. celery_run default_settings (\<lambda>_ _. ''ab12'') (\<lambda>_. ''{}'') (\<lambda>k. (0, 0, \<lambda>_. if k = 1 then Inr (200, []) else Inl (HTTPError ''down''))) 1 0 3 hook_world =
    (Inr (Some ''delivered''), w')"
proof -
  let ?dl = "(new_delivery 0 1 sample_event 3)\<lparr>dlv_id := 1\<rparr>" and ?ans = "\<lambda>k :: nat. if k = 1 then Inr (200 :: int, [] :: string) else Inl (HTTPError ''down'')"
  have "linked (w_db hook_world) ?dl sample_webhook"
    by (simp add: linked_def hook_world_def hook_db_def new_delivery_def sample_webhook_def)
  from delivery_terminates [OF hook_world_ok this, of 3 default_settings "\<lambda>_. ''{}''" "\<lambda>k. (0, 0, \<lambda>_. ?ans k)" ?ans "\<lambda>_ _. ''ab12''"]
  have "\<exists>s w'. celery_run default_settings (\<lambda>_ _. ''ab12'') (\<lambda>_. ''{}'') (\<lambda>k. (0, 0, \<lambda>_. ?ans k)) 1 0 3 hook_world = (Inr (Some s), w') \<and>
      (s = ''delivered'' \<or> (\<forall>k < 3. \<not> accepted (?ans k)))"
    by (fastforce simp: new_delivery_def sample_webhook_def decodable_def default_settings_def)
  moreover have "\<not> (\<forall>k < 3. \<not> accepted (?ans k))" by (intro notI, drule spec [of _ 1]) simp
  ultimately show ?thesis by blast
qed

text \<open>
  An exception that is no \<^verbatim>\<open>httpx.HTTPError\<close> ends the task with nothing recorded: the delivery stays as it was.
\<close>

lemma unhandled_stays:
  assumes "store_ok w" "linked (w_db w) dl wh" "dlv_status dl \<noteq> ''delivered''" "wh_is_active wh"
    and "delivery_request hmac dumps ts dl wh = Inr rq" and "http rq = Inl e" "\<not> handled (Inl e)"
  shows "deliver_webhook S hmac dumps ts now http (dlv_id dl) w = (Inl e, w)"
proof -
  have "with_session (get_delivery_with_webhook (dlv_id dl)) w = (Inr (Some (dl, wh)), w)"
    using pair_run [OF assms(1,2)] assms(1) by (simp add: with_session_def store_ok_def)
  moreover have "perform_delivery S hmac dumps ts now http dl wh w = (Inl e, w)"
    using assms(5-7) by (cases e) (simp_all add: perform_delivery_def Let_def)
  ultimately show ?thesis using assms(3,4) by (simp add: deliver_webhook_def)
qed

text \<open>
  A receiver can check what it gets. The request of an attempt goes to the webhook's address, carries the event as
  its body, and its signature header passes the verification with the webhook's secret as long as the
  receiver's clock is within the tolerance of the sender's, and not otherwise.
\<close>

theorem webhook_request_verifies:
  assumes "hex_digests hmac" and "\<forall>j. decodable (dumps j)"
  shows "\<exists>rq sig. delivery_request hmac dumps ts dl wh = Inr rq \<and> rq_url rq = wh_url wh \<and>
    rq_body rq = dumps (build_delivery_payload (delivery_event dl) (dlv_id dl) (dlv_attempt dl + 1)) \<and>
    map_of (rq_headers rq) ''X-Webhook-Signature'' = Some sig \<and>
    verify_signature_header S hmac now (rq_body rq) (wh_secret wh) (Some sig) (Some tol) = Inr (\<bar>now - ts\<bar> \<le> tol)"
proof -
  let ?body = "dumps (build_delivery_payload (delivery_event dl) (dlv_id dl) (dlv_attempt dl + 1))"
  let ?sig = "hmac (wh_secret wh) (show_int ts @ ''.'' @ ?body)"
  have hex: "list_all is_hex ?sig" "?sig \<noteq> []" using assms(1) by (auto simp: hex_digests_def)
  have "build_signature_header hmac ?body (wh_secret wh) ts = Inr (''t='' @ show_int ts @ '',v1='' @ ?sig)"
    using assms(2) by (simp add: build_signature_header_def sign_payload_def)
  moreover have "verify_signature_header S hmac now ?body (wh_secret wh) (Some (''t='' @ show_int ts @ '',v1='' @ ?sig)) (Some tol) =
      Inr (\<bar>now - ts\<bar> \<le> tol)"
    using verify_parts [OF header_parts_built [OF hex(1)] _ hex(2) hex_ascii [OF hex(1)]] hex_ascii [OF hex(1)] assms(2) by simp
  ultimately show ?thesis by (simp add: delivery_request_def Let_def)
qed

theorem webhook_request_verifies_witness:
  "\<exists>rq sig. delivery_request (\<lambda>_ _. ''ab12'') (\<lambda>_. ''{}'') 100 (new_delivery 0 1 sample_event 3) sample_webhook = Inr rq \<and>
    map_of (rq_headers rq) ''X-Webhook-Signature'' = Some sig \<and>
    verify_signature_header default_settings (\<lambda>_ _. ''ab12'') 300 (rq_body rq) ''whsec'' (Some sig) (Some 300) = Inr True"
  using webhook_request_verifies [of "\<lambda>_ _. ''ab12''" "\<lambda>_. ''{}''" 100 "new_delivery 0 1 sample_event 3" sample_webhook default_settings 300 300]
  by (auto simp: hex_digests_def is_hex_def decodable_def sample_webhook_def)

lemma enqueue_run:
  assumes "store_ok w"
  shows "\<exists>w' dl. enqueue_delivery S broker now e wh w = (Inr (), w') \<and> store_ok w' \<and>
    dl\<lparr>dlv_id := 0\<rparr> = new_delivery now (wh_id wh) e (WEBHOOK_MAX_RETRIES S + 1) \<and>
    w_db w' = deliveries_update (\<lambda>t. t\<lparr>t_rows := t_rows t @ [dl], t_seq := t_seq t + 1\<rparr>) (w_db w) \<and>
    w_tasks w' = w_tasks w @ filter broker [Deliver_webhook (dlv_id dl)]"
proof -
  let ?n = "new_delivery now (wh_id wh) e (WEBHOOK_MAX_RETRIES S + 1)" and ?set = "\<lambda>i r. r\<lparr>dlv_id := i\<rparr>"
  let ?dl = "next_row ?set ?n (deliveries (w_db w))"
  let ?d = "deliveries_update (insert_row ?set ?n) (w_db w)"
  let ?w1 = "w\<lparr>w_db := ?d, w_committed := ?d\<rparr>"
  have "create_delivery now (wh_id wh) e (WEBHOOK_MAX_RETRIES S + 1) w = (Inr ?dl, ?w1)"
    using assms by (simp add: create_delivery_def commit_run store_ok_def)
  then have "enqueue_delivery S broker now e wh w = (Inr (), ?w1\<lparr>w_tasks := w_tasks w @ filter broker [Deliver_webhook (dlv_id ?dl)]\<rparr>)"
    by (simp add: enqueue_delivery_def delay_run tryM_def)
  moreover have "store_ok (?w1\<lparr>w_tasks := ts\<rparr>)" for ts
    using assms by (simp add: store_ok_def db_keys_def dlv_row.wf_insert)
  moreover have "?d = deliveries_update (\<lambda>t. t\<lparr>t_rows := t_rows t @ [?dl], t_seq := t_seq t + 1\<rparr>) (w_db w)"
    by (simp add: insert_row_def next_row_def)
  moreover have "?dl\<lparr>dlv_id := 0\<rparr> = ?n" by (simp add: next_row_def new_delivery_def)
  ultimately show ?thesis by (intro exI [of _ "?w1\<lparr>w_tasks := w_tasks w @ filter broker [Deliver_webhook (dlv_id ?dl)]\<rparr>"] exI [of _ ?dl]) simp
qed

lemma enqueue_all_run:
  assumes "store_ok w"
  shows "\<exists>w' dls. forM whs (enqueue_delivery S broker now e) w = (Inr (), w') \<and> store_ok w' \<and>
    map (\<lambda>dl. dl\<lparr>dlv_id := 0\<rparr>) dls = map (\<lambda>wh. new_delivery now (wh_id wh) e (WEBHOOK_MAX_RETRIES S + 1)) whs \<and>
    w_db w' = deliveries_update (\<lambda>t. t\<lparr>t_rows := t_rows t @ dls, t_seq := t_seq t + int (length whs)\<rparr>) (w_db w) \<and>
    w_tasks w' = w_tasks w @ filter broker (map (\<lambda>dl. Deliver_webhook (dlv_id dl)) dls)"
  using assms
proof (induction whs arbitrary: w)
  case (Cons wh whs)
  obtain w1 dl where 1: "enqueue_delivery S broker now e wh w = (Inr (), w1)" "store_ok w1"
    "dl\<lparr>dlv_id := 0\<rparr> = new_delivery now (wh_id wh) e (WEBHOOK_MAX_RETRIES S + 1)"
    "w_db w1 = deliveries_update (\<lambda>t. t\<lparr>t_rows := t_rows t @ [dl], t_seq := t_seq t + 1\<rparr>) (w_db w)"
    "w_tasks w1 = w_tasks w @ filter broker [Deliver_webhook (dlv_id dl)]"
    using enqueue_run [OF Cons.prems] by blast
  obtain w2 dls where 2: "forM whs (enqueue_delivery S broker now e) w1 = (Inr (), w2)" "store_ok w2"
    "map (\<lambda>dl. dl\<lparr>dlv_id := 0\<rparr>) dls = map (\<lambda>wh. new_delivery now (wh_id wh) e (WEBHOOK_MAX_RETRIES S + 1)) whs"
    "w_db w2 = deliveries_update (\<lambda>t. t\<lparr>t_rows := t_rows t @ dls, t_seq := t_seq t + int (length whs)\<rparr>) (w_db w1)"
    "w_tasks w2 = w_tasks w1 @ filter broker (map (\<lambda>dl. Deliver_webhook (dlv_id dl)) dls)"
    using Cons.IH [OF 1(2)] by blast
  show ?case
  proof (intro exI conjI)
    show "forM (wh # whs) (enqueue_delivery S broker now e) w = (Inr (), w2)" using 1(1) 2(1) by simp
    show "map (\<lambda>dl. dl\<lparr>dlv_id := 0\<rparr>) (dl # dls) = map (\<lambda>wh. new_delivery now (wh_id wh) e (WEBHOOK_MAX_RETRIES S + 1)) (wh # whs)"
      using 1(3) 2(3) by simp
    show "w_db w2 = deliveries_update (\<lambda>t. t\<lparr>t_rows := t_rows t @ dl # dls, t_seq := t_seq t + int (length (wh # whs))\<rparr>) (w_db w)"
      using 1(4) 2(4) by (simp add: comp_def add.assoc add.commute)
    show "w_tasks w2 = w_tasks w @ filter broker (map (\<lambda>dl. Deliver_webhook (dlv_id dl)) (dl # dls))" using 1(5) 2(5) by simp
  qed (rule 2(2))
qed (auto intro!: exI [of _ "[]"])

text \<open>
  C13: the dispatch of an event to webhooks, where the active subscribed webhooks are all of one tenant and none is
  soft-deleted (the lookup compares neither, so with several tenants it would reach all of them). For an event without a user, or of a user who has not turned the webhook channel
  off, one pending delivery with no attempt yet is stored and committed for every active webhook that is
  subscribed to the type of the event, in their order, and the key of each is handed to the broker; nothing else
  changes. Otherwise nothing is stored. The handler never raises.
\<close>

theorem webhook_dispatch_spec:
  assumes "store_ok w" and "WEBHOOK_ENABLED S"
    and "\<forall>wh \<in> set (t_rows (webhooks (w_db w))). wh_is_active wh \<and> subscribed (ev_type e) wh \<longrightarrow>
           wh_tenant_id wh = T \<and> wh_deleted_at wh = None"
    and "whs = (if \<forall>uid. ev_user_id e = Some uid \<longrightarrow> wants (w_db w) uid Webhook_channel
           then filter (\<lambda>wh. wh_tenant_id wh = T \<and> wh_deleted_at wh = None \<and> wh_is_active wh \<and> subscribed (ev_type e) wh)
                  (t_rows (webhooks (w_db w))) else [])"
  shows "\<exists>w' dls. handle_event S broker now e w = (Inr (), w') \<and> store_ok w' \<and>
    map (\<lambda>dl. dl\<lparr>dlv_id := 0\<rparr>) dls = map (\<lambda>wh. new_delivery now (wh_id wh) e (WEBHOOK_MAX_RETRIES S + 1)) whs \<and>
    w_db w' = deliveries_update (\<lambda>t. t\<lparr>t_rows := t_rows t @ dls, t_seq := t_seq t + int (length whs)\<rparr>) (w_db w) \<and>
    w_tasks w' = w_tasks w @ filter broker (map (\<lambda>dl. Deliver_webhook (dlv_id dl)) dls)"
proof -
  let ?on = "\<forall>uid. ev_user_id e = Some uid \<longrightarrow> wants (w_db w) uid Webhook_channel"
  let ?enabled = "case ev_user_id e of None \<Rightarrow> returnM True | Some uid \<Rightarrow> channel_enabled uid Webhook_channel"
  have enabled: "(case ev_user_id e of None \<Rightarrow> returnM True | Some uid \<Rightarrow> channel_enabled uid Webhook_channel) w = (Inr ?on, w)"
    using channel_enabled_run [of w _ Webhook_channel] assms(1) by (auto simp: store_ok_def split: option.split)
  have active: "get_active_for_event_type (ev_type e) w =
      (Inr (filter (\<lambda>wh. wh_tenant_id wh = T \<and> wh_deleted_at wh = None \<and> wh_is_active wh \<and> subscribed (ev_type e) wh)
        (t_rows (webhooks (w_db w)))), w)"
    using assms(3) by (auto simp: get_active_for_event_type_def select_where_def intro!: filter_cong)
  obtain w' dls where w': "forM whs (enqueue_delivery S broker now e) w = (Inr (), w')" "store_ok w'"
    "map (\<lambda>dl. dl\<lparr>dlv_id := 0\<rparr>) dls = map (\<lambda>wh. new_delivery now (wh_id wh) e (WEBHOOK_MAX_RETRIES S + 1)) whs"
    "w_db w' = deliveries_update (\<lambda>t. t\<lparr>t_rows := t_rows t @ dls, t_seq := t_seq t + int (length whs)\<rparr>) (w_db w)"
    "w_tasks w' = w_tasks w @ filter broker (map (\<lambda>dl. Deliver_webhook (dlv_id dl)) dls)"
    using enqueue_all_run [OF assms(1), of whs] by blast
  have body: "bindM (case ev_user_id e of None \<Rightarrow> returnM True | Some uid \<Rightarrow> channel_enabled uid Webhook_channel) (\<lambda>enabled.
      if \<not> enabled then returnM ()
      else bindM (get_active_for_event_type (ev_type e)) (\<lambda>whs. forM whs (enqueue_delivery S broker now e))) w = (Inr (), w')"
    using w'(1) active unfolding bindM_Inr [where m = ?enabled and w = w, OF enabled] assms(4) by auto
  have "w'\<lparr>w_db := w_committed w'\<rparr> = w'" using w'(2) by (simp add: store_ok_def)
  then have "handle_event S broker now e w = (Inr (), w')"
    using assms(2) by (simp add: handle_event_def with_session_def body)
  then show ?thesis using w' by blast
qed

theorem webhook_dispatch_spec_witness:
  "\<exists>w'. handle_event default_settings (\<lambda>_. True) 5 sample_event hook_world = (Inr (), w') \<and>
    length (t_rows (deliveries (w_committed w'))) = 2 \<and> length (w_tasks w') = 1"
proof -
  let ?whs = "if \<forall>uid. ev_user_id sample_event = Some uid \<longrightarrow> wants (w_db hook_world) uid Webhook_channel
    then filter (\<lambda>wh. wh_tenant_id wh = Some 7 \<and> wh_deleted_at wh = None \<and> wh_is_active wh \<and> subscribed (ev_type sample_event) wh)
      (t_rows (webhooks (w_db hook_world))) else []"
  have whs: "?whs = [sample_webhook]"
    by (simp add: hook_world_def hook_db_def sample_webhook_def subscribed_def wants_def sample_defs)
  have on: "WEBHOOK_ENABLED default_settings" by (simp add: default_settings_def)
  have tenant: "\<forall>wh \<in> set (t_rows (webhooks (w_db hook_world))). wh_is_active wh \<and> subscribed (ev_type sample_event) wh \<longrightarrow>
      wh_tenant_id wh = Some 7 \<and> wh_deleted_at wh = None"
    by (simp add: hook_world_def hook_db_def sample_webhook_def)
  from webhook_dispatch_spec [OF hook_world_ok on tenant refl, where broker = "\<lambda>_. True" and now = 5] obtain w' dls where
    "handle_event default_settings (\<lambda>_. True) 5 sample_event hook_world = (Inr (), w')" "store_ok w'"
    "length dls = 1" "t_rows (deliveries (w_db w')) = t_rows (deliveries (w_db hook_world)) @ dls"
    "length (w_tasks w') = Suc (length (w_tasks hook_world))"
    unfolding whs by (auto dest!: arg_cong [of _ _ length])
  then show ?thesis by (auto simp: store_ok_def hook_world_def hook_db_def sample_world_def)
qed

text \<open>
  Webhooks of a tenant are closed to users of other tenants: whoever is not a superuser and belongs to
  another tenant gets 404 from reading, updating, deleting, pinging and listing deliveries, and nothing changes.
\<close>

theorem webhook_tenant_isolation:
  assumes "store_ok w" and "wh \<in> set (t_rows (webhooks (w_db w)))" and "wh_tenant_id wh = Some t"
    and "user_tenant_id u \<noteq> Some t" and "\<not> user_is_superuser u" and "has_permission u [''webhook:write'']"
  shows "get_webhook (wh_id wh) u w = (Inl (HTTPException 404 ''Webhook not found''), w) \<and>
    update_webhook (wh_id wh) None u o' w = (Inl (HTTPException 404 ''Webhook not found''), w) \<and>
    delete_webhook now (wh_id wh) None u w = (Inl (HTTPException 404 ''Webhook not found''), w) \<and>
    ping_webhook S broker now eid (wh_id wh) None u w = (Inl (HTTPException 404 ''Webhook not found''), w) \<and>
    list_deliveries (wh_id wh) u w = (Inl (HTTPException 404 ''Webhook not found''), w)"
proof -
  have wf: "table_wf (m_rid webhook_model) (m_tbl webhook_model (w_db w))"
    using assms(1) by (simp add: store_ok_def db_keys_def webhook_model_def)
  have "crud_get webhook_model (wh_id wh) False w = (Inr (if wh_deleted_at wh = None then Some wh else None), w)"
  proof (cases "wh_deleted_at wh = None")
    case True
    then have "visible webhook_model False wh" by (simp add: webhook_crud.visible_soft)
    then have "crud_get webhook_model (m_rid webhook_model wh) False w = (Inr (Some wh), w)"
      using assms(2) by (intro webhook_crud.get_by_id [OF wf]) (simp_all add: webhook_model_def)
    then show ?thesis using True by (simp add: webhook_model_def)
  next
    case False
    have "x = wh" if "x \<in> set (t_rows (webhooks (w_db w)))" "wh_id x = wh_id wh" for x
      using distinct_key_unique [OF _ that(1) assms(2) that(2)] wf by (simp add: table_wf_def webhook_model_def)
    then have "crud_get webhook_model (wh_id wh) False w = (Inr None, w)"
      using False by (intro webhook_crud.get_invisible) (simp add: webhook_crud.visible_soft, force simp: webhook_model_def)
    then show ?thesis using False by simp
  qed
  moreover have "get_owned_webhook (if wh_deleted_at wh = None then Some wh else None) u w = (Inl (HTTPException 404 ''Webhook not found''), w)"
    for w :: "'a world"
    using assms(3-5) by (auto simp: get_owned_webhook_def)
  moreover have "permission_checker [''webhook:write''] None u w = (Inr u, w)" for w :: "'a world"
    using assms(6) by (simp add: permission_checker_run)
  ultimately show ?thesis
    by (simp add: get_webhook_def update_webhook_def delete_webhook_def ping_webhook_def list_deliveries_def)
qed

theorem webhook_tenant_isolation_witness:
  "get_webhook 1 (sample_user\<lparr>user_tenant_id := Some 8, user_roles := [\<lparr>role_id = 1, role_name = ''r'', role_permissions = [''webhook:write'']\<rparr>]\<rparr>)
     hook_world = (Inl (HTTPException 404 ''Webhook not found''), hook_world)"
  using webhook_tenant_isolation [OF hook_world_ok, of sample_webhook 7 "sample_user\<lparr>user_tenant_id := Some 8,
      user_roles := [\<lparr>role_id = 1, role_name = ''r'', role_permissions = [''webhook:write'']\<rparr>]\<rparr>"]
  by (simp add: hook_world_def hook_db_def sample_webhook_def sample_user_def has_permission_def)

end
