(* ===== verification/EventBus.thy ===== *)
theory EventBus
  imports Webhooks AuthApi
begin

text \<open>
  Events on the wire and their consumers: \<^verbatim>\<open>app/events/base.py\<close>, the consumer loops of \<^verbatim>\<open>redis_streams.py\<close> and \<^verbatim>\<open>kafka_bus.py\<close>, the bridge to
  the WebSocket clients, the subscriptions made at startup (\<^verbatim>\<open>app/main.py\<close>), the publishing endpoint, and the chat
  endpoint with its authentication.

  A handler is a value of a type \<open>'h\<close>, compared by equality, with a function that runs it. The stream itself is a
  parameter: a batch is what \<^verbatim>\<open>XREADGROUP\<close> with \<open>>\<close> returned, which Redis hands out once; \<open>ack\<close> tells which acknowledgements the
  server accepts. The JSON codec is a parameter. \<^verbatim>\<open>from_json\<close> does not check the types of the fields; an object whose fields
  have other types than the class declares is read here as an error.
\<close>

section \<open>Events as JSON\<close>

definition jopt :: "('a \<Rightarrow> json) \<Rightarrow> 'a option \<Rightarrow> json" where
  "jopt f v = (case v of None \<Rightarrow> JNull | Some x \<Rightarrow> f x)"

definition event_dict :: "event \<Rightarrow> json" where
  "event_dict e = JObj
     [(''id'', jopt JStr (ev_id e)), (''event_type'', JStr (ev_type e)), (''payload'', JObj (ev_payload e)),
      (''timestamp'', jopt JStr (ev_timestamp e)), (''user_id'', jopt JInt (ev_user_id e))]"

definition event_to_json :: "json_codec \<Rightarrow> event \<Rightarrow> string" where
  "event_to_json C e = json_dumps C (event_dict e)"

definition str_field :: "(string \<times> json) list \<Rightarrow> string \<Rightarrow> exn + string" where
  "str_field obj k =
     (case map_of obj k of None \<Rightarrow> Inl (KeyError k) | Some (JStr s) \<Rightarrow> Inr s | Some _ \<Rightarrow> Inl (PyTypeError k))"

definition event_from_json :: "json_codec \<Rightarrow> string \<Rightarrow> exn + event" where
  "event_from_json C data =
     (case json_loads C data of
        None \<Rightarrow> Inl (ValueError ''Expecting value'')
      | Some (JObj obj) \<Rightarrow>
          (case str_field obj ''event_type'' of Inl e \<Rightarrow> Inl e
           | Inr typ \<Rightarrow>
          (case jget_default obj ''payload'' (JObj []) of
             JObj payload \<Rightarrow>
               (case str_field obj ''id'' of Inl e \<Rightarrow> Inl e
                | Inr i \<Rightarrow>
               (case str_field obj ''timestamp'' of Inl e \<Rightarrow> Inl e
                | Inr ts \<Rightarrow>
               (case jget obj ''user_id'' of
                  JNull \<Rightarrow> Inr \<lparr>ev_type = typ, ev_payload = payload, ev_id = Some i, ev_timestamp = Some ts, ev_user_id = None\<rparr>
                | JInt u \<Rightarrow> Inr \<lparr>ev_type = typ, ev_payload = payload, ev_id = Some i, ev_timestamp = Some ts, ev_user_id = Some u\<rparr>
                | _ \<Rightarrow> Inl (PyTypeError ''user_id''))))
           | _ \<Rightarrow> Inl (PyTypeError ''payload'')))
      | Some _ \<Rightarrow> Inl (PyTypeError ''indices must be integers''))"

section \<open>Subscriptions\<close>

type_synonym 'h registry = "(string \<times> 'h list) list"

definition handlers_of :: "'h registry \<Rightarrow> string \<Rightarrow> 'h list" where
  "handlers_of hs t = (case map_of hs t of None \<Rightarrow> [] | Some xs \<Rightarrow> xs)"

definition bus_subscribe :: "string \<Rightarrow> 'h \<Rightarrow> 'h registry \<Rightarrow> 'h registry" where
  "bus_subscribe t h hs = AList.update t (handlers_of hs t @ [h]) hs"

definition bus_unsubscribe :: "string \<Rightarrow> 'h \<Rightarrow> 'h registry \<Rightarrow> 'h registry" where
  "bus_unsubscribe t h hs = (case map_of hs t of None \<Rightarrow> hs | Some xs \<Rightarrow> AList.update t (remove1 h xs) hs)"

definition matching_handlers :: "'h registry \<Rightarrow> event \<Rightarrow> 'h list" where
  "matching_handlers hs e = handlers_of hs ''*'' @ handlers_of hs (ev_type e)"

section \<open>The consumer of the Redis stream\<close>

text \<open>Runs the handlers in turn; the answer tells whether one of them raised.\<close>

fun run_handlers :: "('h \<Rightarrow> event \<Rightarrow> ('r, unit) app) \<Rightarrow> event \<Rightarrow> 'h list \<Rightarrow> ('r, bool) app" where
  "run_handlers run e [] = returnM False"
| "run_handlers run e (h # hs) =
     bindM (tryM (thenM (run h e) (returnM False)) (\<lambda>_. returnM True)) (\<lambda>failed.
       bindM (run_handlers run e hs) (\<lambda>failed'. returnM (failed \<or> failed')))"

type_synonym message = "string \<times> (string \<times> string) list"

definition message_event :: "json_codec \<Rightarrow> message \<Rightarrow> exn + event" where
  "message_event C m = (case map_of (snd m) ''event'' of None \<Rightarrow> Inl (KeyError ''event'') | Some s \<Rightarrow> event_from_json C s)"

text \<open>
  One round of the loop on the messages it read: the ids it acknowledged, and the exception that ended the round
  early, if one did. The loop logs the exception and reads the next batch.
\<close>

fun consume_batch ::
  "json_codec \<Rightarrow> ('h \<Rightarrow> event \<Rightarrow> ('r, unit) app) \<Rightarrow> 'h registry \<Rightarrow> (string \<Rightarrow> bool) \<Rightarrow> message list \<Rightarrow> ('r, string list \<times> exn option) app" where
  "consume_batch C run hs ack [] = returnM ([], None)"
| "consume_batch C run hs ack (m # ms) =
     (case message_event C m of Inl ex \<Rightarrow> returnM ([], Some ex)
      | Inr e \<Rightarrow>
          bindM (run_handlers run e (matching_handlers hs e)) (\<lambda>failed.
            if failed then consume_batch C run hs ack ms
            else if \<not> ack (fst m) then returnM ([], Some (ServiceError ''XACK''))
            else bindM (consume_batch C run hs ack ms) (\<lambda>(ids, ex). returnM (fst m # ids, ex))))"

section \<open>The Kafka bus\<close>

definition kafka_value :: "event \<Rightarrow> json" where
  "kafka_value e = JObj
     [(''event_type'', JStr (ev_type e)), (''payload'', JObj (ev_payload e)), (''id'', jopt JStr (ev_id e)),
      (''timestamp'', jopt JStr (ev_timestamp e))]"

definition kafka_event :: "json \<Rightarrow> exn + event" where
  "kafka_event v =
     (case v of JObj d \<Rightarrow>
        (case str_field d ''event_type'' of Inl e \<Rightarrow> Inl e
         | Inr typ \<Rightarrow>
        (case map_of d ''payload'' of None \<Rightarrow> Inl (KeyError ''payload'')
         | Some (JObj payload) \<Rightarrow>
             (case str_field d ''id'' of Inl e \<Rightarrow> Inl e
              | Inr i \<Rightarrow>
             (case str_field d ''timestamp'' of Inl e \<Rightarrow> Inl e
              | Inr ts \<Rightarrow> Inr \<lparr>ev_type = typ, ev_payload = payload, ev_id = Some i, ev_timestamp = Some ts, ev_user_id = None\<rparr>))
         | Some _ \<Rightarrow> Inl (PyTypeError ''payload'')))
      | _ \<Rightarrow> Inl (PyTypeError ''indices must be integers''))"

section \<open>The application's consumers\<close>

datatype dispatcher = Webhook_dispatcher | Notification_dispatcher

definition run_dispatcher ::
  "settings \<Rightarrow> json_codec \<Rightarrow> (json \<Rightarrow> string) \<Rightarrow> (socket \<Rightarrow> bool) \<Rightarrow> broker \<Rightarrow> datetime \<Rightarrow> dispatcher \<Rightarrow> event \<Rightarrow> ('r, unit) app" where
  "run_dispatcher S C repr alive broker now d e =
     (case d of Webhook_dispatcher \<Rightarrow> handle_event S broker now e
      | Notification_dispatcher \<Rightarrow> handle_notification_event S C repr alive broker e)"

text \<open>The subscriptions that \<^verbatim>\<open>lifespan\<close> makes when the bus is reachable.\<close>

definition startup_registry :: "settings \<Rightarrow> dispatcher registry" where
  "startup_registry S =
     (if ENVIRONMENT S = ''test'' then []
      else (let hs = (if WEBHOOK_ENABLED S then bus_subscribe ''*'' Webhook_dispatcher [] else [])
            in if NOTIFICATION_ENABLED S then bus_subscribe ''*'' Notification_dispatcher hs else hs))"

definition broadcast_event :: "(socket \<Rightarrow> bool) \<Rightarrow> event \<Rightarrow> ('r, unit) app" where
  "broadcast_event alive e = broadcast alive (''event:'' @ ev_type e @ '': '' @ event_id e)"

definition process_event_task :: "json_codec \<Rightarrow> (socket \<Rightarrow> bool) \<Rightarrow> string \<Rightarrow> ('r, unit) app" where
  "process_event_task C alive event_json = bindM (liftM (event_from_json C event_json)) (broadcast_event alive)"

text \<open>The endpoint that publishes an event: no authentication is required.\<close>

definition publish_event :: "bus \<Rightarrow> string \<Rightarrow> string \<Rightarrow> string \<Rightarrow> (string \<times> json) list \<Rightarrow> ('r, (string \<times> json) list) app" where
  "publish_event bus uuid ts event_type payload =
     (let e = \<lparr>ev_type = event_type, ev_payload = payload, ev_id = Some uuid, ev_timestamp = Some ts, ev_user_id = None\<rparr>
      in thenM (publish bus e)
          (returnM [(''id'', JStr uuid), (''event_type'', JStr event_type), (''status'', JStr ''published'')]))"

section \<open>The chat socket\<close>

definition ws_policy_violation :: exn where
  "ws_policy_violation = ServiceError ''WebSocketDisconnect 1008''"

definition get_current_user_ws :: "settings \<Rightarrow> jose \<Rightarrow> datetime \<Rightarrow> string option \<Rightarrow> ('r, int) app" where
  "get_current_user_ws S J now token =
     (case token of
        Some (c # cs) \<Rightarrow>
          bindM (liftM (decode_access_token S J (timegm now) (c # cs))) (\<lambda>payload.
            case cl_sub payload of None \<Rightarrow> raiseM ws_policy_violation
            | Some sub \<Rightarrow>
                bindM (liftM (int_exn sub)) (\<lambda>uid.
                  bindM (with_session (crud_get user_model uid False)) (\<lambda>u.
                    if u = None then raiseM ws_policy_violation else returnM uid)))
      | _ \<Rightarrow> raiseM ws_policy_violation)"

text \<open>The endpoint for a client that sends the given texts and then disconnects.\<close>

definition chat_endpoint :: "settings \<Rightarrow> jose \<Rightarrow> datetime \<Rightarrow> (socket \<Rightarrow> bool) \<Rightarrow> socket \<Rightarrow> string option \<Rightarrow> string list \<Rightarrow> ('r, unit) app" where
  "chat_endpoint S J now alive ws token texts =
     bindM (get_current_user_ws S J now token) (\<lambda>uid.
       thenM (ws_connect ws (show_int uid))
        (thenM (forM texts (\<lambda>data. broadcast alive (''User '' @ show_int uid @ '': '' @ data)))
          (ws_disconnect ws (show_int uid))))"

section \<open>What the bus guarantees\<close>

text \<open>
  An event survives the wire. What \<^verbatim>\<open>to_json\<close> wrote, \<^verbatim>\<open>from_json\<close> reads back as the same event, on a codec that loads the
  dumped object as it was. Over Kafka it loses the user it belongs to.
\<close>

theorem event_json_roundtrip:
  assumes "json_loads C (json_dumps C (event_dict e)) = Some (event_dict e)" and "ev_id e = Some i" and "ev_timestamp e = Some ts"
  shows "event_from_json C (event_to_json C e) = Inr e \<and> kafka_event (kafka_value e) = Inr (e\<lparr>ev_user_id := None\<rparr>)"
proof -
  have e: "e = \<lparr>ev_type = ev_type e, ev_payload = ev_payload e, ev_id = Some i, ev_timestamp = Some ts, ev_user_id = ev_user_id e\<rparr>"
    using assms(2,3) by (metis event.surjective old.unit.exhaust)
  have "event_from_json C (event_to_json C e) =
      Inr \<lparr>ev_type = ev_type e, ev_payload = ev_payload e, ev_id = Some i, ev_timestamp = Some ts, ev_user_id = ev_user_id e\<rparr>"
    using assms by (simp add: event_from_json_def event_to_json_def event_dict_def str_field_def jget_default_def jget_def jopt_def split: option.split)
  moreover have "kafka_event (kafka_value e) =
      Inr \<lparr>ev_type = ev_type e, ev_payload = ev_payload e, ev_id = Some i, ev_timestamp = Some ts, ev_user_id = None\<rparr>"
    using assms(2,3) by (simp add: kafka_event_def kafka_value_def str_field_def jopt_def)
  ultimately show ?thesis using e by (metis event.update_convs(5))
qed

definition sample_wire_event :: event where
  "sample_wire_event = \<lparr>ev_type = ''ping'', ev_payload = [(''n'', JInt 1)], ev_id = Some ''e1'', ev_timestamp = Some ''t'', ev_user_id = Some 3\<rparr>"

definition wire_codec :: json_codec where
  "wire_codec = \<lparr>json_dumps = (\<lambda>j. if j = event_dict sample_wire_event then ''e'' else []),
     json_loads = (\<lambda>s. if s = ''e'' then Some (event_dict sample_wire_event) else None)\<rparr>"

theorem event_json_roundtrip_witness:
  "event_from_json wire_codec (event_to_json wire_codec sample_wire_event) = Inr sample_wire_event \<and>
   kafka_event (kafka_value sample_wire_event) = Inr (sample_wire_event\<lparr>ev_user_id := None\<rparr>)"
  using event_json_roundtrip [of wire_codec sample_wire_event "''e1''" "''t''"] by (simp add: wire_codec_def sample_wire_event_def)

text \<open>So, over Kafka, no notification is ever dispatched.\<close>

lemma kafka_notifications_lost:
  assumes "kafka_event v = Inr e"
  shows "handle_notification_event S C repr alive broker e w = (Inr (), w)"
proof -
  have "ev_user_id e = None" using assms by (auto simp: kafka_event_def split: json.splits sum.splits option.splits)
  then show ?thesis by (simp add: handle_notification_event_def)
qed

lemma handlers_of_bus_subscribe: "handlers_of (bus_subscribe t h hs) t' = (if t' = t then handlers_of hs t @ [h] else handlers_of hs t')"
  by (simp add: handlers_of_def bus_subscribe_def update_conv)

lemma handlers_of_unsubscribe: "handlers_of (bus_unsubscribe t h hs) t' = (if t' = t then remove1 h (handlers_of hs t) else handlers_of hs t')"
  by (simp add: handlers_of_def bus_unsubscribe_def update_conv split: option.split)

lemma tryM_silent: "\<exists>w'. tryM m (\<lambda>_. returnM ()) w = (Inr (), w')"
  by (simp add: tryM_def split: prod.split sum.split)

lemma dispatchers_silent: "\<exists>w'. run_dispatcher S C repr alive broker now d e w = (Inr (), w')"
  by (cases d) (simp_all add: run_dispatcher_def handle_event_def handle_notification_event_def tryM_silent split: option.split)

lemma run_handlers_silent:
  assumes "\<And>h w. \<exists>w'. run h e w = (Inr (), w')"
  shows "run_handlers run e hs w = (Inr False, snd (forM hs (\<lambda>h. run h e) w))"
proof (induction hs arbitrary: w)
  case (Cons h hs)
  obtain w' where run: "run h e w = (Inr (), w')" using assms by blast
  then show ?case using Cons by (simp add: thenM_def bindM_def tryM_def)
qed simp

lemma startup_matching:
  assumes "ENVIRONMENT S \<noteq> ''test''" "WEBHOOK_ENABLED S" "NOTIFICATION_ENABLED S" "ev_type e \<noteq> ''*''"
  shows "matching_handlers (startup_registry S) e = [Webhook_dispatcher, Notification_dispatcher]"
  using assms by (simp add: matching_handlers_def startup_registry_def handlers_of_bus_subscribe) (simp add: handlers_of_def)

lemma consume_malformed:
  assumes "message_event C bad = Inl ex"
  shows "consume_batch C run hs ack (good @ bad # rest) w =
    (case consume_batch C run hs ack good w of (Inr (ids, None), w') \<Rightarrow> (Inr (ids, Some ex), w') | r \<Rightarrow> r)"
proof (induction good arbitrary: w)
  case Nil
  then show ?case using assms by simp
next
  case (Cons m ms)
  show ?case
    by (cases "message_event C m")
      (auto simp: Cons bindM_def split: prod.split sum.split option.split)
qed

text \<open>The messages that \<^verbatim>\<open>from_json\<close> raises on.\<close>

definition malformed :: "json_codec \<Rightarrow> message \<Rightarrow> bool" where
  "malformed C m =
     (case map_of (snd m) ''event'' of None \<Rightarrow> True
      | Some s \<Rightarrow>
          (case json_loads C s of
             Some (JObj obj) \<Rightarrow> map_of obj ''event_type'' = None \<or> map_of obj ''id'' = None \<or> map_of obj ''timestamp'' = None
           | _ \<Rightarrow> True))"

lemma malformed_error:
  assumes "malformed C m"
  shows "\<exists>ex. message_event C m = Inl ex"
  using assms by (auto simp: malformed_def message_event_def event_from_json_def str_field_def split: option.splits json.splits sum.splits)

definition dispatch_both ::
  "settings \<Rightarrow> json_codec \<Rightarrow> (json \<Rightarrow> string) \<Rightarrow> (socket \<Rightarrow> bool) \<Rightarrow> broker \<Rightarrow> datetime \<Rightarrow> event \<Rightarrow> ('r, unit) app" where
  "dispatch_both S C repr alive broker now e = thenM (handle_event S broker now e) (handle_notification_event S C repr alive broker e)"

lemma consume_wellformed:
  assumes "ENVIRONMENT S \<noteq> ''test''" "WEBHOOK_ENABLED S" "NOTIFICATION_ENABLED S"
  shows "list_all2 (\<lambda>m e. message_event C m = Inr e \<and> ev_type e \<noteq> ''*'' \<and> ack (fst m)) ms es \<Longrightarrow>
    consume_batch C (run_dispatcher S C repr alive broker now) (startup_registry S) ack ms w =
      (Inr (map fst ms, None), snd (forM es (dispatch_both S C repr alive broker now) w))"
proof (induction ms es arbitrary: w rule: list_all2_induct)
  case (Cons m ms e es)
  let ?run = "run_dispatcher S C repr alive broker now"
  have match: "matching_handlers (startup_registry S) e = [Webhook_dispatcher, Notification_dispatcher]"
    using Cons.hyps(1) by (intro startup_matching assms) simp
  obtain w1 where w1: "handle_event S broker now e w = (Inr (), w1)"
    using dispatchers_silent [of S C repr alive broker now Webhook_dispatcher e w] by (auto simp: run_dispatcher_def)
  obtain w2 where w2: "handle_notification_event S C repr alive broker e w1 = (Inr (), w2)"
    using dispatchers_silent [of S C repr alive broker now Notification_dispatcher e w1] by (auto simp: run_dispatcher_def)
  have "run_handlers ?run e [Webhook_dispatcher, Notification_dispatcher] w = (Inr False, w2)"
    unfolding run_handlers_silent [OF dispatchers_silent] using w1 w2 by (simp add: run_dispatcher_def)
  then show ?case using Cons match w1 w2 by (simp add: dispatch_both_def bindM_def del: run_handlers.simps)
qed simp

text \<open>
  The consumption of the event stream. Whatever the handlers meet, a batch of well-formed messages is dispatched
  in order, each event to the webhooks and then to the notifications, and acknowledged message by message. A malformed
  message (no event, no JSON object, or no type, id or time stamp in it) ends the round: the messages before it are handled,
  those after it are neither dispatched nor acknowledged, and the stream does not hand them out again.
\<close>

theorem event_stream_consumption:
  assumes "ENVIRONMENT S \<noteq> ''test''" and "WEBHOOK_ENABLED S" and "NOTIFICATION_ENABLED S"
    and "list_all2 (\<lambda>m e. message_event C m = Inr e \<and> ev_type e \<noteq> ''*'' \<and> ack (fst m)) ms es"
  shows "consume_batch C (run_dispatcher S C repr alive broker now) (startup_registry S) ack ms w =
      (Inr (map fst ms, None), snd (forM es (dispatch_both S C repr alive broker now) w)) \<and>
    (malformed C bad \<longrightarrow>
     (\<exists>ex. consume_batch C (run_dispatcher S C repr alive broker now) (startup_registry S) ack (ms @ bad # rest) w =
      (Inr (map fst ms, Some ex), snd (forM es (dispatch_both S C repr alive broker now) w))))"
proof -
  have "malformed C bad \<Longrightarrow> \<exists>ex. message_event C bad = Inl ex" by (rule malformed_error)
  then show ?thesis
    using consume_malformed [of C bad _ "run_dispatcher S C repr alive broker now" "startup_registry S" ack ms rest w]
    by (auto simp: consume_wellformed [OF assms])
qed

definition event_codec :: json_codec where
  "event_codec = \<lparr>json_dumps = (\<lambda>_. ''e''),
     json_loads = (\<lambda>s. if s = ''e'' then Some (JObj [(''event_type'', JStr ''ping''), (''id'', JStr ''e1''), (''timestamp'', JStr ''t'')]) else None)\<rparr>"

theorem event_stream_consumption_witness:
  "\<exists>ex. fst (consume_batch event_codec (run_dispatcher default_settings event_codec (\<lambda>_. []) (\<lambda>_. True) (\<lambda>_. True) 0)
     (startup_registry default_settings) (\<lambda>_. True)
     ([(''1-0'', [(''event'', ''e'')])] @ (''2-0'', [(''event'', ''?'')]) # [(''3-0'', [(''event'', ''e'')])]) sample_world) =
   Inr ([''1-0''], Some ex)"
proof -
  let ?e = "\<lparr>ev_type = ''ping'', ev_payload = [], ev_id = Some ''e1'', ev_timestamp = Some ''t'', ev_user_id = None\<rparr>"
  have "list_all2 (\<lambda>m e. message_event event_codec m = Inr e \<and> ev_type e \<noteq> ''*'' \<and> True) [(''1-0'', [(''event'', ''e'')])] [?e]"
    by (simp add: message_event_def event_from_json_def event_codec_def str_field_def jget_default_def jget_def)
  moreover have "malformed event_codec (''2-0'', [(''event'', ''?'')])"
    by (simp add: malformed_def event_codec_def)
  moreover have "ENVIRONMENT default_settings \<noteq> ''test''" "WEBHOOK_ENABLED default_settings" "NOTIFICATION_ENABLED default_settings"
    by (simp_all add: default_settings_def)
  ultimately show ?thesis
    using event_stream_consumption [of default_settings event_codec "\<lambda>_. True" "[(''1-0'', [(''event'', ''e'')])]" "[?e]" "\<lambda>_. []" "\<lambda>_. True"
        "\<lambda>_. True" 0 sample_world "(''2-0'', [(''event'', ''?'')])" "[(''3-0'', [(''event'', ''e'')])]"]
    by (auto simp del: consume_batch.simps)
qed

text \<open>A user's socket is accepted on the token alone: neither a revocation nor a deactivated account is looked at.\<close>

lemma ws_accepts:
  assumes "store_ok w" "u \<in> set (t_rows (users (w_db w)))" "user_deleted_at u = None"
    and "decode_access_token S J (timegm now) (c # cs) = Inr p" "cl_sub p = Some (show_int (user_id u))"
  shows "get_current_user_ws S J now (Some (c # cs)) w = (Inr (user_id u), w)"
proof -
  have wf: "table_wf (m_rid user_model) (m_tbl user_model (w_db w))" using assms(1) by (simp add: model_defs db_keys_def store_ok_def)
  have "visible user_model False u" using assms(3) by (simp add: user_crud.visible_soft)
  then have "crud_get user_model (m_rid user_model u) False w = (Inr (Some u), w)"
    using assms(2) by (intro user_crud.get_by_id [OF wf]) (simp_all add: model_defs)
  then have "crud_get user_model (user_id u) False w = (Inr (Some u), w)" by (simp add: user_model_def)
  then have "with_session (crud_get user_model (user_id u) False) w = (Inr (Some u), w)"
    using assms(1) by (simp add: with_session_def store_ok_def)
  then show ?thesis using assms(4,5) by (simp add: get_current_user_ws_def bindM_def liftM_def int_exn_def)
qed

end
