(* ===== verification/Web.thy ===== *)
theory Web
  imports AuthApi
begin

text \<open>
  Requests, responses and middleware. Header names are lower case, as Starlette compares them. A middleware takes the
  next handler and gives a handler; \<open>add_middlewares\<close> builds the stack as Starlette does: the class added first is the
  innermost, the one added last the outermost. \<open>req_user_id\<close> is \<^verbatim>\<open>request.state.user_id\<close>.
\<close>

record request =
  req_method :: string
  req_path :: string
  req_headers :: "(string \<times> string) list"
  req_cookies :: "(string \<times> string) list"
  req_form :: "(string \<times> string) list"
  req_query :: "(string \<times> string) list"
  req_client :: "string option"
  req_user_id :: "string option"

record web_response =
  res_status :: int
  res_headers :: "(string \<times> string) list"
  res_body :: string
  res_cookies :: "(string \<times> string) list"

type_synonym 'r handler = "request \<Rightarrow> ('r, web_response) app"

definition header :: "request \<Rightarrow> string \<Rightarrow> string option" where
  "header rq name = map_of (req_headers rq) name"

definition plain_response :: "int \<Rightarrow> string \<Rightarrow> web_response" where
  "plain_response status body = \<lparr>res_status = status, res_headers = [(''content-type'', ''text/plain; charset=utf-8'')],
     res_body = body, res_cookies = []\<rparr>"

text \<open>\<open>response.headers[name] = value\<close>\<close>

definition set_header :: "string \<Rightarrow> string \<Rightarrow> web_response \<Rightarrow> web_response" where
  "set_header name v r = r\<lparr>res_headers := filter (\<lambda>(n, _). n \<noteq> name) (res_headers r) @ [(name, v)]\<rparr>"

definition add_middlewares :: "('r handler \<Rightarrow> 'r handler) list \<Rightarrow> 'r handler \<Rightarrow> 'r handler" where
  "add_middlewares ms app = fold (\<lambda>m h. m h) ms app"

lemma add_middlewares_append: "add_middlewares (ms @ [m]) app = m (add_middlewares ms app)"
  by (simp add: add_middlewares_def)

lemma add_middlewares_Nil [simp]: "add_middlewares [] app = app"
  by (simp add: add_middlewares_def)

lemma set_header_rest [simp]:
  "res_status (set_header n v r) = res_status r" "res_body (set_header n v r) = res_body r" "res_cookies (set_header n v r) = res_cookies r"
  by (simp_all add: set_header_def)

lemma header_set [simp]: "map_of (res_headers (set_header n v r)) n' = (if n' = n then Some v else map_of (res_headers r) n')"
proof -
  have "map_of (filter (\<lambda>(m, _). m \<noteq> n) xs) n' = (if n' = n then None else map_of xs n')" for xs :: "(string \<times> string) list"
    by (induction xs) auto
  then show ?thesis by (simp add: set_header_def map_add_def split: option.split)
qed

text \<open>The address of the client: the first entry of \<open>X-Forwarded-For\<close>, else the peer.\<close>

definition forwarded_address :: "request \<Rightarrow> string option" where
  "forwarded_address rq =
     (case header rq ''x-forwarded-for'' of
        Some (c # cs) \<Rightarrow> Some (py_strip (hd (py_split CHR '','' (c # cs))))
      | _ \<Rightarrow> req_client rq)"

end
