(* ===== verification/IpAddress.thy ===== *)
theory IpAddress
  imports PyLib
begin

text \<open>
  The part of Python's \<^verbatim>\<open>ipaddress\<close> module that \<^verbatim>\<open>app/middleware/tenant_ip_access.py\<close> uses: \<^verbatim>\<open>ip_address\<close> and \<^verbatim>\<open>ip_network\<close> on
  texts, equality and membership. Addresses are integers with a version (and a scope id for IPv6); \<open>None\<close> stands for the
  \<open>ValueError\<close> of a malformed text. The membership test masks the address bitwise; \<open>in_network_interval\<close> shows that
  this is membership in an interval of addresses.
\<close>

unbundle bit_operations_syntax

section \<open>Addresses\<close>

datatype ip = IPv4 int | IPv6 int "string option"

fun ip_version :: "ip \<Rightarrow> nat" where
  "ip_version (IPv4 n) = 4"
| "ip_version (IPv6 n sc) = 6"

fun ip_int :: "ip \<Rightarrow> int" where
  "ip_int (IPv4 n) = n"
| "ip_int (IPv6 n sc) = n"

definition ip_bits :: "nat \<Rightarrow> nat" where
  "ip_bits v = (if v = 4 then 32 else 128)"

text \<open>A group of an IPv4 address: one to three digits without a leading zero, at most 255.\<close>

definition parse_octet :: "string \<Rightarrow> int option" where
  "parse_octet s =
     (if s = [] \<or> \<not> list_all is_digit s \<or> length s > 3 \<or> (s \<noteq> ''0'' \<and> hd s = CHR ''0'') then None
      else if digits_val s > 255 then None else Some (int (digits_val s)))"

text \<open>The optional results of a list, if all are there.\<close>

fun all_some :: "'a option list \<Rightarrow> 'a list option" where
  "all_some [] = Some []"
| "all_some (None # xs) = None"
| "all_some (Some x # xs) = map_option (Cons x) (all_some xs)"

definition big_endian :: "int \<Rightarrow> int list \<Rightarrow> int" where
  "big_endian base ds = foldl (\<lambda>acc d. acc * base + d) 0 ds"

definition parse_ipv4 :: "string \<Rightarrow> int option" where
  "parse_ipv4 s =
     (let octets = py_split CHR ''.'' s
      in if length octets \<noteq> 4 then None else map_option (big_endian 256) (all_some (map parse_octet octets)))"

definition hex_value :: "char \<Rightarrow> nat option" where
  "hex_value c =
     (let n = (of_char c :: nat)
      in if is_digit c then Some (digit_val c)
         else if 97 \<le> n \<and> n \<le> 102 then Some (n - 87)
         else if 65 \<le> n \<and> n \<le> 70 then Some (n - 55) else None)"

definition parse_hextet :: "string \<Rightarrow> int option" where
  "parse_hextet s =
     (if s = [] \<or> length s > 4 then None
      else map_option (\<lambda>ds. big_endian 16 (map int ds)) (all_some (map hex_value s)))"

text \<open>A trailing IPv4 part is replaced by the two groups it stands for.\<close>

definition ipv6_groups :: "string list \<Rightarrow> int option list option" where
  "ipv6_groups parts =
     (if CHR ''.'' \<in> set (last parts)
      then (case parse_ipv4 (last parts) of None \<Rightarrow> None
            | Some n \<Rightarrow> Some (map parse_hextet (butlast parts) @ [Some (n div 65536 mod 65536), Some (n mod 65536)]))
      else Some (map parse_hextet parts))"

definition empty_groups :: "string list \<Rightarrow> bool list" where
  "empty_groups parts = map (\<lambda>p. p = []) (if CHR ''.'' \<in> set (last parts) then butlast parts @ [''0'', ''0''] else parts)"

text \<open>\<^verbatim>\<open>IPv6Address._ip_int_from_string\<close>: at most one empty inner group, which stands for the missing zeros.\<close>

definition ipv6_expand :: "bool list \<Rightarrow> int option list \<Rightarrow> int option list option" where
  "ipv6_expand es gs =
     (let n = length gs
      in if n > 9 then None
         else case filter (\<lambda>i. es ! i) [1..<n - 1] of
           [] \<Rightarrow> (if n \<noteq> 8 then None else Some gs)
         | [i] \<Rightarrow>
             (let hi = (if hd es then i - 1 else i);
                  lo = (if last es then n - i - 2 else n - i - 1)
              in if (hd es \<and> hi \<noteq> 0) \<or> (last es \<and> lo \<noteq> 0) \<or> 8 \<le> hi + lo then None
                 else Some (take hi gs @ replicate (8 - (hi + lo)) (Some 0) @ drop (n - lo) gs))
         | _ \<Rightarrow> None)"

definition parse_ipv6_int :: "string \<Rightarrow> int option" where
  "parse_ipv6_int s =
     (let parts = py_split CHR '':'' s
      in if s = [] \<or> length parts < 3 then None
         else case ipv6_groups parts of None \<Rightarrow> None
         | Some gs \<Rightarrow>
             (case ipv6_expand (empty_groups parts) gs of None \<Rightarrow> None
              | Some full \<Rightarrow> map_option (big_endian 65536) (all_some full)))"

definition parse_ipv6 :: "string \<Rightarrow> ip option" where
  "parse_ipv6 s =
     (if CHR ''/'' \<in> set s then None
      else if CHR ''%'' \<in> set s
      then (case py_split1 CHR ''%'' s of (addr, sc) \<Rightarrow>
              if sc = [] \<or> CHR ''%'' \<in> set sc then None else map_option (\<lambda>n. IPv6 n (Some sc)) (parse_ipv6_int addr))
      else map_option (\<lambda>n. IPv6 n None) (parse_ipv6_int s))"

definition ip_address :: "string \<Rightarrow> ip option" where
  "ip_address s =
     (case (if CHR ''/'' \<in> set s then None else parse_ipv4 s) of Some n \<Rightarrow> Some (IPv4 n) | None \<Rightarrow> parse_ipv6 s)"

section \<open>Networks\<close>

definition all_ones :: "nat \<Rightarrow> int" where
  "all_ones w = mask w"

definition netmask :: "nat \<Rightarrow> nat \<Rightarrow> int" where
  "netmask w p = all_ones w XOR drop_bit p (all_ones w)"

record ip_net =
  net_version :: nat
  net_address :: int
  net_prefix :: nat

text \<open>A prefix length in decimal digits.\<close>

definition parse_prefix :: "nat \<Rightarrow> string \<Rightarrow> nat option" where
  "parse_prefix w s = (if s \<noteq> [] \<and> list_all is_digit s \<and> digits_val s \<le> w then Some (digits_val s) else None)"

text \<open>An IPv4 mask may also be written as a net mask or as a host mask.\<close>

definition prefix_of_mask :: "int \<Rightarrow> nat option" where
  "prefix_of_mask n = List.find (\<lambda>p. netmask 32 p = n) [0..<33]"

definition parse_ipv4_prefix :: "string \<Rightarrow> nat option" where
  "parse_ipv4_prefix s =
     (if s \<noteq> [] \<and> list_all is_digit s then parse_prefix 32 s
      else case parse_ipv4 s of None \<Rightarrow> None
      | Some n \<Rightarrow> (case prefix_of_mask n of Some p \<Rightarrow> Some p | None \<Rightarrow> prefix_of_mask (n XOR all_ones 32)))"

text \<open>\<^verbatim>\<open>ip_network(s)\<close> is strict: host bits must be zero.\<close>

definition strict_net :: "nat \<Rightarrow> int \<Rightarrow> nat \<Rightarrow> ip_net option" where
  "strict_net v a p =
     (if a AND netmask (ip_bits v) p = a then Some \<lparr>net_version = v, net_address = a, net_prefix = p\<rparr> else None)"

definition ip_network :: "string \<Rightarrow> ip_net option" where
  "ip_network s =
     (case py_split CHR ''/'' s of
        [addr, pre] \<Rightarrow>
          (case (parse_ipv4 addr, parse_ipv4_prefix pre) of
             (Some a, Some p) \<Rightarrow> strict_net 4 a p
           | _ \<Rightarrow> (case (parse_ipv6 addr, parse_prefix 128 pre) of
                    (Some x, Some p) \<Rightarrow> strict_net 6 (ip_int x) p | _ \<Rightarrow> None))
      | _ \<Rightarrow> None)"

definition in_network :: "ip \<Rightarrow> ip_net \<Rightarrow> bool" where
  "in_network x net \<longleftrightarrow>
     ip_version x = net_version net \<and> ip_int x AND netmask (ip_bits (net_version net)) (net_prefix net) = net_address net"

section \<open>Masks and intervals\<close>

lemma bit_all_ones [simp]: "bit (all_ones w) i \<longleftrightarrow> i < w"
  by (simp add: all_ones_def bit_mask_iff)

lemma bit_netmask: "bit (netmask w p) i \<longleftrightarrow> i < w \<and> \<not> p + i < w"
  by (auto simp: netmask_def bit_simps)

lemma and_netmask:
  assumes "0 \<le> n" "n < 2 ^ w" "p \<le> w"
  shows "n AND netmask w p = n div 2 ^ (w - p) * 2 ^ (w - p)"
proof -
  have high: "i < w" if "bit n i" for i
  proof -
    have "take_bit w n = n" using assms(1,2) by (simp add: take_bit_int_eq_self)
    then have "bit (take_bit w n) i" using that by simp
    then show ?thesis by (simp add: bit_take_bit_iff)
  qed
  have "n AND netmask w p = push_bit (w - p) (drop_bit (w - p) n)"
    using assms(3) high by (intro bit_eqI) (auto simp: bit_simps bit_netmask not_less)
  then show ?thesis by (simp add: push_bit_eq_mult drop_bit_eq_div)
qed

lemma in_interval_iff:
  fixes a n :: int
  assumes "a mod 2 ^ k = 0"
  shows "n div 2 ^ k * 2 ^ k = a \<longleftrightarrow> a \<le> n \<and> n < a + 2 ^ k"
proof -
  have a: "a = a div 2 ^ k * 2 ^ k" using assms by (simp add: minus_mod_eq_div_mult [symmetric])
  have "n = n div 2 ^ k * 2 ^ k + n mod 2 ^ k" by (rule div_mult_mod_eq [symmetric])
  moreover have "0 \<le> n mod 2 ^ k" "n mod 2 ^ k < 2 ^ k" by simp_all
  ultimately have n: "n div 2 ^ k * 2 ^ k \<le> n" "n < n div 2 ^ k * 2 ^ k + 2 ^ k" by linarith+
  show ?thesis
  proof
    assume "a \<le> n \<and> n < a + 2 ^ k"
    moreover define q where "q = a div 2 ^ k"
    ultimately have "q * 2 ^ k \<le> n" "n < (q + 1) * 2 ^ k" using a by (simp_all add: distrib_right)
    with n have "q * 2 ^ k < (n div 2 ^ k + 1) * 2 ^ k" "n div 2 ^ k * 2 ^ k < (q + 1) * 2 ^ k"
      by (simp_all add: distrib_right)
    then have "q < n div 2 ^ k + 1" "n div 2 ^ k < q + 1" by (simp_all only: mult_less_cancel_right) auto
    then have "n div 2 ^ k = q" by simp
    then show "n div 2 ^ k * 2 ^ k = a" using a by (simp add: q_def)
  qed (use n in auto)
qed

lemma strict_net_aligned:
  assumes "strict_net v a p = Some net" "0 \<le> a" "a < 2 ^ ip_bits v" "p \<le> ip_bits v"
  shows "a mod 2 ^ (ip_bits v - p) = 0"
proof -
  have "a div 2 ^ (ip_bits v - p) * 2 ^ (ip_bits v - p) = a"
    using assms and_netmask [OF assms(2-4)] by (simp add: strict_net_def split: if_splits)
  then show ?thesis by (metis mod_mult_self2_is_0)
qed

text \<open>Membership in a strict network is membership in the interval of its addresses.\<close>

lemma in_network_interval:
  assumes "strict_net v a p = Some net" "0 \<le> a" "a < 2 ^ ip_bits v" "p \<le> ip_bits v"
    and "ip_version x = v" "0 \<le> ip_int x" "ip_int x < 2 ^ ip_bits v"
  shows "in_network x net \<longleftrightarrow> a \<le> ip_int x \<and> ip_int x < a + 2 ^ (ip_bits v - p)"
proof -
  have net: "net = \<lparr>net_version = v, net_address = a, net_prefix = p\<rparr>"
    using assms(1) by (simp add: strict_net_def split: if_splits)
  show ?thesis
    using in_interval_iff [OF strict_net_aligned [OF assms(1-4)], of "ip_int x"] and_netmask [OF assms(6,7,4)] assms(5)
    by (simp add: in_network_def net)
qed

section \<open>Ranges of parsed values\<close>

lemma all_some_map: "all_some xs = Some ys \<longleftrightarrow> xs = map Some ys"
  by (induction xs arbitrary: ys rule: all_some.induct) (auto simp: Cons_eq_map_conv)

lemma big_endian_range:
  assumes "0 < base" "\<forall>d \<in> set ds. 0 \<le> d \<and> d < base"
  shows "0 \<le> big_endian base ds \<and> big_endian base ds < base ^ length ds"
  using assms(2)
proof (induction ds rule: rev_induct)
  case (snoc d ds)
  then have IH: "0 \<le> big_endian base ds" "big_endian base ds + 1 \<le> base ^ length ds" and d: "0 \<le> d" "d < base" by auto
  have "(big_endian base ds + 1) * base \<le> base ^ length ds * base" using IH(2) assms(1) by (intro mult_right_mono) simp_all
  then have "big_endian base ds * base + base \<le> base ^ length ds * base" by (simp only: distrib_right mult_1)
  with d have "big_endian base ds * base + d < base ^ length ds * base" by linarith
  moreover have "0 \<le> big_endian base ds * base" using IH(1) assms(1) by simp
  moreover have "big_endian base (ds @ [d]) = big_endian base ds * base + d" by (simp add: big_endian_def)
  ultimately show ?case using d by (simp add: mult.commute)
qed (simp add: big_endian_def)

lemma parse_octet_range: "parse_octet s = Some n \<Longrightarrow> 0 \<le> n \<and> n < 256"
  by (auto simp: parse_octet_def split: if_splits)

lemma parse_ipv4_range:
  assumes "parse_ipv4 s = Some n"
  shows "0 \<le> n \<and> n < 2 ^ 32"
proof -
  obtain ds where ds: "map parse_octet (py_split CHR ''.'' s) = map Some ds" "length (py_split CHR ''.'' s) = 4" "n = big_endian 256 ds"
    using assms by (auto simp: parse_ipv4_def Let_def all_some_map split: if_splits)
  have len: "length ds = 4" using ds(1,2) by (metis length_map)
  have "\<forall>d \<in> set ds. 0 \<le> d \<and> d < 256"
  proof
    fix d assume "d \<in> set ds"
    then have "Some d \<in> set (map parse_octet (py_split CHR ''.'' s))" unfolding ds(1) by simp
    then show "0 \<le> d \<and> d < 256" using parse_octet_range by fastforce
  qed
  then show ?thesis using big_endian_range [of 256 ds] len ds(3) by simp
qed

lemma hex_value_range: "hex_value c = Some n \<Longrightarrow> n < 16"
  by (auto simp: hex_value_def Let_def is_digit_def digit_val_def split: if_splits)

lemma parse_hextet_range:
  assumes "parse_hextet s = Some n"
  shows "0 \<le> n \<and> n < 65536"
proof -
  obtain ds where ds: "map hex_value s = map Some ds" "length s \<le> 4" "n = big_endian 16 (map int ds)"
    using assms by (auto simp: parse_hextet_def all_some_map split: if_splits)
  have "length ds \<le> 4" using ds(1,2) by (metis length_map)
  then have "(16 :: int) ^ length ds \<le> 16 ^ 4" by (intro power_increasing) simp_all
  moreover have "d < 16" if "d \<in> set ds" for d
  proof -
    have "Some d \<in> set (map hex_value s)" unfolding ds(1) using that by simp
    then show ?thesis using hex_value_range by fastforce
  qed
  then have "\<forall>d \<in> set (map int ds). 0 \<le> d \<and> d < 16" by auto
  ultimately show ?thesis using big_endian_range [of 16 "map int ds"] ds(3) by simp
qed

text \<open>Each group of an IPv6 address is in range, and there are eight of them.\<close>

definition group_ok :: "int option \<Rightarrow> bool" where
  "group_ok g \<longleftrightarrow> (\<forall>n. g = Some n \<longrightarrow> 0 \<le> n \<and> n < 65536)"

lemma ipv6_groups_ok: "ipv6_groups parts = Some gs \<Longrightarrow> list_all group_ok gs"
  using parse_hextet_range by (auto simp: ipv6_groups_def list_all_iff group_ok_def split: if_splits option.splits)

lemma all_groups_range:
  assumes "all_some gs = Some ns" "list_all group_ok gs" "length gs = 8"
  shows "0 \<le> big_endian 65536 ns \<and> big_endian 65536 ns < 2 ^ 128"
proof -
  have gs: "gs = map Some ns" using assms(1) by (simp add: all_some_map)
  have "\<forall>d \<in> set ns. 0 \<le> d \<and> d < 65536" using assms(2) by (simp add: gs list_all_iff group_ok_def)
  then show ?thesis using big_endian_range [of 65536 ns] assms(3) by (simp add: gs)
qed

lemma ipv6_expand_ok:
  assumes "ipv6_expand es gs = Some full" "list_all group_ok gs"
  shows "list_all group_ok full \<and> length full = 8"
proof -
  consider "full = gs" "length gs = 8"
    | i hi lo where "i \<in> set [1..<length gs - 1]" "hi \<le> i" "lo \<le> length gs - i - 1" "hi + lo < 8"
        "full = take hi gs @ replicate (8 - (hi + lo)) (Some 0) @ drop (length gs - lo) gs"
  proof (cases "filter (\<lambda>i. es ! i) [1..<length gs - 1]")
    case Nil
    then show ?thesis using assms(1) that(1) by (auto simp: ipv6_expand_def Let_def split: if_splits)
  next
    case (Cons i js)
    then have "i \<in> set [1..<length gs - 1]" by (metis filter_is_subset list.set_intros(1) subsetD)
    moreover have "js = []" using assms(1) Cons by (cases js) (auto simp: ipv6_expand_def Let_def split: if_splits)
    ultimately show ?thesis
      using assms(1) Cons that(2) [of i "if hd es then i - 1 else i" "if last es then length gs - i - 2 else length gs - i - 1"]
      by (auto simp: ipv6_expand_def Let_def not_le split: if_splits)
  qed
  then show ?thesis
  proof cases
    case 2
    have "group_ok (Some 0)" by (simp add: group_ok_def)
    then have "list_all group_ok full" using assms(2) 2(5) by (auto simp: list_all_iff dest: in_set_takeD in_set_dropD)
    then show ?thesis using 2 by auto
  qed (use assms(2) in simp)
qed

lemma parse_ipv6_int_range:
  assumes "parse_ipv6_int s = Some n"
  shows "0 \<le> n \<and> n < 2 ^ 128"
proof -
  obtain gs full ns where "ipv6_groups (py_split CHR '':'' s) = Some gs"
    "ipv6_expand (empty_groups (py_split CHR '':'' s)) gs = Some full" "all_some full = Some ns" "n = big_endian 65536 ns"
    using assms by (auto simp: parse_ipv6_int_def Let_def split: if_splits option.splits)
  then show ?thesis using all_groups_range [of full ns] ipv6_expand_ok ipv6_groups_ok by blast
qed

lemma ip_address_range:
  assumes "ip_address s = Some x"
  shows "0 \<le> ip_int x \<and> ip_int x < 2 ^ ip_bits (ip_version x)"
  using assms parse_ipv4_range [of s] parse_ipv6_int_range
  by (auto simp: ip_address_def parse_ipv6_def ip_bits_def split: option.splits if_splits prod.splits)

end
