(* ===== verification/Tenancy.thy ===== *)
theory Tenancy
  imports Web IpAddress
begin

text \<open>
  Tenants: the context variable (\<^verbatim>\<open>app/core/tenant.py\<close>), its resolution (\<^verbatim>\<open>app/middleware/tenant.py\<close>), the filter that the
  engine applies to statements (\<^verbatim>\<open>app/core/database.py\<close>), the IP access control (\<^verbatim>\<open>app/middleware/tenant_ip_access.py\<close>,
  \<^verbatim>\<open>app/identity/crud/tenant_ip_rule.py\<close>) and the endpoints that manage tenants and rules.

  The filter is a function on statements: the tenant columns of the tables in a \<open>FROM\<close> clause, and a condition on the
  (joined) row. Handlers of other theories run without a current tenant, where it is the identity.
\<close>

section \<open>The current tenant\<close>

definition set_current_tenant :: "int option \<Rightarrow> ('r, unit) app" where
  "set_current_tenant t = modifyM (\<lambda>w. w\<lparr>w_tenant := t\<rparr>)"

definition get_current_tenant :: "('r, int option) app" where
  "get_current_tenant = getsM w_tenant"

text \<open>\<open>s.isdigit()\<close> also holds for the superscript digits of Latin-1, which \<open>int\<close> rejects.\<close>

definition py_isdigit :: "string \<Rightarrow> bool" where
  "py_isdigit s \<longleftrightarrow> s \<noteq> [] \<and> list_all (\<lambda>c. is_digit c \<or> c \<in> {CHR 0xB2, CHR 0xB3, CHR 0xB9}) s"

definition resolve_tenant :: "int option \<Rightarrow> request \<Rightarrow> exn + int option" where
  "resolve_tenant default_tenant rq =
     (case header rq ''x-tenant-id'' of
        Some h \<Rightarrow> if py_isdigit h then (case int_exn h of Inl e \<Rightarrow> Inl e | Inr i \<Rightarrow> Inr (Some i)) else Inr default_tenant
      | None \<Rightarrow> Inr default_tenant)"

definition tenant_dispatch :: "int option \<Rightarrow> 'r handler \<Rightarrow> 'r handler" where
  "tenant_dispatch default_tenant call_next rq =
     bindM (liftM (resolve_tenant default_tenant rq)) (\<lambda>tenant_id.
       thenM (set_current_tenant tenant_id)
        (bindM (call_next rq) (\<lambda>response. thenM (set_current_tenant None) (returnM response))))"

text \<open>The new value of the cached default tenant.\<close>

definition warm_default_tenant :: "int option \<Rightarrow> ('r, int option) app" where
  "warm_default_tenant cached =
     (case cached of Some t \<Rightarrow> returnM (Some t)
      | None \<Rightarrow>
          tryM (with_session (bindM (select_all tenants tnt_is_active) (\<lambda>rs.
            bindM (liftM (scalar_one_or_none (limit_rows 1 rs))) (\<lambda>r.
              case r of Some t \<Rightarrow> if tnt_id t \<noteq> 0 then returnM (Some (tnt_id t)) else returnM None | None \<Rightarrow> returnM None))))
           (\<lambda>_. returnM None))"

section \<open>The filter on statements\<close>

datatype 'r statement =
    SelectS "('r \<Rightarrow> int option) option list" "'r \<Rightarrow> bool"
  | InsertS bool "(string \<times> int option) list"
  | UpdateS "('r \<Rightarrow> int option) option" "'r \<Rightarrow> bool"
  | DeleteS "('r \<Rightarrow> int option) option" "'r \<Rightarrow> bool"
  | OtherS

text \<open>The first table in the \<open>FROM\<close> clause that has a tenant column.\<close>

fun first_tenant_column :: "('r \<Rightarrow> int option) option list \<Rightarrow> ('r \<Rightarrow> int option) option" where
  "first_tenant_column [] = None"
| "first_tenant_column (Some c # cs) = Some c"
| "first_tenant_column (None # cs) = first_tenant_column cs"

definition where_tenant :: "('r \<Rightarrow> int option) option \<Rightarrow> int \<Rightarrow> ('r \<Rightarrow> bool) \<Rightarrow> 'r \<Rightarrow> bool" where
  "where_tenant col t P = (case col of None \<Rightarrow> P | Some c \<Rightarrow> (\<lambda>r. P r \<and> c r = Some t))"

definition apply_tenant_filter :: "int option \<Rightarrow> 'r statement \<Rightarrow> 'r statement" where
  "apply_tenant_filter tenant_id st =
     (case tenant_id of None \<Rightarrow> st
      | Some t \<Rightarrow>
          (case st of
             SelectS cols P \<Rightarrow> SelectS cols (where_tenant (first_tenant_column cols) t P)
           | InsertS has_column vals \<Rightarrow>
               InsertS has_column (if has_column \<and> ''tenant_id'' \<notin> fst ` set vals then vals @ [(''tenant_id'', Some t)] else vals)
           | UpdateS col P \<Rightarrow> UpdateS col (where_tenant col t P)
           | DeleteS col P \<Rightarrow> DeleteS col (where_tenant col t P)
           | OtherS \<Rightarrow> OtherS))"

section \<open>IP access control\<close>

definition ip_matches_rule :: "string \<Rightarrow> ip_rule \<Rightarrow> bool" where
  "ip_matches_rule client_ip rule =
     (case ip_address client_ip of None \<Rightarrow> False
      | Some x \<Rightarrow>
          if CHR ''/'' \<in> set (ipr_ip_or_cidr rule)
          then (case ip_network (ipr_ip_or_cidr rule) of None \<Rightarrow> False | Some net \<Rightarrow> in_network x net)
          else (case ip_address (ipr_ip_or_cidr rule) of None \<Rightarrow> False | Some y \<Rightarrow> x = y))"

definition ip_access_dispatch :: "settings \<Rightarrow> 'r handler \<Rightarrow> 'r handler" where
  "ip_access_dispatch S call_next rq =
     (if ENVIRONMENT S = ''test'' then call_next rq
      else bindM get_current_tenant (\<lambda>tenant.
        case tenant of None \<Rightarrow> call_next rq
        | Some tenant_id \<Rightarrow>
            (case forwarded_address rq of
               Some (c # cs) \<Rightarrow>
                 bindM (with_session (select_all ip_rules (\<lambda>r. ipr_tenant_id r = Some tenant_id))) (\<lambda>rs.
                   let rules = order_desc ipr_priority rs;
                       matched_deny = list_ex (ip_matches_rule (c # cs)) (filter (\<lambda>r. ipr_action r = ''deny'') rules);
                       matched_allow = list_ex (ip_matches_rule (c # cs)) (filter (\<lambda>r. ipr_action r = ''allow'') rules)
                   in if rules = [] then call_next rq
                      else if matched_deny then returnM (plain_response 403 ''Access denied by IP rule'')
                      else if \<not> matched_allow then returnM (plain_response 403 ''Access denied by IP rule'')
                      else call_next rq)
             | _ \<Rightarrow> call_next rq)))"

section \<open>Managing tenants and rules\<close>

abbreviation superuser_required :: exn where
  "superuser_required \<equiv> HTTPException 403 ''Superuser required''"

definition create_tenant :: "user \<Rightarrow> string \<Rightarrow> string option \<Rightarrow> ('r, tenant) app" where
  "create_tenant current_user name slug =
     thenM (guardM (user_is_superuser current_user) superuser_required)
      (bindM (add_tenant \<lparr>tnt_id = 0, tnt_name = name, tnt_slug = slug, tnt_is_active = True, tnt_stripe_customer_id = None\<rparr>)
        (\<lambda>t. thenM commit (returnM t)))"

definition list_tenants :: "user \<Rightarrow> ('r, tenant list) app" where
  "list_tenants current_user =
     thenM (guardM (user_is_superuser current_user) superuser_required) (select_all tenants (\<lambda>_. True))"

definition ip_rules_by_tenant :: "int \<Rightarrow> int \<Rightarrow> int \<Rightarrow> ('r, ip_rule list) app" where
  "ip_rules_by_tenant tenant_id skip lmt =
     bindM (select_all ip_rules (\<lambda>r. ipr_tenant_id r = Some tenant_id))
       (\<lambda>rs. returnM (limit_rows lmt (offset_rows skip (order_desc ipr_priority rs))))"

definition ip_rule_get :: "int \<Rightarrow> ('r, ip_rule option) app" where
  "ip_rule_get i = select_one ip_rules (\<lambda>r. ipr_id r = i)"

definition ip_rule_create :: "int \<Rightarrow> string \<Rightarrow> string \<Rightarrow> int \<Rightarrow> string option \<Rightarrow> ('r, ip_rule) app" where
  "ip_rule_create tenant_id ip_or_cidr action priority description =
     bindM (add_ip_rule \<lparr>ipr_id = 0, ipr_tenant_id = Some tenant_id, ipr_ip_or_cidr = ip_or_cidr, ipr_action = action,
              ipr_priority = priority, ipr_description = description\<rparr>)
       (\<lambda>r. thenM commit (returnM r))"

record ip_rule_changes =
  iru_ip_or_cidr :: "string option"
  iru_action :: "string option"
  iru_priority :: "int option"
  iru_description :: "string option"

definition ip_rule_apply :: "ip_rule_changes \<Rightarrow> ip_rule \<Rightarrow> ip_rule" where
  "ip_rule_apply o' r =
     r\<lparr>ipr_ip_or_cidr := (case iru_ip_or_cidr o' of None \<Rightarrow> ipr_ip_or_cidr r | Some v \<Rightarrow> v),
       ipr_action := (case iru_action o' of None \<Rightarrow> ipr_action r | Some v \<Rightarrow> v),
       ipr_priority := (case iru_priority o' of None \<Rightarrow> ipr_priority r | Some v \<Rightarrow> v),
       ipr_description := (case iru_description o' of None \<Rightarrow> ipr_description r | Some v \<Rightarrow> Some v)\<rparr>"

definition ip_rule_update :: "ip_rule \<Rightarrow> ip_rule_changes \<Rightarrow> ('r, ip_rule) app" where
  "ip_rule_update r o' =
     (let r' = ip_rule_apply o' r in thenM (save_ip_rule r') (thenM commit (returnM r')))"

definition ip_rule_remove :: "int \<Rightarrow> ('r, ip_rule option) app" where
  "ip_rule_remove i =
     bindM (ip_rule_get i) (\<lambda>r.
       case r of None \<Rightarrow> returnM None
       | Some obj \<Rightarrow>
           thenM (modifyM (\<lambda>w. w\<lparr>w_db := ip_rules_update (delete_row ipr_id (ipr_id obj)) (w_db w)\<rparr>))
            (thenM commit (returnM (Some obj))))"

text \<open>The action pattern and the length that the schemas require.\<close>

definition ip_rule_in_valid :: "string \<Rightarrow> string \<Rightarrow> bool" where
  "ip_rule_in_valid ip_or_cidr action \<longleftrightarrow> length ip_or_cidr \<le> 45 \<and> (action = ''allow'' \<or> action = ''deny'')"

definition create_ip_rule :: "user \<Rightarrow> int \<Rightarrow> string \<Rightarrow> string \<Rightarrow> int \<Rightarrow> string option \<Rightarrow> ('r, ip_rule) app" where
  "create_ip_rule current_user tenant_id ip_or_cidr action priority description =
     thenM (guardM (user_is_superuser current_user) superuser_required)
      (ip_rule_create tenant_id ip_or_cidr action priority description)"

definition list_ip_rules :: "user \<Rightarrow> int option \<Rightarrow> int \<Rightarrow> int \<Rightarrow> ('r, ip_rule list) app" where
  "list_ip_rules current_user tenant_id skip lmt =
     thenM (guardM (user_is_superuser current_user) superuser_required)
      (case tenant_id of None \<Rightarrow> returnM [] | Some t \<Rightarrow> ip_rules_by_tenant t skip lmt)"

definition found_rule :: "ip_rule option \<Rightarrow> ('r, ip_rule) app" where
  "found_rule r = (case r of None \<Rightarrow> raiseM (HTTPException 404 ''IP rule not found'') | Some rule \<Rightarrow> returnM rule)"

definition get_ip_rule :: "user \<Rightarrow> int \<Rightarrow> ('r, ip_rule) app" where
  "get_ip_rule current_user rule_id =
     thenM (guardM (user_is_superuser current_user) superuser_required) (bindM (ip_rule_get rule_id) found_rule)"

definition update_ip_rule :: "user \<Rightarrow> int \<Rightarrow> ip_rule_changes \<Rightarrow> ('r, ip_rule) app" where
  "update_ip_rule current_user rule_id rule_in =
     thenM (guardM (user_is_superuser current_user) superuser_required)
      (bindM (ip_rule_get rule_id) (\<lambda>r. bindM (found_rule r) (\<lambda>rule. ip_rule_update rule rule_in)))"

definition delete_ip_rule :: "user \<Rightarrow> int \<Rightarrow> ('r, ip_rule) app" where
  "delete_ip_rule current_user rule_id =
     thenM (guardM (user_is_superuser current_user) superuser_required) (bindM (ip_rule_remove rule_id) found_rule)"

section \<open>What a rule covers\<close>

lemma find_upt: "List.find P [0..<n] = Some i \<Longrightarrow> i < n"
  by (metis atLeastLessThan_iff find_Some_iff nth_mem set_upt)

lemma ipv4_prefix_range: "parse_ipv4_prefix s = Some p \<Longrightarrow> p \<le> 32"
  by (auto simp: parse_ipv4_prefix_def parse_prefix_def prefix_of_mask_def dest!: find_upt split: if_splits option.splits)

lemma strict_net_4:
  assumes "0 \<le> a" "a < 2 ^ 32" "p \<le> 32"
  shows "strict_net 4 a p = (if a mod 2 ^ (32 - p) = 0 then Some \<lparr>net_version = 4, net_address = a, net_prefix = p\<rparr> else None)"
proof -
  have "a AND netmask 32 p = a \<longleftrightarrow> a mod 2 ^ (32 - p) = 0"
    unfolding and_netmask [OF assms] by (metis add_cancel_right_right div_mult_mod_eq)
  then show ?thesis by (simp add: strict_net_def ip_bits_def)
qed

section \<open>Properties\<close>

text \<open>
  What a CIDR rule covers. A rule \<open>a/p\<close> on IPv4 matches exactly the clients whose address lies in the interval of
  \<open>2\<^sup>3\<^sup>2\<^sup>-\<^sup>p\<close> addresses that starts at \<open>a\<close>, provided that \<open>a\<close> is the first address of such a block; the bitwise comparison of the
  standard library agrees with the interval. A rule whose address has host bits set matches nobody, and no
  IPv6 client.
\<close>

theorem cidr_rule_interval:
  assumes "ip_address client = Some x" and "ipr_ip_or_cidr rule = addr @ CHR ''/'' # pre"
    and "CHR ''/'' \<notin> set addr" and "CHR ''/'' \<notin> set pre"
    and "parse_ipv4 addr = Some a" and "parse_ipv4_prefix pre = Some p"
  shows "ip_matches_rule client rule \<longleftrightarrow>
    a mod 2 ^ (32 - p) = 0 \<and> (\<exists>n. x = IPv4 n \<and> a \<le> n \<and> n < a + 2 ^ (32 - p))"
proof -
  have a: "0 \<le> a" "a < 2 ^ 32" using parse_ipv4_range [OF assms(5)] by simp_all
  have p: "p \<le> 32" by (rule ipv4_prefix_range [OF assms(6)])
  have "py_split CHR ''/'' (addr @ CHR ''/'' # pre) = [addr, pre]"
    using assms(3,4) by (simp add: py_split_append_sep py_split_no_sep)
  then have net: "ip_network (ipr_ip_or_cidr rule) = strict_net 4 a p"
    using assms(2,5,6) by (simp add: ip_network_def)
  have rule: "ip_matches_rule client rule \<longleftrightarrow> (case strict_net 4 a p of None \<Rightarrow> False | Some net \<Rightarrow> in_network x net)"
    using assms(1,2) net by (simp add: ip_matches_rule_def)
  show ?thesis
  proof (cases "a mod 2 ^ (32 - p) = 0")
    case True
    then have strict: "strict_net 4 a p = Some \<lparr>net_version = 4, net_address = a, net_prefix = p\<rparr>"
      using strict_net_4 [OF a p] by simp
    show ?thesis
    proof (cases x)
      case (IPv4 n)
      then have "in_network x \<lparr>net_version = 4, net_address = a, net_prefix = p\<rparr> \<longleftrightarrow> a \<le> n \<and> n < a + 2 ^ (32 - p)"
        using in_network_interval [OF strict, of x] a p ip_address_range [OF assms(1)] by (simp add: ip_bits_def)
      then show ?thesis using rule strict True IPv4 by simp
    qed (use rule strict in \<open>simp add: in_network_def\<close>)
  qed (use rule strict_net_4 [OF a p] in simp)
qed

definition deny_rule :: ip_rule where
  "deny_rule = \<lparr>ipr_id = 1, ipr_tenant_id = Some 7, ipr_ip_or_cidr = ''10.0.0.0/8'', ipr_action = ''deny'', ipr_priority = 0,
     ipr_description = None\<rparr>"

lemma sample_addresses:
  "parse_ipv4 ''10.0.0.0'' = Some 167772160" "ip_address ''10.1.2.3'' = Some (IPv4 167838211)" "parse_ipv4_prefix ''8'' = Some 8"
  by (simp_all add: parse_ipv4_def ip_address_def parse_octet_def big_endian_def is_digit_def digits_val_def digit_val_def
      parse_ipv4_prefix_def parse_prefix_def)

theorem cidr_rule_interval_witness: "ip_matches_rule ''10.1.2.3'' deny_rule"
  using cidr_rule_interval [of "''10.1.2.3''" "IPv4 167838211" deny_rule "''10.0.0.0''" "''8''" 167772160 8] sample_addresses
  by (simp add: deny_rule_def)

text \<open>
  The decision of the IP access control. For a request with a current tenant and a client address, outside of tests,
  the handler runs exactly when the tenant has no rules, or no deny rule matches and some allow rule does; otherwise
  the answer is 403 and nothing happens.
\<close>

theorem ip_access_policy:
  assumes "ENVIRONMENT S \<noteq> ''test''" and "w_tenant w = Some t" and "forwarded_address rq = Some ip" and "ip \<noteq> []"
    and "w_committed w = w_db w"
  shows "ip_access_dispatch S app rq w =
    (let rules = {r \<in> set (t_rows (ip_rules (w_db w))). ipr_tenant_id r = Some t}
     in if rules = {} \<or> ((\<forall>r \<in> rules. ipr_action r = ''deny'' \<longrightarrow> \<not> ip_matches_rule ip r) \<and>
                         (\<exists>r \<in> rules. ipr_action r = ''allow'' \<and> ip_matches_rule ip r))
        then app rq w else (Inr (plain_response 403 ''Access denied by IP rule''), w))"
proof -
  let ?rs = "filter (\<lambda>r. ipr_tenant_id r = Some t) (t_rows (ip_rules (w_db w)))"
  have nil: "order_desc ipr_priority rs = [] \<longleftrightarrow> rs = []" for rs by (metis length_0_conv length_order_desc)
  have some: "list_ex P (filter Q (order_desc ipr_priority rs)) \<longleftrightarrow> (\<exists>r \<in> set rs. Q r \<and> P r)" for P Q rs
    by (auto simp: list_ex_iff)
  have load: "with_session (select_all ip_rules (\<lambda>r. ipr_tenant_id r = Some t)) w = (Inr ?rs, w)"
    using assms(5) by (simp add: with_session_def select_where_def)
  obtain c cs where ip: "ip = c # cs" using assms(4) by (cases ip) auto
  have "ip_access_dispatch S app rq w =
    (if ?rs = [] then app rq
     else if list_ex (ip_matches_rule ip) (filter (\<lambda>r. ipr_action r = ''deny'') (order_desc ipr_priority ?rs))
       then returnM (plain_response 403 ''Access denied by IP rule'')
     else if \<not> list_ex (ip_matches_rule ip) (filter (\<lambda>r. ipr_action r = ''allow'') (order_desc ipr_priority ?rs))
       then returnM (plain_response 403 ''Access denied by IP rule'')
     else app rq) w"
    using assms(1-3) load unfolding ip by (simp add: ip_access_dispatch_def get_current_tenant_def Let_def nil split del: if_split)
  moreover have "?rs = [] \<longleftrightarrow> {r \<in> set (t_rows (ip_rules (w_db w))). ipr_tenant_id r = Some t} = {}" by (auto simp: filter_empty_conv)
  ultimately show ?thesis unfolding some by (auto simp: Let_def)
qed

definition ip_db :: db where
  "ip_db = sample_db\<lparr>ip_rules := \<lparr>t_rows = [deny_rule], t_seq = 1\<rparr>\<rparr>"

definition ip_request :: request where
  "ip_request = \<lparr>req_method = ''GET'', req_path = ''/'', req_headers = [(''x-tenant-id'', ''7'')], req_cookies = [], req_form = [],
     req_query = [], req_client = Some ''10.1.2.3'', req_user_id = None\<rparr>"

theorem ip_access_policy_witness:
  "ip_access_dispatch default_settings (\<lambda>_. returnM (plain_response 200 [])) ip_request
     (sample_world\<lparr>w_db := ip_db, w_committed := ip_db, w_tenant := Some 7\<rparr>) =
   (Inr (plain_response 403 ''Access denied by IP rule''), sample_world\<lparr>w_db := ip_db, w_committed := ip_db, w_tenant := Some 7\<rparr>)"
proof -
  have "forwarded_address ip_request = Some ''10.1.2.3''" by (simp add: forwarded_address_def header_def ip_request_def)
  moreover have "t_rows (ip_rules ip_db) = [deny_rule]" "ENVIRONMENT default_settings \<noteq> ''test''"
    by (simp_all add: ip_db_def default_settings_def)
  ultimately show ?thesis
    using ip_access_policy [of default_settings "sample_world\<lparr>w_db := ip_db, w_committed := ip_db, w_tenant := Some 7\<rparr>" 7 ip_request "''10.1.2.3''"
        "\<lambda>_. returnM (plain_response 200 [])"]
    by (simp add: deny_rule_def)
qed

text \<open>
  The IP rules are not enforced. \<^verbatim>\<open>create_app\<close> adds the IP access control after the resolution of the tenant, which makes
  it the outer of the two: when it runs no tenant is set, and the request goes through whatever the rules say. In
  the other order the request of a denied client would be answered 403.
\<close>

theorem ip_rules_unenforced:
  assumes "w_tenant w = None"
  shows "add_middlewares (ms @ [tenant_dispatch d, ip_access_dispatch S]) app rq w =
      tenant_dispatch d (add_middlewares ms app) rq w \<and>
    (ENVIRONMENT S \<noteq> ''test'' \<and> resolve_tenant d rq = Inr (Some t) \<and> forwarded_address rq = Some ip \<and> ip \<noteq> [] \<and>
     w_committed w = w_db w \<and> r \<in> set (t_rows (ip_rules (w_db w))) \<and> ipr_tenant_id r = Some t \<and> ipr_action r = ''deny'' \<and>
     ip_matches_rule ip r \<longrightarrow>
     add_middlewares (ms @ [ip_access_dispatch S, tenant_dispatch d]) app rq w =
       (Inr (plain_response 403 ''Access denied by IP rule''), w))"
proof -
  have "ip_access_dispatch S h rq w = h rq w" for h :: "'a handler"
    using assms by (simp add: ip_access_dispatch_def get_current_tenant_def)
  then have "add_middlewares (ms @ [tenant_dispatch d, ip_access_dispatch S]) app rq w = tenant_dispatch d (add_middlewares ms app) rq w"
    using add_middlewares_append [of "ms @ [tenant_dispatch d]" "ip_access_dispatch S" app] by (simp add: add_middlewares_append)
  moreover have "add_middlewares (ms @ [ip_access_dispatch S, tenant_dispatch d]) app rq w =
       (Inr (plain_response 403 ''Access denied by IP rule''), w)"
    if env: "ENVIRONMENT S \<noteq> ''test''" and res: "resolve_tenant d rq = Inr (Some t)" and fw: "forwarded_address rq = Some ip" "ip \<noteq> []"
      and com: "w_committed w = w_db w" and r: "r \<in> set (t_rows (ip_rules (w_db w)))" "ipr_tenant_id r = Some t" "ipr_action r = ''deny''"
      "ip_matches_rule ip r"
  proof -
    let ?w = "w\<lparr>w_tenant := Some t\<rparr>"
    obtain c cs where ip: "ip = c # cs" using fw(2) by (cases ip) auto
    have load: "with_session (select_all ip_rules (\<lambda>r. ipr_tenant_id r = Some t)) ?w =
        (Inr (filter (\<lambda>r. ipr_tenant_id r = Some t) (t_rows (ip_rules (w_db w)))), ?w)"
      using com by (simp add: with_session_def select_where_def)
    have "r \<in> set (order_desc ipr_priority (filter (\<lambda>r. ipr_tenant_id r = Some t) (t_rows (ip_rules (w_db w)))))" using r by simp
    moreover from this have "order_desc ipr_priority (filter (\<lambda>r. ipr_tenant_id r = Some t) (t_rows (ip_rules (w_db w)))) \<noteq> []" by (metis empty_iff empty_set)
    ultimately have "ip_access_dispatch S (add_middlewares ms app) rq ?w = (Inr (plain_response 403 ''Access denied by IP rule''), ?w)"
      using env fw(1) load r(3,4)
      by (auto simp: ip_access_dispatch_def get_current_tenant_def ip Let_def list_ex_iff)
    then show ?thesis
      using add_middlewares_append [of "ms @ [ip_access_dispatch S]" "tenant_dispatch d" app] res assms
      by (simp add: add_middlewares_append tenant_dispatch_def set_current_tenant_def)
  qed
  ultimately show ?thesis by blast
qed

theorem ip_rules_unenforced_witness:
  "add_middlewares ([] @ [tenant_dispatch None, ip_access_dispatch default_settings]) (\<lambda>_. returnM (plain_response 200 [])) ip_request
     (sample_world\<lparr>w_db := ip_db, w_committed := ip_db\<rparr>) =
   (Inr (plain_response 200 []), sample_world\<lparr>w_db := ip_db, w_committed := ip_db\<rparr>)"
proof -
  let ?w = "sample_world\<lparr>w_db := ip_db, w_committed := ip_db\<rparr>"
  have res: "resolve_tenant None ip_request = Inr (Some 7)"
    using py_int_show_int [of 7]
    by (simp add: resolve_tenant_def header_def ip_request_def py_isdigit_def is_digit_def int_exn_def show_int_def show_nat.simps digit_char_def)
  have t: "w_tenant ?w = None" by (simp add: sample_world_def)
  have "tenant_dispatch None (add_middlewares [] (\<lambda>_. returnM (plain_response 200 []))) ip_request ?w = (Inr (plain_response 200 []), ?w)"
    using res by (simp add: tenant_dispatch_def set_current_tenant_def sample_world_def)
  then show ?thesis using ip_rules_unenforced [OF t, of "[]" None default_settings "\<lambda>_. returnM (plain_response 200 [])" ip_request] by simp
qed

text \<open>
  The filter on statements. With a current tenant, a select touches only rows of that tenant (as told by the first
  table of the query that has a tenant column), an update or a delete likewise, and each touches exactly the rows it
  would have touched without the filter that belong to the tenant; an insert into a table with a tenant column that
  gives none gets the current one.
\<close>

theorem tenant_filter_isolates:
  "(\<forall>cols P c. first_tenant_column cols = Some c \<longrightarrow>
      (\<exists>Q. apply_tenant_filter (Some t) (SelectS cols P) = SelectS cols Q \<and> (\<forall>r. Q r \<longleftrightarrow> P r \<and> c r = Some t))) \<and>
   (\<forall>c P. (\<exists>Q. apply_tenant_filter (Some t) (UpdateS (Some c) P) = UpdateS (Some c) Q \<and> (\<forall>r. Q r \<longleftrightarrow> P r \<and> c r = Some t)) \<and>
      (\<exists>Q. apply_tenant_filter (Some t) (DeleteS (Some c) P) = DeleteS (Some c) Q \<and> (\<forall>r. Q r \<longleftrightarrow> P r \<and> c r = Some t))) \<and>
   (\<forall>vals. ''tenant_id'' \<notin> fst ` set vals \<longrightarrow>
      (\<exists>vals'. apply_tenant_filter (Some t) (InsertS True vals) = InsertS True vals' \<and> map_of vals' ''tenant_id'' = Some (Some t)))"
proof -
  have "map_of vals ''tenant_id'' = None" if "''tenant_id'' \<notin> fst ` set vals" for vals :: "(string \<times> int option) list"
    using that by (simp add: map_of_eq_None_iff)
  then show ?thesis by (auto simp: apply_tenant_filter_def where_tenant_def map_add_def)
qed

end
