(* ===== verification/Cms.thy ===== *)
theory Cms
  imports Crud BillingCrud
begin

text \<open>
  Content: \<^verbatim>\<open>app/crud/cms.py\<close>, \<^verbatim>\<open>app/schemas/cms.py\<close> and \<^verbatim>\<open>app/api/endpoints/cms.py\<close> (pages, posts, categories, tags).

  The classes \<^verbatim>\<open>CRUDPage\<close> and \<^verbatim>\<open>CRUDPost\<close> have the same methods on different columns; they are written once on a descriptor
  \<open>'a content\<close> and used with \<open>page_content\<close> and \<open>post_content\<close>. The locale \<open>content_type\<close> states what a descriptor must
  satisfy; what holds of both kinds of content is proved in it and reaches the endpoints through its
  interpretations. The links of a row to categories and tags are the lists of their keys. The Markdown renderer with
  its sanitiser is a parameter. A response is the row that the handler returns; the lazy loading of relations while it
  is serialised is not modelled. Rows created at the same instant are listed in the order of the table.
\<close>

section \<open>Schemas\<close>

definition content_slug :: "nat \<Rightarrow> string \<Rightarrow> bool" where
  "content_slug mx s \<longleftrightarrow> 1 \<le> length s \<and> length s \<le> mx \<and> list_all (\<lambda>c. is_lower c \<or> is_digit c \<or> c = CHR ''-'') s"

definition short_opt :: "nat \<Rightarrow> string option \<Rightarrow> bool" where
  "short_opt mx v \<longleftrightarrow> (case v of None \<Rightarrow> True | Some s \<Rightarrow> length s \<le> mx)"

record cms_page_create =
  pgc_title :: string
  pgc_slug :: string
  pgc_body_md :: "string option"
  pgc_meta_title :: "string option"
  pgc_meta_description :: "string option"
  pgc_is_published :: bool
  pgc_category_ids :: "int list"
  pgc_tag_ids :: "int list"

definition page_create_valid :: "cms_page_create \<Rightarrow> bool" where
  "page_create_valid p \<longleftrightarrow>
     1 \<le> length (pgc_title p) \<and> length (pgc_title p) \<le> 255 \<and> content_slug 255 (pgc_slug p) \<and>
     short_opt 255 (pgc_meta_title p) \<and> short_opt 500 (pgc_meta_description p)"

text \<open>In an update, \<open>None\<close> is a field that was not sent and \<open>Some None\<close> a null.\<close>

record page_update =
  pgu_title :: "string option option"
  pgu_slug :: "string option option"
  pgu_body_md :: "string option option"
  pgu_meta_title :: "string option option"
  pgu_meta_description :: "string option option"
  pgu_is_published :: "bool option option"
  pgu_category_ids :: "int list option option"
  pgu_tag_ids :: "int list option option"

record post_create =
  psc_title :: string
  psc_slug :: string
  psc_excerpt :: "string option"
  psc_body_md :: "string option"
  psc_cover_image_url :: "string option"
  psc_meta_title :: "string option"
  psc_meta_description :: "string option"
  psc_is_published :: bool
  psc_category_ids :: "int list"
  psc_tag_ids :: "int list"

definition post_create_valid :: "post_create \<Rightarrow> bool" where
  "post_create_valid p \<longleftrightarrow>
     1 \<le> length (psc_title p) \<and> length (psc_title p) \<le> 255 \<and> content_slug 255 (psc_slug p) \<and> short_opt 500 (psc_excerpt p) \<and>
     short_opt 500 (psc_cover_image_url p) \<and> short_opt 255 (psc_meta_title p) \<and> short_opt 500 (psc_meta_description p)"

record post_update =
  psu_title :: "string option option"
  psu_slug :: "string option option"
  psu_excerpt :: "string option option"
  psu_body_md :: "string option option"
  psu_cover_image_url :: "string option option"
  psu_meta_title :: "string option option"
  psu_meta_description :: "string option option"
  psu_is_published :: "bool option option"
  psu_category_ids :: "int list option option"
  psu_tag_ids :: "int list option option"

section \<open>Pages and posts as content\<close>

definition render_markdown :: "(string \<Rightarrow> string option) \<Rightarrow> string option \<Rightarrow> string option" where
  "render_markdown md text = (case text of Some (c # cs) \<Rightarrow> md (c # cs) | _ \<Rightarrow> None)"

record 'a content =
  ct_model :: "'a model"
  ct_name :: string
  ct_slug :: "'a \<Rightarrow> string"
  ct_tenant_id :: "'a \<Rightarrow> int option"
  ct_deleted_at :: "'a \<Rightarrow> datetime option"
  ct_created_at :: "'a \<Rightarrow> datetime"
  ct_is_published :: "'a \<Rightarrow> bool"
  ct_set_categories :: "int list \<Rightarrow> 'a \<Rightarrow> 'a"
  ct_set_tags :: "int list \<Rightarrow> 'a \<Rightarrow> 'a"

definition page_model :: "cms_page model" where
  "page_model = \<lparr>m_tbl = cms_pages, m_upd = cms_pages_update, m_rid = cpg_id, m_set_id = (\<lambda>i r. r\<lparr>cpg_id := i\<rparr>),
     m_soft = Some (cpg_deleted_at, \<lambda>v r. r\<lparr>cpg_deleted_at := v\<rparr>)\<rparr>"

definition post_model :: "cms_post model" where
  "post_model = \<lparr>m_tbl = cms_posts, m_upd = cms_posts_update, m_rid = pst_id, m_set_id = (\<lambda>i r. r\<lparr>pst_id := i\<rparr>),
     m_soft = Some (pst_deleted_at, \<lambda>v r. r\<lparr>pst_deleted_at := v\<rparr>)\<rparr>"

definition page_content :: "cms_page content" where
  "page_content = \<lparr>ct_model = page_model, ct_name = ''Page'', ct_slug = cpg_slug, ct_tenant_id = cpg_tenant_id,
     ct_deleted_at = cpg_deleted_at, ct_created_at = cpg_created_at, ct_is_published = cpg_is_published,
     ct_set_categories = (\<lambda>v r. r\<lparr>cpg_categories := v\<rparr>), ct_set_tags = (\<lambda>v r. r\<lparr>cpg_tags := v\<rparr>)\<rparr>"

definition post_content :: "cms_post content" where
  "post_content = \<lparr>ct_model = post_model, ct_name = ''Post'', ct_slug = pst_slug, ct_tenant_id = pst_tenant_id,
     ct_deleted_at = pst_deleted_at, ct_created_at = pst_created_at, ct_is_published = pst_is_published,
     ct_set_categories = (\<lambda>v r. r\<lparr>pst_categories := v\<rparr>), ct_set_tags = (\<lambda>v r. r\<lparr>pst_tags := v\<rparr>)\<rparr>"

section \<open>CRUD\<close>

definition page_row :: "(string \<Rightarrow> string option) \<Rightarrow> datetime \<Rightarrow> cms_page_create \<Rightarrow> int option \<Rightarrow> int option \<Rightarrow> cms_page" where
  "page_row md now obj_in tenant_id author_id =
     \<lparr>cpg_id = 0, cpg_tenant_id = tenant_id, cpg_title = pgc_title obj_in, cpg_slug = pgc_slug obj_in, cpg_body_md = pgc_body_md obj_in,
      cpg_body_html = render_markdown md (pgc_body_md obj_in), cpg_meta_title = pgc_meta_title obj_in,
      cpg_meta_description = pgc_meta_description obj_in, cpg_is_published = pgc_is_published obj_in, cpg_published_at = None,
      cpg_author_id = author_id, cpg_categories = [], cpg_tags = [], cpg_created_at = now, cpg_deleted_at = None\<rparr>"

definition post_row :: "(string \<Rightarrow> string option) \<Rightarrow> datetime \<Rightarrow> post_create \<Rightarrow> int option \<Rightarrow> int option \<Rightarrow> cms_post" where
  "post_row md now obj_in tenant_id author_id =
     \<lparr>pst_id = 0, pst_tenant_id = tenant_id, pst_title = psc_title obj_in, pst_slug = psc_slug obj_in, pst_excerpt = psc_excerpt obj_in,
      pst_body_md = psc_body_md obj_in, pst_body_html = render_markdown md (psc_body_md obj_in),
      pst_cover_image_url = psc_cover_image_url obj_in, pst_meta_title = psc_meta_title obj_in,
      pst_meta_description = psc_meta_description obj_in, pst_is_published = psc_is_published obj_in, pst_published_at = None,
      pst_author_id = author_id, pst_categories = [], pst_tags = [], pst_created_at = now, pst_deleted_at = None\<rparr>"

text \<open>\<open>db_obj.categories = list(cats)\<close> and \<open>db_obj.tags = list(tags)\<close>; \<open>None\<close> leaves the links as they are.\<close>

definition assign_links :: "'a content \<Rightarrow> int list option \<Rightarrow> int list option \<Rightarrow> 'a \<Rightarrow> ('r, 'a) app" where
  "assign_links K category_ids tag_ids obj =
     bindM (case category_ids of None \<Rightarrow> returnM obj
            | Some ids \<Rightarrow> bindM (select_all categories (\<lambda>c. cat_id c \<in> set ids)) (\<lambda>cats. returnM (ct_set_categories K (map cat_id cats) obj)))
       (\<lambda>obj. case tag_ids of None \<Rightarrow> returnM obj
              | Some ids \<Rightarrow> bindM (select_all tags (\<lambda>t. tag_id t \<in> set ids)) (\<lambda>ts. returnM (ct_set_tags K (map tag_id ts) obj)))"

definition create_with_relations :: "'a content \<Rightarrow> 'a \<Rightarrow> int list \<Rightarrow> int list \<Rightarrow> ('r, 'a) app" where
  "create_with_relations K row category_ids tag_ids =
     bindM (db_add (m_tbl (ct_model K)) (m_upd (ct_model K)) (m_set_id (ct_model K)) row) (\<lambda>obj.
       bindM (assign_links K (if category_ids = [] then None else Some category_ids) (if tag_ids = [] then None else Some tag_ids) obj) (\<lambda>obj.
         thenM (db_save (m_upd (ct_model K)) (m_rid (ct_model K)) obj) (thenM commit (returnM obj))))"

text \<open>\<open>set_attributes\<close> is \<open>None\<close> when a column that is not nullable is set to null, which fails when the row is written.\<close>

definition update_with_relations :: "'a content \<Rightarrow> 'a \<Rightarrow> ('a \<Rightarrow> 'a option) \<Rightarrow> int list option \<Rightarrow> int list option \<Rightarrow> ('r, 'a) app" where
  "update_with_relations K db_obj set_attributes category_ids tag_ids =
     (case set_attributes db_obj of None \<Rightarrow> raiseM IntegrityError
      | Some obj \<Rightarrow>
          bindM (assign_links K category_ids tag_ids obj) (\<lambda>obj.
            thenM (db_save (m_upd (ct_model K)) (m_rid (ct_model K)) obj) (thenM commit (returnM obj))))"

definition content_get_by_slug :: "'a content \<Rightarrow> string \<Rightarrow> int option \<Rightarrow> ('r, 'a option) app" where
  "content_get_by_slug K slug tenant_id =
     select_one (m_tbl (ct_model K)) (\<lambda>r. ct_slug K r = slug \<and> ct_deleted_at K r = None \<and>
       (case tenant_id of None \<Rightarrow> True | Some t \<Rightarrow> ct_tenant_id K r = Some t))"

definition get_multi_with_relations :: "'a content \<Rightarrow> int \<Rightarrow> int \<Rightarrow> int option \<Rightarrow> bool \<Rightarrow> ('r, 'a list) app" where
  "get_multi_with_relations K skip lmt tenant_id published_only =
     bindM (select_all (m_tbl (ct_model K)) (\<lambda>r. ct_deleted_at K r = None \<and>
              (case tenant_id of None \<Rightarrow> True | Some t \<Rightarrow> ct_tenant_id K r = Some t) \<and> (published_only \<longrightarrow> ct_is_published K r)))
       (\<lambda>rs. returnM (limit_rows lmt (offset_rows skip (order_desc (ct_created_at K) rs))))"

definition content_count :: "'a content \<Rightarrow> int option \<Rightarrow> ('r, int) app" where
  "content_count K tenant_id =
     bindM (select_all (m_tbl (ct_model K)) (\<lambda>r. ct_deleted_at K r = None \<and>
              (case tenant_id of None \<Rightarrow> True | Some t \<Rightarrow> ct_tenant_id K r = Some t)))
       (\<lambda>rs. returnM (int (length rs)))"

text \<open>The attributes that an update sets, from \<open>model_dump(exclude_unset=True)\<close>.\<close>

definition or_keep :: "'b option option \<Rightarrow> 'b option \<Rightarrow> 'b option" where
  "or_keep v old = (case v of None \<Rightarrow> old | Some x \<Rightarrow> x)"

definition apply_page_update :: "(string \<Rightarrow> string option) \<Rightarrow> page_update \<Rightarrow> cms_page \<Rightarrow> cms_page option" where
  "apply_page_update md u r =
     (case (or_keep (pgu_title u) (Some (cpg_title r)), or_keep (pgu_slug u) (Some (cpg_slug r)),
            or_keep (pgu_is_published u) (Some (cpg_is_published r))) of
        (Some title, Some slug, Some published) \<Rightarrow>
          Some (r\<lparr>cpg_title := title, cpg_slug := slug, cpg_body_md := or_keep (pgu_body_md u) (cpg_body_md r),
                  cpg_body_html := (case pgu_body_md u of None \<Rightarrow> cpg_body_html r | Some b \<Rightarrow> render_markdown md b),
                  cpg_meta_title := or_keep (pgu_meta_title u) (cpg_meta_title r),
                  cpg_meta_description := or_keep (pgu_meta_description u) (cpg_meta_description r), cpg_is_published := published\<rparr>)
      | _ \<Rightarrow> None)"

definition apply_post_update :: "(string \<Rightarrow> string option) \<Rightarrow> post_update \<Rightarrow> cms_post \<Rightarrow> cms_post option" where
  "apply_post_update md u r =
     (case (or_keep (psu_title u) (Some (pst_title r)), or_keep (psu_slug u) (Some (pst_slug r)),
            or_keep (psu_is_published u) (Some (pst_is_published r))) of
        (Some title, Some slug, Some published) \<Rightarrow>
          Some (r\<lparr>pst_title := title, pst_slug := slug, pst_excerpt := or_keep (psu_excerpt u) (pst_excerpt r),
                  pst_body_md := or_keep (psu_body_md u) (pst_body_md r),
                  pst_body_html := (case psu_body_md u of None \<Rightarrow> pst_body_html r | Some b \<Rightarrow> render_markdown md b),
                  pst_cover_image_url := or_keep (psu_cover_image_url u) (pst_cover_image_url r),
                  pst_meta_title := or_keep (psu_meta_title u) (pst_meta_title r),
                  pst_meta_description := or_keep (psu_meta_description u) (pst_meta_description r), pst_is_published := published\<rparr>)
      | _ \<Rightarrow> None)"

section \<open>The steps the endpoints share\<close>

definition list_content :: "'a content \<Rightarrow> int \<Rightarrow> int \<Rightarrow> bool \<Rightarrow> ('r, 'a list \<times> int) app" where
  "list_content K skip lmt published_only =
     bindM (get_multi_with_relations K skip lmt None published_only) (\<lambda>items.
       bindM (content_count K None) (\<lambda>total. returnM (items, total)))"

definition found_content :: "'a content \<Rightarrow> string \<Rightarrow> ('r, 'a) app" where
  "found_content K slug =
     bindM (content_get_by_slug K slug None) (\<lambda>r.
       case r of None \<Rightarrow> raiseM (HTTPException 404 (ct_name K @ '' not found'')) | Some obj \<Rightarrow> returnM obj)"

definition slug_free :: "'a content \<Rightarrow> string \<Rightarrow> ('r, unit) app" where
  "slug_free K slug =
     bindM (content_get_by_slug K slug None) (\<lambda>existing.
       guardM (existing = None) (HTTPException 409 (ct_name K @ '' with this slug already exists'')))"

definition create_content :: "'a content \<Rightarrow> 'a \<Rightarrow> int list \<Rightarrow> int list \<Rightarrow> ('r, 'a) app" where
  "create_content K row category_ids tag_ids = thenM (slug_free K (ct_slug K row)) (create_with_relations K row category_ids tag_ids)"

definition update_content ::
  "'a content \<Rightarrow> string \<Rightarrow> string option option \<Rightarrow> ('a \<Rightarrow> 'a option) \<Rightarrow> int list option \<Rightarrow> int list option \<Rightarrow> ('r, 'a) app" where
  "update_content K slug new_slug set_attributes category_ids tag_ids =
     bindM (found_content K slug) (\<lambda>obj.
       thenM (case new_slug of Some (Some (c # cs)) \<Rightarrow> if c # cs \<noteq> slug then slug_free K (c # cs) else returnM () | _ \<Rightarrow> returnM ())
        (update_with_relations K obj set_attributes category_ids tag_ids))"

definition delete_content :: "'a content \<Rightarrow> datetime \<Rightarrow> string \<Rightarrow> ('r, unit) app" where
  "delete_content K now slug =
     bindM (found_content K slug) (\<lambda>obj. thenM (crud_delete (ct_model K) now (m_rid (ct_model K) obj)) (returnM ()))"

section \<open>The endpoints\<close>

definition list_pages :: "int \<Rightarrow> int \<Rightarrow> ('r, cms_page list \<times> int) app" where
  "list_pages skip lmt = list_content page_content skip lmt False"

definition get_page :: "string \<Rightarrow> ('r, cms_page) app" where
  "get_page slug = found_content page_content slug"

definition create_page :: "(string \<Rightarrow> string option) \<Rightarrow> datetime \<Rightarrow> user \<Rightarrow> cms_page_create \<Rightarrow> ('r, cms_page) app" where
  "create_page md now current_user page_in =
     create_content page_content (page_row md now page_in (user_tenant_id current_user) (Some (user_id current_user)))
       (pgc_category_ids page_in) (pgc_tag_ids page_in)"

definition update_page :: "(string \<Rightarrow> string option) \<Rightarrow> user \<Rightarrow> string \<Rightarrow> page_update \<Rightarrow> ('r, cms_page) app" where
  "update_page md current_user slug page_in =
     update_content page_content slug (pgu_slug page_in) (apply_page_update md page_in) (or_keep (pgu_category_ids page_in) None)
       (or_keep (pgu_tag_ids page_in) None)"

definition delete_page :: "datetime \<Rightarrow> user \<Rightarrow> string \<Rightarrow> ('r, unit) app" where
  "delete_page now current_user slug = delete_content page_content now slug"

definition list_posts :: "int \<Rightarrow> int \<Rightarrow> bool \<Rightarrow> ('r, cms_post list \<times> int) app" where
  "list_posts skip lmt published_only = list_content post_content skip lmt published_only"

definition get_post :: "string \<Rightarrow> ('r, cms_post) app" where
  "get_post slug = found_content post_content slug"

definition create_post :: "(string \<Rightarrow> string option) \<Rightarrow> datetime \<Rightarrow> user \<Rightarrow> post_create \<Rightarrow> ('r, cms_post) app" where
  "create_post md now current_user post_in =
     create_content post_content (post_row md now post_in (user_tenant_id current_user) (Some (user_id current_user)))
       (psc_category_ids post_in) (psc_tag_ids post_in)"

definition update_post :: "(string \<Rightarrow> string option) \<Rightarrow> user \<Rightarrow> string \<Rightarrow> post_update \<Rightarrow> ('r, cms_post) app" where
  "update_post md current_user slug post_in =
     update_content post_content slug (psu_slug post_in) (apply_post_update md post_in) (or_keep (psu_category_ids post_in) None)
       (or_keep (psu_tag_ids post_in) None)"

definition delete_post :: "datetime \<Rightarrow> user \<Rightarrow> string \<Rightarrow> ('r, unit) app" where
  "delete_post now current_user slug = delete_content post_content now slug"

section \<open>Categories and tags\<close>

definition category_model :: "category model" where
  "category_model = \<lparr>m_tbl = categories, m_upd = categories_update, m_rid = cat_id, m_set_id = (\<lambda>i r. r\<lparr>cat_id := i\<rparr>), m_soft = None\<rparr>"

definition tag_model :: "tag model" where
  "tag_model = \<lparr>m_tbl = tags, m_upd = tags_update, m_rid = tag_id, m_set_id = (\<lambda>i r. r\<lparr>tag_id := i\<rparr>), m_soft = None\<rparr>"

definition category_get_by_slug :: "string \<Rightarrow> int option \<Rightarrow> ('r, category option) app" where
  "category_get_by_slug slug tenant_id =
     select_one categories (\<lambda>c. cat_slug c = slug \<and> (case tenant_id of None \<Rightarrow> True | Some t \<Rightarrow> cat_tenant_id c = Some t))"

definition tag_get_by_slug :: "string \<Rightarrow> int option \<Rightarrow> ('r, tag option) app" where
  "tag_get_by_slug slug tenant_id =
     select_one tags (\<lambda>c. tag_slug c = slug \<and> (case tenant_id of None \<Rightarrow> True | Some t \<Rightarrow> tag_tenant_id c = Some t))"

definition list_categories :: "('r, category list) app" where
  "list_categories = get_multi category_model 0 100 False"

definition create_category :: "user \<Rightarrow> string \<Rightarrow> string \<Rightarrow> string option \<Rightarrow> ('r, category) app" where
  "create_category current_user name slug description =
     bindM (category_get_by_slug slug None) (\<lambda>existing.
       thenM (guardM (existing = None) (HTTPException 409 ''Category with this slug already exists''))
        (crud_create category_model
          \<lparr>cat_id = 0, cat_tenant_id = None, cat_name = name, cat_slug = slug, cat_description = description\<rparr>))"

record category_update =
  ctu_name :: "string option option"
  ctu_slug :: "string option option"
  ctu_description :: "string option option"

definition apply_category_update :: "category_update \<Rightarrow> category \<Rightarrow> category" where
  "apply_category_update u c =
     c\<lparr>cat_name := (case ctu_name u of Some (Some v) \<Rightarrow> v | _ \<Rightarrow> cat_name c),
       cat_slug := (case ctu_slug u of Some (Some v) \<Rightarrow> v | _ \<Rightarrow> cat_slug c),
       cat_description := or_keep (ctu_description u) (cat_description c)\<rparr>"

definition update_category :: "user \<Rightarrow> int \<Rightarrow> category_update \<Rightarrow> ('r, category) app" where
  "update_category current_user category_id cat_in =
     bindM (crud_get category_model category_id False) (\<lambda>cat.
       case cat of None \<Rightarrow> raiseM (HTTPException 404 ''Category not found'')
       | Some c \<Rightarrow>
           thenM (guardM (ctu_name cat_in \<noteq> Some None \<and> ctu_slug cat_in \<noteq> Some None) IntegrityError)
             (crud_update category_model c (apply_category_update cat_in)))"

definition map_rows :: "('a \<Rightarrow> 'a) \<Rightarrow> 'a table \<Rightarrow> 'a table" where
  "map_rows f t = t\<lparr>t_rows := map f (t_rows t)\<rparr>"

text \<open>The rows of the association tables go with the category or the tag.\<close>

definition unlink_category :: "int \<Rightarrow> db \<Rightarrow> db" where
  "unlink_category i d =
     cms_pages_update (map_rows (\<lambda>r. r\<lparr>cpg_categories := filter (\<lambda>c. c \<noteq> i) (cpg_categories r)\<rparr>))
       (cms_posts_update (map_rows (\<lambda>r. r\<lparr>pst_categories := filter (\<lambda>c. c \<noteq> i) (pst_categories r)\<rparr>)) d)"

definition unlink_tag :: "int \<Rightarrow> db \<Rightarrow> db" where
  "unlink_tag i d =
     cms_pages_update (map_rows (\<lambda>r. r\<lparr>cpg_tags := filter (\<lambda>c. c \<noteq> i) (cpg_tags r)\<rparr>))
       (cms_posts_update (map_rows (\<lambda>r. r\<lparr>pst_tags := filter (\<lambda>c. c \<noteq> i) (pst_tags r)\<rparr>)) d)"

definition delete_category :: "datetime \<Rightarrow> user \<Rightarrow> int \<Rightarrow> ('r, unit) app" where
  "delete_category now current_user category_id =
     bindM (crud_get category_model category_id False) (\<lambda>cat.
       thenM (guardM (cat \<noteq> None) (HTTPException 404 ''Category not found''))
        (thenM (modifyM (\<lambda>w. w\<lparr>w_db := unlink_category category_id (w_db w)\<rparr>))
          (thenM (crud_delete category_model now category_id) (returnM ()))))"

definition list_tags :: "('r, tag list) app" where
  "list_tags = get_multi tag_model 0 100 False"

definition create_tag :: "user \<Rightarrow> string \<Rightarrow> string \<Rightarrow> ('r, tag) app" where
  "create_tag current_user name slug =
     bindM (tag_get_by_slug slug None) (\<lambda>existing.
       thenM (guardM (existing = None) (HTTPException 409 ''Tag with this slug already exists''))
        (crud_create tag_model \<lparr>tag_id = 0, tag_tenant_id = None, tag_name = name, tag_slug = slug\<rparr>))"

definition delete_tag :: "datetime \<Rightarrow> user \<Rightarrow> int \<Rightarrow> ('r, unit) app" where
  "delete_tag now current_user i =
     bindM (crud_get tag_model i False) (\<lambda>t.
       thenM (guardM (t \<noteq> None) (HTTPException 404 ''Tag not found''))
        (thenM (modifyM (\<lambda>w. w\<lparr>w_db := unlink_tag i (w_db w)\<rparr>))
          (thenM (crud_delete tag_model now i) (returnM ()))))"

section \<open>The contract of a kind of content\<close>

definition undeleted :: "'a content \<Rightarrow> db \<Rightarrow> 'a list" where
  "undeleted K d = filter (\<lambda>r. ct_deleted_at K r = None) (t_rows (m_tbl (ct_model K) d))"

text \<open>Keys are well-formed and no two live rows have the same slug, in the session and in what is committed.\<close>

definition content_ok :: "'a content \<Rightarrow> db \<Rightarrow> bool" where
  "content_ok K d \<longleftrightarrow> table_wf (m_rid (ct_model K)) (m_tbl (ct_model K) d) \<and> distinct (map (ct_slug K) (undeleted K d))"

definition content_inv :: "'a content \<Rightarrow> 'r world \<Rightarrow> bool" where
  "content_inv K w \<longleftrightarrow> content_ok K (w_db w) \<and> content_ok K (w_committed w)"

locale content_type = soft_model "ct_model K" "ct_deleted_at K" set_deleted_at
  for K :: "'a content" and set_deleted_at :: "datetime option \<Rightarrow> 'a \<Rightarrow> 'a" +
  assumes slug_id: "ct_slug K (m_set_id (ct_model K) i r) = ct_slug K r"
    and deleted_id: "ct_deleted_at K (m_set_id (ct_model K) i r) = ct_deleted_at K r"
    and slug_links: "ct_slug K (ct_set_categories K cs r) = ct_slug K r" "ct_slug K (ct_set_tags K cs r) = ct_slug K r"
    and deleted_links: "ct_deleted_at K (ct_set_categories K cs r) = ct_deleted_at K r" "ct_deleted_at K (ct_set_tags K cs r) = ct_deleted_at K r"
    and rid_links: "m_rid (ct_model K) (ct_set_categories K cs r) = m_rid (ct_model K) r" "m_rid (ct_model K) (ct_set_tags K cs r) = m_rid (ct_model K) r"
    and slug_set: "ct_slug K (set_deleted_at v r) = ct_slug K r"
begin

lemma by_slug:
  assumes "content_ok K (w_db w)"
  shows "content_get_by_slug K slug None w =
    (Inr (case filter (\<lambda>r. ct_slug K r = slug) (undeleted K (w_db w)) of [] \<Rightarrow> None | r # _ \<Rightarrow> Some r), w)"
proof -
  let ?rs = "filter (\<lambda>r. ct_slug K r = slug) (undeleted K (w_db w))"
  have eq: "select_where (\<lambda>r. ct_slug K r = slug \<and> ct_deleted_at K r = None) (m_tbl (ct_model K) (w_db w)) = ?rs"
    by (simp add: select_where_def undeleted_def conj_commute)
  have "?rs = [] \<or> (\<exists>r. ?rs = [r])"
  proof (cases "\<exists>r \<in> set (undeleted K (w_db w)). ct_slug K r = slug")
    case True
    then obtain r where r: "r \<in> set (undeleted K (w_db w))" "ct_slug K r = slug" by blast
    have "filter (\<lambda>x. ct_slug K x = ct_slug K r) (undeleted K (w_db w)) = [r]"
      using assms r(1) by (intro distinct_filter_key) (simp_all add: content_ok_def)
    then show ?thesis using r(2) by auto
  qed (auto simp: filter_empty_conv)
  then show ?thesis using eq by (auto simp: content_get_by_slug_def scalar_one_or_none_def)
qed

lemma insert_ok:
  assumes "content_ok K d" "ct_deleted_at K row = None" "ct_slug K row \<notin> ct_slug K ` set (undeleted K d)"
  shows "content_ok K (m_upd (ct_model K) (insert_row (m_set_id (ct_model K)) row) d)"
  using assms rows.wf_insert by (simp add: content_ok_def undeleted_def tbl_upd insert_row_def slug_id deleted_id)

lemma save_ok:
  assumes "content_ok K d" "r \<in> set (undeleted K d)" "m_rid (ct_model K) r' = m_rid (ct_model K) r"
    and "ct_slug K r' = ct_slug K r \<or> ct_slug K r' \<notin> ct_slug K ` set (undeleted K d)"
  shows "content_ok K (m_upd (ct_model K) (update_row (m_rid (ct_model K)) r') d)"
proof -
  let ?t = "m_tbl (ct_model K) d" and ?f = "\<lambda>x. if m_rid (ct_model K) x = m_rid (ct_model K) r' then r' else x"
  have live: "ct_deleted_at K r = None" using assms(2) by (simp add: undeleted_def)
  obtain ys zs where rows: "t_rows ?t = ys @ r # zs" using assms(2) by (auto simp: undeleted_def dest: split_list)
  have "distinct (map (m_rid (ct_model K)) (ys @ r # zs))" using assms(1) rows by (simp add: content_ok_def table_wf_def)
  then have "map ?f ys = ys" "map ?f zs = zs" using assms(3) by (auto simp: image_iff intro!: map_idI)
  then have "t_rows (update_row (m_rid (ct_model K)) r' ?t) = ys @ r' # zs" using assms(3) by (simp add: update_row_def rows)
  then have "distinct (map (ct_slug K) (undeleted K (m_upd (ct_model K) (update_row (m_rid (ct_model K)) r') d)))"
    using assms(1,4) live by (auto simp: content_ok_def undeleted_def tbl_upd rows) (metis (mono_tags, lifting) image_eqI mem_Collect_eq)+
  then show ?thesis using assms(1) rows.wf_update by (simp add: content_ok_def tbl_upd)
qed

lemma assign_links_run:
  "\<exists>obj'. assign_links K cs ts obj w = (Inr obj', w) \<and> m_rid (ct_model K) obj' = m_rid (ct_model K) obj \<and>
     ct_slug K obj' = ct_slug K obj \<and> ct_deleted_at K obj' = ct_deleted_at K obj"
  by (simp add: assign_links_def slug_links deleted_links rid_links split: option.split)

lemma slug_free_run:
  assumes "content_ok K (w_db w)"
  shows "slug_free K slug w =
    (if slug \<in> ct_slug K ` set (undeleted K (w_db w)) then Inl (HTTPException 409 (ct_name K @ '' with this slug already exists'')) else Inr (), w)"
proof -
  have "filter (\<lambda>r. ct_slug K r = slug) (undeleted K (w_db w)) = [] \<longleftrightarrow> slug \<notin> ct_slug K ` set (undeleted K (w_db w))"
    by (auto simp: filter_empty_conv)
  then show ?thesis using by_slug [OF assms, of slug] by (auto simp: slug_free_def bindM_def guardM_def split: list.split)
qed

lemma create_keeps:
  assumes "content_inv K w" "ct_deleted_at K row = None"
  shows "content_inv K (snd (create_content K row cs ts w))"
    and "fst (create_content K row cs ts w) = Inr x \<Longrightarrow>
      x \<in> set (undeleted K (w_db (snd (create_content K row cs ts w)))) \<and> ct_slug K x = ct_slug K row"
proof -
  let ?M = "ct_model K"
  have ok: "content_ok K (w_db w)" "content_ok K (w_committed w)" using assms(1) by (simp_all add: content_inv_def)
  let ?d1 = "m_upd ?M (insert_row (m_set_id ?M) row) (w_db w)"
  let ?obj = "next_row (m_set_id ?M) row (m_tbl ?M (w_db w))"
  obtain obj' where obj': "assign_links K (if cs = [] then None else Some cs) (if ts = [] then None else Some ts) ?obj (w\<lparr>w_db := ?d1\<rparr>) =
      (Inr obj', w\<lparr>w_db := ?d1\<rparr>)" "m_rid ?M obj' = m_rid ?M ?obj" "ct_slug K obj' = ct_slug K ?obj" "ct_deleted_at K obj' = ct_deleted_at K ?obj"
    using assign_links_run by blast
  let ?d2 = "m_upd ?M (update_row (m_rid ?M) obj') ?d1"
  have facts: "ct_slug K ?obj = ct_slug K row" "ct_deleted_at K ?obj = None" "?obj \<in> set (undeleted K ?d1)"
    using assms(2) by (simp_all add: next_row_def slug_id deleted_id undeleted_def tbl_upd insert_row_def)
  have run: "create_content K row cs ts w =
      (if ct_slug K row \<in> ct_slug K ` set (undeleted K (w_db w)) then (Inl (HTTPException 409 (ct_name K @ '' with this slug already exists'')), w)
       else if db_unique ?d2 then (Inr obj', w\<lparr>w_db := ?d2, w_committed := ?d2\<rparr>) else (Inl IntegrityError, w\<lparr>w_db := ?d2\<rparr>))"
    using slug_free_run [OF ok(1), of "ct_slug K row"] obj'(1)
    by (simp add: create_content_def create_with_relations_def thenM_def bindM_def commit_run)
  have ok2: "content_ok K ?d2" if "ct_slug K row \<notin> ct_slug K ` set (undeleted K (w_db w))"
    using save_ok [OF insert_ok [OF ok(1) assms(2) that] facts(3) obj'(2)] obj'(3) by simp
  show "content_inv K (snd (create_content K row cs ts w))" using ok ok2 by (simp add: run content_inv_def)
  have "obj' \<in> set (undeleted K ?d2)"
    using facts obj'(2,4) by (force simp: undeleted_def tbl_upd update_row_def)
  then show "fst (create_content K row cs ts w) = Inr x \<Longrightarrow>
      x \<in> set (undeleted K (w_db (snd (create_content K row cs ts w)))) \<and> ct_slug K x = ct_slug K row"
    using obj'(3) facts(1) by (auto simp: run split: if_splits)
qed

text \<open>What was created is found under its slug.\<close>

lemma found_iff:
  assumes "content_ok K (w_db w)" "r \<in> set (undeleted K (w_db w))"
  shows "found_content K (ct_slug K r) w = (Inr r, w)"
proof -
  have "filter (\<lambda>x. ct_slug K x = ct_slug K r) (undeleted K (w_db w)) = [r]"
    using assms by (intro distinct_filter_key) (simp_all add: content_ok_def)
  then show ?thesis using by_slug [OF assms(1), of "ct_slug K r"] by (simp add: found_content_def bindM_def)
qed

lemma found_cases:
  assumes "content_ok K (w_db w)"
  shows "(\<exists>r \<in> set (undeleted K (w_db w)). ct_slug K r = slug \<and> found_content K slug w = (Inr r, w)) \<or>
    slug \<notin> ct_slug K ` set (undeleted K (w_db w)) \<and> found_content K slug w = (Inl (HTTPException 404 (ct_name K @ '' not found'')), w)"
proof (cases "slug \<in> ct_slug K ` set (undeleted K (w_db w))")
  case True
  then show ?thesis using found_iff [OF assms] by auto
next
  case False
  then have "filter (\<lambda>x. ct_slug K x = slug) (undeleted K (w_db w)) = []" by (auto simp: filter_empty_conv)
  then show ?thesis using False by_slug [OF assms, of slug] by (simp add: found_content_def bindM_def)
qed

lemma relations_keeps:
  assumes "content_inv K w" "r \<in> set (undeleted K (w_db w))"
    and "\<And>obj. f r = Some obj \<Longrightarrow> m_rid (ct_model K) obj = m_rid (ct_model K) r \<and>
      (ct_slug K obj = ct_slug K r \<or> ct_slug K obj \<notin> ct_slug K ` set (undeleted K (w_db w)))"
  shows "content_inv K (snd (update_with_relations K r f cs ts w))"
proof (cases "f r")
  case None
  then show ?thesis using assms(1) by (simp add: update_with_relations_def)
next
  case (Some obj)
  obtain obj' where obj': "assign_links K cs ts obj w = (Inr obj', w)" "m_rid (ct_model K) obj' = m_rid (ct_model K) obj"
      "ct_slug K obj' = ct_slug K obj"
    using assign_links_run by blast
  have "content_ok K (m_upd (ct_model K) (update_row (m_rid (ct_model K)) obj') (w_db w))"
    using assms(1,2) assms(3) [OF Some] obj'(2,3) by (intro save_ok [of _ r]) (simp_all add: content_inv_def)
  then show ?thesis using assms(1) Some obj'(1) by (simp add: update_with_relations_def content_inv_def thenM_def bindM_def commit_run)
qed

lemma update_keeps:
  assumes "content_inv K w" "new_slug \<noteq> Some (Some [])"
    and "\<And>r obj. f r = Some obj \<Longrightarrow> m_rid (ct_model K) obj = m_rid (ct_model K) r \<and>
      ct_slug K obj = (case new_slug of Some (Some s) \<Rightarrow> s | _ \<Rightarrow> ct_slug K r)"
  shows "content_inv K (snd (update_content K slug new_slug f cs ts w))"
proof -
  have ok: "content_ok K (w_db w)" using assms(1) by (simp add: content_inv_def)
  show ?thesis
  proof (cases "\<exists>r \<in> set (undeleted K (w_db w)). ct_slug K r = slug")
    case True
    then obtain r where r: "r \<in> set (undeleted K (w_db w))" "ct_slug K r = slug" "found_content K slug w = (Inr r, w)"
      using found_iff [OF ok] by auto
    show ?thesis
    proof (cases "\<exists>s. new_slug = Some (Some s) \<and> s \<noteq> slug")
      case True
      then obtain s where s: "new_slug = Some (Some s)" "s \<noteq> slug" by blast
      then obtain c cs' where c: "s = c # cs'" using assms(2) by (cases s) auto
      show ?thesis
      proof (cases "s \<in> ct_slug K ` set (undeleted K (w_db w))")
        case True
        then show ?thesis using r(3) s c slug_free_run [OF ok, of s] assms(1) by (simp add: update_content_def thenM_def bindM_def)
      next
        case False
        then have "content_inv K (snd (update_with_relations K r f cs ts w))"
          using assms(3) s(1) by (intro relations_keeps [OF assms(1) r(1)]) auto
        then show ?thesis using False r(3) s c slug_free_run [OF ok, of s] by (simp add: update_content_def thenM_def bindM_def)
      qed
    next
      case False
      have "content_inv K (snd (update_with_relations K r f cs ts w))"
        using assms(3) False r(2) by (intro relations_keeps [OF assms(1) r(1)]) (auto split: option.splits)
      moreover have "update_content K slug new_slug f cs ts w = update_with_relations K r f cs ts w"
        using False r(3) by (auto simp: update_content_def thenM_def bindM_def split: option.split list.split)
      ultimately show ?thesis by simp
    qed
  next
    case False
    then show ?thesis using found_cases [OF ok, of slug] assms(1) by (auto simp: update_content_def bindM_def)
  qed
qed

lemma delete_content_run:
  assumes "content_ok K (w_db w)" "r \<in> set (undeleted K (w_db w))"
  shows "delete_content K now (ct_slug K r) w =
    (let d = m_upd (ct_model K) (update_row (m_rid (ct_model K)) (set_deleted_at (Some now) r)) (w_db w)
     in if db_unique d then (Inr (), w\<lparr>w_db := d, w_committed := d\<rparr>) else (Inl IntegrityError, w\<lparr>w_db := d\<rparr>))"
proof -
  have "crud_get (ct_model K) (m_rid (ct_model K) r) False w = (Inr (Some r), w)"
    using assms by (intro get_by_id) (simp_all add: content_ok_def undeleted_def visible_soft)
  then show ?thesis using found_iff [OF assms] soft
    by (simp add: delete_content_def crud_delete_def thenM_def bindM_def commit_run Let_def)
qed

lemma delete_keeps:
  assumes "content_inv K w"
  shows "content_inv K (snd (delete_content K now slug w))"
proof -
  have ok: "content_ok K (w_db w)" using assms by (simp add: content_inv_def)
  show ?thesis
  proof (cases "\<exists>r \<in> set (undeleted K (w_db w)). ct_slug K r = slug")
    case True
    then obtain r where r: "r \<in> set (undeleted K (w_db w))" "ct_slug K r = slug" by blast
    have "content_ok K (m_upd (ct_model K) (update_row (m_rid (ct_model K)) (set_deleted_at (Some now) r)) (w_db w))"
      by (rule save_ok [OF ok r(1)]) (simp_all add: rid_set slug_set)
    then show ?thesis using delete_content_run [OF ok r(1), of now] r(2) assms by (simp add: content_inv_def Let_def)
  next
    case False
    then show ?thesis using found_cases [OF ok, of slug] assms by (auto simp: delete_content_def bindM_def)
  qed
qed

end

lemma unique_save_page:
  assumes "db_unique d" "table_wf cpg_id (cms_pages d)" "r \<in> set (t_rows (cms_pages d))"
  shows "db_unique (cms_pages_update (update_row cpg_id (r\<lparr>cpg_deleted_at := v\<rparr>)) d)"
proof -
  have "unique_on (\<lambda>p. slug_key (cpg_tenant_id p) (cpg_slug p)) (update_row cpg_id (r\<lparr>cpg_deleted_at := v\<rparr>) (cms_pages d))"
    using assms distinct_key_unique [of cpg_id "t_rows (cms_pages d)" _ r]
    by (intro unique_on_update [OF _ assms(2)]) (auto simp: db_unique_def table_wf_def)
  then show ?thesis using assms(1) by (simp add: db_unique_def)
qed

lemma unique_save_post:
  assumes "db_unique d" "table_wf pst_id (cms_posts d)" "r \<in> set (t_rows (cms_posts d))"
  shows "db_unique (cms_posts_update (update_row pst_id (r\<lparr>pst_deleted_at := v\<rparr>)) d)"
proof -
  have "unique_on (\<lambda>p. slug_key (pst_tenant_id p) (pst_slug p)) (update_row pst_id (r\<lparr>pst_deleted_at := v\<rparr>) (cms_posts d))"
    using assms distinct_key_unique [of pst_id "t_rows (cms_posts d)" _ r]
    by (intro unique_on_update [OF _ assms(2)]) (auto simp: db_unique_def table_wf_def)
  then show ?thesis using assms(1) by (simp add: db_unique_def)
qed

lemmas content_defs = page_content_def post_content_def page_model_def post_model_def

interpretation pages: content_type page_content "\<lambda>v r. r\<lparr>cpg_deleted_at := v\<rparr>"
  by unfold_locales (simp_all add: content_defs comp_def unique_save_page)

interpretation posts: content_type post_content "\<lambda>v r. r\<lparr>pst_deleted_at := v\<rparr>"
  by unfold_locales (simp_all add: content_defs comp_def unique_save_post)

section \<open>What the endpoints guarantee\<close>

datatype page_op = Create_page datetime cms_page_create | Update_page string page_update | Delete_page datetime string

fun run_page_op :: "(string \<Rightarrow> string option) \<Rightarrow> user \<Rightarrow> page_op \<Rightarrow> ('r, unit) app" where
  "run_page_op md u (Create_page now page_in) = thenM (create_page md now u page_in) (returnM ())"
| "run_page_op md u (Update_page slug page_in) = thenM (update_page md u slug page_in) (returnM ())"
| "run_page_op md u (Delete_page now slug) = delete_page now u slug"

fun page_op_valid :: "page_op \<Rightarrow> bool" where
  "page_op_valid (Create_page now page_in) = page_create_valid page_in"
| "page_op_valid (Update_page slug page_in) = (\<forall>s. pgu_slug page_in = Some (Some s) \<longrightarrow> content_slug 255 s)"
| "page_op_valid (Delete_page now slug) = True"

text \<open>Requests, each in a session of its own, whatever their outcome.\<close>

definition run_pages :: "(string \<Rightarrow> string option) \<Rightarrow> (user \<times> page_op) list \<Rightarrow> 'r world \<Rightarrow> 'r world" where
  "run_pages md ops w = fold (\<lambda>(u, op) w. snd (with_session (run_page_op md u op) w)) ops w"

lemma snd_then_return: "snd (thenM m (returnM x) w) = snd (m w)"
  by (simp add: thenM_def bindM_def split: prod.split sum.split)

lemma page_update_laws:
  "apply_page_update md u r = Some r' \<Longrightarrow> cpg_id r' = cpg_id r \<and> cpg_slug r' = (case pgu_slug u of Some (Some s) \<Rightarrow> s | _ \<Rightarrow> cpg_slug r)"
  by (auto simp: apply_page_update_def or_keep_def split: option.splits)

lemma page_op_keeps:
  assumes "page_op_valid op" "content_inv page_content w"
  shows "content_inv page_content (snd (run_page_op md u op w))"
proof (cases op)
  case (Create_page now page_in)
  have "ct_deleted_at page_content (page_row md now page_in (user_tenant_id u) (Some (user_id u))) = None"
    by (simp add: page_content_def page_row_def)
  then show ?thesis using pages.create_keeps(1) [OF assms(2)] Create_page by (simp add: create_page_def snd_then_return)
next
  case (Update_page slug page_in)
  have "pgu_slug page_in \<noteq> Some (Some [])" using assms(1) Update_page by (force simp: content_slug_def)
  then have "content_inv page_content (snd (update_content page_content slug (pgu_slug page_in) (apply_page_update md page_in) cs ts w))" for cs ts
    by (intro pages.update_keeps [OF assms(2)]) (simp_all add: content_defs page_update_laws split: option.split)
  then show ?thesis using Update_page by (simp add: update_page_def snd_then_return)
next
  case (Delete_page now slug)
  then show ?thesis using pages.delete_keeps [OF assms(2)] by (simp add: delete_page_def)
qed

lemma run_pages_keeps:
  "list_all (\<lambda>(u, op). page_op_valid op) ops \<Longrightarrow> content_inv page_content w \<Longrightarrow> content_inv page_content (run_pages md ops w)"
proof (induction ops arbitrary: w)
  case (Cons x ops)
  obtain u op where x: "x = (u, op)" by (cases x)
  have "content_inv page_content (snd (with_session (run_page_op md u op) w))"
    using page_op_keeps [of op w md u] Cons.prems x
    by (cases "run_page_op md u op w") (simp add: with_session_def content_inv_def)
  then show ?case using Cons by (simp add: run_pages_def x)
qed (simp add: run_pages_def)

text \<open>
  C28: a slug names at most one page. Whatever requests come in, by users of any tenants, no two pages that are not
  deleted share a slug, so that the lookup by slug never fails on several rows: it gives the page, or 404 when
  there is none.
\<close>

theorem page_slugs_unique:
  assumes "content_inv page_content w" and "list_all (\<lambda>(u, op). page_op_valid op) ops"
  shows "(let w' = run_pages md ops w
          in (\<exists>p \<in> set (t_rows (cms_pages (w_db w'))). cpg_deleted_at p = None \<and> cpg_slug p = slug \<and> get_page slug w' = (Inr p, w')) \<or>
             (\<forall>p \<in> set (t_rows (cms_pages (w_db w'))). cpg_deleted_at p = None \<longrightarrow> cpg_slug p \<noteq> slug) \<and>
             get_page slug w' = (Inl (HTTPException 404 ''Page not found''), w'))"
proof -
  have "content_ok page_content (w_db (run_pages md ops w))"
    using run_pages_keeps [OF assms(2,1)] by (simp add: content_inv_def)
  from pages.found_cases [OF this, of slug] show ?thesis
    by (auto simp: Let_def get_page_def undeleted_def content_defs)
qed

lemma page_links_run:
  "\<exists>cs' ts'. assign_links page_content cs ts obj w = (Inr (obj\<lparr>cpg_categories := cs', cpg_tags := ts'\<rparr>), w)"
proof -
  have "\<exists>cs' ts'. obj\<lparr>cpg_categories := a\<rparr> = obj\<lparr>cpg_categories := cs', cpg_tags := ts'\<rparr>" "\<exists>cs' ts'. obj = obj\<lparr>cpg_categories := cs', cpg_tags := ts'\<rparr>"
    "\<exists>cs' ts'. obj\<lparr>cpg_tags := b\<rparr> = obj\<lparr>cpg_categories := cs', cpg_tags := ts'\<rparr>"
    "\<exists>cs' ts'. obj\<lparr>cpg_tags := b, cpg_categories := a\<rparr> = obj\<lparr>cpg_categories := cs', cpg_tags := ts'\<rparr>" for a b
    by (cases obj; auto)+
  then show ?thesis by (auto simp: assign_links_def page_content_def split: option.split)
qed

definition about_page :: cms_page_create where
  "about_page = \<lparr>pgc_title = ''About'', pgc_slug = ''about'', pgc_body_md = Some ''hi'', pgc_meta_title = None, pgc_meta_description = None,
     pgc_is_published = False, pgc_category_ids = [], pgc_tag_ids = []\<rparr>"

lemma sample_content_inv: "content_inv page_content sample_world"
  by (simp add: content_inv_def content_ok_def undeleted_def content_defs sample_defs table_wf_def)

theorem page_slugs_unique_witness:
  "(let w' = run_pages (\<lambda>s. Some s) [(sample_user, Create_page 5 about_page), (sample_user, Create_page 6 about_page)] sample_world
    in (\<exists>p \<in> set (t_rows (cms_pages (w_db w'))). cpg_deleted_at p = None \<and> cpg_slug p = ''about'' \<and> get_page ''about'' w' = (Inr p, w')) \<or>
       (\<forall>p \<in> set (t_rows (cms_pages (w_db w'))). cpg_deleted_at p = None \<longrightarrow> cpg_slug p \<noteq> ''about'') \<and>
       get_page ''about'' w' = (Inl (HTTPException 404 ''Page not found''), w'))"
proof -
  have "page_create_valid about_page"
    by (simp add: page_create_valid_def about_page_def content_slug_def short_opt_def is_lower_def)
  then show ?thesis by (intro page_slugs_unique sample_content_inv) simp
qed

lemma create_page_run:
  fixes md :: "string \<Rightarrow> string option" and now :: datetime and u :: user
  assumes "content_inv page_content w" "pgc_slug page_in \<notin> cpg_slug ` set (undeleted page_content (w_db w))"
  defines "row \<equiv> page_row md now page_in (user_tenant_id u) (Some (user_id u))"
  shows "\<exists>cs ts. (let p = row\<lparr>cpg_id := t_seq (cms_pages (w_db w)) + 1, cpg_categories := cs, cpg_tags := ts\<rparr>;
      d = cms_pages_update (update_row cpg_id p \<circ> insert_row (\<lambda>i r. r\<lparr>cpg_id := i\<rparr>) row) (w_db w)
    in create_page md now u page_in w = (if db_unique d then (Inr p, w\<lparr>w_db := d, w_committed := d\<rparr>) else (Inl IntegrityError, w\<lparr>w_db := d\<rparr>)))"
proof -
  let ?d1 = "cms_pages_update (insert_row (\<lambda>i r. r\<lparr>cpg_id := i\<rparr>) row) (w_db w)"
  obtain cs ts where links: "assign_links page_content (if pgc_category_ids page_in = [] then None else Some (pgc_category_ids page_in))
      (if pgc_tag_ids page_in = [] then None else Some (pgc_tag_ids page_in)) (next_row (\<lambda>i r. r\<lparr>cpg_id := i\<rparr>) row (cms_pages (w_db w)))
      (w\<lparr>w_db := ?d1\<rparr>) =
    (Inr (next_row (\<lambda>i r. r\<lparr>cpg_id := i\<rparr>) row (cms_pages (w_db w))\<lparr>cpg_categories := cs, cpg_tags := ts\<rparr>), w\<lparr>w_db := ?d1\<rparr>)"
    using page_links_run by blast
  have "ct_slug page_content row = pgc_slug page_in" by (simp add: row_def page_row_def page_content_def)
  moreover have "slug_free page_content (pgc_slug page_in) w = (Inr (), w)"
    using pages.slug_free_run [of w "pgc_slug page_in"] assms(1,2) by (simp add: content_inv_def content_defs)
  moreover have "next_row (\<lambda>i r. r\<lparr>cpg_id := i\<rparr>) row (cms_pages (w_db w))\<lparr>cpg_categories := cs, cpg_tags := ts\<rparr> =
      row\<lparr>cpg_id := t_seq (cms_pages (w_db w)) + 1, cpg_categories := cs, cpg_tags := ts\<rparr>" by (simp add: next_row_def)
  ultimately show ?thesis
    using links unfolding create_page_def create_content_def create_with_relations_def row_def [symmetric]
    by (intro exI [of _ cs] exI [of _ ts]) (simp add: content_defs thenM_def bindM_def commit_run Let_def comp_def)
qed

text \<open>
  What is created is what is read. A page that the endpoint accepted is found under its slug, with the
  author, the tenant, the text and the rendered text of the request, and is not deleted.
\<close>

theorem page_create_get:
  assumes "content_inv page_content w" and "create_page md now u page_in w = (Inr p, w')"
  shows "get_page (pgc_slug page_in) w' = (Inr p, w') \<and> w_committed w' = w_db w' \<and>
    (\<exists>i cs ts. p = (page_row md now page_in (user_tenant_id u) (Some (user_id u)))\<lparr>cpg_id := i, cpg_categories := cs, cpg_tags := ts\<rparr>)"
proof -
  let ?row = "page_row md now page_in (user_tenant_id u) (Some (user_id u))"
  have row: "ct_deleted_at page_content ?row = None" "ct_slug page_content ?row = pgc_slug page_in"
    by (simp_all add: page_content_def page_row_def)
  have run: "create_content page_content ?row (pgc_category_ids page_in) (pgc_tag_ids page_in) w = (Inr p, w')"
    using assms(2) by (simp add: create_page_def)
  then have p: "p \<in> set (undeleted page_content (w_db w'))" "ct_slug page_content p = pgc_slug page_in" "content_inv page_content w'"
    using pages.create_keeps [OF assms(1) row(1), of "pgc_category_ids page_in" "pgc_tag_ids page_in"] row(2) by (metis fst_conv snd_conv)+
  then have "get_page (pgc_slug page_in) w' = (Inr p, w')"
    using pages.found_iff [of w' p] by (simp add: get_page_def content_inv_def)
  moreover have "pgc_slug page_in \<notin> cpg_slug ` set (undeleted page_content (w_db w))"
    using run pages.slug_free_run [of w "pgc_slug page_in"] assms(1) row(2)
    by (auto simp: create_content_def thenM_def bindM_def content_inv_def page_content_def split: if_splits)
  from create_page_run [OF assms(1) this, of md now u] have
    "w_committed w' = w_db w' \<and> (\<exists>i cs ts. p = ?row\<lparr>cpg_id := i, cpg_categories := cs, cpg_tags := ts\<rparr>)"
    using assms(2) by (auto simp: Let_def split: if_splits)
  ultimately show ?thesis by blast
qed

lemma about_page_created:
  "\<exists>p w'. create_page (\<lambda>s. Some s) 5 sample_user about_page sample_world = (Inr p, w')"
proof -
  have fresh: "pgc_slug about_page \<notin> cpg_slug ` set (undeleted page_content (w_db sample_world))"
    by (simp add: undeleted_def content_defs sample_defs)
  have uniq: "db_unique (cms_pages_update (update_row cpg_id p \<circ> insert_row (\<lambda>i r. r\<lparr>cpg_id := i\<rparr>) r) sample_db)" for p r
    using sample_db_ok(1) by (simp add: db_unique_def insert_row_def update_row_def unique_on_def List.map_filter_simps sample_defs split: option.split)
  show ?thesis using create_page_run [OF sample_content_inv fresh, of "\<lambda>s. Some s" 5 sample_user] uniq
    by (auto simp: Let_def sample_world_def)
qed

theorem page_create_get_witness:
  "\<exists>p w'. create_page (\<lambda>s. Some s) 5 sample_user about_page sample_world = (Inr p, w') \<and> get_page ''about'' w' = (Inr p, w')"
proof -
  obtain p w' where run: "create_page (\<lambda>s. Some s) 5 sample_user about_page sample_world = (Inr p, w')" using about_page_created by blast
  have "pgc_slug about_page = ''about''" by (simp add: about_page_def)
  then show ?thesis using page_create_get [OF sample_content_inv run] run by auto
qed

text \<open>A deleted page is no longer among those that the check looks at, but still in the index.\<close>

lemma slug_gone:
  assumes "content_ok page_content d" "r \<in> set (undeleted page_content d)"
  shows "cpg_slug r \<notin> cpg_slug ` set (undeleted page_content (cms_pages_update (update_row cpg_id (r\<lparr>cpg_deleted_at := Some now\<rparr>)) d))"
proof
  assume "cpg_slug r \<in> cpg_slug ` set (undeleted page_content (cms_pages_update (update_row cpg_id (r\<lparr>cpg_deleted_at := Some now\<rparr>)) d))"
  then obtain x where x: "x \<in> set (t_rows (update_row cpg_id (r\<lparr>cpg_deleted_at := Some now\<rparr>) (cms_pages d)))" "cpg_deleted_at x = None"
      "cpg_slug x = cpg_slug r"
    by (auto simp: undeleted_def content_defs)
  then obtain y where y: "y \<in> set (t_rows (cms_pages d))" "x = (if cpg_id y = cpg_id r then r\<lparr>cpg_deleted_at := Some now\<rparr> else y)"
    by (auto simp: update_row_def)
  then have "cpg_id y \<noteq> cpg_id r" "x = y" using x(2) by (auto split: if_splits)
  moreover have "y = r"
    using distinct_key_unique [of "ct_slug page_content" "undeleted page_content d" y r] assms x(2,3) y(1) \<open>x = y\<close>
    by (simp add: content_ok_def undeleted_def content_defs)
  ultimately show False by simp
qed

lemma index_violated:
  assumes "table_wf cpg_id t" "r \<in> set (t_rows t)" "slug_key (cpg_tenant_id r) (cpg_slug r) = Some k"
    and "slug_key (cpg_tenant_id p) (cpg_slug p) = Some k" "cpg_id p = t_seq t + 1"
  shows "\<not> unique_on (\<lambda>p. slug_key (cpg_tenant_id p) (cpg_slug p)) (update_row cpg_id p (insert_row (\<lambda>i r. r\<lparr>cpg_id := i\<rparr>) row t))"
proof
  let ?t = "update_row cpg_id p (insert_row (\<lambda>i r. r\<lparr>cpg_id := i\<rparr>) row t)"
  assume u: "unique_on (\<lambda>p. slug_key (cpg_tenant_id p) (cpg_slug p)) ?t"
  have ne: "cpg_id r \<noteq> cpg_id p" using assms(1,2,5) by (auto simp: table_wf_def list_all_iff)
  have "t_rows ?t = map (\<lambda>x. if cpg_id x = cpg_id p then p else x) (t_rows t) @ [p]"
    using assms(5) by (simp add: update_row_def insert_row_def)
  then have "r \<in> set (t_rows ?t)" "p \<in> set (t_rows ?t)" using assms(2) ne by (auto simp: image_iff intro!: bexI [of _ r])
  moreover have "table_wf cpg_id ?t" by (intro cpg_row.wf_update cpg_row.wf_insert assms(1))
  then have "distinct (t_rows ?t)" by (rule wf_distinct_rows)
  ultimately show False using unique_onD [OF u _ _ assms(3,4)] ne by blast
qed

text \<open>
  A deleted page keeps its slug. The index on tenant and slug counts deleted rows, but the check for an existing
  page does not: after a page is deleted, creating one with its slug in its tenant passes the check and
  fails in the database, with an error that no handler turns into a conflict.
\<close>

theorem deleted_slug_reserved:
  assumes "content_inv page_content w" and "db_unique (w_db w)" and "r \<in> set (t_rows (cms_pages (w_db w)))" and "cpg_deleted_at r = None"
    and "cpg_tenant_id r = Some t" and "user_tenant_id u' = Some t" and "pgc_slug page_in = cpg_slug r"
  shows "\<exists>w1. delete_page now u (cpg_slug r) w = (Inr (), w1) \<and> fst (create_page md later u' page_in w1) = Inl IntegrityError"
proof -
  let ?d = "cms_pages_update (update_row cpg_id (r\<lparr>cpg_deleted_at := Some now\<rparr>)) (w_db w)"
  let ?w1 = "w\<lparr>w_db := ?d, w_committed := ?d\<rparr>"
  have ok: "content_ok page_content (w_db w)" using assms(1) by (simp add: content_inv_def)
  have und: "r \<in> set (undeleted page_content (w_db w))" using assms(3,4) by (simp add: undeleted_def content_defs)
  have wf: "table_wf cpg_id (cms_pages (w_db w))" using ok by (simp add: content_ok_def content_defs)
  have "db_unique ?d" by (rule unique_save_page [OF assms(2) wf assms(3)])
  then have del: "delete_page now u (cpg_slug r) w = (Inr (), ?w1)"
    using pages.delete_content_run [OF ok und, of now] by (simp add: delete_page_def content_defs Let_def)
  let ?r = "r\<lparr>cpg_deleted_at := Some now\<rparr>" and ?row = "page_row md later page_in (user_tenant_id u') (Some (user_id u'))"
  have inv1: "content_inv page_content ?w1" using pages.delete_keeps [OF assms(1), of now "cpg_slug r"] del by (simp add: delete_page_def)
  have "pgc_slug page_in \<notin> cpg_slug ` set (undeleted page_content ?d)" using slug_gone [OF ok und] assms(7) by simp
  then obtain cs ts where run: "(let p = ?row\<lparr>cpg_id := t_seq (cms_pages ?d) + 1, cpg_categories := cs, cpg_tags := ts\<rparr>;
      d = cms_pages_update (update_row cpg_id p \<circ> insert_row (\<lambda>i r. r\<lparr>cpg_id := i\<rparr>) ?row) ?d
    in create_page md later u' page_in ?w1 = (if db_unique d then (Inr p, ?w1\<lparr>w_db := d, w_committed := d\<rparr>) else (Inl IntegrityError, ?w1\<lparr>w_db := d\<rparr>)))"
    using create_page_run [OF inv1, of page_in md later u'] by auto
  let ?p = "?row\<lparr>cpg_id := t_seq (cms_pages ?d) + 1, cpg_categories := cs, cpg_tags := ts\<rparr>"
  have "?r \<in> set (t_rows (cms_pages ?d))" using assms(3) by (force simp: update_row_def)
  moreover have "table_wf cpg_id (cms_pages ?d)" using inv1 by (simp add: content_inv_def content_ok_def content_defs)
  ultimately have "\<not> unique_on (\<lambda>p. slug_key (cpg_tenant_id p) (cpg_slug p)) (update_row cpg_id ?p (insert_row (\<lambda>i r. r\<lparr>cpg_id := i\<rparr>) ?row (cms_pages ?d)))"
    using assms(5-7) by (intro index_violated [of _ ?r "(t, cpg_slug r)"]) (simp_all add: slug_key_def page_row_def)
  then have "\<not> db_unique (cms_pages_update (update_row cpg_id ?p \<circ> insert_row (\<lambda>i r. r\<lparr>cpg_id := i\<rparr>) ?row) ?d)" by (simp add: db_unique_def)
  then have "fst (create_page md later u' page_in ?w1) = Inl IntegrityError" using run by (simp add: Let_def)
  then show ?thesis using del by blast
qed

definition stored_page :: cms_page where
  "stored_page = (page_row (\<lambda>s. Some s) 5 about_page (Some 7) (Some 1))\<lparr>cpg_id := 1\<rparr>"

theorem deleted_slug_reserved_witness:
  "\<exists>w1. delete_page 9 sample_user ''about'' (sample_world\<lparr>w_db := sample_db\<lparr>cms_pages := \<lparr>t_rows = [stored_page], t_seq = 1\<rparr>\<rparr>\<rparr>) = (Inr (), w1) \<and>
     fst (create_page (\<lambda>s. Some s) 10 sample_user about_page w1) = Inl IntegrityError"
proof -
  let ?d = "sample_db\<lparr>cms_pages := \<lparr>t_rows = [stored_page], t_seq = 1\<rparr>\<rparr>"
  let ?w = "sample_world\<lparr>w_db := ?d\<rparr>"
  have page: "cpg_slug stored_page = ''about''" "cpg_deleted_at stored_page = None" "cpg_tenant_id stored_page = Some 7" "cpg_id stored_page = 1"
    by (simp_all add: stored_page_def page_row_def about_page_def)
  have "content_inv page_content ?w"
    using sample_content_inv page by (simp add: content_inv_def content_ok_def undeleted_def content_defs table_wf_def)
  moreover have "db_unique ?d" using sample_db_ok(1) by (simp add: db_unique_def unique_on_def List.map_filter_simps split: option.split)
  ultimately show ?thesis
    using deleted_slug_reserved [of ?w stored_page 7 sample_user about_page 9 sample_user "\<lambda>s. Some s" 10] page
    by (simp add: sample_user_def about_page_def)
qed

end
