(* ===== verification/Purge.thy ===== *)
theory Purge
  imports Crud
begin

text \<open>
  \<^verbatim>\<open>app/tasks/purge.py\<close>: the scheduled task that hard-deletes rows which were soft-deleted long enough ago. Cascades of the
  foreign keys into other tables are not modelled.
\<close>

definition expired :: "'a model \<Rightarrow> datetime \<Rightarrow> 'a \<Rightarrow> bool" where
  "expired M cutoff r =
     (case m_soft M of None \<Rightarrow> False
      | Some (deleted_at, _) \<Rightarrow> (case deleted_at r of None \<Rightarrow> False | Some t \<Rightarrow> t < cutoff))"

definition drop_rows :: "('a \<Rightarrow> bool) \<Rightarrow> 'a table \<Rightarrow> 'a table" where
  "drop_rows P t = t\<lparr>t_rows := filter (\<lambda>r. \<not> P r) (t_rows t)\<rparr>"

text \<open>\<open>db.execute(delete(model).where(...))\<close>, with its row count.\<close>

definition purge_model :: "'a model \<Rightarrow> datetime \<Rightarrow> ('r, int) app" where
  "purge_model M cutoff =
     bindM (getsM (\<lambda>w. int (length (filter (expired M cutoff) (t_rows (m_tbl M (w_db w))))))) (\<lambda>rowcount.
       thenM (modifyM (\<lambda>w. w\<lparr>w_db := m_upd M (drop_rows (expired M cutoff)) (w_db w)\<rparr>)) (returnM rowcount))"

definition purge_soft_deleted :: "settings \<Rightarrow> datetime \<Rightarrow> ('r, (string \<times> int) list) app" where
  "purge_soft_deleted S now =
     (let cutoff = now - days_td (SOFT_DELETE_PURGE_DAYS S)
      in with_session
        (bindM (purge_model user_model cutoff) (\<lambda>us.
         bindM (purge_model notification_model cutoff) (\<lambda>ns.
         bindM (purge_model webhook_model cutoff) (\<lambda>whs.
         bindM (purge_model key_model cutoff) (\<lambda>ks.
           thenM commit
             (returnM [(''users'', us), (''notifications'', ns), (''webhooks'', whs), (''api_keys'', ks)])))))))"

lemma unique_drop_rows:
  assumes "unique_on key t"
  shows "unique_on key (drop_rows P t)"
proof -
  have "distinct (List.map_filter key xs) \<Longrightarrow>
    distinct (List.map_filter key (filter Q xs)) \<and> set (List.map_filter key (filter Q xs)) \<subseteq> set (List.map_filter key xs)" for xs Q
    by (induction xs) (auto simp: List.map_filter_simps split: option.splits)
  then show ?thesis using assms by (simp add: unique_on_def drop_rows_def)
qed

lemma wf_drop_rows: "table_wf rid t \<Longrightarrow> table_wf rid (drop_rows P t)"
  by (auto simp: table_wf_def drop_rows_def list_all_iff distinct_map_filter)

definition purged :: "db \<Rightarrow> datetime \<Rightarrow> db" where
  "purged d cutoff =
     api_keys_update (drop_rows (expired key_model cutoff)) (webhooks_update (drop_rows (expired webhook_model cutoff))
       (notifications_update (drop_rows (expired notification_model cutoff)) (users_update (drop_rows (expired user_model cutoff)) d)))"

lemma purged_ok: "db_unique d \<Longrightarrow> db_unique (purged d c)" "db_keys d \<Longrightarrow> db_keys (purged d c)"
  by (simp_all add: purged_def db_unique_def db_keys_def unique_drop_rows wf_drop_rows)

text \<open>
  The purge removes exactly the users, notifications, webhooks and API keys that were deleted more than the retention
  time ago, commits, and reports how many of each; everything else stays, and no constraint breaks.
\<close>

theorem purge_exact:
  assumes "store_ok w"
  shows "\<exists>w'. purge_soft_deleted S now w =
      (Inr (let c = now - days_td (SOFT_DELETE_PURGE_DAYS S)
            in [(''users'', int (length (filter (expired user_model c) (t_rows (users (w_db w)))))),
                (''notifications'', int (length (filter (expired notification_model c) (t_rows (notifications (w_db w)))))),
                (''webhooks'', int (length (filter (expired webhook_model c) (t_rows (webhooks (w_db w)))))),
                (''api_keys'', int (length (filter (expired key_model c) (t_rows (api_keys (w_db w))))))]), w') \<and>
    w_db w' = purged (w_db w) (now - days_td (SOFT_DELETE_PURGE_DAYS S)) \<and> store_ok w'"
proof -
  let ?c = "now - days_td (SOFT_DELETE_PURGE_DAYS S)"
  have ok: "db_unique (purged (w_db w) ?c)" "db_keys (purged (w_db w) ?c)" using assms purged_ok by (simp_all add: store_ok_def)
  then show ?thesis
    by (simp add: purge_soft_deleted_def purge_model_def with_session_def commit_run Let_def purged_def store_ok_def model_defs)
qed

end
