(* ===== verification/Admin.thy ===== *)
theory Admin
  imports BillingApi AuthApi Cursor "HOL-Library.Sublist"
begin

text \<open>
  The admin pages: \<^verbatim>\<open>app/admin/__init__.py\<close> and \<^verbatim>\<open>app/admin/deps.py\<close>.

  A handler gives what it passes to its template, or the address it redirects to. The registry is the table of the
  registered classes with the options that the handlers read. The handlers of every table take the class of the table as
  an argument: \<open>'a admin_class\<close> is its model descriptor with the types of its columns, the attributes of a new object, the
  columns that may not be null and have no default, and the effect of \<^verbatim>\<open>setattr\<close>; the classes of users, tenants, notifications
  and preferences are given. Form fields are texts (an uploaded file is not modelled). \<open>ilike\<close>, the case-insensitive matching of
  the database, is a parameter. Constraints of foreign keys are not modelled.
\<close>

section \<open>Who may enter\<close>

definition require_admin :: "user \<Rightarrow> ('r, user) app" where
  "require_admin current_user =
     thenM (guardM (user_is_superuser current_user \<or> list_ex (\<lambda>r. role_name r = ''admin'') (user_roles current_user))
             (HTTPException 403 ''Admin access required''))
       (returnM current_user)"

section \<open>The registry\<close>

record admin_config =
  adm_model :: string
  adm_search_columns :: "string list"
  adm_form_fields :: "string list"
  adm_list_display :: "string list"
  adm_permission :: string
  adm_deletable :: bool
  adm_actions :: "string list"

definition register_admin ::
  "string \<Rightarrow> string \<Rightarrow> string list \<Rightarrow> string list \<Rightarrow> string list \<Rightarrow> string \<Rightarrow> bool \<Rightarrow> string list \<Rightarrow> string \<times> admin_config" where
  "register_admin table_name model list_display search_columns form_fields permission deletable actions =
     (table_name, \<lparr>adm_model = model, adm_search_columns = search_columns, adm_form_fields = form_fields,
        adm_list_display = list_display, adm_permission = permission, adm_deletable = deletable, adm_actions = actions\<rparr>)"

definition admin_registry :: "(string \<times> admin_config) list" where
  "admin_registry =
    [register_admin ''users'' ''User'' [''email'', ''username'', ''is_active'', ''is_verified''] [''email'', ''username'']
       [''email'', ''username'', ''password'', ''full_name'', ''is_active'', ''is_verified''] ''user:admin'' True [],
     register_admin ''roles'' ''Role'' [''name'', ''description''] [''name''] [''name'', ''description''] ''role:admin'' True [],
     register_admin ''permissions'' ''Permission'' [''name'', ''description''] [''name''] [''name'', ''description'']
       ''permission:admin'' True [],
     register_admin ''tenants'' ''Tenant'' [''name'', ''slug'', ''is_active''] [''name''] [''name'', ''slug'', ''is_active'']
       ''tenant:admin'' True [],
     register_admin ''audit_logs'' ''AuditLog'' [''table_name'', ''record_id'', ''action'', ''actor_id'', ''created_at'']
       [''table_name'', ''action''] [] ''audit:admin'' True [],
     register_admin ''api_keys'' ''ApiKey'' [''name'', ''key_prefix'', ''user_id'', ''is_active'', ''created_at'']
       [''name'', ''key_prefix''] [''name'', ''user_id'', ''is_active'', ''scopes'', ''expires_at''] ''api_key:admin'' True [],
     register_admin ''notification_preferences'' ''NotificationPreference''
       [''user_id'', ''email_enabled'', ''in_app_enabled'', ''webhook_enabled''] [''user_id'']
       [''user_id'', ''email_enabled'', ''in_app_enabled'', ''webhook_enabled''] ''notification:admin'' True [],
     register_admin ''notifications'' ''Notification'' [''user_id'', ''event_type'', ''title'', ''is_read'', ''created_at'']
       [''event_type'', ''title''] [''user_id'', ''event_type'', ''title'', ''body'', ''is_read''] ''notification:admin'' True [],
     register_admin ''files'' ''File'' [''original_filename'', ''mime_type'', ''size_bytes'', ''uploader_id'', ''created_at'']
       [''original_filename'', ''mime_type''] [] ''file:admin'' True [],
     register_admin ''plans'' ''Plan'' [''name'', ''slug'', ''price_cents'', ''currency'', ''interval'', ''is_active'']
       [''name'', ''slug'']
       [''name'', ''slug'', ''description'', ''price_cents'', ''currency'', ''interval'', ''trial_days'', ''is_active'', ''metering'']
       ''plan:admin'' True [],
     register_admin ''subscriptions'' ''Subscription''
       [''tenant_id'', ''plan_id'', ''status'', ''current_period_end'', ''cancel_at_period_end'', ''failed_payment_count''] [''id'']
       [''plan_id'', ''trial_end'', ''cancel_at_period_end'', ''pending_plan_id'', ''stripe_subscription_id'']
       ''subscription:admin'' False [''override-plan'', ''set-status''],
     register_admin ''invoices'' ''Invoice''
       [''tenant_id'', ''subscription_id'', ''status'', ''currency'', ''total_cents'', ''issued_at'', ''paid_at''] [''id'']
       [''currency''] ''invoice:admin'' False [''refund''],
     register_admin ''invoice_lines'' ''InvoiceLine''
       [''invoice_id'', ''description'', ''quantity'', ''unit_amount_cents'', ''amount_cents''] [''description''] [] ''invoice:admin''
       False [],
     register_admin ''stripe_events'' ''StripeEvent''
       [''event_type'', ''stripe_event_id'', ''stripe_subscription_id'', ''processed_at''] [''event_type'', ''stripe_subscription_id'']
       [] ''stripe_event:admin'' False []]"

definition registered :: "string \<Rightarrow> ('r, admin_config) app" where
  "registered table_name =
     (case map_of admin_registry table_name of None \<Rightarrow> raiseM (HTTPException 404 ''Not Found'') | Some config \<Rightarrow> returnM config)"

definition permitted :: "user \<Rightarrow> admin_config \<Rightarrow> ('r, unit) app" where
  "permitted u config = guardM (has_permission u [adm_permission config]) (HTTPException 403 ''Forbidden'')"

text \<open>The first lines of most handlers.\<close>

definition admin_table :: "string \<Rightarrow> user \<Rightarrow> ('r, admin_config) app" where
  "admin_table table_name u = bindM (registered table_name) (\<lambda>config. thenM (permitted u config) (returnM config))"

section \<open>Classes and form values\<close>

datatype col_type = Boolean | Integer | Other_type

datatype form_value = FBool bool | FInt int | FStr string

type_synonym form = "(string \<times> string) list"

record 'a admin_class =
  cls_model :: "'a model"
  cls_columns :: "(string \<times> col_type) list"
  cls_text :: "string \<Rightarrow> ('a \<Rightarrow> string option) option"
  cls_new :: 'a
  cls_required :: "string list"
  cls_set :: "string \<Rightarrow> form_value \<Rightarrow> 'a \<Rightarrow> 'a"
  cls_hashed_password :: "('a \<Rightarrow> string) option"

definition coerce_value :: "(string \<times> col_type) list \<Rightarrow> string \<Rightarrow> string \<Rightarrow> exn + form_value" where
  "coerce_value columns field v =
     (case map_of columns field of
        Some Boolean \<Rightarrow> Inr (FBool (map lower_char v \<in> {''1'', ''true'', ''on''}))
      | Some Integer \<Rightarrow> map_sum id FInt (int_exn v)
      | _ \<Rightarrow> Inr (FStr v))"

fun assign_fields :: "'a admin_class \<Rightarrow> string list \<Rightarrow> form \<Rightarrow> 'a \<Rightarrow> exn + 'a" where
  "assign_fields K [] form_data obj = Inr obj"
| "assign_fields K (field # fs) form_data obj =
     (case map_of form_data field of None \<Rightarrow> assign_fields K fs form_data obj
      | Some v \<Rightarrow>
          (case coerce_value (cls_columns K) field v of Inl e \<Rightarrow> Inl e
           | Inr x \<Rightarrow> assign_fields K fs form_data (cls_set K field x obj)))"

text \<open>Only users have a password: \<open>cls_hashed_password\<close> is \<open>None\<close> for every other class.\<close>

definition set_default_password_for_user :: "'a admin_class \<Rightarrow> 'a \<Rightarrow> ('r, unit) app" where
  "set_default_password_for_user K obj =
     guardM (case cls_hashed_password K of None \<Rightarrow> True | Some hashed_password \<Rightarrow> hashed_password obj \<noteq> [])
       (HTTPException 400 ''Password is required when creating a user'')"

definition email_unused :: "'a admin_class \<Rightarrow> form \<Rightarrow> ('r, unit) app" where
  "email_unused K form_data =
     (case (cls_hashed_password K, map_of form_data ''email'') of
        (Some _, Some email) \<Rightarrow>
          bindM (select_one users (\<lambda>u. user_email u = email)) (\<lambda>existing.
            guardM (existing = None) (HTTPException 400 ''Email already exists''))
      | _ \<Rightarrow> returnM ())"

definition count_key :: "string \<Rightarrow> string" where
  "count_key table_name = ''admin_count:'' @ table_name"

definition admin_url :: "string \<Rightarrow> string" where
  "admin_url table_name = ''/admin/'' @ table_name"

text \<open>\<open>contextlib.suppress(RuntimeError)\<close>\<close>

definition invalidate_count :: "'r redis \<Rightarrow> datetime \<Rightarrow> string \<Rightarrow> ('r, unit) app" where
  "invalidate_count R now table_name =
     tryM (cache_delete R now (count_key table_name)) (\<lambda>e. case e of RuntimeError _ \<Rightarrow> returnM () | _ \<Rightarrow> raiseM e)"

definition fetch_active_plans :: "('r, (int \<times> string \<times> string) list) app" where
  "fetch_active_plans =
     bindM (select_all plans plan_is_active) (\<lambda>rows. returnM (map (\<lambda>p. (plan_id p, plan_name p, plan_slug p)) rows))"

section \<open>Reading\<close>

definition dashboard :: "user \<Rightarrow> ('r, (string \<times> string \<times> string) list) app" where
  "dashboard u =
     bindM (require_admin u) (\<lambda>u. returnM
       (map (\<lambda>(table_name, config). (table_name, adm_model config, adm_permission config))
         (filter (\<lambda>(_, config). has_permission u [adm_permission config]) admin_registry) @
        [(''sessions'', ''Sessions'', ''user:admin'')]))"

text \<open>\<open>column.ilike("%text%")\<close>, which the database refuses on a column that is not text.\<close>

definition search_filter :: "'a admin_class \<Rightarrow> (string \<Rightarrow> string \<Rightarrow> bool) \<Rightarrow> string list \<Rightarrow> string \<Rightarrow> exn + ('a \<Rightarrow> bool)" where
  "search_filter K ilike cols search =
     (if list_ex (\<lambda>c. cls_text K c = None) cols then Inl (ServiceError ''operator does not exist'')
      else Inr (\<lambda>r. cols = [] \<or> list_ex (\<lambda>c. case the (cls_text K c) r of None \<Rightarrow> False | Some s \<Rightarrow> ilike s (''%'' @ search @ ''%'')) cols))"

definition cached_total :: "json_codec \<Rightarrow> 'r redis \<Rightarrow> datetime \<Rightarrow> string \<Rightarrow> int \<Rightarrow> ('r, int) app" where
  "cached_total C R now table_name n =
     bindM (cache_get C R now (count_key table_name)) (\<lambda>cached.
       case cached of Some j \<Rightarrow> if j = JNull then thenM (cache_set_ttl C R now (count_key table_name) (JInt n) 60) (returnM n)
                                else liftM (int_of_json j)
       | None \<Rightarrow> thenM (cache_set_ttl C R now (count_key table_name) (JInt n) 60) (returnM n))"

definition admin_list ::
  "json_codec \<Rightarrow> 'r redis \<Rightarrow> (string \<Rightarrow> string \<Rightarrow> bool) \<Rightarrow> 'a admin_class \<Rightarrow> datetime \<Rightarrow> user \<Rightarrow> string \<Rightarrow> string \<Rightarrow> int
    \<Rightarrow> ('r, 'a list \<times> int) app" where
  "admin_list C R ilike K now u table_name search pageno =
     bindM (require_admin u) (\<lambda>u.
     bindM (admin_table table_name u) (\<lambda>config.
     bindM (liftM (if search = [] then Inr (\<lambda>_. True) else search_filter K ilike (adm_search_columns config) search)) (\<lambda>keep.
     bindM (select_all (m_tbl (cls_model K)) keep) (\<lambda>rs.
     bindM (if search = [] then cached_total C R now table_name (int (length rs)) else returnM (int (length rs))) (\<lambda>n.
       thenM (guardM (1 \<le> pageno) (ServiceError ''OFFSET must not be negative''))
         (returnM (limit_rows 20 (offset_rows ((pageno - 1) * 20) rs), n)))))))"

definition found_object :: "'a admin_class \<Rightarrow> int \<Rightarrow> ('r, 'a) app" where
  "found_object K i =
     bindM (crud_get (cls_model K) i True) (\<lambda>r.
       case r of None \<Rightarrow> raiseM (HTTPException 404 ''Not Found'') | Some obj \<Rightarrow> returnM obj)"

definition admin_detail :: "'a admin_class \<Rightarrow> user \<Rightarrow> string \<Rightarrow> int \<Rightarrow> ('r, 'a \<times> string list \<times> (int \<times> string \<times> string) list) app" where
  "admin_detail K u table_name i =
     bindM (require_admin u) (\<lambda>u.
     bindM (admin_table table_name u) (\<lambda>config.
     bindM (found_object K i) (\<lambda>obj.
     bindM (if table_name = ''subscriptions'' then fetch_active_plans else returnM []) (\<lambda>ps.
       returnM (obj, adm_actions config, ps)))))"

definition admin_edit_form :: "'a admin_class \<Rightarrow> user \<Rightarrow> string \<Rightarrow> int \<Rightarrow> ('r, 'a \<times> string list) app" where
  "admin_edit_form K u table_name i =
     bindM (require_admin u) (\<lambda>u.
     bindM (admin_table table_name u) (\<lambda>config.
     bindM (found_object K i) (\<lambda>obj. returnM (obj, adm_form_fields config))))"

definition admin_create_form :: "user \<Rightarrow> string \<Rightarrow> ('r, string list) app" where
  "admin_create_form u table_name =
     bindM (require_admin u) (\<lambda>u. bindM (admin_table table_name u) (\<lambda>config. returnM (adm_form_fields config)))"

definition admin_list_trashed ::
  "(string \<Rightarrow> string \<Rightarrow> bool) \<Rightarrow> 'a admin_class \<Rightarrow> user \<Rightarrow> string \<Rightarrow> string \<Rightarrow> int \<Rightarrow> ('r, 'a list \<times> bool) app" where
  "admin_list_trashed ilike K u table_name q pageno =
     bindM (require_admin u) (\<lambda>u.
     bindM (registered table_name) (\<lambda>config.
       case m_soft (cls_model K) of None \<Rightarrow> raiseM (HTTPException 400 ''Model does not support soft-delete'')
       | Some (deleted_at, _) \<Rightarrow>
           thenM (permitted u config)
            (bindM (liftM (if q = [] \<or> adm_search_columns config = [] then Inr (\<lambda>_. True)
                           else search_filter K ilike [hd (adm_search_columns config)] q)) (\<lambda>keep.
             bindM (select_all (m_tbl (cls_model K)) (\<lambda>r. deleted_at r \<noteq> None \<and> keep r)) (\<lambda>rs.
               thenM (guardM (1 \<le> pageno) (ServiceError ''OFFSET must not be negative''))
                (let rows = limit_rows 21 (offset_rows ((pageno - 1) * 20) (order_desc (\<lambda>r. the (deleted_at r)) rs))
                 in returnM (take 20 rows, length rows > 20)))))))"

section \<open>Writing\<close>

definition admin_edit ::
  "'r redis \<Rightarrow> 'a admin_class \<Rightarrow> datetime \<Rightarrow> user \<Rightarrow> string \<Rightarrow> int \<Rightarrow> form \<Rightarrow> ('r, string) app" where
  "admin_edit R K now u table_name i form_data =
     bindM (require_admin u) (\<lambda>u.
     bindM (admin_table table_name u) (\<lambda>config.
     bindM (found_object K i) (\<lambda>obj.
       thenM (email_unused K form_data)
        (bindM (liftM (assign_fields K (adm_form_fields config) form_data obj)) (\<lambda>obj'.
          thenM (set_default_password_for_user K obj')
           (thenM (db_save (m_upd (cls_model K)) (m_rid (cls_model K)) obj')
            (thenM commit
             (thenM (cache_delete R now (count_key table_name)) (returnM (admin_url table_name))))))))))"

definition admin_create ::
  "'r redis \<Rightarrow> 'a admin_class \<Rightarrow> datetime \<Rightarrow> user \<Rightarrow> string \<Rightarrow> form \<Rightarrow> ('r, string) app" where
  "admin_create R K now u table_name form_data =
     bindM (require_admin u) (\<lambda>u.
     bindM (admin_table table_name u) (\<lambda>config.
       thenM (email_unused K form_data)
        (bindM (liftM (assign_fields K (adm_form_fields config) form_data (cls_new K))) (\<lambda>obj.
          thenM (set_default_password_for_user K obj)
           (thenM (guardM (list_all (\<lambda>c. c \<in> set (adm_form_fields config) \<and> map_of form_data c \<noteq> None) (cls_required K)) IntegrityError)
            (thenM (db_add (m_tbl (cls_model K)) (m_upd (cls_model K)) (m_set_id (cls_model K)) obj)
             (thenM commit
              (thenM (cache_delete R now (count_key table_name)) (returnM (admin_url table_name))))))))))"

definition admin_delete :: "'r redis \<Rightarrow> 'a admin_class \<Rightarrow> datetime \<Rightarrow> user \<Rightarrow> string \<Rightarrow> int \<Rightarrow> ('r, string) app" where
  "admin_delete R K now u table_name i =
     bindM (require_admin u) (\<lambda>u.
     bindM (admin_table table_name u) (\<lambda>config.
       thenM (guardM (adm_deletable config) (HTTPException 400 (table_name @ '' rows cannot be deleted'')))
        (bindM (crud_get (cls_model K) i True) (\<lambda>r.
          thenM
           (case r of None \<Rightarrow> returnM ()
            | Some obj \<Rightarrow>
                thenM (case m_soft (cls_model K) of
                         Some (_, set_deleted_at) \<Rightarrow> db_save (m_upd (cls_model K)) (m_rid (cls_model K)) (set_deleted_at (Some now) obj)
                       | None \<Rightarrow> modifyM (\<lambda>w. w\<lparr>w_db := m_upd (cls_model K) (delete_row (m_rid (cls_model K)) i) (w_db w)\<rparr>))
                  commit)
           (thenM (cache_delete R now (count_key table_name)) (returnM (admin_url table_name)))))))"

definition admin_restore :: "'r redis \<Rightarrow> 'a admin_class \<Rightarrow> datetime \<Rightarrow> user \<Rightarrow> string \<Rightarrow> int \<Rightarrow> ('r, string) app" where
  "admin_restore R K now u table_name i =
     bindM (require_admin u) (\<lambda>u.
     bindM (registered table_name) (\<lambda>config.
       case m_soft (cls_model K) of None \<Rightarrow> raiseM (HTTPException 400 ''Model does not support soft-delete'')
       | Some (deleted_at, set_deleted_at) \<Rightarrow>
           thenM (permitted u config)
            (bindM (crud_get (cls_model K) i True) (\<lambda>r.
              thenM
               (case r of None \<Rightarrow> returnM ()
                | Some obj \<Rightarrow>
                    if deleted_at obj = None then returnM ()
                    else thenM (db_save (m_upd (cls_model K)) (m_rid (cls_model K)) (set_deleted_at None obj)) commit)
               (thenM (cache_delete R now (count_key table_name)) (returnM (admin_url table_name)))))))"

section \<open>Sessions\<close>

definition admin_list_sessions ::
  "settings \<Rightarrow> 'r redis \<Rightarrow> datetime \<Rightarrow> user \<Rightarrow> int option \<Rightarrow> ('r, user option \<times> (string \<times> string) list list) app" where
  "admin_list_sessions S R now u uid =
     bindM (require_admin u) (\<lambda>_.
       case uid of
         Some i \<Rightarrow>
           if i = 0 then returnM (None, [])
           else bindM (crud_get user_model i False) (\<lambda>selected_user.
                  case selected_user of None \<Rightarrow> returnM (None, [])
                  | Some su \<Rightarrow> bindM (list_active_sessions S R now i) (\<lambda>sessions. returnM (Some su, sessions)))
       | None \<Rightarrow> returnM (None, []))"

definition form_get :: "form \<Rightarrow> string \<Rightarrow> string \<Rightarrow> string" where
  "form_get form_data key d = (case map_of form_data key of None \<Rightarrow> d | Some v \<Rightarrow> v)"

definition admin_revoke_session :: "settings \<Rightarrow> 'r redis \<Rightarrow> datetime \<Rightarrow> user \<Rightarrow> form \<Rightarrow> ('r, string) app" where
  "admin_revoke_session S R now u form_data =
     bindM (require_admin u) (\<lambda>_.
     bindM (liftM (int_exn (form_get form_data ''user_id'' ''0''))) (\<lambda>uid.
       thenM (guardM (form_get form_data ''jti'' [] \<noteq> [] \<and> uid \<noteq> 0) (HTTPException 400 ''jti and user_id required''))
        (bindM (get_session R now uid (form_get form_data ''jti'' [])) (\<lambda>session_data.
          case session_data of None \<Rightarrow> raiseM (HTTPException 404 ''Session not found'')
          | Some meta \<Rightarrow>
              bindM (liftM (meta_exp meta)) (\<lambda>ex.
                thenM (revoke_session S R now uid (form_get form_data ''jti'' []) ex)
                 (returnM (''/admin/sessions?user_id='' @ show_int uid)))))))"

section \<open>Billing actions\<close>

definition BILLING_ACTIONS :: "string list" where
  "BILLING_ACTIONS = [''override-plan'', ''set-status'', ''refund'']"

definition require_billing_action :: "string \<Rightarrow> user \<Rightarrow> admin_config \<Rightarrow> ('r, unit) app" where
  "require_billing_action action u config =
     thenM (guardM (action \<in> set BILLING_ACTIONS) (HTTPException 404 ''Unknown action''))
      (thenM (guardM (action \<in> set (adm_actions config)) (HTTPException 404 ''Action not available for this table''))
        (guardM (has_permission u [adm_permission config]) (HTTPException 403 ''Forbidden'')))"

definition billing_action :: "string \<Rightarrow> string \<Rightarrow> user \<Rightarrow> ('r, user) app" where
  "billing_action table_name action u =
     bindM (require_admin u) (\<lambda>u.
     bindM (registered table_name) (\<lambda>config. thenM (require_billing_action action u config) (returnM u)))"

definition switched_plan :: "plan \<Rightarrow> datetime \<Rightarrow> subscription \<Rightarrow> subscription" where
  "switched_plan new_plan now sub =
     sub\<lparr>sub_plan_id := plan_id new_plan, sub_pending_plan_id := None, sub_current_period_start := now,
         sub_current_period_end := next_period_end new_plan now\<rparr>"

definition found_subscription :: "int \<Rightarrow> ('r, subscription) app" where
  "found_subscription i =
     bindM (select_one subscriptions (\<lambda>s. sub_id s = i)) (\<lambda>r.
       case r of None \<Rightarrow> raiseM (HTTPException 404 ''Subscription not found'') | Some sub \<Rightarrow> returnM sub)"

definition admin_subscription_override_plan ::
  "bus \<Rightarrow> 'r redis \<Rightarrow> datetime \<Rightarrow> user \<Rightarrow> int \<Rightarrow> form \<Rightarrow> ('r, string) app" where
  "admin_subscription_override_plan bus R now u i form_data =
     bindM (billing_action ''subscriptions'' ''override-plan'' u) (\<lambda>u.
     bindM (found_subscription i) (\<lambda>sub.
     bindM (liftM (int_exn (form_get form_data ''plan_id'' ''0''))) (\<lambda>new_plan_id.
     bindM (select_one plans (\<lambda>p. plan_id p = new_plan_id)) (\<lambda>r.
       case (case r of None \<Rightarrow> None | Some p \<Rightarrow> if plan_is_active p then Some p else None) of
         None \<Rightarrow> raiseM (HTTPException 404 ''Plan not found or inactive'')
       | Some new_plan \<Rightarrow>
           (let sub' = switched_plan new_plan now sub
            in thenM (save_sub sub')
                (thenM commit
                  (thenM (publish bus (subscription_event ''plan_changed'' sub' (Some (user_id u))))
                    (thenM (invalidate_count R now ''subscriptions'')
                      (returnM (''/admin/subscriptions/'' @ show_int i))))))))))"

definition status_from_value :: "string \<Rightarrow> sub_status option" where
  "status_from_value s = find (\<lambda>st. status_value st = s) [TRIALING, ACTIVE, PAST_DUE, CANCELED, SUSPENDED]"

text \<open>\<open>sorted(str(s) for s in ALLOWED_TRANSITIONS[sub.status])\<close>\<close>

definition allowed_text :: "sub_status \<Rightarrow> string" where
  "allowed_text st =
     py_join '', '' (map status_value (filter (\<lambda>t. t \<in> ALLOWED_TRANSITIONS st) [ACTIVE, CANCELED, PAST_DUE, SUSPENDED, TRIALING]))"

definition status_set :: "datetime \<Rightarrow> sub_status \<Rightarrow> subscription \<Rightarrow> subscription" where
  "status_set now target sub =
     (let sub' = (if target = CANCELED then sub\<lparr>sub_canceled_at := Some now, sub_cancel_at_period_end := False, sub_pending_plan_id := None\<rparr>
                  else if target = SUSPENDED then sub\<lparr>sub_suspended_at := Some now, sub_next_retry_at := None\<rparr>
                  else if target = ACTIVE \<and> sub_status sub = PAST_DUE then fst (reset_dunning sub)
                  else sub)
      in sub'\<lparr>sub_status := target\<rparr>)"

definition admin_subscription_set_status ::
  "bus \<Rightarrow> 'r redis \<Rightarrow> (string \<Rightarrow> string) \<Rightarrow> datetime \<Rightarrow> user \<Rightarrow> int \<Rightarrow> form \<Rightarrow> ('r, string) app" where
  "admin_subscription_set_status bus R repr now u i form_data =
     bindM (billing_action ''subscriptions'' ''set-status'' u) (\<lambda>u.
     bindM (found_subscription i) (\<lambda>sub.
       case status_from_value (form_get form_data ''status'' []) of
         None \<Rightarrow> raiseM (HTTPException 400 (''Unknown status '' @ repr (form_get form_data ''status'' [])))
       | Some target \<Rightarrow>
           (case assert_transition (sub_status sub) target of
              Inl _ \<Rightarrow> raiseM (HTTPException 400 (''Allowed: '' @ allowed_text (sub_status sub)))
            | Inr _ \<Rightarrow>
                (let sub' = status_set now target sub
                 in thenM (save_sub sub')
                     (thenM commit
                       (thenM (publish bus (subscription_event ''status_changed'' sub' (Some (user_id u))))
                         (thenM (invalidate_count R now ''subscriptions'')
                           (returnM (''/admin/subscriptions/'' @ show_int i)))))))))"

text \<open>The arguments of \<^verbatim>\<open>create_refund\<close> from the form: payment intent or charge, and the amount.\<close>

definition refund_arguments :: "form \<Rightarrow> exn + (string option \<times> string option \<times> int option)" where
  "refund_arguments form_data =
     (let payment_ref = py_strip (form_get form_data ''payment_reference'' []);
          amount_cents_raw = py_strip (form_get form_data ''amount_cents'' [])
      in if payment_ref = [] then Inl (HTTPException 400 ''payment_reference required (charge_... or pi_...)'')
         else case (if amount_cents_raw = [] then Inr None else map_sum id Some (int_exn amount_cents_raw)) of
           Inl e \<Rightarrow> Inl e
         | Inr amount_cents \<Rightarrow>
             if (case amount_cents of None \<Rightarrow> False | Some a \<Rightarrow> a \<le> 0) then Inl (HTTPException 400 ''amount_cents must be positive'')
             else if prefix ''pi_'' payment_ref then Inr (Some payment_ref, None, amount_cents)
             else if prefix ''charge_'' payment_ref then Inr (None, Some payment_ref, amount_cents)
             else Inl (HTTPException 400 ''payment_reference must start with pi_ or charge_''))"

definition refund_error :: "exn \<Rightarrow> exn" where
  "refund_error e =
     (case e of StripeError code msg \<Rightarrow> HTTPException (if code = 503 then code else if code \<ge> 500 then 502 else code) msg | _ \<Rightarrow> e)"

definition admin_invoice_refund ::
  "settings \<Rightarrow> (json \<Rightarrow> string) \<Rightarrow> http \<Rightarrow> 'r redis \<Rightarrow> datetime \<Rightarrow> user \<Rightarrow> int \<Rightarrow> form \<Rightarrow> ('r, string) app" where
  "admin_invoice_refund S repr http R now u i form_data =
     bindM (billing_action ''invoices'' ''refund'' u) (\<lambda>u.
     bindM (select_one invoices (\<lambda>v. inv_id v = i)) (\<lambda>r.
       case r of None \<Rightarrow> raiseM (HTTPException 404 ''Invoice not found'')
       | Some v \<Rightarrow>
           thenM (guardM (inv_status v = PAID) (HTTPException 400 ''Only paid invoices can be refunded''))
            (bindM (liftM (refund_arguments form_data)) (\<lambda>(payment_intent, charge, amount_cents).
              thenM (tryM (thenM (liftM (create_refund S repr http payment_intent charge amount_cents None)) (returnM ()))
                       (\<lambda>e. raiseM (refund_error e)))
                (thenM (invalidate_count R now ''invoices'') (returnM (''/admin/invoices/'' @ show_int i)))))))"

section \<open>The classes\<close>

definition user_class :: "user admin_class" where
  "user_class =
     \<lparr>cls_model = user_model,
      cls_columns = [(''email'', Other_type), (''username'', Other_type), (''full_name'', Other_type), (''is_active'', Boolean),
        (''is_verified'', Boolean)],
      cls_text = (\<lambda>c. if c = ''email'' then Some (\<lambda>u. Some (user_email u)) else if c = ''username'' then Some (\<lambda>u. Some (user_username u)) else None),
      cls_new = \<lparr>user_id = 0, user_tenant_id = None, user_email = [], user_username = [], user_full_name = None,
        user_hashed_password = [], user_is_active = True, user_is_superuser = False, user_is_verified = False,
        user_failed_login_attempts = 0, user_locked_until = None, user_email_verified_at = None, user_last_login_at = None,
        user_oauth_provider = None, user_oauth_provider_id = None, user_oauth_access_token = None, user_oauth_refresh_token = None,
        user_totp_secret = None, user_totp_enabled = False, user_totp_verified_at = None, user_backup_codes = None,
        user_roles = [], user_deleted_at = None\<rparr>,
      cls_required = [''email'', ''username'', ''hashed_password''],
      cls_set = (\<lambda>field v u. case v of
          FStr s \<Rightarrow> if field = ''email'' then u\<lparr>user_email := s\<rparr> else if field = ''username'' then u\<lparr>user_username := s\<rparr>
                    else if field = ''full_name'' then u\<lparr>user_full_name := Some s\<rparr> else u
        | FBool b \<Rightarrow> if field = ''is_active'' then u\<lparr>user_is_active := b\<rparr> else if field = ''is_verified'' then u\<lparr>user_is_verified := b\<rparr> else u
        | FInt _ \<Rightarrow> u),
      cls_hashed_password = Some user_hashed_password\<rparr>"

definition tenant_class :: "tenant admin_class" where
  "tenant_class =
     \<lparr>cls_model = \<lparr>m_tbl = tenants, m_upd = tenants_update, m_rid = tnt_id, m_set_id = (\<lambda>i r. r\<lparr>tnt_id := i\<rparr>), m_soft = None\<rparr>,
      cls_columns = [(''name'', Other_type), (''slug'', Other_type), (''is_active'', Boolean)],
      cls_text = (\<lambda>c. if c = ''name'' then Some (\<lambda>t. Some (tnt_name t)) else None),
      cls_new = \<lparr>tnt_id = 0, tnt_name = [], tnt_slug = None, tnt_is_active = True, tnt_stripe_customer_id = None\<rparr>,
      cls_required = [''name''],
      cls_set = (\<lambda>field v t. case v of
          FStr s \<Rightarrow> if field = ''name'' then t\<lparr>tnt_name := s\<rparr> else if field = ''slug'' then t\<lparr>tnt_slug := Some s\<rparr> else t
        | FBool b \<Rightarrow> if field = ''is_active'' then t\<lparr>tnt_is_active := b\<rparr> else t
        | FInt _ \<Rightarrow> t),
      cls_hashed_password = None\<rparr>"

definition notification_class :: "notification admin_class" where
  "notification_class =
     \<lparr>cls_model = notification_model,
      cls_columns = [(''user_id'', Integer), (''event_type'', Other_type), (''title'', Other_type), (''body'', Other_type), (''is_read'', Boolean)],
      cls_text = (\<lambda>c. if c = ''event_type'' then Some (\<lambda>n. Some (ntf_event_type n)) else if c = ''title'' then Some (\<lambda>n. Some (ntf_title n)) else None),
      cls_new = \<lparr>ntf_id = 0, ntf_user_id = 0, ntf_event_type = [], ntf_title = [], ntf_body = None, ntf_is_read = False,
        ntf_read_at = None, ntf_deleted_at = None\<rparr>,
      cls_required = [''user_id'', ''event_type'', ''title''],
      cls_set = (\<lambda>field v n. case v of
          FStr s \<Rightarrow> if field = ''event_type'' then n\<lparr>ntf_event_type := s\<rparr> else if field = ''title'' then n\<lparr>ntf_title := s\<rparr>
                    else if field = ''body'' then n\<lparr>ntf_body := Some s\<rparr> else n
        | FBool b \<Rightarrow> if field = ''is_read'' then n\<lparr>ntf_is_read := b\<rparr> else n
        | FInt i \<Rightarrow> if field = ''user_id'' then n\<lparr>ntf_user_id := i\<rparr> else n),
      cls_hashed_password = None\<rparr>"

definition preference_class :: "notification_preference admin_class" where
  "preference_class =
     \<lparr>cls_model = \<lparr>m_tbl = preferences, m_upd = preferences_update, m_rid = npf_id, m_set_id = (\<lambda>i r. r\<lparr>npf_id := i\<rparr>), m_soft = None\<rparr>,
      cls_columns = [(''user_id'', Integer), (''email_enabled'', Boolean), (''in_app_enabled'', Boolean), (''webhook_enabled'', Boolean)],
      cls_text = (\<lambda>_. None),
      cls_new = \<lparr>npf_id = 0, npf_user_id = 0, npf_email_enabled = True, npf_in_app_enabled = True, npf_webhook_enabled = True\<rparr>,
      cls_required = [''user_id''],
      cls_set = (\<lambda>field v p. case v of
          FStr _ \<Rightarrow> p
        | FBool b \<Rightarrow> if field = ''email_enabled'' then p\<lparr>npf_email_enabled := b\<rparr> else if field = ''in_app_enabled'' then p\<lparr>npf_in_app_enabled := b\<rparr>
                     else if field = ''webhook_enabled'' then p\<lparr>npf_webhook_enabled := b\<rparr> else p
        | FInt i \<Rightarrow> if field = ''user_id'' then p\<lparr>npf_user_id := i\<rparr> else p),
      cls_hashed_password = None\<rparr>"

section \<open>The routes\<close>

text \<open>
  The routes of the admin pages in the order in which they are declared; Starlette takes the first one whose method
  and path match, and a path parameter matches any segment.
\<close>

datatype segment = Lit string | Param

definition ADMIN_ROUTES :: "(string \<times> segment list \<times> string) list" where
  "ADMIN_ROUTES =
    [(''GET'', [], ''dashboard''),
     (''GET'', [Param], ''admin_list''),
     (''GET'', [Param, Param], ''admin_detail''),
     (''GET'', [Param, Param, Lit ''edit''], ''admin_edit_form''),
     (''POST'', [Param, Param, Lit ''edit''], ''admin_edit''),
     (''GET'', [Param, Lit ''create''], ''admin_create_form''),
     (''POST'', [Param, Lit ''create''], ''admin_create''),
     (''POST'', [Param, Param, Lit ''delete''], ''admin_delete''),
     (''POST'', [Param, Param, Lit ''restore''], ''admin_restore''),
     (''GET'', [Param, Lit ''trashed''], ''admin_list_trashed''),
     (''GET'', [Lit ''sessions''], ''admin_list_sessions''),
     (''POST'', [Lit ''sessions'', Lit ''revoke''], ''admin_revoke_session''),
     (''POST'', [Lit ''subscriptions'', Param, Lit ''override-plan''], ''admin_subscription_override_plan''),
     (''POST'', [Lit ''subscriptions'', Param, Lit ''set-status''], ''admin_subscription_set_status''),
     (''POST'', [Lit ''invoices'', Param, Lit ''refund''], ''admin_invoice_refund'')]"

fun segment_matches :: "segment \<Rightarrow> string \<Rightarrow> bool" where
  "segment_matches Param s = (s \<noteq> [])"
| "segment_matches (Lit t) s = (s = t)"

definition admin_route :: "string \<Rightarrow> string list \<Rightarrow> string option" where
  "admin_route meth path =
     map_option (snd \<circ> snd) (find (\<lambda>(m, segs, _). m = meth \<and> list_all2 segment_matches segs path) ADMIN_ROUTES)"

section \<open>Facts about the shared steps\<close>

definition admin_access :: "user \<Rightarrow> string \<Rightarrow> bool" where
  "admin_access u permission \<longleftrightarrow>
     (user_is_superuser u \<or> (\<exists>r \<in> set (user_roles u). role_name r = ''admin'')) \<and> has_permission u [permission]"

lemma require_admin_run:
  "require_admin u w =
    (if user_is_superuser u \<or> (\<exists>r \<in> set (user_roles u). role_name r = ''admin'') then (Inr u, w)
     else (Inl (HTTPException 403 ''Admin access required''), w))"
  by (simp add: require_admin_def list_ex_iff)

lemma registered_run:
  "registered t w = (case map_of admin_registry t of None \<Rightarrow> (Inl (HTTPException 404 ''Not Found''), w) | Some config \<Rightarrow> (Inr config, w))"
  by (simp add: registered_def split: option.split)

lemma permitted_run:
  "permitted u config w =
    (if has_permission u [adm_permission config] then (Inr (), w) else (Inl (HTTPException 403 ''Forbidden''), w))"
  by (simp add: permitted_def)

lemma cache_delete_db: "w_db (snd (cache_delete R now k w)) = w_db w" "w_committed (snd (cache_delete R now k w)) = w_committed w"
  by (simp_all add: cache_delete_def redis_call_def thenM_def bindM_def split: option.split prod.split sum.split)

lemma invalidate_count_outside:
  "w_db (snd (invalidate_count R now t w)) = w_db w" "w_committed (snd (invalidate_count R now t w)) = w_committed w"
  "w_bus (snd (invalidate_count R now t w)) = w_bus w"
  by (simp_all add: invalidate_count_def cache_delete_def redis_call_def thenM_def bindM_def tryM_def split: option.split prod.split sum.split exn.split)

section \<open>Access\<close>

text \<open>A request that is turned down: a client error, and nothing has changed.\<close>

definition turned_down :: "('r, 'a) app \<Rightarrow> 'r world \<Rightarrow> bool" where
  "turned_down m w \<longleftrightarrow> (\<exists>code msg. m w = (Inl (HTTPException code msg), w) \<and> code \<in> {400, 403, 404})"

lemma turned_down_bind:
  "turned_down m w \<Longrightarrow> turned_down (bindM m f) w"
  by (auto simp: turned_down_def)

lemma turned_down_after:
  "m w = (Inr x, w) \<Longrightarrow> turned_down (f x) w \<Longrightarrow> turned_down (bindM m f) w"
  by (simp add: turned_down_def)

lemma turned_down_raise: "code \<in> {400, 403, 404} \<Longrightarrow> turned_down (raiseM (HTTPException code msg)) w"
  by (simp add: turned_down_def)

text \<open>The user may not administer the table; no one may administer a table that is not registered.\<close>

definition barred :: "string \<Rightarrow> user \<Rightarrow> bool" where
  "barred t u \<longleftrightarrow> (case map_of admin_registry t of None \<Rightarrow> True | Some config \<Rightarrow> \<not> admin_access u (adm_permission config))"

lemma no_entry:
  assumes "barred t u"
  shows "turned_down (require_admin u) w \<or>
    require_admin u w = (Inr u, w) \<and> turned_down (registered t :: ('r, admin_config) app) w \<or>
    require_admin u w = (Inr u, w) \<and> (\<exists>config. map_of admin_registry t = Some config \<and> registered t w = (Inr config, w) \<and>
      \<not> has_permission u [adm_permission config] \<and> turned_down (permitted u config) w)"
  using assms by (cases "map_of admin_registry t") (auto simp: barred_def turned_down_def require_admin_run registered_run permitted_run admin_access_def)

lemma turned_down_table:
  assumes "barred t u"
  shows "turned_down (bindM (require_admin u) (\<lambda>u. bindM (admin_table t u) (f u))) w"
  using no_entry [OF assms, where w = w]
proof (elim disjE conjE exE)
  assume "turned_down (require_admin u) w" then show ?thesis by (rule turned_down_bind)
next
  assume "require_admin u w = (Inr u, w)" "turned_down (registered t :: ('a, admin_config) app) w"
  then show ?thesis by (intro turned_down_after [of "require_admin u"]) (auto simp: admin_table_def intro!: turned_down_bind)
next
  fix config
  assume *: "require_admin u w = (Inr u, w)" "registered t w = (Inr config, w)" "turned_down (permitted u config) w"
  then have "turned_down (admin_table t u) w"
    unfolding admin_table_def by (intro turned_down_after [of "registered t"]) (auto simp: thenM_def intro: turned_down_bind)
  then show ?thesis using * by (intro turned_down_after [of "require_admin u"]) (auto intro: turned_down_bind)
qed

lemma turned_down_restore:
  assumes "barred t u"
  shows "turned_down (admin_restore R K now u t i) w"
  using no_entry [OF assms, where w = w] unfolding admin_restore_def
  by (auto simp: turned_down_def thenM_def split: option.split)

lemma turned_down_action:
  assumes "map_of admin_registry t = Some config" "\<not> admin_access u (adm_permission config)"
  shows "turned_down (billing_action t action u) w"
  using assms unfolding billing_action_def require_billing_action_def turned_down_def admin_access_def
  by (auto simp: require_admin_run registered_run thenM_def bindM_def guardM_def returnM_def raiseM_def)

lemma admin_registry_billing:
  "map_of admin_registry ''subscriptions'' = Some (snd (register_admin ''subscriptions'' ''Subscription''
       [''tenant_id'', ''plan_id'', ''status'', ''current_period_end'', ''cancel_at_period_end'', ''failed_payment_count''] [''id'']
       [''plan_id'', ''trial_end'', ''cancel_at_period_end'', ''pending_plan_id'', ''stripe_subscription_id'']
       ''subscription:admin'' False [''override-plan'', ''set-status'']))"
  "map_of admin_registry ''invoices'' = Some (snd (register_admin ''invoices'' ''Invoice''
       [''tenant_id'', ''subscription_id'', ''status'', ''currency'', ''total_cents'', ''issued_at'', ''paid_at''] [''id'']
       [''currency''] ''invoice:admin'' False [''refund'']))"
  by (simp_all add: admin_registry_def register_admin_def)

lemma undeletable:
  assumes "t \<in> {''subscriptions'', ''invoices'', ''invoice_lines'', ''stripe_events''}"
  shows "\<exists>config. map_of admin_registry t = Some config \<and> \<not> adm_deletable config"
proof -
  have "\<exists>config. map_of admin_registry ''subscriptions'' = Some config \<and> \<not> adm_deletable config"
    "\<exists>config. map_of admin_registry ''invoices'' = Some config \<and> \<not> adm_deletable config"
    "\<exists>config. map_of admin_registry ''invoice_lines'' = Some config \<and> \<not> adm_deletable config"
    "\<exists>config. map_of admin_registry ''stripe_events'' = Some config \<and> \<not> adm_deletable config"
    by (simp_all add: admin_registry_def register_admin_def)
  then show ?thesis using assms by blast
qed

lemma turned_down_undeletable:
  assumes "map_of admin_registry t = Some config" "\<not> adm_deletable config"
  shows "turned_down (admin_delete R K now u t i) w"
proof (cases "admin_access u (adm_permission config)")
  case True
  then have "require_admin u w = (Inr u, w)" "admin_table t u w = (Inr config, w)"
    using assms(1) by (simp_all add: require_admin_run admin_table_def registered_run permitted_run admin_access_def)
  then show ?thesis using assms(2) by (simp add: admin_delete_def turned_down_def)
next
  case False
  then show ?thesis using assms(1) unfolding admin_delete_def by (intro turned_down_table) (simp add: barred_def)
qed

text \<open>
  C15: the admin pages of the tables are closed to everybody else. A user who is not a superuser needs the role admin and the
  permission of the table: without one of them, creating, editing, deleting and restoring rows, on whatever table and with
  whatever form, and the billing actions are answered with a client error and change nothing. Revoking a session is bound to
  no table: it is turned down for whoever is neither a superuser nor has the role admin. Subscriptions, invoices and Stripe
  events cannot be deleted by anybody.
\<close>

theorem admin_gate:
  assumes "barred t u"
    and "t' \<in> {''subscriptions'', ''invoices'', ''invoice_lines'', ''stripe_events''}"
  shows "turned_down (admin_edit R K now u t i form_data) w \<and> turned_down (admin_create R K now u t form_data) w \<and>
    turned_down (admin_delete R K now u t i) w \<and> turned_down (admin_restore R K now u t i) w \<and>
    (t = ''subscriptions'' \<longrightarrow> turned_down (admin_subscription_override_plan bus R now u i form_data) w \<and>
       turned_down (admin_subscription_set_status bus R repr now u i form_data) w) \<and>
    (t = ''invoices'' \<longrightarrow> turned_down (admin_invoice_refund S repr' http R now u i form_data) w) \<and>
    (\<not> user_is_superuser u \<and> (\<forall>r \<in> set (user_roles u). role_name r \<noteq> ''admin'') \<longrightarrow>
       turned_down (admin_revoke_session S R now u form_data) w) \<and>
    turned_down (admin_delete R K now v t' i) w"
proof (intro conjI impI; (elim conjE)?)
  show "turned_down (admin_edit R K now u t i form_data) w" unfolding admin_edit_def by (rule turned_down_table [OF assms(1)])
  show "turned_down (admin_create R K now u t form_data) w" unfolding admin_create_def by (rule turned_down_table [OF assms(1)])
  show "turned_down (admin_delete R K now u t i) w" unfolding admin_delete_def by (rule turned_down_table [OF assms(1)])
  show "turned_down (admin_restore R K now u t i) w" by (rule turned_down_restore [OF assms(1)])
  show "turned_down (admin_subscription_override_plan bus R now u i form_data) w" if "t = ''subscriptions''"
    unfolding admin_subscription_override_plan_def
    by (intro turned_down_bind turned_down_action [OF admin_registry_billing(1)])
      (use assms(1) that in \<open>simp add: barred_def admin_registry_billing\<close>)
  show "turned_down (admin_subscription_set_status bus R repr now u i form_data) w" if "t = ''subscriptions''"
    unfolding admin_subscription_set_status_def
    by (intro turned_down_bind turned_down_action [OF admin_registry_billing(1)])
      (use assms(1) that in \<open>simp add: barred_def admin_registry_billing\<close>)
  show "turned_down (admin_invoice_refund S repr' http R now u i form_data) w" if "t = ''invoices''"
    unfolding admin_invoice_refund_def
    by (intro turned_down_bind turned_down_action [OF admin_registry_billing(2)])
      (use assms(1) that in \<open>simp add: barred_def admin_registry_billing\<close>)
  show "turned_down (admin_revoke_session S R now u form_data) w"
    if "\<not> user_is_superuser u" "\<forall>r \<in> set (user_roles u). role_name r \<noteq> ''admin''"
    unfolding admin_revoke_session_def using that by (intro turned_down_bind) (auto simp: turned_down_def require_admin_run)
  show "turned_down (admin_delete R K now v t' i) w"
    using turned_down_undeletable undeletable [OF assms(2)] by blast
qed

theorem admin_gate_witness:
  "turned_down (admin_delete keyspace_redis user_class 0 sample_user ''users'' 1) sample_world \<and>
   turned_down (admin_revoke_session default_settings keyspace_redis 0 sample_user [(''jti'', ''j''), (''user_id'', ''1'')]) sample_world \<and>
   turned_down (admin_delete keyspace_redis user_class 0 sample_user ''invoices'' 1) sample_world"
proof -
  have "barred ''users'' sample_user"
    by (simp add: barred_def admin_registry_def register_admin_def admin_access_def sample_user_def)
  then show ?thesis
    using admin_gate [of "''users''" sample_user "''invoices''" keyspace_redis user_class 0 1 "[]" sample_world]
      admin_gate [of "''users''" sample_user "''invoices''" keyspace_redis user_class 0 1 "[(''jti'', ''j''), (''user_id'', ''1'')]"
        sample_world undefined undefined default_settings] by (simp add: sample_user_def)
qed

section \<open>Billing actions\<close>

lemma billing_action_run:
  "admin_access u ''subscription:admin'' \<Longrightarrow> action \<in> {''override-plan'', ''set-status''} \<Longrightarrow>
    billing_action ''subscriptions'' action u w = (Inr u, w)"
  "admin_access u ''invoice:admin'' \<Longrightarrow> billing_action ''invoices'' ''refund'' u w = (Inr u, w)"
  by (auto simp: billing_action_def require_admin_run registered_run admin_registry_billing register_admin_def require_billing_action_def
      BILLING_ACTIONS_def admin_access_def thenM_def bindM_def guardM_def returnM_def)

lemma found_subscription_run:
  assumes "store_ok w" "sub \<in> set (t_rows (subscriptions (w_db w)))"
  shows "found_subscription (sub_id sub) w = (Inr sub, w)"
  using assms sub_row.by_id [of "subscriptions (w_db w)" sub] by (simp add: found_subscription_def store_ok_def db_keys_def)

lemma status_from_value_id [simp]: "status_from_value (status_value st) = Some st"
  by (cases st) (simp_all add: status_from_value_def)

lemma status_set_kept:
  "sub_id (status_set now st s) = sub_id s" "sub_tenant_id (status_set now st s) = sub_tenant_id s"
  "sub_stripe_subscription_id (status_set now st s) = sub_stripe_subscription_id s" "sub_status (status_set now st s) = st"
  "sub_plan_id (status_set now st s) = sub_plan_id s"
  by (simp_all add: status_set_def reset_dunning_def)

lemma transition_live: "t \<in> ALLOWED_TRANSITIONS st \<Longrightarrow> st \<in> LIVE_STATUSES"
  by (cases st) (simp_all add: LIVE_STATUSES_def)

text \<open>What is left of an action after its commit: the event and the cache, which do not touch the database.\<close>

lemma after_commit:
  "\<exists>x w'. thenM (publish bus e) (thenM (invalidate_count R now t) (returnM y)) w = (x, w') \<and> w_db w' = w_db w \<and>
    w_committed w' = w_committed w \<and> w_bus w' = w_bus w @ (if bus e then [e] else [])"
proof (cases "bus e")
  case True
  let ?w = "w\<lparr>w_bus := w_bus w @ [e]\<rparr>"
  have "publish bus e w = (Inr (), ?w)" using True by (simp add: publish_run)
  moreover obtain x w' where run: "thenM (invalidate_count R now t) (returnM y) ?w = (x, w')" by fastforce
  moreover have "w' = snd (invalidate_count R now t ?w)"
    using run by (cases "invalidate_count R now t ?w") (auto simp: thenM_def bindM_def returnM_def split: sum.splits)
  ultimately show ?thesis using True by (simp add: invalidate_count_outside)
qed (simp add: publish_run)

text \<open>
  C14: an administrator moves subscriptions along the state machine only. A status that the machine does not allow is refused
  with the allowed ones, and nothing changes. An allowed one is committed with what belongs to it (the time of a
  cancellation, the end of the dunning on a recovery) and announced; suspension is left out here, because the migrated
  schema has a check that refuses it (see \<^verbatim>\<open>Declared\<close>).
\<close>

theorem admin_set_status_spec:
  assumes "store_ok w" and "sub \<in> set (t_rows (subscriptions (w_db w)))" and "admin_access u ''subscription:admin''"
    and "map_of form_data ''status'' = Some (status_value target)"
  shows "(assert_transition (sub_status sub) target = Inr () \<and> target \<noteq> SUSPENDED \<longrightarrow>
      (\<exists>x w' s'. admin_subscription_set_status bus R repr now u (sub_id sub) form_data w = (x, w') \<and>
      w_db w' = subscriptions_update (update_row sub_id s') (w_db w) \<and> w_committed w' = w_db w' \<and> db_unique (w_db w') \<and>
      s' = sub\<lparr>sub_status := target, sub_canceled_at := (if target = CANCELED then Some now else sub_canceled_at sub),
        sub_cancel_at_period_end := (target \<noteq> CANCELED \<and> sub_cancel_at_period_end sub),
        sub_pending_plan_id := (if target = CANCELED then None else sub_pending_plan_id sub),
        sub_next_retry_at := (if target = ACTIVE \<and> sub_status sub = PAST_DUE then None else sub_next_retry_at sub),
        sub_failed_payment_count := (if target = ACTIVE \<and> sub_status sub = PAST_DUE then 0 else sub_failed_payment_count sub),
        sub_last_payment_failure_at := (if target = ACTIVE \<and> sub_status sub = PAST_DUE then None else sub_last_payment_failure_at sub)\<rparr> \<and>
      w_bus w' = w_bus w @ filter bus [subscription_event ''status_changed'' s' (Some (user_id u))])) \<and>
    (assert_transition (sub_status sub) target \<noteq> Inr () \<longrightarrow> admin_subscription_set_status bus R repr now u (sub_id sub) form_data w =
      (Inl (HTTPException 400 (''Allowed: '' @ allowed_text (sub_status sub))), w))"
proof (cases "assert_transition (sub_status sub) target = Inr ()")
  case True
  let ?s = "status_set now target sub"
  let ?d = "subscriptions_update (update_row sub_id ?s) (w_db w)"
  let ?e = "subscription_event ''status_changed'' ?s (Some (user_id u))"
  have live: "is_live sub" using True transition_live by (simp add: assert_transition_Inr is_live_def)
  have "db_unique ?d" using live by (intro save_live_sub(1) [OF assms(1,2)]) (simp_all add: status_set_kept)
  then have run: "admin_subscription_set_status bus R repr now u (sub_id sub) form_data w =
    thenM (publish bus ?e) (thenM (invalidate_count R now ''subscriptions'') (returnM (''/admin/subscriptions/'' @ show_int (sub_id sub))))
      (w\<lparr>w_db := ?d, w_committed := ?d\<rparr>)"
    using found_subscription_run [OF assms(1,2)] assms(3,4) True
    by (simp add: admin_subscription_set_status_def billing_action_run form_get_def Let_def commit_run)
  obtain x w' where "admin_subscription_set_status bus R repr now u (sub_id sub) form_data w = (x, w')"
    "w_db w' = ?d" "w_committed w' = ?d" "w_bus w' = w_bus w @ (if bus ?e then [?e] else [])"
    using after_commit [of bus ?e R now "''subscriptions''" "''/admin/subscriptions/'' @ show_int (sub_id sub)" "w\<lparr>w_db := ?d, w_committed := ?d\<rparr>"]
    unfolding run by auto
  moreover have "?s = sub\<lparr>sub_status := target, sub_canceled_at := (if target = CANCELED then Some now else sub_canceled_at sub),
        sub_cancel_at_period_end := (target \<noteq> CANCELED \<and> sub_cancel_at_period_end sub),
        sub_pending_plan_id := (if target = CANCELED then None else sub_pending_plan_id sub),
        sub_next_retry_at := (if target = ACTIVE \<and> sub_status sub = PAST_DUE then None else sub_next_retry_at sub),
        sub_failed_payment_count := (if target = ACTIVE \<and> sub_status sub = PAST_DUE then 0 else sub_failed_payment_count sub),
        sub_last_payment_failure_at := (if target = ACTIVE \<and> sub_status sub = PAST_DUE then None else sub_last_payment_failure_at sub)\<rparr>"
    if "target \<noteq> SUSPENDED" using that by (cases target) (simp_all add: status_set_def reset_dunning_def)
  ultimately show ?thesis using True \<open>db_unique ?d\<close> by auto
next
  case False
  then obtain e where "assert_transition (sub_status sub) target = Inl e" by (cases "assert_transition (sub_status sub) target") auto
  then show ?thesis
    using found_subscription_run [OF assms(1,2)] assms(3,4) False
    by (simp add: admin_subscription_set_status_def billing_action_run form_get_def)
qed

definition admin_user :: user where
  "admin_user = sample_user\<lparr>user_is_superuser := True\<rparr>"

lemma admin_user_access: "admin_access admin_user p"
  by (simp add: admin_access_def has_permission_def admin_user_def)

theorem admin_set_status_spec_witness:
  "\<exists>x w'. admin_subscription_set_status (\<lambda>_. True) keyspace_redis id 5 admin_user 1 [(''status'', ''canceled'')] sample_world = (x, w') \<and>
    map sub_status (t_rows (subscriptions (w_committed w'))) = [CANCELED] \<and> map sub_canceled_at (t_rows (subscriptions (w_committed w'))) = [Some 5]"
  using admin_set_status_spec [of sample_world sample_sub admin_user "[(''status'', ''canceled'')]" CANCELED "\<lambda>_. True" keyspace_redis id 5]
    sample_store_ok admin_user_access
  by (auto simp: sample_defs assert_transition_def update_row_def)

text \<open>
  An administrator's switch of the plan takes effect at once, in a fresh period, whatever the status of the subscription:
  a subscription that is over gets a new period too.
\<close>

theorem admin_override_plan_spec:
  assumes "store_ok w" and "sub \<in> set (t_rows (subscriptions (w_db w)))" and "admin_access u ''subscription:admin''"
    and "p \<in> set (t_rows (plans (w_db w)))" and "map_of form_data ''plan_id'' = Some (show_int (plan_id p))"
  shows "if plan_is_active p
    then \<exists>x w' s'. admin_subscription_override_plan bus R now u (sub_id sub) form_data w = (x, w') \<and>
      w_db w' = subscriptions_update (update_row sub_id s') (w_db w) \<and> w_committed w' = w_db w' \<and> s' = switched_plan p now sub \<and>
      sub_status s' = sub_status sub \<and> sub_current_period_start s' = now \<and> now < sub_current_period_end s'
    else admin_subscription_override_plan bus R now u (sub_id sub) form_data w = (Inl (HTTPException 404 ''Plan not found or inactive''), w)"
proof -
  let ?s = "switched_plan p now sub"
  let ?d = "subscriptions_update (update_row sub_id ?s) (w_db w)"
  let ?e = "subscription_event ''plan_changed'' ?s (Some (user_id u))"
  have plan: "scalar_one_or_none (select_where (\<lambda>x. plan_id x = plan_id p) (plans (w_db w))) = Inr (Some p)"
    using plan_row.by_id [OF _ assms(4)] assms(1) by (simp add: store_ok_def db_keys_def)
  have act: "billing_action ''subscriptions'' ''override-plan'' u w = (Inr u, w)" by (rule billing_action_run) (simp_all add: assms(3))
  note steps = found_subscription_run [OF assms(1,2)] act
  show ?thesis
  proof (cases "plan_is_active p")
    case True
    have "is_live ?s = is_live sub" by (simp add: switched_plan_def is_live_def)
    then have "db_unique ?d" by (intro save_live_sub(1) [OF assms(1,2)]) (simp_all add: switched_plan_def)
    then have run: "admin_subscription_override_plan bus R now u (sub_id sub) form_data w =
      thenM (publish bus ?e) (thenM (invalidate_count R now ''subscriptions'') (returnM (''/admin/subscriptions/'' @ show_int (sub_id sub))))
        (w\<lparr>w_db := ?d, w_committed := ?d\<rparr>)"
      using steps assms(5) plan True
      by (simp add: admin_subscription_override_plan_def form_get_def int_exn_def Let_def commit_run)
    obtain x w' where w': "admin_subscription_override_plan bus R now u (sub_id sub) form_data w = (x, w')" "w_db w' = ?d" "w_committed w' = ?d"
      using after_commit [of bus ?e R now "''subscriptions''" "''/admin/subscriptions/'' @ show_int (sub_id sub)" "w\<lparr>w_db := ?d, w_committed := ?d\<rparr>"]
      unfolding run by auto
    have "now < sub_current_period_end ?s"
      by (cases "plan_interval p") (simp_all add: switched_plan_def next_period_end_def days_td_def)
    moreover have "sub_status ?s = sub_status sub" "sub_current_period_start ?s = now" by (simp_all add: switched_plan_def)
    ultimately show ?thesis using w' True by auto
  next
    case False
    then show ?thesis using steps assms(5) plan
      by (simp add: admin_subscription_override_plan_def form_get_def int_exn_def)
  qed
qed

section \<open>Refunds\<close>

text \<open>
  A refund is Stripe's alone: only a paid invoice is refunded, the form decides what is sent, and the database never
  changes. So the invoice stays paid, and the same request is accepted again as long as Stripe accepts it.
\<close>

lemma refund_run:
  assumes "admin_access u ''invoice:admin''" "table_wf inv_id (invoices (w_db w))" "v \<in> set (t_rows (invoices (w_db w)))"
  shows "admin_invoice_refund S repr http R now u (inv_id v) form_data w =
    (if inv_status v \<noteq> PAID then (Inl (HTTPException 400 ''Only paid invoices can be refunded''), w)
     else case refund_arguments form_data of Inl e \<Rightarrow> (Inl e, w)
       | Inr (pi', charge, amount) \<Rightarrow>
           (case create_refund S repr http pi' charge amount None of Inl e \<Rightarrow> (Inl (refund_error e), w)
            | Inr _ \<Rightarrow> thenM (invalidate_count R now ''invoices'') (returnM (''/admin/invoices/'' @ show_int (inv_id v))) w))"
  using inv_row.by_id [OF assms(2,3)] assms(1)
  by (auto simp: admin_invoice_refund_def billing_action_run thenM_def bindM_def tryM_def liftM_def guardM_def raiseM_def returnM_def
      split: sum.split prod.split)

lemma refund_arguments_ok:
  assumes "refund_arguments form_data = Inr (pi', charge, amount)"
  shows "(pi' = None) \<noteq> (charge = None) \<and> (\<forall>a. amount = Some a \<longrightarrow> 0 < a)"
  using assms by (auto simp: refund_arguments_def Let_def split: if_splits sum.splits option.splits)

theorem refund_changes_nothing:
  assumes "admin_access u ''invoice:admin''" and "table_wf inv_id (invoices (w_db w))" and "v \<in> set (t_rows (invoices (w_db w)))"
    and "admin_invoice_refund S repr http R now u (inv_id v) form_data w = (x, w')"
  shows "w_db w' = w_db w \<and> w_committed w' = w_committed w \<and>
    (x = Inr url \<longrightarrow> inv_status v = PAID \<and> (\<exists>pi' charge amount j. refund_arguments form_data = Inr (pi', charge, amount) \<and>
       (pi' = None) \<noteq> (charge = None) \<and> (\<forall>a. amount = Some a \<longrightarrow> 0 < a) \<and> create_refund S repr http pi' charge amount None = Inr j))"
proof -
  have cache: "w_db (snd (thenM (invalidate_count R now t) (returnM y) w)) = w_db w \<and>
    w_committed (snd (thenM (invalidate_count R now t) (returnM y) w)) = w_committed w" for t and y :: string
    using invalidate_count_outside [of R now t w]
    by (cases "invalidate_count R now t w") (auto simp: thenM_def bindM_def returnM_def split: sum.split)
  show ?thesis
    using assms(4) cache [of "''invoices''" "''/admin/invoices/'' @ show_int (inv_id v)"]
    unfolding refund_run [OF assms(1-3)]
    by (fastforce dest: refund_arguments_ok split: if_splits sum.splits prod.splits)
qed

section \<open>Forms\<close>

text \<open>
  What a form can do to a row: \<open>protected\<close> is the part of a row that none of the assignments of the class touches. An edit
  changes at most the row that it names, and never the protected part.
\<close>

locale form_class = crud_model "cls_model K" for K :: "'a admin_class" +
  fixes protected :: "'a \<Rightarrow> 'b"
  assumes set_key: "m_rid (cls_model K) (cls_set K f v r) = m_rid (cls_model K) r"
    and set_protected: "protected (cls_set K f v r) = protected r"
begin

lemma assign_kept:
  "assign_fields K fs form_data obj = Inr obj' \<Longrightarrow>
    m_rid (cls_model K) obj' = m_rid (cls_model K) obj \<and> protected obj' = protected obj"
proof (induction fs arbitrary: obj)
  case (Cons f fs)
  then show ?case by (auto simp: set_key set_protected split: option.splits sum.splits)
qed simp

lemma edit_run:
  "(\<exists>e. admin_edit R K now u t i form_data w = (Inl e, w)) \<or>
   (\<exists>obj obj' fs. crud_get (cls_model K) i True w = (Inr (Some obj), w) \<and> assign_fields K fs form_data obj = Inr obj' \<and>
     admin_edit R K now u t i form_data w = thenM (db_save (m_upd (cls_model K)) (m_rid (cls_model K)) obj')
       (thenM commit (thenM (cache_delete R now (count_key t)) (returnM (admin_url t)))) w)"
proof (cases "admin_table t u w")
  case (Pair r w1)
  obtain q where found: "crud_get (cls_model K) i True w = (q, w)" by (simp add: crud_get_def)
  obtain m where mail: "email_unused K form_data w = (m, w)"
    using that [of "fst (email_unused K form_data w)"]
    by (cases "email_unused K form_data w")
      (auto simp: email_unused_def bindM_def guardM_def returnM_def raiseM_def split: option.splits sum.splits if_splits)
  have "w1 = w" using Pair
    by (auto simp: admin_table_def registered_run permitted_run thenM_def bindM_def returnM_def split: option.splits if_splits)
  then show ?thesis using Pair found mail
    by (cases r; cases q; cases m)
      (auto simp: admin_edit_def found_object_def require_admin_run set_default_password_for_user_def bindM_def liftM_def raiseM_def
        returnM_def thenM_def guardM_def split: option.splits sum.splits if_splits)
qed

lemma edit_protects:
  assumes "table_wf (m_rid (cls_model K)) (m_tbl (cls_model K) (w_db w))" "admin_edit R K now u t i form_data w = (x, w')"
  defines "rs \<equiv> \<lambda>w. t_rows (m_tbl (cls_model K) (w_db w))"
  shows "map (\<lambda>r. (m_rid (cls_model K) r, protected r)) (rs w') = map (\<lambda>r. (m_rid (cls_model K) r, protected r)) (rs w) \<and>
    filter (\<lambda>r. m_rid (cls_model K) r \<noteq> i) (rs w') = filter (\<lambda>r. m_rid (cls_model K) r \<noteq> i) (rs w)"
proof (cases "w_db w' = w_db w")
  case False
  let ?M = "cls_model K"
  obtain obj obj' fs where run: "crud_get ?M i True w = (Inr (Some obj), w)" "assign_fields K fs form_data obj = Inr obj'"
    "admin_edit R K now u t i form_data w = thenM (db_save (m_upd ?M) (m_rid ?M) obj')
       (thenM commit (thenM (cache_delete R now (count_key t)) (returnM (admin_url t)))) w"
    using edit_run [of R now u t i form_data w] assms(2) False by auto
  have obj: "obj \<in> set (rs w)" "m_rid ?M obj = i"
    using run(1) rows.by_id_Some_iff [OF assms(1), of i obj] by (simp_all add: crud_get_def visible_def rs_def)
  have kept: "m_rid ?M obj' = i" "protected obj' = protected obj" using assign_kept [OF run(2)] obj by simp_all
  let ?w = "w\<lparr>w_db := m_upd ?M (update_row (m_rid ?M) obj') (w_db w)\<rparr>"
  have "w_db w' = w_db ?w"
    using assms(2) run(3) cache_delete_db [of R now "count_key t" "?w\<lparr>w_committed := w_db ?w\<rparr>"]
    by (cases "cache_delete R now (count_key t) (?w\<lparr>w_committed := w_db ?w\<rparr>)")
      (auto simp: thenM_def bindM_def commit_run returnM_def db_save_def modifyM_def split: if_splits sum.splits)
  then have "rs w' = map (\<lambda>r. if m_rid ?M r = i then obj' else r) (rs w)"
    by (simp add: rs_def tbl_upd update_row_def kept)
  moreover have "r = obj" if "r \<in> set (rs w)" "m_rid ?M r = i" for r
    using distinct_key_unique [of "m_rid ?M" "rs w" r obj] assms(1) obj that by (simp add: table_wf_def rs_def)
  ultimately show ?thesis using kept
    by (simp add: filter_map comp_def if_distrib cong: if_cong) (auto cong: filter_cong intro!: map_idI)
qed (simp add: rs_def)

end

interpretation user_form: form_class user_class
  "\<lambda>u. (user_hashed_password u, user_is_superuser u, user_roles u, user_tenant_id u, user_failed_login_attempts u, user_locked_until u,
     user_totp_secret u, user_totp_enabled u, user_deleted_at u)"
  by unfold_locales (auto simp: user_class_def user_model_def user_crud.upd_same split: form_value.split)

interpretation tenant_form: form_class tenant_class tnt_stripe_customer_id
  by unfold_locales (auto simp: tenant_class_def split: form_value.split)

interpretation notification_form: form_class notification_class "\<lambda>n. (ntf_read_at n, ntf_deleted_at n)"
  by unfold_locales (auto simp: notification_class_def notification_model_def split: form_value.split)

interpretation preference_form: form_class preference_class npf_id
  by unfold_locales (auto simp: preference_class_def split: form_value.split)

lemma mail_answer:
  assumes "store_ok w"
  shows "email_unused K form_data w = (Inr (), w) \<or> email_unused K form_data w = (Inl (HTTPException 400 ''Email already exists''), w)"
proof -
  have one: "\<exists>r. scalar_one_or_none (select_where (\<lambda>u. user_email u = em) (users (w_db w))) = Inr r" for em
  proof (cases "\<exists>v \<in> set (t_rows (users (w_db w))). user_email v = em")
    case True
    then show ?thesis using get_by_email_found [of w] assms by (fastforce simp: get_by_email_def store_ok_def)
  next
    case False
    then have "select_where (\<lambda>u. user_email u = em) (users (w_db w)) = []" by (auto simp: select_where_def filter_empty_conv)
    then show ?thesis by simp
  qed
  show ?thesis
  proof (cases "map_of form_data ''email''")
    case (Some em)
    obtain r where "scalar_one_or_none (select_where (\<lambda>u. user_email u = em) (users (w_db w))) = Inr r" using one by blast
    then show ?thesis using Some by (cases r; cases "cls_hashed_password K") (simp_all add: email_unused_def)
  qed (simp add: email_unused_def split: option.split)
qed

lemma no_password:
  "\<exists>obj. assign_fields user_class fs form_data (cls_new user_class) = Inr obj \<and>
    set_default_password_for_user user_class obj w = (Inl (HTTPException 400 ''Password is required when creating a user''), w)"
proof -
  have "\<exists>obj'. assign_fields user_class fs form_data obj = Inr obj'" for obj
  proof (induction fs arbitrary: obj)
    case (Cons f fs)
    have "\<exists>x. coerce_value (cls_columns user_class) f v = Inr x" for v
      by (auto simp: coerce_value_def user_class_def)
    then show ?case using Cons
      by (cases "map_of form_data f"; cases "coerce_value (cls_columns user_class) f (the (map_of form_data f))") (auto, metis Inl_Inr_False)
  qed simp
  then obtain obj where obj: "assign_fields user_class fs form_data (cls_new user_class) = Inr obj" by blast
  then have "user_hashed_password obj = []" using user_form.assign_kept [OF obj] by (simp add: user_class_def)
  then show ?thesis using obj by (simp add: set_default_password_for_user_def user_class_def)
qed



lemma user_page_entry:
  assumes "admin_access u ''user:admin''"
  obtains config where "require_admin u w = (Inr u, w)" "admin_table ''users'' u w = (Inr config, w)"
proof -
  define config where "config = snd (hd admin_registry)"
  have "map_of admin_registry ''users'' = Some config" "adm_permission config = ''user:admin''"
    by (simp_all add: config_def admin_registry_def register_admin_def)
  then show thesis using assms
    by (intro that [of config]) (simp_all add: require_admin_run admin_table_def registered_run permitted_run admin_access_def)
qed

text \<open>Submitting the e-mail address that the account already has is refused.\<close>

lemma own_address_refused:
  assumes "store_ok w" and "admin_access u ''user:admin''" and "v \<in> set (t_rows (users (w_db w)))"
    and "map_of form_data ''email'' = Some (user_email v)"
  shows "admin_edit R user_class now u ''users'' (user_id v) form_data w = (Inl (HTTPException 400 ''Email already exists''), w)"
proof -
  have wf: "table_wf user_id (users (w_db w))" using assms(1) by (simp add: store_ok_def db_keys_def)
  obtain config where entry: "require_admin u w = (Inr u, w)" "admin_table ''users'' u w = (Inr config, w)"
    using user_page_entry [OF assms(2)] by blast
  have "crud_get user_model (user_id v) True w = (Inr (Some v), w)"
    using user_crud.get_by_id [of w v True] wf assms(3) by (simp add: user_model_def visible_def)
  moreover have "scalar_one_or_none (select_where (\<lambda>x. user_email x = user_email v) (users (w_db w))) = Inr (Some v)"
    using get_by_email_found [of w v] assms(1,3) by (simp add: get_by_email_def store_ok_def)
  ultimately show ?thesis
    using entry assms(4) by (simp add: admin_edit_def found_object_def user_class_def email_unused_def)
qed

text \<open>
  No account can be created through the form: the password goes to an attribute that is no column, and the row is refused for
  its missing hash (or its used address).
\<close>

lemma no_account_created:
  assumes "store_ok w" and "admin_access u ''user:admin''"
  shows "\<exists>msg. admin_create R user_class now u ''users'' form_data w = (Inl (HTTPException 400 msg), w)"
proof -
  obtain config where entry: "require_admin u w = (Inr u, w)" "admin_table ''users'' u w = (Inr config, w)"
    using user_page_entry [OF assms(2)] by blast
  have cls: "cls_model user_class = user_model" "cls_hashed_password user_class = Some user_hashed_password" by (simp_all add: user_class_def)
  show ?thesis
    using entry mail_answer [OF assms(1), of user_class form_data] no_password [of "adm_form_fields config" form_data w]
    by (auto simp: admin_create_def cls)
qed

section \<open>Routing\<close>

text \<open>
  The pages for creating a record, for deleted records and for sessions are declared after the routes that take any table and
  any key, which are tried first: they are never served.
\<close>

lemma shadowed_pages:
  assumes "t \<noteq> []"
  shows "admin_route ''GET'' [t, ''create''] = Some ''admin_detail''" "admin_route ''GET'' [t, ''trashed''] = Some ''admin_detail''"
    "admin_route ''GET'' [''sessions''] = Some ''admin_list''" "map_of admin_registry ''sessions'' = None"
    "admin_route ''POST'' [''sessions'', ''revoke''] = Some ''admin_revoke_session''"
    "i \<noteq> [] \<Longrightarrow> admin_route ''POST'' [''subscriptions'', i, ''set-status''] = Some ''admin_subscription_set_status''"
  using assms by (simp_all add: admin_route_def ADMIN_ROUTES_def admin_registry_def register_admin_def)

end
