(* ===== verification/FileStorage.thy ===== *)
theory FileStorage
  imports Config
begin

text \<open>
  \<^verbatim>\<open>app/storage/{base,local,s3}.py\<close> and the dependency \<^verbatim>\<open>get_storage\<close>.

  A file system is a map from absolute locations (lists of names) to nodes, with the working directory of
  the process; \<open>walk\<close> follows a path the way the kernel does, one name at a time, \<^verbatim>\<open>..\<close> included. There are
  no symbolic links, and a process that may read a directory may read what is in it; a full disk and names
  that are too long are not modelled. \<open>pure_path\<close> is \<^verbatim>\<open>pathlib\<close>'s view of a path: its parts without empty and
  \<^verbatim>\<open>.\<close> components. Contents are strings of bytes.

  The locale \<open>storage_contract\<close> is what the endpoints rely on: what was uploaded can be downloaded under the
  returned path, other stored names keep their contents, a deleted name is gone. It is interpreted on
  \<open>LocalStorage\<close>; an S3 bucket satisfies it when the client does (\<open>s3_laws\<close>).
\<close>

section \<open>Paths\<close>

record pure_path =
  pp_absolute :: bool
  pp_parts :: "string list"

definition parse_path :: "string \<Rightarrow> pure_path" where
  "parse_path s = \<lparr>pp_absolute = (s \<noteq> [] \<and> hd s = CHR ''/''),
     pp_parts = filter (\<lambda>p. p \<noteq> [] \<and> p \<noteq> ''.'') (py_split (CHR ''/'') s)\<rparr>"

text \<open>\<open>Path(s).name\<close>, \<open>a / b\<close>, \<open>str(p)\<close> and \<open>p.relative_to(base)\<close>\<close>

definition path_name :: "pure_path \<Rightarrow> string" where
  "path_name p = (if pp_parts p = [] then [] else last (pp_parts p))"

definition join_path :: "pure_path \<Rightarrow> pure_path \<Rightarrow> pure_path" where
  "join_path a b = (if pp_absolute b then b else a\<lparr>pp_parts := pp_parts a @ pp_parts b\<rparr>)"

definition str_path :: "pure_path \<Rightarrow> string" where
  "str_path p =
     (if pp_absolute p then ''/'' @ py_join ''/'' (pp_parts p)
      else if pp_parts p = [] then ''.'' else py_join ''/'' (pp_parts p))"

definition relative_to :: "pure_path \<Rightarrow> pure_path \<Rightarrow> exn + pure_path" where
  "relative_to p base =
     (let n = length (pp_parts base)
      in if pp_absolute p = pp_absolute base \<and> take n (pp_parts p) = pp_parts base
         then Inr \<lparr>pp_absolute = False, pp_parts = drop n (pp_parts p)\<rparr>
         else Inl (ValueError ''is not in the subpath''))"

section \<open>The file system\<close>

datatype node = Dir | Regular string

type_synonym nodes = "string list \<rightharpoonup> node"

record file_system =
  fs_cwd :: "string list"
  fs_nodes :: nodes

fun walk :: "nodes \<Rightarrow> string list \<Rightarrow> string list \<Rightarrow> string list option" where
  "walk N cur [] = (if N cur = None then None else Some cur)"
| "walk N cur (s # ss) =
     (if N cur \<noteq> Some Dir then None
      else if s = ''..'' then walk N (butlast cur) ss
      else walk N (cur @ [s]) ss)"

definition has_nul :: "pure_path \<Rightarrow> bool" where
  "has_nul p = list_ex (\<lambda>s. CHR 0x00 \<in> set s) (pp_parts p)"

definition path_start :: "file_system \<Rightarrow> pure_path \<Rightarrow> string list" where
  "path_start fs p = (if pp_absolute p then [] else fs_cwd fs)"

definition resolve :: "file_system \<Rightarrow> pure_path \<Rightarrow> string list option" where
  "resolve fs p = (if has_nul p then None else walk (fs_nodes fs) (path_start fs p) (pp_parts p))"

definition node_at :: "file_system \<Rightarrow> pure_path \<Rightarrow> node option" where
  "node_at fs p = (case resolve fs p of None \<Rightarrow> None | Some t \<Rightarrow> fs_nodes fs t)"

definition is_file :: "file_system \<Rightarrow> pure_path \<Rightarrow> bool" where
  "is_file fs p = (case node_at fs p of Some (Regular _) \<Rightarrow> True | _ \<Rightarrow> False)"

text \<open>Reading, writing (mode \<open>wb\<close>, which creates or truncates) and unlinking a file; \<open>mkdir -p\<close>.\<close>

definition read_bytes :: "pure_path \<Rightarrow> (file_system, string) io" where
  "read_bytes p = (\<lambda>fs. case node_at fs p of
       Some (Regular c) \<Rightarrow> (Inr c, fs)
     | Some Dir \<Rightarrow> (Inl (OSError ''Is a directory''), fs)
     | None \<Rightarrow> (Inl (FileNotFoundError (str_path p)), fs))"

definition write_bytes :: "pure_path \<Rightarrow> string \<Rightarrow> (file_system, unit) io" where
  "write_bytes p data = (\<lambda>fs.
     if has_nul p then (Inl (ValueError ''embedded null byte''), fs)
     else if pp_parts p = [] \<or> last (pp_parts p) = ''..'' then (Inl (OSError ''Is a directory''), fs)
     else (case walk (fs_nodes fs) (path_start fs p) (butlast (pp_parts p)) of
         None \<Rightarrow> (Inl (FileNotFoundError (str_path p)), fs)
       | Some d \<Rightarrow>
           (let t = d @ [last (pp_parts p)]
            in if fs_nodes fs d \<noteq> Some Dir then (Inl (OSError ''Not a directory''), fs)
               else if fs_nodes fs t = Some Dir then (Inl (OSError ''Is a directory''), fs)
               else (Inr (), fs\<lparr>fs_nodes := (fs_nodes fs)(t \<mapsto> Regular data)\<rparr>))))"

definition unlink :: "pure_path \<Rightarrow> (file_system, unit) io" where
  "unlink p = (\<lambda>fs. case resolve fs p of
       None \<Rightarrow> (Inl (FileNotFoundError (str_path p)), fs)
     | Some t \<Rightarrow> (Inr (), fs\<lparr>fs_nodes := (fs_nodes fs)(t := None)\<rparr>))"

fun mkdir_all :: "nodes \<Rightarrow> string list \<Rightarrow> string list \<Rightarrow> (exn + unit) \<times> nodes" where
  "mkdir_all N cur [] = (if N cur = Some Dir then (Inr (), N) else (Inl (OSError ''File exists''), N))"
| "mkdir_all N cur (s # ss) =
     (if N cur \<noteq> Some Dir then (Inl (OSError ''Not a directory''), N)
      else if s = ''..'' then mkdir_all N (butlast cur) ss
      else if N (cur @ [s]) = None then mkdir_all (N(cur @ [s] \<mapsto> Dir)) (cur @ [s]) ss
      else mkdir_all N (cur @ [s]) ss)"

definition mkdir_p :: "pure_path \<Rightarrow> (file_system, unit) io" where
  "mkdir_p p = (\<lambda>fs.
     if has_nul p then (Inl (ValueError ''embedded null byte''), fs)
     else (case mkdir_all (fs_nodes fs) (path_start fs p) (pp_parts p) of
         (r, N) \<Rightarrow> (r, fs\<lparr>fs_nodes := N\<rparr>)))"

section \<open>Storage backends\<close>

text \<open>What the endpoints call; \<open>'b\<close> is the state behind the backend.\<close>

record 'b storage_backend =
  sb_upload :: "string \<Rightarrow> string \<Rightarrow> ('b, string) io"
  sb_upload_bytes :: "string \<Rightarrow> string \<Rightarrow> ('b, string) io"
  sb_download :: "string \<Rightarrow> ('b, string) io"
  sb_delete :: "string \<Rightarrow> ('b, unit) io"
  sb_get_url :: "string \<Rightarrow> string option"

text \<open>The methods that the abstract class implements itself.\<close>

definition base_upload_bytes :: "(string \<Rightarrow> string \<Rightarrow> ('b, string) io) \<Rightarrow> string \<Rightarrow> string \<Rightarrow> ('b, string) io" where
  "base_upload_bytes upload data filename = upload data filename"

definition upload_bytes_with_prefix ::
  "'b storage_backend \<Rightarrow> string \<Rightarrow> string \<Rightarrow> string \<Rightarrow> ('b, string) io" where
  "upload_bytes_with_prefix B prfx data filename = sb_upload_bytes B data (prfx @ ''/'' @ filename)"

definition base_get_url :: "string \<Rightarrow> string option" where
  "base_get_url key = None"

section \<open>Local storage\<close>

definition storage_root :: "platform_settings \<Rightarrow> pure_path" where
  "storage_root P = parse_path (LOCAL_STORAGE_PATH P)"

definition local_init :: "platform_settings \<Rightarrow> (file_system, unit) io" where
  "local_init P = mkdir_p (storage_root P)"

text \<open>The loop \<open>while chunk := file.read(size): out_file.write(chunk)\<close>: what has been written when it ends.\<close>

function copy_chunks :: "nat \<Rightarrow> string \<Rightarrow> string \<Rightarrow> string" where
  "copy_chunks n rest written =
     (let chunk = take n rest
      in if chunk = [] then written else copy_chunks n (drop n rest) (written @ chunk))"
  by auto
termination
  by (relation "measure (\<lambda>(n, rest, written). length rest)") auto

declare copy_chunks.simps [simp del]

definition local_upload :: "platform_settings \<Rightarrow> string \<Rightarrow> string \<Rightarrow> (file_system, string) io" where
  "local_upload P content filename =
     (let safe_name = path_name (parse_path filename);
          file_path = join_path (storage_root P) (parse_path safe_name)
      in thenM (write_bytes file_path (copy_chunks (1024 * 1024) content []))
           (bindM (liftM (relative_to file_path (storage_root P))) (\<lambda>p. returnM (str_path p))))"

definition local_upload_bytes :: "platform_settings \<Rightarrow> string \<Rightarrow> string \<Rightarrow> (file_system, string) io" where
  "local_upload_bytes P data filename =
     (let safe_name = path_name (parse_path filename);
          file_path = join_path (storage_root P) (parse_path safe_name)
      in thenM (write_bytes file_path data)
           (bindM (liftM (relative_to file_path (storage_root P))) (\<lambda>p. returnM (str_path p))))"

definition local_download :: "platform_settings \<Rightarrow> string \<Rightarrow> (file_system, string) io" where
  "local_download P path =
     (let full_path = join_path (storage_root P) (parse_path path)
      in (\<lambda>fs. if \<not> is_file fs full_path then (Inl (FileNotFoundError path), fs) else read_bytes full_path fs))"

definition local_delete :: "platform_settings \<Rightarrow> string \<Rightarrow> (file_system, unit) io" where
  "local_delete P path =
     (let full_path = join_path (storage_root P) (parse_path path)
      in (\<lambda>fs. if is_file fs full_path then unlink full_path fs else (Inr (), fs)))"

definition local_storage :: "platform_settings \<Rightarrow> file_system storage_backend" where
  "local_storage P = \<lparr>sb_upload = local_upload P, sb_upload_bytes = local_upload_bytes P,
     sb_download = local_download P, sb_delete = local_delete P, sb_get_url = base_get_url\<rparr>"

section \<open>S3 storage\<close>

text \<open>The bucket is reached through a client: put, get and delete of an object by its key.\<close>

record 's s3_client =
  s3_upload_fileobj :: "string \<Rightarrow> string \<Rightarrow> ('s, unit) io"
  s3_get_object :: "string \<Rightarrow> ('s, string) io"
  s3_delete_object :: "string \<Rightarrow> ('s, unit) io"

definition s3_upload :: "'s s3_client \<Rightarrow> string \<Rightarrow> string \<Rightarrow> ('s, string) io" where
  "s3_upload C content filename = thenM (s3_upload_fileobj C filename content) (returnM filename)"

definition s3_download :: "'s s3_client \<Rightarrow> string \<Rightarrow> ('s, string) io" where
  "s3_download C path = s3_get_object C path"

definition s3_delete :: "'s s3_client \<Rightarrow> string \<Rightarrow> ('s, unit) io" where
  "s3_delete C path = s3_delete_object C path"

definition s3_get_url :: "platform_settings \<Rightarrow> (string \<Rightarrow> string) \<Rightarrow> string \<Rightarrow> string option" where
  "s3_get_url P quote key =
     (if CDN_DOMAIN P = [] then None else Some (''https://'' @ CDN_DOMAIN P @ ''/'' @ quote key))"

definition s3_storage :: "platform_settings \<Rightarrow> (string \<Rightarrow> string) \<Rightarrow> 's s3_client \<Rightarrow> 's storage_backend" where
  "s3_storage P quote C = \<lparr>sb_upload = s3_upload C, sb_upload_bytes = base_upload_bytes (s3_upload C),
     sb_download = s3_download C, sb_delete = s3_delete C, sb_get_url = s3_get_url P quote\<rparr>"

section \<open>The dependency\<close>

text \<open>An operation on one half of a pair of states.\<close>

definition via_fst :: "('a, 'c) io \<Rightarrow> ('a \<times> 'b, 'c) io" where
  "via_fst m = (\<lambda>(a, b). case m a of (r, a') \<Rightarrow> (r, (a', b)))"

definition via_snd :: "('b, 'c) io \<Rightarrow> ('a \<times> 'b, 'c) io" where
  "via_snd m = (\<lambda>(a, b). case m b of (r, b') \<Rightarrow> (r, (a, b')))"

definition backend_fst :: "'a storage_backend \<Rightarrow> ('a \<times> 'b) storage_backend" where
  "backend_fst B = \<lparr>sb_upload = (\<lambda>d f. via_fst (sb_upload B d f)), sb_upload_bytes = (\<lambda>d f. via_fst (sb_upload_bytes B d f)),
     sb_download = (\<lambda>p. via_fst (sb_download B p)), sb_delete = (\<lambda>p. via_fst (sb_delete B p)), sb_get_url = sb_get_url B\<rparr>"

definition backend_snd :: "'b storage_backend \<Rightarrow> ('a \<times> 'b) storage_backend" where
  "backend_snd B = \<lparr>sb_upload = (\<lambda>d f. via_snd (sb_upload B d f)), sb_upload_bytes = (\<lambda>d f. via_snd (sb_upload_bytes B d f)),
     sb_download = (\<lambda>p. via_snd (sb_download B p)), sb_delete = (\<lambda>p. via_snd (sb_delete B p)), sb_get_url = sb_get_url B\<rparr>"

text \<open>\<^verbatim>\<open>get_storage\<close>: every request builds a backend; that of the local disk creates its directory first.\<close>

definition get_storage ::
  "platform_settings \<Rightarrow> (string \<Rightarrow> string) \<Rightarrow> 's s3_client \<Rightarrow>
    (file_system \<times> 's, (file_system \<times> 's) storage_backend) io" where
  "get_storage P quote C =
     (if STORAGE_BACKEND P = ''s3'' then returnM (backend_snd (s3_storage P quote C))
      else thenM (via_fst (local_init P)) (returnM (backend_fst (local_storage P))))"

lemma via_run [simp]:
  "via_fst m (a, b) = (case m a of (r, a') \<Rightarrow> (r, (a', b)))"
  "via_snd k (a, b) = (case k b of (r, b') \<Rightarrow> (r, (a, b')))"
  by (simp_all add: via_fst_def via_snd_def)

section \<open>Names and walks\<close>

text \<open>A name that stands for one entry of a directory.\<close>

definition plain_name :: "string \<Rightarrow> bool" where
  "plain_name s \<longleftrightarrow> s \<noteq> [] \<and> s \<noteq> ''.'' \<and> s \<noteq> ''..'' \<and> CHR ''/'' \<notin> set s \<and> CHR 0x00 \<notin> set s"

lemma parse_single:
  "CHR ''/'' \<notin> set s \<Longrightarrow> s \<noteq> [] \<Longrightarrow> s \<noteq> ''.'' \<Longrightarrow> parse_path s = \<lparr>pp_absolute = False, pp_parts = [s]\<rparr>"
  by (cases s) (auto simp: parse_path_def py_split_no_sep)

lemma path_name_clean:
  "CHR ''/'' \<notin> set (path_name (parse_path f)) \<and> path_name (parse_path f) \<noteq> ''.''"
proof (cases "pp_parts (parse_path f) = []")
  case False
  then have "path_name (parse_path f) \<in> set (pp_parts (parse_path f))" by (simp add: path_name_def)
  then have "path_name (parse_path f) \<in> set (py_split (CHR ''/'') f)" "path_name (parse_path f) \<noteq> ''.''"
    by (auto simp: parse_path_def)
  then show ?thesis using py_split_parts by blast
qed (simp add: path_name_def)

lemma path_name_single: "CHR ''/'' \<notin> set s \<Longrightarrow> s \<noteq> ''.'' \<Longrightarrow> path_name (parse_path s) = s"
  by (cases "s = []") (simp_all add: parse_single path_name_def, simp add: parse_path_def)

lemma walk_append: "walk N cur (xs @ ys) = (case walk N cur xs of None \<Rightarrow> None | Some c \<Rightarrow> walk N c ys)"
proof (induction xs arbitrary: cur)
  case Nil
  then show ?case by (cases ys) auto
qed simp

text \<open>Writing or removing a node that is not a directory does not disturb the way to a directory.\<close>

lemma walk_update:
  assumes "N t \<noteq> Some Dir" "walk N cur xs = Some d" "N d = Some Dir" "v \<noteq> Some Dir"
  shows "walk (N(t := v)) cur xs = Some d"
  using assms by (induction xs arbitrary: cur) (auto split: if_splits)

lemma walk_node: "walk N cur xs = Some d \<Longrightarrow> N d \<noteq> None"
  by (induction xs arbitrary: cur) (auto split: if_splits)

section \<open>The directory of the storage\<close>

text \<open>The storage directory exists, as \<open>local_init\<close> leaves it; its location is \<open>base_dir\<close>.\<close>

definition local_ok :: "platform_settings \<Rightarrow> file_system \<Rightarrow> bool" where
  "local_ok P fs \<longleftrightarrow> node_at fs (storage_root P) = Some Dir"

definition base_dir :: "platform_settings \<Rightarrow> file_system \<Rightarrow> string list" where
  "base_dir P fs = (case resolve fs (storage_root P) of None \<Rightarrow> [] | Some b \<Rightarrow> b)"

lemma local_okD:
  assumes "local_ok P fs"
  shows "resolve fs (storage_root P) = Some (base_dir P fs)" "fs_nodes fs (base_dir P fs) = Some Dir"
  using assms by (auto simp: local_ok_def base_dir_def node_at_def split: option.splits)

lemma resolve_in_base:
  assumes "local_ok P fs" "plain_name n"
  shows "resolve fs (join_path (storage_root P) (parse_path n)) =
    (if fs_nodes fs (base_dir P fs @ [n]) = None then None else Some (base_dir P fs @ [n]))"
  using local_okD [OF assms(1)] assms(2)
  by (auto simp: plain_name_def parse_single join_path_def resolve_def has_nul_def path_start_def walk_append
      split: if_splits)

lemma local_ok_update:
  assumes "local_ok P fs" "fs_nodes fs t \<noteq> Some Dir" "v \<noteq> Some Dir"
  shows "local_ok P (fs\<lparr>fs_nodes := (fs_nodes fs)(t := v)\<rparr>)"
    "base_dir P (fs\<lparr>fs_nodes := (fs_nodes fs)(t := v)\<rparr>) = base_dir P fs"
proof -
  let ?fs = "fs\<lparr>fs_nodes := (fs_nodes fs)(t := v)\<rparr>"
  note ok = local_okD [OF assms(1)]
  have "resolve ?fs (storage_root P) = Some (base_dir P fs)"
    using ok assms(2,3) walk_update [where N = "fs_nodes fs" and t = t and v = v and d = "base_dir P fs"
      and cur = "path_start fs (storage_root P)" and xs = "pp_parts (storage_root P)"]
    by (auto simp: resolve_def path_start_def split: if_splits)
  moreover have "base_dir P fs \<noteq> t" using ok(2) assms(2) by auto
  ultimately show "local_ok P ?fs" "base_dir P ?fs = base_dir P fs"
    using ok(2) by (simp_all add: local_ok_def base_dir_def node_at_def)
qed

section \<open>Running the local operations\<close>

text \<open>The name under which an upload is stored, and whether the directory accepts it.\<close>

definition stored_name :: "string \<Rightarrow> string" where
  "stored_name filename = path_name (parse_path filename)"

definition local_accepts :: "platform_settings \<Rightarrow> file_system \<Rightarrow> string \<Rightarrow> bool" where
  "local_accepts P fs filename \<longleftrightarrow>
     plain_name (stored_name filename) \<and> fs_nodes fs (base_dir P fs @ [stored_name filename]) \<noteq> Some Dir"

definition put_local :: "platform_settings \<Rightarrow> string \<Rightarrow> node option \<Rightarrow> file_system \<Rightarrow> file_system" where
  "put_local P n v fs = fs\<lparr>fs_nodes := (fs_nodes fs)(base_dir P fs @ [n] := v)\<rparr>"

lemma relative_to_join:
  "\<not> pp_absolute q \<Longrightarrow> relative_to (join_path p q) p = Inr \<lparr>pp_absolute = False, pp_parts = pp_parts q\<rparr>"
  by (simp add: relative_to_def join_path_def Let_def)

lemma local_upload_bytes_run:
  assumes "local_ok P fs" "local_accepts P fs f"
  shows "local_upload_bytes P data f fs = (Inr (stored_name f), put_local P (stored_name f) (Some (Regular data)) fs)"
proof -
  let ?n = "stored_name f"
  have n: "plain_name ?n" and free: "fs_nodes fs (base_dir P fs @ [?n]) \<noteq> Some Dir"
    using assms(2) by (simp_all add: local_accepts_def)
  have p: "parse_path ?n = \<lparr>pp_absolute = False, pp_parts = [?n]\<rparr>"
    using n by (intro parse_single) (auto simp: plain_name_def)
  have "write_bytes (join_path (storage_root P) (parse_path ?n)) data fs =
      (Inr (), put_local P ?n (Some (Regular data)) fs)"
    using local_okD [OF assms(1)] n free
    by (auto simp: write_bytes_def p join_path_def has_nul_def resolve_def plain_name_def path_start_def put_local_def
        Let_def split: if_splits)
  moreover have "relative_to (join_path (storage_root P) (parse_path ?n)) (storage_root P) =
    Inr \<lparr>pp_absolute = False, pp_parts = [?n]\<rparr>"
    by (simp add: relative_to_join p)
  ultimately show ?thesis
    by (simp add: local_upload_bytes_def stored_name_def [symmetric] Let_def str_path_def)
qed

lemma local_download_run:
  assumes "local_ok P fs" "plain_name n"
  shows "local_download P n fs =
    (case fs_nodes fs (base_dir P fs @ [n]) of Some (Regular c) \<Rightarrow> (Inr c, fs) | _ \<Rightarrow> (Inl (FileNotFoundError n), fs))"
  using resolve_in_base [OF assms]
  by (auto simp: local_download_def is_file_def read_bytes_def node_at_def Let_def split: option.splits node.splits)

lemma local_delete_run:
  assumes "local_ok P fs" "plain_name n" "fs_nodes fs (base_dir P fs @ [n]) \<noteq> Some Dir"
  shows "local_delete P n fs = (Inr (), put_local P n None fs)"
proof -
  have "fs\<lparr>fs_nodes := fs_nodes fs\<rparr> = fs" by simp
  moreover have "(fs_nodes fs)(t := None) = fs_nodes fs" if "fs_nodes fs t = None" for t
    using that by auto
  ultimately show ?thesis
    using resolve_in_base [OF assms(1,2)] assms(3)
    by (auto simp: local_delete_def is_file_def node_at_def unlink_def put_local_def Let_def split: option.splits node.splits)
qed

lemma put_local_ok:
  assumes "local_ok P fs" "fs_nodes fs (base_dir P fs @ [n]) \<noteq> Some Dir" "v \<noteq> Some Dir"
  shows "local_ok P (put_local P n v fs)" "base_dir P (put_local P n v fs) = base_dir P fs"
    "fs_nodes (put_local P n v fs) = (fs_nodes fs)(base_dir P fs @ [n] := v)"
  using local_ok_update [OF assms] by (simp_all add: put_local_def)

section \<open>The contract of a backend\<close>

locale storage_contract =
  fixes ok :: "'b \<Rightarrow> bool" and accepts :: "'b \<Rightarrow> string \<Rightarrow> bool" and key :: "string \<Rightarrow> string"
    and up :: "string \<Rightarrow> string \<Rightarrow> ('b, string) io" and down :: "string \<Rightarrow> ('b, string) io"
    and del :: "string \<Rightarrow> ('b, unit) io"
  assumes up_run: "ok b \<Longrightarrow> accepts b f \<Longrightarrow> \<exists>b'. up d f b = (Inr (key f), b') \<and> ok b' \<and>
      fst (down (key f) b') = Inr d \<and>
      (\<forall>g. accepts b g \<longrightarrow> accepts b' g \<and> (key g \<noteq> key f \<longrightarrow> fst (down (key g) b') = fst (down (key g) b)))"
    and del_run: "ok b \<Longrightarrow> accepts b f \<Longrightarrow> \<exists>b'. del (key f) b = (Inr (), b') \<and> ok b' \<and>
      (\<exists>e. fst (down (key f) b') = Inl e) \<and>
      (\<forall>g. accepts b g \<longrightarrow> accepts b' g \<and> (key g \<noteq> key f \<longrightarrow> fst (down (key g) b') = fst (down (key g) b)))"
begin

text \<open>What a client sees: the content under each accepted name.\<close>

definition view :: "'b \<Rightarrow> string \<Rightarrow> string option" where
  "view b f = (case fst (down (key f) b) of Inl _ \<Rightarrow> None | Inr c \<Rightarrow> Some c)"

lemma upload_view:
  assumes "ok b" "accepts b f" "accepts b g"
  shows "\<exists>b'. up d f b = (Inr (key f), b') \<and> ok b' \<and> accepts b' g \<and>
    view b' g = (if key g = key f then Some d else view b g)"
  using up_run [OF assms(1,2), of d] assms(3) by (auto simp: view_def)

lemma delete_view:
  assumes "ok b" "accepts b f" "accepts b g"
  shows "\<exists>b'. del (key f) b = (Inr (), b') \<and> ok b' \<and> accepts b' g \<and>
    view b' g = (if key g = key f then None else view b g)"
  using del_run [OF assms(1,2)] assms(3) by (auto simp: view_def)

text \<open>After a series of uploads under different names, each name has its own content.\<close>

lemma uploads_view:
  assumes "ok b" "\<And>f d. (f, d) \<in> set xs \<Longrightarrow> accepts b f" "distinct (map (\<lambda>(f, d). key f) xs)"
  shows "\<exists>b'. forM xs (\<lambda>(f, d). thenM (up d f) (returnM ())) b = (Inr (), b') \<and> ok b' \<and>
    (\<forall>(f, d) \<in> set xs. view b' f = Some d) \<and>
    (\<forall>g. accepts b g \<and> key g \<notin> (\<lambda>(f, d). key f) ` set xs \<longrightarrow> view b' g = view b g)"
  using assms
proof (induction xs arbitrary: b)
  case (Cons x xs)
  obtain f d where x: "x = (f, d)" by (cases x)
  obtain b1 where b1: "up d f b = (Inr (key f), b1)" "ok b1" "fst (down (key f) b1) = Inr d"
    "\<And>g. accepts b g \<Longrightarrow> accepts b1 g \<and> (key g \<noteq> key f \<longrightarrow> fst (down (key g) b1) = fst (down (key g) b))"
    using up_run [OF Cons.prems(1) Cons.prems(2) [of f d], of d] x by auto
  have "\<exists>b'. forM xs (\<lambda>(f, d). thenM (up d f) (returnM ())) b1 = (Inr (), b') \<and> ok b' \<and>
    (\<forall>(f, d) \<in> set xs. view b' f = Some d) \<and>
    (\<forall>g. accepts b1 g \<and> key g \<notin> (\<lambda>(f, d). key f) ` set xs \<longrightarrow> view b' g = view b1 g)"
    using Cons.prems b1(2,4) by (intro Cons.IH) auto
  then obtain b2 where b2: "forM xs (\<lambda>(f, d). thenM (up d f) (returnM ())) b1 = (Inr (), b2)" "ok b2"
    "\<forall>(f, d) \<in> set xs. view b2 f = Some d"
    "\<forall>g. accepts b1 g \<and> key g \<notin> (\<lambda>(f, d). key f) ` set xs \<longrightarrow> view b2 g = view b1 g"
    by blast
  have "key f \<notin> (\<lambda>(f, d). key f) ` set xs" using Cons.prems(3) x by simp
  moreover have "accepts b1 f" using b1(4) [of f] Cons.prems(2) [of f d] x by simp
  ultimately have "view b2 f = Some d" using b2(4) b1(3) by (simp add: view_def)
  then have "\<forall>(f, d) \<in> set (x # xs). view b2 f = Some d" using b2(3) by (simp add: x)
  moreover have "forM (x # xs) (\<lambda>(f, d). thenM (up d f) (returnM ())) b = (Inr (), b2)"
    using b1(1) b2(1) by (simp add: x)
  moreover have "view b2 g = view b g" if "accepts b g" "key g \<notin> (\<lambda>(f, d). key f) ` set (x # xs)" for g
    using b2(4) b1(4) [OF that(1)] that(2) by (simp add: x view_def)
  ultimately show ?case using b2(2) by blast
qed simp

end

text \<open>Local storage provides it.\<close>

interpretation local: storage_contract "local_ok P" "local_accepts P" stored_name "local_upload_bytes P"
  "local_download P" "local_delete P" for P
proof unfold_locales
  have other: "local_accepts P (put_local P n v fs) g \<and>
      (stored_name g \<noteq> n \<longrightarrow>
        fst (local_download P (stored_name g) (put_local P n v fs)) = fst (local_download P (stored_name g) fs))"
    if "local_ok P fs" "fs_nodes fs (base_dir P fs @ [n]) \<noteq> Some Dir" "v \<noteq> Some Dir" "local_accepts P fs g" for fs n v g
    using put_local_ok [OF that(1-3)] that(1,3,4) local_download_run [of P _ "stored_name g"]
    by (auto simp: local_accepts_def split: option.splits node.splits)
  fix fs f d
  assume ok: "local_ok P fs" and acc: "local_accepts P fs f"
  have n: "plain_name (stored_name f)" "fs_nodes fs (base_dir P fs @ [stored_name f]) \<noteq> Some Dir"
    using acc by (simp_all add: local_accepts_def)
  note put = put_local_ok [OF ok n(2)]
  show "\<exists>fs'. local_upload_bytes P d f fs = (Inr (stored_name f), fs') \<and> local_ok P fs' \<and>
    fst (local_download P (stored_name f) fs') = Inr d \<and>
    (\<forall>g. local_accepts P fs g \<longrightarrow> local_accepts P fs' g \<and>
      (stored_name g \<noteq> stored_name f \<longrightarrow> fst (local_download P (stored_name g) fs') = fst (local_download P (stored_name g) fs)))"
    using local_upload_bytes_run [OF ok acc, of d] put [of "Some (Regular d)"] n(1) other [OF ok n(2), of "Some (Regular d)"]
    by (auto simp: local_download_run)
  show "\<exists>fs'. local_delete P (stored_name f) fs = (Inr (), fs') \<and> local_ok P fs' \<and>
    (\<exists>e. fst (local_download P (stored_name f) fs') = Inl e) \<and>
    (\<forall>g. local_accepts P fs g \<longrightarrow> local_accepts P fs' g \<and>
      (stored_name g \<noteq> stored_name f \<longrightarrow> fst (local_download P (stored_name g) fs') = fst (local_download P (stored_name g) fs)))"
    using local_delete_run [OF ok n] put [of None] n(1) other [OF ok n(2), of None]
    by (auto simp: local_download_run)
qed

text \<open>Building the backend leaves its directory in place.\<close>

lemma mkdir_all_keeps: "mkdir_all N cur ss = (r, N') \<Longrightarrow> N t \<noteq> None \<Longrightarrow> N' t = N t"
proof (induction ss arbitrary: N cur)
  case (Cons s ss)
  then show ?case by (fastforce split: if_splits)
qed (auto split: if_splits)

lemma mkdir_all_walk:
  "mkdir_all N cur ss = (Inr (), N') \<Longrightarrow> \<exists>d. walk N' cur ss = Some d \<and> N' d = Some Dir"
proof (induction ss arbitrary: N cur)
  case (Cons s ss)
  have "N cur = Some Dir" using Cons.prems by (auto split: if_splits)
  then have "N' cur = Some Dir" using mkdir_all_keeps [OF Cons.prems, of cur] by simp
  then show ?case using Cons by (auto split: if_splits)
qed (auto split: if_splits)

lemma local_init_ok: "local_init P fs = (Inr (), fs') \<Longrightarrow> local_ok P fs'"
  using mkdir_all_walk [of "fs_nodes fs" "path_start fs (storage_root P)" "pp_parts (storage_root P)"]
  by (auto simp: local_init_def mkdir_p_def local_ok_def node_at_def resolve_def path_start_def split: if_splits prod.splits)

text \<open>A bucket provides it for every key, when its client stores objects.\<close>

definition s3_laws :: "'s s3_client \<Rightarrow> bool" where
  "s3_laws C \<longleftrightarrow> (\<forall>k v s. \<exists>s'. s3_upload_fileobj C k v s = (Inr (), s') \<and> fst (s3_get_object C k s') = Inr v \<and>
       (\<forall>j. j \<noteq> k \<longrightarrow> fst (s3_get_object C j s') = fst (s3_get_object C j s))) \<and>
     (\<forall>k s. \<exists>s'. s3_delete_object C k s = (Inr (), s') \<and> (\<exists>e. fst (s3_get_object C k s') = Inl e) \<and>
       (\<forall>j. j \<noteq> k \<longrightarrow> fst (s3_get_object C j s') = fst (s3_get_object C j s)))"

lemma s3_contract:
  assumes "s3_laws C"
  shows "storage_contract (\<lambda>_. True) (\<lambda>_ _. True) (\<lambda>f. f) (s3_upload C) (s3_download C) (s3_delete C)"
proof unfold_locales
  fix b :: 'a and f d :: string
  obtain s' where "s3_upload_fileobj C f d b = (Inr (), s')" "fst (s3_get_object C f s') = Inr d"
    "\<forall>j. j \<noteq> f \<longrightarrow> fst (s3_get_object C j s') = fst (s3_get_object C j b)"
    using assms unfolding s3_laws_def by metis
  then show "\<exists>b'. s3_upload C d f b = (Inr f, b') \<and> True \<and> fst (s3_download C f b') = Inr d \<and>
    (\<forall>g. True \<longrightarrow> True \<and> (g \<noteq> f \<longrightarrow> fst (s3_download C g b') = fst (s3_download C g b)))"
    by (simp add: s3_upload_def s3_download_def)
  show "\<exists>b'. s3_delete C f b = (Inr (), b') \<and> True \<and> (\<exists>e. fst (s3_download C f b') = Inl e) \<and>
    (\<forall>g. True \<longrightarrow> True \<and> (g \<noteq> f \<longrightarrow> fst (s3_download C g b') = fst (s3_download C g b)))"
    using assms unfolding s3_laws_def s3_delete_def s3_download_def by simp
qed

section \<open>The chunked upload\<close>

lemma copy_chunks_all: "0 < n \<Longrightarrow> copy_chunks n rest written = written @ rest"
proof (induction n rest written rule: copy_chunks.induct)
  case (1 n rest written)
  show ?case
  proof (cases "rest = []")
    case False
    then have "take n rest \<noteq> []" using 1(2) by (cases rest; cases n) auto
    then have "copy_chunks n rest written = copy_chunks n (drop n rest) (written @ take n rest)"
      by (subst copy_chunks.simps) (simp add: Let_def)
    also have "\<dots> = written @ take n rest @ drop n rest"
      using 1(1) [OF refl \<open>take n rest \<noteq> []\<close> 1(2)] by simp
    finally show ?thesis by simp
  qed (simp add: copy_chunks.simps)
qed

lemma local_upload_same: "local_upload P content f = local_upload_bytes P content f"
  by (simp add: local_upload_def local_upload_bytes_def copy_chunks_all)

section \<open>What the operations reach\<close>

text \<open>A well-formed tree: the root is a directory, every other node has a plain name and lies in a directory.\<close>

definition fs_wf :: "file_system \<Rightarrow> bool" where
  "fs_wf fs \<longleftrightarrow> fs_nodes fs [] = Some Dir \<and>
     (\<forall>t. t \<noteq> [] \<and> fs_nodes fs t \<noteq> None \<longrightarrow> fs_nodes fs (butlast t) = Some Dir \<and> plain_name (last t))"

lemma walk_location:
  assumes "fs_wf fs" "fs_nodes fs t \<noteq> None"
  shows "walk (fs_nodes fs) [] t = Some t \<and> list_all plain_name t"
  using assms(2)
proof (induction t rule: rev_induct)
  case (snoc x xs)
  have "fs_nodes fs xs = Some Dir" "plain_name x"
    using assms(1) snoc.prems by (auto simp: fs_wf_def)
  moreover from this have "walk (fs_nodes fs) [] xs = Some xs \<and> list_all plain_name xs" using snoc.IH by simp
  moreover from \<open>plain_name x\<close> have "x \<noteq> ''..''" by (simp add: plain_name_def)
  ultimately show ?case using snoc.prems by (auto simp: walk_append)
qed simp

lemma parse_absolute:
  assumes "list_all plain_name t"
  shows "parse_path (''/'' @ py_join ''/'' t) = \<lparr>pp_absolute = True, pp_parts = t\<rparr>"
proof (cases "t = []")
  case False
  have "py_split (CHR ''/'') (py_join ''/'' t) = t"
    using assms False by (intro py_split_join) (auto simp: list_all_iff plain_name_def)
  moreover have "filter (\<lambda>p. p \<noteq> [] \<and> p \<noteq> ''.'') t = t"
    using assms by (auto simp: filter_id_conv list_all_iff plain_name_def)
  ultimately show ?thesis by (simp add: parse_path_def)
qed (simp add: parse_path_def)

end
