(* ===== verification/Files.thy ===== *)
theory Files
  imports FileStorage Crud
begin

text \<open>
  \<^verbatim>\<open>app/crud/file.py\<close>, \<^verbatim>\<open>app/api/endpoints/files.py\<close> and \<^verbatim>\<open>app/services/thumbnail.py\<close>: uploading, listing,
  downloading and deleting files, on the database and on the state of a storage backend side by side.

  The backend is the argument that the dependency \<open>get_storage\<close> gives; Pillow, which makes a thumbnail of an
  image, and SHA-256 are parameters. A handler takes the current user that its dependency found.
\<close>

section \<open>The table\<close>

definition file_model :: "stored_file model" where
  "file_model = \<lparr>m_tbl = files, m_upd = files_update, m_rid = fil_id, m_set_id = (\<lambda>i r. r\<lparr>fil_id := i\<rparr>), m_soft = None\<rparr>"

interpretation file_crud: crud_model file_model
  by unfold_locales (simp_all add: file_model_def)

text \<open>The dictionary of thumbnail paths, as \<open>get\<close> reads it.\<close>

type_synonym thumb_paths = "string \<rightharpoonup> string"

text \<open>The declared lengths of the columns; the database refuses a longer value at the flush.\<close>

definition file_fits :: "stored_file \<Rightarrow> bool" where
  "file_fits r \<longleftrightarrow> length (fil_filename r) \<le> 255 \<and> length (fil_original_filename r) \<le> 255 \<and>
     length (fil_mime_type r) \<le> 127 \<and> length (fil_storage_path r) \<le> 512 \<and> length (fil_checksum_sha256 r) \<le> 64 \<and>
     list_all (\<lambda>p. case p of None \<Rightarrow> True | Some s \<Rightarrow> length s \<le> 512)
       [fil_thumbnail_path_small r, fil_thumbnail_path_medium r, fil_thumbnail_path_large r]"

definition create_from_upload ::
  "datetime \<Rightarrow> string \<Rightarrow> string \<Rightarrow> string \<Rightarrow> int \<Rightarrow> string \<Rightarrow> string \<Rightarrow> int option \<Rightarrow> thumb_paths option
    \<Rightarrow> ('r, stored_file) app" where
  "create_from_upload now filename original_filename mime_type size_bytes checksum storage_path uploader_id thumbnail_paths =
     (let thumbs = (case thumbnail_paths of None \<Rightarrow> Map.empty | Some t \<Rightarrow> t);
          db_obj = \<lparr>fil_id = 0, fil_filename = filename, fil_original_filename = original_filename,
             fil_mime_type = mime_type, fil_size_bytes = size_bytes, fil_storage_path = storage_path,
             fil_checksum_sha256 = checksum, fil_uploader_id = uploader_id,
             fil_thumbnail_path_small = thumbs ''small'', fil_thumbnail_path_medium = thumbs ''medium'',
             fil_thumbnail_path_large = thumbs ''large'', fil_metadata = None, fil_created_at = now\<rparr>
      in thenM (guardM (file_fits db_obj) DataError)
          (bindM (add_file db_obj) (\<lambda>obj. thenM commit (returnM obj))))"

definition get_by_checksum :: "string \<Rightarrow> ('r, stored_file option) app" where
  "get_by_checksum checksum = select_one files (\<lambda>f. fil_checksum_sha256 f = checksum)"

definition get_multi_by_uploader :: "int \<Rightarrow> int \<Rightarrow> int \<Rightarrow> ('r, stored_file list \<times> int) app" where
  "get_multi_by_uploader uploader_id page per_page =
     bindM (select_all files (\<lambda>f. fil_uploader_id f = Some uploader_id)) (\<lambda>rs.
       returnM (limit_rows per_page (offset_rows ((page - 1) * per_page) (order_desc fil_created_at rs)), int (length rs)))"

record file_response =
  frs_file :: stored_file
  frs_url :: "string option"
  frs_thumbnail_urls :: "(string \<times> string option) list option"

text \<open>\<open>if path\<close> is false for a missing and for an empty path.\<close>

definition thumb_url :: "'b storage_backend \<Rightarrow> string option \<Rightarrow> string option" where
  "thumb_url B path = (case path of None \<Rightarrow> None | Some p \<Rightarrow> if p = [] then None else sb_get_url B p)"

definition to_response :: "stored_file \<Rightarrow> 'b storage_backend \<Rightarrow> file_response" where
  "to_response f B =
     (let urls = [(''small'', thumb_url B (fil_thumbnail_path_small f)),
                  (''medium'', thumb_url B (fil_thumbnail_path_medium f)),
                  (''large'', thumb_url B (fil_thumbnail_path_large f))]
      in \<lparr>frs_file = f\<lparr>fil_metadata := None\<rparr>, frs_url = sb_get_url B (fil_storage_path f),
          frs_thumbnail_urls =
            (if list_ex (\<lambda>(_, u). case u of None \<Rightarrow> False | Some s \<Rightarrow> s \<noteq> []) urls then Some urls else None)\<rparr>)"

section \<open>Thumbnails\<close>

text \<open>Pillow: an image, a size, a format and a quality give the bytes of the thumbnail, or an exception.\<close>

type_synonym pillow = "string \<Rightarrow> int \<times> int \<Rightarrow> string \<Rightarrow> int \<Rightarrow> exn + string"

definition is_image_mime :: "string \<Rightarrow> bool" where
  "is_image_mime mime_type = list_ex (\<lambda>p. take (length p) mime_type = p) [''image/'']"

definition generate_thumbnail ::
  "platform_settings \<Rightarrow> pillow \<Rightarrow> string \<Rightarrow> int \<times> int \<Rightarrow> string option \<Rightarrow> int option \<Rightarrow> exn + string" where
  "generate_thumbnail P pil image_bytes sz fmt quality =
     pil image_bytes sz (case fmt of Some f \<Rightarrow> if f = [] then THUMBNAIL_FORMAT P else f | None \<Rightarrow> THUMBNAIL_FORMAT P)
       (case quality of Some q \<Rightarrow> if q = 0 then THUMBNAIL_QUALITY P else q | None \<Rightarrow> THUMBNAIL_QUALITY P)"

fun generate_each :: "(int \<times> int \<Rightarrow> exn + string) \<Rightarrow> (string \<times> int \<times> int) list \<Rightarrow> exn + (string \<times> string) list" where
  "generate_each mk [] = Inr []"
| "generate_each mk ((name, sz) # rest) =
     (case mk sz of Inl e \<Rightarrow> Inl e
      | Inr bytes \<Rightarrow> (case generate_each mk rest of Inl e \<Rightarrow> Inl e | Inr ts \<Rightarrow> Inr ((name, bytes) # ts)))"

definition generate_all_thumbnails :: "platform_settings \<Rightarrow> pillow \<Rightarrow> string \<Rightarrow> exn + (string \<times> string) list" where
  "generate_all_thumbnails P pil image_bytes =
     generate_each (\<lambda>sz. pil image_bytes sz (THUMBNAIL_FORMAT P) (THUMBNAIL_QUALITY P)) (THUMBNAIL_SIZES P)"

text \<open>\<open>s.rsplit(c, 1)[-1]\<close> and \<open>s.rsplit(c, 1)[0]\<close>\<close>

definition rsplit_tail :: "char \<Rightarrow> string \<Rightarrow> string" where
  "rsplit_tail c s = last (py_split c s)"

definition rsplit_head :: "char \<Rightarrow> string \<Rightarrow> string" where
  "rsplit_head c s = (if c \<in> set s then py_join [c] (butlast (py_split c s)) else s)"

definition thumb_filename :: "platform_settings \<Rightarrow> string \<Rightarrow> string \<Rightarrow> string" where
  "thumb_filename P storage_path size_name =
     (let stem = rsplit_head (CHR ''.'') (rsplit_tail (CHR ''/'') storage_path)
      in ''thumbnails/'' @ stem @ ''_'' @ size_name @ ''.'' @ map lower_char (THUMBNAIL_FORMAT P))"

fun store_thumbnails ::
  "'b storage_backend \<Rightarrow> platform_settings \<Rightarrow> string \<Rightarrow> (string \<times> string) list \<Rightarrow> thumb_paths \<Rightarrow> ('b, thumb_paths) io" where
  "store_thumbnails B P storage_path [] paths = returnM paths"
| "store_thumbnails B P storage_path ((size_name, bytes) # rest) paths =
     bindM (sb_upload_bytes B bytes (thumb_filename P storage_path size_name)) (\<lambda>p.
       store_thumbnails B P storage_path rest (paths(size_name \<mapsto> p)))"

definition make_thumbnails ::
  "'b storage_backend \<Rightarrow> platform_settings \<Rightarrow> pillow \<Rightarrow> string \<Rightarrow> string \<Rightarrow> string \<Rightarrow> ('b, thumb_paths) io" where
  "make_thumbnails B P pil file_bytes mime_type storage_path =
     (if is_image_mime mime_type \<and> THUMBNAIL_SIZES P \<noteq> []
      then bindM (liftM (generate_all_thumbnails P pil file_bytes)) (\<lambda>thumbs.
             store_thumbnails B P storage_path thumbs Map.empty)
      else returnM Map.empty)"

section \<open>Endpoints\<close>

record upload =
  upl_filename :: "string option"
  upl_content_type :: "string option"
  upl_content :: string

definition MAX_FILE_SIZE_MB :: int where
  "MAX_FILE_SIZE_MB = 50"

definition upload_file ::
  "'b storage_backend \<Rightarrow> platform_settings \<Rightarrow> pillow \<Rightarrow> (string \<Rightarrow> string) \<Rightarrow> datetime \<Rightarrow> user \<Rightarrow> upload
    \<Rightarrow> ('r world \<times> 'b, file_response) io" where
  "upload_file B P pil sha256 now current_user f =
     (case upl_filename f of
        None \<Rightarrow> raiseM (HTTPException 400 ''No file provided'')
      | Some filename \<Rightarrow>
          thenM (guardM (filename \<noteq> []) (HTTPException 400 ''No file provided''))
          (thenM (guardM (\<not> int (length (upl_content f)) > MAX_FILE_SIZE_MB * 1024 * 1024)
                   (HTTPException 400 ''File exceeds 50MB limit''))
           (let mime_type = (case upl_content_type f of
                   Some m \<Rightarrow> if m = [] then ''application/octet-stream'' else m
                 | None \<Rightarrow> ''application/octet-stream'')
            in bindM (via_snd (sb_upload_bytes B (upl_content f) filename)) (\<lambda>path.
                 bindM (via_snd (make_thumbnails B P pil (upl_content f) mime_type path)) (\<lambda>thumbnail_paths.
                   bindM (via_fst (create_from_upload now (last (py_split (CHR ''/'') path)) filename mime_type
                       (int (length (upl_content f))) (sha256 (upl_content f)) path (Some (user_id current_user))
                       (Some thumbnail_paths)))
                     (\<lambda>file_obj. returnM (to_response file_obj B)))))))"

text \<open>
  \<^verbatim>\<open>upload_file_stream\<close>: the server-sent events, a progress as the percentage that is printed with one digit.
\<close>

datatype upload_event = Start_event string | Progress_event rat | Complete_event string "string option"

fun progress_events :: "rat \<Rightarrow> rat \<Rightarrow> string list \<Rightarrow> upload_event list" where
  "progress_events total_size uploaded [] = []"
| "progress_events total_size uploaded (chunk # chunks) =
     (let uploaded = uploaded + of_nat (length chunk);
          percentage = (if total_size \<noteq> 0 then fl (fl (uploaded / total_size) * 100) else 0)
      in Progress_event percentage # progress_events total_size uploaded chunks)"

function read_chunks :: "nat \<Rightarrow> string \<Rightarrow> string list" where
  "read_chunks n rest = (let chunk = take n rest in if chunk = [] then [] else chunk # read_chunks n (drop n rest))"
  by auto
termination
  by (relation "measure (\<lambda>(n, rest). length rest)") auto

declare read_chunks.simps [simp del]

definition stream_file_upload ::
  "'b storage_backend \<Rightarrow> int option \<Rightarrow> string \<Rightarrow> string \<Rightarrow> ('b, upload_event list) io" where
  "stream_file_upload B file_size content filename =
     (let total_size = (case file_size of None \<Rightarrow> 0 | Some n \<Rightarrow> of_int n);
          chunks = read_chunks (1024 * 256) content
      in bindM (sb_upload_bytes B (concat chunks) filename) (\<lambda>path.
           returnM (Start_event filename # progress_events total_size 0 chunks @ [Complete_event path (sb_get_url B path)])))"

definition upload_file_stream ::
  "'b storage_backend \<Rightarrow> int option \<Rightarrow> user \<Rightarrow> upload \<Rightarrow> ('r world \<times> 'b, upload_event list) io" where
  "upload_file_stream B file_size current_user f =
     via_snd (stream_file_upload B file_size (upl_content f)
       (case upl_filename f of Some n \<Rightarrow> if n = [] then ''unnamed'' else n | None \<Rightarrow> ''unnamed''))"

definition list_files ::
  "'b storage_backend \<Rightarrow> user \<Rightarrow> int \<Rightarrow> int \<Rightarrow> ('r world \<times> 'b, file_response list \<times> int) io" where
  "list_files B current_user page per_page =
     via_fst (bindM (get_multi_by_uploader (user_id current_user) page per_page) (\<lambda>(items, n).
       returnM (map (\<lambda>f. to_response f B) items, n)))"

definition get_file :: "'b storage_backend \<Rightarrow> user \<Rightarrow> int \<Rightarrow> ('r world \<times> 'b, file_response) io" where
  "get_file B current_user file_id =
     via_fst (bindM (crud_get file_model file_id False) (\<lambda>f. case f of
         None \<Rightarrow> raiseM (HTTPException 404 ''File not found'')
       | Some file_obj \<Rightarrow> returnM (to_response file_obj B)))"

definition delete_path :: "'b storage_backend \<Rightarrow> string option \<Rightarrow> ('r world \<times> 'b, unit) io" where
  "delete_path B path = (case path of None \<Rightarrow> returnM () | Some p \<Rightarrow> if p = [] then returnM () else via_snd (sb_delete B p))"

definition delete_file :: "'b storage_backend \<Rightarrow> datetime \<Rightarrow> user \<Rightarrow> int \<Rightarrow> ('r world \<times> 'b, unit) io" where
  "delete_file B now current_user file_id =
     bindM (via_fst (crud_get file_model file_id False)) (\<lambda>f. case f of
         None \<Rightarrow> raiseM (HTTPException 404 ''File not found'')
       | Some file_obj \<Rightarrow>
           thenM (via_snd (sb_delete B (fil_storage_path file_obj)))
           (thenM (delete_path B (fil_thumbnail_path_small file_obj))
           (thenM (delete_path B (fil_thumbnail_path_medium file_obj))
           (thenM (delete_path B (fil_thumbnail_path_large file_obj))
           (thenM (via_fst (crud_delete file_model now file_id)) (returnM ()))))))"

definition download_file :: "'b storage_backend \<Rightarrow> user \<Rightarrow> string \<Rightarrow> ('r world \<times> 'b, string) io" where
  "download_file B current_user filename =
     tryM (via_snd (sb_download B filename)) (\<lambda>e. case e of
         FileNotFoundError _ \<Rightarrow> raiseM (HTTPException 404 ''File not found'')
       | _ \<Rightarrow> raiseM e)"

section \<open>Streams\<close>

lemma concat_read_chunks: "0 < n \<Longrightarrow> concat (read_chunks n rest) = rest"
proof (induction n rest rule: read_chunks.induct)
  case (1 n rest)
  show ?case
  proof (cases "rest = []")
    case False
    then have "take n rest \<noteq> []" using 1(2) by (cases rest; cases n) auto
    then show ?thesis using 1(1) [OF refl _ 1(2)] by (subst read_chunks.simps) (simp add: Let_def)
  qed (simp add: read_chunks.simps)
qed

text \<open>The stream stores the same content under the same path as a plain upload.\<close>

lemma stream_stores_upload:
  "snd (stream_file_upload B n content filename b) = snd (sb_upload_bytes B content filename b)"
  by (cases "sb_upload_bytes B content filename b"; cases "fst (sb_upload_bytes B content filename b)")
    (auto simp: stream_file_upload_def concat_read_chunks)

section \<open>The file row\<close>

lemma create_from_upload_run:
  fixes w :: "'r world"
  assumes "db_unique (w_db w)" "\<And>f. f \<in> set (t_rows (files (w_db w))) \<Longrightarrow> fil_storage_path f \<noteq> path"
    and "length fname \<le> 255" "length orig \<le> 255" "length mime \<le> 127" "length path \<le> 512" "length checksum \<le> 64"
  shows "\<exists>f w'. create_from_upload now fname orig mime sz checksum path uploader (Some Map.empty) w = (Inr f, w') \<and>
    fil_storage_path f = path \<and> fil_checksum_sha256 f = checksum \<and> fil_size_bytes f = sz \<and> fil_uploader_id f = uploader \<and>
    f \<in> set (t_rows (files (w_committed w'))) \<and> w_db w' = w_committed w'"
proof -
  let ?f = "\<lparr>fil_id = 0, fil_filename = fname, fil_original_filename = orig, fil_mime_type = mime,
    fil_size_bytes = sz, fil_storage_path = path, fil_checksum_sha256 = checksum, fil_uploader_id = uploader,
    fil_thumbnail_path_small = None, fil_thumbnail_path_medium = None, fil_thumbnail_path_large = None,
    fil_metadata = None, fil_created_at = now\<rparr>"
  let ?d = "files_update (insert_row (\<lambda>i r. r\<lparr>fil_id := i\<rparr>) ?f) (w_db w)"
  have "db_unique ?d"
    using assms(1,2) by (auto simp: db_unique_def unique_on_insert next_row_def)
  then show ?thesis
    using assms(3-7) by (auto simp: create_from_upload_def file_fits_def Let_def commit_run next_row_def insert_row_def)
qed

lemma create_from_upload_clash:
  assumes "f \<in> set (t_rows (files (w_db w)))" "fil_storage_path f = path"
    and "length fname \<le> 255" "length orig \<le> 255" "length mime \<le> 127" "length path \<le> 512" "length checksum \<le> 64"
  shows "\<exists>w'. create_from_upload now fname orig mime sz checksum path uploader (Some Map.empty) w = (Inl IntegrityError, w') \<and>
    w_committed w' = w_committed w"
proof -
  have "\<not> unique_on (\<lambda>f. Some (fil_storage_path f)) (insert_row (\<lambda>i r. r\<lparr>fil_id := i\<rparr>) g (files (w_db w)))"
    if "fil_storage_path g = path" for g
    using assms(1,2) that by (auto simp: unique_on_insert next_row_def)
  then have "\<not> db_unique (files_update (insert_row (\<lambda>i r. r\<lparr>fil_id := i\<rparr>) g) (w_db w))" if "fil_storage_path g = path" for g
    using that by (simp add: db_unique_def)
  then show ?thesis
    using assms(3-7) by (simp add: create_from_upload_def file_fits_def Let_def thenM_def bindM_def guardM_def commit_run)
qed

text \<open>
  An upload that is no image, whose content, name and type are within the limits of the endpoint and of the columns, under a
  name that the local disk accepts.
\<close>

definition acceptable :: "platform_settings \<Rightarrow> file_system \<Rightarrow> upload \<Rightarrow> string \<Rightarrow> bool" where
  "acceptable P fs f filename \<longleftrightarrow> upl_filename f = Some filename \<and> filename \<noteq> [] \<and>
     int (length (upl_content f)) \<le> MAX_FILE_SIZE_MB * 1024 * 1024 \<and>
     (case upl_content_type f of None \<Rightarrow> True | Some m \<Rightarrow> \<not> is_image_mime m \<and> length m \<le> 127) \<and>
     length filename \<le> 255 \<and> length (stored_name filename) \<le> 255 \<and>
     local_ok P fs \<and> local_accepts P fs filename"

lemma upload_file_run:
  assumes "acceptable P fs f filename"
  defines "fs' \<equiv> put_local P (stored_name filename) (Some (Regular (upl_content f))) fs"
  defines "mime \<equiv> (case upl_content_type f of
    Some m \<Rightarrow> if m = [] then ''application/octet-stream'' else m | None \<Rightarrow> ''application/octet-stream'')"
  shows "upload_file (local_storage P) P pil sha256 now u f (w, fs) =
    via_fst (bindM (create_from_upload now (last (py_split (CHR ''/'') (stored_name filename))) filename mime
      (int (length (upl_content f))) (sha256 (upl_content f)) (stored_name filename) (Some (user_id u)) (Some Map.empty))
      (\<lambda>file_obj. returnM (to_response file_obj (local_storage P)))) (w, fs')"
proof -
  have "\<not> is_image_mime mime"
    using assms(1) by (auto simp: acceptable_def mime_def is_image_mime_def split: option.splits)
  then have thumbs: "make_thumbnails (local_storage P) P pil (upl_content f) mime p = returnM Map.empty" for p
    by (simp add: make_thumbnails_def)
  have up: "local_upload_bytes P (upl_content f) filename fs = (Inr (stored_name filename), fs')"
    unfolding fs'_def using assms(1) by (intro local_upload_bytes_run) (simp_all add: acceptable_def)
  have lift: "via_fst (bindM m (\<lambda>x. returnM (g x))) (a, b) = bindM (via_fst m) (\<lambda>x. returnM (g x)) (a, b)"
    for m :: "('a, 'b) io" and g :: "'b \<Rightarrow> 'd" and a and b :: 'e
    by (cases "m a"; cases "fst (m a)") (auto simp: bindM_def split: prod.splits sum.splits)
  show ?thesis
    unfolding lift unfolding upload_file_def
    using assms(1) up thumbs
    by (simp add: acceptable_def Let_def mime_def [symmetric] local_storage_def thenM_def bindM_def split: prod.splits sum.splits)
qed

lemma acceptable_fits:
  assumes "acceptable P fs f filename"
  shows "last (py_split (CHR ''/'') (stored_name filename)) = stored_name filename" "length filename \<le> 255"
    "length (stored_name filename) \<le> 255" "length (stored_name filename) \<le> 512"
    "length (case upl_content_type f of Some m \<Rightarrow> if m = [] then ''application/octet-stream'' else m
       | None \<Rightarrow> ''application/octet-stream'') \<le> 127"
  using assms by (auto simp: acceptable_def local_accepts_def plain_name_def py_split_no_sep split: option.split)

lemma stored_name_free:
  assumes "plain_name n"
  shows "stored_name n = n"
  using assms path_name_single [of n] by (simp add: stored_name_def plain_name_def)

lemma download_file_run:
  "download_file (local_storage P) u n (w, fs) =
    (case local_download P n fs of
       (Inr c, fs') \<Rightarrow> (Inr c, (w, fs'))
     | (Inl e, fs') \<Rightarrow> (Inl (case e of FileNotFoundError _ \<Rightarrow> HTTPException 404 ''File not found'' | _ \<Rightarrow> e), (w, fs')))"
  by (auto simp: download_file_def tryM_def local_storage_def split: prod.splits sum.splits exn.splits)

section \<open>A small installation\<close>

definition sample_fs :: file_system where
  "sample_fs = \<lparr>fs_cwd = [''srv'', ''app''],
     fs_nodes = [[] \<mapsto> Dir, [''srv''] \<mapsto> Dir, [''srv'', ''app''] \<mapsto> Dir, [''srv'', ''app'', ''uploads''] \<mapsto> Dir,
       [''etc''] \<mapsto> Dir, [''etc'', ''passwd''] \<mapsto> Regular ''root:x:0'']\<rparr>"

definition sample_upload :: upload where
  "sample_upload = \<lparr>upl_filename = Some ''../notes.txt'', upl_content_type = Some ''text/plain'', upl_content = ''hello''\<rparr>"

lemma sample_root: "storage_root default_platform = \<lparr>pp_absolute = False, pp_parts = [''uploads'']\<rparr>"
  by (simp add: storage_root_def default_platform_def parse_path_def)

lemma sample_fs_ok:
  "local_ok default_platform sample_fs" "base_dir default_platform sample_fs = [''srv'', ''app'', ''uploads'']" "fs_wf sample_fs"
proof -
  show "local_ok default_platform sample_fs" "base_dir default_platform sample_fs = [''srv'', ''app'', ''uploads'']"
    by (simp_all add: local_ok_def base_dir_def node_at_def resolve_def sample_root has_nul_def path_start_def sample_fs_def)
  show "fs_wf sample_fs"
    by (auto simp: fs_wf_def sample_fs_def plain_name_def split: if_splits)
qed

lemma sample_stored: "stored_name ''../notes.txt'' = ''notes.txt''"
  by (simp add: stored_name_def path_name_def parse_path_def)

lemma sample_acceptable: "acceptable default_platform sample_fs sample_upload ''../notes.txt''"
  by (simp add: acceptable_def sample_upload_def MAX_FILE_SIZE_MB_def is_image_mime_def sample_fs_ok local_accepts_def
      sample_stored plain_name_def) (simp add: sample_fs_def)

lemma sample_files: "files (w_db sample_world) = empty_table" "db_unique (w_db sample_world)"
  using sample_db_ok by (simp_all add: sample_defs)

section \<open>Properties\<close>

text \<open>C33: the upload of a file that is no image, with name, type and content within the limits and under a name that the
  storage accepts and no row has, is committed with the checksum and the size of its content under a path; downloading
  that path, as any user, returns the content; every other name that the storage accepts keeps its content. (The thumbnails of
  an image may overwrite other files.) Hypothesis: a digest has at most 64 digits.\<close>

theorem upload_download_roundtrip:
  assumes "acceptable P fs f filename" "db_unique (w_db w)"
    and "\<forall>r \<in> set (t_rows (files (w_db w))). fil_storage_path r \<noteq> stored_name filename"
    and "length (sha256 (upl_content f)) \<le> 64"
  shows "\<exists>resp w' fs'. upload_file (local_storage P) P pil sha256 now u f (w, fs) = (Inr resp, (w', fs')) \<and>
    (\<exists>r \<in> set (t_rows (files (w_committed w'))). fil_storage_path r = stored_name filename \<and>
       fil_checksum_sha256 r = sha256 (upl_content f) \<and> fil_size_bytes r = int (length (upl_content f)) \<and>
       fil_uploader_id r = Some (user_id u)) \<and>
    download_file (local_storage P) v (stored_name filename) (w', fs') = (Inr (upl_content f), (w', fs')) \<and>
    (\<forall>g. local_accepts P fs g \<and> stored_name g \<noteq> stored_name filename \<longrightarrow>
       fst (local_download P (stored_name g) fs') = fst (local_download P (stored_name g) fs))"
proof -
  have ok: "local_ok P fs" "local_accepts P fs filename" using assms(1) by (simp_all add: acceptable_def)
  note up = local_upload_bytes_run [OF ok, of "upl_content f"]
  define fs' where "fs' = put_local P (stored_name filename) (Some (Regular (upl_content f))) fs"
  have fs': "fst (local_download P (stored_name filename) fs') = Inr (upl_content f)"
    "\<forall>g. local_accepts P fs g \<and> stored_name g \<noteq> stored_name filename \<longrightarrow>
       fst (local_download P (stored_name g) fs') = fst (local_download P (stored_name g) fs)"
    using local.up_run [OF ok, of "upl_content f"] up by (auto simp: fs'_def)
  have "snd (local_download P (stored_name filename) fs') = fs'"
    by (auto simp: local_download_def read_bytes_def Let_def split: option.splits node.splits)
  then have down: "download_file (local_storage P) v (stored_name filename) (w', fs') = (Inr (upl_content f), (w', fs'))" for w'
    using fs'(1) by (cases "local_download P (stored_name filename) fs'") (simp add: download_file_run)
  let ?mime = "case upl_content_type f of Some m \<Rightarrow> if m = [] then ''application/octet-stream'' else m
    | None \<Rightarrow> ''application/octet-stream''"
  have fits: "length (last (py_split (CHR ''/'') (stored_name filename))) \<le> 255"
    using acceptable_fits(1,3) [OF assms(1)] by simp
  have free: "r \<in> set (t_rows (files (w_db w))) \<Longrightarrow> fil_storage_path r \<noteq> stored_name filename" for r
    using assms(3) by blast
  obtain r w' where r: "create_from_upload now (last (py_split (CHR ''/'') (stored_name filename))) filename ?mime
      (int (length (upl_content f))) (sha256 (upl_content f)) (stored_name filename) (Some (user_id u)) (Some Map.empty) w =
      (Inr r, w')"
    "fil_storage_path r = stored_name filename" "fil_checksum_sha256 r = sha256 (upl_content f)"
    "fil_size_bytes r = int (length (upl_content f))" "fil_uploader_id r = Some (user_id u)"
    "r \<in> set (t_rows (files (w_committed w')))"
    using create_from_upload_run [OF assms(2) free fits acceptable_fits(2) [OF assms(1)] acceptable_fits(5) [OF assms(1)]
        acceptable_fits(4) [OF assms(1)] assms(4)] by blast
  have "upload_file (local_storage P) P pil sha256 now u f (w, fs) = (Inr (to_response r (local_storage P)), (w', fs'))"
    unfolding upload_file_run [OF assms(1)] using r(1) by (simp add: bindM_def fs'_def)
  with r(2-6) fs'(2) down show ?thesis by blast
qed

theorem upload_download_roundtrip_witness:
  "\<exists>resp w' fs'. upload_file (local_storage default_platform) default_platform (\<lambda>_ _ _ _. Inl (ValueError [])) rev 0 sample_user
      sample_upload (sample_world, sample_fs) = (Inr resp, (w', fs')) \<and>
    download_file (local_storage default_platform) sample_user ''notes.txt'' (w', fs') = (Inr ''hello'', (w', fs'))"
  using upload_download_roundtrip [OF sample_acceptable sample_files(2), where pil = "\<lambda>_ _ _ _. Inl (ValueError [])" and ?sha256.0 = rev
      and now = 0 and u = sample_user and v = sample_user]
  by (auto simp: sample_files sample_stored empty_table_def sample_upload_def)

text \<open>What an upload of bytes does to a storage directory: it fails and changes nothing, or it stores them under the name.\<close>

lemma upload_bytes_cases:
  assumes "local_ok P fs"
  obtains e where "local_upload_bytes P data filename fs = (Inl e, fs)"
  | "local_accepts P fs filename"
    "local_upload_bytes P data filename fs = (Inr (stored_name filename), put_local P (stored_name filename) (Some (Regular data)) fs)"
proof (cases "local_accepts P fs filename")
  case True
  then show thesis using local_upload_bytes_run [OF assms True] that(2) by blast
next
  case not_accepted: False
  let ?n = "stored_name filename"
  have clean: "CHR ''/'' \<notin> set ?n" "?n \<noteq> ''.''" using path_name_clean by (simp_all add: stored_name_def)
  have "\<exists>e. write_bytes (join_path (storage_root P) (parse_path ?n)) data fs = (Inl e, fs)"
  proof (cases "?n = []")
    case True
    have root: "walk (fs_nodes fs) (path_start fs (storage_root P)) (butlast xs @ [last xs]) = Some (base_dir P fs)"
      if "pp_parts (storage_root P) = xs" "xs \<noteq> []" for xs
      using local_okD [OF assms] that by (auto simp: resolve_def split: if_splits)
    have "walk (fs_nodes fs) (path_start fs (storage_root P)) (butlast xs) = Some d \<Longrightarrow> last xs \<noteq> ''..'' \<Longrightarrow>
        fs_nodes fs (d @ [last xs]) = Some Dir"
      if "pp_parts (storage_root P) = xs" "xs \<noteq> []" for xs d
      using root [OF that] local_okD(2) [OF assms] by (auto simp: walk_append split: if_splits)
    then show ?thesis
      using True by (auto simp: write_bytes_def join_path_def parse_path_def Let_def path_start_def split: option.splits)
  next
    case False
    note p = parse_single [OF clean(1) False clean(2)]
    consider "?n = ''..''" | "CHR 0x00 \<in> set ?n" | "plain_name ?n" using clean False by (auto simp: plain_name_def)
    then show ?thesis
    proof cases
      case 3
      then have "fs_nodes fs (base_dir P fs @ [?n]) = Some Dir" using not_accepted by (simp add: local_accepts_def)
      then show ?thesis
        using local_okD [OF assms]
        by (auto simp: write_bytes_def p join_path_def resolve_def path_start_def Let_def split: if_splits)
    next
      case 1
      have "parse_path ''..'' = \<lparr>pp_absolute = False, pp_parts = [''..'']\<rparr>" by (simp add: parse_path_def)
      then show ?thesis using 1 by (simp add: write_bytes_def join_path_def)
    qed (simp add: write_bytes_def p join_path_def has_nul_def)
  qed
  then show thesis using that(1) by (force simp: local_upload_bytes_def stored_name_def Let_def)
qed

text \<open>A change of the file system that is confined to entries of the storage directory with the given names.\<close>

definition confined :: "platform_settings \<Rightarrow> string set \<Rightarrow> file_system \<Rightarrow> file_system \<Rightarrow> bool" where
  "confined P ns fs fs' \<longleftrightarrow> local_ok P fs' \<and> base_dir P fs' = base_dir P fs \<and>
     (\<forall>t. fs_nodes fs' t \<noteq> fs_nodes fs t \<longrightarrow>
        (\<exists>n \<in> ns. plain_name n \<and> t = base_dir P fs @ [n]) \<and> (\<exists>c. fs_nodes fs' t = Some (Regular c)))"

lemma confined_refl: "local_ok P fs \<Longrightarrow> confined P ns fs fs"
  by (simp add: confined_def)

lemma confined_trans: "confined P ns fs fs1 \<Longrightarrow> confined P ms fs1 fs2 \<Longrightarrow> ns \<union> ms \<subseteq> ks \<Longrightarrow> confined P ks fs fs2"
  unfolding confined_def by (metis UnCI subsetD)

lemma upload_bytes_confined:
  assumes "local_ok P fs"
  shows "confined P {stored_name filename} fs (snd (local_upload_bytes P data filename fs))"
    "fst (local_upload_bytes P data filename fs) = Inr p \<Longrightarrow> p = stored_name filename"
proof -
  show "confined P {stored_name filename} fs (snd (local_upload_bytes P data filename fs))"
  proof (rule upload_bytes_cases [OF assms, of data filename])
    fix e assume "local_upload_bytes P data filename fs = (Inl e, fs)"
    then show ?thesis using assms by (simp add: confined_refl)
  next
    assume acc: "local_accepts P fs filename" and run: "local_upload_bytes P data filename fs =
        (Inr (stored_name filename), put_local P (stored_name filename) (Some (Regular data)) fs)"
    have "fs_nodes fs (base_dir P fs @ [stored_name filename]) \<noteq> Some Dir" using acc by (simp add: local_accepts_def)
    note put = put_local_ok [OF assms this, of "Some (Regular data)"]
    show ?thesis using put acc unfolding run by (auto simp: confined_def local_accepts_def)
  qed
  show "fst (local_upload_bytes P data filename fs) = Inr p \<Longrightarrow> p = stored_name filename"
    by (rule upload_bytes_cases [OF assms, of data filename]) simp_all
qed

lemma thumbnails_confined:
  assumes "local_ok P fs"
  shows "confined P ((\<lambda>(name, _). stored_name (thumb_filename P path name)) ` set ts) fs
    (snd (store_thumbnails (local_storage P) P path ts paths fs))"
  using assms
proof (induction ts arbitrary: fs paths)
  case (Cons t ts)
  obtain name bytes where t: "t = (name, bytes)" by (cases t)
  obtain r fs1 where up: "local_upload_bytes P bytes (thumb_filename P path name) fs = (r, fs1)" by fastforce
  have 1: "confined P {stored_name (thumb_filename P path name)} fs fs1"
    using upload_bytes_confined(1) [OF Cons.prems, of "thumb_filename P path name" bytes] up by simp
  show ?case
  proof (cases r)
    case (Inl e)
    then show ?thesis
      using confined_trans [OF 1 confined_refl [of P fs1 "{}"]] 1 up
      by (simp add: t local_storage_def bindM_def confined_def)
  next
    case (Inr p)
    have ok: "local_ok P fs1" using 1 by (simp add: confined_def)
    have run: "store_thumbnails (local_storage P) P path (t # ts) paths fs =
        store_thumbnails (local_storage P) P path ts (paths(name \<mapsto> p)) fs1"
      using Inr up by (simp add: t local_storage_def bindM_def)
    show ?thesis unfolding run by (rule confined_trans [OF 1 Cons.IH [OF ok]]) (simp add: t)
  qed
qed (simp add: confined_refl)

lemma generated_names: "generate_each mk szs = Inr ts \<Longrightarrow> map fst ts = map fst szs"
  by (induction mk szs arbitrary: ts rule: generate_each.induct) (auto split: sum.splits)

text \<open>C34: whatever an upload is called and contains, the whole request (the file and the thumbnails of an image) changes only
  entries of the storage directory with plain names, and what it changes is a regular file afterwards: the name of the
  upload without its directories, and one name for each configured thumbnail size.\<close>

theorem upload_confined:
  assumes "local_ok P fs" "upload_file (local_storage P) P pil sha256 now u f (w, fs) = (r, (w', fs'))"
    and "fs_nodes fs' t \<noteq> fs_nodes fs t"
  shows "\<exists>filename n. upl_filename f = Some filename \<and> plain_name n \<and> t = base_dir P fs @ [n] \<and>
    (\<exists>c. fs_nodes fs' t = Some (Regular c)) \<and>
    (n = stored_name filename \<or>
     n \<in> set (map (\<lambda>(name, _). stored_name (thumb_filename P (stored_name filename) name)) (THUMBNAIL_SIZES P)))"
proof -
  obtain filename where f: "upl_filename f = Some filename"
    using assms(2,3) by (cases "upl_filename f") (auto simp: upload_file_def)
  let ?thumbs = "set (map (\<lambda>(name, _). stored_name (thumb_filename P (stored_name filename) name)) (THUMBNAIL_SIZES P))"
  obtain r1 fs1 where up: "local_upload_bytes P (upl_content f) filename fs = (r1, fs1)" by fastforce
  have 1: "confined P {stored_name filename} fs fs1"
    using upload_bytes_confined(1) [OF assms(1), of filename "upl_content f"] up by simp
  have 2: "confined P ?thumbs fs1 (snd (make_thumbnails (local_storage P) P pil (upl_content f) m (stored_name filename) fs1))" for m
  proof -
    have ok: "local_ok P fs1" using 1 by (simp add: confined_def)
    show ?thesis
    proof (cases "generate_all_thumbnails P pil (upl_content f)")
      case (Inl e)
      then show ?thesis using confined_refl [OF ok] by (simp add: make_thumbnails_def)
    next
      case (Inr ts)
      have "map fst ts = map fst (THUMBNAIL_SIZES P)" using Inr generated_names by (simp add: generate_all_thumbnails_def)
      then have "fst ` set ts = fst ` set (THUMBNAIL_SIZES P)" by (metis list.set_map)
      then have "(\<lambda>n. stored_name (thumb_filename P (stored_name filename) n)) ` fst ` set ts =
          (\<lambda>n. stored_name (thumb_filename P (stored_name filename) n)) ` fst ` set (THUMBNAIL_SIZES P)" by simp
      then have "(\<lambda>(name, _). stored_name (thumb_filename P (stored_name filename) name)) ` set ts = ?thumbs"
        by (simp add: image_image case_prod_unfold)
      then show ?thesis
        using Inr thumbnails_confined [OF ok, of "stored_name filename" ts Map.empty] confined_refl [OF ok]
        by (simp add: make_thumbnails_def)
    qed
  qed
  let ?m = "case upl_content_type f of Some m \<Rightarrow> if m = [] then ''application/octet-stream'' else m | None \<Rightarrow> ''application/octet-stream''"
  obtain r2 fs2 where thumbs: "make_thumbnails (local_storage P) P pil (upl_content f) ?m (stored_name filename) fs1 = (r2, fs2)"
    by fastforce
  have store: "sb_upload_bytes (local_storage P) = local_upload_bytes P" by (simp add: local_storage_def)
  have p: "r1 = Inr p \<Longrightarrow> p = stored_name filename" for p
    using upload_bytes_confined(2) [OF assms(1), of "upl_content f" filename p] up by simp
  have "fs' = fs \<or> fs' = fs1 \<or> fs' = fs2"
    using assms(2) f up p thumbs
    by (cases r1; cases r2)
      (auto simp: upload_file_def store Let_def thenM_def bindM_def guardM_def returnM_def raiseM_def split: if_splits prod.splits sum.splits)
  moreover have "confined P ?thumbs fs1 fs2" using 2 [of ?m] thumbs by simp
  then have "confined P ({stored_name filename} \<union> ?thumbs) fs fs2" by (rule confined_trans [OF 1 _ subset_refl])
  moreover have "confined P ({stored_name filename} \<union> ?thumbs) fs fs1"
    by (rule confined_trans [OF confined_refl [OF assms(1), of "{}"] 1]) simp
  ultimately have "confined P ({stored_name filename} \<union> ?thumbs) fs fs'"
    using confined_refl [OF assms(1), of "{stored_name filename} \<union> ?thumbs"] by (elim disjE) (simp_all only:)
  then show ?thesis using f assms(3) unfolding confined_def by blast
qed

definition evil_upload :: upload where
  "evil_upload = \<lparr>upl_filename = Some ''../../../etc/passwd'', upl_content_type = Some ''text/plain'', upl_content = ''x''\<rparr>"

theorem upload_confined_witness:
  "\<exists>r w' fs'. upload_file (local_storage default_platform) default_platform (\<lambda>_ _ _ _. Inl (ValueError [])) rev 0 sample_user
      evil_upload (sample_world, sample_fs) = (r, (w', fs')) \<and>
    fs_nodes fs' [''srv'', ''app'', ''uploads'', ''passwd''] = Some (Regular ''x'') \<and>
    (\<exists>n. plain_name n \<and> [''srv'', ''app'', ''uploads'', ''passwd''] = base_dir default_platform sample_fs @ [n])"
proof -
  let ?t = "[''srv'', ''app'', ''uploads'', ''passwd'']" and ?fs = "put_local default_platform ''passwd'' (Some (Regular ''x'')) sample_fs"
  have n: "stored_name ''../../../etc/passwd'' = ''passwd''" by (simp add: stored_name_def path_name_def parse_path_def)
  have acc: "acceptable default_platform sample_fs evil_upload ''../../../etc/passwd''"
    by (simp add: acceptable_def evil_upload_def MAX_FILE_SIZE_MB_def is_image_mime_def sample_fs_ok local_accepts_def n plain_name_def)
      (simp add: sample_fs_def)
  let ?run = "upload_file (local_storage default_platform) default_platform (\<lambda>_ _ _ _. Inl (ValueError [])) rev 0 sample_user
      evil_upload (sample_world, sample_fs)"
  have "snd (snd ?run) = ?fs" unfolding upload_file_run [OF acc] by (simp add: n evil_upload_def split: prod.split)
  then obtain r w' where run: "?run = (r, (w', ?fs))" by (metis prod.collapse)
  have fs: "fs_nodes ?fs ?t = Some (Regular ''x'')" by (simp add: put_local_def sample_fs_ok)
  then have "fs_nodes ?fs ?t \<noteq> fs_nodes sample_fs ?t" by (simp add: sample_fs_def)
  then have "\<exists>n. plain_name n \<and> ?t = base_dir default_platform sample_fs @ [n]"
    using upload_confined [OF sample_fs_ok(1) run] by blast
  with fs run show ?thesis by blast
qed

text \<open>C35: a download is not confined: for every regular file of the machine, inside the storage directory or not, there
  is a path with which any user downloads it.\<close>

theorem download_reaches_every_file:
  assumes "fs_wf fs" "fs_nodes fs t = Some (Regular c)"
  shows "download_file (local_storage P) u (''/'' @ py_join ''/'' t) (w, fs) = (Inr c, (w, fs))"
proof -
  note loc = walk_location [OF assms(1), of t]
  have "node_at fs (join_path (storage_root P) (parse_path (''/'' @ py_join ''/'' t))) = Some (Regular c)"
    using loc assms(2) parse_absolute [of t]
    by (auto simp: node_at_def join_path_def resolve_def path_start_def has_nul_def list_ex_iff list_all_iff plain_name_def)
  then have "local_download P (''/'' @ py_join ''/'' t) fs = (Inr c, fs)"
    by (simp only: local_download_def Let_def is_file_def read_bytes_def) simp
  then show ?thesis by (simp add: download_file_run)
qed

theorem download_reaches_every_file_witness:
  "download_file (local_storage default_platform) sample_user ''/etc/passwd'' (sample_world, sample_fs) =
    (Inr ''root:x:0'', (sample_world, sample_fs))"
proof -
  have "fs_nodes sample_fs [''etc'', ''passwd''] = Some (Regular ''root:x:0'')" by (simp add: sample_fs_def)
  from download_reaches_every_file [OF sample_fs_ok(3) this] show ?thesis by simp
qed

text \<open>An upload under a name that is already recorded replaces the stored content first and then fails on the unique
  path: the database keeps the old row and checksum, and a download returns the content of the failed upload.\<close>

theorem upload_overwrites_before_failing:
  assumes "acceptable P fs f filename" "r \<in> set (t_rows (files (w_db w)))" "fil_storage_path r = stored_name filename"
    and "length (sha256 (upl_content f)) \<le> 64"
  shows "\<exists>w' fs'. upload_file (local_storage P) P pil sha256 now u f (w, fs) = (Inl IntegrityError, (w', fs')) \<and>
    w_committed w' = w_committed w \<and>
    download_file (local_storage P) v (fil_storage_path r) (w', fs') = (Inr (upl_content f), (w', fs'))"
proof -
  have ok: "local_ok P fs" "local_accepts P fs filename" using assms(1) by (simp_all add: acceptable_def)
  note put = local_upload_bytes_run [OF ok, of "upl_content f"]
  define fs' where "fs' = put_local P (stored_name filename) (Some (Regular (upl_content f))) fs"
  have fs': "fst (local_download P (stored_name filename) fs') = Inr (upl_content f)"
    using local.up_run [OF ok, of "upl_content f"] put by (auto simp: fs'_def)
  have "snd (local_download P (stored_name filename) fs') = fs'"
    by (auto simp: local_download_def read_bytes_def Let_def split: option.splits node.splits)
  then have down: "download_file (local_storage P) v (stored_name filename) (w', fs') = (Inr (upl_content f), (w', fs'))" for w'
    using fs'(1) by (cases "local_download P (stored_name filename) fs'") (simp add: download_file_run)
  let ?mime = "case upl_content_type f of Some m \<Rightarrow> if m = [] then ''application/octet-stream'' else m
    | None \<Rightarrow> ''application/octet-stream''"
  have fits: "length (last (py_split (CHR ''/'') (stored_name filename))) \<le> 255"
    using acceptable_fits(1,3) [OF assms(1)] by simp
  obtain w' where w': "create_from_upload now (last (py_split (CHR ''/'') (stored_name filename))) filename ?mime
      (int (length (upl_content f))) (sha256 (upl_content f)) (stored_name filename) (Some (user_id u)) (Some Map.empty) w =
      (Inl IntegrityError, w')" "w_committed w' = w_committed w"
    using create_from_upload_clash [OF assms(2,3) fits acceptable_fits(2) [OF assms(1)] acceptable_fits(5) [OF assms(1)]
        acceptable_fits(4) [OF assms(1)] assms(4)] by blast
  have "upload_file (local_storage P) P pil sha256 now u f (w, fs) = (Inl IntegrityError, (w', fs'))"
    unfolding upload_file_run [OF assms(1)] using w'(1) by (simp add: bindM_def fs'_def)
  with w'(2) down assms(3) show ?thesis by auto
qed

definition noted_file :: stored_file where
  "noted_file = \<lparr>fil_id = 1, fil_filename = ''notes.txt'', fil_original_filename = ''notes.txt'', fil_mime_type = ''text/plain'',
     fil_size_bytes = 3, fil_storage_path = ''notes.txt'', fil_checksum_sha256 = ''abc'', fil_uploader_id = Some 2,
     fil_thumbnail_path_small = None, fil_thumbnail_path_medium = None, fil_thumbnail_path_large = None,
     fil_metadata = None, fil_created_at = 0\<rparr>"

definition noted_world :: "keyspace world" where
  "noted_world = sample_world\<lparr>w_db := sample_db\<lparr>files := \<lparr>t_rows = [noted_file], t_seq = 1\<rparr>\<rparr>\<rparr>"

theorem upload_overwrites_before_failing_witness:
  "\<exists>w' fs'. upload_file (local_storage default_platform) default_platform (\<lambda>_ _ _ _. Inl (ValueError [])) rev 0 sample_user
      sample_upload (noted_world, sample_fs) = (Inl IntegrityError, (w', fs')) \<and>
    download_file (local_storage default_platform) sample_user ''notes.txt'' (w', fs') = (Inr ''hello'', (w', fs'))"
proof -
  have "noted_file \<in> set (t_rows (files (w_db noted_world)))" "fil_storage_path noted_file = stored_name ''../notes.txt''"
    by (simp_all add: noted_world_def noted_file_def sample_stored)
  from upload_overwrites_before_failing [OF sample_acceptable this, where pil = "\<lambda>_ _ _ _. Inl (ValueError [])" and ?sha256.0 = rev
      and now = 0 and u = sample_user and v = sample_user]
  show ?thesis by (auto simp: sample_upload_def noted_file_def)
qed

end
