(* ===== verification/Tasks.thy ===== *)
theory Tasks
  imports Crud
begin

text \<open>
  \<^verbatim>\<open>app/tasks/{status,base}.py\<close> and \<^verbatim>\<open>app/api/endpoints/tasks.py\<close>: the recorded status of background tasks.

  Celery calls \<open>on_success\<close> and \<open>on_failure\<close> of \<^verbatim>\<open>BaseTask\<close> when a task has ended; each writes the status in a
  session of its own. The stream of status events polls the table; a poll is what the table holds for the
  task at that time, and the stream is modelled on a finite list of polls.
\<close>

section \<open>Writing\<close>

definition final_status :: "string \<Rightarrow> bool" where
  "final_status s \<longleftrightarrow> s \<in> {''SUCCESS'', ''FAILURE''}"

definition find_task_status :: "string \<Rightarrow> ('r, task_status option) app" where
  "find_task_status task_id = select_one task_statuses (\<lambda>t. tst_task_id t = task_id)"

definition update_task_status :: "datetime \<Rightarrow> string \<Rightarrow> string \<Rightarrow> string option \<Rightarrow> ('r, unit) app" where
  "update_task_status now task_id status error =
     bindM (find_task_status task_id) (\<lambda>existing.
       thenM (case existing of
           Some t \<Rightarrow> save_task_status (t\<lparr>tst_status := status, tst_error := error,
                       tst_completed_at := (if final_status status then Some now else tst_completed_at t)\<rparr>)
         | None \<Rightarrow> bindM (add_task_status \<lparr>tst_id = 0, tst_tenant_id = None, tst_task_id = task_id, tst_name = None,
                       tst_status = status, tst_error = error, tst_completed_at = None\<rparr>) (\<lambda>_. returnM ()))
         commit)"

definition record_status :: "datetime \<Rightarrow> string \<Rightarrow> string \<Rightarrow> string option \<Rightarrow> ('r, unit) app" where
  "record_status now task_id status error = with_session (update_task_status now task_id status error)"

definition on_failure :: "datetime \<Rightarrow> string \<Rightarrow> string \<Rightarrow> ('r, unit) app" where
  "on_failure now exc task_id = record_status now task_id ''FAILURE'' (Some exc)"

definition on_success :: "datetime \<Rightarrow> string \<Rightarrow> ('r, unit) app" where
  "on_success now task_id = record_status now task_id ''SUCCESS'' None"

section \<open>Endpoints\<close>

record email_task_request =
  etr_recipient :: string
  etr_subject :: string
  etr_body :: string

text \<open>The broker takes the task and gives it an identifier; the endpoint has no authentication dependency.\<close>

definition trigger_email_task ::
  "broker \<Rightarrow> string \<Rightarrow> email_task_request \<Rightarrow> ('r, string \<times> string) app" where
  "trigger_email_task broker fresh_id task_data =
     thenM (delay broker (Email_notification (etr_recipient task_data) (etr_subject task_data) (etr_body task_data)))
       (returnM (fresh_id, ''PENDING''))"

record task_view =
  tv_task_id :: string
  tv_status :: string
  tv_error :: "string option"
  tv_completed_at :: "datetime option"

definition task_view_of :: "task_status \<Rightarrow> task_view" where
  "task_view_of t = \<lparr>tv_task_id = tst_task_id t, tv_status = tst_status t, tv_error = tst_error t,
     tv_completed_at = tst_completed_at t\<rparr>"

definition get_task_status :: "string \<Rightarrow> ('r, task_view) app" where
  "get_task_status task_id =
     bindM (find_task_status task_id) (\<lambda>r. case r of
         None \<Rightarrow> raiseM (HTTPException 404 ''Task not found'')
       | Some t \<Rightarrow> returnM (task_view_of t))"

datatype task_event = Task_status_event string | Task_complete_event string

text \<open>
  Every poll selects in the same session. When the row that is found was loaded by the poll before, the session's identity
  map answers with that object, whose attributes are not read again.
\<close>

definition loaded :: "task_status option \<Rightarrow> task_status option \<Rightarrow> task_status option" where
  "loaded before poll =
     (case poll of None \<Rightarrow> None
      | Some t \<Rightarrow> (case before of None \<Rightarrow> Some t | Some s \<Rightarrow> if tst_id s = tst_id t then Some s else Some t))"

text \<open>
  The events of the stream and whether it has ended, for the object of the poll before and the rows that the next polls
  find in the table.
\<close>

fun stream_task_status :: "task_status option \<Rightarrow> task_status option list \<Rightarrow> task_event list \<times> bool" where
  "stream_task_status before [] = ([], False)"
| "stream_task_status before (poll # polls) =
     (case loaded before poll of
        Some t \<Rightarrow>
          if final_status (tst_status t) then ([Task_complete_event (tst_status t)], True)
          else (case stream_task_status (Some t) polls of (es, ended) \<Rightarrow> (Task_status_event (tst_status t) # es, ended))
      | None \<Rightarrow> (case stream_task_status None polls of (es, ended) \<Rightarrow> (Task_status_event ''PENDING'' # es, ended)))"

section \<open>Facts\<close>

lemma find_task_status_run:
  "find_task_status i w = (scalar_one_or_none (filter (\<lambda>t. tst_task_id t = i) (t_rows (task_statuses (w_db w)))), w)"
  by (simp add: find_task_status_def select_where_def)

text \<open>The unique index leaves at most one row per task.\<close>

lemma task_rows_cases:
  assumes "unique_on (\<lambda>t. Some (tst_task_id t)) T"
  obtains "filter (\<lambda>t. tst_task_id t = i) (t_rows T) = []"
  | t where "filter (\<lambda>t. tst_task_id t = i) (t_rows T) = [t]" "t \<in> set (t_rows T)" "tst_task_id t = i"
proof -
  have "distinct (map tst_task_id (t_rows T))"
    using assms by (simp add: unique_on_def List.map_filter_def comp_def)
  note key = distinct_filter_key [OF this]
  show thesis
  proof (cases "filter (\<lambda>t. tst_task_id t = i) (t_rows T)")
    case (Cons t ts)
    then have "t \<in> set (filter (\<lambda>t. tst_task_id t = i) (t_rows T))" by simp
    then show ?thesis using that(2) [of t] key [of t] by simp
  qed (use that(1) in simp)
qed

text \<open>What the table holds after a status was recorded.\<close>

definition recorded :: "datetime \<Rightarrow> string \<Rightarrow> string \<Rightarrow> string option \<Rightarrow> task_status option \<Rightarrow> task_view" where
  "recorded now task_id status error old =
     \<lparr>tv_task_id = task_id, tv_status = status, tv_error = error,
      tv_completed_at = (case old of None \<Rightarrow> None
         | Some t \<Rightarrow> if final_status status then Some now else tst_completed_at t)\<rparr>"

lemma filter_update_row:
  assumes "distinct (map rid xs)" "t \<in> set xs" "rid r = rid t"
  shows "filter Q (map (\<lambda>x. if rid x = rid r then r else x) xs) =
    (if Q t = Q r then map (\<lambda>x. if rid x = rid r then r else x) (filter Q xs)
     else filter Q (map (\<lambda>x. if rid x = rid r then r else x) xs))"
proof (cases "Q t = Q r")
  case True
  have "filter Q (map g ys) = map g (filter Q ys)" if "\<forall>y \<in> set ys. Q (g y) = Q y" for g :: "'b \<Rightarrow> 'b" and ys
    using that by (induction ys) auto
  moreover have "\<forall>y \<in> set xs. Q (if rid y = rid r then r else y) = Q y"
    using distinct_key_unique [OF assms(1) _ assms(2)] assms(3) True by auto
  ultimately show ?thesis using True by simp
qed simp

section \<open>Properties\<close>

text \<open>Recording a status succeeds and leaves exactly one row for the task, with that status and error; the status of
  every other task stays. The time of completion is set only when the task already had a row: the first status that is
  recorded of a task, which is the only one Celery reports, has none.\<close>

theorem status_recorded:
  assumes "store_ok w" "find_task_status i w = (Inr old, w)"
  shows "\<exists>w'. record_status now i status error w = (Inr (), w') \<and> store_ok w' \<and>
    get_task_status i w' = (Inr (recorded now i status error old), w') \<and>
    (\<forall>j. j \<noteq> i \<longrightarrow> fst (get_task_status j w') = fst (get_task_status j w))"
proof -
  let ?T = "task_statuses (w_db w)"
  have ok: "db_unique (w_db w)" "db_keys (w_db w)" "w_committed w = w_db w" using assms(1) by (simp_all add: store_ok_def)
  have uniq: "unique_on (\<lambda>t. Some (tst_task_id t)) ?T" and wf: "table_wf tst_id ?T"
    using ok by (simp_all add: db_unique_def db_keys_def)
  have dist: "distinct (map tst_id (t_rows ?T))" using wf by (simp add: table_wf_def)
  define new where "new = (case old of
      Some t \<Rightarrow> t\<lparr>tst_status := status, tst_error := error,
        tst_completed_at := (if final_status status then Some now else tst_completed_at t)\<rparr>
    | None \<Rightarrow> \<lparr>tst_id = 0, tst_tenant_id = None, tst_task_id = i, tst_name = None,
        tst_status = status, tst_error = error, tst_completed_at = None\<rparr>)"
  define T' where "T' = (case old of Some _ \<Rightarrow> update_row tst_id new ?T
    | None \<Rightarrow> insert_row (\<lambda>i r. r\<lparr>tst_id := i\<rparr>) new ?T)"
  define d' where "d' = (case old of Some _ \<Rightarrow> task_statuses_update (update_row tst_id new) (w_db w)
    | None \<Rightarrow> task_statuses_update (insert_row (\<lambda>i r. r\<lparr>tst_id := i\<rparr>) new) (w_db w))"
  have old: "scalar_one_or_none (filter (\<lambda>t. tst_task_id t = i) (t_rows ?T)) = Inr old"
    using assms(2) by (simp add: find_task_status_run)
  have rows: "filter (\<lambda>t. tst_task_id t = i) (t_rows T') = [case old of Some _ \<Rightarrow> new | None \<Rightarrow> new\<lparr>tst_id := t_seq ?T + 1\<rparr>] \<and>
      (\<forall>j. j \<noteq> i \<longrightarrow> filter (\<lambda>t. tst_task_id t = j) (t_rows T') = filter (\<lambda>t. tst_task_id t = j) (t_rows ?T)) \<and>
      unique_on (\<lambda>t. Some (tst_task_id t)) T' \<and> table_wf tst_id T' \<and> (\<forall>t. old = Some t \<longrightarrow> tst_task_id t = i)"
  proof (cases old)
    case None
    then have none: "filter (\<lambda>t. tst_task_id t = i) (t_rows ?T) = []" using old by (simp add: scalar_one_or_none_None)
    then have "unique_on (\<lambda>t. Some (tst_task_id t)) T'"
      using uniq by (auto simp: T'_def None unique_on_insert next_row_def new_def filter_empty_conv)
    moreover have "table_wf tst_id T'" using tst_row.wf_insert [OF wf] by (simp add: T'_def None)
    ultimately show ?thesis using none by (simp add: T'_def None new_def insert_row_def)
  next
    case (Some t)
    then have one: "filter (\<lambda>t. tst_task_id t = i) (t_rows ?T) = [t]" using old by (simp add: scalar_one_or_none_Some)
    then have "t \<in> set (filter (\<lambda>t. tst_task_id t = i) (t_rows ?T))" by simp
    then have t: "t \<in> set (t_rows ?T)" "tst_task_id t = i" by simp_all
    have new: "tst_id new = tst_id t" "tst_task_id new = i" using t(2) by (simp_all add: new_def Some)
    have other: "tst_id x \<noteq> tst_id t" if "x \<in> set (filter (\<lambda>t. tst_task_id t = j) (t_rows ?T))" "j \<noteq> i" for x j
      using distinct_key_unique [OF dist _ t(1), of x] that t(2) by auto
    have "filter (\<lambda>t. tst_task_id t = j) (t_rows T') =
        map (\<lambda>x. if tst_id x = tst_id new then new else x) (filter (\<lambda>t. tst_task_id t = j) (t_rows ?T))" for j
      using filter_update_row [OF dist t(1) new(1), of "\<lambda>t. tst_task_id t = j"] new(2) t(2)
      by (simp add: T'_def Some update_row_def)
    moreover have "map (\<lambda>x. if tst_id x = tst_id new then new else x) (filter (\<lambda>t. tst_task_id t = j) (t_rows ?T)) =
        filter (\<lambda>t. tst_task_id t = j) (t_rows ?T)" if "j \<noteq> i" for j
      using other [OF _ that] by (intro map_idI) (auto simp: new(1))
    moreover have "x = t" if "x \<in> set (t_rows ?T)" "tst_id x = tst_id new" for x
      using distinct_key_unique [OF dist that(1) t(1)] that(2) new(1) by simp
    then have "tst_task_id x = i" if "x \<in> set (t_rows ?T)" "tst_id x = tst_id new" for x
      using that t(2) by blast
    then have "unique_on (\<lambda>t. Some (tst_task_id t)) T'"
      unfolding T'_def Some option.case using uniq wf new(2) by (intro unique_on_update) simp_all
    ultimately show ?thesis using one new(1) t(2) wf tst_row.wf_update by (simp add: T'_def Some)
  qed
  have d': "db_unique d'" "db_keys d'" "task_statuses d' = T'"
    using ok rows by (cases old; simp add: d'_def T'_def db_unique_def db_keys_def)+
  have "record_status now i status error w = (Inr (), w\<lparr>w_db := d', w_committed := d'\<rparr>)"
    using assms(2) d'(1)
    by (cases old; cases "final_status status") (simp_all add: record_status_def update_task_status_def with_session_def
        thenM_def bindM_def commit_run d'_def new_def)
  moreover have "store_ok (w\<lparr>w_db := d', w_committed := d'\<rparr>)" using d' by (simp add: store_ok_def)
  moreover have "get_task_status i (w\<lparr>w_db := d', w_committed := d'\<rparr>) =
      (Inr (recorded now i status error old), w\<lparr>w_db := d', w_committed := d'\<rparr>)"
    using rows by (cases old) (simp_all add: get_task_status_def find_task_status_run d' bindM_def task_view_of_def recorded_def new_def)
  moreover have "fst (get_task_status j (w\<lparr>w_db := d', w_committed := d'\<rparr>)) = fst (get_task_status j w)" if "j \<noteq> i" for j
    using rows that
    by (simp add: get_task_status_def find_task_status_run d' bindM_def split: sum.splits option.splits)
  ultimately show ?thesis by blast
qed

theorem status_recorded_witness:
  "\<exists>w'. record_status 5 ''t1'' ''SUCCESS'' None sample_world = (Inr (), w') \<and>
    get_task_status ''t1'' w' = (Inr \<lparr>tv_task_id = ''t1'', tv_status = ''SUCCESS'', tv_error = None, tv_completed_at = None\<rparr>, w')"
proof -
  have "find_task_status ''t1'' sample_world = (Inr None, sample_world)"
    by (simp add: find_task_status_run) (simp add: sample_defs)
  from status_recorded [OF sample_store_ok this, of 5 "''SUCCESS''" None] show ?thesis
    by (auto simp: recorded_def)
qed

text \<open>
  A stream that has once reported a status reports it for ever: as long as the row is there, the polls answer with the
  object that was loaded first, whatever status the row has by now.
\<close>

lemma task_stream_stuck:
  assumes "\<forall>p \<in> set polls. \<exists>r. p = Some r \<and> tst_id r = tst_id t" and "\<not> final_status (tst_status t)"
  shows "stream_task_status (Some t) polls = (map (\<lambda>_. Task_status_event (tst_status t)) polls, False)"
  using assms by (induction polls) (auto simp: loaded_def)

text \<open>A stream that starts before the row exists ends with the status that the first poll to find the row sees, if it is final.\<close>

lemma task_stream_ends:
  assumes "final_status (tst_status t)"
  shows "stream_task_status None (replicate n None @ Some t # polls) =
    (replicate n (Task_status_event ''PENDING'') @ [Task_complete_event (tst_status t)], True)"
  using assms by (induction n) (simp_all add: loaded_def)

end
