(* ===== verification/Gql.thy ===== *)
theory Gql
  imports UsersApi EventBus
begin

text \<open>
  The GraphQL API: \<^verbatim>\<open>get_gql_context\<close> of \<^verbatim>\<open>app/api/deps.py\<close> and the resolvers of \<^verbatim>\<open>app/identity/gql\<close>.

  Strawberry, which parses a request and calls the resolvers, is outside: a resolver takes the context and its
  arguments, an omitted optional argument is \<open>None\<close>. A resolver that raises gives an entry of \<^verbatim>\<open>errors\<close> in the
  answer. Time stamps of a user and descriptions of a role are left out, as in the model classes.
\<close>

section \<open>The context\<close>

text \<open>\<open>request.headers.get("Authorization", "").removeprefix("Bearer ").strip()\<close>\<close>

definition bearer_token :: "string option \<Rightarrow> string" where
  "bearer_token authorization =
     (let value = (case authorization of None \<Rightarrow> [] | Some a \<Rightarrow> a);
          value = (if take 7 value = ''Bearer '' then drop 7 value else value)
      in py_strip value)"

definition get_gql_context :: "settings \<Rightarrow> jose \<Rightarrow> datetime \<Rightarrow> string option \<Rightarrow> ('r, user option) app" where
  "get_gql_context S J now authorization =
     (let token = bearer_token authorization
      in if token = [] then returnM None
         else tryM (bindM (liftM (decode_access_token S J (timegm now) token)) (\<lambda>payload.
                case cl_sub payload of
                  Some (c # cs) \<Rightarrow> bindM (liftM (int_exn (c # cs))) (\<lambda>uid. get_with_roles uid)
                | _ \<Rightarrow> returnM None))
              (\<lambda>_. returnM None))"

section \<open>Types\<close>

record gql_role =
  gr_id :: int
  gr_name :: string
  gr_permissions :: "string list"

record gql_user =
  gu_id :: int
  gu_email :: string
  gu_username :: string
  gu_full_name :: "string option"
  gu_is_active :: bool
  gu_is_verified :: bool
  gu_roles :: "gql_role list"

definition gql_role_of :: "role \<Rightarrow> gql_role" where
  "gql_role_of r = \<lparr>gr_id = role_id r, gr_name = role_name r, gr_permissions = role_permissions r\<rparr>"

definition user_to_type :: "user \<Rightarrow> gql_user" where
  "user_to_type u = \<lparr>gu_id = user_id u, gu_email = user_email u, gu_username = user_username u,
     gu_full_name = user_full_name u, gu_is_active = user_is_active u, gu_is_verified = user_is_verified u,
     gu_roles = map gql_role_of (user_roles u)\<rparr>"

section \<open>Resolvers\<close>

definition gql_me :: "user option \<Rightarrow> ('r, gql_user) app" where
  "gql_me current_user = (case current_user of
       None \<Rightarrow> raiseM (AttributeError ''id'')
     | Some u \<Rightarrow> returnM (user_to_type u))"

definition gql_permitted :: "user option \<Rightarrow> string list \<Rightarrow> bool" where
  "gql_permitted current_user required = (case current_user of None \<Rightarrow> False | Some u \<Rightarrow> has_permission u required)"

definition gql_user_query :: "user option \<Rightarrow> int \<Rightarrow> ('r, gql_user option) app" where
  "gql_user_query current_user uid =
     thenM (guardM (gql_permitted current_user [''user:read'']) (PermissionError ''Not enough permissions''))
       (with_session (bindM (get_with_roles uid) (\<lambda>r. returnM (map_option user_to_type r))))"

definition gql_create_user ::
  "(string \<Rightarrow> bool) \<Rightarrow> bcrypt \<Rightarrow> string \<Rightarrow> string \<Rightarrow> string \<Rightarrow> string \<Rightarrow> string option \<Rightarrow> ('r, gql_user) app" where
  "gql_create_user email_ok B salt email username password full_name =
     with_session
       (let user_in = \<lparr>uc_email = email, uc_username = username, uc_full_name = full_name, uc_password = password\<rparr>
        in thenM (guardM (user_create_valid email_ok user_in) (ValueError ''UserCreate''))
             (bindM (crud_user_create B salt user_in) (\<lambda>u. returnM ((user_to_type u)\<lparr>gu_roles := []\<rparr>))))"

text \<open>Both fields are passed to the schema, so both count as set.\<close>

definition gql_update_user ::
  "(string \<Rightarrow> bool) \<Rightarrow> bcrypt \<Rightarrow> string \<Rightarrow> user option \<Rightarrow> int \<Rightarrow> string option \<Rightarrow> bool option \<Rightarrow> ('r, gql_user option) app" where
  "gql_update_user email_ok B salt current_user uid full_name is_active =
     thenM (guardM (gql_permitted current_user [''user:write'']) (PermissionError ''Not enough permissions''))
       (with_session (bindM (get_with_roles uid) (\<lambda>r. case r of
            None \<Rightarrow> returnM None
          | Some u \<Rightarrow>
              (let update_data = \<lparr>uu_email = None, uu_username = None, uu_full_name = Some full_name, uu_password = None,
                                  uu_is_active = Some is_active\<rparr>
               in thenM (guardM (user_update_valid email_ok update_data) (ValueError ''UserUpdate''))
                    (bindM (crud_user_update B salt u update_data) (\<lambda>u'. returnM (Some (user_to_type u'))))))))"

text \<open>The handler that the subscription \<^verbatim>\<open>user_logged_in\<close> registers for \<^verbatim>\<open>user.logged_in\<close>.\<close>

definition relogin_handler :: "bus \<Rightarrow> event \<Rightarrow> ('r, unit) app" where
  "relogin_handler bus e = publish bus e"

section \<open>Facts\<close>

lemma get_with_roles_run:
  assumes "table_wf user_id (users (w_db w))" "u \<in> set (t_rows (users (w_db w)))"
  shows "get_with_roles (user_id u) w = (Inr (Some u), w)"
  using user_row.by_id [OF assms] by (simp add: get_with_roles_def)

lemma gql_context_run:
  assumes "decode_access_token S J (timegm now) token = Inr p" "cl_sub p = Some (show_int (user_id u))"
    and "bearer_token auth = token" "token \<noteq> []"
    and "table_wf user_id (users (w_db w))" "u \<in> set (t_rows (users (w_db w)))"
  shows "get_gql_context S J now auth w = (Inr (Some u), w)"
proof -
  obtain c cs where s: "show_int (user_id u) = c # cs"
    by (cases "show_int (user_id u)") (auto simp: show_int_def split: if_splits)
  have "int_exn (c # cs) = Inr (user_id u)" using py_int_show_int [of "user_id u"] by (simp add: int_exn_def s)
  then show ?thesis
    using assms get_with_roles_run [OF assms(5,6)]
    by (simp add: get_gql_context_def Let_def s tryM_def bindM_def)
qed

lemma gql_update_run:
  assumes "gql_permitted ctx [''user:write'']" "table_wf user_id (users (w_db w))" "u \<in> set (t_rows (users (w_db w)))"
    and "case full_name of None \<Rightarrow> True | Some n \<Rightarrow> length n \<le> 100"
  shows "gql_update_user email_ok B salt ctx (user_id u) full_name is_active w =
    with_session (bindM (crud_user_update B salt u \<lparr>uu_email = None, uu_username = None, uu_full_name = Some full_name,
      uu_password = None, uu_is_active = Some is_active\<rparr>) (\<lambda>u'. returnM (Some (user_to_type u')))) w"
  using assms(1,4) get_with_roles_run [OF assms(2,3)]
  by (auto simp: gql_update_user_def with_session_def user_update_valid_def thenM_def bindM_def Let_def split: option.splits)

section \<open>Properties\<close>

text \<open>The update mutation cannot leave a field alone: without \<^verbatim>\<open>is_active\<close> it fails and changes nothing, and with it the full
  name becomes the argument, so that an omitted full name erases the stored one.\<close>

theorem gql_update_not_partial:
  assumes "gql_permitted ctx [''user:write'']" "store_ok w" "u \<in> set (t_rows (users (w_db w)))"
    and "case full_name of None \<Rightarrow> True | Some n \<Rightarrow> length n \<le> 100"
  shows "gql_update_user email_ok B salt ctx (user_id u) full_name None w = (Inl IntegrityError, w) \<and>
    (\<exists>w'. gql_update_user email_ok B salt ctx (user_id u) full_name (Some b) w =
        (Inr (Some (user_to_type (u\<lparr>user_full_name := full_name, user_is_active := b\<rparr>))), w') \<and>
      u\<lparr>user_full_name := full_name, user_is_active := b\<rparr> \<in> set (t_rows (users (w_committed w'))))"
proof
  have wf: "table_wf user_id (users (w_db w))" "db_unique (w_db w)" and same: "w_committed w = w_db w"
    using assms(2) by (simp_all add: store_ok_def db_keys_def)
  note run = gql_update_run [OF assms(1) wf(1) assms(3,4)]
  show "gql_update_user email_ok B salt ctx (user_id u) full_name None w = (Inl IntegrityError, w)"
    unfolding run using same by (cases w) (simp add: crud_user_update_def nulls_required_def with_session_def bindM_def)
  let ?u = "u\<lparr>user_full_name := full_name, user_is_active := b\<rparr>"
  have app: "apply_user_update B salt \<lparr>uu_email = None, uu_username = None, uu_full_name = Some full_name,
      uu_password = None, uu_is_active = Some (Some b)\<rparr> u = ?u"
    by (simp add: apply_user_update_def apply_field_def)
  have "db_unique (users_update (update_row user_id ?u) (w_db w))"
    using wf assms(3) by (intro db_unique_save_user [of _ u]) simp_all
  moreover have "?u \<in> set (t_rows (update_row user_id ?u (users (w_db w))))"
    using assms(3) by (intro user_row.update_in [of u]) simp_all
  ultimately show "\<exists>w'. gql_update_user email_ok B salt ctx (user_id u) full_name (Some b) w = (Inr (Some (user_to_type ?u)), w') \<and>
      ?u \<in> set (t_rows (users (w_committed w')))"
    unfolding run
    by (simp add: crud_user_update_def nulls_required_def crud_update_def app user_model_def with_session_def commit_run
        thenM_def bindM_def Let_def)
qed

theorem gql_update_not_partial_witness:
  "\<exists>w'. gql_update_user (\<lambda>_. True) plain_bcrypt [] (Some (sample_user\<lparr>user_is_superuser := True\<rparr>)) 1 None (Some True)
      (sample_world\<lparr>w_db := sample_db, w_committed := sample_db\<rparr>) =
    (Inr (Some (user_to_type (sample_user\<lparr>user_full_name := None, user_is_active := True\<rparr>))), w')"
proof -
  have "gql_permitted (Some (sample_user\<lparr>user_is_superuser := True\<rparr>)) [''user:write'']"
    by (simp add: gql_permitted_def has_permission_def)
  moreover have "store_ok (sample_world\<lparr>w_db := sample_db, w_committed := sample_db\<rparr>)"
    using sample_db_ok by (simp add: store_ok_def)
  moreover have "sample_user \<in> set (t_rows (users (w_db (sample_world\<lparr>w_db := sample_db, w_committed := sample_db\<rparr>))))"
    "user_id sample_user = 1"
    by (simp_all add: sample_defs)
  ultimately show ?thesis using gql_update_not_partial [of _ _ sample_user None "\<lambda>_. True" plain_bcrypt "[]" True] by fastforce
qed

text \<open>C40: the GraphQL context forgets what the REST dependency checks: with a token that was revoked, or whose user was
  deactivated, the dependency refuses the request, and the context hands the user over with all its permissions.\<close>

theorem gql_context_skips_revocation:
  assumes "decode_access_token S J (timegm now) token = Inr p" "cl_sub p = Some (show_int (user_id u))"
    and "cl_jti p = Some (c # cs)" "is_token_blacklisted S R now (user_id u) (c # cs) w = (Inr revoked, w1)"
    and "revoked \<or> \<not> user_is_active u"
    and "bearer_token auth = token" "token \<noteq> []"
    and "table_wf user_id (users (w_db w))" "u \<in> set (t_rows (users (w_db w)))"
  shows "(\<exists>e. fst (get_current_user S J R now token w) = Inl e) \<and>
    get_gql_context S J now auth w = (Inr (Some u), w) \<and>
    (has_permission u required \<longrightarrow> gql_permitted (Some u) required)"
proof -
  have uid: "int_exn (show_int (user_id u)) = Inr (user_id u)" by (simp add: int_exn_def)
  have "w_db w1 = w_db w"
    using assms(4) by (auto simp: is_token_blacklisted_def redis_call_def bindM_def split: if_splits option.splits prod.splits sum.splits)
  then have "get_with_roles (user_id u) w1 = (Inr (Some u), w1)"
    using assms(8,9) by (intro get_with_roles_run) simp_all
  then have "\<exists>e. fst (get_current_user S J R now token w) = Inl e"
    using assms(1-5) uid by (auto simp: get_current_user_def bindM_def thenM_def)
  then show ?thesis using gql_context_run [OF assms(1,2,6-9)] by (simp add: gql_permitted_def)
qed

definition dormant_user :: user where
  "dormant_user = sample_user\<lparr>user_is_active := False, user_is_superuser := True\<rparr>"

definition dormant_world :: "keyspace world" where
  "dormant_world = sample_world\<lparr>w_db := sample_db\<lparr>users := \<lparr>t_rows = [dormant_user], t_seq = 1\<rparr>\<rparr>\<rparr>"

text \<open>A library for which one text is a token of user 1.\<close>

definition one_token_jose :: jose where
  "one_token_jose = \<lparr>jwt_encode = (\<lambda>_ _ _. ''t''),
     jwt_decode = (\<lambda>_ tok _ _. if tok = ''t'' then Some \<lparr>cl_jti = Some ''j'', cl_sub = Some ''1'', cl_iat = None,
       cl_exp = None, cl_purpose = None\<rparr> else None),
     rs_encode = (\<lambda>_. []), rs_decode = (\<lambda>_ _. None)\<rparr>"

theorem gql_context_skips_revocation_witness:
  "(\<exists>e. fst (get_current_user (default_settings\<lparr>JWT_BLACKLIST_ENABLED := False\<rparr>) one_token_jose keyspace_redis 0 ''t'' dormant_world) = Inl e) \<and>
   get_gql_context (default_settings\<lparr>JWT_BLACKLIST_ENABLED := False\<rparr>) one_token_jose 0 (Some ''Bearer t'') dormant_world =
     (Inr (Some dormant_user), dormant_world)"
proof -
  let ?S = "default_settings\<lparr>JWT_BLACKLIST_ENABLED := False\<rparr>"
  have "show_int (user_id dormant_user) = ''1''"
    by (simp add: dormant_user_def sample_user_def show_int_def digit_char_def show_nat.simps)
  then have "decode_access_token ?S one_token_jose (timegm 0) ''t'' = Inr \<lparr>cl_jti = Some ''j'', cl_sub = Some (show_int (user_id dormant_user)),
      cl_iat = None, cl_exp = None, cl_purpose = None\<rparr>"
    by (simp add: decode_access_token_def one_token_jose_def default_settings_def)
  moreover have "is_token_blacklisted ?S keyspace_redis 0 (user_id dormant_user) ''j'' dormant_world = (Inr False, dormant_world)"
    by (simp add: is_token_blacklisted_def)
  moreover have "bearer_token (Some ''Bearer t'') = ''t''"
    by (simp add: bearer_token_def py_strip_def is_space_def Let_def)
  moreover have "table_wf user_id (users (w_db dormant_world))" "dormant_user \<in> set (t_rows (users (w_db dormant_world)))"
    "\<not> user_is_active dormant_user"
    by (simp_all add: dormant_world_def dormant_user_def sample_user_def table_wf_def)
  ultimately show ?thesis
    using gql_context_skips_revocation [of ?S one_token_jose 0 "''t''" _ dormant_user "CHR ''j''" "[]" keyspace_redis dormant_world False dormant_world
      "Some ''Bearer t''"] by force
qed

end
