(* ===== verification/WebAuthn.thy ===== *)
theory WebAuthn
  imports AuthEndpoints FileStorage
begin

text \<open>
  \<^verbatim>\<open>app/identity/auth/webauthn.py\<close> and the passkey endpoints of \<^verbatim>\<open>app/identity/api/endpoints/auth.py\<close>.

  The library \<^verbatim>\<open>webauthn\<close> is a parameter: it makes options around a random challenge and verifies what an
  authenticator answers. The two dictionaries of pending options are module variables of one process; they
  are the second half of the state. A credential that the client sends is a JSON object. The text that the
  library's exceptions add to a message is left out.
\<close>

section \<open>State and library\<close>

record wa_options =
  wo_challenge :: string
  wo_dict :: "(string \<times> json) list"

record pending =
  pend_registrations :: "string \<rightharpoonup> wa_options"
  pend_authentications :: "string \<rightharpoonup> wa_options"

record verified_registration =
  vr_credential_id :: string
  vr_public_key :: string
  vr_sign_count :: int

type_synonym wa_credential = "(string \<times> json) list"

text \<open>The last argument of the two generators is the challenge they draw; \<open>verify_authentication\<close> gives the new signature
  count of the authenticator.\<close>

record webauthn_lib =
  generate_registration_options :: "string \<Rightarrow> string \<Rightarrow> string \<Rightarrow> string \<Rightarrow> string \<Rightarrow> string \<Rightarrow> wa_options"
  generate_authentication_options :: "string \<Rightarrow> string list \<Rightarrow> string \<Rightarrow> wa_options"
  verify_registration_response :: "wa_credential \<Rightarrow> string \<Rightarrow> string \<Rightarrow> string \<Rightarrow> exn + verified_registration"
  verify_authentication_response ::
    "wa_credential \<Rightarrow> string \<Rightarrow> string \<Rightarrow> string \<Rightarrow> string \<Rightarrow> int \<Rightarrow> exn + int"
  base64url_to_bytes :: "string \<Rightarrow> exn + string"

type_synonym ('r, 'a) wa = "('r world \<times> pending, 'a) io"

text \<open>
  The library gives the identifier and the key of a new passkey as bytes, and both columns are texts. What the database
  driver makes of bytes that are bound to a text column is the parameter \<open>bind\<close>: \<^verbatim>\<open>asyncpg\<close> refuses them.
\<close>

type_synonym byte_binding = "string \<Rightarrow> exn + string"

text \<open>\<open>d.pop(k, None)\<close> on one of the dictionaries\<close>

definition pop_registration :: "string \<Rightarrow> (pending, wa_options option) io" where
  "pop_registration uid = (\<lambda>p. (Inr (pend_registrations p uid),
     p\<lparr>pend_registrations := (pend_registrations p)(uid := None)\<rparr>))"

definition pop_authentication :: "string \<Rightarrow> (pending, wa_options option) io" where
  "pop_authentication uid = (\<lambda>p. (Inr (pend_authentications p uid),
     p\<lparr>pend_authentications := (pend_authentications p)(uid := None)\<rparr>))"

definition credentials_of :: "int \<Rightarrow> ('r, webauthn_credential list) app" where
  "credentials_of uid = select_all webauthn_credentials (\<lambda>c. wac_user_id c = uid)"

section \<open>Registration\<close>

definition begin_registration ::
  "platform_settings \<Rightarrow> webauthn_lib \<Rightarrow> string \<Rightarrow> string \<Rightarrow> string \<Rightarrow> string \<Rightarrow> ('r, (string \<times> json) list) wa" where
  "begin_registration P L challenge uid user_name user_display_name =
     (let options = generate_registration_options L (WEBAUTHN_RP_ID P) (WEBAUTHN_RP_NAME P) uid user_name
                      user_display_name challenge
      in thenM (via_snd (modifyM (\<lambda>p. p\<lparr>pend_registrations := (pend_registrations p)(uid \<mapsto> options)\<rparr>)))
           (returnM (wo_dict options)))"

definition complete_registration ::
  "platform_settings \<Rightarrow> webauthn_lib \<Rightarrow> byte_binding \<Rightarrow> string \<Rightarrow> wa_credential \<Rightarrow> ('r, string \<times> string) wa" where
  "complete_registration P L bind uid credential =
     bindM (via_snd (pop_registration uid)) (\<lambda>expected. case expected of
         None \<Rightarrow> raiseM (HTTPException 400 ''Registration session not found'')
       | Some opts \<Rightarrow>
           (case verify_registration_response L credential (wo_challenge opts) (WEBAUTHN_RP_ID P) (WEBAUTHN_ORIGIN P) of
              Inl _ \<Rightarrow> raiseM (HTTPException 400 ''Invalid registration response'')
            | Inr verified \<Rightarrow>
                bindM (liftM (int_exn uid)) (\<lambda>i.
                bindM (liftM (bind (vr_credential_id verified))) (\<lambda>credential_id.
                bindM (liftM (bind (vr_public_key verified))) (\<lambda>public_key.
                  thenM (via_fst (thenM (bindM (add_credential \<lparr>wac_id = 0, wac_user_id = i,
                           wac_credential_id = credential_id, wac_public_key = public_key,
                           wac_sign_count = vr_sign_count verified\<rparr>) (\<lambda>_. returnM ())) commit))
                    (returnM (''ok'', vr_credential_id verified)))))))"

section \<open>Authentication\<close>

definition begin_authentication ::
  "platform_settings \<Rightarrow> webauthn_lib \<Rightarrow> string \<Rightarrow> string \<Rightarrow> ('r, (string \<times> json) list) wa" where
  "begin_authentication P L challenge uid =
     bindM (liftM (int_exn uid)) (\<lambda>i.
     bindM (via_fst (credentials_of i)) (\<lambda>creds.
       if creds = [] then raiseM (HTTPException 400 ''No registered passkeys'')
       else let options = generate_authentication_options L (WEBAUTHN_RP_ID P) (map wac_credential_id creds) challenge
            in thenM (via_snd (modifyM (\<lambda>p. p\<lparr>pend_authentications := (pend_authentications p)(uid \<mapsto> options)\<rparr>)))
                 (returnM (wo_dict options))))"

definition verify_passkey ::
  "platform_settings \<Rightarrow> webauthn_lib \<Rightarrow> wa_options \<Rightarrow> webauthn_credential \<Rightarrow> wa_credential \<Rightarrow> exn + int" where
  "verify_passkey P L opts db_cred credential =
     (case base64url_to_bytes L (wac_public_key db_cred) of
        Inl e \<Rightarrow> Inl e
      | Inr key \<Rightarrow> verify_authentication_response L credential (wo_challenge opts) (WEBAUTHN_RP_ID P)
          (WEBAUTHN_ORIGIN P) key (wac_sign_count db_cred))"

definition complete_authentication ::
  "platform_settings \<Rightarrow> webauthn_lib \<Rightarrow> string \<Rightarrow> json \<Rightarrow> ('r, bool) wa" where
  "complete_authentication P L uid credential =
     bindM (via_snd (pop_authentication uid)) (\<lambda>expected. case expected of
         None \<Rightarrow> raiseM (HTTPException 400 ''Authentication session not found'')
       | Some opts \<Rightarrow>
           bindM (liftM (int_exn uid)) (\<lambda>i.
           bindM (via_fst (credentials_of i)) (\<lambda>creds.
             if creds = [] then raiseM (HTTPException 400 ''No registered passkeys'')
             else (case credential of
                JObj d \<Rightarrow>
                  (let credential_id = jget d ''id''
                   in if \<not> truthy credential_id then raiseM (HTTPException 400 ''Missing credential ID in response'')
                      else (case find (\<lambda>c. JStr (wac_credential_id c) = credential_id) creds of
                          None \<Rightarrow> raiseM (HTTPException 400 ''Passkey not found for the given credential ID'')
                        | Some db_cred \<Rightarrow>
                            (case verify_passkey P L opts db_cred d of
                               Inl _ \<Rightarrow> raiseM (HTTPException 400 ''Invalid authentication response'')
                             | Inr _ \<Rightarrow> returnM True)))
              | _ \<Rightarrow> raiseM (AttributeError ''get'')))))"

section \<open>Endpoints\<close>

definition webauthn_register_begin ::
  "platform_settings \<Rightarrow> webauthn_lib \<Rightarrow> string \<Rightarrow> user \<Rightarrow> ('r, (string \<times> json) list) wa" where
  "webauthn_register_begin P L challenge current_user =
     begin_registration P L challenge (show_int (user_id current_user)) (user_email current_user)
       (case user_full_name current_user of Some n \<Rightarrow> if n = [] then user_email current_user else n
        | None \<Rightarrow> user_email current_user)"

definition webauthn_register_complete ::
  "platform_settings \<Rightarrow> webauthn_lib \<Rightarrow> byte_binding \<Rightarrow> wa_credential \<Rightarrow> user \<Rightarrow> ('r, string \<times> string) wa" where
  "webauthn_register_complete P L bind credential current_user =
     complete_registration P L bind (show_int (user_id current_user)) credential"

text \<open>The user of an address; an address that is not a text fails in the database driver.\<close>

definition user_of_payload :: "json \<Rightarrow> ('r, user) wa" where
  "user_of_payload uid =
     (case uid of
        JStr email \<Rightarrow> bindM (via_fst (get_by_email email)) (\<lambda>r. case r of
            None \<Rightarrow> raiseM (HTTPException 404 ''User not found'')
          | Some u \<Rightarrow> returnM u)
      | _ \<Rightarrow> raiseM (PyTypeError ''expected str''))"

definition webauthn_login_begin ::
  "platform_settings \<Rightarrow> webauthn_lib \<Rightarrow> string \<Rightarrow> (string \<times> json) list \<Rightarrow> ('r, (string \<times> json) list) wa" where
  "webauthn_login_begin P L challenge payload =
     (let uid = jget payload ''user_id''
      in thenM (guardM (truthy uid) (HTTPException 400 ''user_id required''))
          (bindM (user_of_payload uid) (\<lambda>u. begin_authentication P L challenge (show_int (user_id u)))))"

definition webauthn_login_complete ::
  "settings \<Rightarrow> platform_settings \<Rightarrow> webauthn_lib \<Rightarrow> jose \<Rightarrow> datetime \<Rightarrow> string \<Rightarrow> (string \<times> json) list \<Rightarrow> ('r, string) wa" where
  "webauthn_login_complete S P L J now uuid payload =
     (let uid = jget payload ''user_id''; credential = jget_default payload ''credential'' (JObj [])
      in thenM (guardM (truthy uid \<and> truthy credential) (HTTPException 400 ''user_id and credential required''))
          (bindM (user_of_payload uid) (\<lambda>u.
            bindM (complete_authentication P L (show_int (user_id u)) credential)
              (\<lambda>success.
                if success then returnM (create_access_token S J now uuid (show_int (user_id u)) None)
                else raiseM (HTTPException 401 ''Authentication failed'')))))"

section \<open>Running the operations\<close>

definition forget_authentication :: "string \<Rightarrow> pending \<Rightarrow> pending" where
  "forget_authentication uid p = p\<lparr>pend_authentications := (pend_authentications p)(uid := None)\<rparr>"

lemma pop_authentication_run:
  "pop_authentication uid p = (Inr (pend_authentications p uid), forget_authentication uid p)"
  by (simp add: pop_authentication_def forget_authentication_def)

definition forget_registration :: "string \<Rightarrow> pending \<Rightarrow> pending" where
  "forget_registration uid p = p\<lparr>pend_registrations := (pend_registrations p)(uid := None)\<rparr>"

lemma pop_registration_run: "pop_registration uid p = (Inr (pend_registrations p uid), forget_registration uid p)"
  by (simp add: pop_registration_def forget_registration_def)

lemma begin_registration_run:
  "begin_registration P L ch uid name display (w, p) =
    (let options = generate_registration_options L (WEBAUTHN_RP_ID P) (WEBAUTHN_RP_NAME P) uid name display ch
     in (Inr (wo_dict options), (w, p\<lparr>pend_registrations := (pend_registrations p)(uid \<mapsto> options)\<rparr>)))"
  by (simp add: begin_registration_def Let_def thenM_def bindM_def)

text \<open>Completing a registration forgets the pending options whatever happens, and succeeds only with pending options whose
  challenge the library finds in the answer.\<close>

lemma complete_registration_run:
  obtains r w' where "complete_registration P L bind uid credential (w, p) = (r, (w', forget_registration uid p))"
    "\<And>x. r = Inr x \<Longrightarrow> \<exists>opts v. pend_registrations p uid = Some opts \<and>
       verify_registration_response L credential (wo_challenge opts) (WEBAUTHN_RP_ID P) (WEBAUTHN_ORIGIN P) = Inr v"
    "pend_registrations p uid = None \<Longrightarrow> r = Inl (HTTPException 400 ''Registration session not found'') \<and> w' = w"
proof (cases "pend_registrations p uid")
  case None
  then show ?thesis
    by (intro that [of "Inl (HTTPException 400 ''Registration session not found'')" w])
      (simp_all add: complete_registration_def pop_registration_run)
next
  case (Some opts)
  note pop = pop_registration_run [of uid p]
  show ?thesis
  proof (cases "verify_registration_response L credential (wo_challenge opts) (WEBAUTHN_RP_ID P) (WEBAUTHN_ORIGIN P)")
    case (Inl e)
    then show ?thesis using Some
      by (intro that [of "Inl (HTTPException 400 ''Invalid registration response'')" w])
        (simp_all add: complete_registration_def pop)
  next
    case (Inr v)
    let ?rest = "bindM (liftM (int_exn uid)) (\<lambda>i.
                bindM (liftM (bind (vr_credential_id v))) (\<lambda>credential_id.
                bindM (liftM (bind (vr_public_key v))) (\<lambda>public_key.
                  thenM (via_fst (thenM (bindM (add_credential \<lparr>wac_id = 0, wac_user_id = i,
                           wac_credential_id = credential_id, wac_public_key = public_key,
                           wac_sign_count = vr_sign_count v\<rparr>) (\<lambda>_. returnM ())) commit))
                    (returnM (''ok'', vr_credential_id v)))))"
    have "complete_registration P L bind uid credential (w, p) = ?rest (w, forget_registration uid p)"
      using Some Inr by (simp add: complete_registration_def pop)
    moreover have "\<exists>r w'. ?rest (w, q) = (r, (w', q))" for q
      by (cases "int_exn uid"; cases "bind (vr_credential_id v)"; cases "bind (vr_public_key v)")
        (auto simp: commit_run thenM_def bindM_def split: if_splits)
    ultimately obtain r w' where "complete_registration P L bind uid credential (w, p) = (r, (w', forget_registration uid p))"
      by metis
    then show ?thesis using Some Inr by (intro that [of r w']) auto
  qed
qed

text \<open>With a driver that refuses bytes for a text column, no passkey is ever stored.\<close>

lemma bytes_refused:
  assumes "bind = (\<lambda>_. Inl DataError)"
  shows "\<exists>e q. complete_registration P L bind uid credential (w, p) = (Inl e, (w, q))"
  using assms
  by (cases "pend_registrations p uid"; cases "int_exn uid")
    (auto simp: complete_registration_def pop_registration_run split: sum.split)

lemma credentials_of_run:
  "credentials_of i w = (Inr (select_where (\<lambda>c. wac_user_id c = i) (webauthn_credentials (w_db w))), w)"
  by (simp add: credentials_of_def)

lemma begin_authentication_run:
  "begin_authentication P L ch uid (w, p) =
    (case int_exn uid of Inl e \<Rightarrow> (Inl e, (w, p))
     | Inr i \<Rightarrow>
         (let creds = select_where (\<lambda>c. wac_user_id c = i) (webauthn_credentials (w_db w));
              options = generate_authentication_options L (WEBAUTHN_RP_ID P) (map wac_credential_id creds) ch
          in if creds = [] then (Inl (HTTPException 400 ''No registered passkeys''), (w, p))
             else (Inr (wo_dict options), (w, p\<lparr>pend_authentications := (pend_authentications p)(uid \<mapsto> options)\<rparr>))))"
  by (cases "int_exn uid") (simp_all add: begin_authentication_def credentials_of_run Let_def bindM_def thenM_def)

text \<open>Completing an authentication never touches the database, forgets the pending options whatever happens, and succeeds
  exactly when the library verifies the answer against a passkey of the user and the pending challenge.\<close>

definition passkey_verified ::
  "platform_settings \<Rightarrow> webauthn_lib \<Rightarrow> int \<Rightarrow> wa_options \<Rightarrow> json \<Rightarrow> db \<Rightarrow> bool" where
  "passkey_verified P L i opts credential d \<longleftrightarrow>
     (\<exists>cd c. credential = JObj cd \<and> truthy (jget cd ''id'') \<and>
        find (\<lambda>c. JStr (wac_credential_id c) = jget cd ''id'')
          (select_where (\<lambda>c. wac_user_id c = i) (webauthn_credentials d)) = Some c \<and>
        (\<exists>n. verify_passkey P L opts c cd = Inr n))"

lemma complete_authentication_run:
  "\<exists>r. complete_authentication P L uid credential (w, p) = (r, (w, forget_authentication uid p)) \<and>
    (r = Inr b \<longleftrightarrow> b \<and> (\<exists>opts i. pend_authentications p uid = Some opts \<and> int_exn uid = Inr i \<and>
      passkey_verified P L i opts credential (w_db w)))"
proof -
  note pop = pop_authentication_run [of uid p]
  show ?thesis
  proof (cases "pend_authentications p uid")
    case None
    then show ?thesis by (simp add: complete_authentication_def pop)
  next
    case (Some opts)
    show ?thesis
    proof (cases "int_exn uid")
      case (Inl e)
      then show ?thesis using Some by (simp add: complete_authentication_def pop)
    next
      case (Inr i)
      define creds where "creds = select_where (\<lambda>c. wac_user_id c = i) (webauthn_credentials (w_db w))"
      have creds: "credentials_of i w = (Inr creds, w)" by (simp add: credentials_of_run creds_def)
      have verified: "passkey_verified P L i opts credential (w_db w) \<longleftrightarrow> (\<exists>cd c. credential = JObj cd \<and> truthy (jget cd ''id'') \<and>
          find (\<lambda>c. JStr (wac_credential_id c) = jget cd ''id'') creds = Some c \<and> (\<exists>n. verify_passkey P L opts c cd = Inr n))"
        by (simp add: passkey_verified_def creds_def)
      show ?thesis
        using Some Inr verified
        by (auto simp: complete_authentication_def pop creds Let_def split: json.splits option.splits sum.splits)
    qed
  qed
qed

section \<open>Runs of the protocol\<close>

text \<open>
  The ceremonies of one process, registrations and logins of any users in any order, with the database changing in between.
  The trace tells which challenges were handed out for which user, and which were consumed by a ceremony that succeeded.
  A challenge that the library draws was not drawn before.
\<close>

datatype ceremony = Registration | Authentication

datatype wa_event = Began ceremony string string | Consumed ceremony string string

definition drawn :: "wa_event list \<Rightarrow> string set" where
  "drawn tr = {ch. \<exists>c uid. Began c uid ch \<in> set tr}"

definition consumed :: "wa_event list \<Rightarrow> string list" where
  "consumed tr = List.map_filter (\<lambda>e. case e of Consumed _ _ ch \<Rightarrow> Some ch | Began _ _ _ \<Rightarrow> None) tr"

fun pending_of :: "ceremony \<Rightarrow> pending \<Rightarrow> string \<rightharpoonup> wa_options" where
  "pending_of Registration p = pend_registrations p"
| "pending_of Authentication p = pend_authentications p"

text \<open>Documented behaviour of the library: the options carry the challenge that was drawn.\<close>

definition options_carry :: "webauthn_lib \<Rightarrow> bool" where
  "options_carry L \<longleftrightarrow> (\<forall>rp ids ch. wo_challenge (generate_authentication_options L rp ids ch) = ch) \<and>
     (\<forall>rp rn uid n d ch. wo_challenge (generate_registration_options L rp rn uid n d ch) = ch)"

inductive wa_run :: "platform_settings \<Rightarrow> webauthn_lib \<Rightarrow> 'r world \<Rightarrow> pending \<Rightarrow> wa_event list \<Rightarrow> bool" for P L where
  start: "wa_run P L w \<lparr>pend_registrations = Map.empty, pend_authentications = Map.empty\<rparr> []"
| elsewhere: "wa_run P L w p tr \<Longrightarrow> wa_run P L w' p tr"
| register: "wa_run P L w p tr \<Longrightarrow> ch \<notin> drawn tr \<Longrightarrow> begin_registration P L ch uid name display (w, p) = (Inr r, (w', p')) \<Longrightarrow>
    wa_run P L w' p' (tr @ [Began Registration uid ch])"
| registered: "wa_run P L w p tr \<Longrightarrow> pend_registrations p uid = Some opts \<Longrightarrow>
    complete_registration P L bind uid credential (w, p) = (Inr r, (w', p')) \<Longrightarrow>
    wa_run P L w' p' (tr @ [Consumed Registration uid (wo_challenge opts)])"
| unregistered: "wa_run P L w p tr \<Longrightarrow> complete_registration P L bind uid credential (w, p) = (Inl e, (w', p')) \<Longrightarrow>
    wa_run P L w' p' tr"
| started: "wa_run P L w p tr \<Longrightarrow> ch \<notin> drawn tr \<Longrightarrow> begin_authentication P L ch uid (w, p) = (Inr r, (w', p')) \<Longrightarrow>
    wa_run P L w' p' (tr @ [Began Authentication uid ch])"
| refused: "wa_run P L w p tr \<Longrightarrow> begin_authentication P L ch uid (w, p) = (Inl e, (w', p')) \<Longrightarrow> wa_run P L w' p' tr"
| passed: "wa_run P L w p tr \<Longrightarrow> pend_authentications p uid = Some opts \<Longrightarrow>
    complete_authentication P L uid answer (w, p) = (Inr True, (w', p')) \<Longrightarrow>
    wa_run P L w' p' (tr @ [Consumed Authentication uid (wo_challenge opts)])"
| failed: "wa_run P L w p tr \<Longrightarrow> complete_authentication P L uid answer (w, p) = (Inl e, (w', p')) \<Longrightarrow> wa_run P L w' p' tr"

inductive_cases wa_runE: "wa_run P L w p tr"

text \<open>Pending challenges were drawn for their ceremony and user, no two share one, and none of them is consumed.\<close>

definition wa_inv :: "pending \<Rightarrow> wa_event list \<Rightarrow> bool" where
  "wa_inv p tr \<longleftrightarrow> distinct (consumed tr) \<and> set (consumed tr) \<subseteq> drawn tr \<and>
     (\<forall>c uid opts. pending_of c p uid = Some opts \<longrightarrow>
        Began c uid (wo_challenge opts) \<in> set tr \<and> wo_challenge opts \<notin> set (consumed tr)) \<and>
     (\<forall>c c' uid uid' opts opts'. pending_of c p uid = Some opts \<and> pending_of c' p uid' = Some opts' \<and>
        wo_challenge opts = wo_challenge opts' \<longrightarrow> c = c' \<and> uid = uid') \<and>
     (\<forall>c uid ch. Consumed c uid ch \<in> set tr \<longrightarrow> Began c uid ch \<in> set tr)"

lemma consumed_simps [simp]:
  "consumed [] = []" "consumed (tr @ [Began c uid ch]) = consumed tr" "consumed (tr @ [Consumed c uid ch]) = consumed tr @ [ch]"
  by (simp_all add: consumed_def List.map_filter_def)

lemma drawn_simps [simp]:
  "drawn [] = {}" "drawn (tr @ [Began c uid ch]) = insert ch (drawn tr)" "drawn (tr @ [Consumed c uid ch]) = drawn tr"
  by (auto simp: drawn_def)

text \<open>The three ways in which the pending options change.\<close>

definition forgets :: "ceremony \<Rightarrow> string \<Rightarrow> pending \<Rightarrow> pending \<Rightarrow> bool" where
  "forgets c uid p p' \<longleftrightarrow>
     (\<forall>c' uid'. pending_of c' p' uid' = (if c' = c \<and> uid' = uid then None else pending_of c' p uid'))"

definition stores :: "ceremony \<Rightarrow> string \<Rightarrow> wa_options \<Rightarrow> pending \<Rightarrow> pending \<Rightarrow> bool" where
  "stores c uid opts p p' \<longleftrightarrow>
     (\<forall>c' uid'. pending_of c' p' uid' = (if c' = c \<and> uid' = uid then Some opts else pending_of c' p uid'))"

lemma pending_changes:
  "forgets Authentication uid p (forget_authentication uid p)" "forgets Registration uid p (forget_registration uid p)"
  "stores Authentication uid opts p (p\<lparr>pend_authentications := (pend_authentications p)(uid \<mapsto> opts)\<rparr>)"
  "stores Registration uid opts p (p\<lparr>pend_registrations := (pend_registrations p)(uid \<mapsto> opts)\<rparr>)"
  unfolding forgets_def stores_def
  by (auto simp: forget_authentication_def forget_registration_def split: ceremony.splits; (case_tac c'; simp))+

lemma wa_inv_forget:
  assumes "wa_inv p tr" "forgets c uid p p'"
  shows "wa_inv p' tr"
  using assms unfolding wa_inv_def forgets_def by (auto split: if_splits)

lemma wa_inv_began:
  assumes "wa_inv p tr" "wo_challenge opts \<notin> drawn tr" "stores c uid opts p p'"
  shows "wa_inv p' (tr @ [Began c uid (wo_challenge opts)])"
proof -
  let ?ch = "wo_challenge opts"
  have "Began c' uid' ?ch \<notin> set tr" for c' uid' using assms(2) by (auto simp: drawn_def)
  moreover have "Began c' uid' (wo_challenge q) \<in> set tr" if "pending_of c' p uid' = Some q" for c' uid' q
    using assms(1) that by (auto simp: wa_inv_def)
  ultimately have other: "wo_challenge q \<noteq> ?ch" if "pending_of c' p uid' = Some q" for c' uid' q
    using that by metis
  have "?ch \<notin> set (consumed tr)" using assms(1,2) by (auto simp: wa_inv_def)
  then have "\<forall>c' uid' q. pending_of c' p' uid' = Some q \<longrightarrow>
      Began c' uid' (wo_challenge q) \<in> set (tr @ [Began c uid ?ch]) \<and> wo_challenge q \<notin> set (consumed tr)"
    using assms(1,3) unfolding wa_inv_def stores_def by (auto split: if_splits)
  moreover have uniq: "\<forall>c c' uid uid' opts opts'. pending_of c p uid = Some opts \<and> pending_of c' p uid' = Some opts' \<and>
        wo_challenge opts = wo_challenge opts' \<longrightarrow> c = c' \<and> uid = uid'"
    using assms(1) unfolding wa_inv_def by (elim conjE)
  have "c1 = c2 \<and> u1 = u2" if q: "pending_of c1 p' u1 = Some q1" "pending_of c2 p' u2 = Some q2"
      "wo_challenge q1 = wo_challenge q2" for c1 c2 u1 u2 q1 q2
  proof -
    have old: "c1 = c2 \<and> u1 = u2" if "pending_of c1 p u1 = Some q1" "pending_of c2 p u2 = Some q2"
      using uniq [rule_format, OF conjI [OF that(1) conjI [OF that(2) q(3)]]] .
    have p': "pending_of c' p' u' = (if c' = c \<and> u' = uid then Some opts else pending_of c' p u')" for c' u'
      using assms(3) by (simp add: stores_def)
    have new: "q' = opts" if "pending_of c' p' u' = Some q'" "c' = c \<and> u' = uid" for c' u' q'
      using that p' [of c' u'] by simp
    have kept: "pending_of c' p u' = Some q'" if "pending_of c' p' u' = Some q'" "\<not> (c' = c \<and> u' = uid)" for c' u' q'
      using that p' [of c' u'] by presburger
    consider "c1 = c \<and> u1 = uid" "c2 = c \<and> u2 = uid" | "c1 = c \<and> u1 = uid" "\<not> (c2 = c \<and> u2 = uid)"
      | "\<not> (c1 = c \<and> u1 = uid)" "c2 = c \<and> u2 = uid" | "\<not> (c1 = c \<and> u1 = uid)" "\<not> (c2 = c \<and> u2 = uid)" by blast
    then show ?thesis
    proof cases
      case 2
      then show ?thesis using new [OF q(1) 2(1)] other [OF kept [OF q(2) 2(2)]] q(3) by simp
    next
      case 3
      then show ?thesis using new [OF q(2) 3(2)] other [OF kept [OF q(1) 3(1)]] q(3) by simp
    next
      case 4
      show ?thesis using old [OF kept [OF q(1) 4(1)] kept [OF q(2) 4(2)]] .
    qed simp
  qed
  moreover have "distinct (consumed tr)" "set (consumed tr) \<subseteq> insert ?ch (drawn tr)"
    "\<forall>c' u' ch'. Consumed c' u' ch' \<in> set (tr @ [Began c uid ?ch]) \<longrightarrow> Began c' u' ch' \<in> set (tr @ [Began c uid ?ch])"
    using assms(1) by (auto simp: wa_inv_def)
  ultimately show ?thesis unfolding wa_inv_def consumed_simps drawn_simps by blast
qed

lemma wa_inv_consumed:
  assumes "wa_inv p tr" "pending_of c p uid = Some opts" "forgets c uid p p'"
  shows "wa_inv p' (tr @ [Consumed c uid (wo_challenge opts)])"
proof -
  let ?ch = "wo_challenge opts"
  have b: "Began c uid ?ch \<in> set tr" "?ch \<notin> set (consumed tr)" using assms(1,2) by (auto simp: wa_inv_def)
  then have "?ch \<in> drawn tr" by (auto simp: drawn_def)
  moreover have "wo_challenge q \<noteq> ?ch" if "pending_of c' p' uid' = Some q" for c' uid' q
    using assms that unfolding wa_inv_def forgets_def by (metis option.distinct(1))
  ultimately show ?thesis using wa_inv_forget [OF assms(1,3)] b by (auto simp: wa_inv_def)
qed

lemma wa_run_inv:
  assumes "wa_run P L w p tr" "options_carry L"
  shows "wa_inv p tr"
  using assms
proof (induction rule: wa_run.induct)
  case (start w)
  have "pending_of c \<lparr>pend_registrations = Map.empty, pend_authentications = Map.empty\<rparr> uid = None" for c uid
    by (cases c) simp_all
  then show ?case by (simp add: wa_inv_def)
next
  case (register w p tr ch uid name display r w' p')
  let ?opts = "generate_registration_options L (WEBAUTHN_RP_ID P) (WEBAUTHN_RP_NAME P) uid name display ch"
  have "wo_challenge ?opts = ch" "p' = p\<lparr>pend_registrations := (pend_registrations p)(uid \<mapsto> ?opts)\<rparr>"
    using register.hyps(3) register.prems by (auto simp: begin_registration_run Let_def options_carry_def)
  then show ?case using wa_inv_began [of p tr ?opts Registration uid p'] register pending_changes(4) by simp
next
  case (registered w p tr uid opts bind credential r w' p')
  have "p' = forget_registration uid p"
    using complete_registration_run [of P L bind uid credential w p] registered.hyps(3) by (metis prod.inject)
  then show ?case using wa_inv_consumed [of p tr Registration uid opts p'] registered pending_changes(2) by simp
next
  case (unregistered w p tr bind uid credential e w' p')
  have "p' = forget_registration uid p"
    using complete_registration_run [of P L bind uid credential w p] unregistered.hyps(2) by (metis prod.inject)
  then show ?case using wa_inv_forget [of p tr Registration uid p'] unregistered pending_changes(2) by simp
next
  case (started w p tr ch uid r w' p')
  from started.hyps(3) obtain ids where
    "p' = p\<lparr>pend_authentications := (pend_authentications p)(uid \<mapsto> generate_authentication_options L (WEBAUTHN_RP_ID P) ids ch)\<rparr>"
    by (auto simp: begin_authentication_run Let_def split: sum.splits if_splits)
  then show ?case
    using wa_inv_began [of p tr "generate_authentication_options L (WEBAUTHN_RP_ID P) ids ch" Authentication uid p'] started
      pending_changes(3) by (simp add: options_carry_def)
next
  case (refused w p tr ch uid e w' p')
  then show ?case by (auto simp: begin_authentication_run Let_def split: sum.splits if_splits)
next
  case (passed w p tr uid opts answer w' p')
  then have "p' = forget_authentication uid p"
    using complete_authentication_run [of P L uid answer w p True] by auto
  then show ?case using wa_inv_consumed [of p tr Authentication uid opts p'] passed pending_changes(1) by simp
next
  case (failed w p tr uid answer e w' p')
  then have "p' = forget_authentication uid p"
    using complete_authentication_run [of P L uid answer w p True] by auto
  then show ?case using wa_inv_forget [of p tr Authentication uid p'] failed pending_changes(1) by simp
qed

section \<open>Properties\<close>

text \<open>C30: in every run of one process, a challenge, of a registration or of a login, is consumed at most once, and only by the
  ceremony and the user for which it was drawn; whatever the outcome
  of an attempt is, its challenge is gone, and a second attempt without a new one is refused.\<close>

theorem challenge_single_use:
  assumes "wa_run P L w p tr" "options_carry L"
  shows "distinct (consumed tr) \<and> (\<forall>c uid ch. Consumed c uid ch \<in> set tr \<longrightarrow> Began c uid ch \<in> set tr) \<and>
    (\<forall>uid answer answer'. \<exists>r p1. complete_authentication P L uid answer (w, p) = (r, (w, p1)) \<and>
      complete_authentication P L uid answer' (w, p1) =
        (Inl (HTTPException 400 ''Authentication session not found''), (w, p1))) \<and>
    (\<forall>bind uid cred cred'. \<exists>r w1 p1. complete_registration P L bind uid cred (w, p) = (r, (w1, p1)) \<and>
      complete_registration P L bind uid cred' (w1, p1) =
        (Inl (HTTPException 400 ''Registration session not found''), (w1, p1)))"
proof -
  have second: "\<exists>r p1. complete_authentication P L uid answer (w, p) = (r, (w, p1)) \<and>
      complete_authentication P L uid answer' (w, p1) =
        (Inl (HTTPException 400 ''Authentication session not found''), (w, p1))" for uid answer answer'
  proof -
    have "complete_authentication P L uid answer' (w, forget_authentication uid p) =
        (Inl (HTTPException 400 ''Authentication session not found''), (w, forget_authentication uid p))"
      by (simp add: complete_authentication_def pop_authentication_run) (simp add: forget_authentication_def)
    then show ?thesis using complete_authentication_run [of P L uid answer w p True] by blast
  qed
  have again: "\<exists>r w1 p1. complete_registration P L bind uid cred (w, p) = (r, (w1, p1)) \<and>
      complete_registration P L bind uid cred' (w1, p1) =
        (Inl (HTTPException 400 ''Registration session not found''), (w1, p1))" for bind uid cred cred'
  proof -
    obtain r w1 where 1: "complete_registration P L bind uid cred (w, p) = (r, (w1, forget_registration uid p))"
      by (rule complete_registration_run)
    have "forget_registration uid (forget_registration uid p) = forget_registration uid p"
      "pend_registrations (forget_registration uid p) uid = None"
      by (simp_all add: forget_registration_def)
    then have "complete_registration P L bind uid cred' (w1, forget_registration uid p) =
        (Inl (HTTPException 400 ''Registration session not found''), (w1, forget_registration uid p))"
      by (metis complete_registration_run)
    with 1 show ?thesis by blast
  qed
  show ?thesis using wa_run_inv [OF assms] second again by (auto simp: wa_inv_def)
qed

text \<open>A library that accepts any answer, and a deactivated user with a second factor and one passkey.\<close>

definition easy_webauthn :: webauthn_lib where
  "easy_webauthn = \<lparr>generate_registration_options = (\<lambda>_ _ _ _ _ ch. \<lparr>wo_challenge = ch, wo_dict = []\<rparr>),
     generate_authentication_options = (\<lambda>_ _ ch. \<lparr>wo_challenge = ch, wo_dict = []\<rparr>),
     verify_registration_response = (\<lambda>_ _ _ _. Inr \<lparr>vr_credential_id = ''c'', vr_public_key = ''k'', vr_sign_count = 0\<rparr>),
     verify_authentication_response = (\<lambda>_ _ _ _ _ n. Inr (n + 1)), base64url_to_bytes = Inr\<rparr>"

definition passkey_user :: user where
  "passkey_user = sample_user\<lparr>user_is_active := False, user_totp_enabled := True\<rparr>"

definition passkey_world :: "keyspace world" where
  "passkey_world = sample_world\<lparr>w_db := sample_db\<lparr>users := \<lparr>t_rows = [passkey_user], t_seq = 1\<rparr>,
     webauthn_credentials := \<lparr>t_rows = [\<lparr>wac_id = 1, wac_user_id = 1, wac_credential_id = ''c'', wac_public_key = ''k'',
       wac_sign_count = 0\<rparr>], t_seq = 1\<rparr>\<rparr>\<rparr>"

definition one_pending :: pending where
  "one_pending = \<lparr>pend_registrations = Map.empty, pend_authentications = [show_int 1 \<mapsto> \<lparr>wo_challenge = ''x'', wo_dict = []\<rparr>]\<rparr>"

lemma one_pending_run: "wa_run default_platform easy_webauthn passkey_world one_pending [Began Authentication (show_int 1) ''x'']"
proof -
  have "begin_authentication default_platform easy_webauthn ''x'' (show_int 1)
      (passkey_world, \<lparr>pend_registrations = Map.empty, pend_authentications = Map.empty\<rparr>) = (Inr [], (passkey_world, one_pending))"
    by (simp add: begin_authentication_run int_exn_def passkey_world_def select_where_def easy_webauthn_def one_pending_def)
  from wa_run.started [OF wa_run.start _ this] show ?thesis by simp
qed

lemma passkey_accepted:
  "complete_authentication default_platform easy_webauthn (show_int 1) (JObj [(''id'', JStr ''c'')]) (passkey_world, one_pending) =
    (Inr True, (passkey_world, forget_authentication (show_int 1) one_pending))"
proof -
  have "passkey_verified default_platform easy_webauthn 1 \<lparr>wo_challenge = ''x'', wo_dict = []\<rparr> (JObj [(''id'', JStr ''c'')]) (w_db passkey_world)"
    by (simp add: passkey_verified_def jget_def passkey_world_def select_where_def verify_passkey_def easy_webauthn_def)
  then show ?thesis
    using complete_authentication_run [of default_platform easy_webauthn "show_int 1" "JObj [(''id'', JStr ''c'')]" passkey_world
        one_pending True]
    by (auto simp: one_pending_def int_exn_def)
qed

text \<open>A login consumes its challenge; the same answer is then refused.\<close>

theorem challenge_single_use_witness:
  "\<exists>p tr. wa_run default_platform easy_webauthn passkey_world p tr \<and> consumed tr = [''x''] \<and> distinct (consumed tr) \<and>
    (\<exists>p1. complete_authentication default_platform easy_webauthn (show_int 1) (JObj [(''id'', JStr ''c'')]) (passkey_world, one_pending) =
        (Inr True, (passkey_world, p1)) \<and>
      complete_authentication default_platform easy_webauthn (show_int 1) (JObj [(''id'', JStr ''c'')]) (passkey_world, p1) =
        (Inl (HTTPException 400 ''Authentication session not found''), (passkey_world, p1)))"
proof -
  let ?tr = "[Began Authentication (show_int 1) ''x''] @ [Consumed Authentication (show_int 1) ''x'']"
  have "pend_authentications one_pending (show_int 1) = Some \<lparr>wo_challenge = ''x'', wo_dict = []\<rparr>" by (simp add: one_pending_def)
  from wa_run.passed [OF one_pending_run this passkey_accepted]
  have run: "wa_run default_platform easy_webauthn passkey_world (forget_authentication (show_int 1) one_pending) ?tr" by simp
  have carry: "options_carry easy_webauthn" by (simp add: options_carry_def easy_webauthn_def)
  let ?answer = "JObj [(''id'', JStr ''c'')]"
  have "distinct (consumed ?tr)" using challenge_single_use [OF run carry] by blast
  moreover have "\<forall>uid answer answer'. \<exists>r p1.
      complete_authentication default_platform easy_webauthn uid answer (passkey_world, one_pending) = (r, (passkey_world, p1)) \<and>
      complete_authentication default_platform easy_webauthn uid answer' (passkey_world, p1) =
        (Inl (HTTPException 400 ''Authentication session not found''), (passkey_world, p1))"
    using challenge_single_use [OF one_pending_run carry] by blast
  from this [rule_format, of "show_int 1" ?answer ?answer] obtain r p1 where
    "complete_authentication default_platform easy_webauthn (show_int 1) ?answer (passkey_world, one_pending) = (r, (passkey_world, p1))"
    "complete_authentication default_platform easy_webauthn (show_int 1) ?answer (passkey_world, p1) =
        (Inl (HTTPException 400 ''Authentication session not found''), (passkey_world, p1))"
    by blast
  moreover from this(1) have "r = Inr True" unfolding passkey_accepted by simp
  moreover have "consumed ?tr = [''x'']" by (simp only: consumed_simps append_Nil) (simp add: consumed_def List.map_filter_def)
  ultimately show ?thesis using run by (intro exI [of _ ?tr] exI conjI) auto
qed

text \<open>C31: a passkey login with an answer that names a passkey (a credential object with an identifier) gives an access token of
  the user exactly when a challenge is pending for the user and the library
  verifies the answer with the passkey of that identifier; nothing else is asked, neither whether the account is active or
  locked nor for the second factor. The database is unchanged, so the signature count of the passkey stays what it was at
  registration.\<close>

theorem passkey_login:
  assumes "jget payload ''user_id'' = JStr email" "email \<noteq> []" "get_by_email email w = (Inr (Some u), w)"
    and "jget_default payload ''credential'' (JObj []) = JObj cd" "truthy (jget cd ''id'')"
  shows "\<exists>r. webauthn_login_complete S P L J now uuid payload (w, p) = (r, (w, forget_authentication (show_int (user_id u)) p)) \<and>
    (\<forall>tok. r = Inr tok \<longleftrightarrow> tok = create_access_token S J now uuid (show_int (user_id u)) None \<and>
      (\<exists>opts c n. pend_authentications p (show_int (user_id u)) = Some opts \<and>
        find (\<lambda>c. JStr (wac_credential_id c) = jget cd ''id'')
          (select_where (\<lambda>c. wac_user_id c = user_id u) (webauthn_credentials (w_db w))) = Some c \<and>
        verify_passkey P L opts c cd = Inr n))"
proof -
  let ?uid = "show_int (user_id u)"
  let ?credential = "JObj cd"
  have named: "passkey_verified P L (user_id u) opts ?credential (w_db w) \<longleftrightarrow>
      (\<exists>c n. find (\<lambda>c. JStr (wac_credential_id c) = jget cd ''id'')
          (select_where (\<lambda>c. wac_user_id c = user_id u) (webauthn_credentials (w_db w))) = Some c \<and>
        verify_passkey P L opts c cd = Inr n)" for opts
    using assms(5) by (auto simp: passkey_verified_def)
  have given: "truthy ?credential" using assms(5) by (cases cd) (auto simp: jget_def)
  have int: "int_exn ?uid = Inr (user_id u)" by (simp add: int_exn_def)
  obtain r where r: "complete_authentication P L ?uid ?credential (w, p) = (r, (w, forget_authentication ?uid p))"
    "r = Inr True \<longleftrightarrow> (\<exists>opts. pend_authentications p ?uid = Some opts \<and> passkey_verified P L (user_id u) opts ?credential (w_db w))"
    using complete_authentication_run [of P L ?uid ?credential w p True] int by auto
  moreover have "r \<noteq> Inr False"
    using complete_authentication_run [of P L ?uid ?credential w p False] r(1) by auto
  moreover have "user_of_payload (JStr email) (w, p) = (Inr u, (w, p))"
    using assms(3) by (simp add: user_of_payload_def bindM_def)
  ultimately show ?thesis
    using assms(1,2,4) given
    by (cases r) (auto simp: webauthn_login_complete_def Let_def thenM_def bindM_def named)
qed

theorem passkey_login_witness:
  "\<exists>tok. fst (webauthn_login_complete default_settings default_platform easy_webauthn plain_jose 0 ''u''
      [(''user_id'', JStr ''a@b.c''), (''credential'', JObj [(''id'', JStr ''c'')])] (passkey_world, one_pending)) = Inr tok \<and>
    \<not> user_is_active passkey_user \<and> user_totp_enabled passkey_user"
proof -
  let ?payload = "[(''user_id'', JStr ''a@b.c''), (''credential'', JObj [(''id'', JStr ''c'')])]"
  have "get_by_email ''a@b.c'' passkey_world = (Inr (Some passkey_user), passkey_world)" "user_id passkey_user = 1"
    by (simp_all add: get_by_email_def passkey_world_def passkey_user_def sample_user_def select_where_def)
  moreover have "\<exists>c n. find (\<lambda>c. JStr (wac_credential_id c) = jget [(''id'', JStr ''c'')] ''id'')
        (select_where (\<lambda>c. wac_user_id c = 1) (webauthn_credentials (w_db passkey_world))) = Some c \<and>
      verify_passkey default_platform easy_webauthn \<lparr>wo_challenge = ''x'', wo_dict = []\<rparr> c [(''id'', JStr ''c'')] = Inr n"
    by (simp add: jget_def passkey_world_def select_where_def verify_passkey_def easy_webauthn_def)
  moreover have "truthy (jget [(''id'', JStr ''c'')] ''id'')" by (simp add: jget_def)
  moreover have "jget ?payload ''user_id'' = JStr ''a@b.c''" "jget_default ?payload ''credential'' (JObj []) = JObj [(''id'', JStr ''c'')]"
    by (simp_all add: jget_def jget_default_def)
  ultimately show ?thesis
    using passkey_login [of ?payload "''a@b.c''" passkey_world passkey_user "[(''id'', JStr ''c'')]" default_settings default_platform
      easy_webauthn plain_jose 0 "''u''" one_pending]
    by (fastforce simp: one_pending_def passkey_user_def)
qed

end
