(* ===== verification/System.thy ===== *)
theory System
  imports BillingApi UsersApi EventBus Tenancy Cms Purge Admin Files Tasks Gql WebAuthn
begin

text \<open>
  The application as a whole: requests and background tasks, one after the other, each in a session of its
  own, starting from an empty database. A step may be any modelled handler with any arguments, any answers of
  the external services and any clock readings. The invariant below is proved once per handler, from those
  of the operations it calls.
\<close>

section \<open>The invariant\<close>

text \<open>The amounts of an invoice add up, and its time stamps follow its status.\<close>

definition invoice_ok :: "invoice \<Rightarrow> bool" where
  "invoice_ok v \<longleftrightarrow>
     (inv_subtotal_cents v, inv_tax_cents v) = compute_totals (inv_lines v) \<and>
     inv_total_cents v = inv_subtotal_cents v + inv_tax_cents v \<and>
     (case inv_status v of
        DRAFT \<Rightarrow> inv_issued_at v = None \<and> inv_paid_at v = None
      | OPEN \<Rightarrow> inv_issued_at v \<noteq> None \<and> inv_paid_at v = None
      | PAID \<Rightarrow> inv_issued_at v \<noteq> None \<and> inv_paid_at v \<noteq> None
      | VOID \<Rightarrow> inv_paid_at v = None)"

lemma invoice_ok_id [simp]: "invoice_ok (v\<lparr>inv_id := i\<rparr>) = invoice_ok v"
  by (cases "inv_status v") (simp_all add: invoice_ok_def)

definition db_sound :: "db \<Rightarrow> bool" where
  "db_sound d \<longleftrightarrow> db_keys d \<and> (\<forall>v \<in> set (t_rows (invoices d)). invoice_ok v)"

definition sys_inv :: "'r world \<Rightarrow> bool" where
  "sys_inv w \<longleftrightarrow> db_sound (w_db w) \<and> db_sound (w_committed w) \<and> db_unique (w_committed w)"

named_theorems sys \<open>operations that keep the invariant of the system\<close>

section \<open>Results with a property\<close>

definition yields :: "('w \<Rightarrow> bool) \<Rightarrow> ('w, 'a) io \<Rightarrow> ('a \<Rightarrow> bool) \<Rightarrow> bool" where
  "yields P m Q \<longleftrightarrow> (\<forall>w. P w \<longrightarrow> P (snd (m w)) \<and> (\<forall>x. fst (m w) = Inr x \<longrightarrow> Q x))"

lemma yields_keeps: "yields P m Q \<Longrightarrow> keeps P m"
  by (simp add: yields_def keeps_def)

lemma keeps_bind_yields:
  assumes "yields P m Q" "\<And>x. Q x \<Longrightarrow> keeps P (f x)"
  shows "keeps P (bindM m f)"
proof (rule keepsI)
  fix w assume "P w"
  obtain r w' where run: "m w = (r, w')" by (cases "m w")
  have "P w'" "\<And>x. r = Inr x \<Longrightarrow> Q x" using assms(1) \<open>P w\<close> run by (auto simp: yields_def)
  with run show "P (snd (bindM m f w))"
    by (cases r) (auto intro: keepsD [OF assms(2)])
qed

section \<open>Cases\<close>

lemma keeps_case_list [sys]:
  "keeps P m \<Longrightarrow> (\<And>x xs. keeps P (f x xs)) \<Longrightarrow> keeps P (case v of [] \<Rightarrow> m | x # xs \<Rightarrow> f x xs)"
  by (cases v) simp_all

lemma keeps_case_bool [sys]: "keeps P m \<Longrightarrow> keeps P k \<Longrightarrow> keeps P (case b of True \<Rightarrow> m | False \<Rightarrow> k)"
  by (cases b) simp_all

lemma keeps_reraise [sys]:
  "(\<And>d. keeps P (f d)) \<Longrightarrow> keeps P (case e of LockedOutException d \<Rightarrow> f d | _ \<Rightarrow> raiseM e)"
  "(\<And>d. keeps P (f d)) \<Longrightarrow> keeps P (case e of HTTPError d \<Rightarrow> f d | e' \<Rightarrow> raiseM e')"
  "(\<And>d. keeps P (f d)) \<Longrightarrow> keeps P (case e of ValueError d \<Rightarrow> f d | _ \<Rightarrow> raiseM e)"
  "(\<And>a b. keeps P (g a b)) \<Longrightarrow> keeps P (case e of IllegalTransitionError a b \<Rightarrow> g a b | _ \<Rightarrow> raiseM e)"
  "keeps P m \<Longrightarrow> keeps P k \<Longrightarrow> keeps P (case e of IllegalTransitionError a b \<Rightarrow> m | _ \<Rightarrow> k)"
  by (cases e; auto)+

lemmas [sys] = keeps_intros keeps_case_intros keeps_case_json

section \<open>Primitives\<close>

lemma keeps_select [sys]: "keeps P (select_one tbl Q)" "keeps P (select_all tbl Q)"
  by (simp_all add: keeps_def)

lemma sys_commit [sys]: "keeps sys_inv commit"
  by (simp add: keeps_def sys_inv_def commit_run)

lemma sys_rollback [sys]: "keeps sys_inv rollback"
  by (simp add: keeps_def sys_inv_def)

lemma sys_publish [sys]: "keeps sys_inv (publish b e)"
  by (simp add: keeps_def sys_inv_def publish_run)

lemma sys_redis [sys]: "keeps sys_inv (redis_call m)"
  by (auto simp: keeps_def sys_inv_def redis_call_def split: option.splits prod.splits)

lemma sys_session [sys]:
  assumes "keeps sys_inv m"
  shows "keeps sys_inv (with_session m)"
proof (rule keepsI)
  fix w :: "'a world" assume "sys_inv w"
  with assms have "sys_inv (snd (m w))" by (rule keepsD)
  then show "sys_inv (snd (with_session m w))" by (cases "m w") (simp add: with_session_def sys_inv_def)
qed

text \<open>Inserting and replacing rows keeps the keys.\<close>

lemma sys_add [sys]:
  "keeps sys_inv (db_add users users_update (\<lambda>i r. r\<lparr>user_id := i\<rparr>) u)" "keeps sys_inv (add_key k)" "keeps sys_inv (add_plan p)" "keeps sys_inv (add_sub s)"
  "keeps sys_inv (add_stripe_event e)" "keeps sys_inv (add_audit a)" "keeps sys_inv (add_notification n)"
  "keeps sys_inv (add_preference np)" "keeps sys_inv (add_webhook wh)" "keeps sys_inv (add_delivery dl)" "keeps sys_inv (add_tenant t)"
  "keeps sys_inv (add_ip_rule ir)" "keeps sys_inv (add_file fi)" "keeps sys_inv (add_task_status ts)"
  "keeps sys_inv (add_credential cd)"
  by (auto simp: keeps_def sys_inv_def db_sound_def db_keys_def user_row.wf_insert key_row.wf_insert plan_row.wf_insert
      sub_row.wf_insert sev_row.wf_insert aud_row.wf_insert ntf_row.wf_insert npf_row.wf_insert wh_row.wf_insert dlv_row.wf_insert
      tenant_row.wf_insert ipr_row.wf_insert fil_row.wf_insert tst_row.wf_insert wac_row.wf_insert)

lemma sys_user_inserted [sys]: "keeps P user_inserted"
  by (simp add: keeps_def)

lemma sys_save [sys]:
  "keeps sys_inv (save_user u)" "keeps sys_inv (save_tenant t)" "keeps sys_inv (save_key k)" "keeps sys_inv (save_plan p)"
  "keeps sys_inv (save_sub s)" "keeps sys_inv (save_stripe_event e)" "keeps sys_inv (save_notification n)"
  "keeps sys_inv (save_preference np)" "keeps sys_inv (save_webhook wh)" "keeps sys_inv (save_delivery dl)" "keeps sys_inv (save_ip_rule ir)"
  "keeps sys_inv (save_task_status ts)"
  by (auto simp: keeps_def sys_inv_def db_sound_def db_keys_def user_row.wf_update key_row.wf_update plan_row.wf_update
      sub_row.wf_update sev_row.wf_update tenant_row.wf_update ntf_row.wf_update npf_row.wf_update wh_row.wf_update dlv_row.wf_update
      ipr_row.wf_update tst_row.wf_update)

lemma sys_add_invoice: "invoice_ok v \<Longrightarrow> keeps sys_inv (add_invoice v)"
  by (auto simp: keeps_def sys_inv_def db_sound_def db_keys_def inv_row.wf_insert inv_row.rows_insert next_row_def)

lemma sys_save_invoice: "invoice_ok v \<Longrightarrow> keeps sys_inv (save_invoice v)"
  using inv_row.wf_update [of _ v]
  by (auto simp: keeps_def sys_inv_def db_sound_def db_keys_def dest!: inv_row.update_cases)

lemma sys_invoice_get: "yields sys_inv (invoice_get i) (\<lambda>r. \<forall>v. r = Some v \<longrightarrow> invoice_ok v)"
proof -
  have "v \<in> set (t_rows t)" if "scalar_one_or_none (select_where Q t) = Inr (Some v)" for v :: invoice and Q t
  proof -
    have "v \<in> set (select_where Q t)" using that by (simp add: scalar_one_or_none_Some)
    then show ?thesis by (simp add: select_where_iff)
  qed
  then show ?thesis by (auto simp: yields_def invoice_get_def sys_inv_def db_sound_def)
qed

section \<open>Billing\<close>

lemma sys_reads [sys]:
  "keeps P (plan_get i)" "keeps P (plan_get_by_slug sl)" "keeps P plan_list_active" "keeps P (subscription_get i)"
  "keeps P (get_live_for_tenant t)" "keeps P (invoice_get i)" "keeps P (invoice_get_for_tenant i t')"
  "keeps P (find_blocking_for_period i d)" "keeps P (invoice_list_for_tenant t' st l off)"
  "keeps P (get_subscription_by_stripe_id sid)" "keeps P (resolve_recipients t)"
  unfolding plan_get_def plan_get_by_slug_def plan_list_active_def subscription_get_def get_live_for_tenant_def
    invoice_get_def invoice_get_for_tenant_def find_blocking_for_period_def invoice_list_for_tenant_def
    get_subscription_by_stripe_id_def resolve_recipients_def
  by (intro sys)+

lemma sys_permission [sys]: "keeps P (permission_checker ps sc u)"
  unfolding permission_checker_def by (intro sys)

lemma sys_plans [sys]:
  "keeps sys_inv (create_plan sc u pc)" "keeps sys_inv (update_plan sc u i pu)" "keeps sys_inv (deactivate_plan sc u i)"
  unfolding create_plan_def update_plan_def deactivate_plan_def crud_plan_create_def crud_plan_update_def Let_def
  by (intro sys)+

lemma sys_requires [sys]:
  "keeps P (require_tenant u)" "keeps P (require_active_plan i)" "keeps P (require_live_subscription t)"
  unfolding require_tenant_def require_active_plan_def require_live_subscription_def by (intro sys)+

lemma sys_subscriptions [sys]:
  "keeps sys_inv (subscribe b now u i)" "keeps sys_inv (change_plan b now now' u i)"
  "keeps sys_inv (cancel_subscription b now u im)" "keeps sys_inv (resume_subscription b u)"
  unfolding subscribe_def change_plan_def cancel_subscription_def resume_subscription_def crud_subscription_create_def Let_def
  by (intro sys)+

lemma sys_usage [sys]: "keeps sys_inv (get_usage R now t dm ps)" "keeps sys_inv (increment R now t dm ps pe n)"
  unfolding get_usage_def increment_def Let_def by (intro sys)+

lemma sys_quota [sys]: "keeps sys_inv (enforce_api_quota S R clk clk' now u)"
proof -
  have "keeps sys_inv (cache_entitlements t e)" for t e
    unfolding cache_entitlements_def by (rule keeps_modifyM) (simp add: sys_inv_def)
  then have "keeps sys_inv (resolve_entitlements clk clk' t)" for t
    unfolding resolve_entitlements_def Let_def by (intro sys)
  then show ?thesis unfolding enforce_api_quota_def quota_check_def by (intro sys)
qed

lemma sys_dunning [sys]:
  "keeps sys_inv (publish_to_recipients b' sfx s)" "keeps sys_inv (record_payment_failure S b' now s)"
  "keeps sys_inv (suspend_subscription b' now s)" "keeps sys_inv (recover_subscription b' s)"
proof -
  show p: "keeps sys_inv (publish_to_recipients b' sfx s)" for sfx s
    unfolding publish_to_recipients_def by (intro sys)
  show "keeps sys_inv (record_payment_failure S b' now s)" "keeps sys_inv (suspend_subscription b' now s)"
    "keeps sys_inv (recover_subscription b' s)"
    unfolding record_payment_failure_def suspend_subscription_def recover_subscription_def Let_def
    by (intro sys p)+
qed

lemma sys_dunning_loop [sys]: "keeps sys_inv (sweep_loop S b' now now' subs st)"
  by (induction subs arbitrary: st) (auto simp: dunning_tick_def Let_def intro!: sys)

lemma sys_dunning_task [sys]: "keeps sys_inv (process_dunning S b now now')"
  unfolding process_dunning_def process_dunning_async_def process_due_retries_def Let_def by (intro sys)

text \<open>A generated invoice adds up; the lifecycle operations keep the amounts and set the time stamps.\<close>

lemma append_lines_draft:
  "yields sys_inv (append_dimension_lines R now t ps ds v)
     (\<lambda>v'. inv_status v' = inv_status v \<and> inv_issued_at v' = inv_issued_at v \<and> inv_paid_at v' = inv_paid_at v)"
proof (induction ds arbitrary: v)
  case (Cons d ds)
  obtain dm cfg where d: "d = (dm, cfg)" by (cases d)
  show ?case
    unfolding yields_def
  proof (intro allI impI)
    fix w :: "'a world" assume w: "sys_inv w"
    obtain r w1 where u: "get_usage R now t dm ps w = (r, w1)" by (cases "get_usage R now t dm ps w")
    have w1: "sys_inv w1" using keepsD_run [OF sys_usage(1) w u] .
    show "sys_inv (snd (append_dimension_lines R now t ps (d # ds) v w)) \<and>
      (\<forall>x. fst (append_dimension_lines R now t ps (d # ds) v w) = Inr x \<longrightarrow>
        inv_status x = inv_status v \<and> inv_issued_at x = inv_issued_at v \<and> inv_paid_at x = inv_paid_at v)"
    proof (cases r)
      case (Inr n)
      then show ?thesis
        using u w1 Cons.IH [of v] Cons.IH [of "v\<lparr>inv_lines := inv_lines v @ [_]\<rparr>"]
        by (auto simp: d Let_def yields_def)
    qed (use u w1 in \<open>simp add: d\<close>)
  qed
qed (simp add: yields_def)

lemma apply_totals_ok:
  "inv_status v = DRAFT \<Longrightarrow> inv_issued_at v = None \<Longrightarrow> inv_paid_at v = None \<Longrightarrow> invoice_ok (apply_totals v)"
  by (simp add: invoice_ok_def apply_totals_def split: prod.splits)

lemma sys_invoice_create: "invoice_ok v \<Longrightarrow> keeps sys_inv (crud_invoice_create v [])"
  unfolding crud_invoice_create_def by (intro sys sys_add_invoice) simp

lemma sys_metered:
  assumes "inv_status v = DRAFT" "inv_issued_at v = None" "inv_paid_at v = None"
  shows "yields sys_inv (append_metered_lines R now v p t ps)
    (\<lambda>v'. inv_status v' = DRAFT \<and> inv_issued_at v' = None \<and> inv_paid_at v' = None)"
  using assms append_lines_draft [of R now _ ps "extract_metering (plan_metering p)" v]
  by (auto simp: append_metered_lines_def yields_def split: option.splits)

lemma sys_generate [sys]: "keeps sys_inv (generate_invoice R now s p ps pe)"
  unfolding generate_invoice_def Let_def
  by (intro sys keeps_bind_yields [OF sys_metered] sys_invoice_create apply_totals_ok)
    (simp_all add: draft_invoice_def)

lemma transition_from:
  "assert_invoice_transition st OPEN = Inr () \<Longrightarrow> st = DRAFT" "assert_invoice_transition st PAID = Inr () \<Longrightarrow> st = OPEN"
  "assert_invoice_transition st VOID = Inr () \<Longrightarrow> st = DRAFT \<or> st = OPEN"
  by (cases st; simp add: assert_invoice_transition_def)+

lemma keeps_then_lift: "(\<And>x. r = Inr x \<Longrightarrow> keeps P k) \<Longrightarrow> keeps P (thenM (liftM r) k)"
  by (cases r) (auto simp: thenM_def keeps_raiseM)

lemma keeps_option_ok: "Q r \<Longrightarrow> keeps P m \<Longrightarrow> (\<And>x. Q (Some x) \<Longrightarrow> keeps P (f x)) \<Longrightarrow> keeps P (case r of None \<Rightarrow> m | Some x \<Rightarrow> f x)"
  by (cases r) simp_all

lemma sys_lifecycle [sys]:
  "keeps sys_inv (issue now i)" "keeps sys_inv (mark_paid now i b')" "keeps sys_inv (void i)"
  unfolding issue_def mark_paid_def void_def Let_def
  by (rule keeps_bind_yields [OF sys_invoice_get], rule keeps_option_ok, assumption, rule keeps_raiseM,
      intro keeps_then_lift keeps_thenM sys_save_invoice sys,
      force simp: invoice_ok_def dest!: transition_from)+

lemma sys_sweep [sys]: "keeps sys_inv (generate_due_invoices R now)"
proof -
  have "keeps sys_inv (sweep_subscriptions R now subs st)" for subs st
    by (induction subs arbitrary: st) (auto simp: sweep_subscription_def intro!: sys)
  then show ?thesis unfolding generate_due_invoices_def by (intro sys)
qed

lemma sys_invoice_endpoints [sys]:
  "keeps sys_inv (generate_invoice_endpoint R b now sc u ps pe)" "keeps sys_inv (issue_invoice b now sc u i)"
  "keeps sys_inv (pay_invoice b now sc u i)" "keeps sys_inv (void_invoice b sc u i)"
  unfolding generate_invoice_endpoint_def issue_invoice_def pay_invoice_def void_invoice_def lifecycle_endpoint_def
    ensure_tenant_invoice_def
  by (intro sys)+

section \<open>Stripe\<close>

lemma sys_stripe_parts [sys]:
  "keeps sys_inv (record_event eid typ)" "keeps sys_inv (mark_processed now eid)"
  "keeps sys_inv (handle_checkout_completed repr now d)" "keeps sys_inv (handle_subscription_sync repr now d)"
  "keeps sys_inv (handle_payment_failed S b' now d)"
  unfolding record_event_def mark_processed_def handle_checkout_completed_def handle_subscription_sync_def
    handle_payment_failed_def Let_def
  by (intro sys)+

lemma sys_stripe [sys]: "keeps sys_inv (stripe_webhook S hmac repr loads b now body sig)"
  unfolding stripe_webhook_def process_event_def dispatch_event_def Let_def by (intro sys)

lemma sys_checkout [sys]: "keeps sys_inv (create_checkout S repr http u i su cu)"
  unfolding create_checkout_def checkout_customer_def by (intro sys)

section \<open>Users, keys and sessions\<close>

lemma sys_reads_identity [sys]:
  "keeps P (crud_get M i incl)" "keeps P (get_multi M i j incl)" "keeps P (get_multi_cursor M cr j incl)"
  "keeps P (get_by_email em)" "keeps P (get_by_username un)" "keeps P (get_with_roles i)" "keeps P (get_by_oauth pr pid)"
  "keeps P (get_by_prefix px)" "keeps P (owned_key dt u kr)" "keeps P (found_user dt ur)"
  unfolding crud_get_def get_multi_def get_multi_cursor_def get_by_email_def get_by_username_def get_with_roles_def
    get_by_oauth_def get_by_prefix_def owned_key_def found_user_def Let_def
  by (intro sys)+

lemma sys_user_model [sys]:
  "keeps sys_inv (crud_create user_model u)" "keeps sys_inv (crud_update user_model u f)"
  "keeps sys_inv (crud_delete user_model now i)" "keeps sys_inv (crud_restore user_model i)"
  unfolding crud_create_def crud_update_def crud_delete_def crud_restore_def Let_def user_model_def
    model.select_convs option.case prod.case
  by (intro sys)+

lemma sys_key_model [sys]:
  "keeps sys_inv (crud_update key_model k f)" "keeps sys_inv (crud_delete key_model now i)" "keeps sys_inv (crud_restore key_model i)"
  unfolding crud_update_def crud_delete_def crud_restore_def Let_def key_model_def model.select_convs option.case prod.case
  by (intro sys)+

lemma sys_bulk [sys]: "keeps sys_inv (crud_bulk_create user_model us)"
proof -
  have "keeps sys_inv (db_add_all user_model us)" for us
  proof (induction us)
    case (Cons u us)
    have "keeps sys_inv (db_add (m_tbl user_model) (m_upd user_model) (m_set_id user_model) u)"
      unfolding user_model_def model.select_convs by (rule sys_add)
    with Cons show ?case unfolding db_add_all.simps by (intro sys)
  qed (simp only: db_add_all.simps keeps_returnM)
  then show ?thesis unfolding crud_bulk_create_def by (intro sys)
qed

lemma sys_purge [sys]: "keeps sys_inv (crud_purge user_model now n)"
proof -
  have "table_wf user_id t \<Longrightarrow> table_wf user_id (t\<lparr>t_rows := filter Q (t_rows t)\<rparr>)" for Q and t :: "user table"
    by (auto simp: table_wf_def distinct_map_filter list_all_iff)
  then have "keeps sys_inv (modifyM (\<lambda>w. w\<lparr>w_db := users_update (\<lambda>t. t\<lparr>t_rows := filter Q (t_rows t)\<rparr>) (w_db w)\<rparr>))" for Q
    by (intro keeps_modifyM) (simp add: sys_inv_def db_sound_def db_keys_def)
  then show ?thesis
    unfolding crud_purge_def Let_def user_model_def model.select_convs option.case prod.case by (intro sys)
qed

lemma sys_audit [sys]: "keeps sys_inv (log_auth_event c typ uid tid dt)"
  unfolding log_auth_event_def by (intro sys)

lemma sys_authenticate [sys]: "keeps sys_inv (authenticate_user S B now c em pw)"
  unfolding authenticate_user_def login_failed_def login_ok_def Let_def by (intro sys)

lemma sys_jwt [sys]:
  "keeps sys_inv (blacklist_token S R now i jti ex)" "keeps sys_inv (is_token_blacklisted S R now i jti)"
  "keeps sys_inv (store_session S R now i sp)" "keeps sys_inv (revoke_session S R now i jti ex)"
  "keeps sys_inv (get_session R now i jti)"
  unfolding blacklist_token_def is_token_blacklisted_def store_session_def revoke_session_def get_session_def Let_def
  by (intro sys)+

lemma sys_session_lists [sys]:
  "keeps sys_inv (list_active_sessions S R now i)" "keeps sys_inv (revoke_all_user_sessions S R now i)"
proof -
  have "keeps sys_inv (collect_sessions R now i ms)" for ms
    by (induction ms) (simp_all only: collect_sessions.simps Let_def, (intro sys; assumption)+)
  then show "keeps sys_inv (list_active_sessions S R now i)" unfolding list_active_sessions_def by (intro sys)
  have "keeps sys_inv (revoke_each S R now i ms)" for ms
    by (induction ms) (simp_all only: revoke_each.simps Let_def, (intro sys; assumption)+)
  then show "keeps sys_inv (revoke_all_user_sessions S R now i)" unfolding revoke_all_user_sessions_def by (intro sys)
qed

lemma sys_current_user [sys]:
  "keeps sys_inv (api_key_verify sha now raw)" "keeps sys_inv (get_current_user S J R now tk)"
  unfolding api_key_verify_def get_current_user_def Let_def by (intro sys)+

lemma sys_key_endpoints [sys]:
  "keeps sys_inv (create_api_key sha hex sc u kc)" "keeps sys_inv (update_api_key u i f)"
  "keeps sys_inv (delete_api_key now u i)" "keeps sys_inv (restore_api_key u i)"
  unfolding create_api_key_def create_with_raw_key_def update_api_key_def delete_api_key_def restore_api_key_def
  by (intro sys)+

lemma sys_tokens [sys]: "keeps sys_inv (store_sessions S J R now c i tok)" "keeps sys_inv (issue_tokens S J R now ids c u)"
  unfolding issue_tokens_def store_sessions_def Let_def by (intro sys)+

lemma sys_auth_endpoints [sys]:
  "keeps sys_inv (register B salt uc)" "keeps sys_inv (login_for_access_token S B J R now hex ids c un pw)"
  "keeps sys_inv (login_with_totp S J R sha P now ids c ch code)" "keeps sys_inv (refresh_access_token S J R now ids c tk)"
  "keeps sys_inv (request_magic_link S J now uid c em)" "keeps sys_inv (verify_magic_link S J R now hex rp ids c tk)"
  unfolding register_def crud_user_create_def login_for_access_token_def login_with_totp_def refresh_access_token_def
    request_magic_link_def verify_magic_link_def Let_def
  by (intro sys)+

lemma sys_oauth [sys]: "keeps sys_inv (oauth_callback S B J R C H repr now salt rp ids c pr code st ru)"
  unfolding oauth_callback_def consume_oauth_state_def cache_get_def cache_delete_def link_oauth_account_def
    create_oauth_user_def Let_def
  by (intro sys)

lemma sys_revocation [sys]:
  "keeps sys_inv (revoke_token S J R now c tk u)" "keeps sys_inv (revoke_all_tokens S R now c u)"
  "keeps sys_inv (revoke_session_endpoint S R now c jti u)" "keeps sys_inv (verify_email S J now tk)"
  unfolding revoke_token_def revoke_all_tokens_def revoke_session_endpoint_def verify_email_def Let_def
  by (intro sys)+

lemma sys_totp [sys]:
  "keeps sys_inv (enable_totp S P sha sh ch u)" "keeps sys_inv (verify_enable_totp S P now code u)" "keeps sys_inv (disable_totp B pw u)"
  unfolding enable_totp_def verify_enable_totp_def disable_totp_def Let_def by (intro sys)+

lemma sys_users [sys]:
  "keeps sys_inv (update_user B salt sc u i uu)" "keeps sys_inv (delete_user now sc u i)" "keeps sys_inv (restore_user sc u i)"
  "keeps sys_inv (purge_deleted_users now sc u n)" "keeps sys_inv (bulk_create_users B salts sc u us)"
  "keeps sys_inv (import_users_csv B salts rd sc u content)"
  unfolding update_user_def crud_user_update_def delete_user_def restore_user_def purge_deleted_users_def bulk_create_users_def
    crud_user_bulk_create_def import_users_csv_def Let_def
  by (intro sys)+

section \<open>Notifications and webhooks\<close>

text \<open>What is outside of the database does not matter to the invariant.\<close>

lemma sys_outside [sys]:
  "keeps sys_inv (modifyM (\<lambda>w. w\<lparr>w_conns := f w\<rparr>))" "keeps sys_inv (modifyM (\<lambda>w. w\<lparr>w_outbox := g w\<rparr>))"
  "keeps sys_inv (modifyM (\<lambda>w. w\<lparr>w_tenant := h w\<rparr>))" "keeps sys_inv (delay br tk)"
  by (simp_all add: keeps_def sys_inv_def delay_run)

lemma sys_sockets [sys]:
  "keeps sys_inv (ws_connect sk us)" "keeps sys_inv (ws_disconnect sk us)" "keeps sys_inv (send_personal_message al ms us)"
  "keeps sys_inv (broadcast al ms)"
proof -
  have send: "keeps sys_inv (send_each al ms cs)" for cs
    by (induction cs) (simp only: send_each.simps keeps_returnM, simp only: split_paired_all send_each.simps send_text_def, intro sys, assumption)
  show "keeps sys_inv (ws_connect sk us)" "keeps sys_inv (ws_disconnect sk us)" "keeps sys_inv (send_personal_message al ms us)"
    "keeps sys_inv (broadcast al ms)"
    unfolding ws_connect_def ws_disconnect_def send_personal_message_def broadcast_def by (intro sys send)+
qed

lemma sys_notification_reads [sys]:
  "keeps P (npf_get_for_user i)" "keeps P (channel_enabled i ch)" "keeps P (ntf_get_for_user i j)" "keeps P (get_owned_notification nr)"
  "keeps P (get_owned_webhook wr u)" "keeps P (get_active_for_event_type ty)" "keeps P (get_delivery_with_webhook i)"
  unfolding npf_get_for_user_def channel_enabled_def ntf_get_for_user_def get_owned_notification_def get_owned_webhook_def
    get_active_for_event_type_def get_delivery_with_webhook_def
  by (intro sys)+

lemma sys_soft_models [sys]:
  "keeps sys_inv (crud_delete notification_model now i)" "keeps sys_inv (crud_restore notification_model i)"
  "keeps sys_inv (crud_update webhook_model wh f)" "keeps sys_inv (crud_delete webhook_model now i)" "keeps sys_inv (crud_restore webhook_model i)"
  unfolding crud_update_def crud_delete_def crud_restore_def Let_def notification_model_def webhook_model_def
    model.select_convs option.case prod.case
  by (intro sys)+

lemma sys_read_all [sys]: "keeps sys_inv (ntf_mark_all_read now i)"
proof -
  have "table_wf ntf_id t \<Longrightarrow> table_wf ntf_id (read_all_rows now i t)" for t
    by (auto simp: table_wf_def read_all_rows_def list_all_iff comp_def if_distrib cong: if_cong)
  then have "keeps sys_inv (modifyM (\<lambda>w. w\<lparr>w_db := notifications_update (read_all_rows now i) (w_db w)\<rparr>))"
    by (intro keeps_modifyM) (simp add: sys_inv_def db_sound_def db_keys_def)
  then show ?thesis unfolding ntf_mark_all_read_def by (intro sys)
qed

lemma sys_notifications [sys]:
  "keeps sys_inv (get_preferences u)" "keeps sys_inv (update_preferences pu u)" "keeps sys_inv (mark_read now i u)"
  "keeps sys_inv (mark_all_read now u)" "keeps sys_inv (delete_notification now i u)" "keeps sys_inv (restore_notification i u)"
  "keeps sys_inv (send_test_notification b ti bd u)" "keeps sys_inv (handle_notification_event S C repr al br e)"
  unfolding get_preferences_def update_preferences_def npf_get_or_create_def npf_update_for_user_def mark_read_def ntf_mark_read_def
    mark_all_read_def delete_notification_def restore_notification_def send_test_notification_def handle_notification_event_def
    create_in_app_def ntf_create_for_user_def push_websocket_def dispatch_email_def Let_def
  by (intro sys)+

lemma sys_webhooks [sys]:
  "keeps sys_inv (create_webhook sec sc u wc)" "keeps sys_inv (update_webhook i sc u wu)" "keeps sys_inv (delete_webhook now i sc u)"
  "keeps sys_inv (restore_webhook i sc u)" "keeps sys_inv (ping_webhook S br now eid i sc u)" "keeps sys_inv (handle_event S br now e)"
  "keeps sys_inv (deliver_webhook S hmac dumps ts now http i)"
  unfolding create_webhook_def create_with_secret_def update_webhook_def delete_webhook_def restore_webhook_def ping_webhook_def
    handle_event_def enqueue_delivery_def create_delivery_def deliver_webhook_def perform_delivery_def record_delivery_outcome_def Let_def
  by (intro sys)+

section \<open>Events and chat\<close>

lemma sys_bus [sys]:
  "keeps sys_inv (consume_batch C (run_dispatcher S C repr al br now) reg ack ms)" "keeps sys_inv (publish_event b uuid ts ty pl)"
  "keeps sys_inv (process_event_task C al js)"
proof -
  have run: "keeps sys_inv (run_dispatcher S C repr al br now d e)" for d e
    unfolding run_dispatcher_def by (cases d) (simp_all only: dispatcher.case sys_webhooks sys_notifications)
  have handlers: "keeps sys_inv (run_handlers (run_dispatcher S C repr al br now) e hs)" for e hs
    by (induction hs) (simp_all only: run_handlers.simps, (intro sys run; assumption)+)
  show "keeps sys_inv (consume_batch C (run_dispatcher S C repr al br now) reg ack ms)"
    by (induction ms) (simp_all only: consume_batch.simps, (intro sys handlers; assumption)+)
  show "keeps sys_inv (publish_event b uuid ts ty pl)" "keeps sys_inv (process_event_task C al js)"
    unfolding publish_event_def process_event_task_def broadcast_event_def Let_def by (intro sys)+
qed

lemma sys_chat [sys]: "keeps sys_inv (chat_endpoint S J now al sk tk txs)"
  unfolding chat_endpoint_def get_current_user_ws_def by (intro sys)

section \<open>Tenants\<close>

lemma wf_delete_row: "table_wf rid t \<Longrightarrow> table_wf rid (delete_row rid i t)"
  by (auto simp: table_wf_def delete_row_def list_all_iff distinct_map_filter)

lemma sys_tenants [sys]:
  "keeps sys_inv (create_tenant u nm sl)" "keeps sys_inv (create_ip_rule u i ic ac pr ds)" "keeps sys_inv (update_ip_rule u i ru)"
  "keeps sys_inv (delete_ip_rule u i)"
proof -
  have "keeps sys_inv (modifyM (\<lambda>w. w\<lparr>w_db := ip_rules_update (delete_row ipr_id j) (w_db w)\<rparr>))" for j
    by (intro keeps_modifyM) (simp add: sys_inv_def db_sound_def db_keys_def wf_delete_row)
  then show "keeps sys_inv (create_tenant u nm sl)" "keeps sys_inv (create_ip_rule u i ic ac pr ds)" "keeps sys_inv (update_ip_rule u i ru)"
    "keeps sys_inv (delete_ip_rule u i)"
    unfolding create_tenant_def create_ip_rule_def update_ip_rule_def delete_ip_rule_def ip_rule_create_def ip_rule_update_def
      ip_rule_remove_def ip_rule_get_def found_rule_def Let_def
    by (intro sys)+
qed

section \<open>Content and maintenance\<close>

lemma sys_content_writes [sys]:
  "keeps sys_inv (db_add cms_pages cms_pages_update (\<lambda>i r. r\<lparr>cpg_id := i\<rparr>) pg)" "keeps sys_inv (db_save cms_pages_update cpg_id pg)"
  "keeps sys_inv (db_add cms_posts cms_posts_update (\<lambda>i r. r\<lparr>pst_id := i\<rparr>) ps)" "keeps sys_inv (db_save cms_posts_update pst_id ps)"
  "keeps sys_inv (db_add categories categories_update (\<lambda>i r. r\<lparr>cat_id := i\<rparr>) ca)" "keeps sys_inv (db_save categories_update cat_id ca)"
  "keeps sys_inv (db_add tags tags_update (\<lambda>i r. r\<lparr>tag_id := i\<rparr>) tg)"
  "keeps sys_inv (modifyM (\<lambda>w. w\<lparr>w_db := categories_update (delete_row cat_id j) (w_db w)\<rparr>))"
  "keeps sys_inv (modifyM (\<lambda>w. w\<lparr>w_db := tags_update (delete_row tag_id j) (w_db w)\<rparr>))"
  by (auto simp: keeps_def sys_inv_def db_sound_def db_keys_def cpg_row.wf_insert cpg_row.wf_update pst_row.wf_insert pst_row.wf_update
      cat_row.wf_insert cat_row.wf_update tag_row.wf_insert wf_delete_row)

lemma wf_map_rows: "table_wf rid t \<Longrightarrow> (\<And>r. rid (f r) = rid r) \<Longrightarrow> table_wf rid (map_rows f t)"
  by (simp add: table_wf_def map_rows_def list_all_iff comp_def)

lemma sys_unlink [sys]:
  "keeps sys_inv (modifyM (\<lambda>w. w\<lparr>w_db := unlink_category j (w_db w)\<rparr>))" "keeps sys_inv (modifyM (\<lambda>w. w\<lparr>w_db := unlink_tag j (w_db w)\<rparr>))"
  by (auto intro!: keeps_modifyM simp: sys_inv_def db_sound_def db_keys_def unlink_category_def unlink_tag_def wf_map_rows)

lemma sys_links [sys]: "keeps P (assign_links K cs ts r)" "keeps P (found_content K sl)" "keeps P (slug_free K sl)"
  unfolding assign_links_def found_content_def slug_free_def content_get_by_slug_def by (intro sys)+

lemma sys_content [sys]:
  "keeps sys_inv (create_page md now u pgc)" "keeps sys_inv (update_page md u sl pgu)" "keeps sys_inv (delete_page now u sl)"
  "keeps sys_inv (create_post md now u psc)" "keeps sys_inv (update_post md u sl psu)" "keeps sys_inv (delete_post now u sl)"
  unfolding create_page_def update_page_def delete_page_def create_post_def update_post_def delete_post_def create_content_def
    update_content_def delete_content_def create_with_relations_def update_with_relations_def crud_delete_def Let_def content_defs
    content.select_convs model.select_convs option.case prod.case
  by (intro sys)+

lemma sys_taxonomy [sys]:
  "keeps sys_inv (create_category u nm sl ds)" "keeps sys_inv (update_category u i ctu)" "keeps sys_inv (delete_category now u i)"
  "keeps sys_inv (create_tag u nm sl)" "keeps sys_inv (delete_tag now u i)"
  unfolding create_category_def update_category_def delete_category_def create_tag_def delete_tag_def crud_create_def crud_update_def
    crud_delete_def category_get_by_slug_def tag_get_by_slug_def Let_def category_model_def tag_model_def
    model.select_convs option.case prod.case
  by (intro sys)+

lemma sys_purge_task [sys]: "keeps sys_inv (purge_soft_deleted S now)"
proof -
  have "keeps sys_inv (purge_model user_model c)" "keeps sys_inv (purge_model notification_model c)" "keeps sys_inv (purge_model webhook_model c)"
    "keeps sys_inv (purge_model key_model c)" for c
    unfolding purge_model_def by (intro sys keeps_modifyM; simp add: sys_inv_def db_sound_def db_keys_def model_defs wf_drop_rows)+
  then show ?thesis unfolding purge_soft_deleted_def Let_def by (intro sys)
qed

section \<open>Admin pages\<close>

lemma sys_admin_reads [sys]:
  "keeps P (require_admin u)" "keeps P (admin_table tb u)" "keeps P (registered tb)" "keeps P (permitted u cf)"
  "keeps P (billing_action tb ac u)" "keeps P (found_subscription i)" "keeps P (found_object K i)" "keeps P (email_unused K fd)"
  "keeps P (set_default_password_for_user K ob)"
  unfolding require_admin_def admin_table_def registered_def permitted_def billing_action_def require_billing_action_def
    found_subscription_def found_object_def email_unused_def set_default_password_for_user_def crud_get_def
  by (intro sys)+

lemma sys_admin_cache [sys]: "keeps sys_inv (cache_delete R now k)" "keeps sys_inv (invalidate_count R now tb)"
proof -
  have "keeps sys_inv (case e of RuntimeError x \<Rightarrow> returnM () | _ \<Rightarrow> raiseM e)" for e
    by (cases e) (simp_all add: sys)
  then show "keeps sys_inv (cache_delete R now k)" "keeps sys_inv (invalidate_count R now tb)"
    unfolding invalidate_count_def cache_delete_def by (intro sys)+
qed

lemma sys_admin_deletes [sys]:
  "keeps sys_inv (modifyM (\<lambda>w. w\<lparr>w_db := tenants_update (delete_row tnt_id j) (w_db w)\<rparr>))"
  "keeps sys_inv (modifyM (\<lambda>w. w\<lparr>w_db := preferences_update (delete_row npf_id j) (w_db w)\<rparr>))"
  by (auto simp: keeps_def sys_inv_def db_sound_def db_keys_def wf_delete_row)

lemma sys_admin_edit [sys]:
  "keeps sys_inv (admin_edit R user_class now u tb i fd)" "keeps sys_inv (admin_edit R tenant_class now u tb i fd)"
  "keeps sys_inv (admin_edit R notification_class now u tb i fd)" "keeps sys_inv (admin_edit R preference_class now u tb i fd)"
  "keeps sys_inv (admin_create R user_class now u tb fd)" "keeps sys_inv (admin_create R tenant_class now u tb fd)"
  "keeps sys_inv (admin_create R notification_class now u tb fd)" "keeps sys_inv (admin_create R preference_class now u tb fd)"
  "keeps sys_inv (admin_delete R user_class now u tb i)" "keeps sys_inv (admin_delete R tenant_class now u tb i)"
  "keeps sys_inv (admin_delete R notification_class now u tb i)" "keeps sys_inv (admin_delete R preference_class now u tb i)"
  "keeps sys_inv (admin_restore R user_class now u tb i)" "keeps sys_inv (admin_restore R notification_class now u tb i)"
proof -
  have cls: "cls_model user_class = user_model" "cls_model notification_class = notification_model"
    "cls_model tenant_class = \<lparr>m_tbl = tenants, m_upd = tenants_update, m_rid = tnt_id, m_set_id = (\<lambda>i r. r\<lparr>tnt_id := i\<rparr>), m_soft = None\<rparr>"
    "cls_model preference_class = \<lparr>m_tbl = preferences, m_upd = preferences_update, m_rid = npf_id, m_set_id = (\<lambda>i r. r\<lparr>npf_id := i\<rparr>), m_soft = None\<rparr>"
    by (simp_all add: user_class_def notification_class_def tenant_class_def preference_class_def)
  show "keeps sys_inv (admin_edit R user_class now u tb i fd)" "keeps sys_inv (admin_edit R tenant_class now u tb i fd)"
    "keeps sys_inv (admin_edit R notification_class now u tb i fd)" "keeps sys_inv (admin_edit R preference_class now u tb i fd)"
    "keeps sys_inv (admin_create R user_class now u tb fd)" "keeps sys_inv (admin_create R tenant_class now u tb fd)"
    "keeps sys_inv (admin_create R notification_class now u tb fd)" "keeps sys_inv (admin_create R preference_class now u tb fd)"
    "keeps sys_inv (admin_delete R user_class now u tb i)" "keeps sys_inv (admin_delete R tenant_class now u tb i)"
    "keeps sys_inv (admin_delete R notification_class now u tb i)" "keeps sys_inv (admin_delete R preference_class now u tb i)"
    "keeps sys_inv (admin_restore R user_class now u tb i)" "keeps sys_inv (admin_restore R notification_class now u tb i)"
    unfolding admin_edit_def admin_create_def admin_delete_def admin_restore_def cls user_model_def notification_model_def
      model.select_convs option.case prod.case crud_get_def
    by (intro sys)+
qed

lemma sys_admin_actions [sys]:
  "keeps sys_inv (admin_subscription_override_plan b R now u i fd)" "keeps sys_inv (admin_subscription_set_status b R rp now u i fd)"
  "keeps sys_inv (admin_invoice_refund S repr http R now u i fd)" "keeps sys_inv (admin_revoke_session S R now u fd)"
  unfolding admin_subscription_override_plan_def admin_subscription_set_status_def admin_invoice_refund_def admin_revoke_session_def
    get_session_def revoke_session_def Let_def
  by (intro sys)+

section \<open>Files, tasks, GraphQL and passkeys\<close>

text \<open>A handler that works on the database and on a second state, as one on the database alone.\<close>

definition beside :: "'b \<Rightarrow> ('r world \<times> 'b, 'a) io \<Rightarrow> ('r, 'a) app" where
  "beside b m = (\<lambda>w. case m (w, b) of (r, (w', b')) \<Rightarrow> (r, w'))"

lemma keeps_via_fst [sys]: "keeps P m \<Longrightarrow> keeps (\<lambda>s. P (fst s)) (via_fst m)"
  by (auto simp: keeps_def split: prod.split)

lemma keeps_via_snd [sys]: "keeps (\<lambda>s. P (fst s)) (via_snd m)"
  by (auto simp: keeps_def split: prod.split)

lemma keeps_beside [sys]:
  assumes "keeps (\<lambda>s. P (fst s)) m"
  shows "keeps P (beside b m)"
proof (rule keepsI)
  fix w assume "P w"
  then have "P (fst (snd (m (w, b))))" using keepsD [OF assms, of "(w, b)"] by simp
  then show "P (snd (beside b m w))" by (cases "m (w, b)") (simp add: beside_def split: prod.split)
qed

lemma sys_file_model [sys]: "keeps sys_inv (crud_delete file_model now i)"
proof -
  have "keeps sys_inv (modifyM (\<lambda>w. w\<lparr>w_db := files_update (delete_row fil_id j) (w_db w)\<rparr>))" for j
    by (intro keeps_modifyM) (simp add: sys_inv_def db_sound_def db_keys_def wf_delete_row)
  then show ?thesis
    unfolding crud_delete_def crud_get_def Let_def file_model_def model.select_convs option.case prod.case by (intro sys)
qed

lemma sys_files [sys]:
  "keeps sys_inv (beside st (upload_file B P pil sha now u up))" "keeps sys_inv (beside st (delete_file B now u i))"
  unfolding upload_file_def delete_file_def delete_path_def create_from_upload_def Let_def by (intro sys)+

lemma sys_task_status [sys]:
  "keeps sys_inv (on_success now tid)" "keeps sys_inv (on_failure now exc tid)" "keeps sys_inv (trigger_email_task br fid etr)"
  unfolding on_success_def on_failure_def record_status_def update_task_status_def find_task_status_def trigger_email_task_def
  by (intro sys)+

lemma sys_gql [sys]:
  "keeps sys_inv (gql_create_user ok B salt em un pw fn)" "keeps sys_inv (gql_update_user ok B salt cx i fno ac)"
  "keeps sys_inv (relogin_handler b e)"
  unfolding gql_create_user_def gql_update_user_def crud_user_create_def crud_user_update_def relogin_handler_def Let_def
  by (intro sys)+

lemma sys_webauthn [sys]:
  "keeps sys_inv (beside pd (webauthn_register_complete P L bd cred u))" "keeps sys_inv (beside pd (webauthn_login_complete S P L J now uuid pl))"
  unfolding webauthn_register_complete_def complete_registration_def webauthn_login_complete_def complete_authentication_def
    user_of_payload_def credentials_of_def Let_def
  by (intro sys)+

section \<open>Steps\<close>

text \<open>A request or task in a session of its own.\<close>

definition served :: "('r, 'a) app \<Rightarrow> 'r world \<Rightarrow> 'r world" where
  "served m w = snd (with_session m w)"

text \<open>One rule per handler or task that can change state, and one for what happens outside: other clients of
  Redis, expiring keys, the broker that takes tasks, sockets that come and go, and the loss of the process memory.\<close>

inductive step :: "'r world \<Rightarrow> 'r world \<Rightarrow> bool" where
  environment: "step w (w\<lparr>w_redis := r, w_entitlements := m, w_tasks := tq, w_conns := cx, w_outbox := ob, w_tenant := tn\<rparr>)"
| create_plan: "step w (served (create_plan sc u pc) w)"
| update_plan: "step w (served (update_plan sc u i pu) w)"
| deactivate_plan: "step w (served (deactivate_plan sc u i) w)"
| subscribe: "step w (served (subscribe b now u i) w)"
| change_plan: "step w (served (change_plan b now now' u i) w)"
| cancel_subscription: "step w (served (cancel_subscription b now u im) w)"
| resume_subscription: "step w (served (resume_subscription b u) w)"
| quota: "step w (served (enforce_api_quota S R clk clk' now cu) w)"
| dunning: "step w (served (process_dunning S b now now') w)"
| invoicing: "step w (served (generate_due_invoices R now) w)"
| generate_invoice: "step w (served (generate_invoice_endpoint R b now sc u ps pe) w)"
| issue_invoice: "step w (served (issue_invoice b now sc u i) w)"
| pay_invoice: "step w (served (pay_invoice b now sc u i) w)"
| void_invoice: "step w (served (void_invoice b sc u i) w)"
| stripe_webhook: "step w (served (stripe_webhook S hmac repr loads b now body sig) w)"
| create_checkout: "step w (served (create_checkout S repr http u i su cnl) w)"
| create_api_key: "step w (served (create_api_key sha hex sc u kc) w)"
| update_api_key: "step w (served (update_api_key u i kf) w)"
| delete_api_key: "step w (served (delete_api_key now u i) w)"
| restore_api_key: "step w (served (restore_api_key u i) w)"
| verify_api_key: "step w (served (api_key_verify sha now raw) w)"
| current_user: "step w (served (get_current_user S J R now tk) w)"
| register: "step w (served (register B salt uc) w)"
| login: "step w (served (login_for_access_token S B J R now hex ids c un pw) w)"
| login_totp: "step w (served (login_with_totp S J R sha P now ids c ch code) w)"
| refresh: "step w (served (refresh_access_token S J R now ids c tk) w)"
| request_magic_link: "step w (served (request_magic_link S J now uid c em) w)"
| verify_magic_link: "step w (served (verify_magic_link S J R now hex rp ids c tk) w)"
| oauth: "step w (served (oauth_callback S B J R C H repr now salt rp ids c pr code st ru) w)"
| revoke_token: "step w (served (revoke_token S J R now c tk u) w)"
| revoke_all_tokens: "step w (served (revoke_all_tokens S R now c u) w)"
| revoke_session: "step w (served (revoke_session_endpoint S R now c jti u) w)"
| verify_email: "step w (served (verify_email S J now tk) w)"
| enable_totp: "step w (served (enable_totp S P sha sh codes u) w)"
| verify_enable_totp: "step w (served (verify_enable_totp S P now code u) w)"
| disable_totp: "step w (served (disable_totp B pw u) w)"
| update_user: "step w (served (update_user B salt sc u i uu) w)"
| delete_user: "step w (served (delete_user now sc u i) w)"
| restore_user: "step w (served (restore_user sc u i) w)"
| purge_users: "step w (served (purge_deleted_users now sc u n) w)"
| bulk_create: "step w (served (bulk_create_users B salts sc u us) w)"
| import_csv: "step w (served (import_users_csv B salts rd sc u content) w)"
| get_preferences: "step w (served (get_preferences u) w)"
| update_preferences: "step w (served (update_preferences pu u) w)"
| mark_read: "step w (served (mark_read now i u) w)"
| mark_all_read: "step w (served (mark_all_read now u) w)"
| delete_notification: "step w (served (delete_notification now i u) w)"
| restore_notification: "step w (served (restore_notification i u) w)"
| send_test_notification: "step w (served (send_test_notification b ti bd u) w)"
| create_webhook: "step w (served (create_webhook sec sc u wc) w)"
| update_webhook: "step w (served (update_webhook i sc u wu) w)"
| delete_webhook: "step w (served (delete_webhook now i sc u) w)"
| restore_webhook: "step w (served (restore_webhook i sc u) w)"
| ping_webhook: "step w (served (ping_webhook S br now eid i sc u) w)"
| deliver_webhook: "step w (served (deliver_webhook S hmac dumps ts now http i) w)"
| publish_event: "step w (served (publish_event b uuid tstamp ty pl) w)"
| consume: "step w (served (consume_batch C (run_dispatcher S C repr al br now) reg ack ms) w)"
| process_event_task: "step w (served (process_event_task C al js) w)"
| chat: "step w (served (chat_endpoint S J now al sk otk txs) w)"
| create_tenant: "step w (served (create_tenant u nm osl) w)"
| create_ip_rule: "step w (served (create_ip_rule u i ic ac pri ds) w)"
| update_ip_rule: "step w (served (update_ip_rule u i ru') w)"
| delete_ip_rule: "step w (served (delete_ip_rule u i) w)"
| create_page: "step w (served (create_page md now u pgc) w)"
| update_page: "step w (served (update_page md u sl pgu) w)"
| delete_page: "step w (served (delete_page now u sl) w)"
| create_post: "step w (served (create_post md now u psc) w)"
| update_post: "step w (served (update_post md u sl psu) w)"
| delete_post: "step w (served (delete_post now u sl) w)"
| create_category: "step w (served (create_category u nm sl ds) w)"
| update_category: "step w (served (update_category u i ctu) w)"
| delete_category: "step w (served (delete_category now u i) w)"
| create_tag: "step w (served (create_tag u nm sl) w)"
| delete_tag: "step w (served (delete_tag now u i) w)"
| purge: "step w (served (purge_soft_deleted S now) w)"
| admin_edit_user: "step w (served (admin_edit R user_class now u tb i fd) w)"
| admin_edit_tenant: "step w (served (admin_edit R tenant_class now u tb i fd) w)"
| admin_edit_notification: "step w (served (admin_edit R notification_class now u tb i fd) w)"
| admin_edit_preference: "step w (served (admin_edit R preference_class now u tb i fd) w)"
| admin_create_user: "step w (served (admin_create R user_class now u tb fd) w)"
| admin_create_tenant: "step w (served (admin_create R tenant_class now u tb fd) w)"
| admin_create_notification: "step w (served (admin_create R notification_class now u tb fd) w)"
| admin_create_preference: "step w (served (admin_create R preference_class now u tb fd) w)"
| admin_delete_user: "step w (served (admin_delete R user_class now u tb i) w)"
| admin_delete_tenant: "step w (served (admin_delete R tenant_class now u tb i) w)"
| admin_delete_notification: "step w (served (admin_delete R notification_class now u tb i) w)"
| admin_delete_preference: "step w (served (admin_delete R preference_class now u tb i) w)"
| admin_restore_user: "step w (served (admin_restore R user_class now u tb i) w)"
| admin_restore_notification: "step w (served (admin_restore R notification_class now u tb i) w)"
| admin_override_plan: "step w (served (admin_subscription_override_plan b R now u i fd) w)"
| admin_set_status: "step w (served (admin_subscription_set_status b R rp now u i fd) w)"
| admin_refund: "step w (served (admin_invoice_refund S repr http R now u i fd) w)"
| admin_revoke_session: "step w (served (admin_revoke_session S R now u fd) w)"
| upload_file: "step w (served (beside (st :: file_system) (upload_file BE P pil sha now u up)) w)"
| delete_file: "step w (served (beside (st :: file_system) (delete_file BE now u i)) w)"
| task_success: "step w (served (on_success now tid) w)"
| task_failure: "step w (served (on_failure now exc tid) w)"
| trigger_email: "step w (served (trigger_email_task br fid etr) w)"
| gql_create: "step w (served (gql_create_user ok B salt em un pw fno) w)"
| gql_update: "step w (served (gql_update_user ok B salt cx i fno ac') w)"
| relogin: "step w (served (relogin_handler b e) w)"
| register_passkey: "step w (served (beside pd (webauthn_register_complete P L bd cred u)) w)"
| login_passkey: "step w (served (beside pd (webauthn_login_complete S P L J now uuid pl)) w)"

inductive reachable :: "'r world \<Rightarrow> bool" where
  start: "w_db w = empty_db \<Longrightarrow> w_committed w = empty_db \<Longrightarrow> reachable w"
| next_step: "reachable w \<Longrightarrow> step w w' \<Longrightarrow> reachable w'"

text \<open>Between steps nothing is pending.\<close>

definition settled :: "'r world \<Rightarrow> bool" where
  "settled w \<longleftrightarrow> sys_inv w \<and> w_db w = w_committed w"

lemma served_settled: "keeps sys_inv m \<Longrightarrow> settled w \<Longrightarrow> settled (served m w)"
  using keepsD [OF sys_session, of m w]
  by (cases "m w") (simp add: settled_def served_def with_session_def)

lemma step_settled: "step w w' \<Longrightarrow> settled w \<Longrightarrow> settled w'"
proof (induction rule: step.induct)
  case (environment w r m tq cx ob tn)
  then show ?case by (simp add: settled_def sys_inv_def)
qed (erule served_settled [rotated], rule sys)+

lemma reachable_settled: "reachable w \<Longrightarrow> settled w"
proof (induction rule: reachable.induct)
  case (start w)
  then show ?case by (simp add: settled_def sys_inv_def db_sound_def) (simp add: empty_db_def empty_table_def)
qed (rule step_settled)

end
