(* ===== verification/AuthFacts.thy ===== *)
theory AuthFacts
  imports UsersApi
begin

text \<open>
  Theorems about authentication from end to end: registration, a login whose token identifies the user in
  later requests, the second factor, API keys, and the one-time values (OAuth states, e-mail
  verification).
\<close>

section \<open>A successful login\<close>

definition logged_in :: "datetime \<Rightarrow> user \<Rightarrow> user" where
  "logged_in now u = u\<lparr>user_failed_login_attempts := 0, user_locked_until := None, user_last_login_at := Some now\<rparr>"

lemma logged_in_same [simp]:
  "user_id (logged_in now u) = user_id u" "user_email (logged_in now u) = user_email u"
  "user_username (logged_in now u) = user_username u" "user_is_active (logged_in now u) = user_is_active u"
  "user_totp_enabled (logged_in now u) = user_totp_enabled u"
  by (simp_all add: logged_in_def)

lemma good_login_run:
  assumes "store_ok w" "u \<in> set (t_rows (users (w_db w)))" "unlocked now u"
    and "verify_password B pw (user_hashed_password u) = Inr True"
  shows "\<exists>w'. authenticate_user S B now c (user_email u) pw w = (Inr (Some (logged_in now u)), w') \<and>
    users_become (update_row user_id (logged_in now u) (users (w_db w))) w' \<and> w_redis w' = w_redis w"
proof -
  let ?u = "logged_in now u"
  let ?d = "users_update (update_row user_id ?u) (w_db w)"
  have u: "db_unique (w_db w)" "db_keys (w_db w)" using assms(1) by (simp_all add: store_ok_def)
  have d: "db_unique ?d" "db_keys ?d"
    using u assms(2) db_keys_save_user [OF u(2)]
    by (auto intro!: db_unique_save_user [of _ u] simp: db_keys_def)
  have run: "authenticate_user S B now c (user_email u) pw w = login_ok now c u w"
    using get_by_email_found [OF u assms(2)] assms(3,4)
    by (cases "user_locked_until u") (auto simp: authenticate_user_def unlocked_def)
  show ?thesis
    unfolding run login_ok_def Let_def logged_in_def [symmetric]
    using d db_keys_audit [OF d(2)]
    by (simp add: commit_run log_auth_event_def AUTH_EVENT_TYPES_def users_become_def store_ok_def
        thenM_def bindM_def)
qed

section \<open>Sessions on a conforming Redis client\<close>

lemma conforms_sessions:
  assumes "redis_conforms R \<alpha>"
  shows "sim \<alpha> (rd_zadd R t k m s) (ks_zadd t k m s)" "sim \<alpha> (rd_hset R t k h) (ks_hset t k h)"
    "sim \<alpha> (rd_expire R t k n) (ks_expire t k n)"
  using assms by (simp_all add: redis_conforms_def)

text \<open>The keys of a user's sessions hold values of the types that the code writes.\<close>

definition sessions_typed :: "datetime \<Rightarrow> int \<Rightarrow> keyspace \<Rightarrow> bool" where
  "sessions_typed now uid ks \<longleftrightarrow>
     (\<exists>xs. ks_zset now (sessions_key uid) ks = Inr xs) \<and>
     (\<forall>jti. ks_lookup now (session_meta_key uid jti) ks = None \<or>
            (\<exists>h. ks_lookup now (session_meta_key uid jti) ks = Some (RHash h)))"

lemma session_keys_differ [simp]:
  "sessions_key i \<noteq> session_meta_key j jti" "session_meta_key j jti \<noteq> sessions_key i"
  "user_key i \<noteq> sessions_key j" "user_key i \<noteq> session_meta_key j jti"
  "session_meta_key i jti = session_meta_key i jti' \<longleftrightarrow> jti = jti'"
  by (simp_all add: sessions_key_def session_meta_key_def user_key_def)

lemma ks_zadd_run:
  "ks_zset t k ks = Inr xs \<Longrightarrow>
     ks_zadd t k m s ks = (Inr (if m \<in> fst ` set xs then 0 else 1), ks_store t k (RZset (zset_put m s xs)) ks)"
  by (simp add: ks_zadd_def)

lemma ks_zset_lookup: "ks_lookup t k ks = Some (RZset xs) \<Longrightarrow> ks_zset t k ks = Inr xs"
  by (simp add: ks_zset_def)

lemma ks_store_other [simp]: "k \<noteq> k' \<Longrightarrow> ks_store t k' v ks k = ks k"
  by (simp add: ks_store_def)

lemma ks_expire_run:
  "ks_lookup t k ks = Some v \<Longrightarrow> 0 < ttl \<Longrightarrow>
     ks_expire t k ttl ks = (Inr True, ks(k \<mapsto> (v, Some (t + seconds_td ttl))))"
  by (simp add: ks_expire_def)

lemma ks_hset_typed:
  assumes "ks_lookup t k ks = None \<or> (\<exists>h. ks_lookup t k ks = Some (RHash h))"
  shows "\<exists>h. ks_hset t k m ks = (Inr (), ks_store t k (RHash h) ks)"
  using assms by (auto simp: ks_hset_def)

lemma seconds_td_pos [simp]: "0 < n \<Longrightarrow> \<not> seconds_td n \<le> 0"
  by (simp add: seconds_td_def)

text \<open>A write of a key followed by setting its time to live.\<close>

lemma write_then_expire:
  assumes "redis_conforms R \<alpha>" "sim \<alpha> m m'" "w_redis w = Some r" "0 < ttl"
    and "m' (\<alpha> r) = (Inr x, ks_store now k v (\<alpha> r))"
  shows "\<exists>r'. (\<forall>K. thenM (redis_call m) (thenM (redis_call (rd_expire R now k ttl)) K) w = K (w\<lparr>w_redis := Some r'\<rparr>)) \<and>
    \<alpha> r' = (\<alpha> r)(k \<mapsto> (v, Some (now + seconds_td ttl)))"
proof -
  obtain r1 where r1: "redis_call m w = (Inr x, w\<lparr>w_redis := Some r1\<rparr>)" "\<alpha> r1 = ks_store now k v (\<alpha> r)"
    using redis_call_sim [OF assms(2,3)] assms(5) by auto
  obtain r2 where r2: "redis_call (rd_expire R now k ttl) (w\<lparr>w_redis := Some r1\<rparr>) =
      (fst (ks_expire now k ttl (\<alpha> r1)), w\<lparr>w_redis := Some r2\<rparr>)" "\<alpha> r2 = snd (ks_expire now k ttl (\<alpha> r1))"
    using redis_call_sim_ex [OF conforms_sessions(3) [OF assms(1)]] by blast
  have "ks_expire now k ttl (\<alpha> r1) = (Inr True, (\<alpha> r)(k \<mapsto> (v, Some (now + seconds_td ttl))))"
    using ks_expire_run [of now k "\<alpha> r1" v ttl] assms(4) ks_lookup_store [of now k k v "\<alpha> r"]
    by (simp add: r1(2)) (simp add: ks_store_def)
  then show ?thesis using r1(1) r2 by (intro exI [of _ r2]) simp
qed

text \<open>Storing a session succeeds and only touches the keys of the user's sessions.\<close>

lemma store_session_run:
  assumes R: "redis_conforms R \<alpha>" and ttl: "0 < JWT_BLACKLIST_TTL S" and w: "w_redis w = Some r"
    and ty: "sessions_typed now uid (\<alpha> r)"
  shows "\<exists>r'. store_session S R now uid p w = (Inr (), w\<lparr>w_redis := Some r'\<rparr>) \<and>
    sessions_typed now uid (\<alpha> r') \<and>
    (\<forall>k. k \<noteq> sessions_key uid \<and> (\<forall>jti. k \<noteq> session_meta_key uid jti) \<longrightarrow> \<alpha> r' k = \<alpha> r k)"
proof (cases "JWT_BLACKLIST_ENABLED S")
  case True
  let ?s = "sessions_key uid" and ?m = "session_meta_key uid (sp_jti p)"
  let ?ttl = "token_ttl S now (sp_exp p)" and ?iat = "of_int (sp_iat p)"
  have pos: "0 < ?ttl" using ttl by (simp add: token_ttl_def)
  obtain xs where xs: "ks_zset now ?s (\<alpha> r) = Inr xs" using ty by (auto simp: sessions_typed_def)
  define z where "z = zset_put (sp_jti p) ?iat xs"
  obtain r1 where r1: "\<And>K. thenM (redis_call (rd_zadd R now ?s (sp_jti p) ?iat))
      (thenM (redis_call (rd_expire R now ?s ?ttl)) K) w = (K (w\<lparr>w_redis := Some r1\<rparr>) :: (exn + unit) \<times> _)"
    and a1: "\<alpha> r1 = (\<alpha> r)(?s \<mapsto> (RZset z, Some (now + seconds_td ?ttl)))"
    using write_then_expire [OF R conforms_sessions(1) [OF R] w pos ks_zadd_run [OF xs]]
    unfolding z_def by blast
  have m: "ks_lookup now ?m (\<alpha> r1) = None \<or> (\<exists>h. ks_lookup now ?m (\<alpha> r1) = Some (RHash h))"
    using ty by (simp add: a1 sessions_typed_def)
  obtain r2 h where r2: "store_session S R now uid p w = (Inr (), w\<lparr>w_redis := Some r2\<rparr>)"
    and a2: "\<alpha> r2 = (\<alpha> r1)(?m \<mapsto> (RHash h, Some (now + seconds_td ?ttl)))"
  proof -
    let ?f = "[(''jti'', sp_jti p), (''token_type'', sp_token_type p),
       (''ip'', case sp_ip p of None \<Rightarrow> [] | Some i \<Rightarrow> i),
       (''user_agent'', case sp_user_agent p of None \<Rightarrow> [] | Some a \<Rightarrow> a),
       (''created_at'', show_int (sp_iat p)), (''expires_at'', show_int (sp_exp p)), (''user_id'', show_int uid)]"
    obtain h where h: "ks_hset now ?m ?f (\<alpha> r1) = (Inr (), ks_store now ?m (RHash h) (\<alpha> r1))"
      using ks_hset_typed [OF m] by blast
    obtain r2 where "\<And>K. thenM (redis_call (rd_hset R now ?m ?f)) (thenM (redis_call (rd_expire R now ?m ?ttl)) K)
        (w\<lparr>w_redis := Some r1\<rparr>) = (K (w\<lparr>w_redis := Some r2\<rparr>) :: (exn + unit) \<times> _)"
      "\<alpha> r2 = (\<alpha> r1)(?m \<mapsto> (RHash h, Some (now + seconds_td ?ttl)))"
      using write_then_expire [OF R conforms_sessions(2) [OF R] _ pos h, of "w\<lparr>w_redis := Some r1\<rparr>"] by auto
    then show thesis
      by (intro that [of r2 h]) (simp_all add: store_session_def Let_def r1 True)
  qed
  have "sessions_typed now uid (\<alpha> r2)"
    using ty pos by (auto simp: a2 a1 sessions_typed_def intro!: exI [of _ z] ks_zset_lookup)
  moreover have "\<alpha> r2 k = \<alpha> r k" if "k \<noteq> ?s" "\<forall>jti. k \<noteq> session_meta_key uid jti" for k
    using that by (simp add: a2 a1)
  ultimately show ?thesis using r2 by blast
qed (use ty w in \<open>auto simp: store_session_def intro!: exI [of _ r]\<close>)

section \<open>Tokens of a session\<close>

lemma decode_access_encoded:
  assumes "jose_ok J"
  shows "decode_access_token S J t (encode_token S J c) =
    (if unexpired t c then Inr c else Inl (HTTPException 401 ''Could not validate credentials''))"
  using assms by (simp add: decode_access_token_def encode_token_def jose_ok_def)

lemma decode_refresh_encoded:
  assumes "jose_ok J" "cl_purpose c = Some ''refresh''"
  shows "decode_refresh_token S J t (encode_token S J c) =
    (if unexpired t c then Inr c else Inl (HTTPException 401 ''Could not validate refresh token''))"
  using assms by (simp add: decode_refresh_token_def encode_token_def jose_ok_def)

lemma timegm_mono: "a \<le> b \<Longrightarrow> timegm a \<le> timegm b"
  by (simp add: timegm_def zdiv_mono1)

definition lifetimes_ok :: "settings \<Rightarrow> bool" where
  "lifetimes_ok S \<longleftrightarrow> 0 \<le> ACCESS_TOKEN_EXPIRE_MINUTES S \<and> 0 \<le> REFRESH_TOKEN_EXPIRE_DAYS S \<and> 0 < JWT_BLACKLIST_TTL S"

lemma store_sessions_run:
  assumes J: "jose_ok J" and S: "lifetimes_ok S" and R: "redis_conforms R \<alpha>" and w: "w_redis w = Some r"
    and ty: "sessions_typed now uid (\<alpha> r)"
  shows "\<exists>r'. store_sessions S J R now c uid (new_tokens S J now ids uid) w = (Inr (), w\<lparr>w_redis := Some r'\<rparr>) \<and>
    \<alpha> r' (user_key uid) = \<alpha> r (user_key uid)"
proof -
  let ?pa = "make_jwt_payload S now (fst ids) (show_int uid) None None"
  let ?pr = "make_jwt_payload S now (snd ids) (show_int uid) (Some (days_td (REFRESH_TOKEN_EXPIRE_DAYS S))) (Some ''refresh'')"
  have live: "unexpired (timegm now) ?pa" "unexpired (timegm now) ?pr"
    using S by (auto simp: unexpired_def make_jwt_payload_def Let_def lifetimes_ok_def days_td_def minutes_td_def
        intro!: timegm_mono)
  have pay: "\<exists>p. session_payload k c ?pa = Inr p" "\<exists>p. session_payload k c ?pr = Inr p" for k
    by (simp_all add: session_payload_def make_jwt_payload_def Let_def)
  obtain pa pr where p: "session_payload ''access'' c ?pa = Inr pa" "session_payload ''refresh'' c ?pr = Inr pr"
    using pay by blast
  have ttl: "0 < JWT_BLACKLIST_TTL S" using S by (simp add: lifetimes_ok_def)
  obtain r1 where r1: "store_session S R now uid pa w = (Inr (), w\<lparr>w_redis := Some r1\<rparr>)"
    "sessions_typed now uid (\<alpha> r1)" "\<alpha> r1 (user_key uid) = \<alpha> r (user_key uid)"
    using store_session_run [OF R ttl w ty, of pa] by auto
  obtain r2 where r2: "store_session S R now uid pr (w\<lparr>w_redis := Some r1\<rparr>) = (Inr (), w\<lparr>w_redis := Some r2\<rparr>)"
    "\<alpha> r2 (user_key uid) = \<alpha> r1 (user_key uid)"
    using store_session_run [OF R ttl _ r1(2), of "w\<lparr>w_redis := Some r1\<rparr>" pr] by auto
  have "cl_purpose ?pr = Some ''refresh''" by (simp add: make_jwt_payload_def Let_def)
  then show ?thesis
    using live p r1 r2 J
    by (intro exI [of _ r2]) (simp add: store_sessions_def new_tokens_def create_access_token_def create_refresh_token_def
        decode_access_encoded decode_refresh_encoded)
qed

text \<open>No entry of the blacklist names this token.\<close>

definition not_revoked :: "datetime \<Rightarrow> int \<Rightarrow> string \<Rightarrow> keyspace \<Rightarrow> bool" where
  "not_revoked t uid jti ks \<longleftrightarrow> CHR '':'' \<notin> set jti \<and>
     (\<exists>xs. blacklist_at t uid ks = Some xs \<and>
       (\<forall>m \<in> set xs. \<exists>p. CHR '':'' \<notin> set (fst p) \<and> m = entry p \<and> fst p \<noteq> jti))"

lemma not_revoked_run:
  assumes "redis_conforms R \<alpha>" "w_redis w = Some r" "not_revoked t uid jti (\<alpha> r)"
  shows "\<exists>r'. is_token_blacklisted S R t uid jti w = (Inr False, w\<lparr>w_redis := Some r'\<rparr>)"
proof (cases "JWT_BLACKLIST_ENABLED S")
  case True
  obtain xs where xs: "blacklist_at t uid (\<alpha> r) = Some xs" "CHR '':'' \<notin> set jti"
    "\<forall>m \<in> set xs. \<exists>p. CHR '':'' \<notin> set (fst p) \<and> m = entry p \<and> fst p \<noteq> jti"
    using assms(3) by (auto simp: not_revoked_def)
  have none: "entry (jti, e) \<notin> set xs" for e
  proof
    assume "entry (jti, e) \<in> set xs"
    then obtain p where "CHR '':'' \<notin> set (fst p)" "entry (jti, e) = entry p" "fst p \<noteq> jti" using xs(3) by blast
    then show False using entry_inj [of "(jti, e)" p] xs(2) by auto
  qed
  have "\<forall>m \<in> set xs. \<exists>p. CHR '':'' \<notin> set (fst p) \<and> m = entry p" using xs(3) by blast
  from is_blacklisted_run [OF assms(1) True assms(2) xs(1) this xs(2)] none show ?thesis by auto
qed (use assms(2) in \<open>auto simp: is_token_blacklisted_def intro!: exI [of _ r]\<close>)

lemma get_with_roles_found:
  assumes "db_keys (w_db w)" "u \<in> set (t_rows (users (w_db w)))"
  shows "get_with_roles (user_id u) w = (Inr (Some u), w)"
proof -
  have "filter (\<lambda>x. user_id x = user_id u) (t_rows (users (w_db w))) = [u]"
    using assms by (intro distinct_filter_key) (simp_all add: db_keys_def table_wf_def)
  then show ?thesis by (simp add: get_with_roles_def select_where_def)
qed

text \<open>A decoded token that is not revoked identifies its subject.\<close>

lemma current_user_run:
  assumes "redis_conforms R \<alpha>" "w_redis w = Some r" "not_revoked t (user_id u) jti (\<alpha> r)" "jti \<noteq> []"
    and "decode_access_token S J (timegm t) tok = Inr p" "cl_sub p = Some (show_int (user_id u))" "cl_jti p = Some jti"
    and "db_keys (w_db w)" "u \<in> set (t_rows (users (w_db w)))" "user_is_active u"
  shows "\<exists>r'. get_current_user S J R t tok w = (Inr u, w\<lparr>w_redis := Some r'\<rparr>)"
proof -
  obtain x xs where jti: "jti = x # xs" using assms(4) by (cases jti) auto
  obtain r' where bl: "is_token_blacklisted S R t (user_id u) (x # xs) w = (Inr False, w\<lparr>w_redis := Some r'\<rparr>)"
    using not_revoked_run [OF assms(1-3), of S] jti by blast
  have "get_with_roles (user_id u) (w\<lparr>w_redis := Some r'\<rparr>) = (Inr (Some u), w\<lparr>w_redis := Some r'\<rparr>)"
    using assms(8,9) by (intro get_with_roles_found) simp_all
  then show ?thesis
    using assms(5-7,10) by (intro exI [of _ r']) (simp add: get_current_user_def jti int_exn_def bindM_Inr [where m = "is_token_blacklisted S R t (user_id u) (x # xs)" and w = w, OF bl])
qed

section \<open>Properties\<close>

text \<open>
  C19: registration, in a process where the audit listener on \<^verbatim>\<open>User\<close> is not installed (the environment
  \<^verbatim>\<open>test\<close>). A request whose e-mail or user name is taken is refused with status 400 and changes
  nothing. Any other request commits exactly one new row, which is active, unverified and no superuser, and
  whose password hash verifies the password of the request. Hypotheses: the stored tables satisfy their
  constraints; bcrypt verifies what it hashed. With the listener no request commits a row: see
  \<open>audited_register\<close> below.
\<close>

theorem register_spec:
  assumes "store_ok w" and "bcrypt_ok B" and "\<not> w_audited w"
  shows "(\<exists>u \<in> set (t_rows (users (w_db w))). user_email u = uc_email o' \<or> user_username u = uc_username o') \<and>
      (\<exists>d. register B salt o' w = (Inl (HTTPException 400 d), w)) \<or>
    (\<forall>u \<in> set (t_rows (users (w_db w))). user_email u \<noteq> uc_email o' \<and> user_username u \<noteq> uc_username o') \<and>
      (\<exists>u w'. register B salt o' w = (Inr u, w') \<and> store_ok w' \<and>
        t_rows (users (w_committed w')) = t_rows (users (w_committed w)) @ [u] \<and>
        user_email u = uc_email o' \<and> user_username u = uc_username o' \<and> user_is_active u \<and>
        \<not> user_is_superuser u \<and> \<not> user_is_verified u \<and>
        verify_password B (uc_password o') (user_hashed_password u) = Inr True)"
proof -
  let ?us = "t_rows (users (w_db w))"
  have ok: "db_unique (w_db w)" "db_keys (w_db w)" "w_committed w = w_db w" using assms(1) by (simp_all add: store_ok_def)
  have found: "(\<exists>u \<in> set ?us. f u = x) \<and> (\<exists>u. scalar_one_or_none (select_where (\<lambda>u. f u = x) (users (w_db w))) = Inr (Some u)) \<or>
    (\<forall>u \<in> set ?us. f u \<noteq> x) \<and> scalar_one_or_none (select_where (\<lambda>u. f u = x) (users (w_db w))) = Inr None"
    if "distinct (map f ?us)" for f :: "user \<Rightarrow> string" and x
  proof (cases "\<exists>u \<in> set ?us. f u = x")
    case True
    then obtain u where "u \<in> set ?us" "f u = x" by blast
    then show ?thesis using distinct_filter_key [OF that, of u] by (auto simp: select_where_def)
  qed (simp add: select_where_def filter_empty_conv)
  have uniq: "distinct (map user_email ?us)" "distinct (map user_username ?us)"
    using ok(1) by (simp_all add: db_unique_def unique_on_def List.map_filter_def comp_def)
  note e = found [OF uniq(1), of "uc_email o'"] and n = found [OF uniq(2), of "uc_username o'"]
  show ?thesis
  proof (cases "\<exists>u \<in> set ?us. user_email u = uc_email o' \<or> user_username u = uc_username o'")
    case True
    then have "\<exists>d. register B salt o' w = (Inl (HTTPException 400 d), w)"
      using e n by (auto simp: register_def get_by_email_def get_by_username_def)
    then show ?thesis using True by blast
  next
    case False
    let ?u = "next_row (\<lambda>i r. r\<lparr>user_id := i\<rparr>) (user_of_create B salt o') (users (w_db w))"
    let ?d = "users_update (insert_row (\<lambda>i r. r\<lparr>user_id := i\<rparr>) (user_of_create B salt o')) (w_db w)"
    have sel: "user_email ?u = uc_email o'" "user_username ?u = uc_username o'"
      by (simp_all add: next_row_def user_of_create_def new_user_def)
    have d: "db_unique ?d" "db_keys ?d"
      using ok(1,2) False sel user_row.wf_insert [of "users (w_db w)"]
      by (auto simp: db_unique_def db_keys_def unique_on_insert)
    have run: "register B salt o' w = (Inr ?u, w\<lparr>w_db := ?d, w_committed := ?d\<rparr>)"
      using e n False d(1) assms(3)
      by (auto simp: register_def get_by_email_def get_by_username_def crud_user_create_def crud_create_def
          user_model_def commit_run)
    have "length (take 72 (uc_password o')) \<le> 72" by simp
    then have "verify_password B (uc_password o') (user_hashed_password ?u) = Inr True"
      using assms(2) by (auto simp: next_row_def user_of_create_def new_user_def verify_password_def
          get_password_hash_def bcrypt_ok_def Let_def)
    then show ?thesis
      using False run d ok(3) sel
      by (auto simp: store_ok_def insert_row_def next_row_def user_of_create_def new_user_def)
  qed
qed

definition sample_registration :: user_create where
  "sample_registration = \<lparr>uc_email = ''n@b.c'', uc_username = ''new'', uc_full_name = None, uc_password = ''secret12''\<rparr>"

theorem register_spec_witness:
  "\<exists>u w'. register plain_bcrypt ''s'' sample_registration sample_world = (Inr u, w') \<and> store_ok w' \<and> user_email u = ''n@b.c''"
  using register_spec [of sample_world plain_bcrypt sample_registration "''s''"] sample_db_ok plain_bcrypt_ok
  by (auto simp: store_ok_def sample_world_def sample_db_def sample_user_def sample_registration_def)

text \<open>
  Where the audit listener is installed, a registration never succeeds: the listener writes an audit row with
  a null \<^verbatim>\<open>record_id\<close> before the user has a key, and the database refuses it.
\<close>

lemma audited_register:
  assumes "w_audited w"
  shows "\<exists>e. register B salt o' w = (Inl e, w)"
  using assms by (auto simp: register_def get_by_email_def get_by_username_def crud_user_create_def bindM_def thenM_def
      guardM_def returnM_def raiseM_def split: sum.split)

text \<open>
  C11: a login opens a session. With the right password, an active user without a second factor whose account
  is not locked gets tokens; the access token identifies that user, with the failure counter reset and the
  login time recorded, in every later request until the token expires or is revoked. Hypotheses: the JOSE
  library decodes what it encoded until it expires, Redis behaves as documented and holds values of the
  right types under the user's session keys, and the lifetimes of the settings are not negative.
\<close>

theorem login_opens_session:
  assumes "store_ok w" and "u \<in> set (t_rows (users (w_db w)))" and "unlocked now u"
    and "verify_password B pw (user_hashed_password u) = Inr True"
    and "user_is_active u" and "\<not> user_totp_enabled u"
    and "jose_ok J" and "lifetimes_ok S" and "redis_conforms R \<alpha>" and "w_redis w = Some r"
    and "sessions_typed now (user_id u) (\<alpha> r)" and "not_revoked t (user_id u) jti (\<alpha> r)" and "jti \<noteq> []"
    and "timegm t \<le> timegm (now + minutes_td (ACCESS_TOKEN_EXPIRE_MINUTES S))"
  shows "\<exists>tok w1 w2. login_for_access_token S B J R now hex (jti, jti') c (user_email u) pw w = (Inr (Tokens tok), w1) \<and>
    users (w_committed w1) = update_row user_id (logged_in now u) (users (w_committed w)) \<and>
    get_current_user S J R t (tok_access tok) w1 = (Inr (logged_in now u), w2)"
proof -
  let ?u = "logged_in now u" and ?tok = "new_tokens S J now (jti, jti') (user_id u)"
  obtain w0 where auth: "authenticate_user S B now c (user_email u) pw w = (Inr (Some ?u), w0)"
    and us: "users_become (update_row user_id ?u (users (w_db w))) w0" and r0: "w_redis w0 = w_redis w"
    using good_login_run [OF assms(1-4), of S c] by blast
  obtain r1 where st: "store_sessions S J R now c (user_id u) ?tok w0 = (Inr (), w0\<lparr>w_redis := Some r1\<rparr>)"
    and bl: "\<alpha> r1 (user_key (user_id u)) = \<alpha> r (user_key (user_id u))"
    using store_sessions_run [OF assms(7-9) _ assms(11), of w0 c "(jti, jti')"] r0 assms(10) by auto
  have login: "login_for_access_token S B J R now hex (jti, jti') c (user_email u) pw w =
      (Inr (Tokens ?tok), w0\<lparr>w_redis := Some r1\<rparr>)"
    using auth st assms(6) by (simp add: login_for_access_token_def issue_tokens_def Let_def)
  let ?p = "make_jwt_payload S now jti (show_int (user_id u)) None None"
  have dec: "decode_access_token S J (timegm t) (tok_access ?tok) = Inr ?p"
    using assms(7,14)
    by (simp add: new_tokens_def create_access_token_def decode_access_encoded unexpired_def make_jwt_payload_def Let_def)
  have nr: "not_revoked t (user_id ?u) jti (\<alpha> r1)"
    using assms(12) bl by (simp add: not_revoked_def blacklist_at_def ks_lookup_def)
  have "?u \<in> set (t_rows (users (w_db w0)))" "db_keys (w_db w0)"
    using us assms(2) by (force simp: users_become_def store_ok_def update_row_def)+
  then obtain r2 where "get_current_user S J R t (tok_access ?tok) (w0\<lparr>w_redis := Some r1\<rparr>) =
      (Inr ?u, w0\<lparr>w_redis := Some r1, w_redis := Some r2\<rparr>)"
    using current_user_run [OF assms(9) _ nr assms(13) dec, of "w0\<lparr>w_redis := Some r1\<rparr>"] assms(5)
    by (auto simp: make_jwt_payload_def Let_def)
  then show ?thesis
    using login us assms(1) by (force simp: users_become_def store_ok_def)
qed

lemma sample_redis:
  "sessions_typed t uid Map.empty" "CHR '':'' \<notin> set jti \<Longrightarrow> not_revoked t uid jti Map.empty"
  by (simp_all add: sessions_typed_def ks_zset_def ks_lookup_def not_revoked_def blacklist_at_def)

theorem login_opens_session_witness:
  "\<exists>tok w1 w2. login_for_access_token default_settings plain_bcrypt plain_jose keyspace_redis 0 ''h'' (''a'', ''b'')
     \<lparr>c_ip = None, c_user_agent = None\<rparr> ''a@b.c'' ''x'' sample_world = (Inr (Tokens tok), w1) \<and>
     get_current_user default_settings plain_jose keyspace_redis 5 (tok_access tok) w1 = (Inr (logged_in 0 sample_user), w2)"
  using login_opens_session [OF sample_store_ok _ _ _ _ _ plain_jose_ok _ keyspace_conforms, of sample_user 0 plain_bcrypt
      "''x''" default_settings Map.empty 5 "''a''" "''h''" "''b''" "\<lparr>c_ip = None, c_user_agent = None\<rparr>"] sample_redis
  by (auto simp: sample_world_def sample_db_def sample_user_def unlocked_def plain_bcrypt_def verify_password_def
      lifetimes_ok_def default_settings_def timegm_def minutes_td_def)

text \<open>
  The second factor can be skipped. For a user with a second factor the login gives no tokens but a
  challenge token, which proves only the password; the dependency that protects the endpoints accepts the
  challenge token as an access token until it expires, because the decoder of access tokens never looks at
  the purpose. Hypotheses as for a login, with a symmetric algorithm.
\<close>

theorem second_factor_skipped:
  assumes "store_ok w" and "u \<in> set (t_rows (users (w_db w)))" and "unlocked now u"
    and "verify_password B pw (user_hashed_password u) = Inr True"
    and "user_is_active u" and "user_totp_enabled u"
    and "jose_ok J" and "ALGORITHM S \<noteq> ''RS256''" and "redis_conforms R \<alpha>" and "w_redis w = Some r"
    and "not_revoked t (user_id u) hex (\<alpha> r)" and "hex \<noteq> []"
    and "timegm t \<le> timegm (now + seconds_td (TOTP_CHALLENGE_EXPIRE_SECONDS S))"
  shows "\<exists>ch w1 w2. login_for_access_token S B J R now hex ids c (user_email u) pw w = (Inr (TotpRequired ch), w1) \<and>
    get_current_user S J R t ch w1 = (Inr (logged_in now u), w2)"
proof -
  let ?u = "logged_in now u" and ?ch = "create_totp_challenge_token S J now hex (user_id u)"
  obtain w0 where auth: "authenticate_user S B now c (user_email u) pw w = (Inr (Some ?u), w0)"
    and us: "users_become (update_row user_id ?u (users (w_db w))) w0" and r0: "w_redis w0 = w_redis w"
    using good_login_run [OF assms(1-4), of S c] by blast
  have login: "login_for_access_token S B J R now hex ids c (user_email u) pw w = (Inr (TotpRequired ?ch), w0)"
    using auth assms(6) by (simp add: login_for_access_token_def)
  obtain p where dec: "decode_access_token S J (timegm t) ?ch = Inr p"
    and p: "cl_sub p = Some (show_int (user_id u))" "cl_jti p = Some hex"
    using assms(13) by (simp add: token_defs decode_encoded [OF assms(7,8)] assms(8) unexpired_def)
  have "?u \<in> set (t_rows (users (w_db w0)))" "db_keys (w_db w0)"
    using us assms(2) by (force simp: users_become_def store_ok_def update_row_def)+
  then obtain r2 where "get_current_user S J R t ?ch w0 = (Inr ?u, w0\<lparr>w_redis := Some r2\<rparr>)"
    using current_user_run [OF assms(9) _ _ assms(12) dec, of w0 r ?u] p assms(5,10,11) r0 by auto
  then show ?thesis using login by blast
qed

definition totp_world :: "keyspace world" where
  "totp_world = (let d = sample_db\<lparr>users := \<lparr>t_rows = [sample_user\<lparr>user_totp_enabled := True\<rparr>], t_seq = 1\<rparr>\<rparr>
     in sample_world\<lparr>w_db := d, w_committed := d\<rparr>)"

lemma totp_world_ok: "store_ok totp_world"
  using sample_db_ok
  by (simp add: store_ok_def totp_world_def Let_def sample_db_def db_unique_def db_keys_def unique_on_def
      table_wf_def List.map_filter_simps sample_user_def)

theorem second_factor_skipped_witness:
  "\<exists>ch w1 w2. login_for_access_token default_settings plain_bcrypt plain_jose keyspace_redis 0 ''h'' (''a'', ''b'')
     \<lparr>c_ip = None, c_user_agent = None\<rparr> ''a@b.c'' ''x'' totp_world = (Inr (TotpRequired ch), w1) \<and>
     (\<exists>u. get_current_user default_settings plain_jose keyspace_redis 5 ch w1 = (Inr u, w2))"
  using second_factor_skipped [OF totp_world_ok _ _ _ _ _ plain_jose_ok _ keyspace_conforms,
      of "sample_user\<lparr>user_totp_enabled := True\<rparr>" 0 plain_bcrypt "''x''" default_settings Map.empty 5 "''h''" "(''a'', ''b'')"
        "\<lparr>c_ip = None, c_user_agent = None\<rparr>"] sample_redis
  by (auto simp: totp_world_def Let_def sample_world_def sample_db_def sample_user_def unlocked_def plain_bcrypt_def
      verify_password_def default_settings_def timegm_def seconds_td_def)

section \<open>API keys\<close>

text \<open>The lookup by prefix when exactly one active key has it.\<close>

lemma get_by_prefix_one:
  assumes "table_wf key_id (api_keys (w_db w))" "k \<in> set (t_rows (api_keys (w_db w)))" "key_is_active k"
    and "\<forall>x \<in> set (t_rows (api_keys (w_db w))). key_is_active x \<and> key_prefix x = key_prefix k \<longrightarrow> x = k"
  shows "get_by_prefix (key_prefix k) w = (Inr (Some k), w)"
proof -
  have "filter (\<lambda>x. key_prefix x = key_prefix k \<and> key_is_active x) (t_rows (api_keys (w_db w))) =
    filter (\<lambda>x. key_id x = key_id k) (t_rows (api_keys (w_db w)))"
    using assms distinct_key_unique [of key_id "t_rows (api_keys (w_db w))" _ k]
    by (intro filter_cong) (auto simp: table_wf_def)
  also have "\<dots> = [k]" using assms(1,2) by (intro distinct_filter_key) (simp_all add: table_wf_def)
  finally show ?thesis by (simp add: get_by_prefix_def select_where_def)
qed

lemma db_unique_keys [simp]: "db_unique (api_keys_update f d) = db_unique d"
  by (simp add: db_unique_def)

text \<open>What a verification answers when exactly one active key has the prefix.\<close>

lemma verify_run:
  assumes "db_unique (w_db w)" "table_wf key_id (api_keys (w_db w))" "k \<in> set (t_rows (api_keys (w_db w)))" "key_is_active k"
    and "\<forall>x \<in> set (t_rows (api_keys (w_db w))). key_is_active x \<and> key_prefix x = key_prefix k \<longrightarrow> x = k"
    and "take 10 raw = key_prefix k"
  shows "fst (api_key_verify sha now raw w) =
    Inr (if sha raw \<noteq> key_hashed_key k \<or> (\<exists>e. key_expires_at k = Some e \<and> e < now) then None
         else Some (k\<lparr>key_last_used_at := Some now\<rparr>))"
proof -
  have "get_by_prefix (take 10 raw) w = (Inr (Some k), w)"
    unfolding assms(6) by (rule get_by_prefix_one [OF assms(2-5)])
  then show ?thesis
    using assms(1,4) by (cases "key_expires_at k") (simp_all add: api_key_verify_def verify_api_key_def commit_run Let_def)
qed

text \<open>
  No API key can be created on a database that enforces the declared lengths: \<^verbatim>\<open>generate_api_key\<close> makes a prefix
  of ten characters for a column of eight, so the insert is refused and nothing is stored. What follows about
  stored keys therefore speaks of rows that were written with a wider column.
\<close>

lemma api_key_refused:
  assumes "7 \<le> length hex"
  shows "create_with_raw_key sha hex uid o' w = (Inl DataError, w)"
  using assms by (simp add: create_with_raw_key_def generate_api_key_def Let_def guardM_def)

text \<open>
  Deleting an API key does not revoke it. After the owner deletes a key, the key is gone from the CRUD
  reads, but its raw text still verifies: the lookup by prefix does not look at the deletion mark.
  Hypotheses: the key is active, unexpired, and the only active key with its prefix.
\<close>

theorem deleted_key_authenticates:
  assumes "store_ok w" and "k \<in> set (t_rows (api_keys (w_db w)))" and "key_is_active k" and "key_deleted_at k = None"
    and "key_user_id k = user_id owner" and "sha raw = key_hashed_key k" and "take 10 raw = key_prefix k"
    and "\<forall>x \<in> set (t_rows (api_keys (w_db w))). key_is_active x \<and> key_prefix x = key_prefix k \<longrightarrow> x = k"
    and "\<forall>e. key_expires_at k = Some e \<longrightarrow> t \<le> e"
  shows "\<exists>w1. delete_api_key now owner (key_id k) w = (Inr (), w1) \<and>
    crud_get key_model (key_id k) False w1 = (Inr None, w1) \<and>
    fst (api_key_verify sha t raw w1) = Inr (Some (k\<lparr>key_deleted_at := Some now, key_last_used_at := Some t\<rparr>))"
proof -
  let ?k = "k\<lparr>key_deleted_at := Some now\<rparr>"
  have ok: "db_unique (w_db w)" "table_wf key_id (api_keys (w_db w))" using assms(1) by (simp_all add: store_ok_def db_keys_def)
  have hyps: "table_wf (m_rid key_model) (m_tbl key_model (w_db w))" "k \<in> set (t_rows (m_tbl key_model (w_db w)))"
    using ok assms(2) by (simp_all add: key_model_def)
  obtain w1 where del: "crud_delete key_model now (key_id k) w = (Inr (Some ?k), w1)"
    and gone: "crud_get key_model (key_id k) False w1 = (Inr None, w1)"
    using key_crud.delete_restore [OF ok(1) hyps assms(4), of now] by (auto simp: key_model_def)
  have w1: "w1 = w\<lparr>w_db := api_keys_update (update_row key_id ?k) (w_db w),
      w_committed := api_keys_update (update_row key_id ?k) (w_db w)\<rparr>"
    using key_crud.delete_run [OF ok(1) hyps assms(4), of now] del by (simp add: key_model_def)
  have get: "crud_get key_model (key_id k) False w = (Inr (Some k), w)"
    using key_crud.get_by_id [OF hyps, of False] assms(4) by (simp add: key_model_def visible_def)
  have run: "delete_api_key now owner (key_id k) w = (Inr (), w1)"
    using get del assms(5) by (simp add: delete_api_key_def owned_key_def)
  have wf: "table_wf key_id (api_keys (w_db w1))" "db_unique (w_db w1)"
    using key_row.wf_update [OF ok(2), of ?k] ok(1) by (simp_all add: w1 db_unique_def)
  have rows: "x = ?k \<or> x \<in> set (t_rows (api_keys (w_db w))) \<and> key_id x \<noteq> key_id k"
    if "x \<in> set (t_rows (api_keys (w_db w1)))" for x
    using that by (auto simp: w1 update_row_def split: if_splits)
  have mem: "?k \<in> set (t_rows (api_keys (w_db w1)))" using assms(2) by (force simp: w1 update_row_def)
  have one: "\<forall>x \<in> set (t_rows (api_keys (w_db w1))). key_is_active x \<and> key_prefix x = key_prefix ?k \<longrightarrow> x = ?k"
    using rows assms(8) by auto
  have "fst (api_key_verify sha t raw w1) = Inr (Some (?k\<lparr>key_last_used_at := Some t\<rparr>))"
    using verify_run [OF wf(2,1) mem _ one, of raw sha t] assms(3,6,7,9) by auto
  then show ?thesis using run gone by simp
qed

definition sample_key :: api_key where
  "sample_key = \<lparr>key_id = 1, key_user_id = 1, key_name = ''ci'', key_prefix = ''ak_abcdef0'', key_hashed_key = ''#ak_abcdef0123'',
     key_scopes = None, key_is_active = True, key_last_used_at = None, key_expires_at = None, key_deleted_at = None\<rparr>"

definition key_world :: "api_key \<Rightarrow> keyspace world" where
  "key_world k = (let d = sample_db\<lparr>api_keys := \<lparr>t_rows = [k], t_seq = 1\<rparr>\<rparr> in sample_world\<lparr>w_db := d, w_committed := d\<rparr>)"

lemma key_world_ok: "key_id k = 1 \<Longrightarrow> store_ok (key_world k)"
  using sample_db_ok by (simp add: store_ok_def key_world_def Let_def db_unique_def db_keys_def table_wf_def)

theorem deleted_key_authenticates_witness:
  "\<exists>w1 k'. delete_api_key 3 sample_user 1 (key_world sample_key) = (Inr (), w1) \<and>
     fst (api_key_verify (\<lambda>s. ''#'' @ s) 4 ''ak_abcdef0123'' w1) = Inr (Some k')"
  using deleted_key_authenticates [OF key_world_ok, of sample_key sample_key sample_user "\<lambda>s. ''#'' @ s" "''ak_abcdef0123''" 4 3]
  by (auto simp: key_world_def Let_def sample_key_def sample_user_def)

text \<open>
  Anybody may restore anybody's API key. The restore endpoint restores and commits before it checks the
  owner: a user who does not own a deleted key is answered 404, and the key is live again.
\<close>

theorem restore_before_ownership:
  assumes "store_ok w" and "k \<in> set (t_rows (api_keys (w_db w)))" and "key_deleted_at k \<noteq> None"
    and "key_user_id k \<noteq> user_id other"
  shows "\<exists>w'. restore_api_key other (key_id k) w = (Inl (HTTPException 404 ''Deleted API key not found''), w') \<and>
    api_keys (w_committed w') = update_row key_id (k\<lparr>key_deleted_at := None\<rparr>) (api_keys (w_committed w))"
proof -
  have ok: "db_unique (w_db w)" "table_wf key_id (api_keys (w_db w))" "w_committed w = w_db w"
    using assms(1) by (simp_all add: store_ok_def db_keys_def)
  show ?thesis
    using key_crud.restore_run [of w k] ok assms(2-4)
    by (simp add: restore_api_key_def key_model_def owned_key_def)
qed

theorem restore_before_ownership_witness:
  "\<exists>w'. restore_api_key (sample_user\<lparr>user_id := 2\<rparr>) 1 (key_world (sample_key\<lparr>key_deleted_at := Some 3\<rparr>)) =
     (Inl (HTTPException 404 ''Deleted API key not found''), w')"
  using restore_before_ownership [OF key_world_ok, of "sample_key\<lparr>key_deleted_at := Some 3\<rparr>" "sample_key\<lparr>key_deleted_at := Some 3\<rparr>"
      "sample_user\<lparr>user_id := 2\<rparr>"]
  by (auto simp: key_world_def Let_def sample_key_def)

section \<open>One-time values\<close>

lemma cache_get_run:
  assumes "redis_conforms R \<alpha>" "w_redis w = Some r"
  shows "ks_lookup t k (\<alpha> r) = None \<Longrightarrow> \<exists>r'. cache_get C R t k w = (Inr None, w\<lparr>w_redis := Some r'\<rparr>) \<and> \<alpha> r' = \<alpha> r"
    "ks_lookup t k (\<alpha> r) = Some (RStr s) \<Longrightarrow> json_loads C s = Some j \<Longrightarrow>
      \<exists>r'. cache_get C R t k w = (Inr (Some j), w\<lparr>w_redis := Some r'\<rparr>) \<and> \<alpha> r' = \<alpha> r"
  using redis_call_sim [OF conforms_str(1) [OF assms(1)] assms(2), of t k]
  by (force simp: cache_get_def ks_get_def)+

text \<open>
  A login state is consumed at most once. What was stored under a state is returned by the first
  consumption before the time to live has passed, never by a second one, and not at all after it. Hypotheses:
  Redis behaves as documented; the JSON codec loads the stored value as it was dumped.
\<close>

theorem oauth_state_once:
  assumes "redis_conforms R \<alpha>" and "w_redis w = Some r" and "json_loads C (json_dumps C d) = Some d"
    and "0 < OAUTH_STATE_EXPIRE_SECONDS S"
  shows "\<exists>w1. store_oauth_state S C R now st d w = (Inr (), w1) \<and>
    (\<forall>t t'. t < now + seconds_td (OAUTH_STATE_EXPIRE_SECONDS S) \<longrightarrow>
      (\<exists>w2 w3. consume_oauth_state C R t st w1 = (Inr (Some d), w2) \<and> consume_oauth_state C R t' st w2 = (Inr None, w3))) \<and>
    (\<forall>t. now + seconds_td (OAUTH_STATE_EXPIRE_SECONDS S) \<le> t \<longrightarrow>
      (\<exists>w2. consume_oauth_state C R t st w1 = (Inr None, w2)))"
proof -
  let ?k = "oauth_state_key st" and ?ttl = "OAUTH_STATE_EXPIRE_SECONDS S"
  obtain r1 where st: "store_oauth_state S C R now st d w = (Inr (), w\<lparr>w_redis := Some r1\<rparr>)"
    and a1: "\<alpha> r1 = (\<alpha> r)(?k \<mapsto> (RStr (json_dumps C d), Some (now + seconds_td ?ttl)))"
    using redis_call_sim [OF conforms_str(2) [OF assms(1)] assms(2), of now ?k ?ttl "json_dumps C d"] assms(4)
    by (auto simp: store_oauth_state_def cache_set_ttl_def ks_setex_def)
  let ?w1 = "w\<lparr>w_redis := Some r1\<rparr>"
  have once: "\<exists>w2 w3. consume_oauth_state C R t st ?w1 = (Inr (Some d), w2) \<and> consume_oauth_state C R t' st w2 = (Inr None, w3)"
    if t: "t < now + seconds_td ?ttl" for t t'
  proof -
    obtain r2 where g: "cache_get C R t ?k ?w1 = (Inr (Some d), w\<lparr>w_redis := Some r2\<rparr>)" "\<alpha> r2 = \<alpha> r1"
      using cache_get_run(2) [OF assms(1), of ?w1 r1 t ?k "json_dumps C d" C d] assms(3) t by (auto simp: a1)
    obtain r3 where "redis_call (rd_delete R t ?k) (w\<lparr>w_redis := Some r2\<rparr>) =
        (fst (ks_delete t ?k (\<alpha> r2)), w\<lparr>w_redis := Some r3\<rparr>)" "\<alpha> r3 = snd (ks_delete t ?k (\<alpha> r2))"
      using redis_call_sim_ex [OF conforms_str(3) [OF assms(1)]] by blast
    then have c: "consume_oauth_state C R t st ?w1 = (Inr (Some d), w\<lparr>w_redis := Some r3\<rparr>)" "\<alpha> r3 ?k = None"
      using g by (simp_all add: consume_oauth_state_def cache_delete_def ks_delete_def)
    have "ks_lookup t' ?k (\<alpha> r3) = None" using c(2) by (simp add: ks_lookup_def)
    then show ?thesis
      using cache_get_run(1) [OF assms(1), of "w\<lparr>w_redis := Some r3\<rparr>" r3 t' ?k C] c(1)
      by (auto simp: consume_oauth_state_def)
  qed
  have late: "\<exists>w2. consume_oauth_state C R t st ?w1 = (Inr None, w2)" if "now + seconds_td ?ttl \<le> t" for t
    using cache_get_run(1) [OF assms(1), of ?w1 r1 t ?k C] that by (auto simp: a1 consume_oauth_state_def)
  show ?thesis using st once late by blast
qed

definition true_codec :: json_codec where
  "true_codec = \<lparr>json_dumps = (\<lambda>j. if j = JBool True then ''true'' else ''null''),
     json_loads = (\<lambda>s. if s = ''true'' then Some (JBool True) else Some JNull)\<rparr>"

theorem oauth_state_once_witness:
  "\<exists>w1 w2 w3. store_oauth_state default_settings true_codec keyspace_redis 0 ''s'' (JBool True) sample_world = (Inr (), w1) \<and>
     consume_oauth_state true_codec keyspace_redis 5 ''s'' w1 = (Inr (Some (JBool True)), w2) \<and>
     consume_oauth_state true_codec keyspace_redis 6 ''s'' w2 = (Inr None, w3)"
  using oauth_state_once [OF keyspace_conforms, of sample_world Map.empty true_codec "JBool True" default_settings 0 "''s''"]
  by (auto simp: sample_world_def true_codec_def default_settings_def seconds_td_def)

lemma user_get_run:
  assumes "db_keys (w_db w)" "u \<in> set (t_rows (users (w_db w)))" "user_deleted_at u = None"
  shows "crud_get user_model (user_id u) False w = (Inr (Some u), w)"
  using user_crud.get_by_id [of w u False] assms by (simp add: user_model_def db_keys_def visible_def)

text \<open>
  An e-mail address is verified once. The token that an unverified user is sent verifies exactly that
  user's address, within 24 hours; afterwards the same token is refused at any time and changes nothing, and
  an expired token never verifies anything. Hypothesis: the JOSE library decodes what it encoded until it expires.
\<close>

theorem email_verified_once:
  assumes "store_ok w" and "u \<in> set (t_rows (users (w_db w)))" and "user_deleted_at u = None"
    and "\<not> user_is_verified u" and "jose_ok J" and "ALGORITHM S \<noteq> ''RS256''"
  shows "\<exists>tok. request_email_verification S J now u w = (Inr tok, w) \<and>
    (\<forall>t t'. timegm t \<le> timegm (now + hours_td 24) \<longrightarrow>
      (\<exists>w1 d. verify_email S J t tok w = (Inr (), w1) \<and> store_ok w1 \<and>
        users (w_committed w1) =
          update_row user_id (u\<lparr>user_is_verified := True, user_email_verified_at := Some t\<rparr>) (users (w_committed w)) \<and>
        verify_email S J t' tok w1 = (Inl (HTTPException 400 d), w1))) \<and>
    (\<forall>t. timegm (now + hours_td 24) < timegm t \<longrightarrow> (\<exists>d. verify_email S J t tok w = (Inl (HTTPException 400 d), w)))"
proof -
  let ?tok = "create_verification_token S J now (user_id u)"
  let ?p = "\<lparr>cl_jti = None, cl_sub = Some (show_int (user_id u)), cl_iat = None,
     cl_exp = Some (timegm (now + hours_td 24)), cl_purpose = Some ''email_verify''\<rparr>"
  have dec: "decode_verification_token S J (timegm t) ?tok =
    (if timegm t \<le> timegm (now + hours_td 24) then Inr ?p else Inl (HTTPException 400 ''Invalid or expired verification token''))" for t
    by (simp add: token_defs decode_encoded [OF assms(5,6)] unexpired_def)
  have ok: "db_unique (w_db w)" "db_keys (w_db w)" "w_committed w = w_db w" using assms(1) by (simp_all add: store_ok_def)
  have good: "\<exists>w1 d. verify_email S J t ?tok w = (Inr (), w1) \<and> store_ok w1 \<and>
      users (w_committed w1) =
        update_row user_id (u\<lparr>user_is_verified := True, user_email_verified_at := Some t\<rparr>) (users (w_committed w)) \<and>
      verify_email S J t' ?tok w1 = (Inl (HTTPException 400 d), w1)"
    if t: "timegm t \<le> timegm (now + hours_td 24)" for t t'
  proof -
    let ?u = "u\<lparr>user_is_verified := True, user_email_verified_at := Some t\<rparr>"
    let ?d = "users_update (update_row user_id ?u) (w_db w)"
    let ?w1 = "w\<lparr>w_db := ?d, w_committed := ?d\<rparr>"
    have d: "db_unique ?d" "db_keys ?d"
      using ok assms(2) db_keys_save_user [OF ok(2)]
      by (auto intro!: db_unique_save_user [of _ u] simp: db_keys_def)
    have run: "verify_email S J t ?tok w = (Inr (), ?w1)"
      using user_get_run [OF ok(2) assms(2,3)] assms(4) t d(1)
      by (simp add: verify_email_def dec sub_of_def int_exn_def commit_run)
    have mem: "?u \<in> set (t_rows (users (w_db ?w1)))" using assms(2) by (force simp: update_row_def)
    have "crud_get user_model (user_id u) False ?w1 = (Inr (Some ?u), ?w1)"
      using user_get_run [of ?w1 ?u] mem d assms(3) by simp
    then have "\<exists>d. verify_email S J t' ?tok ?w1 = (Inl (HTTPException 400 d), ?w1)"
      by (simp add: verify_email_def dec sub_of_def int_exn_def)
    then show ?thesis using run d ok(3) by (auto simp: store_ok_def)
  qed
  have late: "\<exists>d. verify_email S J t ?tok w = (Inl (HTTPException 400 d), w)" if "timegm (now + hours_td 24) < timegm t" for t
    using that by (simp add: verify_email_def dec)
  show ?thesis using good late assms(4) by (intro exI [of _ ?tok]) (simp add: request_email_verification_def)
qed

definition unverified_world :: "keyspace world" where
  "unverified_world = (let d = sample_db\<lparr>users := \<lparr>t_rows = [sample_user\<lparr>user_is_verified := False\<rparr>], t_seq = 1\<rparr>\<rparr>
     in sample_world\<lparr>w_db := d, w_committed := d\<rparr>)"

lemma unverified_world_ok: "store_ok unverified_world"
  using sample_db_ok
  by (simp add: store_ok_def unverified_world_def Let_def sample_db_def db_unique_def db_keys_def unique_on_def
      table_wf_def List.map_filter_simps sample_user_def)

theorem email_verified_once_witness:
  "\<exists>tok w1. request_email_verification default_settings plain_jose 0 (sample_user\<lparr>user_is_verified := False\<rparr>) unverified_world =
      (Inr tok, unverified_world) \<and> verify_email default_settings plain_jose 5 tok unverified_world = (Inr (), w1)"
proof -
  obtain tok where "request_email_verification default_settings plain_jose 0 (sample_user\<lparr>user_is_verified := False\<rparr>) unverified_world =
      (Inr tok, unverified_world)"
    and v: "\<And>t. timegm t \<le> timegm (0 + hours_td 24) \<Longrightarrow>
      \<exists>w1. verify_email default_settings plain_jose t tok unverified_world = (Inr (), w1)"
    using email_verified_once [OF unverified_world_ok _ _ _ plain_jose_ok, of "sample_user\<lparr>user_is_verified := False\<rparr>" default_settings 0]
    by (force simp: unverified_world_def Let_def sample_user_def default_settings_def)
  then show ?thesis using v [of 5] by (auto simp: timegm_def hours_td_def)
qed

end
