(* ===== verification/RateLimit.thy ===== *)
theory RateLimit
  imports Web "HOL-Library.Sublist" "HOL-Library.Multiset"
begin

text \<open>
  Rate limiting: the sliding-window limiter (\<^verbatim>\<open>app/core/rate_limiter.py\<close>), its middleware
  (\<^verbatim>\<open>app/middleware/redis_rate_limit.py\<close>) and the decorator that marks a route (\<^verbatim>\<open>app/decorators/rate_limit.py\<close>).

  \<open>now\<close> and \<open>later\<close> are the two readings of \<^verbatim>\<open>time.time()\<close> (floats), \<open>srv\<close> is the instant at which the Redis server executes
  the pipeline, and \<open>mem\<close> the random member. A pipeline is one transaction: every command is executed, and an error
  reply is raised afterwards. SHA-256 in hexadecimal is a parameter of the middleware. So are the routes of the
  application, each with the methods it has, what Starlette's \<^verbatim>\<open>matches\<close> says of a request, and the attribute that the
  decorator leaves on its endpoint. The Prometheus counters are left out.
\<close>

section \<open>The limiter\<close>

record rate_limit_result =
  rl_allowed :: bool
  rl_remaining :: int
  rl_reset :: int

fun pipeline :: "('r, int) io list \<Rightarrow> ('r, int list) io" where
  "pipeline [] r = (Inr [], r)"
| "pipeline (m # ms) r =
     (case m r of (x, r1) \<Rightarrow>
        case pipeline ms r1 of (xs, r2) \<Rightarrow>
          (case x of Inl e \<Rightarrow> Inl e | Inr n \<Rightarrow> map_sum id (\<lambda>ns. n # ns) xs, r2))"

definition int_reply :: "('r, bool) io \<Rightarrow> ('r, int) io" where
  "int_reply m = (\<lambda>r. case m r of (x, r') \<Rightarrow> (map_sum id of_bool x, r'))"

definition window_start :: "rat \<Rightarrow> int \<Rightarrow> rat" where
  "window_start now window_seconds = fl (now - of_int window_seconds)"

definition check_pipe :: "'r redis \<Rightarrow> datetime \<Rightarrow> string \<Rightarrow> int \<Rightarrow> rat \<Rightarrow> string \<Rightarrow> ('r, int) io list" where
  "check_pipe R srv key window_seconds now mem =
     [rd_zrem_upto R srv key (window_start now window_seconds), rd_zadd R srv key mem now, rd_zcard R srv key,
      int_reply (rd_expire R srv key window_seconds)]"

definition check ::
  "'r redis \<Rightarrow> datetime \<Rightarrow> rat \<Rightarrow> rat \<Rightarrow> string \<Rightarrow> string \<Rightarrow> int \<Rightarrow> int \<Rightarrow> ('r, rate_limit_result) app" where
  "check R srv now later mem key limit window_seconds =
     bindM (redis_call (pipeline (check_pipe R srv key window_seconds now mem))) (\<lambda>results.
       let count = results ! 2
       in returnM \<lparr>rl_allowed = count \<le> limit, rl_remaining = max 0 (limit - count),
            rl_reset = py_trunc (fl (fl (later - fl (now - window_start now window_seconds)) + of_int window_seconds))\<rparr>)"

section \<open>The middleware\<close>

text \<open>
  The result of Starlette's \<^verbatim>\<open>matches\<close> is a member of the class \<^verbatim>\<open>Match(Enum)\<close>. Python's \<^verbatim>\<open>Enum\<close> documents that a member of a class with no
  mixed-in type is true, whatever its value.
\<close>

datatype match = NONE | PARTIAL | FULL

definition match_true :: "match \<Rightarrow> bool" where
  "match_true m = True"

record route =
  rt_methods :: "string list option"
  rt_matches :: "request \<Rightarrow> match"
  rt_rate_limit_config :: "(int \<times> int) option"

definition rate_limit :: "int \<Rightarrow> int \<Rightarrow> route \<Rightarrow> route" where
  "rate_limit n seconds r = r\<lparr>rt_rate_limit_config := Some (n, seconds)\<rparr>"

definition UNLIMITED_PATHS :: "string list" where
  "UNLIMITED_PATHS = [''/healthz'', ''/readyz'', ''/metrics'']"

definition SENSITIVE_PREFIXES :: "settings \<Rightarrow> string list" where
  "SENSITIVE_PREFIXES S =
     [API_V1_STR S @ ''/auth/login'', API_V1_STR S @ ''/auth/register'', API_V1_STR S @ ''/auth/oauth'',
      API_V1_STR S @ ''/auth/totp'', API_V1_STR S @ ''/auth/magic-link'']"

definition ADMIN_PREFIX :: string where
  "ADMIN_PREFIX = ''/admin''"

definition get_remote_address :: "request \<Rightarrow> string" where
  "get_remote_address rq = (case forwarded_address rq of Some a \<Rightarrow> a | None \<Rightarrow> ''127.0.0.1'')"

definition get_identifier :: "request \<Rightarrow> string" where
  "get_identifier rq = (case req_user_id rq of Some u \<Rightarrow> u | None \<Rightarrow> get_remote_address rq)"

definition path_matches_any :: "string \<Rightarrow> string list \<Rightarrow> bool" where
  "path_matches_any path ps = list_ex (\<lambda>p. prefix p path) ps"

definition is_authenticated :: "request \<Rightarrow> bool" where
  "is_authenticated rq = (req_user_id rq \<noteq> None)"

definition get_tier_config :: "settings \<Rightarrow> string \<Rightarrow> bool \<Rightarrow> string \<times> int \<times> int" where
  "get_tier_config S path authenticated =
     (if prefix ADMIN_PREFIX path then (''admin'', RATE_LIMIT_ADMIN S, RATE_LIMIT_WINDOW_SECONDS S)
      else if path_matches_any path (SENSITIVE_PREFIXES S) then (''sensitive'', RATE_LIMIT_SENSITIVE S, RATE_LIMIT_WINDOW_SECONDS S)
      else if authenticated then (''authenticated'', RATE_LIMIT_AUTHENTICATED S, RATE_LIMIT_WINDOW_SECONDS S)
      else (''public'', RATE_LIMIT_PUBLIC S, RATE_LIMIT_WINDOW_SECONDS S))"

definition is_unlimited :: "string \<Rightarrow> bool" where
  "is_unlimited path = (path \<in> set UNLIMITED_PATHS)"

definition hash_key :: "(string \<Rightarrow> string) \<Rightarrow> string \<Rightarrow> string" where
  "hash_key sha v = take 16 (sha v)"

definition find_handler :: "route list \<Rightarrow> request \<Rightarrow> route option" where
  "find_handler routes rq =
     find (\<lambda>r. (case rt_methods r of Some ms \<Rightarrow> req_method rq \<in> set ms \<and> match_true (rt_matches r rq) | None \<Rightarrow> False)) routes"

text \<open>The key, the limit and the window that apply to a request.\<close>

definition limit_for :: "settings \<Rightarrow> (string \<Rightarrow> string) \<Rightarrow> route list \<Rightarrow> request \<Rightarrow> string \<times> int \<times> int" where
  "limit_for S sha routes rq =
     (let path = req_path rq; identifier = get_identifier rq;
          (tier_name, tier_limit, tier_window) = get_tier_config S path (is_authenticated rq);
          tier = (''rate_limit:'' @ tier_name @ '':'' @ hash_key sha identifier, tier_limit, tier_window)
      in case find_handler routes rq of
           Some h \<Rightarrow>
             (case rt_rate_limit_config h of
                Some (custom_limit, custom_window) \<Rightarrow>
                  (''rate_limit:custom:'' @ hash_key sha identifier @ '':'' @ hash_key sha path, custom_limit, custom_window)
              | None \<Rightarrow> tier)
         | None \<Rightarrow> tier)"

definition rate_limit_dispatch ::
  "settings \<Rightarrow> (string \<Rightarrow> string) \<Rightarrow> route list \<Rightarrow> 'r redis \<Rightarrow> datetime \<Rightarrow> rat \<Rightarrow> rat \<Rightarrow> string \<Rightarrow> 'r handler \<Rightarrow> 'r handler" where
  "rate_limit_dispatch S sha routes R srv now later mem call_next rq =
     (if ENVIRONMENT S = ''test'' \<or> \<not> RATE_LIMIT_ENABLED S then call_next rq
      else if is_unlimited (req_path rq) then call_next rq
      else (case limit_for S sha routes rq of (key, limit, window) \<Rightarrow>
              bindM (check R srv now later mem key limit window) (\<lambda>result.
                if \<not> rl_allowed result then raiseM (RateLimitException ''Rate limit exceeded'')
                else bindM (call_next rq) (\<lambda>response.
                  returnM (set_header ''x-ratelimit-reset'' (show_int (rl_reset result))
                    (set_header ''x-ratelimit-remaining'' (show_int (rl_remaining result))
                      (set_header ''x-ratelimit-limit'' (show_int limit) response)))))))"

section \<open>The pipeline on a conforming server\<close>

lemma sim_pipeline: "list_all2 (sim \<alpha>) ms ms' \<Longrightarrow> sim \<alpha> (pipeline ms) (pipeline ms')"
proof (induction ms ms' rule: list_all2_induct)
  case Nil
  then show ?case by (simp add: sim_def)
next
  case (Cons m ms m' ms')
  show ?case unfolding sim_def
  proof
    fix r
    have "fst (m r) = fst (m' (\<alpha> r))" "\<alpha> (snd (m r)) = snd (m' (\<alpha> r))" using simD [OF Cons.hyps(1)] by simp_all
    moreover have "fst (pipeline ms (snd (m r))) = fst (pipeline ms' (\<alpha> (snd (m r))))"
      "\<alpha> (snd (pipeline ms (snd (m r)))) = snd (pipeline ms' (\<alpha> (snd (m r))))"
      using simD [OF Cons.IH] by simp_all
    ultimately show "map_prod id \<alpha> (pipeline (m # ms) r) = pipeline (m' # ms') (\<alpha> r)"
      by (simp add: case_prod_unfold split: sum.split)
  qed
qed

lemma sim_int_reply: "sim \<alpha> m m' \<Longrightarrow> sim \<alpha> (int_reply m) (int_reply m')"
  by (simp add: sim_def int_reply_def case_prod_unfold prod_eq_iff)

lemma sim_check_pipe:
  assumes "redis_conforms R \<alpha>"
  shows "sim \<alpha> (pipeline (check_pipe R srv key W now mem)) (pipeline (check_pipe keyspace_redis srv key W now mem))"
  using assms by (intro sim_pipeline) (simp add: check_pipe_def redis_conforms_def keyspace_redis_def sim_int_reply)

lemma zset_put_facts:
  "set (zset_put m s xs) = insert (m, s) {x \<in> set xs. fst x \<noteq> m}"
  "distinct (map fst xs) \<Longrightarrow> distinct (map fst (zset_put m s xs))"
proof -
  show "set (zset_put m s xs) = insert (m, s) {x \<in> set xs. fst x \<noteq> m}"
    unfolding zset_put_def set_sort by auto
  assume d: "distinct (map fst xs)"
  have "mset (map fst (zset_put m s xs)) = mset (map fst ((m, s) # filter (\<lambda>(m', _). m' \<noteq> m) xs))"
    by (simp only: zset_put_def mset_map mset_sort)
  moreover have "distinct (map fst ((m, s) # filter (\<lambda>(m', _). m' \<noteq> m) xs))"
    using d by (auto simp: distinct_map_filter)
  ultimately show "distinct (map fst (zset_put m s xs))" by (metis mset_eq_imp_distinct_iff)
qed

lemma ks_zset_store [simp]: "ks_zset t k (ks_store t k (RZset xs) ks) = Inr xs"
  by (simp add: ks_zset_def)

lemma ks_zset_store_coll [simp]: "ks_zset t k (ks_store_coll t k (RZset xs) ks) = Inr xs"
  by (simp add: ks_zset_def ks_store_coll_def)

lemma ks_store_apply [simp]: "k' \<noteq> k \<Longrightarrow> ks_store t k v ks k' = ks k'" "k' \<noteq> k \<Longrightarrow> ks_store_coll t k v ks k' = ks k'"
  by (simp_all add: ks_store_def ks_store_coll_def)

text \<open>What one pipeline does to the sorted set of its key, and that it touches no other key.\<close>

lemma check_pipe_keyspace:
  fixes now :: rat and mem :: string
  assumes "ks_zset srv key ks = Inr xs" "0 < W"
  defines "ys \<equiv> zset_put mem now (filter (\<lambda>(_, s). \<not> s \<le> window_start now W) xs)"
  shows "\<exists>a b c ks'. pipeline (check_pipe keyspace_redis srv key W now mem) ks = (Inr [a, b, int (length ys), c], ks') \<and>
    ks' key = Some (RZset ys, Some (srv + seconds_td W)) \<and> (\<forall>k. k \<noteq> key \<longrightarrow> ks' k = ks k)"
  using assms(1,2) unfolding check_pipe_def keyspace_redis_def ys_def
  by (simp add: ks_zrem_upto_def ks_zadd_def ks_zcard_def ks_expire_def int_reply_def)

lemma check_pipe_frame:
  assumes "k \<noteq> key"
  shows "snd (pipeline (check_pipe keyspace_redis srv key W now mem) ks) k = ks k"
proof -
  have "snd (ks_zrem_upto srv key x ks) k = ks k" "snd (ks_zadd srv key m x ks) k = ks k" "snd (ks_zcard srv key ks) k = ks k"
    "snd (int_reply (ks_expire srv key W) ks) k = ks k" for x m ks
    using assms by (auto simp: ks_zrem_upto_def ks_zadd_def ks_zcard_def ks_expire_def int_reply_def split: sum.split option.split)
  then show ?thesis by (simp add: check_pipe_def keyspace_redis_def case_prod_unfold)
qed

section \<open>The sliding window\<close>

text \<open>
  The reference: the times of all earlier calls are kept, and a call is allowed when it and the earlier calls within
  its window are at most \<open>limit\<close>. Refused calls are in the log too.
\<close>

fun sliding_log :: "int \<Rightarrow> int \<Rightarrow> rat list \<Rightarrow> rat list \<Rightarrow> bool list" where
  "sliding_log limit W past [] = []"
| "sliding_log limit W past (t # ts) =
     (1 + int (length (filter (\<lambda>u. window_start t W < u) past)) \<le> limit) # sliding_log limit W (past @ [t]) ts"

record limit_call =
  lc_key :: string
  lc_now :: rat
  lc_later :: rat
  lc_srv :: datetime
  lc_mem :: string

fun run_checks ::
  "'r redis \<Rightarrow> (string \<Rightarrow> int) \<Rightarrow> (string \<Rightarrow> int) \<Rightarrow> limit_call list \<Rightarrow> 'r world \<Rightarrow> (string \<times> (exn + rate_limit_result)) list" where
  "run_checks R lims win [] w = []"
| "run_checks R lims win (c # cs) w =
     (case check R (lc_srv c) (lc_now c) (lc_later c) (lc_mem c) (lc_key c) (lims (lc_key c)) (win (lc_key c)) w of
        (x, w') \<Rightarrow> (lc_key c, x) # run_checks R lims win cs w')"

text \<open>
  The clock of the application and the clock of the server agree on what is over: when the server has let the key
  expire, the last call on it is out of the window of the next one.
\<close>

fun clocks_agree :: "int \<Rightarrow> limit_call list \<Rightarrow> bool" where
  "clocks_agree W (c # d # cs) =
     ((lc_srv c + seconds_td W \<le> lc_srv d \<longrightarrow> lc_now c \<le> window_start (lc_now d) W) \<and> clocks_agree W (d # cs))"
| "clocks_agree W cs = True"

definition holds_log :: "string \<Rightarrow> int \<Rightarrow> limit_call list \<Rightarrow> keyspace \<Rightarrow> bool" where
  "holds_log k W cs ks \<longleftrightarrow>
     (if cs = [] then ks k = None
      else \<exists>xs. ks k = Some (RZset xs, Some (lc_srv (last cs) + seconds_td W)) \<and> distinct (map fst xs) \<and>
             set xs = (\<lambda>c. (lc_mem c, lc_now c)) ` {c \<in> set cs. window_start (lc_now (last cs)) W < lc_now c \<or> c = last cs})"

lemma window_start_mono: "t \<le> u \<Longrightarrow> window_start t W \<le> window_start u W"
  unfolding window_start_def by (rule fl_mono) simp

lemma clocks_agree_last: "clocks_agree W (cs @ [c]) \<Longrightarrow> cs \<noteq> [] \<Longrightarrow> lc_srv (last cs) + seconds_td W \<le> lc_srv c \<Longrightarrow>
  lc_now (last cs) \<le> window_start (lc_now c) W"
  by (induction W cs rule: clocks_agree.induct) auto

lemma clocks_agree_prefix: "clocks_agree W (cs @ ds) \<Longrightarrow> clocks_agree W cs"
  by (induction W cs rule: clocks_agree.induct) auto

text \<open>What is left of the set when the next call has dropped the entries before its window.\<close>

lemma holds_log_pruned:
  assumes "holds_log k W cs ks" "sorted (map lc_now (cs @ [c]))" "clocks_agree W (cs @ [c])"
  shows "\<exists>xs. ks_zset (lc_srv c) k ks = Inr xs \<and> distinct (map fst xs) \<and>
    {x \<in> set xs. \<not> snd x \<le> window_start (lc_now c) W} =
      (\<lambda>c. (lc_mem c, lc_now c)) ` {d \<in> set cs. window_start (lc_now c) W < lc_now d}"
proof (cases "cs = []")
  case True
  then show ?thesis using assms(1) by (simp add: holds_log_def ks_zset_def ks_lookup_def)
next
  case False
  then have last: "last cs \<in> set cs" "lc_now (last cs) \<le> lc_now c" using assms(2) by (simp_all add: sorted_append)
  have le: "lc_now d \<le> lc_now (last cs)" if "d \<in> set cs" for d
  proof -
    have "sorted (map lc_now (butlast cs @ [last cs]))" using assms(2) False by (simp add: sorted_append)
    moreover have "d \<in> set (butlast cs) \<or> d = last cs" using that False by (metis append_butlast_last_id rotate1.simps(2) set_ConsD set_rotate1)
    ultimately show ?thesis by (auto simp: sorted_append)
  qed
  obtain xs where xs: "ks k = Some (RZset xs, Some (lc_srv (last cs) + seconds_td W))" "distinct (map fst xs)"
    "set xs = (\<lambda>c. (lc_mem c, lc_now c)) ` {c \<in> set cs. window_start (lc_now (last cs)) W < lc_now c \<or> c = last cs}"
    using assms(1) False by (auto simp: holds_log_def)
  show ?thesis
  proof (cases "lc_srv (last cs) + seconds_td W \<le> lc_srv c")
    case True
    then have "lc_now d \<le> window_start (lc_now c) W" if "d \<in> set cs" for d
      using le [OF that] clocks_agree_last [OF assms(3) False] by simp
    then show ?thesis using True xs(1) by (force simp: ks_zset_def ks_lookup_def)
  next
    case False
    then have "ks_zset (lc_srv c) k ks = Inr xs" using xs(1) by (simp add: ks_zset_def ks_lookup_def)
    moreover have "window_start (lc_now (last cs)) W \<le> window_start (lc_now c) W" by (rule window_start_mono [OF last(2)])
    ultimately show ?thesis using xs(2,3) by (auto simp: image_iff)
  qed
qed

lemma holds_log_step:
  assumes "holds_log k W cs ks" "sorted (map lc_now (cs @ [c]))" "clocks_agree W (cs @ [c])" "distinct (map lc_mem (cs @ [c]))" "0 < W"
  shows "\<exists>a b e ks'. pipeline (check_pipe keyspace_redis (lc_srv c) k W (lc_now c) (lc_mem c)) ks =
      (Inr [a, b, 1 + int (length (filter (\<lambda>u. window_start (lc_now c) W < u) (map lc_now cs))), e], ks') \<and>
    holds_log k W (cs @ [c]) ks'"
proof -
  let ?in = "\<lambda>d. window_start (lc_now c) W < lc_now d" and ?p = "\<lambda>c. (lc_mem c, lc_now c)"
  obtain xs where xs: "ks_zset (lc_srv c) k ks = Inr xs" "distinct (map fst xs)"
    "{x \<in> set xs. \<not> snd x \<le> window_start (lc_now c) W} = ?p ` {d \<in> set cs. ?in d}"
    using holds_log_pruned [OF assms(1-3)] by blast
  let ?ys = "zset_put (lc_mem c) (lc_now c) (filter (\<lambda>(_, s). \<not> s \<le> window_start (lc_now c) W) xs)"
  have "set (filter (\<lambda>(_, s). \<not> s \<le> window_start (lc_now c) W) xs) = ?p ` {d \<in> set cs. ?in d}"
    using xs(3) by (auto simp: case_prod_unfold)
  then have set: "set ?ys = insert (?p c) (?p ` {d \<in> set cs. ?in d})"
    using assms(4) by (auto simp: zset_put_facts(1) image_iff)
  have dist: "distinct (map fst ?ys)" by (rule zset_put_facts(2)) (use xs(2) in \<open>simp add: distinct_map_filter\<close>)
  have "inj_on (fst \<circ> ?p) (set (cs @ [c]))" using assms(4) by (simp only: distinct_map o_def fst_conv)
  then have inj: "inj_on ?p (set (cs @ [c]))" by (rule inj_on_imageI2)
  have "length ?ys = card (set ?ys)" using dist by (metis distinct_card distinct_map)
  also have "\<dots> = card (?p ` insert c {d \<in> set cs. ?in d})" by (simp add: set)
  also have "\<dots> = card (insert c {d \<in> set cs. ?in d})" by (rule card_image) (rule inj_on_subset [OF inj], auto)
  also have "\<dots> = Suc (card (set (filter ?in cs)))"
  proof -
    have "c \<notin> set cs" using assms(4) by auto
    then show ?thesis by simp
  qed
  also have "\<dots> = Suc (length (filter ?in cs))"
    using assms(4) distinct_card [of "filter ?in cs"] by (simp add: distinct_map del: set_filter)
  finally have len: "length ?ys = Suc (length (filter (\<lambda>u. window_start (lc_now c) W < u) (map lc_now cs)))"
    by (simp add: filter_map o_def)
  obtain a b e ks' where run: "pipeline (check_pipe keyspace_redis (lc_srv c) k W (lc_now c) (lc_mem c)) ks =
      (Inr [a, b, int (length ?ys), e], ks')" "ks' k = Some (RZset ?ys, Some (lc_srv c + seconds_td W))"
    using check_pipe_keyspace [OF xs(1) assms(5)] by blast
  have "set ?ys = ?p ` {d \<in> set (cs @ [c]). ?in d \<or> d = c}" using set by auto
  then have "holds_log k W (cs @ [c]) ks'" using run(2) dist by (simp add: holds_log_def)
  then show ?thesis using run(1) len by simp
qed

lemma holds_log_frame: "ks k = ks' k \<Longrightarrow> holds_log k W cs ks \<longleftrightarrow> holds_log k W cs ks'"
  by (simp add: holds_log_def)

text \<open>One call through a conforming client.\<close>

lemma check_conforms:
  assumes "redis_conforms R \<alpha>" "w_redis w = Some r"
  shows "\<exists>r'. check R srv now later mem key limit W w =
      (map_sum id (\<lambda>ns. \<lparr>rl_allowed = ns ! 2 \<le> limit, rl_remaining = max 0 (limit - ns ! 2),
          rl_reset = py_trunc (fl (fl (later - fl (now - window_start now W)) + of_int W))\<rparr>)
         (fst (pipeline (check_pipe keyspace_redis srv key W now mem) (\<alpha> r))), w\<lparr>w_redis := Some r'\<rparr>) \<and>
    \<alpha> r' = snd (pipeline (check_pipe keyspace_redis srv key W now mem) (\<alpha> r))"
proof -
  obtain r' where run: "redis_call (pipeline (check_pipe R srv key W now mem)) w =
      (fst (pipeline (check_pipe keyspace_redis srv key W now mem) (\<alpha> r)), w\<lparr>w_redis := Some r'\<rparr>)"
    "\<alpha> r' = snd (pipeline (check_pipe keyspace_redis srv key W now mem) (\<alpha> r))"
    using redis_call_sim [OF sim_check_pipe [OF assms(1)] assms(2)] by blast
  show ?thesis
    by (intro exI [of _ r'] conjI run(2)) (simp add: check_def bindM_def run(1) Let_def returnM_def split: sum.split)
qed

lemma run_checks_log:
  assumes "redis_conforms R \<alpha>" "0 < win k"
  shows "w_redis w = Some r \<Longrightarrow> holds_log k (win k) past (\<alpha> r) \<Longrightarrow>
    sorted (map lc_now (past @ filter (\<lambda>c. lc_key c = k) cs)) \<Longrightarrow> clocks_agree (win k) (past @ filter (\<lambda>c. lc_key c = k) cs) \<Longrightarrow>
    distinct (map lc_mem (past @ filter (\<lambda>c. lc_key c = k) cs)) \<Longrightarrow>
    map (map_sum id rl_allowed \<circ> snd) (filter (\<lambda>(k', _). k' = k) (run_checks R lims win cs w)) =
      map Inr (sliding_log (lims k) (win k) (map lc_now past) (map lc_now (filter (\<lambda>c. lc_key c = k) cs)))"
proof (induction cs arbitrary: w r past)
  case Nil
  then show ?case by simp
next
  case (Cons c cs)
  let ?pipe = "pipeline (check_pipe keyspace_redis (lc_srv c) (lc_key c) (win (lc_key c)) (lc_now c) (lc_mem c)) (\<alpha> r)"
  obtain r' where run: "check R (lc_srv c) (lc_now c) (lc_later c) (lc_mem c) (lc_key c) (lims (lc_key c)) (win (lc_key c)) w =
      (map_sum id (\<lambda>ns. \<lparr>rl_allowed = ns ! 2 \<le> lims (lc_key c), rl_remaining = max 0 (lims (lc_key c) - ns ! 2),
          rl_reset = py_trunc (fl (fl (lc_later c - fl (lc_now c - window_start (lc_now c) (win (lc_key c)))) + of_int (win (lc_key c))))\<rparr>)
         (fst ?pipe), w\<lparr>w_redis := Some r'\<rparr>)" "\<alpha> r' = snd ?pipe"
    using check_conforms [OF assms(1) Cons.prems(1)] by blast
  show ?case
  proof (cases "lc_key c = k")
    case True
    have pre: "sorted (map lc_now (past @ [c]))" "clocks_agree (win k) (past @ [c])" "distinct (map lc_mem (past @ [c]))"
      using Cons.prems(3-5) True by (auto simp: sorted_append intro: clocks_agree_prefix)
    obtain a b e ks' where pipe: "?pipe =
        (Inr [a, b, 1 + int (length (filter (\<lambda>u. window_start (lc_now c) (win k) < u) (map lc_now past))), e], ks')"
      "holds_log k (win k) (past @ [c]) ks'"
      using holds_log_step [OF Cons.prems(2) pre assms(2)] True by blast
    have "holds_log k (win k) (past @ [c]) (\<alpha> r')" using run(2) pipe by simp
    then show ?thesis
      using Cons.IH [of "w\<lparr>w_redis := Some r'\<rparr>" r' "past @ [c]"] Cons.prems(3-5) True run(1) pipe(1) by simp
  next
    case False
    then have "holds_log k (win k) past (\<alpha> r')"
      using Cons.prems(2) run(2) check_pipe_frame [of k "lc_key c"] holds_log_frame [of "\<alpha> r" k "\<alpha> r'"] by simp
    then show ?thesis using Cons.IH [of "w\<lparr>w_redis := Some r'\<rparr>" r' past] Cons.prems(3-5) False run(1) by simp
  qed
qed

text \<open>
  C3: the limiter counts exactly. For calls on any keys in any interleaving, through any server that conforms to the
  documented commands, the answers on a key are those of the reference that keeps the times of all earlier calls on
  that key: a call is allowed exactly when it and the earlier ones in its window, refused ones included, are at most
  the limit. The key starts out absent, the clock does not go back between its calls, members are
  fresh, and the two clocks agree on what is over.
\<close>

theorem limiter_exact:
  assumes "redis_conforms R \<alpha>" and "w_redis w = Some r" and "\<alpha> r k = None" and "0 < win k"
    and "sorted (map lc_now (filter (\<lambda>c. lc_key c = k) cs))" and "distinct (map lc_mem (filter (\<lambda>c. lc_key c = k) cs))"
    and "clocks_agree (win k) (filter (\<lambda>c. lc_key c = k) cs)"
  shows "map (map_sum id rl_allowed \<circ> snd) (filter (\<lambda>(k', _). k' = k) (run_checks R lims win cs w)) =
    map Inr (sliding_log (lims k) (win k) [] (map lc_now (filter (\<lambda>c. lc_key c = k) cs)))"
  using run_checks_log [where win = win and k = k and past = "[]", OF assms(1,4,2)] assms(3,5-7) by (simp add: holds_log_def)

definition sample_calls :: "limit_call list" where
  "sample_calls = map (\<lambda>(k, t, m). \<lparr>lc_key = k, lc_now = of_int t, lc_later = of_int t, lc_srv = t * 1000000, lc_mem = m\<rparr>)
     [(''a'', 100, ''m1''), (''b'', 101, ''m2''), (''a'', 110, ''m3''), (''a'', 120, ''m4''), (''a'', 161, ''m5'')]"

theorem limiter_exact_witness:
  "map (map_sum id rl_allowed \<circ> snd)
     (filter (\<lambda>(k', _). k' = ''a'') (run_checks keyspace_redis (\<lambda>_. 2) (\<lambda>_. 60) sample_calls (sample_world\<lparr>w_redis := Some Map.empty\<rparr>))) =
   [Inr True, Inr True, Inr False, Inr False]"
proof -
  have ws: "window_start (of_int t) 60 = of_int (t - 60)" if "\<bar>t\<bar> < 1000" for t
    using fl_of_int [of "t - 60"] that by (simp add: window_start_def)
  have ws': "window_start 100 60 = 40" "window_start 110 60 = 50" "window_start 120 60 = 60" "window_start 161 60 = 101"
    using ws [of 100] ws [of 110] ws [of 120] ws [of 161] by simp_all
  have "map (map_sum id rl_allowed \<circ> snd)
     (filter (\<lambda>(k', _). k' = ''a'') (run_checks keyspace_redis (\<lambda>_. 2) (\<lambda>_. 60) sample_calls (sample_world\<lparr>w_redis := Some Map.empty\<rparr>))) =
    map Inr (sliding_log 2 60 [] (map lc_now (filter (\<lambda>c. lc_key c = ''a'') sample_calls)))"
    by (rule limiter_exact [OF keyspace_conforms, where r = Map.empty])
      (simp_all add: sample_calls_def ws' seconds_td_def)
  also have "\<dots> = [Inr True, Inr True, Inr False, Inr False]" by (simp add: sample_calls_def ws')
  finally show ?thesis .
qed

text \<open>
  The decorator's limits go astray. Which route serves a request plays no part in the search for the handler: the
  members of \<^verbatim>\<open>Match\<close> are all true, so the search stops at the first route with the method of the request. When that
  route carries no limit of its own, no request of that method is held to a limit set by the decorator; when it
  does, every request of that method is.
\<close>

theorem decorator_limits_misapplied:
  assumes "rt_methods r = Some ms" and "req_method rq \<in> set ms"
    and "\<forall>r' \<in> set before. \<forall>ms'. rt_methods r' = Some ms' \<longrightarrow> req_method rq \<notin> set ms'"
  shows "find_handler (before @ r # routes) rq = Some r \<and>
    (rt_rate_limit_config r = None \<longrightarrow>
       (\<exists>tier. limit_for S sha (before @ r # routes) rq =
          (''rate_limit:'' @ fst tier @ '':'' @ hash_key sha (get_identifier rq), snd tier) \<and>
        tier = get_tier_config S (req_path rq) (is_authenticated rq))) \<and>
    (\<forall>n s. rt_rate_limit_config r = Some (n, s) \<longrightarrow> snd (limit_for S sha (before @ r # routes) rq) = (n, s))"
proof -
  have "find_handler (before @ r # routes) rq = Some r"
    using assms by (induction before) (auto simp: find_handler_def match_true_def split: option.split)
  then show ?thesis by (auto simp: limit_for_def Let_def split: prod.split)
qed

definition plain_route :: "string \<Rightarrow> string \<Rightarrow> route" where
  "plain_route meth path = \<lparr>rt_methods = Some [meth], rt_matches = (\<lambda>rq. if req_path rq = path then FULL else NONE), rt_rate_limit_config = None\<rparr>"

definition login_request :: request where
  "login_request = \<lparr>req_method = ''POST'', req_path = ''/api/v1/auth/login'', req_headers = [], req_cookies = [], req_form = [],
     req_query = [], req_client = Some ''10.1.2.3'', req_user_id = None\<rparr>"

theorem decorator_limits_misapplied_witness:
  "rt_matches (plain_route ''POST'' ''/admin/users'') login_request = NONE \<and>
   find_handler ([] @ plain_route ''POST'' ''/admin/users'' # [rate_limit 10 60 (plain_route ''POST'' ''/api/v1/auth/login'')]) login_request =
     Some (plain_route ''POST'' ''/admin/users'')"
  using decorator_limits_misapplied [of "plain_route ''POST'' ''/admin/users''" "[''POST'']" login_request "[]"
      "[rate_limit 10 60 (plain_route ''POST'' ''/api/v1/auth/login'')]"]
  by (simp add: plain_route_def login_request_def)

text \<open>
  The middleware: a refused call raises and the handler does not run; an allowed one runs it and adds the three headers; the
  limiter is not consulted for probes, in tests, or when limiting is off; and when Redis is not connected
  every limited request fails.
\<close>

lemma rate_limit_dispatch_spec:
  assumes "ENVIRONMENT S \<noteq> ''test''" and "RATE_LIMIT_ENABLED S" and "\<not> is_unlimited (req_path rq)"
    and "limit_for S sha routes rq = (key, limit, W)"
  shows "check R srv now later mem key limit W w = (Inr res, w') \<and> \<not> rl_allowed res \<longrightarrow>
      rate_limit_dispatch S sha routes R srv now later mem app rq w = (Inl (RateLimitException ''Rate limit exceeded''), w')"
    and "check R srv now later mem key limit W w = (Inr res, w') \<and> rl_allowed res \<and> app rq w' = (Inr resp, w'') \<longrightarrow>
      (\<exists>resp'. rate_limit_dispatch S sha routes R srv now later mem app rq w = (Inr resp', w'') \<and>
        res_status resp' = res_status resp \<and> res_body resp' = res_body resp \<and>
        map_of (res_headers resp') ''x-ratelimit-limit'' = Some (show_int limit) \<and>
        map_of (res_headers resp') ''x-ratelimit-remaining'' = Some (show_int (rl_remaining res)))"
    and "w_redis w = None \<longrightarrow>
      rate_limit_dispatch S sha routes R srv now later mem app rq w = (Inl (RuntimeError ''RedisCache is not connected''), w)"
  using assms by (auto simp: rate_limit_dispatch_def bindM_def check_def)

text \<open>With readings of the clock in whole seconds, the reported reset time is the present, not the end of a window.\<close>

lemma reset_is_now:
  assumes "check R srv (of_int now) (of_int later) mem key limit W w = (Inr res, w')"
    and "\<bar>now\<bar> < 2 ^ 51" "\<bar>later\<bar> < 2 ^ 51" "\<bar>W\<bar> < 2 ^ 51"
  shows "rl_reset res = later"
proof -
  have small: "fl (of_int a - of_int b) = of_int (a - b)" if "\<bar>a\<bar> + \<bar>b\<bar> < 2 ^ 53" for a b
    using fl_of_int [of "a - b"] that by (simp add: abs_if split: if_splits)
  have ws: "window_start (of_int now) W = of_int (now - W)" unfolding window_start_def by (rule small) (use assms in simp)
  have "fl (of_int now - of_int (now - W)) = of_int W" using small [of now "now - W"] assms(2,4) by simp
  moreover have "fl (of_int later - of_int W) = of_int (later - W)" by (rule small) (use assms in simp)
  moreover have "fl (of_int (later - W) + of_int W) = (of_int later :: rat)" using fl_of_int [of later] assms(3) by simp
  ultimately have "py_trunc (fl (fl (of_int later - fl (of_int now - window_start (of_int now) W)) + of_int W)) = later"
    by (simp only: ws py_trunc_of_int)
  then show ?thesis using assms(1) by (auto simp: check_def bindM_def Let_def split: prod.splits sum.splits)
qed

end
