(* ===== verification/Middleware.thy ===== *)
theory Middleware
  imports Web Signing "HOL-Library.Sublist"
begin

text \<open>
  Middleware of \<^verbatim>\<open>app/middleware\<close> and \<^verbatim>\<open>app/i18n\<close>: the double-submit CSRF token, the security headers, the negotiation of the API
  version, the locale, the correlation id, and compression.

  The HMAC, random values, and the compressors (\<^verbatim>\<open>brotli\<close>, \<^verbatim>\<open>gzip\<close>) are parameters. A form has text fields only. Cookies are
  name and value; their attributes are left out. Header values are Latin-1 strings, as Starlette decodes them.
\<close>

section \<open>CSRF tokens\<close>

definition sign_token :: "hmac \<Rightarrow> string \<Rightarrow> string \<Rightarrow> string" where
  "sign_token hmac v secret = hmac secret v"

text \<open>\<^verbatim>\<open>hmac.compare_digest\<close> on strings raises for non-ASCII input.\<close>

definition compare_digest :: "string \<Rightarrow> string \<Rightarrow> exn + bool" where
  "compare_digest a b =
     (if is_ascii a \<and> is_ascii b then Inr (a = b)
      else Inl (PyTypeError ''comparing strings with non-ASCII characters is not supported''))"

definition verify_token :: "hmac \<Rightarrow> string \<Rightarrow> string \<Rightarrow> string \<Rightarrow> exn + bool" where
  "verify_token hmac v signature secret = compare_digest (sign_token hmac v secret) signature"

text \<open>\<open>raw\<close> is \<^verbatim>\<open>secrets.token_hex(8)\<close>.\<close>

definition make_token :: "hmac \<Rightarrow> string \<Rightarrow> string \<Rightarrow> string" where
  "make_token hmac raw secret = raw @ sign_token hmac raw secret"

definition submitted_token :: "request \<Rightarrow> string" where
  "submitted_token rq =
     (case header rq ''x-csrf-token'' of
        Some (c # cs) \<Rightarrow> c # cs
      | _ \<Rightarrow> (case map_of (req_form rq) ''csrf_token'' of Some raw \<Rightarrow> raw | None \<Rightarrow> []))"

definition csrf_validate_request :: "hmac \<Rightarrow> string \<Rightarrow> string \<Rightarrow> request \<Rightarrow> exn + web_response option" where
  "csrf_validate_request hmac secret cookie_name rq =
     (let cookie_token = (case map_of (req_cookies rq) cookie_name of Some c \<Rightarrow> c | None \<Rightarrow> []);
          header_token = submitted_token rq
      in if header_token = [] \<or> cookie_token = [] then Inr (Some (plain_response 403 ''CSRF token missing''))
         else (let cookie_value = take 16 cookie_token; cookie_sig = drop 16 cookie_token;
                   header_value = take 16 header_token; header_sig = drop 16 header_token
               in case verify_token hmac cookie_value cookie_sig secret of
                    Inl e \<Rightarrow> Inl e
                  | Inr False \<Rightarrow> Inr (Some (plain_response 403 ''CSRF cookie invalid''))
                  | Inr True \<Rightarrow>
                      (case verify_token hmac header_value header_sig secret of
                         Inl e \<Rightarrow> Inl e
                       | Inr False \<Rightarrow> Inr (Some (plain_response 403 ''CSRF token invalid''))
                       | Inr True \<Rightarrow>
                           (case compare_digest cookie_value header_value of
                              Inl e \<Rightarrow> Inl e
                            | Inr False \<Rightarrow> Inr (Some (plain_response 403 ''CSRF token mismatch''))
                            | Inr True \<Rightarrow> Inr None))))"

definition set_cookie :: "string \<Rightarrow> string \<Rightarrow> web_response \<Rightarrow> web_response" where
  "set_cookie name v r = r\<lparr>res_cookies := res_cookies r @ [(name, v)]\<rparr>"

definition csrf_dispatch :: "hmac \<Rightarrow> string \<Rightarrow> string \<Rightarrow> string \<Rightarrow> 'r handler \<Rightarrow> 'r handler" where
  "csrf_dispatch hmac secret cookie_name raw call_next rq =
     (let path = req_path rq;
          proceed = bindM (call_next rq) (\<lambda>response.
            if prefix ''/admin'' path \<and> req_method rq = ''GET''
            then returnM (set_cookie cookie_name (make_token hmac raw secret) response) else returnM response)
      in if prefix ''/admin'' path \<and> req_method rq \<in> {''POST'', ''PUT'', ''PATCH'', ''DELETE''}
         then bindM (liftM (csrf_validate_request hmac secret cookie_name rq)) (\<lambda>err.
                case err of Some response \<Rightarrow> returnM response | None \<Rightarrow> proceed)
         else proceed)"

section \<open>Response headers\<close>

definition dquoted :: "string \<Rightarrow> string" where
  "dquoted s = CHR 0x22 # s @ [CHR 0x22]"

definition build_csp :: "settings \<Rightarrow> string" where
  "build_csp S = py_join ''; ''
     [''default-src '' @ CSP_DEFAULT_SRC S, ''script-src '' @ CSP_SCRIPT_SRC S, ''style-src '' @ CSP_STYLE_SRC S,
      ''img-src '' @ CSP_IMG_SRC S, ''connect-src '' @ CSP_CONNECT_SRC S, ''frame-ancestors '' @ CSP_FRAME_ANCESTORS S,
      ''form-action '' @ CSP_FORM_ACTION S, ''report-uri '' @ CSP_REPORT_URI S, ''report-to csp-endpoint'']"

definition security_headers :: "settings \<Rightarrow> (string \<times> string) list" where
  "security_headers S =
     [(''x-content-type-options'', ''nosniff''), (''x-frame-options'', ''DENY''), (''x-xss-protection'', ''0''),
      (''referrer-policy'', ''strict-origin-when-cross-origin''),
      (''strict-transport-security'', ''max-age=31536000; includeSubDomains''),
      (''permissions-policy'', ''geolocation=(), camera=(), microphone=()''), (''content-security-policy'', build_csp S),
      (''report-to'', ''{'' @ dquoted ''group'' @ '':'' @ dquoted ''csp-endpoint'' @ '','' @ dquoted ''max_age'' @ '':10886400,'' @
         dquoted ''endpoints'' @ '':[{'' @ dquoted ''url'' @ '':'' @ dquoted (CSP_REPORT_URI S) @ ''}]}'')]"

definition security_headers_dispatch :: "settings \<Rightarrow> 'r handler \<Rightarrow> 'r handler" where
  "security_headers_dispatch S call_next rq =
     bindM (call_next rq) (\<lambda>response. returnM (fold (\<lambda>(n, v). set_header n v) (security_headers S) response))"

definition correlation_dispatch :: "string \<Rightarrow> 'r handler \<Rightarrow> 'r handler" where
  "correlation_dispatch uuid4 call_next rq =
     (let correlation_id = (case header rq ''x-correlation-id'' of Some h \<Rightarrow> h | None \<Rightarrow> uuid4)
      in bindM (call_next rq) (\<lambda>response. returnM (set_header ''x-correlation-id'' correlation_id response)))"

section \<open>Versions and locales\<close>

text \<open>The leftmost match of \<open>before(\d+)after\<close>, as the matched digits.\<close>

fun search_digits :: "string \<Rightarrow> string \<Rightarrow> string \<Rightarrow> string option" where
  "search_digits before after s =
     (let rest = drop (length before) s; ds = takeWhile is_digit rest
      in if prefix before s \<and> ds \<noteq> [] \<and> prefix after (dropWhile is_digit rest) then Some ds
         else (case s of [] \<Rightarrow> None | _ # s' \<Rightarrow> search_digits before after s'))"

definition extract_version :: "request \<Rightarrow> int" where
  "extract_version rq =
     (case search_digits ''application/vnd.app.v'' ''+json'' (case header rq ''accept'' of Some a \<Rightarrow> a | None \<Rightarrow> []) of
        Some ds \<Rightarrow> int (digits_val ds)
      | None \<Rightarrow> (case search_digits ''/api/v'' [] (req_path rq) of Some ds \<Rightarrow> int (digits_val ds) | None \<Rightarrow> 1))"

definition api_versioning_dispatch :: "settings \<Rightarrow> 'r handler \<Rightarrow> 'r handler" where
  "api_versioning_dispatch S call_next rq =
     (let version = extract_version rq
      in bindM (call_next rq) (\<lambda>response.
           let response = set_header ''x-api-version'' (show_int version) response
           in if API_DEPRECATED_SINCE S = [] then returnM response
              else bindM (liftM (int_exn (API_DEPRECATED_SINCE S))) (\<lambda>since.
                if version < since
                then returnM (set_header ''sunset'' (API_DEPRECATED_SUNSET_DATE S) (set_header ''deprecation'' ''true'' response))
                else returnM response)))"

definition resolve_locale :: "settings \<Rightarrow> request \<Rightarrow> string" where
  "resolve_locale S rq =
     (let accept = (case header rq ''accept-language'' of Some a \<Rightarrow> a | None \<Rightarrow> []);
          primary = py_strip (hd (py_split CHR '';'' (hd (py_split CHR '','' accept))));
          candidate = (\<lambda>s. map lower_char (hd (py_split CHR ''-'' s)));
          from_header = (if primary \<noteq> [] \<and> candidate primary \<in> set (SUPPORTED_LOCALES S) then candidate primary else DEFAULT_LOCALE S)
      in case map_of (req_query rq) ''lang'' of
           Some (c # cs) \<Rightarrow> if candidate (c # cs) \<in> set (SUPPORTED_LOCALES S) then candidate (c # cs) else from_header
         | _ \<Rightarrow> from_header)"

definition locale_dispatch :: "settings \<Rightarrow> 'r handler \<Rightarrow> 'r handler" where
  "locale_dispatch S call_next rq =
     bindM (call_next rq) (\<lambda>response. returnM (set_header ''content-language'' (resolve_locale S rq) response))"

section \<open>Compression\<close>

record compressors =
  brotli_compress :: "string \<Rightarrow> int \<Rightarrow> string"
  gzip_compress :: "string \<Rightarrow> int \<Rightarrow> string"

definition parse_accept_encoding :: "string \<Rightarrow> string option" where
  "parse_accept_encoding accept_encoding =
     (let encodings = map (\<lambda>e. hd (py_split CHR '';'' (py_strip e))) (py_split CHR '','' accept_encoding)
      in if ''identity'' \<in> set encodings then None
         else if ''br'' \<in> set encodings then Some ''br''
         else if ''gzip'' \<in> set encodings then Some ''gzip''
         else if ''deflate'' \<in> set encodings then Some ''deflate''
         else None)"

definition compress :: "compressors \<Rightarrow> string \<Rightarrow> string \<Rightarrow> int \<Rightarrow> string" where
  "compress Z body algorithm level =
     (if algorithm = ''br'' then brotli_compress Z body level
      else if algorithm \<in> {''gzip'', ''deflate''} then gzip_compress Z body level
      else body)"

definition NON_COMPRESSIBLE_TYPES :: "string list" where
  "NON_COMPRESSIBLE_TYPES =
     [''image/'', ''video/'', ''audio/'', ''application/zip'', ''application/gzip'', ''application/x-bzip2'', ''application/x-tar'',
      ''application/xz'', ''application/x-7z-compressed'', ''application/vnd.rar'']"

definition is_compressible :: "string \<Rightarrow> bool" where
  "is_compressible content_type =
     (let t = py_strip (hd (py_split CHR '';'' content_type)) in \<not> list_ex (\<lambda>p. prefix p t) NON_COMPRESSIBLE_TYPES)"

definition skip_compression :: "web_response \<Rightarrow> bool" where
  "skip_compression r =
     (let content_type = (case map_of (res_headers r) ''content-type'' of Some t \<Rightarrow> t | None \<Rightarrow> [])
      in res_status r \<ge> 300 \<or> map_of (res_headers r) ''content-encoding'' \<noteq> None \<or> content_type = [] \<or> \<not> is_compressible content_type)"

definition should_compress :: "settings \<Rightarrow> request \<Rightarrow> string option" where
  "should_compress S rq =
     (if \<not> COMPRESSION_ENABLED S then None
      else parse_accept_encoding (case header rq ''accept-encoding'' of Some a \<Rightarrow> a | None \<Rightarrow> []))"

text \<open>
  \<open>dict(response.headers)\<close> keeps the first value of each name, in lower case; the cookies are headers of one name. The names
  set afterwards are capitalised, so they are new keys of the dict, and the new response has them in
  lower case beside the old ones.
\<close>

fun header_dict :: "(string \<times> string) list \<Rightarrow> (string \<times> string) list" where
  "header_dict [] = []"
| "header_dict ((n, v) # hs) = (n, v) # header_dict (filter (\<lambda>(m, _). m \<noteq> n) hs)"

definition rebuilt :: "web_response \<Rightarrow> string \<Rightarrow> (string \<times> string) list \<Rightarrow> web_response" where
  "rebuilt r body extra =
     \<lparr>res_status = res_status r, res_headers = header_dict (res_headers r) @ extra, res_body = body, res_cookies = take 1 (res_cookies r)\<rparr>"

text \<open>The middleware may be added with a size and a level of its own; without one, or with zero, the setting applies.\<close>

definition or_setting :: "int option \<Rightarrow> int \<Rightarrow> int" where
  "or_setting given setting = (case given of Some n \<Rightarrow> if n = 0 then setting else n | None \<Rightarrow> setting)"

definition compression_dispatch :: "settings \<Rightarrow> compressors \<Rightarrow> int option \<Rightarrow> int option \<Rightarrow> 'r handler \<Rightarrow> 'r handler" where
  "compression_dispatch S Z given_size given_level call_next rq =
     (let minimum_size = or_setting given_size (COMPRESSION_MIN_SIZE S); compresslevel = or_setting given_level (COMPRESSION_LEVEL S)
      in case should_compress S rq of None \<Rightarrow> call_next rq
      | Some algorithm \<Rightarrow>
          bindM (call_next rq) (\<lambda>response.
            if skip_compression response then returnM response
            else bindM (case map_of (res_headers response) ''content-length'' of
                          Some content_length \<Rightarrow> bindM (liftM (int_exn content_length)) (\<lambda>n. returnM (n < minimum_size))
                        | None \<Rightarrow> returnM False) (\<lambda>small.
              if small then returnM response
              else if int (length (res_body response)) < minimum_size
              then returnM (rebuilt response (res_body response) [(''content-length'', show_int (int (length (res_body response))))])
              else (let compressed = compress Z (res_body response) algorithm compresslevel
                    in returnM (rebuilt response compressed
                         [(''content-length'', show_int (int (length compressed))), (''content-encoding'', algorithm),
                          (''vary'', ''Accept-Encoding'')])))))"

section \<open>What the middleware guarantees\<close>

lemma compare_digest_True: "compare_digest a b = Inr True \<longleftrightarrow> is_ascii a \<and> is_ascii b \<and> a = b"
  by (auto simp: compare_digest_def)

lemma verify_token_iff:
  assumes "hex_digests hmac"
  shows "verify_token hmac v sig secret = Inr True \<longleftrightarrow> sig = sign_token hmac v secret"
proof -
  have "is_ascii (sign_token hmac v secret)" using assms hex_ascii by (simp add: sign_token_def hex_digests_def)
  then show ?thesis by (auto simp: verify_token_def compare_digest_True)
qed

definition token_for :: "hmac \<Rightarrow> string \<Rightarrow> string \<Rightarrow> bool" where
  "token_for hmac secret t \<longleftrightarrow> is_ascii (take 16 t) \<and> 16 < length t \<and> t = make_token hmac (take 16 t) secret"

lemma token_split: "take 16 t = v \<Longrightarrow> drop 16 t = sign_token hmac v secret \<Longrightarrow> t = make_token hmac v secret"
  by (metis append_take_drop_id make_token_def)

lemma token_ne: "token_for hmac secret t \<Longrightarrow> t \<noteq> []"
  by (auto simp: token_for_def)

lemma token_pair_iff:
  assumes "hex_digests hmac"
  shows "drop 16 c = sign_token hmac (take 16 c) secret \<and> drop 16 h = sign_token hmac (take 16 h) secret \<and>
    is_ascii (take 16 c) \<and> take 16 c = take 16 h \<longleftrightarrow> token_for hmac secret c \<and> h = c"
proof
  assume a: "drop 16 c = sign_token hmac (take 16 c) secret \<and> drop 16 h = sign_token hmac (take 16 h) secret \<and>
    is_ascii (take 16 c) \<and> take 16 c = take 16 h"
  have "sign_token hmac (take 16 c) secret \<noteq> []" using assms by (simp add: sign_token_def hex_digests_def)
  then have "16 < length c" using a by (metis drop_eq_Nil2 not_le)
  moreover have "c = make_token hmac (take 16 c) secret" by (rule token_split) (use a in simp_all)
  moreover have "h = c" using a by (metis append_take_drop_id)
  ultimately show "token_for hmac secret c \<and> h = c" using a unfolding token_for_def by blast
next
  assume t: "token_for hmac secret c \<and> h = c"
  then have "length (take 16 c) = 16" by (simp add: token_for_def)
  then have "drop 16 c = sign_token hmac (take 16 c) secret"
    using t unfolding token_for_def make_token_def by (metis append_eq_conv_conj)
  then show "drop 16 c = sign_token hmac (take 16 c) secret \<and> drop 16 h = sign_token hmac (take 16 h) secret \<and>
    is_ascii (take 16 c) \<and> take 16 c = take 16 h"
    using t unfolding token_for_def by metis
qed

text \<open>Validation passes exactly the requests that carry one well-signed token twice.\<close>

lemma csrf_validate_iff:
  assumes "hex_digests hmac"
  shows "csrf_validate_request hmac secret cookie_name rq = Inr None \<longleftrightarrow>
    (\<exists>t. token_for hmac secret t \<and> map_of (req_cookies rq) cookie_name = Some t \<and> submitted_token rq = t)"
proof -
  let ?c = "case map_of (req_cookies rq) cookie_name of Some c \<Rightarrow> c | None \<Rightarrow> []" and ?h = "submitted_token rq"
  have "csrf_validate_request hmac secret cookie_name rq = Inr None \<longleftrightarrow>
      ?h \<noteq> [] \<and> ?c \<noteq> [] \<and> verify_token hmac (take 16 ?c) (drop 16 ?c) secret = Inr True \<and>
      verify_token hmac (take 16 ?h) (drop 16 ?h) secret = Inr True \<and> compare_digest (take 16 ?c) (take 16 ?h) = Inr True"
    by (simp add: csrf_validate_request_def Let_def split: sum.split bool.split)
  also have "\<dots> \<longleftrightarrow> ?h \<noteq> [] \<and> ?c \<noteq> [] \<and> drop 16 ?c = sign_token hmac (take 16 ?c) secret \<and>
      drop 16 ?h = sign_token hmac (take 16 ?h) secret \<and> is_ascii (take 16 ?c) \<and> take 16 ?c = take 16 ?h"
    unfolding verify_token_iff [OF assms] compare_digest_True by metis
  also have "\<dots> \<longleftrightarrow> ?h \<noteq> [] \<and> ?c \<noteq> [] \<and> token_for hmac secret ?c \<and> ?h = ?c" using token_pair_iff [OF assms] by metis
  also have "\<dots> \<longleftrightarrow> (\<exists>t. token_for hmac secret t \<and> map_of (req_cookies rq) cookie_name = Some t \<and> ?h = t)"
    using token_ne by (cases "map_of (req_cookies rq) cookie_name") auto
  finally show ?thesis .
qed

lemma proceed_return [simp]: "bindM m returnM = m"
  by (rule ext) (simp add: bindM_def split: prod.split sum.split)


definition admin_request :: "string \<Rightarrow> (string \<times> string) list \<Rightarrow> (string \<times> string) list \<Rightarrow> request" where
  "admin_request meth headers cookies = \<lparr>req_method = meth, req_path = ''/admin/users'', req_headers = headers, req_cookies = cookies,
     req_form = [], req_query = [], req_client = Some ''10.1.2.3'', req_user_id = None\<rparr>"

definition one_digest :: hmac where
  "one_digest k m = ''ab''"


lemma map_of_drop: "map_of (filter (\<lambda>(m', _). m' \<noteq> m) hs) n = (if n = m then None else map_of hs n)"
  by (induction hs) auto

lemma map_of_header_dict [simp]: "map_of (header_dict hs) n = map_of hs n"
  by (induction hs rule: header_dict.induct) (simp_all add: map_of_drop)

lemma header_dict_filter: "filter (\<lambda>(m, _). m = n) (header_dict hs) = (case map_of hs n of None \<Rightarrow> [] | Some v \<Rightarrow> [(n, v)])"
  by (induction hs rule: header_dict.induct) (auto simp: map_of_drop split: option.split)

text \<open>
  Compression. A large answer to a client that accepts Brotli or gzip carries the compressed body and says so, and
  decompressing gives the handler's body back. But when the handler's answer had a content length, as every
  complete response has, the compressed one has two: the old length stays beside the new.
\<close>

theorem compressed_response:
  assumes "should_compress S rq = Some algorithm" and "app rq w = (Inr r, w')" and "\<not> skip_compression r"
    and "map_of (res_headers r) ''content-length'' = Some (show_int (int (length (res_body r))))"
    and "or_setting given_size (COMPRESSION_MIN_SIZE S) \<le> int (length (res_body r))"
    and "\<forall>b l. unbrotli (brotli_compress Z b l) = b \<and> gunzip (gzip_compress Z b l) = b"
  shows "\<exists>r'. compression_dispatch S Z given_size given_level app rq w = (Inr r', w') \<and>
    map_of (res_headers r') ''content-encoding'' = Some algorithm \<and>
    (algorithm = ''br'' \<longrightarrow> unbrotli (res_body r') = res_body r) \<and> (algorithm = ''gzip'' \<longrightarrow> gunzip (res_body r') = res_body r) \<and>
    filter (\<lambda>(n, _). n = ''content-length'') (res_headers r') =
      [(''content-length'', show_int (int (length (res_body r)))), (''content-length'', show_int (int (length (res_body r'))))]"
proof -
  let ?level = "or_setting given_level (COMPRESSION_LEVEL S)"
  let ?body = "compress Z (res_body r) algorithm ?level"
  let ?r = "rebuilt r ?body [(''content-length'', show_int (int (length ?body))), (''content-encoding'', algorithm), (''vary'', ''Accept-Encoding'')]"
  have run: "compression_dispatch S Z given_size given_level app rq w = (Inr ?r, w')"
    using assms(1-5) by (simp add: compression_dispatch_def Let_def bindM_def int_exn_def liftM_def)
  have none: "map_of (res_headers r) ''content-encoding'' = None" using assms(3) by (simp add: skip_compression_def Let_def)
  have "filter (\<lambda>(n, _). n = ''content-length'') (res_headers ?r) =
      [(''content-length'', show_int (int (length (res_body r)))), (''content-length'', show_int (int (length (res_body ?r))))]"
    using header_dict_filter [of "''content-length''" "res_headers r"] assms(4) by (simp add: rebuilt_def)
  moreover have "map_of (res_headers ?r) ''content-encoding'' = Some algorithm" using none by (simp add: rebuilt_def map_add_def)
  ultimately show ?thesis using run assms(6) by (auto simp: rebuilt_def compress_def)
qed

definition toy_compressors :: compressors where
  "toy_compressors = \<lparr>brotli_compress = (\<lambda>b _. CHR ''B'' # b), gzip_compress = (\<lambda>b _. CHR ''G'' # b)\<rparr>"

theorem compressed_response_witness:
  "\<exists>r'. compression_dispatch default_settings toy_compressors (Some 2) None (\<lambda>_. returnM (\<lparr>res_status = 200,
       res_headers = [(''content-length'', ''3''), (''content-type'', ''text/plain'')], res_body = ''abc'', res_cookies = []\<rparr>))
     (admin_request ''GET'' [(''accept-encoding'', ''gzip, br'')] []) (sample_world :: keyspace world) = (Inr r', sample_world) \<and>
   filter (\<lambda>(n, _). n = ''content-length'') (res_headers r') =
     [(''content-length'', ''3''), (''content-length'', show_int (int (length (res_body r'))))]"
proof -
  let ?r = "\<lparr>res_status = 200, res_headers = [(''content-length'', ''3''), (''content-type'', ''text/plain'')], res_body = ''abc'', res_cookies = []\<rparr>"
  let ?rq = "admin_request ''GET'' [(''accept-encoding'', ''gzip, br'')] []"
  have "should_compress default_settings ?rq = Some ''br''"
    by (simp add: should_compress_def default_settings_def parse_accept_encoding_def header_def admin_request_def py_strip_def is_space_def)
  moreover have "\<not> skip_compression ?r"
    by (simp add: skip_compression_def is_compressible_def NON_COMPRESSIBLE_TYPES_def py_strip_def is_space_def)
  moreover have "map_of (res_headers ?r) ''content-length'' = Some (show_int (int (length (res_body ?r))))"
    by (simp add: show_int_def show_nat.simps digit_char_def)
  moreover have "or_setting (Some 2) (COMPRESSION_MIN_SIZE default_settings) \<le> int (length (res_body ?r))" by (simp add: or_setting_def)
  moreover have "\<forall>b l. tl (brotli_compress toy_compressors b l) = b \<and> tl (gzip_compress toy_compressors b l) = b"
    by (simp add: toy_compressors_def)
  ultimately show ?thesis
    using compressed_response [of default_settings ?rq "''br''" "\<lambda>_. returnM ?r" sample_world ?r sample_world "Some 2" tl toy_compressors tl None]
    by fastforce
qed

text \<open>A deflate client is answered with gzip data labelled as deflate.\<close>

lemma deflate_is_gzip: "compress Z body ''deflate'' level = compress Z body ''gzip'' level"
  by (simp add: compress_def)

lemma locale_supported: "resolve_locale S rq \<in> insert (DEFAULT_LOCALE S) (set (SUPPORTED_LOCALES S))"
  by (simp add: resolve_locale_def Let_def split: option.split list.split)

lemma fold_set_header:
  "distinct (map fst hs) \<Longrightarrow> map_of (res_headers (fold (\<lambda>(n, v). set_header n v) hs r)) n =
     (case map_of hs n of Some v \<Rightarrow> Some v | None \<Rightarrow> map_of (res_headers r) n)"
proof (induction hs arbitrary: r)
  case (Cons h hs)
  have "map_of hs (fst h) = None" using Cons.prems by (simp add: map_of_eq_None_iff)
  then show ?case using Cons by (cases h) (simp split: option.split)
qed simp

text \<open>Every answer of the handler leaves with all the security headers, whatever the handler set.\<close>

lemma security_headers_set:
  assumes "app rq w = (Inr r, w')" "(n, v) \<in> set (security_headers S)"
  shows "\<exists>r'. security_headers_dispatch S app rq w = (Inr r', w') \<and> map_of (res_headers r') n = Some v"
proof -
  have "distinct (map fst (security_headers S))" by (simp add: security_headers_def)
  then show ?thesis using assms fold_set_header [of "security_headers S" r n]
    by (simp add: security_headers_dispatch_def bindM_def)
qed

end
