(* ===== verification/ErrorResponses.thy ===== *)
theory ErrorResponses
  imports Middleware
begin

text \<open>
  \<^verbatim>\<open>app/i18n/translations.py\<close> and \<^verbatim>\<open>app/api/error_handlers.py\<close>: the message catalogs, and the answer that the
  application gives to an exception.

  The catalogs on disk are an argument; \<open>shipped_catalogs\<close> are those under \<^verbatim>\<open>app/i18n/locales\<close>, in Latin-1. Starlette
  picks the handler by the class of the exception; an exception that a handler raises itself goes to the last
  one. The status phrases are those of \<^verbatim>\<open>http.HTTPStatus\<close> in Python 3.12, the version the image is built on.
  Interpolation of arguments into a text is not modelled: no caller passes any.
\<close>

section \<open>Catalogs\<close>

type_synonym catalog = "(string \<times> string) list"
type_synonym catalogs = "string \<rightharpoonup> catalog"

definition en_catalog :: catalog where
  "en_catalog = [
     (''APP_ERROR'', ''Application error''), (''NOT_FOUND'', ''Resource not found''), (''BAD_REQUEST'', ''Bad request''),
     (''UNAUTHORIZED'', ''Not authenticated''), (''FORBIDDEN'', ''Forbidden''), (''RATE_LIMITED'', ''Rate limit exceeded''),
     (''CONFLICT'', ''Resource conflict''),
     (''LOCKED_OUT'', ''Account is locked due to too many failed login attempts''),
     (''INTERNAL_ERROR'', ''Internal server error''), (''HTTP_ERROR'', ''HTTP error''), (''VALIDATION_ERROR'', ''Validation error''),
     (''email.verification.subject'', ''Verify your email''), (''email.magic_link.subject'', ''Your sign-in link'')]"

definition es_catalog :: catalog where
  "es_catalog = [
     (''APP_ERROR'', ''Error de aplicaci'' @ [CHR 0xF3] @ ''n''), (''NOT_FOUND'', ''Recurso no encontrado''),
     (''BAD_REQUEST'', ''Solicitud incorrecta''), (''UNAUTHORIZED'', ''No autenticado''), (''FORBIDDEN'', ''Prohibido''),
     (''RATE_LIMITED'', ''L'' @ [CHR 0xED] @ ''mite de tasa excedido''), (''CONFLICT'', ''Conflicto de recurso''),
     (''LOCKED_OUT'', ''La cuenta est'' @ [CHR 0xE1] @ '' bloqueada por demasiados intentos de inicio de sesi'' @ [CHR 0xF3] @ ''n fallidos''),
     (''INTERNAL_ERROR'', ''Error interno del servidor''), (''HTTP_ERROR'', ''Error HTTP''),
     (''VALIDATION_ERROR'', ''Error de validaci'' @ [CHR 0xF3] @ ''n''),
     (''email.verification.subject'', ''Verifica tu correo electr'' @ [CHR 0xF3] @ ''nico''),
     (''email.magic_link.subject'', ''Tu enlace de inicio de sesi'' @ [CHR 0xF3] @ ''n'')]"

text \<open>The files of the locales directory; \<open>None\<close> where there is no file.\<close>

definition locale_files :: "string \<rightharpoonup> catalog" where
  "locale_files = [''en'' \<mapsto> en_catalog, ''es'' \<mapsto> es_catalog]"

definition load_catalogs :: "settings \<Rightarrow> (string \<rightharpoonup> catalog) \<Rightarrow> catalogs" where
  "load_catalogs S disk = (\<lambda>l. if l \<in> set (SUPPORTED_LOCALES S) then disk l else None)"

definition get_translations :: "settings \<Rightarrow> catalogs \<Rightarrow> string \<Rightarrow> catalog" where
  "get_translations S C loc =
     (case C loc of Some c \<Rightarrow> c | None \<Rightarrow> (case C (DEFAULT_LOCALE S) of Some c \<Rightarrow> c | None \<Rightarrow> []))"

definition translate :: "settings \<Rightarrow> catalogs \<Rightarrow> string \<Rightarrow> string \<Rightarrow> string" where
  "translate S C key loc =
     (case map_of (get_translations S C loc) key of
        Some text \<Rightarrow> text
      | None \<Rightarrow> (case C (DEFAULT_LOCALE S) of
            None \<Rightarrow> key
          | Some c \<Rightarrow> (case map_of c key of Some text \<Rightarrow> text | None \<Rightarrow> key)))"

section \<open>Exceptions and answers\<close>

text \<open>An item of \<^verbatim>\<open>exc.errors()\<close>: the parts of the location as text, the message and the type.\<close>

record validation_item =
  vi_loc :: "string list"
  vi_msg :: string
  vi_type :: string

datatype failure = Raised exn | Raised_http int json | RequestValidationError "validation_item list"

text \<open>\<open>Raised_http\<close> is an \<^verbatim>\<open>HTTPException\<close> whose detail may be any JSON value; \<open>HTTPException\<close> of the other models has a text.\<close>

text \<open>The status and the error code that the subclasses of \<^verbatim>\<open>AppException\<close> declare.\<close>

definition app_exception :: "exn \<Rightarrow> (int \<times> string) option" where
  "app_exception e = (case e of
       NotFoundException _ \<Rightarrow> Some (404, ''NOT_FOUND'')
     | BadRequestException _ \<Rightarrow> Some (400, ''BAD_REQUEST'')
     | UnauthorizedException _ \<Rightarrow> Some (401, ''UNAUTHORIZED'')
     | ForbiddenException _ \<Rightarrow> Some (403, ''FORBIDDEN'')
     | RateLimitException _ \<Rightarrow> Some (429, ''RATE_LIMITED'')
     | ConflictException _ \<Rightarrow> Some (409, ''CONFLICT'')
     | LockedOutException _ \<Rightarrow> Some (423, ''LOCKED_OUT'')
     | InternalServerException _ \<Rightarrow> Some (500, ''INTERNAL_ERROR'')
     | _ \<Rightarrow> None)"

definition http_phrases :: "(int \<times> string) list" where
  "http_phrases = [
     (100, ''Continue''), (101, ''Switching Protocols''), (102, ''Processing''), (103, ''Early Hints''),
     (200, ''OK''), (201, ''Created''), (202, ''Accepted''), (203, ''Non-Authoritative Information''), (204, ''No Content''),
     (205, ''Reset Content''), (206, ''Partial Content''), (207, ''Multi-Status''), (208, ''Already Reported''), (226, ''IM Used''),
     (300, ''Multiple Choices''), (301, ''Moved Permanently''), (302, ''Found''), (303, ''See Other''), (304, ''Not Modified''),
     (305, ''Use Proxy''), (307, ''Temporary Redirect''), (308, ''Permanent Redirect''),
     (400, ''Bad Request''), (401, ''Unauthorized''), (402, ''Payment Required''), (403, ''Forbidden''), (404, ''Not Found''),
     (405, ''Method Not Allowed''), (406, ''Not Acceptable''), (407, ''Proxy Authentication Required''), (408, ''Request Timeout''),
     (409, ''Conflict''), (410, ''Gone''), (411, ''Length Required''), (412, ''Precondition Failed''),
     (413, ''Request Entity Too Large''), (414, ''Request-URI Too Long''), (415, ''Unsupported Media Type''),
     (416, ''Requested Range Not Satisfiable''), (417, ''Expectation Failed''), (418, ''I'' @ [CHR 0x27] @ ''m a Teapot''),
     (421, ''Misdirected Request''), (422, ''Unprocessable Entity''), (423, ''Locked''), (424, ''Failed Dependency''), (425, ''Too Early''),
     (426, ''Upgrade Required''), (428, ''Precondition Required''), (429, ''Too Many Requests''),
     (431, ''Request Header Fields Too Large''), (451, ''Unavailable For Legal Reasons''),
     (500, ''Internal Server Error''), (501, ''Not Implemented''), (502, ''Bad Gateway''), (503, ''Service Unavailable''),
     (504, ''Gateway Timeout''), (505, ''HTTP Version Not Supported''), (506, ''Variant Also Negotiates''), (507, ''Insufficient Storage''),
     (508, ''Loop Detected''), (510, ''Not Extended''), (511, ''Network Authentication Required'')]"

record error_response =
  er_status :: int
  er_content :: "(string \<times> json) list"

definition error_answer :: "int \<Rightarrow> string \<Rightarrow> string \<Rightarrow> error_response" where
  "error_answer st detail code = \<lparr>er_status = st, er_content = [(''detail'', JStr detail), (''error_code'', JStr code)]\<rparr>"

definition app_exception_handler :: "settings \<Rightarrow> catalogs \<Rightarrow> string \<Rightarrow> int \<times> string \<Rightarrow> error_response" where
  "app_exception_handler S C loc sc = error_answer (fst sc) (translate S C (snd sc) loc) (snd sc)"

text \<open>
  \<open>http.HTTPStatus(n)\<close> raises \<open>ValueError\<close> for a number that is not a status. \<open>repr\<close> is \<^verbatim>\<open>str\<close> of a value that is no text.
\<close>

definition http_exception_handler ::
  "settings \<Rightarrow> catalogs \<Rightarrow> (json \<Rightarrow> string) \<Rightarrow> string \<Rightarrow> int \<Rightarrow> json \<Rightarrow> exn + error_response" where
  "http_exception_handler S C repr loc st detail =
     (case map_of http_phrases st of
        None \<Rightarrow> Inl (ValueError ''not a valid HTTPStatus'')
      | Some phrase \<Rightarrow>
          Inr (error_answer st (if detail = JStr phrase then translate S C ''HTTP_ERROR'' loc else py_str repr detail) ''HTTP_ERROR''))"

definition validation_exception_handler :: "settings \<Rightarrow> catalogs \<Rightarrow> string \<Rightarrow> validation_item list \<Rightarrow> error_response" where
  "validation_exception_handler S C loc errors =
     (let simplified = map (\<lambda>err. JObj [(''field'', JStr (py_join ''.'' (vi_loc err))), (''message'', JStr (vi_msg err)),
                                       (''type'', JStr (vi_type err))]) errors
      in \<lparr>er_status = 422, er_content = [(''detail'', JStr (translate S C ''VALIDATION_ERROR'' loc)),
            (''error_code'', JStr ''VALIDATION_ERROR''), (''errors'', JList simplified)]\<rparr>)"

definition unhandled_exception_handler :: "settings \<Rightarrow> catalogs \<Rightarrow> string \<Rightarrow> error_response" where
  "unhandled_exception_handler S C loc = error_answer 500 (translate S C ''INTERNAL_ERROR'' loc) ''INTERNAL_ERROR''"

definition http_failure :: "settings \<Rightarrow> catalogs \<Rightarrow> (json \<Rightarrow> string) \<Rightarrow> string \<Rightarrow> int \<Rightarrow> json \<Rightarrow> error_response" where
  "http_failure S C repr loc st detail =
     (case http_exception_handler S C repr loc st detail of
        Inr r \<Rightarrow> r
      | Inl _ \<Rightarrow> unhandled_exception_handler S C loc)"

definition handle_failure :: "settings \<Rightarrow> catalogs \<Rightarrow> (json \<Rightarrow> string) \<Rightarrow> string \<Rightarrow> failure \<Rightarrow> error_response" where
  "handle_failure S C repr loc f = (case f of
       RequestValidationError errors \<Rightarrow> validation_exception_handler S C loc errors
     | Raised_http st detail \<Rightarrow> http_failure S C repr loc st detail
     | Raised e \<Rightarrow>
         (case app_exception e of
            Some sc \<Rightarrow> app_exception_handler S C loc sc
          | None \<Rightarrow>
              (case e of
                 HTTPException st detail \<Rightarrow> http_failure S C repr loc st (JStr detail)
               | _ \<Rightarrow> unhandled_exception_handler S C loc)))"

section \<open>Facts\<close>

definition shipped_catalogs :: catalogs where
  "shipped_catalogs = load_catalogs default_settings locale_files"

lemma shipped_simps:
  "shipped_catalogs ''en'' = Some en_catalog" "shipped_catalogs ''es'' = Some es_catalog"
  "l \<noteq> ''en'' \<Longrightarrow> l \<noteq> ''es'' \<Longrightarrow> shipped_catalogs l = None"
  by (simp_all add: shipped_catalogs_def load_catalogs_def locale_files_def default_settings_def)

text \<open>The two catalogs translate the same keys.\<close>

lemma catalogs_same_keys: "map fst en_catalog = map fst es_catalog"
  by (simp add: en_catalog_def es_catalog_def)

lemma translate_shipped:
  assumes "key \<in> set (map fst en_catalog)"
  shows "translate default_settings shipped_catalogs key l =
    the (map_of (if l = ''es'' then es_catalog else en_catalog) key)"
proof -
  have d: "DEFAULT_LOCALE default_settings = ''en''" by (simp add: default_settings_def)
  have "key \<in> fst ` set en_catalog" "key \<in> fst ` set es_catalog"
    using assms catalogs_same_keys by (metis list.set_map)+
  then obtain t u where "map_of en_catalog key = Some t" "map_of es_catalog key = Some u"
    by (metis map_of_eq_None_iff not_None_eq)
  then show ?thesis
    by (cases "l = ''en''"; cases "l = ''es''") (simp_all add: translate_def get_translations_def shipped_simps d)
qed

section \<open>Properties\<close>

text \<open>C39: what the client is told of a failure. An application exception has the status and the error code of its class. An
  HTTP exception keeps an explicit detail, as text, and a bare one gets the translated text. A validation error is answered
  422 with one entry for each error, in their order, the path of the field joined by dots. Anything else is answered with one
  and the same 500 and the translated general text, whatever it carries.\<close>

theorem failure_answers:
  "(\<forall>x st code. app_exception x = Some (st, code) \<longrightarrow>
      er_status (handle_failure S C repr loc (Raised x)) = st \<and>
      map_of (er_content (handle_failure S C repr loc (Raised x))) ''error_code'' = Some (JStr code)) \<and>
   (\<forall>st phrase detail. map_of http_phrases st = Some phrase \<longrightarrow>
      handle_failure S C repr loc (Raised_http st detail) =
        error_answer st (if detail = JStr phrase then translate S C ''HTTP_ERROR'' loc else py_str repr detail) ''HTTP_ERROR'') \<and>
   (\<forall>st d. handle_failure S C repr loc (Raised (HTTPException st d)) = handle_failure S C repr loc (Raised_http st (JStr d))) \<and>
   (\<forall>errors. \<exists>items. er_status (handle_failure S C repr loc (RequestValidationError errors)) = 422 \<and>
      map_of (er_content (handle_failure S C repr loc (RequestValidationError errors))) ''errors'' = Some (JList items) \<and>
      length items = length errors \<and>
      (\<forall>i < length errors. \<exists>d. items ! i = JObj d \<and> map_of d ''field'' = Some (JStr (py_join ''.'' (vi_loc (errors ! i)))) \<and>
         map_of d ''message'' = Some (JStr (vi_msg (errors ! i))) \<and> map_of d ''type'' = Some (JStr (vi_type (errors ! i))))) \<and>
   (\<forall>x. app_exception x = None \<and> (\<forall>st d. x \<noteq> HTTPException st d) \<longrightarrow>
      handle_failure S C repr loc (Raised x) = error_answer 500 (translate S C ''INTERNAL_ERROR'' loc) ''INTERNAL_ERROR'')"
proof (intro conjI allI impI)
  fix x st code assume x: "app_exception x = Some (st, code)"
  then show "er_status (handle_failure S C repr loc (Raised x)) = st"
    "map_of (er_content (handle_failure S C repr loc (Raised x))) ''error_code'' = Some (JStr code)"
    by (simp_all add: handle_failure_def app_exception_handler_def error_answer_def)
next
  fix st phrase detail assume "map_of http_phrases st = Some phrase"
  then show "handle_failure S C repr loc (Raised_http st detail) =
      error_answer st (if detail = JStr phrase then translate S C ''HTTP_ERROR'' loc else py_str repr detail) ''HTTP_ERROR''"
    by (simp add: handle_failure_def http_failure_def http_exception_handler_def)
next
  fix st d show "handle_failure S C repr loc (Raised (HTTPException st d)) = handle_failure S C repr loc (Raised_http st (JStr d))"
    by (simp add: handle_failure_def app_exception_def)
next
  fix errors :: "validation_item list"
  let ?items = "map (\<lambda>err. JObj [(''field'', JStr (py_join ''.'' (vi_loc err))), (''message'', JStr (vi_msg err)),
      (''type'', JStr (vi_type err))]) errors"
  show "\<exists>items. er_status (handle_failure S C repr loc (RequestValidationError errors)) = 422 \<and>
      map_of (er_content (handle_failure S C repr loc (RequestValidationError errors))) ''errors'' = Some (JList items) \<and>
      length items = length errors \<and>
      (\<forall>i < length errors. \<exists>d. items ! i = JObj d \<and> map_of d ''field'' = Some (JStr (py_join ''.'' (vi_loc (errors ! i)))) \<and>
         map_of d ''message'' = Some (JStr (vi_msg (errors ! i))) \<and> map_of d ''type'' = Some (JStr (vi_type (errors ! i))))"
    by (intro exI [of _ ?items]) (simp add: handle_failure_def validation_exception_handler_def Let_def)
next
  fix x assume "app_exception x = None \<and> (\<forall>st d. x \<noteq> HTTPException st d)"
  then show "handle_failure S C repr loc (Raised x) = error_answer 500 (translate S C ''INTERNAL_ERROR'' loc) ''INTERNAL_ERROR''"
    by (cases x) (auto simp: handle_failure_def unhandled_exception_handler_def)
qed

theorem failure_answers_witness:
  "er_status (handle_failure default_settings shipped_catalogs (\<lambda>_. []) ''es'' (Raised (NotFoundException ''Item not found''))) = 404 \<and>
   handle_failure default_settings shipped_catalogs (\<lambda>_. []) ''en'' (Raised (HTTPException 404 ''Item not found'')) =
     error_answer 404 ''Item not found'' ''HTTP_ERROR'' \<and>
   handle_failure default_settings shipped_catalogs (\<lambda>_. []) ''en'' (Raised (KeyError ''secret'')) =
     error_answer 500 ''Internal server error'' ''INTERNAL_ERROR''"
proof -
  have "map_of http_phrases 404 = Some ''Not Found''" by (simp add: http_phrases_def)
  moreover have "translate default_settings shipped_catalogs ''INTERNAL_ERROR'' ''en'' = ''Internal server error''"
    by (simp add: translate_shipped en_catalog_def)
  moreover have "app_exception (NotFoundException ''Item not found'') = Some (404, ''NOT_FOUND'')" "app_exception (KeyError ''secret'') = None"
    by (simp_all add: app_exception_def)
  ultimately show ?thesis
    using failure_answers [of default_settings shipped_catalogs "\<lambda>_. []" "''en''"]
      failure_answers [of default_settings shipped_catalogs "\<lambda>_. []" "''es''"]
    by simp
qed

end
