(* ===== verification/Ddl.thy ===== *)
theory Ddl
  imports Prelude
begin

text \<open>
  What the migrations rely on: relational schemas and the changes that the migration scripts make to them, as the
  documentation of Alembic and PostgreSQL describes them.

  A schema has tables (columns with type, nullability and default; constraints), indexes, enumeration types and
  triggers, each list in the order of creation. A change fails when the database refuses it: a name that is taken or
  missing, a reference to a missing column, a table that is still referenced. Names that the database invents for
  unnamed constraints, sequences and the contents of the tables are left out. The functions on lists recurse over them
  one by one, so that rewriting with \<open>ddl_eval\<close> evaluates a script in linear time.
\<close>

section \<open>Schemas\<close>

datatype column_type =
  Integer | Varchar "int option" | Text | Boolean | Timestamp bool | Json | Tsvector | Enum_type string "string list"

text \<open>\<open>Timestamp True\<close> is with time zone.\<close>

record column =
  clm_name :: string
  clm_type :: column_type
  clm_nullable :: bool
  clm_default :: "string option"

definition not_null :: "string \<Rightarrow> column_type \<Rightarrow> column" where
  "not_null n t = \<lparr>clm_name = n, clm_type = t, clm_nullable = False, clm_default = None\<rparr>"

definition nullable :: "string \<Rightarrow> column_type \<Rightarrow> column" where
  "nullable n t = \<lparr>clm_name = n, clm_type = t, clm_nullable = True, clm_default = None\<rparr>"

definition defaulted :: "string \<Rightarrow> column_type \<Rightarrow> string \<Rightarrow> column" where
  "defaulted n t d = \<lparr>clm_name = n, clm_type = t, clm_nullable = False, clm_default = Some d\<rparr>"

definition serial_id :: column where
  "serial_id = not_null ''id'' Integer"

definition stamp :: "string \<Rightarrow> column" where
  "stamp n = defaulted n (Timestamp True) ''now()''"

text \<open>Conditions of checks and of partial indexes, and constraints. The first argument of a constraint is its name.\<close>

datatype sql_condition = In_list string "string list" | Not_equal string string

datatype table_constraint =
    Primary_key "string option" "string list"
  | Unique "string option" "string list"
  | Foreign_key "string option" "string list" string "string list" string
  | Check "string option" sql_condition

record table_def =
  td_columns :: "column list"
  td_constraints :: "table_constraint list"

record index_def =
  ix_table :: string
  ix_columns :: "string list"
  ix_unique :: bool
  ix_where :: "sql_condition option"
  ix_using :: string

record schema =
  sc_tables :: "(string \<times> table_def) list"
  sc_indexes :: "(string \<times> index_def) list"
  sc_types :: "(string \<times> string list) list"
  sc_triggers :: "(string \<times> string) list"

definition empty_schema :: schema where
  "empty_schema = \<lparr>sc_tables = [], sc_indexes = [], sc_types = [], sc_triggers = []\<rparr>"

section \<open>Changes\<close>

text \<open>
  \<open>Create_table\<close> carries the columns that are declared with \<^verbatim>\<open>index=True\<close> last. The three forms of \<^verbatim>\<open>op.execute\<close> in
  the scripts are changes of their own; the update of the search vectors only needs its columns.
\<close>

datatype change =
    Create_table string "column list" "table_constraint list" "string list"
  | Drop_table string
  | Add_column string column
  | Drop_column string string
  | Create_index string string "string list" bool "sql_condition option" string
  | Drop_index string string
  | Create_foreign_key string string string "string list" "string list" string
  | Drop_constraint string string
  | Update_rows string "string list"
  | Create_trigger string string "string list"
  | Drop_trigger_if_exists string string
  | Drop_type_if_exists string

datatype ddl_error =
  Duplicate string | Undefined string | Dependent string

definition column_names :: "table_def \<Rightarrow> string list" where
  "column_names t = map clm_name (td_columns t)"

fun condition_column :: "sql_condition \<Rightarrow> string" where
  "condition_column (In_list c _) = c"
| "condition_column (Not_equal c _) = c"

fun constraint_columns :: "table_constraint \<Rightarrow> string list" where
  "constraint_columns (Primary_key _ cs) = cs"
| "constraint_columns (Unique _ cs) = cs"
| "constraint_columns (Foreign_key _ cs _ _ _) = cs"
| "constraint_columns (Check _ p) = [condition_column p]"

fun constraint_name :: "table_constraint \<Rightarrow> string option" where
  "constraint_name (Primary_key n _) = n"
| "constraint_name (Unique n _) = n"
| "constraint_name (Foreign_key n _ _ _ _) = n"
| "constraint_name (Check n _) = n"

text \<open>Lists of named things.\<close>

fun taken :: "string \<Rightarrow> (string \<times> 'b) list \<Rightarrow> bool" where
  "taken n [] \<longleftrightarrow> False"
| "taken n ((m, v) # xs) \<longleftrightarrow> m = n \<or> taken n xs"

fun cons_unless :: "bool \<Rightarrow> 'a \<Rightarrow> 'a list \<Rightarrow> 'a list" where
  "cons_unless True a xs = xs"
| "cons_unless False a xs = a # xs"

fun without :: "string \<Rightarrow> (string \<times> 'b) list \<Rightarrow> (string \<times> 'b) list" where
  "without n [] = []"
| "without n ((m, v) # xs) = cons_unless (m = n) (m, v) (without n xs)"

text \<open>The columns of a table, and whether the columns that a foreign key refers to are a key of their table.\<close>

fun columns_of :: "string \<Rightarrow> (string \<times> table_def) list \<Rightarrow> string list" where
  "columns_of n [] = []"
| "columns_of n ((m, t) # ts) = (if m = n then column_names t else columns_of n ts)"

fun is_key :: "string list \<Rightarrow> table_constraint list \<Rightarrow> bool" where
  "is_key cs [] \<longleftrightarrow> False"
| "is_key cs (Primary_key _ ks # rest) \<longleftrightarrow> ks = cs \<or> is_key cs rest"
| "is_key cs (Unique _ ks # rest) \<longleftrightarrow> ks = cs \<or> is_key cs rest"
| "is_key cs (Foreign_key _ _ _ _ _ # rest) \<longleftrightarrow> is_key cs rest"
| "is_key cs (Check _ _ # rest) \<longleftrightarrow> is_key cs rest"

fun key_of :: "string \<Rightarrow> string list \<Rightarrow> (string \<times> table_def) list \<Rightarrow> bool" where
  "key_of n cs [] \<longleftrightarrow> False"
| "key_of n cs ((m, t) # ts) \<longleftrightarrow> (if m = n then is_key cs (td_constraints t) else key_of n cs ts)"

fun target_ok :: "(string \<times> table_def) list \<Rightarrow> table_constraint \<Rightarrow> bool" where
  "target_ok ts (Foreign_key _ _ r rcs _) \<longleftrightarrow> key_of r rcs ts"
| "target_ok ts (Primary_key _ _) \<longleftrightarrow> True"
| "target_ok ts (Unique _ _) \<longleftrightarrow> True"
| "target_ok ts (Check _ _) \<longleftrightarrow> True"

fun constraints_ok :: "(string \<times> table_def) list \<Rightarrow> string list \<Rightarrow> table_constraint list \<Rightarrow> bool" where
  "constraints_ok ts cs [] \<longleftrightarrow> True"
| "constraints_ok ts cs (k # ks) \<longleftrightarrow>
     set (constraint_columns k) \<subseteq> set cs \<and> target_ok ts k \<and> constraints_ok ts cs ks"

text \<open>The foreign keys that refer to a table, or to a column of it, from another table.\<close>

fun refers :: "string \<Rightarrow> table_constraint list \<Rightarrow> bool" where
  "refers n [] \<longleftrightarrow> False"
| "refers n (Foreign_key _ _ r _ _ # ks) \<longleftrightarrow> r = n \<or> refers n ks"
| "refers n (Primary_key _ _ # ks) \<longleftrightarrow> refers n ks"
| "refers n (Unique _ _ # ks) \<longleftrightarrow> refers n ks"
| "refers n (Check _ _ # ks) \<longleftrightarrow> refers n ks"

fun refers_column :: "string \<Rightarrow> string \<Rightarrow> table_constraint list \<Rightarrow> bool" where
  "refers_column n c [] \<longleftrightarrow> False"
| "refers_column n c (Foreign_key _ _ r rcs _ # ks) \<longleftrightarrow> (r = n \<and> c \<in> set rcs) \<or> refers_column n c ks"
| "refers_column n c (Primary_key _ _ # ks) \<longleftrightarrow> refers_column n c ks"
| "refers_column n c (Unique _ _ # ks) \<longleftrightarrow> refers_column n c ks"
| "refers_column n c (Check _ _ # ks) \<longleftrightarrow> refers_column n c ks"

fun referenced :: "string \<Rightarrow> (string \<times> table_def) list \<Rightarrow> bool" where
  "referenced n [] \<longleftrightarrow> False"
| "referenced n ((m, t) # ts) \<longleftrightarrow> (if m = n then False else refers n (td_constraints t)) \<or> referenced n ts"

fun column_referenced :: "string \<Rightarrow> string \<Rightarrow> (string \<times> table_def) list \<Rightarrow> bool" where
  "column_referenced n c [] \<longleftrightarrow> False"
| "column_referenced n c ((m, t) # ts) \<longleftrightarrow>
     (if m = n then False else refers_column n c (td_constraints t)) \<or> column_referenced n c ts"

text \<open>Enumeration types: those that a list of columns creates, and the columns that use one.\<close>

fun enum_of :: "column_type \<Rightarrow> (string \<times> string list) list" where
  "enum_of (Enum_type n vs) = [(n, vs)]"
| "enum_of Integer = []"
| "enum_of (Varchar _) = []"
| "enum_of Text = []"
| "enum_of Boolean = []"
| "enum_of (Timestamp _) = []"
| "enum_of Json = []"
| "enum_of Tsvector = []"

fun enum_types :: "column list \<Rightarrow> (string \<times> string list) list" where
  "enum_types [] = []"
| "enum_types (c # cs) = enum_of (clm_type c) @ enum_types cs"

fun any_taken :: "(string \<times> 'a) list \<Rightarrow> (string \<times> 'b) list \<Rightarrow> bool" where
  "any_taken [] ys \<longleftrightarrow> False"
| "any_taken ((n, _) # xs) ys \<longleftrightarrow> taken n ys \<or> any_taken xs ys"

fun type_used :: "string \<Rightarrow> (string \<times> table_def) list \<Rightarrow> bool" where
  "type_used n [] \<longleftrightarrow> False"
| "type_used n ((_, t) # ts) \<longleftrightarrow> taken n (enum_types (td_columns t)) \<or> type_used n ts"

text \<open>Altering one table.\<close>

fun with_column :: "string \<Rightarrow> column \<Rightarrow> (string \<times> table_def) list \<Rightarrow> (string \<times> table_def) list" where
  "with_column n c [] = []"
| "with_column n c ((m, t) # ts) =
     (if m = n then (m, t\<lparr>td_columns := td_columns t @ [c]\<rparr>) # ts else (m, t) # with_column n c ts)"

fun drop_named :: "string \<Rightarrow> column list \<Rightarrow> column list" where
  "drop_named c [] = []"
| "drop_named c (d # ds) = cons_unless (clm_name d = c) d (drop_named c ds)"

fun drop_mentioning :: "string \<Rightarrow> table_constraint list \<Rightarrow> table_constraint list" where
  "drop_mentioning c [] = []"
| "drop_mentioning c (k # ks) = cons_unless (c \<in> set (constraint_columns k)) k (drop_mentioning c ks)"

fun without_column :: "string \<Rightarrow> string \<Rightarrow> (string \<times> table_def) list \<Rightarrow> (string \<times> table_def) list" where
  "without_column n c [] = []"
| "without_column n c ((m, t) # ts) =
     (if m = n
      then (m, \<lparr>td_columns = drop_named c (td_columns t), td_constraints = drop_mentioning c (td_constraints t)\<rparr>) # ts
      else (m, t) # without_column n c ts)"

fun with_constraint :: "string \<Rightarrow> table_constraint \<Rightarrow> (string \<times> table_def) list \<Rightarrow> (string \<times> table_def) list" where
  "with_constraint n k [] = []"
| "with_constraint n k ((m, t) # ts) =
     (if m = n then (m, t\<lparr>td_constraints := td_constraints t @ [k]\<rparr>) # ts else (m, t) # with_constraint n k ts)"

fun drop_constraint :: "string \<Rightarrow> table_constraint list \<Rightarrow> table_constraint list" where
  "drop_constraint n [] = []"
| "drop_constraint n (k # ks) = cons_unless (constraint_name k = Some n) k (drop_constraint n ks)"

fun without_constraint :: "string \<Rightarrow> string \<Rightarrow> (string \<times> table_def) list \<Rightarrow> (string \<times> table_def) list" where
  "without_constraint n k [] = []"
| "without_constraint n k ((m, t) # ts) =
     (if m = n then (m, t\<lparr>td_constraints := drop_constraint k (td_constraints t)\<rparr>) # ts
      else (m, t) # without_constraint n k ts)"

fun constraint_names :: "string \<Rightarrow> (string \<times> table_def) list \<Rightarrow> string option list" where
  "constraint_names n [] = []"
| "constraint_names n ((m, t) # ts) =
     (if m = n then map constraint_name (td_constraints t) else constraint_names n ts)"

text \<open>What a dropped table or column takes with it.\<close>

fun where_uses :: "string \<Rightarrow> sql_condition option \<Rightarrow> bool" where
  "where_uses c None \<longleftrightarrow> False"
| "where_uses c (Some p) \<longleftrightarrow> condition_column p = c"

fun drop_indexes_of :: "string \<Rightarrow> (string \<times> index_def) list \<Rightarrow> (string \<times> index_def) list" where
  "drop_indexes_of n [] = []"
| "drop_indexes_of n ((m, x) # xs) = cons_unless (ix_table x = n) (m, x) (drop_indexes_of n xs)"

fun drop_indexes_on :: "string \<Rightarrow> string \<Rightarrow> (string \<times> index_def) list \<Rightarrow> (string \<times> index_def) list" where
  "drop_indexes_on n c [] = []"
| "drop_indexes_on n c ((m, x) # xs) =
     cons_unless (ix_table x = n \<and> (c \<in> set (ix_columns x) \<or> where_uses c (ix_where x))) (m, x) (drop_indexes_on n c xs)"

fun drop_triggers_of :: "string \<Rightarrow> (string \<times> string) list \<Rightarrow> (string \<times> string) list" where
  "drop_triggers_of n [] = []"
| "drop_triggers_of n ((m, t) # xs) = cons_unless (t = n) (m, t) (drop_triggers_of n xs)"

definition add_index :: "string \<Rightarrow> index_def \<Rightarrow> schema \<Rightarrow> ddl_error + schema" where
  "add_index n x S =
     (if taken n (sc_indexes S) then Inl (Duplicate n)
      else if \<not> taken (ix_table x) (sc_tables S) then Inl (Undefined (ix_table x))
      else if \<not> set (ix_columns x) \<subseteq> set (columns_of (ix_table x) (sc_tables S)) then Inl (Undefined n)
      else Inr (S\<lparr>sc_indexes := sc_indexes S @ [(n, x)]\<rparr>))"

text \<open>The indexes of columns with \<^verbatim>\<open>index=True\<close>, under their default names.\<close>

definition default_index :: "string \<Rightarrow> string \<Rightarrow> index_def" where
  "default_index n c = \<lparr>ix_table = n, ix_columns = [c], ix_unique = False, ix_where = None, ix_using = ''btree''\<rparr>"

fun add_indexes :: "string \<Rightarrow> string list \<Rightarrow> ddl_error + schema \<Rightarrow> ddl_error + schema" where
  "add_indexes n cs (Inl e) = Inl e"
| "add_indexes n [] (Inr S) = Inr S"
| "add_indexes n (c # cs) (Inr S) = add_indexes n cs (add_index (''ix_'' @ n @ ''_'' @ c) (default_index n c) S)"

fun apply_change :: "change \<Rightarrow> schema \<Rightarrow> ddl_error + schema" where
  "apply_change (Create_table n cs ks ixs) S =
     (if taken n (sc_tables S) \<or> \<not> distinct (map clm_name cs) \<or> any_taken (enum_types cs) (sc_types S)
      then Inl (Duplicate n)
      else if \<not> constraints_ok (sc_tables S @ [(n, \<lparr>td_columns = cs, td_constraints = ks\<rparr>)]) (map clm_name cs) ks
      then Inl (Undefined n)
      else add_indexes n ixs (Inr (S\<lparr>sc_tables := sc_tables S @ [(n, \<lparr>td_columns = cs, td_constraints = ks\<rparr>)],
                                     sc_types := sc_types S @ enum_types cs\<rparr>)))"
| "apply_change (Drop_table n) S =
     (if \<not> taken n (sc_tables S) then Inl (Undefined n)
      else if referenced n (sc_tables S) then Inl (Dependent n)
      else Inr (S\<lparr>sc_tables := without n (sc_tables S), sc_indexes := drop_indexes_of n (sc_indexes S),
                  sc_triggers := drop_triggers_of n (sc_triggers S)\<rparr>))"
| "apply_change (Add_column n c) S =
     (if \<not> taken n (sc_tables S) then Inl (Undefined n)
      else if clm_name c \<in> set (columns_of n (sc_tables S)) then Inl (Duplicate (clm_name c))
      else Inr (S\<lparr>sc_tables := with_column n c (sc_tables S)\<rparr>))"
| "apply_change (Drop_column n c) S =
     (if c \<notin> set (columns_of n (sc_tables S)) then Inl (Undefined c)
      else if column_referenced n c (sc_tables S) then Inl (Dependent c)
      else Inr (S\<lparr>sc_tables := without_column n c (sc_tables S), sc_indexes := drop_indexes_on n c (sc_indexes S)\<rparr>))"
| "apply_change (Create_index n tb cs uq wh us) S =
     add_index n \<lparr>ix_table = tb, ix_columns = cs, ix_unique = uq, ix_where = wh, ix_using = us\<rparr> S"
| "apply_change (Drop_index n _) S =
     (if taken n (sc_indexes S) then Inr (S\<lparr>sc_indexes := without n (sc_indexes S)\<rparr>) else Inl (Undefined n))"
| "apply_change (Create_foreign_key n tb r cs rcs od) S =
     (if Some n \<in> set (constraint_names tb (sc_tables S)) then Inl (Duplicate n)
      else if \<not> constraints_ok (sc_tables S) (columns_of tb (sc_tables S)) [Foreign_key (Some n) cs r rcs od]
      then Inl (Undefined n)
      else Inr (S\<lparr>sc_tables := with_constraint tb (Foreign_key (Some n) cs r rcs od) (sc_tables S)\<rparr>))"
| "apply_change (Drop_constraint n tb) S =
     (if Some n \<in> set (constraint_names tb (sc_tables S))
      then Inr (S\<lparr>sc_tables := without_constraint tb n (sc_tables S)\<rparr>)
      else Inl (Undefined n))"
| "apply_change (Update_rows n cs) S =
     (if set cs \<subseteq> set (columns_of n (sc_tables S)) then Inr S else Inl (Undefined n))"
| "apply_change (Create_trigger n tb cs) S =
     (if taken n (sc_triggers S) then Inl (Duplicate n)
      else if \<not> set cs \<subseteq> set (columns_of tb (sc_tables S)) then Inl (Undefined n)
      else Inr (S\<lparr>sc_triggers := sc_triggers S @ [(n, tb)]\<rparr>))"
| "apply_change (Drop_trigger_if_exists n tb) S =
     Inr (S\<lparr>sc_triggers := without n (sc_triggers S)\<rparr>)"
| "apply_change (Drop_type_if_exists n) S =
     (if type_used n (sc_tables S) then Inl (Dependent n) else Inr (S\<lparr>sc_types := without n (sc_types S)\<rparr>))"

text \<open>The changes of one script run in one transaction: all of them, or none.\<close>

fun apply_changes :: "change list \<Rightarrow> ddl_error + schema \<Rightarrow> ddl_error + schema" where
  "apply_changes cs (Inl e) = Inl e"
| "apply_changes [] (Inr S) = Inr S"
| "apply_changes (c # cs) (Inr S) = apply_changes cs (apply_change c S)"

section \<open>Evaluation\<close>

lemma eval_columns:
  "clm_name (not_null n t) = n" "clm_name (nullable n t) = n" "clm_name (defaulted n t d) = n"
  "clm_type (not_null n t) = t" "clm_type (nullable n t) = t" "clm_type (defaulted n t d) = t"
  "clm_name serial_id = ''id''" "clm_type serial_id = Integer" "clm_name (stamp n) = n" "clm_type (stamp n) = Timestamp True"
  "clm_nullable (not_null n t) = False" "clm_nullable (nullable n t) = True" "clm_nullable (defaulted n t d) = False"
  "clm_nullable serial_id = False" "clm_nullable (stamp n) = False"
  by (simp_all add: not_null_def nullable_def defaulted_def serial_id_def stamp_def)

lemma eval_sets:
  "(a \<in> set []) = False" "(a \<in> set (b # ys)) = (a = b \<or> a \<in> set ys)"
  "(set [] \<subseteq> A) = True" "(set (a # ys) \<subseteq> A) = (a \<in> A \<and> set ys \<subseteq> A)"
  by auto

lemma eval_if: "(if True then a else b) = a" "(if False then a else b) = b"
  by simp_all

lemmas ddl_eval = apply_changes.simps apply_change.simps add_indexes.simps add_index_def column_names_def default_index_def
  condition_column.simps constraint_columns.simps constraint_name.simps taken.simps cons_unless.simps without.simps columns_of.simps
  is_key.simps key_of.simps target_ok.simps constraints_ok.simps refers.simps refers_column.simps referenced.simps
  column_referenced.simps enum_of.simps enum_types.simps any_taken.simps type_used.simps with_column.simps drop_named.simps
  drop_mentioning.simps without_column.simps with_constraint.simps drop_constraint.simps without_constraint.simps
  constraint_names.simps where_uses.simps drop_indexes_of.simps drop_indexes_on.simps drop_triggers_of.simps
  eval_columns eval_sets eval_if distinct.simps schema.select_convs schema.update_convs table_def.select_convs
  table_def.update_convs index_def.select_convs list.map append.simps concat.simps list.inject list.distinct char.inject
  option.inject option.distinct HOL.simp_thms empty_schema_def

text \<open>Columns, constraints and indexes are values once they are built; rewriting need not look into them again.\<close>

lemma ddl_values:
  "\<lparr>clm_name = n, clm_type = t, clm_nullable = b, clm_default = d\<rparr> = \<lparr>clm_name = n, clm_type = t, clm_nullable = b, clm_default = d\<rparr>"
  "\<lparr>ix_table = n, ix_columns = cs, ix_unique = b, ix_where = w, ix_using = u\<rparr> =
   \<lparr>ix_table = n, ix_columns = cs, ix_unique = b, ix_where = w, ix_using = u\<rparr>"
  "Primary_key k cs = Primary_key k cs" "Unique k cs = Unique k cs" "Foreign_key k cs n rs a = Foreign_key k cs n rs a"
  "Check k p = Check k p" "Char b0 b1 b2 b3 b4 b5 b6 b7 = Char b0 b1 b2 b3 b4 b5 b6 b7"
  by (rule refl)+

end
