(* ===== verification/Migrations.thy ===== *)
theory Migrations
  imports Ddl
begin

text \<open>
  \<^verbatim>\<open>alembic/versions\<close>: every migration script, its upgrade and its downgrade as lists of changes, and the order in
  which Alembic runs them. A downgrade is the list that the script gives, not an inverse computed from the upgrade.
\<close>

section \<open>Revisions\<close>

record revision =
  rev_id :: string
  rev_down :: "string option"
  rev_upgrade :: "change list"
  rev_downgrade :: "change list"

text \<open>\<open>alembic upgrade head\<close> follows \<^verbatim>\<open>down_revision\<close> from the revision that has none; \<open>n\<close> bounds the steps.\<close>

fun revision_path :: "nat \<Rightarrow> revision list \<Rightarrow> string option \<Rightarrow> revision list" where
  "revision_path 0 rs cur = []"
| "revision_path (Suc n) rs cur =
     (case find (\<lambda>r. rev_down r = cur) rs of
        None \<Rightarrow> []
      | Some r \<Rightarrow> r # revision_path n rs (Some (rev_id r)))"

fun upgrade_all :: "revision list \<Rightarrow> ddl_error + schema \<Rightarrow> ddl_error + schema" where
  "upgrade_all [] r = r"
| "upgrade_all (v # vs) r = upgrade_all vs (apply_changes (rev_upgrade v) r)"

text \<open>\<open>alembic downgrade\<close> undoes the newest revision first.\<close>

fun downgrade_all :: "revision list \<Rightarrow> ddl_error + schema \<Rightarrow> ddl_error + schema" where
  "downgrade_all [] r = r"
| "downgrade_all (v # vs) r = apply_changes (rev_downgrade v) (downgrade_all vs r)"

section \<open>The scripts\<close>

definition rev_001_add_rbac_tables :: revision where
  "rev_001_add_rbac_tables = \<lparr>rev_id = ''9d1a1b0c1d2e'', rev_down = Some ''001'',
     rev_upgrade = [
       Create_table ''roles''
         [serial_id, not_null ''name'' (Varchar (Some 50)), nullable ''description'' (Varchar (Some 255)),
          stamp ''created_at'', stamp ''updated_at'']
         [Primary_key None [''id''], Unique None [''name'']]
         [],
       Create_index ''ix_roles_name'' ''roles'' [''name''] True None ''btree'',
       Create_table ''permissions''
         [serial_id, not_null ''name'' (Varchar (Some 100)), nullable ''description'' (Varchar (Some 255)),
          stamp ''created_at'', stamp ''updated_at'']
         [Primary_key None [''id''], Unique None [''name'']]
         [],
       Create_index ''ix_permissions_name'' ''permissions'' [''name''] True None ''btree'',
       Create_table ''user_roles''
         [not_null ''user_id'' Integer, not_null ''role_id'' Integer]
         [Foreign_key None [''user_id''] ''users'' [''id''] ''CASCADE'',
          Foreign_key None [''role_id''] ''roles'' [''id''] ''CASCADE'', Primary_key None [''user_id'', ''role_id'']]
         [],
       Create_table ''role_permissions''
         [not_null ''role_id'' Integer, not_null ''permission_id'' Integer]
         [Foreign_key None [''role_id''] ''roles'' [''id''] ''CASCADE'',
          Foreign_key None [''permission_id''] ''permissions'' [''id''] ''CASCADE'', Primary_key None [''role_id'',
          ''permission_id'']]
         []],
     rev_downgrade = [
       Drop_table ''role_permissions'',
       Drop_table ''user_roles'',
       Drop_table ''permissions'',
       Drop_table ''roles'']\<rparr>"

definition rev_002_add_users_table :: revision where
  "rev_002_add_users_table = \<lparr>rev_id = ''001'', rev_down = None,
     rev_upgrade = [
       Create_table ''users''
         [not_null ''email'' (Varchar (Some 255)), not_null ''username'' (Varchar (Some 50)),
          nullable ''full_name'' (Varchar (Some 100)), not_null ''hashed_password'' (Varchar (Some 255)),
          not_null ''is_active'' Boolean, not_null ''is_superuser'' Boolean, not_null ''is_verified'' Boolean,
          nullable ''email_verified_at'' (Timestamp True), nullable ''last_login_at'' (Timestamp True), serial_id,
          stamp ''created_at'', stamp ''updated_at'']
         [Primary_key (Some ''pk_users'') [''id''], Unique (Some ''uq_users_email'') [''email''],
          Unique (Some ''uq_users_username'') [''username'']]
         [],
       Create_index ''ix_users_email'' ''users'' [''email''] False None ''btree'',
       Create_index ''ix_users_username'' ''users'' [''username''] False None ''btree''],
     rev_downgrade = [
       Drop_index ''ix_users_username'' ''users'',
       Drop_index ''ix_users_email'' ''users'',
       Drop_table ''users'']\<rparr>"

definition rev_003_add_task_status_table :: revision where
  "rev_003_add_task_status_table = \<lparr>rev_id = ''003_task_status'', rev_down = Some ''9d1a1b0c1d2e'',
     rev_upgrade = [
       Create_table ''task_status''
         [serial_id, not_null ''task_id'' (Varchar (Some 255)), nullable ''name'' (Varchar (Some 255)),
          defaulted ''status'' (Varchar (Some 50)) ''PENDING'', nullable ''error'' Text,
          nullable ''completed_at'' (Timestamp True), stamp ''created_at'', stamp ''updated_at'']
         [Primary_key None [''id''], Unique None [''task_id'']]
         [],
       Create_index ''ix_task_status_task_id'' ''task_status'' [''task_id''] True None ''btree''],
     rev_downgrade = [
       Drop_index ''ix_task_status_task_id'' ''task_status'',
       Drop_table ''task_status'']\<rparr>"

definition tenant_scoped :: "string list" where
  "tenant_scoped = [''users'', ''roles'', ''permissions'', ''task_status'']"

definition rev_004_add_tenants :: revision where
  "rev_004_add_tenants = \<lparr>rev_id = ''004_add_tenants'', rev_down = Some ''003_task_status'',
     rev_upgrade =
       Create_table ''tenants''
         [serial_id, not_null ''name'' (Varchar (Some 100)), nullable ''slug'' (Varchar (Some 50)),
          defaulted ''is_active'' Boolean ''true'', stamp ''created_at'', stamp ''updated_at'']
         [Primary_key None [''id''], Unique None [''name''], Unique None [''slug'']]
         [] #
       concat (map (\<lambda>tbl.
         [Add_column tbl (nullable ''tenant_id'' Integer),
          Create_foreign_key (''fk_'' @ tbl @ ''_tenant_id'') tbl ''tenants'' [''tenant_id''] [''id''] ''CASCADE'',
          Create_index (''ix_'' @ tbl @ ''_tenant_id'') tbl [''tenant_id''] False None ''btree'']) tenant_scoped),
     rev_downgrade =
       concat (map (\<lambda>tbl.
         [Drop_constraint (''fk_'' @ tbl @ ''_tenant_id'') tbl,
          Drop_index (''ix_'' @ tbl @ ''_tenant_id'') tbl,
          Drop_column tbl ''tenant_id'']) tenant_scoped) @
       [Drop_table ''tenants'']\<rparr>"

definition rev_005_add_search_and_audit :: revision where
  "rev_005_add_search_and_audit = \<lparr>rev_id = ''005_add_search_and_audit'', rev_down = Some ''004_add_tenants'',
     rev_upgrade = [
       Create_table ''audit_logs''
         [serial_id, not_null ''table_name'' (Varchar (Some 100)), not_null ''record_id'' Integer,
          not_null ''action'' (Varchar (Some 10)), nullable ''actor_id'' Integer,
          nullable ''changed_fields'' (Varchar None), nullable ''old_values'' (Varchar None),
          nullable ''new_values'' (Varchar None), stamp ''created_at'', stamp ''updated_at'']
         [Primary_key None [''id'']]
         [],
       Add_column ''users'' (nullable ''search_vector'' Tsvector),
       Update_rows ''users'' [''search_vector'', ''email'', ''username'', ''full_name''],
       Create_index ''ix_users_search_vector'' ''users'' [''search_vector''] False None ''gin'',
       Create_trigger ''tsvectorupdate'' ''users'' [''search_vector'', ''email'', ''username'', ''full_name'']],
     rev_downgrade = [
       Drop_trigger_if_exists ''tsvectorupdate'' ''users'',
       Drop_index ''ix_users_search_vector'' ''users'',
       Drop_column ''users'' ''search_vector'',
       Drop_table ''audit_logs'']\<rparr>"

definition rev_006_add_webauthn_credentials :: revision where
  "rev_006_add_webauthn_credentials = \<lparr>rev_id = ''006_add_webauthn_credentials'', rev_down = Some ''005_add_search_and_audit'',
     rev_upgrade = [
       Create_table ''webauthn_credentials''
         [serial_id, not_null ''user_id'' Integer, not_null ''credential_id'' Text, not_null ''public_key'' Text,
          defaulted ''sign_count'' Integer ''0'', stamp ''created_at'', stamp ''updated_at'']
         [Foreign_key None [''user_id''] ''users'' [''id''] ''CASCADE'', Primary_key None [''id''],
          Unique None [''credential_id'']]
         [],
       Create_index ''ix_webauthn_credentials_user_id'' ''webauthn_credentials'' [''user_id''] False None ''btree''],
     rev_downgrade = [
       Drop_index ''ix_webauthn_credentials_user_id'' ''webauthn_credentials'',
       Drop_table ''webauthn_credentials'']\<rparr>"

definition rev_007_add_lockout_fields :: revision where
  "rev_007_add_lockout_fields = \<lparr>rev_id = ''007_add_lockout_fields'', rev_down = Some ''006_add_webauthn_credentials'',
     rev_upgrade = [
       Add_column ''users'' (defaulted ''failed_login_attempts'' Integer ''0''),
       Add_column ''users'' (nullable ''locked_until'' (Timestamp False))],
     rev_downgrade = [
       Drop_column ''users'' ''locked_until'',
       Drop_column ''users'' ''failed_login_attempts'']\<rparr>"

definition rev_008_add_tenant_ip_rules :: revision where
  "rev_008_add_tenant_ip_rules = \<lparr>rev_id = ''008_add_tenant_ip_rules'', rev_down = Some ''007_add_lockout_fields'',
     rev_upgrade = [
       Create_table ''tenant_ip_rules''
         [serial_id, nullable ''tenant_id'' Integer, not_null ''ip_or_cidr'' (Varchar (Some 45)),
          not_null ''action'' (Enum_type ''ip_rule_action'' [''allow'', ''deny'']), defaulted ''priority'' Integer ''0'',
          nullable ''description'' (Varchar (Some 255)), stamp ''created_at'', stamp ''updated_at'']
         [Foreign_key None [''tenant_id''] ''tenants'' [''id''] ''CASCADE'', Primary_key None [''id'']]
         [''tenant_id'']],
     rev_downgrade = [
       Drop_table ''tenant_ip_rules'',
       Drop_type_if_exists ''ip_rule_action'']\<rparr>"

definition rev_009_add_auth_audit_logs :: revision where
  "rev_009_add_auth_audit_logs = \<lparr>rev_id = ''009_add_auth_audit_logs'', rev_down = Some ''008_add_tenant_ip_rules'',
     rev_upgrade = [
       Create_table ''auth_audit_logs''
         [serial_id, nullable ''tenant_id'' Integer, nullable ''user_id'' Integer,
          not_null ''event_type'' (Varchar (Some 32)), nullable ''ip_address'' (Varchar (Some 45)),
          nullable ''user_agent'' Text, nullable ''details'' Text, stamp ''created_at'']
         [Foreign_key None [''tenant_id''] ''tenants'' [''id''] ''SET NULL'',
          Foreign_key None [''user_id''] ''users'' [''id''] ''SET NULL'', Primary_key None [''id'']]
         [''tenant_id'', ''user_id'', ''event_type'']],
     rev_downgrade = [
       Drop_table ''auth_audit_logs'']\<rparr>"

definition rev_010_add_api_keys :: revision where
  "rev_010_add_api_keys = \<lparr>rev_id = ''010_add_api_keys'', rev_down = Some ''009_add_auth_audit_logs'',
     rev_upgrade = [
       Create_table ''api_keys''
         [serial_id, stamp ''created_at'', stamp ''updated_at'', not_null ''user_id'' Integer,
          not_null ''name'' (Varchar (Some 100)), not_null ''key_prefix'' (Varchar (Some 8)),
          not_null ''hashed_key'' (Varchar (Some 64)), nullable ''scopes'' Json, not_null ''is_active'' Boolean,
          nullable ''last_used_at'' (Timestamp True), nullable ''expires_at'' (Timestamp True)]
         [Foreign_key None [''user_id''] ''users'' [''id''] ''CASCADE'', Primary_key None [''id'']]
         [''user_id'', ''key_prefix'']],
     rev_downgrade = [
       Drop_table ''api_keys'']\<rparr>"

definition rev_011_add_totp_fields :: revision where
  "rev_011_add_totp_fields = \<lparr>rev_id = ''011_add_totp_fields'', rev_down = Some ''010_add_api_keys'',
     rev_upgrade = [
       Add_column ''users'' (nullable ''totp_secret'' (Varchar (Some 32))),
       Add_column ''users'' (defaulted ''totp_enabled'' Boolean ''false''),
       Add_column ''users'' (nullable ''totp_verified_at'' (Timestamp True)),
       Add_column ''users'' (nullable ''backup_codes'' Text)],
     rev_downgrade = [
       Drop_column ''users'' ''backup_codes'',
       Drop_column ''users'' ''totp_verified_at'',
       Drop_column ''users'' ''totp_enabled'',
       Drop_column ''users'' ''totp_secret'']\<rparr>"

definition rev_012_add_oauth_fields :: revision where
  "rev_012_add_oauth_fields = \<lparr>rev_id = ''012_add_oauth_fields'', rev_down = Some ''011_add_totp_fields'',
     rev_upgrade = [
       Add_column ''users'' (nullable ''oauth_provider'' (Varchar (Some 50))),
       Add_column ''users'' (nullable ''oauth_provider_id'' (Varchar (Some 255))),
       Add_column ''users'' (nullable ''oauth_access_token'' (Varchar (Some 512))),
       Add_column ''users'' (nullable ''oauth_refresh_token'' (Varchar (Some 512))),
       Create_index ''ix_users_oauth_provider_id'' ''users'' [''oauth_provider'',
        ''oauth_provider_id''] False None ''btree''],
     rev_downgrade = [
       Drop_index ''ix_users_oauth_provider_id'' ''users'',
       Drop_column ''users'' ''oauth_refresh_token'',
       Drop_column ''users'' ''oauth_access_token'',
       Drop_column ''users'' ''oauth_provider_id'',
       Drop_column ''users'' ''oauth_provider'']\<rparr>"

definition rev_013_add_webhooks :: revision where
  "rev_013_add_webhooks = \<lparr>rev_id = ''013_add_webhooks'', rev_down = Some ''012_add_oauth_fields'',
     rev_upgrade = [
       Create_table ''webhooks''
         [serial_id, stamp ''created_at'', stamp ''updated_at'', nullable ''tenant_id'' Integer,
          not_null ''name'' (Varchar (Some 100)), not_null ''url'' (Varchar (Some 500)),
          not_null ''secret'' (Varchar (Some 128)), nullable ''event_types'' Json, not_null ''is_active'' Boolean,
          nullable ''last_delivery_at'' (Timestamp True), nullable ''last_status'' (Varchar (Some 20)),
          not_null ''failure_count'' Integer]
         [Foreign_key None [''tenant_id''] ''tenants'' [''id''] ''CASCADE'', Primary_key None [''id'']]
         [''tenant_id''],
       Create_table ''webhook_deliveries''
         [serial_id, stamp ''created_at'', stamp ''updated_at'', nullable ''tenant_id'' Integer,
          not_null ''webhook_id'' Integer, not_null ''event_id'' (Varchar (Some 64)),
          not_null ''event_type'' (Varchar (Some 100)), nullable ''payload'' Json, not_null ''attempt'' Integer,
          not_null ''max_attempts'' Integer, not_null ''status'' (Varchar (Some 20)),
          nullable ''response_status'' Integer, nullable ''response_body'' Text, nullable ''error'' Text,
          nullable ''next_retry_at'' (Timestamp True), nullable ''delivered_at'' (Timestamp True)]
         [Foreign_key None [''tenant_id''] ''tenants'' [''id''] ''CASCADE'',
          Foreign_key None [''webhook_id''] ''webhooks'' [''id''] ''CASCADE'', Primary_key None [''id'']]
         [''tenant_id'', ''webhook_id'', ''event_id'', ''event_type'', ''status'']],
     rev_downgrade = [
       Drop_table ''webhook_deliveries'',
       Drop_table ''webhooks'']\<rparr>"

definition rev_014_add_notifications :: revision where
  "rev_014_add_notifications = \<lparr>rev_id = ''014_add_notifications'', rev_down = Some ''013_add_webhooks'',
     rev_upgrade = [
       Create_table ''notification_preferences''
         [serial_id, stamp ''created_at'', stamp ''updated_at'', not_null ''user_id'' Integer,
          not_null ''email_enabled'' Boolean, not_null ''in_app_enabled'' Boolean, not_null ''webhook_enabled'' Boolean]
         [Foreign_key None [''user_id''] ''users'' [''id''] ''CASCADE'', Primary_key None [''id''],
          Unique None [''user_id'']]
         [''user_id''],
       Create_table ''notifications''
         [serial_id, stamp ''created_at'', stamp ''updated_at'', not_null ''user_id'' Integer,
          not_null ''event_type'' (Varchar (Some 100)), not_null ''title'' (Varchar (Some 200)), nullable ''body'' Text,
          not_null ''is_read'' Boolean, nullable ''read_at'' (Timestamp True)]
         [Foreign_key None [''user_id''] ''users'' [''id''] ''CASCADE'', Primary_key None [''id'']]
         [''user_id'', ''event_type''],
       Create_index ''ix_notifications_user_read'' ''notifications'' [''user_id'', ''is_read''] False None ''btree''],
     rev_downgrade = [
       Drop_index ''ix_notifications_user_read'' ''notifications'',
       Drop_table ''notifications'',
       Drop_table ''notification_preferences'']\<rparr>"

definition soft_delete_tables :: "string list" where
  "soft_delete_tables = [''users'', ''notifications'', ''webhooks'', ''api_keys'']"

definition rev_015_add_soft_delete :: revision where
  "rev_015_add_soft_delete = \<lparr>rev_id = ''015_add_soft_delete'', rev_down = Some ''014_add_notifications'',
     rev_upgrade = concat (map (\<lambda>tbl.
       [Add_column tbl (nullable ''deleted_at'' (Timestamp True)),
        Create_index (''ix_'' @ tbl @ ''_deleted_at'') tbl [''deleted_at''] False None ''btree'']) soft_delete_tables),
     rev_downgrade = concat (map (\<lambda>tbl.
       [Drop_index (''ix_'' @ tbl @ ''_deleted_at'') tbl, Drop_column tbl ''deleted_at'']) soft_delete_tables)\<rparr>"

definition rev_016_add_files_table :: revision where
  "rev_016_add_files_table = \<lparr>rev_id = ''016_add_files_table'', rev_down = Some ''015_add_soft_delete'',
     rev_upgrade = [
       Create_table ''files''
         [serial_id, not_null ''filename'' (Varchar (Some 255)), not_null ''original_filename'' (Varchar (Some 255)),
          not_null ''mime_type'' (Varchar (Some 127)), not_null ''size_bytes'' Integer,
          not_null ''storage_path'' (Varchar (Some 512)), not_null ''checksum_sha256'' (Varchar (Some 64)),
          nullable ''uploader_id'' Integer, nullable ''thumbnail_path_small'' (Varchar (Some 512)),
          nullable ''thumbnail_path_medium'' (Varchar (Some 512)), nullable ''thumbnail_path_large'' (Varchar (Some 512)),
          nullable ''metadata'' Json, stamp ''created_at'', stamp ''updated_at'']
         [Unique None [''storage_path''], Foreign_key None [''uploader_id''] ''users'' [''id''] ''SET NULL'',
          Primary_key None [''id'']]
         [],
       Create_index ''ix_files_mime_type'' ''files'' [''mime_type''] False None ''btree'',
       Create_index ''ix_files_checksum_sha256'' ''files'' [''checksum_sha256''] False None ''btree'',
       Create_index ''ix_files_uploader_id'' ''files'' [''uploader_id''] False None ''btree''],
     rev_downgrade = [
       Drop_index ''ix_files_uploader_id'' ''files'',
       Drop_index ''ix_files_checksum_sha256'' ''files'',
       Drop_index ''ix_files_mime_type'' ''files'',
       Drop_table ''files'']\<rparr>"

definition rev_017_add_cms_tables :: revision where
  "rev_017_add_cms_tables = \<lparr>rev_id = ''017_cms'', rev_down = Some ''016_add_files_table'',
     rev_upgrade = [
       Create_table ''cms_categories''
         [serial_id, stamp ''created_at'', stamp ''updated_at'', nullable ''tenant_id'' Integer,
          not_null ''name'' (Varchar (Some 100)), not_null ''slug'' (Varchar (Some 100)),
          nullable ''description'' (Varchar (Some 500))]
         [Foreign_key None [''tenant_id''] ''tenants'' [''id''] ''CASCADE'', Primary_key None [''id'']]
         [''tenant_id''],
       Create_index ''ix_cms_categories_tenant_slug'' ''cms_categories'' [''tenant_id'', ''slug''] True None ''btree'',
       Create_table ''cms_tags''
         [serial_id, stamp ''created_at'', stamp ''updated_at'', nullable ''tenant_id'' Integer,
          not_null ''name'' (Varchar (Some 100)), not_null ''slug'' (Varchar (Some 100))]
         [Foreign_key None [''tenant_id''] ''tenants'' [''id''] ''CASCADE'', Primary_key None [''id'']]
         [''tenant_id''],
       Create_index ''ix_cms_tags_tenant_slug'' ''cms_tags'' [''tenant_id'', ''slug''] True None ''btree'',
       Create_table ''cms_pages''
         [serial_id, stamp ''created_at'', stamp ''updated_at'', nullable ''tenant_id'' Integer,
          not_null ''title'' (Varchar (Some 255)), not_null ''slug'' (Varchar (Some 255)), nullable ''body_md'' Text,
          nullable ''body_html'' Text, nullable ''meta_title'' (Varchar (Some 255)),
          nullable ''meta_description'' (Varchar (Some 500)), not_null ''is_published'' Boolean,
          nullable ''published_at'' (Varchar None), nullable ''author_id'' Integer,
          nullable ''deleted_at'' (Timestamp True)]
         [Foreign_key None [''tenant_id''] ''tenants'' [''id''] ''CASCADE'',
          Foreign_key None [''author_id''] ''users'' [''id''] ''SET NULL'', Primary_key None [''id'']]
         [''tenant_id'', ''deleted_at''],
       Create_index ''ix_cms_pages_tenant_slug'' ''cms_pages'' [''tenant_id'', ''slug''] True None ''btree'',
       Create_table ''cms_posts''
         [serial_id, stamp ''created_at'', stamp ''updated_at'', nullable ''tenant_id'' Integer,
          not_null ''title'' (Varchar (Some 255)), not_null ''slug'' (Varchar (Some 255)),
          nullable ''excerpt'' (Varchar (Some 500)), nullable ''body_md'' Text, nullable ''body_html'' Text,
          nullable ''cover_image_url'' (Varchar (Some 500)), nullable ''meta_title'' (Varchar (Some 255)),
          nullable ''meta_description'' (Varchar (Some 500)), not_null ''is_published'' Boolean,
          nullable ''published_at'' (Varchar None), nullable ''author_id'' Integer,
          nullable ''deleted_at'' (Timestamp True)]
         [Foreign_key None [''tenant_id''] ''tenants'' [''id''] ''CASCADE'',
          Foreign_key None [''author_id''] ''users'' [''id''] ''SET NULL'', Primary_key None [''id'']]
         [''tenant_id'', ''deleted_at''],
       Create_index ''ix_cms_posts_tenant_slug'' ''cms_posts'' [''tenant_id'', ''slug''] True None ''btree'',
       Create_table ''cms_page_categories''
         [not_null ''page_id'' Integer, not_null ''category_id'' Integer]
         [Foreign_key None [''page_id''] ''cms_pages'' [''id''] ''CASCADE'',
          Foreign_key None [''category_id''] ''cms_categories'' [''id''] ''CASCADE'', Primary_key None [''page_id'',
          ''category_id'']]
         [],
       Create_table ''cms_post_categories''
         [not_null ''post_id'' Integer, not_null ''category_id'' Integer]
         [Foreign_key None [''post_id''] ''cms_posts'' [''id''] ''CASCADE'',
          Foreign_key None [''category_id''] ''cms_categories'' [''id''] ''CASCADE'', Primary_key None [''post_id'',
          ''category_id'']]
         [],
       Create_table ''cms_page_tags''
         [not_null ''page_id'' Integer, not_null ''tag_id'' Integer]
         [Foreign_key None [''page_id''] ''cms_pages'' [''id''] ''CASCADE'',
          Foreign_key None [''tag_id''] ''cms_tags'' [''id''] ''CASCADE'', Primary_key None [''page_id'', ''tag_id'']]
         [],
       Create_table ''cms_post_tags''
         [not_null ''post_id'' Integer, not_null ''tag_id'' Integer]
         [Foreign_key None [''post_id''] ''cms_posts'' [''id''] ''CASCADE'',
          Foreign_key None [''tag_id''] ''cms_tags'' [''id''] ''CASCADE'', Primary_key None [''post_id'', ''tag_id'']]
         []],
     rev_downgrade = [
       Drop_table ''cms_post_tags'',
       Drop_table ''cms_page_tags'',
       Drop_table ''cms_post_categories'',
       Drop_table ''cms_page_categories'',
       Drop_index ''ix_cms_posts_tenant_slug'' ''cms_posts'',
       Drop_table ''cms_posts'',
       Drop_index ''ix_cms_pages_tenant_slug'' ''cms_pages'',
       Drop_table ''cms_pages'',
       Drop_index ''ix_cms_tags_tenant_slug'' ''cms_tags'',
       Drop_table ''cms_tags'',
       Drop_index ''ix_cms_categories_tenant_slug'' ''cms_categories'',
       Drop_table ''cms_categories'']\<rparr>"

definition rev_018_add_billing_tables :: revision where
  "rev_018_add_billing_tables = \<lparr>rev_id = ''018_add_billing_tables'', rev_down = Some ''017_cms'',
     rev_upgrade = [
       Create_table ''plans''
         [serial_id, stamp ''created_at'', stamp ''updated_at'', not_null ''name'' (Varchar (Some 100)),
          not_null ''slug'' (Varchar (Some 100)), nullable ''description'' Text, not_null ''price_cents'' Integer,
          not_null ''currency'' (Varchar (Some 3)), not_null ''interval'' (Varchar (Some 20)),
          not_null ''trial_days'' Integer, not_null ''is_active'' Boolean]
         [Primary_key None [''id''], Unique None [''slug''],
          Check (Some ''ck_plans_interval'') (In_list ''interval'' [''monthly'', ''yearly''])]
         [],
       Create_index ''ix_plans_slug'' ''plans'' [''slug''] True None ''btree'',
       Create_table ''subscriptions''
         [serial_id, stamp ''created_at'', stamp ''updated_at'', nullable ''tenant_id'' Integer,
          not_null ''plan_id'' Integer, not_null ''status'' (Varchar (Some 20)),
          not_null ''current_period_start'' (Timestamp True), not_null ''current_period_end'' (Timestamp True),
          nullable ''trial_end'' (Timestamp True), not_null ''cancel_at_period_end'' Boolean,
          nullable ''pending_plan_id'' Integer, nullable ''canceled_at'' (Timestamp True)]
         [Foreign_key None [''tenant_id''] ''tenants'' [''id''] ''CASCADE'',
          Foreign_key None [''plan_id''] ''plans'' [''id''] ''RESTRICT'',
          Foreign_key None [''pending_plan_id''] ''plans'' [''id''] ''SET NULL'', Primary_key None [''id''],
          Check (Some ''ck_subscriptions_status'') (In_list ''status'' [''trialing'', ''active'', ''past_due'',
          ''canceled'']), Foreign_key None [''tenant_id''] ''tenants'' [''id''] ''CASCADE'',
          Foreign_key None [''plan_id''] ''plans'' [''id''] ''RESTRICT'',
          Foreign_key None [''pending_plan_id''] ''plans'' [''id''] ''SET NULL'']
         [],
       Create_index ''ix_subscriptions_tenant_id'' ''subscriptions'' [''tenant_id''] False None ''btree'',
       Create_index ''ix_subscriptions_plan_id'' ''subscriptions'' [''plan_id''] False None ''btree'',
       Create_index ''ix_subscriptions_status'' ''subscriptions'' [''status''] False None ''btree'',
       Create_index ''ix_subscriptions_current_period_end'' ''subscriptions'' [''current_period_end''] False None ''btree'',
       Create_index ''uq_live_subscription_per_tenant'' ''subscriptions'' [''tenant_id''] True (Some (In_list ''status'' [''trialing'',
        ''active'', ''past_due''])) ''btree''],
     rev_downgrade = [
       Drop_index ''uq_live_subscription_per_tenant'' ''subscriptions'',
       Drop_index ''ix_subscriptions_current_period_end'' ''subscriptions'',
       Drop_index ''ix_subscriptions_status'' ''subscriptions'',
       Drop_index ''ix_subscriptions_plan_id'' ''subscriptions'',
       Drop_index ''ix_subscriptions_tenant_id'' ''subscriptions'',
       Drop_table ''subscriptions'',
       Drop_index ''ix_plans_slug'' ''plans'',
       Drop_table ''plans'']\<rparr>"

definition rev_019_add_stripe_integration :: revision where
  "rev_019_add_stripe_integration = \<lparr>rev_id = ''019_add_stripe_integration'', rev_down = Some ''018_add_billing_tables'',
     rev_upgrade = [
       Add_column ''tenants'' (nullable ''stripe_customer_id'' (Varchar (Some 255))),
       Create_index ''ix_tenants_stripe_customer_id'' ''tenants'' [''stripe_customer_id''] True None ''btree'',
       Add_column ''subscriptions'' (nullable ''stripe_subscription_id'' (Varchar (Some 255))),
       Create_index ''ix_subscriptions_stripe_subscription_id'' ''subscriptions'' [''stripe_subscription_id''] True None ''btree'',
       Create_table ''stripe_events''
         [serial_id, stamp ''created_at'', stamp ''updated_at'', not_null ''event_id'' (Varchar (Some 255)),
          not_null ''event_type'' (Varchar (Some 100)), nullable ''payload'' Json,
          nullable ''processed_at'' (Timestamp True)]
         [Primary_key None [''id''], Unique None [''event_id'']]
         [],
       Create_index ''ix_stripe_events_event_type'' ''stripe_events'' [''event_type''] False None ''btree''],
     rev_downgrade = [
       Drop_index ''ix_stripe_events_event_type'' ''stripe_events'',
       Drop_table ''stripe_events'',
       Drop_index ''ix_subscriptions_stripe_subscription_id'' ''subscriptions'',
       Drop_column ''subscriptions'' ''stripe_subscription_id'',
       Drop_index ''ix_tenants_stripe_customer_id'' ''tenants'',
       Drop_column ''tenants'' ''stripe_customer_id'']\<rparr>"

definition rev_020_add_invoicing :: revision where
  "rev_020_add_invoicing = \<lparr>rev_id = ''020_add_invoicing'', rev_down = Some ''019_add_stripe_integration'',
     rev_upgrade = [
       Create_table ''invoices''
         [serial_id, stamp ''created_at'', stamp ''updated_at'', nullable ''tenant_id'' Integer,
          not_null ''subscription_id'' Integer, defaulted ''status'' (Varchar (Some 20)) ''draft'',
          defaulted ''currency'' (Varchar (Some 3)) ''usd'', defaulted ''subtotal_cents'' Integer ''0'',
          defaulted ''tax_cents'' Integer ''0'', defaulted ''total_cents'' Integer ''0'',
          not_null ''period_start'' (Timestamp True), not_null ''period_end'' (Timestamp True),
          nullable ''issued_at'' (Timestamp True), nullable ''paid_at'' (Timestamp True)]
         [Foreign_key None [''tenant_id''] ''tenants'' [''id''] ''CASCADE'',
          Foreign_key None [''subscription_id''] ''subscriptions'' [''id''] ''RESTRICT'', Primary_key None [''id''],
          Check (Some ''ck_invoices_status'') (In_list ''status'' [''draft'', ''open'', ''paid'', ''void''])]
         [],
       Create_index ''ix_invoices_subscription_id'' ''invoices'' [''subscription_id''] False None ''btree'',
       Create_index ''ix_invoices_status'' ''invoices'' [''status''] False None ''btree'',
       Create_index ''uq_invoice_per_subscription_period'' ''invoices'' [''subscription_id'',
        ''period_start''] True (Some (Not_equal ''status'' ''void'')) ''btree'',
       Create_table ''invoice_lines''
         [serial_id, stamp ''created_at'', stamp ''updated_at'', not_null ''invoice_id'' Integer,
          not_null ''description'' (Varchar (Some 255)), defaulted ''quantity'' Integer ''1'',
          not_null ''unit_amount_cents'' Integer, defaulted ''tax_rate_bps'' Integer ''0'',
          not_null ''amount_cents'' Integer]
         [Foreign_key None [''invoice_id''] ''invoices'' [''id''] ''CASCADE'', Primary_key None [''id'']]
         [],
       Create_index ''ix_invoice_lines_invoice_id'' ''invoice_lines'' [''invoice_id''] False None ''btree''],
     rev_downgrade = [
       Drop_index ''ix_invoice_lines_invoice_id'' ''invoice_lines'',
       Drop_table ''invoice_lines'',
       Drop_index ''uq_invoice_per_subscription_period'' ''invoices'',
       Drop_index ''ix_invoices_status'' ''invoices'',
       Drop_index ''ix_invoices_subscription_id'' ''invoices'',
       Drop_table ''invoices'']\<rparr>"

definition rev_021_add_plan_metering :: revision where
  "rev_021_add_plan_metering = \<lparr>rev_id = ''021_add_plan_metering'', rev_down = Some ''020_add_invoicing'',
     rev_upgrade = [
       Add_column ''plans'' (nullable ''metering'' Json)],
     rev_downgrade = [
       Drop_column ''plans'' ''metering'']\<rparr>"

definition rev_022_add_dunning :: revision where
  "rev_022_add_dunning = \<lparr>rev_id = ''022_add_dunning'', rev_down = Some ''021_add_plan_metering'',
     rev_upgrade = [
       Add_column ''subscriptions'' (defaulted ''failed_payment_count'' Integer ''0''),
       Add_column ''subscriptions'' (nullable ''last_payment_failure_at'' (Timestamp True)),
       Add_column ''subscriptions'' (nullable ''next_retry_at'' (Timestamp True)),
       Add_column ''subscriptions'' (nullable ''suspended_at'' (Timestamp True))],
     rev_downgrade = [
       Drop_column ''subscriptions'' ''suspended_at'',
       Drop_column ''subscriptions'' ''next_retry_at'',
       Drop_column ''subscriptions'' ''last_payment_failure_at'',
       Drop_column ''subscriptions'' ''failed_payment_count'']\<rparr>"

definition versions :: "revision list" where
  "versions = [
     rev_001_add_rbac_tables, rev_002_add_users_table, rev_003_add_task_status_table,
     rev_004_add_tenants, rev_005_add_search_and_audit, rev_006_add_webauthn_credentials,
     rev_007_add_lockout_fields, rev_008_add_tenant_ip_rules, rev_009_add_auth_audit_logs,
     rev_010_add_api_keys, rev_011_add_totp_fields, rev_012_add_oauth_fields,
     rev_013_add_webhooks, rev_014_add_notifications, rev_015_add_soft_delete,
     rev_016_add_files_table, rev_017_add_cms_tables, rev_018_add_billing_tables,
     rev_019_add_stripe_integration, rev_020_add_invoicing, rev_021_add_plan_metering,
     rev_022_add_dunning]"

definition migration_path :: "revision list" where
  "migration_path = revision_path (length versions) versions None"

section \<open>Reversibility\<close>

text \<open>Every script applies after the earlier ones, and its downgrade restores the schema exactly.\<close>

fun reversible :: "revision list \<Rightarrow> ddl_error + schema \<Rightarrow> bool" where
  "reversible [] r \<longleftrightarrow> True"
| "reversible (v # vs) r \<longleftrightarrow>
     (let r' = apply_changes (rev_upgrade v) r
      in (\<exists>S. r' = Inr S) \<and> apply_changes (rev_downgrade v) r' = r \<and> reversible vs r')"

definition undone_then :: "revision \<Rightarrow> revision list \<Rightarrow> ddl_error + schema \<Rightarrow> ddl_error + schema \<Rightarrow> bool" where
  "undone_then v vs r r' \<longleftrightarrow> (\<exists>S. r' = Inr S) \<and> apply_changes (rev_downgrade v) r' = r \<and> reversible vs r'"

lemma reversible_eval:
  "reversible [] r = True"
  "reversible (v # vs) r = undone_then v vs r (apply_changes (rev_upgrade v) r)"
  "undone_then v vs r (Inr S) = (apply_changes (rev_downgrade v) (Inr S) = r \<and> reversible vs (Inr S))"
  by (simp_all add: undone_then_def Let_def)

lemmas revision_defs = rev_002_add_users_table_def
  rev_001_add_rbac_tables_def
  rev_003_add_task_status_table_def
  rev_004_add_tenants_def
  rev_005_add_search_and_audit_def
  rev_006_add_webauthn_credentials_def
  rev_007_add_lockout_fields_def
  rev_008_add_tenant_ip_rules_def
  rev_009_add_auth_audit_logs_def
  rev_010_add_api_keys_def
  rev_011_add_totp_fields_def
  rev_012_add_oauth_fields_def
  rev_013_add_webhooks_def
  rev_014_add_notifications_def
  rev_015_add_soft_delete_def
  rev_016_add_files_table_def
  rev_017_add_cms_tables_def
  rev_018_add_billing_tables_def
  rev_019_add_stripe_integration_def
  rev_020_add_invoicing_def
  rev_021_add_plan_metering_def
  rev_022_add_dunning_def
  tenant_scoped_def soft_delete_tables_def

text \<open>Identifier and predecessor of every revision, for the order.\<close>

lemma revision_keys:
  "rev_id rev_002_add_users_table = ''001''" "rev_down rev_002_add_users_table = None"
  "rev_id rev_001_add_rbac_tables = ''9d1a1b0c1d2e''" "rev_down rev_001_add_rbac_tables = Some ''001''"
  "rev_id rev_003_add_task_status_table = ''003_task_status''" "rev_down rev_003_add_task_status_table = Some ''9d1a1b0c1d2e''"
  "rev_id rev_004_add_tenants = ''004_add_tenants''" "rev_down rev_004_add_tenants = Some ''003_task_status''"
  "rev_id rev_005_add_search_and_audit = ''005_add_search_and_audit''" "rev_down rev_005_add_search_and_audit = Some ''004_add_tenants''"
  "rev_id rev_006_add_webauthn_credentials = ''006_add_webauthn_credentials''" "rev_down rev_006_add_webauthn_credentials = Some ''005_add_search_and_audit''"
  "rev_id rev_007_add_lockout_fields = ''007_add_lockout_fields''" "rev_down rev_007_add_lockout_fields = Some ''006_add_webauthn_credentials''"
  "rev_id rev_008_add_tenant_ip_rules = ''008_add_tenant_ip_rules''" "rev_down rev_008_add_tenant_ip_rules = Some ''007_add_lockout_fields''"
  "rev_id rev_009_add_auth_audit_logs = ''009_add_auth_audit_logs''" "rev_down rev_009_add_auth_audit_logs = Some ''008_add_tenant_ip_rules''"
  "rev_id rev_010_add_api_keys = ''010_add_api_keys''" "rev_down rev_010_add_api_keys = Some ''009_add_auth_audit_logs''"
  "rev_id rev_011_add_totp_fields = ''011_add_totp_fields''" "rev_down rev_011_add_totp_fields = Some ''010_add_api_keys''"
  "rev_id rev_012_add_oauth_fields = ''012_add_oauth_fields''" "rev_down rev_012_add_oauth_fields = Some ''011_add_totp_fields''"
  "rev_id rev_013_add_webhooks = ''013_add_webhooks''" "rev_down rev_013_add_webhooks = Some ''012_add_oauth_fields''"
  "rev_id rev_014_add_notifications = ''014_add_notifications''" "rev_down rev_014_add_notifications = Some ''013_add_webhooks''"
  "rev_id rev_015_add_soft_delete = ''015_add_soft_delete''" "rev_down rev_015_add_soft_delete = Some ''014_add_notifications''"
  "rev_id rev_016_add_files_table = ''016_add_files_table''" "rev_down rev_016_add_files_table = Some ''015_add_soft_delete''"
  "rev_id rev_017_add_cms_tables = ''017_cms''" "rev_down rev_017_add_cms_tables = Some ''016_add_files_table''"
  "rev_id rev_018_add_billing_tables = ''018_add_billing_tables''" "rev_down rev_018_add_billing_tables = Some ''017_cms''"
  "rev_id rev_019_add_stripe_integration = ''019_add_stripe_integration''" "rev_down rev_019_add_stripe_integration = Some ''018_add_billing_tables''"
  "rev_id rev_020_add_invoicing = ''020_add_invoicing''" "rev_down rev_020_add_invoicing = Some ''019_add_stripe_integration''"
  "rev_id rev_021_add_plan_metering = ''021_add_plan_metering''" "rev_down rev_021_add_plan_metering = Some ''020_add_invoicing''"
  "rev_id rev_022_add_dunning = ''022_add_dunning''" "rev_down rev_022_add_dunning = Some ''021_add_plan_metering''"
  by (simp_all add: revision_defs)

lemma migration_path_eq:
  "migration_path = [rev_002_add_users_table, rev_001_add_rbac_tables, rev_003_add_task_status_table,
     rev_004_add_tenants, rev_005_add_search_and_audit, rev_006_add_webauthn_credentials,
     rev_007_add_lockout_fields, rev_008_add_tenant_ip_rules, rev_009_add_auth_audit_logs,
     rev_010_add_api_keys, rev_011_add_totp_fields, rev_012_add_oauth_fields,
     rev_013_add_webhooks, rev_014_add_notifications, rev_015_add_soft_delete,
     rev_016_add_files_table, rev_017_add_cms_tables, rev_018_add_billing_tables,
     rev_019_add_stripe_integration, rev_020_add_invoicing, rev_021_add_plan_metering,
     rev_022_add_dunning]"
  by (simp add: migration_path_def versions_def revision_keys)

lemma path_reversible: "reversible migration_path (Inr empty_schema)"
  by (simp only: migration_path_eq reversible_eval ddl_eval revision.select_convs revision_defs cong: ddl_values)

lemma upgrade_all_append: "upgrade_all (vs @ us) r = upgrade_all us (upgrade_all vs r)"
  by (induction vs arbitrary: r) simp_all

lemma reversible_runs:
  assumes "reversible vs r" "r = Inr S0"
  shows "(\<exists>S. upgrade_all vs r = Inr S) \<and> downgrade_all vs (upgrade_all vs r) = r"
  using assms
proof (induction vs arbitrary: r S0)
  case (Cons v vs)
  obtain S where S: "apply_changes (rev_upgrade v) r = Inr S" "apply_changes (rev_downgrade v) (Inr S) = r" "reversible vs (Inr S)"
    using Cons.prems(1) by (auto simp: Let_def)
  with Cons.IH [OF S(3) refl] show ?case by simp
qed simp

lemma reversible_split: "reversible (vs @ us) r \<longleftrightarrow> reversible vs r \<and> reversible us (upgrade_all vs r)"
  by (induction vs arbitrary: r) (auto simp: Let_def)

text \<open>C29: the migrations form one chain over all scripts. Every upgrade applies to the schema that its predecessors built from
  an empty database, and downgrading from any revision to any earlier one leads back to exactly the schema of that
  earlier revision: tables, columns in their order, constraints, indexes, types and triggers.\<close>

theorem migrations_reversible:
  assumes "j \<le> k" "k \<le> length versions"
  shows "set migration_path = set versions \<and> distinct migration_path \<and>
    (\<exists>S S'. upgrade_all (take j migration_path) (Inr empty_schema) = Inr S \<and>
       upgrade_all (take k migration_path) (Inr empty_schema) = Inr S' \<and>
       downgrade_all (drop j (take k migration_path)) (Inr S') = Inr S)"
proof -
  obtain us where us: "take k migration_path = take j migration_path @ us" "us = drop j (take k migration_path)"
    using assms(1) by (metis append_take_drop_id min.absorb2 min.commute take_take)
  have "reversible (take k migration_path @ drop k migration_path) (Inr empty_schema)" using path_reversible by simp
  then have k: "reversible (take j migration_path @ us) (Inr empty_schema)" unfolding reversible_split us(1) by blast
  then have j: "reversible (take j migration_path) (Inr empty_schema)"
    and rest: "reversible us (upgrade_all (take j migration_path) (Inr empty_schema))"
    unfolding reversible_split by blast+
  obtain S where S: "upgrade_all (take j migration_path) (Inr empty_schema) = Inr S" using reversible_runs [OF j refl] by blast
  obtain S' where S': "upgrade_all us (Inr S) = Inr S'" "downgrade_all us (Inr S') = Inr S"
    using reversible_runs [OF rest S] S by auto
  have "upgrade_all (take k migration_path) (Inr empty_schema) = Inr S'"
    by (simp add: us(1) upgrade_all_append S S'(1))
  moreover have "set migration_path = set versions" "distinct (map rev_id migration_path)"
    by (auto simp: migration_path_eq versions_def revision_keys)
  ultimately show ?thesis using S S'(2) by (auto simp: us(2) distinct_map)
qed

theorem migrations_reversible_witness:
  "\<exists>S S'. upgrade_all (take 7 migration_path) (Inr empty_schema) = Inr S \<and>
       upgrade_all (take 20 migration_path) (Inr empty_schema) = Inr S' \<and>
       downgrade_all (drop 7 (take 20 migration_path)) (Inr S') = Inr S"
  using migrations_reversible [of 7 20] by (simp add: versions_def)

end
