(* ===== verification/Declared.thy ===== *)
theory Declared
  imports Migrations Dunning
begin

text \<open>
  The tables that the model classes declare (\<^verbatim>\<open>app/models\<close>, \<^verbatim>\<open>app/identity/models\<close>, \<^verbatim>\<open>app/notifications/models\<close>,
  \<^verbatim>\<open>app/billing/models\<close>), as the changes with which \<^verbatim>\<open>Base.metadata.create_all\<close> creates them, and the comparison with
  the schema that the migrations build. The test suite runs on the first, a deployment on the second.

  A column without an explicit type has the one of its annotation: \<^verbatim>\<open>datetime\<close> is a time stamp with time zone
  (\<^verbatim>\<open>type_annotation_map\<close> of \<^verbatim>\<open>app/models/base.py\<close>). Enumerations with \<^verbatim>\<open>native_enum=False\<close> are text without a check.
\<close>

section \<open>Declared tables\<close>

definition tbl_tenants :: "change list" where
  "tbl_tenants = [
       Create_table ''tenants''
         [serial_id, stamp ''created_at'', stamp ''updated_at'', not_null ''name'' (Varchar (Some 100)),
          nullable ''slug'' (Varchar (Some 50)), not_null ''is_active'' Boolean,
          nullable ''stripe_customer_id'' (Varchar (Some 255))]
         [Primary_key None [''id''], Unique None [''name''], Unique None [''slug''], Unique None [''stripe_customer_id'']]
         []]"

definition tbl_users :: "change list" where
  "tbl_users = [
       Create_table ''users''
         [serial_id, stamp ''created_at'', stamp ''updated_at'', nullable ''tenant_id'' Integer,
          nullable ''deleted_at'' (Timestamp True), nullable ''search_vector'' Tsvector,
          not_null ''email'' (Varchar (Some 255)), not_null ''username'' (Varchar (Some 50)),
          nullable ''full_name'' (Varchar (Some 100)), not_null ''hashed_password'' (Varchar (Some 255)),
          not_null ''is_active'' Boolean, not_null ''is_superuser'' Boolean, not_null ''is_verified'' Boolean,
          not_null ''failed_login_attempts'' Integer, nullable ''locked_until'' (Timestamp True),
          nullable ''email_verified_at'' (Timestamp True), nullable ''last_login_at'' (Timestamp True),
          nullable ''oauth_provider'' (Varchar (Some 50)), nullable ''oauth_provider_id'' (Varchar (Some 255)),
          nullable ''oauth_access_token'' (Varchar (Some 512)), nullable ''oauth_refresh_token'' (Varchar (Some 512)),
          nullable ''totp_secret'' (Varchar (Some 32)), not_null ''totp_enabled'' Boolean,
          nullable ''totp_verified_at'' (Timestamp True), nullable ''backup_codes'' Text]
         [Primary_key None [''id''], Foreign_key None [''tenant_id''] ''tenants'' [''id''] ''CASCADE'']
         [''tenant_id'', ''deleted_at''],
       Create_index ''ix_users_email'' ''users'' [''email''] True None ''btree'',
       Create_index ''ix_users_username'' ''users'' [''username''] True None ''btree'',
       Create_index ''ix_users_oauth_provider_id'' ''users'' [''oauth_provider'', ''oauth_provider_id''] False None ''btree'']"

definition tbl_user_roles :: "change list" where
  "tbl_user_roles = [
       Create_table ''user_roles''
         [not_null ''user_id'' Integer, not_null ''role_id'' Integer]
         [Primary_key None [''user_id'', ''role_id''], Foreign_key None [''user_id''] ''users'' [''id''] ''CASCADE'',
          Foreign_key None [''role_id''] ''roles'' [''id''] ''CASCADE'']
         []]"

definition tbl_role_permissions :: "change list" where
  "tbl_role_permissions = [
       Create_table ''role_permissions''
         [not_null ''role_id'' Integer, not_null ''permission_id'' Integer]
         [Primary_key None [''role_id'', ''permission_id''],
          Foreign_key None [''role_id''] ''roles'' [''id''] ''CASCADE'',
          Foreign_key None [''permission_id''] ''permissions'' [''id''] ''CASCADE'']
         []]"

definition tbl_permissions :: "change list" where
  "tbl_permissions = [
       Create_table ''permissions''
         [serial_id, stamp ''created_at'', stamp ''updated_at'', not_null ''name'' (Varchar (Some 100)),
          nullable ''description'' (Varchar (Some 255))]
         [Primary_key None [''id'']]
         [],
       Create_index ''ix_permissions_name'' ''permissions'' [''name''] True None ''btree'']"

definition tbl_roles :: "change list" where
  "tbl_roles = [
       Create_table ''roles''
         [serial_id, stamp ''created_at'', stamp ''updated_at'', not_null ''name'' (Varchar (Some 50)),
          nullable ''description'' (Varchar (Some 255))]
         [Primary_key None [''id'']]
         [],
       Create_index ''ix_roles_name'' ''roles'' [''name''] True None ''btree'']"

definition tbl_task_status :: "change list" where
  "tbl_task_status = [
       Create_table ''task_status''
         [serial_id, stamp ''created_at'', stamp ''updated_at'', nullable ''tenant_id'' Integer,
          not_null ''task_id'' (Varchar (Some 255)), nullable ''name'' (Varchar (Some 255)),
          not_null ''status'' (Varchar (Some 50)), nullable ''error'' Text, nullable ''completed_at'' (Timestamp True)]
         [Primary_key None [''id''], Foreign_key None [''tenant_id''] ''tenants'' [''id''] ''CASCADE'']
         [''tenant_id''],
       Create_index ''ix_task_status_task_id'' ''task_status'' [''task_id''] True None ''btree'']"

definition tbl_audit_logs :: "change list" where
  "tbl_audit_logs = [
       Create_table ''audit_logs''
         [serial_id, stamp ''created_at'', stamp ''updated_at'', not_null ''table_name'' (Varchar (Some 100)),
          not_null ''record_id'' Integer, not_null ''action'' (Varchar (Some 10)), nullable ''actor_id'' Integer,
          nullable ''changed_fields'' (Varchar None), nullable ''old_values'' (Varchar None),
          nullable ''new_values'' (Varchar None)]
         [Primary_key None [''id'']]
         []]"

definition tbl_webauthn_credentials :: "change list" where
  "tbl_webauthn_credentials = [
       Create_table ''webauthn_credentials''
         [serial_id, stamp ''created_at'', stamp ''updated_at'', not_null ''user_id'' Integer,
          not_null ''credential_id'' Text, not_null ''public_key'' Text, not_null ''sign_count'' Integer]
         [Primary_key None [''id''], Foreign_key None [''user_id''] ''users'' [''id''] ''CASCADE'',
          Unique None [''credential_id'']]
         [''user_id'']]"

definition tbl_tenant_ip_rules :: "change list" where
  "tbl_tenant_ip_rules = [
       Create_table ''tenant_ip_rules''
         [serial_id, stamp ''created_at'', stamp ''updated_at'', nullable ''tenant_id'' Integer,
          not_null ''ip_or_cidr'' (Varchar (Some 45)), not_null ''action'' (Enum_type ''ip_rule_action'' [''allow'', ''deny'']), not_null ''priority'' Integer, nullable ''description'' (Varchar (Some 255))]
         [Primary_key None [''id''], Foreign_key None [''tenant_id''] ''tenants'' [''id''] ''CASCADE'']
         [''tenant_id'']]"

definition tbl_auth_audit_logs :: "change list" where
  "tbl_auth_audit_logs = [
       Create_table ''auth_audit_logs''
         [serial_id, nullable ''tenant_id'' Integer, nullable ''user_id'' Integer,
          not_null ''event_type'' (Varchar (Some 32)), nullable ''ip_address'' (Varchar (Some 45)),
          nullable ''user_agent'' Text, nullable ''details'' Text, stamp ''created_at'']
         [Primary_key None [''id''], Foreign_key None [''tenant_id''] ''tenants'' [''id''] ''SET NULL'',
          Foreign_key None [''user_id''] ''users'' [''id''] ''SET NULL'']
         [''tenant_id'', ''user_id'', ''event_type'']]"

definition tbl_api_keys :: "change list" where
  "tbl_api_keys = [
       Create_table ''api_keys''
         [serial_id, stamp ''created_at'', stamp ''updated_at'', nullable ''deleted_at'' (Timestamp True),
          not_null ''user_id'' Integer, not_null ''name'' (Varchar (Some 100)),
          not_null ''key_prefix'' (Varchar (Some 8)), not_null ''hashed_key'' (Varchar (Some 64)),
          nullable ''scopes'' Json, not_null ''is_active'' Boolean, nullable ''last_used_at'' (Timestamp True),
          nullable ''expires_at'' (Timestamp True)]
         [Primary_key None [''id''], Foreign_key None [''user_id''] ''users'' [''id''] ''CASCADE'']
         [''deleted_at'', ''user_id'', ''key_prefix'']]"

definition tbl_webhooks :: "change list" where
  "tbl_webhooks = [
       Create_table ''webhooks''
         [serial_id, stamp ''created_at'', stamp ''updated_at'', nullable ''tenant_id'' Integer,
          nullable ''deleted_at'' (Timestamp True), not_null ''name'' (Varchar (Some 100)),
          not_null ''url'' (Varchar (Some 500)), not_null ''secret'' (Varchar (Some 128)), nullable ''event_types'' Json,
          not_null ''is_active'' Boolean, nullable ''last_delivery_at'' (Timestamp True),
          nullable ''last_status'' (Varchar (Some 20)), not_null ''failure_count'' Integer]
         [Primary_key None [''id''], Foreign_key None [''tenant_id''] ''tenants'' [''id''] ''CASCADE'']
         [''tenant_id'', ''deleted_at'']]"

definition tbl_webhook_deliveries :: "change list" where
  "tbl_webhook_deliveries = [
       Create_table ''webhook_deliveries''
         [serial_id, stamp ''created_at'', stamp ''updated_at'', nullable ''tenant_id'' Integer,
          not_null ''webhook_id'' Integer, not_null ''event_id'' (Varchar (Some 64)),
          not_null ''event_type'' (Varchar (Some 100)), nullable ''payload'' Json, not_null ''attempt'' Integer,
          not_null ''max_attempts'' Integer, not_null ''status'' (Varchar (Some 20)),
          nullable ''response_status'' Integer, nullable ''response_body'' Text, nullable ''error'' Text,
          nullable ''next_retry_at'' (Timestamp True), nullable ''delivered_at'' (Timestamp True)]
         [Primary_key None [''id''], Foreign_key None [''tenant_id''] ''tenants'' [''id''] ''CASCADE'',
          Foreign_key None [''webhook_id''] ''webhooks'' [''id''] ''CASCADE'']
         [''tenant_id'', ''webhook_id'', ''event_id'', ''event_type'', ''status'']]"

definition tbl_notification_preferences :: "change list" where
  "tbl_notification_preferences = [
       Create_table ''notification_preferences''
         [serial_id, stamp ''created_at'', stamp ''updated_at'', not_null ''user_id'' Integer,
          not_null ''email_enabled'' Boolean, not_null ''in_app_enabled'' Boolean, not_null ''webhook_enabled'' Boolean]
         [Primary_key None [''id''], Foreign_key None [''user_id''] ''users'' [''id''] ''CASCADE'']
         [],
       Create_index ''ix_notification_preferences_user_id'' ''notification_preferences'' [''user_id''] True None ''btree'']"

definition tbl_notifications :: "change list" where
  "tbl_notifications = [
       Create_table ''notifications''
         [serial_id, stamp ''created_at'', stamp ''updated_at'', nullable ''deleted_at'' (Timestamp True),
          not_null ''user_id'' Integer, not_null ''event_type'' (Varchar (Some 100)),
          not_null ''title'' (Varchar (Some 200)), nullable ''body'' Text, not_null ''is_read'' Boolean,
          nullable ''read_at'' (Timestamp True)]
         [Primary_key None [''id''], Foreign_key None [''user_id''] ''users'' [''id''] ''CASCADE'']
         [''deleted_at'', ''user_id'', ''event_type''],
       Create_index ''ix_notifications_user_read'' ''notifications'' [''user_id'', ''is_read''] False None ''btree'']"

definition tbl_files :: "change list" where
  "tbl_files = [
       Create_table ''files''
         [serial_id, stamp ''created_at'', stamp ''updated_at'', not_null ''filename'' (Varchar (Some 255)),
          not_null ''original_filename'' (Varchar (Some 255)), not_null ''mime_type'' (Varchar (Some 127)),
          not_null ''size_bytes'' Integer, not_null ''storage_path'' (Varchar (Some 512)),
          not_null ''checksum_sha256'' (Varchar (Some 64)), nullable ''uploader_id'' Integer,
          nullable ''thumbnail_path_small'' (Varchar (Some 512)), nullable ''thumbnail_path_medium'' (Varchar (Some 512)),
          nullable ''thumbnail_path_large'' (Varchar (Some 512)), nullable ''metadata'' Json]
         [Primary_key None [''id''], Unique None [''storage_path''],
          Foreign_key None [''uploader_id''] ''users'' [''id''] ''SET NULL'']
         [''mime_type'', ''checksum_sha256'', ''uploader_id'']]"

definition tbl_cms_page_categories :: "change list" where
  "tbl_cms_page_categories = [
       Create_table ''cms_page_categories''
         [not_null ''page_id'' Integer, not_null ''category_id'' Integer]
         [Primary_key None [''page_id'', ''category_id''],
          Foreign_key None [''page_id''] ''cms_pages'' [''id''] ''CASCADE'',
          Foreign_key None [''category_id''] ''cms_categories'' [''id''] ''CASCADE'']
         []]"

definition tbl_cms_post_categories :: "change list" where
  "tbl_cms_post_categories = [
       Create_table ''cms_post_categories''
         [not_null ''post_id'' Integer, not_null ''category_id'' Integer]
         [Primary_key None [''post_id'', ''category_id''],
          Foreign_key None [''post_id''] ''cms_posts'' [''id''] ''CASCADE'',
          Foreign_key None [''category_id''] ''cms_categories'' [''id''] ''CASCADE'']
         []]"

definition tbl_cms_page_tags :: "change list" where
  "tbl_cms_page_tags = [
       Create_table ''cms_page_tags''
         [not_null ''page_id'' Integer, not_null ''tag_id'' Integer]
         [Primary_key None [''page_id'', ''tag_id''], Foreign_key None [''page_id''] ''cms_pages'' [''id''] ''CASCADE'',
          Foreign_key None [''tag_id''] ''cms_tags'' [''id''] ''CASCADE'']
         []]"

definition tbl_cms_post_tags :: "change list" where
  "tbl_cms_post_tags = [
       Create_table ''cms_post_tags''
         [not_null ''post_id'' Integer, not_null ''tag_id'' Integer]
         [Primary_key None [''post_id'', ''tag_id''], Foreign_key None [''post_id''] ''cms_posts'' [''id''] ''CASCADE'',
          Foreign_key None [''tag_id''] ''cms_tags'' [''id''] ''CASCADE'']
         []]"

definition tbl_cms_categories :: "change list" where
  "tbl_cms_categories = [
       Create_table ''cms_categories''
         [serial_id, stamp ''created_at'', stamp ''updated_at'', nullable ''tenant_id'' Integer,
          not_null ''name'' (Varchar (Some 100)), not_null ''slug'' (Varchar (Some 100)),
          nullable ''description'' (Varchar (Some 500))]
         [Primary_key None [''id''], Foreign_key None [''tenant_id''] ''tenants'' [''id''] ''CASCADE'']
         [''tenant_id''],
       Create_index ''ix_cms_categories_tenant_slug'' ''cms_categories'' [''tenant_id'', ''slug''] True None ''btree'']"

definition tbl_cms_tags :: "change list" where
  "tbl_cms_tags = [
       Create_table ''cms_tags''
         [serial_id, stamp ''created_at'', stamp ''updated_at'', nullable ''tenant_id'' Integer,
          not_null ''name'' (Varchar (Some 100)), not_null ''slug'' (Varchar (Some 100))]
         [Primary_key None [''id''], Foreign_key None [''tenant_id''] ''tenants'' [''id''] ''CASCADE'']
         [''tenant_id''],
       Create_index ''ix_cms_tags_tenant_slug'' ''cms_tags'' [''tenant_id'', ''slug''] True None ''btree'']"

definition tbl_cms_pages :: "change list" where
  "tbl_cms_pages = [
       Create_table ''cms_pages''
         [serial_id, stamp ''created_at'', stamp ''updated_at'', nullable ''tenant_id'' Integer,
          nullable ''deleted_at'' (Timestamp True), not_null ''title'' (Varchar (Some 255)),
          not_null ''slug'' (Varchar (Some 255)), nullable ''body_md'' Text, nullable ''body_html'' Text,
          nullable ''meta_title'' (Varchar (Some 255)), nullable ''meta_description'' (Varchar (Some 500)),
          not_null ''is_published'' Boolean, nullable ''published_at'' (Varchar None), nullable ''author_id'' Integer]
         [Primary_key None [''id''], Foreign_key None [''tenant_id''] ''tenants'' [''id''] ''CASCADE'',
          Foreign_key None [''author_id''] ''users'' [''id''] ''SET NULL'']
         [''tenant_id'', ''deleted_at''],
       Create_index ''ix_cms_pages_tenant_slug'' ''cms_pages'' [''tenant_id'', ''slug''] True None ''btree'']"

definition tbl_cms_posts :: "change list" where
  "tbl_cms_posts = [
       Create_table ''cms_posts''
         [serial_id, stamp ''created_at'', stamp ''updated_at'', nullable ''tenant_id'' Integer,
          nullable ''deleted_at'' (Timestamp True), not_null ''title'' (Varchar (Some 255)),
          not_null ''slug'' (Varchar (Some 255)), nullable ''excerpt'' (Varchar (Some 500)), nullable ''body_md'' Text,
          nullable ''body_html'' Text, nullable ''cover_image_url'' (Varchar (Some 500)),
          nullable ''meta_title'' (Varchar (Some 255)), nullable ''meta_description'' (Varchar (Some 500)),
          not_null ''is_published'' Boolean, nullable ''published_at'' (Varchar None), nullable ''author_id'' Integer]
         [Primary_key None [''id''], Foreign_key None [''tenant_id''] ''tenants'' [''id''] ''CASCADE'',
          Foreign_key None [''author_id''] ''users'' [''id''] ''SET NULL'']
         [''tenant_id'', ''deleted_at''],
       Create_index ''ix_cms_posts_tenant_slug'' ''cms_posts'' [''tenant_id'', ''slug''] True None ''btree'']"

definition tbl_plans :: "change list" where
  "tbl_plans = [
       Create_table ''plans''
         [serial_id, stamp ''created_at'', stamp ''updated_at'', not_null ''name'' (Varchar (Some 100)),
          not_null ''slug'' (Varchar (Some 100)), nullable ''description'' Text, not_null ''price_cents'' Integer,
          not_null ''currency'' (Varchar (Some 3)), not_null ''interval'' (Varchar (Some 20)),
          not_null ''trial_days'' Integer, not_null ''is_active'' Boolean, nullable ''metering'' Json]
         [Primary_key None [''id''], Unique None [''slug'']]
         []]"

definition tbl_subscriptions :: "change list" where
  "tbl_subscriptions = [
       Create_table ''subscriptions''
         [serial_id, stamp ''created_at'', stamp ''updated_at'', nullable ''tenant_id'' Integer,
          not_null ''plan_id'' Integer, not_null ''status'' (Varchar (Some 20)),
          not_null ''current_period_start'' (Timestamp True), not_null ''current_period_end'' (Timestamp True),
          nullable ''trial_end'' (Timestamp True), not_null ''cancel_at_period_end'' Boolean,
          nullable ''pending_plan_id'' Integer, nullable ''canceled_at'' (Timestamp True),
          nullable ''stripe_subscription_id'' (Varchar (Some 255)), not_null ''failed_payment_count'' Integer,
          nullable ''last_payment_failure_at'' (Timestamp True), nullable ''next_retry_at'' (Timestamp True),
          nullable ''suspended_at'' (Timestamp True)]
         [Primary_key None [''id''], Foreign_key None [''tenant_id''] ''tenants'' [''id''] ''CASCADE'',
          Foreign_key None [''plan_id''] ''plans'' [''id''] ''RESTRICT'',
          Foreign_key None [''pending_plan_id''] ''plans'' [''id''] ''SET NULL'',
          Unique None [''stripe_subscription_id'']]
         [''tenant_id'', ''plan_id'', ''status'', ''current_period_end''],
       Create_index ''uq_live_subscription_per_tenant'' ''subscriptions'' [''tenant_id''] True (Some (In_list ''status'' [''trialing'', ''active'', ''past_due''])) ''btree'']"

definition tbl_stripe_events :: "change list" where
  "tbl_stripe_events = [
       Create_table ''stripe_events''
         [serial_id, stamp ''created_at'', stamp ''updated_at'', not_null ''event_id'' (Varchar (Some 255)),
          not_null ''event_type'' (Varchar (Some 100)), nullable ''payload'' Json,
          nullable ''processed_at'' (Timestamp True)]
         [Primary_key None [''id''], Unique None [''event_id'']]
         [''event_type'']]"

definition tbl_invoices :: "change list" where
  "tbl_invoices = [
       Create_table ''invoices''
         [serial_id, stamp ''created_at'', stamp ''updated_at'', nullable ''tenant_id'' Integer,
          not_null ''subscription_id'' Integer, not_null ''status'' (Varchar (Some 20)),
          not_null ''currency'' (Varchar (Some 3)), not_null ''subtotal_cents'' Integer, not_null ''tax_cents'' Integer,
          not_null ''total_cents'' Integer, not_null ''period_start'' (Timestamp True),
          not_null ''period_end'' (Timestamp True), nullable ''issued_at'' (Timestamp True),
          nullable ''paid_at'' (Timestamp True)]
         [Primary_key None [''id''], Foreign_key None [''tenant_id''] ''tenants'' [''id''] ''CASCADE'',
          Foreign_key None [''subscription_id''] ''subscriptions'' [''id''] ''RESTRICT'']
         [''tenant_id'', ''subscription_id'', ''status''],
       Create_index ''uq_invoice_per_subscription_period'' ''invoices'' [''subscription_id'', ''period_start''] True (Some (Not_equal ''status'' ''void'')) ''btree'']"

definition tbl_invoice_lines :: "change list" where
  "tbl_invoice_lines = [
       Create_table ''invoice_lines''
         [serial_id, stamp ''created_at'', stamp ''updated_at'', not_null ''invoice_id'' Integer,
          not_null ''description'' (Varchar (Some 255)), not_null ''quantity'' Integer,
          not_null ''unit_amount_cents'' Integer, not_null ''tax_rate_bps'' Integer, not_null ''amount_cents'' Integer]
         [Primary_key None [''id''], Foreign_key None [''invoice_id''] ''invoices'' [''id''] ''CASCADE'']
         [''invoice_id'']]"

text \<open>In an order in which references point backwards.\<close>

definition metadata :: "change list" where
  "metadata = concat [
     tbl_tenants, tbl_users, tbl_permissions, tbl_roles,
     tbl_user_roles, tbl_role_permissions, tbl_task_status, tbl_audit_logs,
     tbl_webauthn_credentials, tbl_tenant_ip_rules, tbl_auth_audit_logs, tbl_api_keys,
     tbl_webhooks, tbl_webhook_deliveries, tbl_notification_preferences, tbl_notifications,
     tbl_files, tbl_cms_categories, tbl_cms_tags, tbl_cms_pages,
     tbl_cms_posts, tbl_cms_page_categories, tbl_cms_post_categories, tbl_cms_page_tags,
     tbl_cms_post_tags, tbl_plans, tbl_subscriptions, tbl_stripe_events,
     tbl_invoices, tbl_invoice_lines]"

section \<open>Comparison\<close>

type_synonym column_key = "string \<times> column_type \<times> bool"

fun column_keys :: "column list \<Rightarrow> column_key list" where
  "column_keys [] = []"
| "column_keys (c # cs) = (clm_name c, clm_type c, clm_nullable c) # column_keys cs"

fun table_of :: "string \<Rightarrow> (string \<times> table_def) list \<Rightarrow> table_def option" where
  "table_of n [] = None"
| "table_of n ((m, t) # ts) = (if m = n then Some t else table_of n ts)"

fun columns_in :: "table_def option \<Rightarrow> column_key list" where
  "columns_in None = []"
| "columns_in (Some t) = column_keys (td_columns t)"

definition table_columns :: "schema \<Rightarrow> string \<Rightarrow> column_key list" where
  "table_columns S n = columns_in (table_of n (sc_tables S))"

text \<open>What must be unique in a table, with the condition of a partial index.\<close>

type_synonym unique_key = "string list \<times> sql_condition option"

fun constraint_keys :: "table_constraint list \<Rightarrow> unique_key list" where
  "constraint_keys [] = []"
| "constraint_keys (Primary_key _ cs # ks) = (cs, None) # constraint_keys ks"
| "constraint_keys (Unique _ cs # ks) = (cs, None) # constraint_keys ks"
| "constraint_keys (Foreign_key _ _ _ _ _ # ks) = constraint_keys ks"
| "constraint_keys (Check _ _ # ks) = constraint_keys ks"

fun index_keys :: "string \<Rightarrow> (string \<times> index_def) list \<Rightarrow> unique_key list" where
  "index_keys n [] = []"
| "index_keys n ((_, x) # xs) =
     cons_unless (\<not> (ix_table x = n \<and> ix_unique x)) (ix_columns x, ix_where x) (index_keys n xs)"

fun keys_in :: "table_def option \<Rightarrow> unique_key list" where
  "keys_in None = []"
| "keys_in (Some t) = constraint_keys (td_constraints t)"

definition unique_keys :: "schema \<Rightarrow> string \<Rightarrow> unique_key list" where
  "unique_keys S n = keys_in (table_of n (sc_tables S)) @ index_keys n (sc_indexes S)"

text \<open>The checks of a table.\<close>

fun check_list :: "table_constraint list \<Rightarrow> sql_condition list" where
  "check_list [] = []"
| "check_list (Check _ p # ks) = p # check_list ks"
| "check_list (Primary_key _ _ # ks) = check_list ks"
| "check_list (Unique _ _ # ks) = check_list ks"
| "check_list (Foreign_key _ _ _ _ _ # ks) = check_list ks"

fun checks_in :: "table_def option \<Rightarrow> sql_condition list" where
  "checks_in None = []"
| "checks_in (Some t) = check_list (td_constraints t)"

definition table_checks :: "schema \<Rightarrow> string \<Rightarrow> sql_condition list" where
  "table_checks S n = checks_in (table_of n (sc_tables S))"

fun missing :: "'a list \<Rightarrow> 'a list \<Rightarrow> 'a list" where
  "missing [] ys = []"
| "missing (a # xs) ys = cons_unless (a \<in> set ys) a (missing xs ys)"

definition difference :: "string \<Rightarrow> 'a list \<Rightarrow> 'a list \<Rightarrow> (string \<times> 'a list \<times> 'a list) list \<Rightarrow> (string \<times> 'a list \<times> 'a list) list" where
  "difference n xs ys rest =
     cons_unless (set xs \<subseteq> set ys \<and> set ys \<subseteq> set xs) (n, missing xs ys, missing ys xs) rest"

fun differences :: "(string \<Rightarrow> 'a list) \<Rightarrow> (string \<Rightarrow> 'a list) \<Rightarrow> string list \<Rightarrow> (string \<times> 'a list \<times> 'a list) list" where
  "differences f g [] = []"
| "differences f g (n # ns) = difference n (f n) (g n) (differences f g ns)"

fun table_names :: "(string \<times> table_def) list \<Rightarrow> string list" where
  "table_names [] = []"
| "table_names ((m, t) # ts) = m # table_names ts"

definition schema_or_empty :: "ddl_error + schema \<Rightarrow> schema" where
  "schema_or_empty r = (case r of Inl _ \<Rightarrow> empty_schema | Inr S \<Rightarrow> S)"

definition declared_schema :: schema where
  "declared_schema = schema_or_empty (apply_changes metadata (Inr empty_schema))"

definition migrated_schema :: schema where
  "migrated_schema = schema_or_empty (upgrade_all migration_path (Inr empty_schema))"

text \<open>Columns, unique keys, checks and tables that only one of two schemas has; first those of the first schema.\<close>

record comparison =
  cmp_columns :: "(string \<times> column_key list \<times> column_key list) list"
  cmp_keys :: "(string \<times> unique_key list \<times> unique_key list) list"
  cmp_checks :: "(string \<times> sql_condition list \<times> sql_condition list) list"
  cmp_tables :: "string list \<times> string list"

definition compare_schemas :: "schema \<Rightarrow> schema \<Rightarrow> comparison" where
  "compare_schemas D M = \<lparr>
     cmp_columns = differences (table_columns D) (table_columns M) (table_names (sc_tables D)),
     cmp_keys = differences (unique_keys D) (unique_keys M) (table_names (sc_tables D)),
     cmp_checks = differences (table_checks D) (table_checks M) (table_names (sc_tables D)),
     cmp_tables = (missing (table_names (sc_tables D)) (table_names (sc_tables M)),
                   missing (table_names (sc_tables M)) (table_names (sc_tables D)))\<rparr>"

lemma schema_or_empty_Inr: "schema_or_empty (Inr S) = S"
  by (simp add: schema_or_empty_def)

lemma eval_numerals:
  "(numeral a = (numeral b :: int)) = (a = b)" "(num.Bit0 a = num.Bit0 b) = (a = b)" "(num.Bit1 a = num.Bit1 b) = (a = b)"
  "(num.Bit0 a = num.Bit1 b) = False" "(num.Bit1 a = num.Bit0 b) = False" "(num.One = num.Bit0 a) = False"
  "(num.One = num.Bit1 a) = False" "(num.Bit0 a = num.One) = False" "(num.Bit1 a = num.One) = False"
  by simp_all

lemmas comparison_eval = compare_schemas_def column_keys.simps table_of.simps columns_in.simps table_columns_def
  constraint_keys.simps index_keys.simps keys_in.simps unique_keys_def check_list.simps checks_in.simps table_checks_def
  missing.simps difference_def differences.simps table_names.simps
  column_type.inject column_type.distinct sql_condition.inject sql_condition.distinct prod.inject eval_numerals

lemmas metadata_defs = metadata_def tbl_tenants_def tbl_users_def tbl_permissions_def tbl_roles_def tbl_user_roles_def
  tbl_role_permissions_def tbl_task_status_def tbl_audit_logs_def tbl_webauthn_credentials_def tbl_tenant_ip_rules_def
  tbl_auth_audit_logs_def tbl_api_keys_def tbl_webhooks_def tbl_webhook_deliveries_def tbl_notification_preferences_def
  tbl_notifications_def tbl_files_def tbl_cms_categories_def tbl_cms_tags_def tbl_cms_pages_def tbl_cms_posts_def
  tbl_cms_page_categories_def tbl_cms_post_categories_def tbl_cms_page_tags_def tbl_cms_post_tags_def tbl_plans_def
  tbl_subscriptions_def tbl_stripe_events_def tbl_invoices_def tbl_invoice_lines_def

section \<open>Checks on rows\<close>

text \<open>A check holds for a row unless it is false; a null makes it unknown.\<close>

fun satisfies :: "(string \<Rightarrow> string option) \<Rightarrow> sql_condition \<Rightarrow> bool" where
  "satisfies row (In_list c vs) \<longleftrightarrow> (case row c of None \<Rightarrow> True | Some v \<Rightarrow> v \<in> set vs)"
| "satisfies row (Not_equal c v) \<longleftrightarrow> row c \<noteq> Some v"

definition accepts_row :: "schema \<Rightarrow> string \<Rightarrow> (string \<Rightarrow> string option) \<Rightarrow> bool" where
  "accepts_row S n row \<longleftrightarrow> list_all (satisfies row) (table_checks S n)"

definition subscription_values :: "subscription \<Rightarrow> string \<Rightarrow> string option" where
  "subscription_values s = [''status'' \<mapsto> status_value (sub_status s)]"

section \<open>Evaluation\<close>

lemma schema_comparison:
  "compare_schemas declared_schema migrated_schema = \<lparr>
     cmp_columns =
       [(''users'', [(''locked_until'', Timestamp True, True)], [(''locked_until'', Timestamp False, True)]),
        (''permissions'', [], [(''tenant_id'', Integer, True)]),
        (''roles'', [], [(''tenant_id'', Integer, True)])],
     cmp_keys = [],
     cmp_checks =
       [(''plans'', [], [In_list ''interval'' [''monthly'', ''yearly'']]),
        (''subscriptions'', [], [In_list ''status'' [''trialing'', ''active'', ''past_due'', ''canceled'']]),
        (''invoices'', [], [In_list ''status'' [''draft'', ''open'', ''paid'', ''void'']])],
     cmp_tables = ([], [])\<rparr>"
  by (simp only: declared_schema_def migrated_schema_def schema_or_empty_Inr migration_path_eq upgrade_all.simps
      ddl_eval revision.select_convs revision_defs metadata_defs comparison_eval)

lemma declared_checks: "table_checks declared_schema ''subscriptions'' = []"
  by (simp only: declared_schema_def schema_or_empty_Inr ddl_eval metadata_defs comparison_eval)

lemma set_cons_unless: "set (cons_unless p x xs) = (if p then {} else {x}) \<union> set xs"
  by (cases p) simp_all

lemma missing_Nil: "missing xs [] = xs"
  by (induction xs) simp_all

lemma differences_entry: "(n, a, b) \<in> set (differences f g ns) \<Longrightarrow> a = missing (f n) (g n) \<and> b = missing (g n) (f n)"
  by (induction ns) (auto simp: difference_def set_cons_unless split: if_splits)

lemma subscription_checks:
  "table_checks migrated_schema ''subscriptions'' = [In_list ''status'' [''trialing'', ''active'', ''past_due'', ''canceled'']]"
proof -
  have "(''subscriptions'', [], [In_list ''status'' [''trialing'', ''active'', ''past_due'', ''canceled'']]) \<in>
      set (cmp_checks (compare_schemas declared_schema migrated_schema))" by (simp add: schema_comparison)
  then have "(''subscriptions'', [], [In_list ''status'' [''trialing'', ''active'', ''past_due'', ''canceled'']]) \<in>
      set (differences (table_checks declared_schema) (table_checks migrated_schema) (table_names (sc_tables declared_schema)))"
    by (simp only: compare_schemas_def comparison.select_convs)
  from differences_entry [OF this] show ?thesis by (simp only: declared_checks missing_Nil)
qed

section \<open>Theorems\<close>

text \<open>The migrations build the tables that the model classes declare, with the same columns, types, nullability and unique
  keys. They differ in these places only: the time stamp of a lock has no time zone in a migrated database, roles and
  permissions have a tenant there that the models do not know, and three status and interval columns carry checks. The
  check on subscriptions was not extended when suspension was added.\<close>

theorem migrated_schema_matches_models:
  "compare_schemas declared_schema migrated_schema = \<lparr>
     cmp_columns =
       [(''users'', [(''locked_until'', Timestamp True, True)], [(''locked_until'', Timestamp False, True)]),
        (''permissions'', [], [(''tenant_id'', Integer, True)]),
        (''roles'', [], [(''tenant_id'', Integer, True)])],
     cmp_keys = [],
     cmp_checks =
       [(''plans'', [], [In_list ''interval'' [''monthly'', ''yearly'']]),
        (''subscriptions'', [], [In_list ''status'' [''trialing'', ''active'', ''past_due'', ''canceled'']]),
        (''invoices'', [], [In_list ''status'' [''draft'', ''open'', ''paid'', ''void'']])],
     cmp_tables = ([], [])\<rparr>"
  by (rule schema_comparison)

text \<open>Suspension cannot be stored in a migrated database. Its check accepts the row of a subscription exactly when the
  subscription is not suspended, while the tables that the models declare accept every row; and what the dunning service
  makes of a subscription that is past due and out of retries is a row that the check refuses.\<close>

theorem suspension_violates_migrated_check:
  assumes "sub_status s = PAST_DUE"
  shows "(\<forall>r. accepts_row migrated_schema ''subscriptions'' (subscription_values r) \<longleftrightarrow> sub_status r \<noteq> SUSPENDED) \<and>
    (\<forall>r. accepts_row declared_schema ''subscriptions'' (subscription_values r)) \<and>
    (\<exists>r w'. suspend_subscription None now s w = (Inr r, w') \<and> w_db w' = (w_db w)\<lparr>subscriptions :=
        update_row sub_id r (subscriptions (w_db w))\<rparr> \<and>
      \<not> accepts_row migrated_schema ''subscriptions'' (subscription_values r))"
proof -
  have acc: "accepts_row migrated_schema ''subscriptions'' (subscription_values r) \<longleftrightarrow> sub_status r \<noteq> SUSPENDED" for r
    by (cases "sub_status r") (simp_all add: accepts_row_def subscription_checks subscription_values_def)
  have "accepts_row declared_schema ''subscriptions'' (subscription_values r)" for r
    by (simp add: accepts_row_def declared_checks)
  then show ?thesis
    using assms acc by (simp add: suspend_subscription_def Let_def assert_transition_def publish_to_recipients_def)
qed

theorem suspension_violates_migrated_check_witness:
  "\<exists>r w'. suspend_subscription None 5 dunning_sub dunning_world = (Inr r, w') \<and>
     \<not> accepts_row migrated_schema ''subscriptions'' (subscription_values r)"
  using suspension_violates_migrated_check [of dunning_sub 5 dunning_world] by (auto simp: dunning_sub_def)

end
