(* ===== verification/Operator.thy ===== *)
theory Operator
  imports AppState
begin

text \<open>
  \<^verbatim>\<open>operator/handlers.py\<close>: the Kubernetes operator that keeps the child resources of a \<^verbatim>\<open>FastAPIApp\<close>.

  The specification is the JSON object of the custom resource. A manifest is the record of the arguments that the
  code passes to the classes of the client library, whatever these accept. The cluster behind the client is a state \<open>'k\<close>; \<open>kube_conforms\<close>
  states the documented behaviour of its calls on a map from kind, namespace and name to manifests. What a patch
  makes of an existing object is the argument \<open>merge\<close>, what \<^verbatim>\<open>kopf.adopt\<close> returns the argument \<open>adopt\<close>.
\<close>

section \<open>Manifests\<close>

record object_meta =
  om_name :: string
  om_namespace :: string
  om_labels :: "(string \<times> string) list"

record http_probe =
  prb_path :: string
  prb_port :: json
  prb_initial_delay_seconds :: int
  prb_period_seconds :: int

record container =
  cnt_name :: string
  cnt_image :: json
  cnt_port :: json
  cnt_env :: "(json \<times> string) list"
  cnt_resources :: "(json \<times> json) option"
  cnt_readiness_probe :: http_probe
  cnt_liveness_probe :: http_probe

datatype manifest =
    Deployment object_meta json "(string \<times> string) list" "(string \<times> string) list" container
  | Service object_meta "(string \<times> string) list" json json string
  | Autoscaler object_meta json json "(string \<times> string) list" json
  | Disruption_budget object_meta json "(string \<times> string) list"

text \<open>
  A deployment has replicas, selector, labels of the pods and their container; a service selector, port, target
  port and type; an autoscaler least and greatest number of replicas, the reference to its target and the processor
  utilisation; a budget the least number available and a selector.
\<close>

fun meta_of :: "manifest \<Rightarrow> object_meta" where
  "meta_of (Deployment m _ _ _ _) = m"
| "meta_of (Service m _ _ _ _) = m"
| "meta_of (Autoscaler m _ _ _ _) = m"
| "meta_of (Disruption_budget m _ _) = m"

type_synonym crd_spec = "(string \<times> json) list"

definition kube_labels :: "string \<Rightarrow> string \<Rightarrow> (string \<times> string) list" where
  "kube_labels name namespace =
     [(''app'', name), (''app.kubernetes.io/managed-by'', ''fastapi-operator''),
      (''app.kubernetes.io/name'', name), (''app.kubernetes.io/namespace'', namespace)]"

definition child_meta :: "string \<Rightarrow> string \<Rightarrow> object_meta" where
  "child_meta name namespace =
     \<lparr>om_name = name, om_namespace = namespace, om_labels = kube_labels name namespace\<rparr>"

text \<open>\<open>e["k"]\<close> on a JSON value\<close>

definition subscript :: "json \<Rightarrow> string \<Rightarrow> exn + json" where
  "subscript e k = (case e of
       JObj d \<Rightarrow> (case map_of d k of None \<Rightarrow> Inl (KeyError k) | Some v \<Rightarrow> Inr v)
     | _ \<Rightarrow> Inl (PyTypeError ''not subscriptable''))"

fun env_items :: "(json \<Rightarrow> string) \<Rightarrow> json list \<Rightarrow> exn + (json \<times> string) list" where
  "env_items repr [] = Inr []"
| "env_items repr (e # es) =
     (case subscript e ''name'' of Inl x \<Rightarrow> Inl x
      | Inr n \<Rightarrow> (case subscript e ''value'' of Inl x \<Rightarrow> Inl x
          | Inr v \<Rightarrow> (case env_items repr es of Inl x \<Rightarrow> Inl x | Inr vs \<Rightarrow> Inr ((n, py_str repr v) # vs))))"

text \<open>A value that is not a list where one is expected is refused by the schema of the resource.\<close>

definition env_vars :: "(json \<Rightarrow> string) \<Rightarrow> crd_spec \<Rightarrow> exn + (json \<times> string) list" where
  "env_vars repr spec =
     (let env = jget spec ''env''
      in if \<not> truthy env then Inr []
         else (case env of JList es \<Rightarrow> env_items repr es | _ \<Rightarrow> Inl (PyTypeError ''not a list of objects'')))"

definition resources :: "crd_spec \<Rightarrow> exn + (json \<times> json) option" where
  "resources spec =
     (let res = jget spec ''resources''
      in if \<not> truthy res then Inr None
         else (case res of JObj d \<Rightarrow> Inr (Some (jget d ''requests'', jget d ''limits''))
               | _ \<Rightarrow> Inl (AttributeError ''get'')))"

definition app_container :: "json \<Rightarrow> json \<Rightarrow> (json \<times> string) list \<Rightarrow> (json \<times> json) option \<Rightarrow> container" where
  "app_container img port env res =
     \<lparr>cnt_name = ''app'', cnt_image = img, cnt_port = port, cnt_env = env, cnt_resources = res,
      cnt_readiness_probe = \<lparr>prb_path = ''/readyz'', prb_port = port, prb_initial_delay_seconds = 5, prb_period_seconds = 5\<rparr>,
      cnt_liveness_probe = \<lparr>prb_path = ''/healthz'', prb_port = port, prb_initial_delay_seconds = 10, prb_period_seconds = 10\<rparr>\<rparr>"

definition build_deployment :: "(json \<Rightarrow> string) \<Rightarrow> string \<Rightarrow> string \<Rightarrow> crd_spec \<Rightarrow> exn + manifest" where
  "build_deployment repr name namespace spec =
     (let labels = kube_labels name namespace;
          replicas = jget_default spec ''replicas'' (JInt 2);
          port = jget_default spec ''port'' (JInt 8000)
      in case subscript (JObj spec) ''image'' of Inl e \<Rightarrow> Inl e
         | Inr img \<Rightarrow> (case env_vars repr spec of Inl e \<Rightarrow> Inl e
             | Inr env \<Rightarrow> (case resources spec of Inl e \<Rightarrow> Inl e
                 | Inr res \<Rightarrow> Inr (Deployment (child_meta name namespace) replicas [(''app'', name)] labels
                     (app_container img port env res)))))"

definition build_service :: "string \<Rightarrow> string \<Rightarrow> crd_spec \<Rightarrow> manifest" where
  "build_service name namespace spec =
     (let port = jget_default spec ''port'' (JInt 8000)
      in Service (child_meta name namespace) [(''app'', name)] port port ''ClusterIP'')"

definition build_hpa :: "string \<Rightarrow> string \<Rightarrow> crd_spec \<Rightarrow> exn + manifest option" where
  "build_hpa name namespace spec =
     (case jget_default spec ''autoscaling'' (JObj []) of
        JObj scaling \<Rightarrow>
          if \<not> truthy (jget scaling ''enabled'') then Inr None
          else Inr (Some (Autoscaler (child_meta name namespace)
                 (jget_default scaling ''minReplicas'' (JInt 2)) (jget_default scaling ''maxReplicas'' (JInt 10))
                 [(''apiVersion'', ''apps/v1''), (''kind'', ''Deployment''), (''name'', name)]
                 (jget_default scaling ''targetCPUUtilizationPercentage'' (JInt 80))))
      | _ \<Rightarrow> Inl (AttributeError ''get''))"

definition build_pdb :: "string \<Rightarrow> string \<Rightarrow> crd_spec \<Rightarrow> exn + manifest option" where
  "build_pdb name namespace spec =
     (let pdb_spec = jget spec ''pdb''
      in if \<not> truthy pdb_spec then Inr None
         else (case pdb_spec of
             JObj d \<Rightarrow> Inr (Some (Disruption_budget (child_meta name namespace) (jget_default d ''minAvailable'' (JInt 1))
                         [(''app'', name)]))
           | _ \<Rightarrow> Inl (AttributeError ''get'')))"

section \<open>Reconciliation\<close>

datatype kind = Deployments | Services | Autoscalers | Disruption_budgets

text \<open>The calls of the client, on a name and a namespace; a body may be Python's \<open>None\<close>.\<close>

record 'k kube_client =
  kc_read :: "kind \<Rightarrow> string \<Rightarrow> string \<Rightarrow> ('k, unit) io"
  kc_create :: "kind \<Rightarrow> string \<Rightarrow> manifest option \<Rightarrow> ('k, unit) io"
  kc_patch :: "kind \<Rightarrow> string \<Rightarrow> string \<Rightarrow> manifest option \<Rightarrow> ('k, unit) io"
  kc_delete :: "kind \<Rightarrow> string \<Rightarrow> string \<Rightarrow> ('k, unit) io"

record 'k resource_ops =
  ro_read_fn :: "string \<Rightarrow> string \<Rightarrow> ('k, unit) io"
  ro_create_fn :: "string \<Rightarrow> manifest option \<Rightarrow> ('k, unit) io"
  ro_patch_fn :: "string \<Rightarrow> string \<Rightarrow> manifest option \<Rightarrow> ('k, unit) io"
  ro_delete_fn :: "string \<Rightarrow> string \<Rightarrow> ('k, unit) io"

definition ops_for :: "'k kube_client \<Rightarrow> kind \<Rightarrow> 'k resource_ops" where
  "ops_for C kd = \<lparr>ro_read_fn = kc_read C kd, ro_create_fn = kc_create C kd, ro_patch_fn = kc_patch C kd,
     ro_delete_fn = kc_delete C kd\<rparr>"

definition create_or_patch :: "'k resource_ops \<Rightarrow> string \<Rightarrow> string \<Rightarrow> manifest option \<Rightarrow> ('k, unit) io" where
  "create_or_patch ops name namespace desired =
     tryM (thenM (ro_read_fn ops name namespace) (ro_patch_fn ops name namespace desired))
       (\<lambda>e. case e of
          ApiException st \<Rightarrow> if st = 404 then ro_create_fn ops namespace desired else raiseM e
        | _ \<Rightarrow> raiseM e)"

definition delete_if_exists :: "'k resource_ops \<Rightarrow> string \<Rightarrow> string \<Rightarrow> ('k, unit) io" where
  "delete_if_exists ops name namespace =
     tryM (ro_delete_fn ops name namespace)
       (\<lambda>e. case e of ApiException st \<Rightarrow> if st \<noteq> 404 then raiseM e else returnM () | _ \<Rightarrow> raiseM e)"

definition reconcile_optional ::
  "(manifest \<Rightarrow> manifest option) \<Rightarrow> 'k resource_ops \<Rightarrow> string \<Rightarrow> string \<Rightarrow> manifest option \<Rightarrow> ('k, unit) io" where
  "reconcile_optional adopt ops name namespace desired =
     (case desired of
        Some d \<Rightarrow> create_or_patch ops name namespace (adopt d)
      | None \<Rightarrow> delete_if_exists ops name namespace)"

definition reconcile ::
  "'k kube_client \<Rightarrow> (manifest \<Rightarrow> manifest option) \<Rightarrow> (json \<Rightarrow> string) \<Rightarrow> crd_spec \<Rightarrow> string \<Rightarrow> string \<Rightarrow> ('k, unit) io" where
  "reconcile C adopt repr spec name namespace =
     bindM (liftM (build_deployment repr name namespace spec)) (\<lambda>deployment.
     thenM (create_or_patch (ops_for C Deployments) name namespace (adopt deployment))
    (thenM (create_or_patch (ops_for C Services) name namespace (adopt (build_service name namespace spec)))
    (bindM (liftM (build_hpa name namespace spec)) (\<lambda>desired_hpa.
     thenM (reconcile_optional adopt (ops_for C Autoscalers) name namespace desired_hpa)
    (bindM (liftM (build_pdb name namespace spec)) (\<lambda>desired_pdb.
     reconcile_optional adopt (ops_for C Disruption_budgets) name namespace desired_pdb))))))"

section \<open>The documented cluster\<close>

type_synonym cluster = "kind \<Rightarrow> string \<times> string \<Rightarrow> manifest option"

definition put :: "kind \<Rightarrow> string \<times> string \<Rightarrow> manifest option \<Rightarrow> cluster \<Rightarrow> cluster" where
  "put kd key v cl = cl(kd := (cl kd)(key := v))"

definition kube_read :: "kind \<Rightarrow> string \<Rightarrow> string \<Rightarrow> (cluster, unit) io" where
  "kube_read kd n ns cl = (if cl kd (ns, n) = None then Inl (ApiException 404) else Inr (), cl)"

definition kube_create :: "kind \<Rightarrow> string \<Rightarrow> manifest option \<Rightarrow> (cluster, unit) io" where
  "kube_create kd ns body cl =
     (case body of
        None \<Rightarrow> (Inl (ValueError ''Missing the required parameter body''), cl)
      | Some d \<Rightarrow>
          (let key = (ns, om_name (meta_of d))
           in if cl kd key \<noteq> None then (Inl (ApiException 409), cl) else (Inr (), put kd key (Some d) cl)))"

definition kube_patch :: "(manifest \<Rightarrow> manifest \<Rightarrow> manifest) \<Rightarrow> kind \<Rightarrow> string \<Rightarrow> string \<Rightarrow> manifest option \<Rightarrow> (cluster, unit) io" where
  "kube_patch merge kd n ns body cl =
     (case body of
        None \<Rightarrow> (Inl (ValueError ''Missing the required parameter body''), cl)
      | Some d \<Rightarrow> (case cl kd (ns, n) of
          None \<Rightarrow> (Inl (ApiException 404), cl)
        | Some old \<Rightarrow> (Inr (), put kd (ns, n) (Some (merge old d)) cl)))"

definition kube_delete :: "kind \<Rightarrow> string \<Rightarrow> string \<Rightarrow> (cluster, unit) io" where
  "kube_delete kd n ns cl =
     (if cl kd (ns, n) = None then (Inl (ApiException 404), cl) else (Inr (), put kd (ns, n) None cl))"

definition simulates :: "('k, 'a) io \<Rightarrow> ('k \<Rightarrow> cluster) \<Rightarrow> (cluster, 'a) io \<Rightarrow> bool" where
  "simulates m \<alpha> s \<longleftrightarrow> (\<forall>k. fst (m k) = fst (s (\<alpha> k)) \<and> \<alpha> (snd (m k)) = snd (s (\<alpha> k)))"

definition kube_conforms :: "'k kube_client \<Rightarrow> ('k \<Rightarrow> cluster) \<Rightarrow> (manifest \<Rightarrow> manifest \<Rightarrow> manifest) \<Rightarrow> bool" where
  "kube_conforms C \<alpha> merge \<longleftrightarrow>
     (\<forall>kd n ns body. simulates (kc_read C kd n ns) \<alpha> (kube_read kd n ns) \<and>
        simulates (kc_create C kd ns body) \<alpha> (kube_create kd ns body) \<and>
        simulates (kc_patch C kd n ns body) \<alpha> (kube_patch merge kd n ns body) \<and>
        simulates (kc_delete C kd n ns) \<alpha> (kube_delete kd n ns))"

definition documented_client :: "(manifest \<Rightarrow> manifest \<Rightarrow> manifest) \<Rightarrow> cluster kube_client" where
  "documented_client merge =
     \<lparr>kc_read = kube_read, kc_create = kube_create, kc_patch = kube_patch merge, kc_delete = kube_delete\<rparr>"

lemma documented_client_conforms: "kube_conforms (documented_client merge) id merge"
  by (simp add: kube_conforms_def simulates_def documented_client_def)

section \<open>Running the operations\<close>

lemma simulatesD:
  assumes "simulates m \<alpha> s" "s (\<alpha> k) = (r, cl)"
  obtains k' where "m k = (r, k')" "\<alpha> k' = cl"
  using assms by (metis simulates_def prod.collapse fst_conv snd_conv)

lemma kube_conformsD:
  assumes "kube_conforms C \<alpha> merge"
  shows "simulates (kc_read C kd n ns) \<alpha> (kube_read kd n ns)" "simulates (kc_create C kd ns body) \<alpha> (kube_create kd ns body)"
    "simulates (kc_patch C kd n ns body) \<alpha> (kube_patch merge kd n ns body)"
    "simulates (kc_delete C kd n ns) \<alpha> (kube_delete kd n ns)"
  using assms by (simp_all add: kube_conforms_def)

text \<open>What becomes of an entry: absent when nothing is desired, created, or patched.\<close>

fun outcome :: "(manifest \<Rightarrow> manifest \<Rightarrow> manifest) \<Rightarrow> manifest option \<Rightarrow> manifest option \<Rightarrow> manifest option" where
  "outcome merge old None = None"
| "outcome merge None (Some d) = Some d"
| "outcome merge (Some x) (Some d) = Some (merge x d)"

lemma put_other [simp]: "kd' \<noteq> kd \<or> key' \<noteq> key \<Longrightarrow> put kd key v cl kd' key' = cl kd' key'"
  by (auto simp: put_def)

lemma put_same [simp]: "put kd key v cl kd key = v"
  by (simp add: put_def)

lemma put_id [simp]: "cl kd key = v \<Longrightarrow> put kd key v cl = cl"
  by (auto simp: put_def)

lemma create_or_patch_run:
  assumes "kube_conforms C \<alpha> merge" "om_name (meta_of d) = n"
  obtains k' where "create_or_patch (ops_for C kd) n ns (Some d) k = (Inr (), k')"
    "\<alpha> k' = put kd (ns, n) (outcome merge (\<alpha> k kd (ns, n)) (Some d)) (\<alpha> k)"
proof (cases "\<alpha> k kd (ns, n)")
  case None
  obtain k1 where r: "kc_read C kd n ns k = (Inl (ApiException 404), k1)" "\<alpha> k1 = \<alpha> k"
    using simulatesD [OF kube_conformsD(1) [OF assms(1)], of kd n ns k "Inl (ApiException 404)" "\<alpha> k"] None
    by (auto simp: kube_read_def)
  obtain k2 where c: "kc_create C kd ns (Some d) k1 = (Inr (), k2)" "\<alpha> k2 = put kd (ns, n) (Some d) (\<alpha> k)"
    using simulatesD [OF kube_conformsD(2) [OF assms(1)], of kd ns "Some d" k1 "Inr ()" "put kd (ns, n) (Some d) (\<alpha> k)"]
      None r(2) assms(2) by (auto simp: kube_create_def)
  show ?thesis by (rule that [of k2]) (simp_all add: create_or_patch_def ops_for_def tryM_def thenM_def bindM_def r c None)
next
  case (Some x)
  obtain k1 where r: "kc_read C kd n ns k = (Inr (), k1)" "\<alpha> k1 = \<alpha> k"
    using simulatesD [OF kube_conformsD(1) [OF assms(1)], of kd n ns k "Inr ()" "\<alpha> k"] Some by (auto simp: kube_read_def)
  obtain k2 where c: "kc_patch C kd n ns (Some d) k1 = (Inr (), k2)" "\<alpha> k2 = put kd (ns, n) (Some (merge x d)) (\<alpha> k)"
    using simulatesD [OF kube_conformsD(3) [OF assms(1)], of kd n ns "Some d" k1 "Inr ()" "put kd (ns, n) (Some (merge x d)) (\<alpha> k)"]
      Some r(2) by (auto simp: kube_patch_def)
  show ?thesis by (rule that [of k2]) (simp_all add: create_or_patch_def ops_for_def tryM_def thenM_def bindM_def r c Some)
qed

lemma delete_if_exists_run:
  assumes "kube_conforms C \<alpha> merge"
  obtains k' where "delete_if_exists (ops_for C kd) n ns k = (Inr (), k')" "\<alpha> k' = put kd (ns, n) None (\<alpha> k)"
proof (cases "\<alpha> k kd (ns, n)")
  case None
  obtain k1 where r: "kc_delete C kd n ns k = (Inl (ApiException 404), k1)" "\<alpha> k1 = \<alpha> k"
    using simulatesD [OF kube_conformsD(4) [OF assms], of kd n ns k "Inl (ApiException 404)" "\<alpha> k"] None
    by (auto simp: kube_delete_def)
  show ?thesis by (rule that [of k1]) (simp_all add: delete_if_exists_def ops_for_def tryM_def r None)
next
  case (Some x)
  obtain k1 where r: "kc_delete C kd n ns k = (Inr (), k1)" "\<alpha> k1 = put kd (ns, n) None (\<alpha> k)"
    using simulatesD [OF kube_conformsD(4) [OF assms], of kd n ns k "Inr ()" "put kd (ns, n) None (\<alpha> k)"] Some
    by (auto simp: kube_delete_def)
  show ?thesis by (rule that [of k1]) (simp_all add: delete_if_exists_def ops_for_def tryM_def r)
qed

lemma reconcile_optional_run:
  assumes "kube_conforms C \<alpha> merge" "\<And>d. adopt d = Some (own d)" "\<And>d. meta_of (own d) = meta_of d"
    and "\<And>d. desired = Some d \<Longrightarrow> om_name (meta_of d) = n"
  obtains k' where "reconcile_optional adopt (ops_for C kd) n ns desired k = (Inr (), k')"
    "\<alpha> k' = put kd (ns, n) (outcome merge (\<alpha> k kd (ns, n)) (map_option own desired)) (\<alpha> k)"
proof (cases desired)
  case None
  obtain k' where "delete_if_exists (ops_for C kd) n ns k = (Inr (), k')" "\<alpha> k' = put kd (ns, n) None (\<alpha> k)"
    by (rule delete_if_exists_run [OF assms(1)])
  then show ?thesis using None by (intro that [of k']) (simp_all add: reconcile_optional_def)
next
  case (Some d)
  then have "om_name (meta_of (own d)) = n" using assms(3,4) by simp
  then obtain k' where "create_or_patch (ops_for C kd) n ns (Some (own d)) k = (Inr (), k')"
    "\<alpha> k' = put kd (ns, n) (outcome merge (\<alpha> k kd (ns, n)) (Some (own d))) (\<alpha> k)"
    by (rule create_or_patch_run [OF assms(1)])
  then show ?thesis using Some assms(2) by (intro that [of k']) (simp_all add: reconcile_optional_def)
qed

text \<open>The four children that a specification asks for.\<close>

definition desired_children ::
  "(json \<Rightarrow> string) \<Rightarrow> crd_spec \<Rightarrow> string \<Rightarrow> string \<Rightarrow> exn + (kind \<Rightarrow> manifest option)" where
  "desired_children repr spec name namespace =
     (case build_deployment repr name namespace spec of Inl e \<Rightarrow> Inl e
      | Inr d \<Rightarrow> (case build_hpa name namespace spec of Inl e \<Rightarrow> Inl e
          | Inr h \<Rightarrow> (case build_pdb name namespace spec of Inl e \<Rightarrow> Inl e
              | Inr p \<Rightarrow> Inr (\<lambda>kd. case kd of Deployments \<Rightarrow> Some d | Services \<Rightarrow> Some (build_service name namespace spec)
                  | Autoscalers \<Rightarrow> h | Disruption_budgets \<Rightarrow> p))))"

lemma built_names:
  "build_deployment repr n ns spec = Inr d \<Longrightarrow> meta_of d = child_meta n ns"
  "meta_of (build_service n ns spec) = child_meta n ns"
  "build_hpa n ns spec = Inr (Some h) \<Longrightarrow> meta_of h = child_meta n ns"
  "build_pdb n ns spec = Inr (Some p) \<Longrightarrow> meta_of p = child_meta n ns"
  by (auto simp: build_deployment_def build_service_def build_hpa_def build_pdb_def Let_def split: sum.splits json.splits if_splits)

definition reconciled ::
  "(manifest \<Rightarrow> manifest \<Rightarrow> manifest) \<Rightarrow> (manifest \<Rightarrow> manifest) \<Rightarrow> (kind \<Rightarrow> manifest option) \<Rightarrow> string \<times> string \<Rightarrow> cluster \<Rightarrow> cluster" where
  "reconciled merge own desired key cl =
     (\<lambda>kd. (cl kd)(key := outcome merge (cl kd key) (map_option own (desired kd))))"

lemma reconcile_run:
  assumes "kube_conforms C \<alpha> merge" "\<And>d. adopt d = Some (own d)" "\<And>d. meta_of (own d) = meta_of d"
    and "desired_children repr spec n ns = Inr desired"
  obtains k' where "reconcile C adopt repr spec n ns k = (Inr (), k')" "\<alpha> k' = reconciled merge own desired (ns, n) (\<alpha> k)"
proof -
  let ?s = "build_service n ns spec"
  obtain d h p where b: "build_deployment repr n ns spec = Inr d" "build_hpa n ns spec = Inr h" "build_pdb n ns spec = Inr p"
    and desired: "desired = (\<lambda>kd. case kd of Deployments \<Rightarrow> Some d | Services \<Rightarrow> Some ?s | Autoscalers \<Rightarrow> h | Disruption_budgets \<Rightarrow> p)"
    using assms(4) by (auto simp: desired_children_def split: sum.splits)
  have names: "om_name (meta_of (own d)) = n" "om_name (meta_of (own ?s)) = n"
    "\<And>x. h = Some x \<Longrightarrow> om_name (meta_of x) = n" "\<And>x. p = Some x \<Longrightarrow> om_name (meta_of x) = n"
    using built_names b assms(3) by (auto simp: child_meta_def)
  obtain k1 where k1: "create_or_patch (ops_for C Deployments) n ns (Some (own d)) k = (Inr (), k1)"
    "\<alpha> k1 = put Deployments (ns, n) (outcome merge (\<alpha> k Deployments (ns, n)) (Some (own d))) (\<alpha> k)"
    by (rule create_or_patch_run [OF assms(1) names(1)])
  obtain k2 where k2: "create_or_patch (ops_for C Services) n ns (Some (own ?s)) k1 = (Inr (), k2)"
    "\<alpha> k2 = put Services (ns, n) (outcome merge (\<alpha> k1 Services (ns, n)) (Some (own ?s))) (\<alpha> k1)"
    by (rule create_or_patch_run [OF assms(1) names(2)])
  obtain k3 where k3: "reconcile_optional adopt (ops_for C Autoscalers) n ns h k2 = (Inr (), k3)"
    "\<alpha> k3 = put Autoscalers (ns, n) (outcome merge (\<alpha> k2 Autoscalers (ns, n)) (map_option own h)) (\<alpha> k2)"
    by (rule reconcile_optional_run [OF assms(1-3) names(3)])
  obtain k4 where k4: "reconcile_optional adopt (ops_for C Disruption_budgets) n ns p k3 = (Inr (), k4)"
    "\<alpha> k4 = put Disruption_budgets (ns, n) (outcome merge (\<alpha> k3 Disruption_budgets (ns, n)) (map_option own p)) (\<alpha> k3)"
    by (rule reconcile_optional_run [OF assms(1-3) names(4)])
  have "reconcile C adopt repr spec n ns k = (Inr (), k4)"
    by (simp add: reconcile_def b thenM_def assms(2) k1(1) k2(1) k3(1) k4(1))
  moreover have "\<alpha> k4 kd = reconciled merge own desired (ns, n) (\<alpha> k) kd" for kd
    by (cases kd) (auto simp: k4(2) k3(2) k2(2) k1(2) reconciled_def desired put_def)
  ultimately show ?thesis by (intro that [of k4]) auto
qed

section \<open>Theorems\<close>

lemma reconciled_again:
  assumes "\<And>x d. merge d d = d \<and> merge (merge x d) d = merge x d"
  shows "reconciled merge own desired key (reconciled merge own desired key cl) = reconciled merge own desired key cl"
proof -
  have "outcome merge (outcome merge old v) v = outcome merge old v" for old v
    by (cases v; cases old) (use assms in auto)
  then show ?thesis by (auto simp: reconciled_def)
qed

text \<open>What the code means to do. If \<^verbatim>\<open>kopf.adopt\<close> returned the manifest, reconciliation would do what the custom resource
  asks for (it returns nothing: see \<open>adopted_manifest_lost\<close> for what happens). On every state of the
  cluster it returns; exactly the four children of the resource change: each one that is desired exists, created or
  patched, and each one that is not is gone. Running it again changes nothing more.\<close>

theorem reconcile_converges:
  assumes "kube_conforms C \<alpha> merge" "\<forall>d. adopt d = Some (own d) \<and> meta_of (own d) = meta_of d"
    and "\<forall>x d. merge d d = d \<and> merge (merge x d) d = merge x d"
    and "desired_children repr spec n ns = Inr desired"
  shows "\<exists>k' k''. reconcile C adopt repr spec n ns k = (Inr (), k') \<and> reconcile C adopt repr spec n ns k' = (Inr (), k'') \<and>
    \<alpha> k'' = \<alpha> k' \<and>
    (\<forall>kd key. \<alpha> k' kd key =
      (if key = (ns, n) then outcome merge (\<alpha> k kd key) (map_option own (desired kd)) else \<alpha> k kd key))"
proof -
  have ad: "\<And>d. adopt d = Some (own d)" "\<And>d. meta_of (own d) = meta_of d" using assms(2) by auto
  obtain k' where k': "reconcile C adopt repr spec n ns k = (Inr (), k')" "\<alpha> k' = reconciled merge own desired (ns, n) (\<alpha> k)"
    by (rule reconcile_run [OF assms(1) ad assms(4)])
  obtain k'' where k'': "reconcile C adopt repr spec n ns k' = (Inr (), k'')" "\<alpha> k'' = reconciled merge own desired (ns, n) (\<alpha> k')"
    by (rule reconcile_run [OF assms(1) ad assms(4)])
  have "\<alpha> k'' = \<alpha> k'" using assms(3) by (simp add: k''(2) k'(2) reconciled_again)
  moreover have "\<alpha> k' kd key = (if key = (ns, n) then outcome merge (\<alpha> k kd key) (map_option own (desired kd)) else \<alpha> k kd key)"
    for kd key by (simp add: k'(2) reconciled_def)
  ultimately show ?thesis using k'(1) k''(1) by blast
qed

definition sample_crd :: crd_spec where
  "sample_crd = [(''image'', JStr ''app:1''), (''autoscaling'', JObj [(''enabled'', JBool True)])]"

theorem reconcile_converges_witness:
  "\<exists>k'. reconcile (documented_client (\<lambda>x d. d)) Some (\<lambda>_. []) sample_crd ''web'' ''prod'' (\<lambda>_ _. None) = (Inr (), k') \<and>
     k' Deployments (''prod'', ''web'') \<noteq> None \<and> k' Disruption_budgets (''prod'', ''web'') = None"
proof -
  obtain desired where d: "desired_children (\<lambda>_. []) sample_crd ''web'' ''prod'' = Inr desired"
    "desired Deployments \<noteq> None" "desired Disruption_budgets = None"
    by (simp add: desired_children_def sample_crd_def build_deployment_def build_hpa_def build_pdb_def subscript_def
        env_vars_def resources_def jget_def jget_default_def Let_def)
  then show ?thesis
    using reconcile_converges [OF documented_client_conforms [of "\<lambda>x d. d"], of Some id "\<lambda>_. []" sample_crd "''web''" "''prod''"
        desired "\<lambda>_ _. None"]
    by (cases "desired Deployments") auto
qed

text \<open>The code passes on what \<^verbatim>\<open>kopf.adopt\<close> returns, and that function returns nothing. Then every reconciliation fails at
  the deployment and leaves the cluster as it was, whatever the resource asks for.\<close>

theorem adopted_manifest_lost:
  assumes "kube_conforms C \<alpha> merge" "\<forall>d. adopt d = None"
  shows "\<exists>e k'. reconcile C adopt repr spec n ns k = (Inl e, k') \<and> \<alpha> k' = \<alpha> k"
proof (cases "build_deployment repr n ns spec")
  case (Inr d)
  let ?e = "ValueError ''Missing the required parameter body''"
  have "\<exists>k'. create_or_patch (ops_for C Deployments) n ns None k = (Inl ?e, k') \<and> \<alpha> k' = \<alpha> k"
  proof (cases "\<alpha> k Deployments (ns, n)")
    case None
    obtain k1 where r: "kc_read C Deployments n ns k = (Inl (ApiException 404), k1)" "\<alpha> k1 = \<alpha> k"
      using simulatesD [OF kube_conformsD(1) [OF assms(1)], of Deployments n ns k "Inl (ApiException 404)" "\<alpha> k"] None
      by (auto simp: kube_read_def)
    obtain k2 where "kc_create C Deployments ns None k1 = (Inl ?e, k2)" "\<alpha> k2 = \<alpha> k"
      using simulatesD [OF kube_conformsD(2) [OF assms(1)], of Deployments ns None k1 "Inl ?e" "\<alpha> k"] r(2)
      by (auto simp: kube_create_def)
    with r(1) show ?thesis by (simp add: create_or_patch_def ops_for_def tryM_def thenM_def bindM_def)
  next
    case (Some x)
    obtain k1 where r: "kc_read C Deployments n ns k = (Inr (), k1)" "\<alpha> k1 = \<alpha> k"
      using simulatesD [OF kube_conformsD(1) [OF assms(1)], of Deployments n ns k "Inr ()" "\<alpha> k"] Some
      by (auto simp: kube_read_def)
    obtain k2 where "kc_patch C Deployments n ns None k1 = (Inl ?e, k2)" "\<alpha> k2 = \<alpha> k"
      using simulatesD [OF kube_conformsD(3) [OF assms(1)], of Deployments n ns None k1 "Inl ?e" "\<alpha> k"] r(2)
      by (auto simp: kube_patch_def)
    with r(1) show ?thesis by (simp add: create_or_patch_def ops_for_def tryM_def thenM_def bindM_def)
  qed
  then obtain k' where "create_or_patch (ops_for C Deployments) n ns None k = (Inl ?e, k')" "\<alpha> k' = \<alpha> k" by blast
  then show ?thesis using Inr assms(2) by (simp add: reconcile_def thenM_def bindM_def)
qed (simp add: reconcile_def bindM_def)

theorem adopted_manifest_lost_witness:
  "\<exists>e k'. reconcile (documented_client (\<lambda>x d. d)) (\<lambda>_. None) (\<lambda>_. []) sample_crd ''web'' ''prod'' (\<lambda>_ _. None) = (Inl e, k') \<and>
     k' = (\<lambda>_ _. None)"
  using adopted_manifest_lost [OF documented_client_conforms [of "\<lambda>x d. d"], of "\<lambda>_. None" "\<lambda>_. []" sample_crd "''web''" "''prod''"
      "\<lambda>_ _. None"] by auto

end
