(* ===== verification/Backup.thy ===== *)
theory Backup
  imports Config "HOL-Library.Sublist"
begin

text \<open>
  \<^verbatim>\<open>app/tasks/backup.py\<close>: database dumps in object storage, their retention, and restoring one.

  The object store is a client over a state \<open>'s\<close>; \<open>object_store_ok\<close> states its documented behaviour on a map from keys to
  contents. \<^verbatim>\<open>urlparse\<close>, percent-decoding, gzip and the processes \<^verbatim>\<open>pg_dump\<close> and \<^verbatim>\<open>pg_restore\<close> are arguments; a process
  takes its command line and its input, and may time out. The pages of a listing are fetched up front: deleting objects
  of one page does not change the later pages.
\<close>

section \<open>Connection parameters\<close>

record url_parts =
  url_hostname :: "string option"
  url_port :: "int option"
  url_username :: "string option"
  url_password :: "string option"
  url_path :: string

record db_components =
  dbc_host :: string
  dbc_port :: string
  dbc_user :: string
  dbc_password :: string
  dbc_dbname :: string

definition or_text :: "string option \<Rightarrow> string \<Rightarrow> string" where
  "or_text v d = (case v of None \<Rightarrow> d | Some s \<Rightarrow> if s = [] then d else s)"

definition parse_sync_url :: "(string \<Rightarrow> string) \<Rightarrow> url_parts \<Rightarrow> db_components" where
  "parse_sync_url unquote url =
     \<lparr>dbc_host = or_text (url_hostname url) ''localhost'',
      dbc_port = show_int (case url_port url of None \<Rightarrow> 5432 | Some p \<Rightarrow> if p = 0 then 5432 else p),
      dbc_user = unquote (or_text (url_username url) ''postgres''),
      dbc_password = unquote (or_text (url_password url) []),
      dbc_dbname = unquote (or_text (Some (dropWhile (\<lambda>c. c = CHR ''/'') (url_path url))) ''postgres'')\<rparr>"

definition make_sync_url :: "db_components \<Rightarrow> string" where
  "make_sync_url c = ''postgresql://'' @ dbc_user c @ '':'' @ dbc_password c @ ''@'' @ dbc_host c @ '':'' @ dbc_port c @ ''/'' @
     dbc_dbname c"

section \<open>Keys\<close>

definition rstrip_slash :: "string \<Rightarrow> string" where
  "rstrip_slash s = rev (dropWhile (\<lambda>c. c = CHR ''/'') (rev s))"

text \<open>Year, month, day, hour, minute and second of an instant; \<open>ts.strftime("%Y-%m-%dT%H-%M-%S")\<close>, in which the C library
  does not pad the year.\<close>

definition date_fields :: "datetime \<Rightarrow> int \<times> int \<times> int \<times> int \<times> int \<times> int" where
  "date_fields d =
     (let y = dt_year d;
          (m, dd) = month_day (month_lengths y) 1 (dt_ordinal d - days_before_year y);
          t = d mod 86400000000
      in (y, m, dd, t div 3600000000, t div 60000000 mod 60, t div 1000000 mod 60))"

definition key_stamp :: "datetime \<Rightarrow> string" where
  "key_stamp ts =
     (case date_fields ts of (y, m, d, hh, mm, ss) \<Rightarrow>
        show_int y @ ''-'' @ pad_int 2 m @ ''-'' @ pad_int 2 d @ ''T'' @ pad_int 2 hh @ ''-'' @ pad_int 2 mm @ ''-'' @ pad_int 2 ss)"

definition key_prefix_of :: "platform_settings \<Rightarrow> string \<Rightarrow> string" where
  "key_prefix_of P db_name = rstrip_slash (BACKUP_S3_PREFIX P) @ ''/'' @ db_name @ ''/''"

definition backup_key :: "platform_settings \<Rightarrow> string \<Rightarrow> datetime \<Rightarrow> string" where
  "backup_key P db_name ts = key_prefix_of P db_name @ key_stamp ts @ ''.dump.gz''"

text \<open>A template of a regular expression: \<^verbatim>\<open>d\<close> stands for a digit, other characters for themselves.\<close>

fun matches_template :: "string \<Rightarrow> string \<Rightarrow> bool" where
  "matches_template [] [] = True"
| "matches_template (t # ts) (c # cs) = ((if t = CHR ''d'' then is_digit c else c = t) \<and> matches_template ts cs)"
| "matches_template _ _ = False"

definition number_at :: "nat \<Rightarrow> nat \<Rightarrow> string \<Rightarrow> int" where
  "number_at i n s = int (digits_val (take n (drop i s)))"

definition date_valid :: "int \<times> int \<times> int \<times> int \<times> int \<times> int \<Rightarrow> bool" where
  "date_valid f =
     (case f of (y, m, d, hh, mm, ss) \<Rightarrow>
        1 \<le> y \<and> y \<le> 9999 \<and> 1 \<le> m \<and> m \<le> 12 \<and> 1 \<le> d \<and> d \<le> month_lengths y ! nat (m - 1) \<and>
        0 \<le> hh \<and> hh < 24 \<and> 0 \<le> mm \<and> mm < 60 \<and> 0 \<le> ss \<and> ss < 60)"

definition make_datetime :: "int \<times> int \<times> int \<times> int \<times> int \<times> int \<Rightarrow> datetime" where
  "make_datetime f =
     (case f of (y, m, d, hh, mm, ss) \<Rightarrow>
        (days_before_year y + sum_list (take (nat (m - 1)) (month_lengths y)) + d - 719163) * 86400000000 +
        hh * 3600000000 + mm * 60000000 + ss * 1000000)"

text \<open>\<^verbatim>\<open>$\<close> also matches before a newline at the end. The pattern has a fixed length, so the match is at the end.\<close>

definition extract_key_timestamp :: "string \<Rightarrow> datetime option" where
  "extract_key_timestamp key =
     (let s = (if key \<noteq> [] \<and> last key = CHR 0x0A then butlast key else key);
          m = drop (length s - 27) s; stamp = take 19 m;
          f = (number_at 0 4 stamp, number_at 5 2 stamp, number_at 8 2 stamp, number_at 11 2 stamp,
               number_at 14 2 stamp, number_at 17 2 stamp)
      in if length s \<ge> 27 \<and> matches_template ''dddd-dd-ddTdd-dd-dd'' stamp \<and> drop 19 m = ''.dump.gz'' \<and> date_valid f
         then Some (make_datetime f) else None)"

section \<open>Tasks\<close>

record 's object_store =
  os_put_object :: "string \<Rightarrow> string \<Rightarrow> ('s, unit) io"
  os_list_pages :: "string \<Rightarrow> ('s, string list list) io"
  os_delete_object :: "string \<Rightarrow> ('s, unit) io"
  os_get_object :: "string \<Rightarrow> ('s, string) io"

record process_result =
  prc_returncode :: int
  prc_stdout :: string
  prc_stderr :: string

type_synonym process = "string list \<Rightarrow> string \<Rightarrow> exn + process_result"

record backup_report =
  bkr_key :: string
  bkr_bytes_raw :: int
  bkr_bytes_compressed :: int

text \<open>The duration in the report is left out.\<close>

definition backup_database ::
  "'s object_store \<Rightarrow> platform_settings \<Rightarrow> process \<Rightarrow> (string \<Rightarrow> string) \<Rightarrow> db_components \<Rightarrow> datetime
    \<Rightarrow> ('s, backup_report) io" where
  "backup_database C P run gzip comps now =
     (let key = backup_key P (dbc_dbname comps) now
      in bindM (liftM (run [''pg_dump'', ''-Fc'', ''--no-owner'', ''--no-privileges'', make_sync_url comps] [])) (\<lambda>result.
         thenM (guardM (prc_returncode result = 0) (RuntimeError ''pg_dump failed''))
         (let compressed = gzip (prc_stdout result)
          in thenM (os_put_object C key compressed)
               (returnM \<lparr>bkr_key = key, bkr_bytes_raw = int (length (prc_stdout result)),
                         bkr_bytes_compressed = int (length compressed)\<rparr>))))"

definition expired_key :: "datetime \<Rightarrow> string \<Rightarrow> bool" where
  "expired_key cutoff key = (case extract_key_timestamp key of None \<Rightarrow> False | Some ts \<Rightarrow> ts < cutoff)"

fun delete_expired :: "'s object_store \<Rightarrow> datetime \<Rightarrow> string list \<Rightarrow> string list \<Rightarrow> ('s, string list) io" where
  "delete_expired C cutoff [] deleted = returnM deleted"
| "delete_expired C cutoff (key # keys) deleted =
     (if expired_key cutoff key
      then thenM (os_delete_object C key) (delete_expired C cutoff keys (deleted @ [key]))
      else delete_expired C cutoff keys deleted)"

definition cleanup_old_backups ::
  "'s object_store \<Rightarrow> platform_settings \<Rightarrow> db_components \<Rightarrow> datetime \<Rightarrow> ('s, int \<times> string list) io" where
  "cleanup_old_backups C P comps now =
     (let cutoff = now - days_td (BACKUP_RETENTION_DAYS P)
      in bindM (os_list_pages C (key_prefix_of P (dbc_dbname comps))) (\<lambda>pages.
         bindM (delete_expired C cutoff (concat pages) []) (\<lambda>deleted. returnM (int (length deleted), deleted))))"

text \<open>The newest candidate; sorting in reverse keeps the order of equal elements.\<close>

definition candidates :: "string list \<Rightarrow> (string \<times> datetime) list" where
  "candidates keys = List.map_filter (\<lambda>k. map_option (\<lambda>ts. (k, ts)) (extract_key_timestamp k)) keys"

definition newest :: "(string \<times> datetime) list \<Rightarrow> string option" where
  "newest cs = (case sort_key (\<lambda>c. - snd c) cs of [] \<Rightarrow> None | c # _ \<Rightarrow> Some (fst c))"

definition find_backup :: "'s object_store \<Rightarrow> platform_settings \<Rightarrow> db_components \<Rightarrow> string option \<Rightarrow> ('s, string) io" where
  "find_backup C P comps key =
     (case key of
        Some k \<Rightarrow> returnM k
      | None \<Rightarrow> bindM (os_list_pages C (key_prefix_of P (dbc_dbname comps))) (\<lambda>pages.
          case newest (candidates (concat pages)) of
            None \<Rightarrow> raiseM (RuntimeError ''No backups found'')
          | Some k \<Rightarrow> returnM k))"

record restore_report =
  rsr_key :: string
  rsr_bytes_restored :: int
  rsr_warnings :: "string option"

definition restore_command :: "db_components \<Rightarrow> string list" where
  "restore_command comps =
     [''pg_restore'', ''--clean'', ''--no-owner'', ''--no-privileges'', ''-d'', dbc_dbname comps, make_sync_url comps]"

definition restore_backup ::
  "'s object_store \<Rightarrow> platform_settings \<Rightarrow> process \<Rightarrow> (string \<Rightarrow> exn + string) \<Rightarrow> db_components \<Rightarrow> string option
    \<Rightarrow> ('s, restore_report) io" where
  "restore_backup C P run gunzip comps key =
     bindM (find_backup C P comps key) (\<lambda>key.
     bindM (os_get_object C key) (\<lambda>compressed.
     bindM (liftM (gunzip compressed)) (\<lambda>dump_data.
     bindM (liftM (run (restore_command comps) dump_data)) (\<lambda>result.
     thenM (guardM (\<not> prc_returncode result > 1) (RuntimeError ''pg_restore failed''))
       (returnM \<lparr>rsr_key = key, rsr_bytes_restored = int (length dump_data),
                 rsr_warnings = (if prc_returncode result = 1 then Some (py_strip (prc_stderr result)) else None)\<rparr>)))))"

section \<open>The calendar\<close>

text \<open>The days before a year grow by the lengths of its months, and a day of the year has its month and day.\<close>

lemma div_pred: "k > 1 \<Longrightarrow> y div k = (y - 1) div k + (if y mod k = 0 then 1 else 0)" for y k :: int
proof -
  assume k: "k > 1"
  define q r where "q = y div k" and "r = y mod k"
  have y: "y = k * q + r" and r: "0 \<le> r" "r < k" using k by (simp_all add: q_def r_def)
  have "(y - 1) div k = (if r = 0 then q - 1 else q)"
    using y r k by (intro int_div_pos_eq [of _ _ _ "if r = 0 then k - 1 else r - 1"]) (auto simp: algebra_simps)
  then show ?thesis by (simp add: q_def [symmetric] r_def [symmetric])
qed

lemma days_before_next_year: "days_before_year (y + 1) = days_before_year y + sum_list (month_lengths y)"
proof -
  have leap: "sum_list (month_lengths y) = 365 + (if y mod 4 = 0 then 1 else 0) - (if y mod 100 = 0 then 1 else 0) +
    (if y mod 400 = 0 then 1 else 0)"
  proof -
    have a: "y mod 4 = 0" if "y mod 100 = 0"
      using that dvd_trans [of 4 100 y] unfolding dvd_eq_mod_eq_0 by (simp only: simp_thms) simp
    have b: "y mod 100 = 0" if "y mod 400 = 0"
      using that dvd_trans [of 100 400 y] unfolding dvd_eq_mod_eq_0 by (simp only: simp_thms) simp
    consider "y mod 400 = 0" "y mod 100 = 0" "y mod 4 = 0" | "y mod 400 \<noteq> 0" "y mod 100 = 0" "y mod 4 = 0"
      | "y mod 400 \<noteq> 0" "y mod 100 \<noteq> 0" "y mod 4 = 0" | "y mod 400 \<noteq> 0" "y mod 100 \<noteq> 0" "y mod 4 \<noteq> 0"
      using a b by metis
    then show ?thesis by cases (simp_all add: month_lengths_def is_leap_def)
  qed
  have "y + 1 - 1 = y" by simp
  then have "days_before_year (y + 1) = y * 365 + y div 4 - y div 100 + y div 400" by (simp only: days_before_year_def)
  also have "\<dots> = days_before_year y + sum_list (month_lengths y)"
  proof -
    have "y div 4 = (y - 1) div 4 + (if y mod 4 = 0 then 1 else 0)" "y div 100 = (y - 1) div 100 + (if y mod 100 = 0 then 1 else 0)"
      "y div 400 = (y - 1) div 400 + (if y mod 400 = 0 then 1 else 0)" by (rule div_pred, simp)+
    moreover have "p = p' + x \<Longrightarrow> q = q' + z \<Longrightarrow> r = r' + w \<Longrightarrow>
      y * 365 + p - q + r = (y - 1) * 365 + p' - q' + r' + (365 + x - z + w)" for p p' x q q' z r r' w :: int by simp
    ultimately show ?thesis unfolding leap days_before_year_def by blast
  qed
  finally show ?thesis .
qed

lemma month_day_bounds:
  assumes "1 \<le> n" "n \<le> sum_list ls"
  obtains k d where "month_day ls m n = (m + int k, d)" "k < length ls" "1 \<le> d" "d \<le> ls ! k" "n = sum_list (take k ls) + d"
  using assms
proof (induction ls arbitrary: m n thesis)
  case (Cons l ls)
  show ?case
  proof (cases "n \<le> l")
    case True
    then show ?thesis using Cons.prems by (intro Cons.prems(1) [of 0 n]) auto
  next
    case False
    then have "1 \<le> n - l" "n - l \<le> sum_list ls" using Cons.prems by auto
    then obtain k d where "month_day ls (m + 1) (n - l) = (m + 1 + int k, d)" "k < length ls" "1 \<le> d" "d \<le> ls ! k"
      "n - l = sum_list (take k ls) + d" by (rule Cons.IH [rotated])
    then show ?thesis using False by (intro Cons.prems(1) [of "Suc k" d]) auto
  qed
qed simp

lemma date_fields_valid:
  assumes "1 \<le> dt_year ts" "dt_year ts \<le> 9999"
  shows "date_valid (date_fields ts) \<and> fst (date_fields ts) = dt_year ts \<and> make_datetime (date_fields ts) = ts - ts mod 1000000"
proof -
  define y n t where "y = dt_year ts" and "n = dt_ordinal ts - days_before_year y" and "t = ts mod 86400000000"
  have n: "1 \<le> n" "n \<le> sum_list (month_lengths y)"
    using ord_year_bounds [of "dt_ordinal ts"] days_before_next_year [of y] by (simp_all add: n_def y_def dt_year_def)
  obtain k d where md: "month_day (month_lengths y) 1 n = (1 + int k, d)" "k < length (month_lengths y)" "1 \<le> d"
    "d \<le> month_lengths y ! k" "n = sum_list (take k (month_lengths y)) + d"
    by (rule month_day_bounds [OF n])
  have k: "k < 12" using md(2) by (simp add: month_lengths_def)
  have f: "date_fields ts = (y, 1 + int k, d, t div 3600000000, t div 60000000 mod 60, t div 1000000 mod 60)"
    using md(1) by (simp add: date_fields_def Let_def y_def n_def t_def)
  have t: "0 \<le> t" "t < 86400000000" by (simp_all add: t_def)
  then have h: "0 \<le> t div 3600000000" "t div 3600000000 < 24" by auto
  have hms: "t div 3600000000 * 3600000000 + t div 60000000 mod 60 * 60000000 + t div 1000000 mod 60 * 1000000 = t - t mod 1000000"
  proof -
    have "t div 3600000000 = t div 60000000 div 60" "t div 60000000 = t div 1000000 div 60"
      by (simp_all add: zdiv_zmult2_eq [symmetric])
    moreover have "t div 1000000 * 1000000 = t - t mod 1000000" by (simp add: minus_mod_eq_div_mult)
    moreover have "a div 60 div 60 * 3600000000 + a div 60 mod 60 * 60000000 + a mod 60 * 1000000 = a * 1000000" for a :: int
    proof -
      have "a = a div 60 * 60 + a mod 60" "a div 60 = a div 60 div 60 * 60 + a div 60 mod 60" by simp_all
      then show ?thesis by linarith
    qed
    ultimately show ?thesis by (simp only:)
  qed
  have day: "days_before_year y + sum_list (take k (month_lengths y)) + d - 719163 = ts div 86400000000"
    using md(5) by (simp add: n_def dt_ordinal_def)
  have "t mod 1000000 = ts mod 1000000" 
    using mod_mod_cancel [of 1000000 86400000000 ts] by (simp add: t_def)
  moreover have "ts = ts div 86400000000 * 86400000000 + t" by (simp add: t_def)
  ultimately have "make_datetime (date_fields ts) = ts - ts mod 1000000"
    using hms by (simp only: f make_datetime_def prod.case nat_int add_diff_cancel_left' day)
  moreover have "date_valid (date_fields ts)"
    using assms h k md(3,4) by (simp add: f date_valid_def y_def)
  moreover have "fst (date_fields ts) = dt_year ts" by (simp add: f y_def)
  ultimately show ?thesis by blast
qed

section \<open>A key and its time\<close>

lemma pad_int_2:
  assumes "0 \<le> i" "i < 100"
  obtains a b where "pad_int 2 i = [a, b]" "is_digit a" "is_digit b" "int (digits_val [a, b]) = i"
proof -
  define n where "n = nat i"
  have n: "n < 100" "i = int n" using assms by (auto simp: n_def)
  show ?thesis
  proof (cases "n < 10")
    case True
    then show ?thesis using n
      by (intro that [of "CHR ''0''" "digit_char n"]) 
        (simp_all add: pad_int_def pad_left_def show_nat.simps [of n] digits_val_def is_digit_def digit_val_def numeral_2_eq_2)
  next
    case False
    then have "n div 10 < 10" "n mod 10 < 10" using n by auto
    then show ?thesis using n False
      by (intro that [of "digit_char (n div 10)" "digit_char (n mod 10)"])
        (simp_all add: pad_int_def pad_left_def show_nat.simps [of n] show_nat.simps [of "n div 10"] digits_val_def)
  qed
qed

lemma show_int_4:
  assumes "1000 \<le> i" "i \<le> 9999"
  obtains a b c d where "show_int i = [a, b, c, d]" "is_digit a" "is_digit b" "is_digit c" "is_digit d"
    "int (digits_val [a, b, c, d]) = i"
proof -
  define n where "n = nat i"
  have n: "1000 \<le> n" "n < 10000" "i = int n" using assms by (auto simp: n_def)
  have "n div 10 div 10 div 10 < 10" using n by auto
  have s: "show_nat n = map digit_char [n div 1000, n div 100 mod 10, n div 10 mod 10, n mod 10]"
  proof -
    have "show_nat n = show_nat (n div 10) @ [digit_char (n mod 10)]" using n by (simp add: show_nat.simps [of n])
    also have "show_nat (n div 10) = show_nat (n div 100) @ [digit_char (n div 10 mod 10)]"
      using n by (simp add: show_nat.simps [of "n div 10"] div_mult2_eq [symmetric])
    also have "show_nat (n div 100) = show_nat (n div 1000) @ [digit_char (n div 100 mod 10)]"
      using n by (simp add: show_nat.simps [of "n div 100"] div_mult2_eq [symmetric])
    also have "show_nat (n div 1000) = [digit_char (n div 1000)]" using n by (simp add: show_nat.simps [of "n div 1000"])
    finally show ?thesis by simp
  qed
  have d: "n div 1000 < 10" "n div 100 mod 10 < 10" "n div 10 mod 10 < 10" "n mod 10 < 10" using n by auto
  have "digits_val (show_nat n) = n" by simp
  then show ?thesis using n d unfolding s
    by (intro that [of "digit_char (n div 1000)" "digit_char (n div 100 mod 10)" "digit_char (n div 10 mod 10)" "digit_char (n mod 10)"])
      (simp_all add: show_int_def s)
qed

lemma key_roundtrip:
  assumes "1000 \<le> dt_year ts" "dt_year ts \<le> 9999"
  shows "extract_key_timestamp (backup_key P db_name ts) = Some (ts - ts mod 1000000)"
proof -
  obtain y m d hh mm ss where f: "date_fields ts = (y, m, d, hh, mm, ss)" by (cases "date_fields ts")
  have v: "date_valid (y, m, d, hh, mm, ss)" "y = dt_year ts" "make_datetime (y, m, d, hh, mm, ss) = ts - ts mod 1000000"
    using date_fields_valid [of ts] assms by (auto simp: f)
  have d31: "d < 100"
  proof -
    have "month_lengths y ! k \<le> 31" if "k < 12" for k
      using that by (auto simp: month_lengths_def numeral_eq_Suc less_Suc_eq)
    moreover have "nat (m - 1) < 12" using v(1) by (auto simp: date_valid_def)
    ultimately have "month_lengths y ! nat (m - 1) \<le> 31" by blast
    then show ?thesis using v(1) by (simp add: date_valid_def)
  qed
  obtain y3 y2 y1 y0 where Y: "show_int y = [y3, y2, y1, y0]" "is_digit y3" "is_digit y2" "is_digit y1" "is_digit y0"
    "int (digits_val [y3, y2, y1, y0]) = y" using show_int_4 [of y] assms v(2) by metis
  obtain m1 m0 where M: "pad_int 2 m = [m1, m0]" "is_digit m1" "is_digit m0" "int (digits_val [m1, m0]) = m"
    using pad_int_2 [of m] v(1) by (auto simp: date_valid_def)
  obtain d1 d0 where D: "pad_int 2 d = [d1, d0]" "is_digit d1" "is_digit d0" "int (digits_val [d1, d0]) = d"
    using pad_int_2 [of d] v(1) d31 by (auto simp: date_valid_def)
  obtain h1 h0 where H: "pad_int 2 hh = [h1, h0]" "is_digit h1" "is_digit h0" "int (digits_val [h1, h0]) = hh"
    using pad_int_2 [of hh] v(1) by (auto simp: date_valid_def)
  obtain n1 n0 where N: "pad_int 2 mm = [n1, n0]" "is_digit n1" "is_digit n0" "int (digits_val [n1, n0]) = mm"
    using pad_int_2 [of mm] v(1) by (auto simp: date_valid_def)
  obtain s1 s0 where S: "pad_int 2 ss = [s1, s0]" "is_digit s1" "is_digit s0" "int (digits_val [s1, s0]) = ss"
    using pad_int_2 [of ss] v(1) by (auto simp: date_valid_def)
  let ?stamp = "[y3, y2, y1, y0, CHR ''-'', m1, m0, CHR ''-'', d1, d0, CHR ''T'', h1, h0, CHR ''-'', n1, n0, CHR ''-'', s1, s0]"
  have st: "key_stamp ts = ?stamp" by (simp add: key_stamp_def f Y M D H N S)
  have fields: "(number_at 0 4 ?stamp, number_at 5 2 ?stamp, number_at 8 2 ?stamp, number_at 11 2 ?stamp,
      number_at 14 2 ?stamp, number_at 17 2 ?stamp) = (y, m, d, hh, mm, ss)"
    using Y(6) M(4) D(4) H(4) N(4) S(4) by (simp add: number_at_def)
  have mt: "matches_template ''dddd-dd-ddTdd-dd-dd'' ?stamp"
    using Y M D H N S by simp
  have key: "backup_key P db_name ts = key_prefix_of P db_name @ ?stamp @ ''.dump.gz''"
    by (simp add: backup_key_def st)
  have l: "last (backup_key P db_name ts) = CHR ''z''" by (simp add: key)
  show ?thesis
    unfolding extract_key_timestamp_def Let_def l
    using mt v by (simp add: key fields)
qed

text \<open>C38: The time in the key of a backup is the time at which it was made, cut to the second, so that the clean-up and the
  restoration read back what the backup wrote; in the years that the C library prints with four digits.\<close>

theorem backup_key_roundtrip:
  assumes "1000 \<le> dt_year ts" "dt_year ts \<le> 9999"
  shows "extract_key_timestamp (backup_key P db_name ts) = Some (ts - ts mod 1000000)"
  using assms by (rule key_roundtrip)

theorem backup_key_roundtrip_witness:
  "extract_key_timestamp (backup_key default_platform ''app'' 951782400123456) = Some 951782400000000"
  using backup_key_roundtrip [of 951782400123456 default_platform "''app''"]
  by (simp add: dt_year_def dt_ordinal_def ord_year_def Let_def)

section \<open>Retention and restoration\<close>

text \<open>The documented behaviour of object storage, on the map \<open>\<alpha> s\<close> from keys to contents.\<close>

definition object_store_ok :: "'s object_store \<Rightarrow> ('s \<Rightarrow> string \<Rightarrow> string option) \<Rightarrow> bool" where
  "object_store_ok C \<alpha> \<longleftrightarrow>
     (\<forall>k v s. \<exists>s'. os_put_object C k v s = (Inr (), s') \<and> \<alpha> s' = (\<alpha> s)(k \<mapsto> v)) \<and>
     (\<forall>k s. \<exists>s'. os_delete_object C k s = (Inr (), s') \<and> \<alpha> s' = (\<alpha> s)(k := None)) \<and>
     (\<forall>k v s. \<alpha> s k = Some v \<longrightarrow> (\<exists>s'. os_get_object C k s = (Inr v, s') \<and> \<alpha> s' = \<alpha> s)) \<and>
     (\<forall>p s. \<exists>pages s'. os_list_pages C p s = (Inr pages, s') \<and> \<alpha> s' = \<alpha> s \<and> distinct (concat pages) \<and>
        set (concat pages) = {k \<in> dom (\<alpha> s). prefix p k})"

lemma object_storeE:
  assumes "object_store_ok C \<alpha>"
  obtains (list) pages s' where "os_list_pages C p s = (Inr pages, s')" "\<alpha> s' = \<alpha> s" "distinct (concat pages)"
    "set (concat pages) = {k \<in> dom (\<alpha> s). prefix p k}"
  using assms unfolding object_store_ok_def by metis

lemma delete_expired_run:
  assumes "object_store_ok C \<alpha>"
  shows "\<exists>s'. delete_expired C cutoff keys acc s = (Inr (acc @ filter (expired_key cutoff) keys), s') \<and>
    \<alpha> s' = \<alpha> s |` (- set (filter (expired_key cutoff) keys))"
proof (induction keys arbitrary: acc s)
  case (Cons k keys)
  show ?case
  proof (cases "expired_key cutoff k")
    case True
    obtain s1 where d: "os_delete_object C k s = (Inr (), s1)" "\<alpha> s1 = (\<alpha> s)(k := None)"
      using assms unfolding object_store_ok_def by metis
    obtain s2 where r: "delete_expired C cutoff keys (acc @ [k]) s1 = (Inr ((acc @ [k]) @ filter (expired_key cutoff) keys), s2)"
      "\<alpha> s2 = \<alpha> s1 |` (- set (filter (expired_key cutoff) keys))" using Cons.IH by blast
    have "\<alpha> s2 = \<alpha> s |` (- set (filter (expired_key cutoff) (k # keys)))"
      unfolding r(2) d(2) using True by (auto simp: restrict_map_def)
    then show ?thesis using True d(1) r(1) by (simp add: thenM_def bindM_def)
  qed (use Cons.IH in simp)
qed (simp add: returnM_def restrict_map_def)

text \<open>C37: the clean-up deletes, of this database, exactly the objects whose key carries a time before the cut-off, reports
  them, and leaves every other object alone; a backup made by the task is deleted exactly when its second is older than the
  retention time.\<close>

theorem cleanup_exact:
  assumes "object_store_ok C \<alpha>"
  shows "\<exists>deleted s'. cleanup_old_backups C P comps now s = (Inr (int (length deleted), deleted), s') \<and> distinct deleted \<and>
      set deleted = {k \<in> dom (\<alpha> s). prefix (key_prefix_of P (dbc_dbname comps)) k \<and>
        (\<exists>ts. extract_key_timestamp k = Some ts \<and> ts < now - days_td (BACKUP_RETENTION_DAYS P))} \<and>
      \<alpha> s' = \<alpha> s |` (- set deleted) \<and>
      (\<forall>t. 1000 \<le> dt_year t \<and> dt_year t \<le> 9999 \<and> backup_key P (dbc_dbname comps) t \<in> dom (\<alpha> s) \<longrightarrow>
        (backup_key P (dbc_dbname comps) t \<in> set deleted \<longleftrightarrow> t - t mod 1000000 < now - days_td (BACKUP_RETENTION_DAYS P)))"
proof -
  let ?cut = "now - days_td (BACKUP_RETENTION_DAYS P)" and ?p = "key_prefix_of P (dbc_dbname comps)"
  obtain pages s1 where l: "os_list_pages C ?p s = (Inr pages, s1)" "\<alpha> s1 = \<alpha> s" "distinct (concat pages)"
    "set (concat pages) = {k \<in> dom (\<alpha> s). prefix ?p k}" by (rule object_storeE [OF assms])
  let ?d = "filter (expired_key ?cut) (concat pages)"
  obtain s2 where d: "delete_expired C ?cut (concat pages) [] s1 = (Inr ?d, s2)" "\<alpha> s2 = \<alpha> s |` (- set ?d)"
    using delete_expired_run [OF assms, of ?cut "concat pages" "[]" s1] l(2) by auto
  have run: "cleanup_old_backups C P comps now s = (Inr (int (length ?d), ?d), s2)"
    by (simp add: cleanup_old_backups_def Let_def bindM_def returnM_def l(1) d(1))
  have ex: "expired_key ?cut k \<longleftrightarrow> (\<exists>ts. extract_key_timestamp k = Some ts \<and> ts < ?cut)" for k
    by (simp add: expired_key_def split: option.splits)
  have set: "set ?d = {k \<in> dom (\<alpha> s). prefix ?p k \<and> (\<exists>ts. extract_key_timestamp k = Some ts \<and> ts < ?cut)}"
    unfolding set_filter l(4) ex by blast
  have "backup_key P (dbc_dbname comps) t \<in> set ?d \<longleftrightarrow> t - t mod 1000000 < ?cut"
    if "1000 \<le> dt_year t" "dt_year t \<le> 9999" "backup_key P (dbc_dbname comps) t \<in> dom (\<alpha> s)" for t
    unfolding set using that key_roundtrip [OF that(1,2)] by (simp add: backup_key_def)
  then show ?thesis using run set d(2) l(3) by (intro exI [of _ ?d] exI [of _ s2]) (simp del: set_filter)
qed

definition listed_store :: "(string \<times> string) list object_store" where
  "listed_store =
     \<lparr>os_put_object = (\<lambda>k v s. (Inr (), (k, v) # s)),
      os_list_pages = (\<lambda>p s. (Inr [remdups (filter (prefix p) (map fst s))], s)),
      os_delete_object = (\<lambda>k s. (Inr (), filter (\<lambda>e. fst e \<noteq> k) s)),
      os_get_object = (\<lambda>k s. (case map_of s k of None \<Rightarrow> Inl (FileNotFoundError k) | Some v \<Rightarrow> Inr v, s))\<rparr>"

lemma listed_store_ok: "object_store_ok listed_store map_of"
proof -
  have "map_of (filter (\<lambda>e. fst e \<noteq> k) s) = (map_of s)(k := None)" for k and s :: "(string \<times> string) list"
    by (induction s) auto
  then show ?thesis by (auto simp: object_store_ok_def listed_store_def dom_map_of_conv_image_fst)
qed

theorem cleanup_exact_witness:
  "\<exists>deleted s'. cleanup_old_backups listed_store default_platform \<lparr>dbc_host = [], dbc_port = [], dbc_user = [], dbc_password = [], dbc_dbname = ''app''\<rparr>
     951782400123456 [] = (Inr (int (length deleted), deleted), s') \<and> map_of s' = Map.empty"
  using cleanup_exact [OF listed_store_ok, of default_platform
      "\<lparr>dbc_host = [], dbc_port = [], dbc_user = [], dbc_password = [], dbc_dbname = ''app''\<rparr>" 951782400123456 "[]"]
  by (fastforce simp: restrict_map_def)

text \<open>The candidate with the greatest time is the one that is restored.\<close>

lemma candidates_iff: "c \<in> set (candidates keys) \<longleftrightarrow> fst c \<in> set keys \<and> extract_key_timestamp (fst c) = Some (snd c)"
  by (cases c) (auto simp: candidates_def List.map_filter_def image_iff intro!: exI [of _ "fst c"])

lemma newest_cases:
  assumes "cs \<noteq> []"
  obtains k t where "newest cs = Some k" "(k, t) \<in> set cs" "\<forall>d \<in> set cs. snd d \<le> t"
proof -
  let ?l = "sort_key (\<lambda>c. - snd c) cs"
  have s: "set ?l = set cs" "sorted (map (\<lambda>c. - snd c) ?l)" by simp_all
  obtain c l where l: "?l = c # l" using assms s(1) by (cases ?l) auto
  have "set (c # l) = set cs" "sorted (map (\<lambda>c. - snd c) (c # l))" using s unfolding l by simp_all
  then have "c \<in> set cs" "\<forall>d \<in> set cs. snd d \<le> snd c" by auto
  then show thesis by (intro that [of "fst c" "snd c"]) (simp_all add: newest_def l)
qed

lemma newest_greatest:
  assumes "(k, t) \<in> set cs" "\<forall>c \<in> set cs. fst c \<noteq> k \<longrightarrow> snd c < t"
  shows "newest cs = Some k"
proof -
  have "cs \<noteq> []" using assms(1) by auto
  then obtain k' t' where n: "newest cs = Some k'" "(k', t') \<in> set cs" "\<forall>d \<in> set cs. snd d \<le> t'"
    by (rule newest_cases)
  have "t \<le> t'" using n(3) assms(1) by force
  moreover have "k' \<noteq> k \<Longrightarrow> t' < t" using n(2) assms(2) by force
  ultimately show ?thesis using n(1) by force
qed

text \<open>C36: a restoration without a key, on any store. It picks, of the objects of this database whose key carries a time,
  one with the greatest time, starts \<^verbatim>\<open>pg_restore\<close> with the decompressed content of that object on its standard input,
  reports what that process answers, and leaves the store alone; when there is no such object it fails. (Whether the process
  reads its input is not part of this.)\<close>

theorem restore_newest:
  assumes "object_store_ok C \<alpha>"
    and "B = {k \<in> dom (\<alpha> s). prefix (key_prefix_of P (dbc_dbname comps)) k \<and> extract_key_timestamp k \<noteq> None}"
  shows "(B = {} \<longrightarrow> (\<exists>s'. restore_backup C P run gunzip comps None s = (Inl (RuntimeError ''No backups found''), s') \<and> \<alpha> s' = \<alpha> s)) \<and>
    (B \<noteq> {} \<longrightarrow> (\<exists>k c t s'. k \<in> B \<and> \<alpha> s k = Some c \<and> extract_key_timestamp k = Some t \<and>
      (\<forall>k' \<in> B. \<forall>t'. extract_key_timestamp k' = Some t' \<longrightarrow> t' \<le> t) \<and> \<alpha> s' = \<alpha> s \<and>
      restore_backup C P run gunzip comps None s =
        (case gunzip c of Inl e \<Rightarrow> Inl e | Inr dump \<Rightarrow>
           (case run (restore_command comps) dump of Inl e \<Rightarrow> Inl e | Inr q \<Rightarrow>
              if prc_returncode q > 1 then Inl (RuntimeError ''pg_restore failed'')
              else Inr \<lparr>rsr_key = k, rsr_bytes_restored = int (length dump),
                        rsr_warnings = (if prc_returncode q = 1 then Some (py_strip (prc_stderr q)) else None)\<rparr>), s')))"
proof -
  let ?p = "key_prefix_of P (dbc_dbname comps)"
  obtain pages s1 where l: "os_list_pages C ?p s = (Inr pages, s1)" "\<alpha> s1 = \<alpha> s" "distinct (concat pages)"
    "set (concat pages) = {k \<in> dom (\<alpha> s). prefix ?p k}" by (rule object_storeE [OF assms(1)])
  have B: "k \<in> B \<longleftrightarrow> (\<exists>t. (k, t) \<in> set (candidates (concat pages)))" for k
    unfolding candidates_iff l(4) assms(2) by auto
  have cand: "extract_key_timestamp k = Some t" if "(k, t) \<in> set (candidates (concat pages))" for k t
    using that unfolding candidates_iff by simp
  show ?thesis
  proof (cases "candidates (concat pages) = []")
    case True
    then have "B = {}" using B by auto
    moreover have "restore_backup C P run gunzip comps None s = (Inl (RuntimeError ''No backups found''), s1)"
      using True by (simp add: restore_backup_def find_backup_def bindM_def raiseM_def l(1) newest_def)
    ultimately show ?thesis using l(2) by blast
  next
    case False
    then obtain k t where n: "newest (candidates (concat pages)) = Some k" "(k, t) \<in> set (candidates (concat pages))"
      "\<forall>d \<in> set (candidates (concat pages)). snd d \<le> t"
      using newest_cases [of "candidates (concat pages)"] by blast
    have k: "k \<in> B" "extract_key_timestamp k = Some t" using n(2) B cand by blast+
    obtain c where c: "\<alpha> s k = Some c" using k(1) assms(2) by auto
    obtain s2 where g: "os_get_object C k s1 = (Inr c, s2)" "\<alpha> s2 = \<alpha> s1"
      using assms(1) c l(2) unfolding object_store_ok_def by metis
    have "t' \<le> t" if "k' \<in> B" "extract_key_timestamp k' = Some t'" for k' t'
      using that n(3) B cand by (metis option.inject snd_conv)
    moreover have "restore_backup C P run gunzip comps None s =
        (case gunzip c of Inl e \<Rightarrow> Inl e | Inr dump \<Rightarrow>
           (case run (restore_command comps) dump of Inl e \<Rightarrow> Inl e | Inr q \<Rightarrow>
              if prc_returncode q > 1 then Inl (RuntimeError ''pg_restore failed'')
              else Inr \<lparr>rsr_key = k, rsr_bytes_restored = int (length dump),
                        rsr_warnings = (if prc_returncode q = 1 then Some (py_strip (prc_stderr q)) else None)\<rparr>), s2)"
      by (simp add: restore_backup_def find_backup_def bindM_def thenM_def liftM_def guardM_def returnM_def raiseM_def l(1) n(1) g(1)
          split: sum.split)
    ultimately show ?thesis using k c g(2) l(2) by (intro conjI impI exI [of _ k] exI [of _ c] exI [of _ t] exI [of _ s2]) auto
  qed
qed

theorem restore_newest_witness:
  "\<exists>s' r. restore_backup listed_store default_platform (\<lambda>_ _. Inr \<lparr>prc_returncode = 0, prc_stdout = [], prc_stderr = []\<rparr>) Inr
      \<lparr>dbc_host = [], dbc_port = [], dbc_user = [], dbc_password = [], dbc_dbname = ''app''\<rparr> None
      [(backup_key default_platform ''app'' 951782400000000, ''old''), (backup_key default_platform ''app'' 951868800000000, ''new''),
       (''readme'', ''x'')] = (Inr r, s') \<and>
    rsr_key r = backup_key default_platform ''app'' 951868800000000 \<and> rsr_bytes_restored r = 3"
proof -
  define c where "c = \<lparr>dbc_host = [], dbc_port = [], dbc_user = [], dbc_password = [], dbc_dbname = ''app''\<rparr>"
  define run :: process where "run = (\<lambda>_ _. Inr \<lparr>prc_returncode = 0, prc_stdout = [], prc_stderr = []\<rparr>)"
  define k1 k2 where "k1 = backup_key default_platform ''app'' 951782400000000" and "k2 = backup_key default_platform ''app'' 951868800000000"
  define s where "s = [(k1, ''old''), (k2, ''new''), (''readme'', ''x'')]"
  have y: "1000 \<le> dt_year 951782400000000" "dt_year 951782400000000 \<le> 9999" "1000 \<le> dt_year 951868800000000" "dt_year 951868800000000 \<le> 9999"
    by (simp_all add: dt_year_def dt_ordinal_def ord_year_def Let_def)
  have e: "extract_key_timestamp k1 = Some 951782400000000" "extract_key_timestamp k2 = Some 951868800000000"
    "extract_key_timestamp ''readme'' = None"
    using key_roundtrip [OF y(1,2), of default_platform "''app''"] key_roundtrip [OF y(3,4), of default_platform "''app''"]
    by (simp_all add: k1_def k2_def) (simp add: extract_key_timestamp_def Let_def)
  have ne: "k1 \<noteq> k2" "k1 \<noteq> ''readme''" "k2 \<noteq> ''readme''" using e by auto
  have p: "prefix (key_prefix_of default_platform (dbc_dbname c)) k1" "prefix (key_prefix_of default_platform (dbc_dbname c)) k2"
    by (simp_all add: c_def k1_def k2_def backup_key_def)
  define B where "B = {k \<in> dom (map_of s). prefix (key_prefix_of default_platform (dbc_dbname c)) k \<and> extract_key_timestamp k \<noteq> None}"
  have B: "k1 \<in> B" "k2 \<in> B" "k \<in> B \<Longrightarrow> k = k1 \<or> k = k2" for k
    using e p ne by (auto simp: B_def s_def split: if_splits)
  then have "B \<noteq> {}" by blast
  with restore_newest [OF listed_store_ok B_def, of run Inr] obtain k v t s' where r: "k \<in> B" "map_of s k = Some v"
    "extract_key_timestamp k = Some t" "\<forall>k' \<in> B. \<forall>t'. extract_key_timestamp k' = Some t' \<longrightarrow> t' \<le> t"
    and restored: "restore_backup listed_store default_platform run Inr c None s =
      (case Inr v of Inl e \<Rightarrow> Inl e | Inr dump \<Rightarrow>
           (case run (restore_command c) dump of Inl e \<Rightarrow> Inl e | Inr q \<Rightarrow>
              if prc_returncode q > 1 then Inl (RuntimeError ''pg_restore failed'')
              else Inr \<lparr>rsr_key = k, rsr_bytes_restored = int (length dump),
                        rsr_warnings = (if prc_returncode q = 1 then Some (py_strip (prc_stderr q)) else None)\<rparr>), s')"
    by blast
  have "951868800000000 \<le> t" using r(4) B(2) e(2) by blast
  then have "k = k2" using B(3) [OF r(1)] e(1) r(3) by auto
  then have "v = ''new''" using r(2) ne by (simp add: s_def)
  with \<open>k = k2\<close> restored have "restore_backup listed_store default_platform run Inr c None s =
      (Inr \<lparr>rsr_key = k2, rsr_bytes_restored = 3, rsr_warnings = None\<rparr>, s')"
    by (simp add: run_def)
  then have "\<exists>s' r. restore_backup listed_store default_platform run Inr c None s = (Inr r, s') \<and> rsr_key r = k2 \<and> rsr_bytes_restored r = 3"
    by simp
  then show ?thesis unfolding s_def run_def c_def k1_def k2_def .
qed

text \<open>After a backup, a restoration without a key picks that backup, if the earlier ones are older by a second, and starts
  \<^verbatim>\<open>pg_restore\<close> with the dump on its input byte for byte; the store is left alone.\<close>

theorem restore_after_backup:
  assumes "object_store_ok C \<alpha>"
    and "run [''pg_dump'', ''-Fc'', ''--no-owner'', ''--no-privileges'', make_sync_url comps] [] = Inr r" "prc_returncode r = 0"
    and "gunzip (gzip (prc_stdout r)) = Inr (prc_stdout r)" "1000 \<le> dt_year now" "dt_year now \<le> 9999"
    and "\<forall>k \<in> dom (\<alpha> s). \<forall>ts. prefix (key_prefix_of P (dbc_dbname comps)) k \<and> extract_key_timestamp k = Some ts \<longrightarrow>
      ts < now - now mod 1000000"
  shows "\<exists>rep s1 s2. backup_database C P run gzip comps now s = (Inr rep, s1) \<and>
    \<alpha> s1 = (\<alpha> s)(backup_key P (dbc_dbname comps) now \<mapsto> gzip (prc_stdout r)) \<and> \<alpha> s2 = \<alpha> s1 \<and>
    restore_backup C P run' gunzip comps None s1 =
      (case run' (restore_command comps) (prc_stdout r) of
         Inl e \<Rightarrow> Inl e
       | Inr q \<Rightarrow> if prc_returncode q > 1 then Inl (RuntimeError ''pg_restore failed'')
           else Inr \<lparr>rsr_key = bkr_key rep, rsr_bytes_restored = bkr_bytes_raw rep,
                     rsr_warnings = (if prc_returncode q = 1 then Some (py_strip (prc_stderr q)) else None)\<rparr>, s2)"
proof -
  let ?p = "key_prefix_of P (dbc_dbname comps)" and ?k = "backup_key P (dbc_dbname comps) now" and ?dump = "prc_stdout r"
  obtain s1 where put: "os_put_object C ?k (gzip ?dump) s = (Inr (), s1)" "\<alpha> s1 = (\<alpha> s)(?k \<mapsto> gzip ?dump)"
    using assms(1) unfolding object_store_ok_def by metis
  let ?rep = "\<lparr>bkr_key = ?k, bkr_bytes_raw = int (length ?dump), bkr_bytes_compressed = int (length (gzip ?dump))\<rparr>"
  have backup: "backup_database C P run gzip comps now s = (Inr ?rep, s1)"
    by (simp add: backup_database_def Let_def bindM_def thenM_def liftM_def guardM_def returnM_def assms(2,3) put(1))
  obtain pages s3 where l: "os_list_pages C ?p s1 = (Inr pages, s3)" "\<alpha> s3 = \<alpha> s1" "distinct (concat pages)"
    "set (concat pages) = {k \<in> dom (\<alpha> s1). prefix ?p k}" by (rule object_storeE [OF assms(1)])
  have "newest (candidates (concat pages)) = Some ?k"
  proof (rule newest_greatest)
    show "(?k, now - now mod 1000000) \<in> set (candidates (concat pages))"
      unfolding candidates_iff l(4) using key_roundtrip [OF assms(5,6)] by (simp add: put(2) backup_key_def)
    show "\<forall>c \<in> set (candidates (concat pages)). fst c \<noteq> ?k \<longrightarrow> snd c < now - now mod 1000000"
    proof (intro ballI impI)
      fix c assume c: "c \<in> set (candidates (concat pages))" "fst c \<noteq> ?k"
      then have "fst c \<in> dom (\<alpha> s)" "prefix ?p (fst c)" "extract_key_timestamp (fst c) = Some (snd c)"
        unfolding candidates_iff l(4) by (auto simp: put(2))
      then show "snd c < now - now mod 1000000" using assms(7) by blast
    qed
  qed
  moreover obtain s2 where g: "os_get_object C ?k s3 = (Inr (gzip ?dump), s2)" "\<alpha> s2 = \<alpha> s3"
    using assms(1) put(2) l(2) unfolding object_store_ok_def by (metis fun_upd_same)
  ultimately have "restore_backup C P run' gunzip comps None s1 =
      (case run' (restore_command comps) ?dump of
         Inl e \<Rightarrow> Inl e
       | Inr q \<Rightarrow> if prc_returncode q > 1 then Inl (RuntimeError ''pg_restore failed'')
           else Inr \<lparr>rsr_key = bkr_key ?rep, rsr_bytes_restored = bkr_bytes_raw ?rep,
                     rsr_warnings = (if prc_returncode q = 1 then Some (py_strip (prc_stderr q)) else None)\<rparr>, s2)"
    by (simp add: restore_backup_def find_backup_def bindM_def thenM_def liftM_def guardM_def returnM_def raiseM_def l(1) assms(4)
        split: sum.split)
  with backup put(2) g(2) l(2) show ?thesis by (intro exI [of _ ?rep] exI [of _ s1] exI [of _ s2]) (simp only: simp_thms)
qed

theorem restore_after_backup_witness:
  "\<exists>rep s1 s2. backup_database listed_store default_platform (\<lambda>_ _. Inr \<lparr>prc_returncode = 0, prc_stdout = ''x'', prc_stderr = []\<rparr>)
     (\<lambda>x. x) \<lparr>dbc_host = [], dbc_port = [], dbc_user = [], dbc_password = [], dbc_dbname = ''app''\<rparr> 951782400123456 [] = (Inr rep, s1) \<and>
     restore_backup listed_store default_platform (\<lambda>_ _. Inr \<lparr>prc_returncode = 0, prc_stdout = [], prc_stderr = []\<rparr>)
     Inr \<lparr>dbc_host = [], dbc_port = [], dbc_user = [], dbc_password = [], dbc_dbname = ''app''\<rparr> None s1 =
     (Inr \<lparr>rsr_key = bkr_key rep, rsr_bytes_restored = bkr_bytes_raw rep, rsr_warnings = None\<rparr>, s2)"
proof -
  have y: "1000 \<le> dt_year 951782400123456" "dt_year 951782400123456 \<le> 9999"
    by (simp_all add: dt_year_def dt_ordinal_def ord_year_def Let_def)
  show ?thesis
    using restore_after_backup [OF listed_store_ok, of "\<lambda>_ _. Inr \<lparr>prc_returncode = 0, prc_stdout = ''x'', prc_stderr = []\<rparr>"
        "\<lparr>dbc_host = [], dbc_port = [], dbc_user = [], dbc_password = [], dbc_dbname = ''app''\<rparr>"
        "\<lparr>prc_returncode = 0, prc_stdout = ''x'', prc_stderr = []\<rparr>" Inr "\<lambda>x. x" 951782400123456 "[]" default_platform
        "\<lambda>_ _. Inr \<lparr>prc_returncode = 0, prc_stdout = [], prc_stderr = []\<rparr>", OF refl _ _ y]
    by fastforce
qed

end
