(* ===== verification/Spec2Isabelle.thy ===== *)
theory Spec2Isabelle
  imports System AuthFacts RateLimit Middleware ErrorResponses Declared Operator Backup
begin

text \<open>
  A verification development of the application under \<^verbatim>\<open>src/app\<close>: a multi-tenant web service with a JSON
  API (FastAPI), a relational database (SQLAlchemy), Redis, background tasks and Stripe billing; of its migrations under
  \<^verbatim>\<open>src/alembic\<close>, and of the Kubernetes operator under \<^verbatim>\<open>src/operator\<close>.

  \<^bold>\<open>Parts and theories.\<close> Every theory starts with the files it models; the definitions carry the names of the
  code.

  \<^item> \<^verbatim>\<open>Prelude\<close>, \<^verbatim>\<open>PyLib\<close>, \<^verbatim>\<open>PyFloat\<close>, \<^verbatim>\<open>PyData\<close>, \<^verbatim>\<open>Store\<close>: Python's exceptions and effects as a state and
    exception monad, strings and integer literals, binary64 rounding, instants and JSON, and tables as lists
    of rows. The locale \<open>row_type\<close> is the contract of a primary key; it is interpreted for every table.
  \<^item> \<^verbatim>\<open>Models\<close>, \<^verbatim>\<open>AppState\<close>: the rows, the settings, the tables with their unique indexes, and a session:
    what it sees, what is committed, commit, rollback. A handler has type \<open>('r, 'a) app\<close>, from a \<open>world\<close> to an
    exception or a result and a \<open>world\<close>.
  \<^item> \<^verbatim>\<open>Redis\<close>: the client is a parameter; \<open>redis_conforms\<close> states the documented behaviour of the commands.
    \<^verbatim>\<open>Samples\<close> is a small concrete state for the witnesses.
  \<^item> Billing (\<^verbatim>\<open>app/billing\<close>, \<^verbatim>\<open>app/tasks\<close>): \<^verbatim>\<open>Lifecycle\<close> (state machine, periods, proration), \<^verbatim>\<open>BillingCrud\<close>
    (queries and writes), \<^verbatim>\<open>Usage\<close> (counters, quotas), \<^verbatim>\<open>Dunning\<close> (failed payments), \<^verbatim>\<open>Invoicing\<close> (generation,
    totals, lifecycle, the sweep), \<^verbatim>\<open>StripeEvents\<close> (idempotent intake and sync), \<^verbatim>\<open>BillingApi\<close> (endpoints and
    the Stripe client). \<^verbatim>\<open>Signing\<close> is \<^verbatim>\<open>app/core/signing.py\<close>. The locale \<open>state_machine\<close> is interpreted for
    subscriptions and for invoices.
  \<^item> Identity (\<^verbatim>\<open>app/identity\<close>, \<^verbatim>\<open>app/core/security.py\<close>, \<^verbatim>\<open>app/api/deps.py\<close>): \<^verbatim>\<open>Permissions\<close>, \<^verbatim>\<open>Security\<close> (passwords,
    tokens, lockout, backup codes, audit log), \<^verbatim>\<open>JwtSessions\<close> (revocation and sessions in Redis), \<^verbatim>\<open>OAuth\<close>,
    \<^verbatim>\<open>AuthApi\<close> (who is calling, API keys), \<^verbatim>\<open>AuthEndpoints\<close> (registration, login, second factor, refresh, magic
    links, social login, verification), \<^verbatim>\<open>UsersApi\<close> (user management), \<^verbatim>\<open>AuthFacts\<close> (theorems from end to end).
  \<^item> \<^verbatim>\<open>Crud\<close>, \<^verbatim>\<open>Cursor\<close>: the generic CRUD class, pagination, and cursors down to their Base64 text. The locales \<open>crud_model\<close> and
    \<open>soft_model\<close> state what a model class provides; they are interpreted for users, API keys, webhooks and notifications.
  \<^item> Notifications (\<^verbatim>\<open>app/notifications\<close>, \<^verbatim>\<open>app/websocket\<close>, \<^verbatim>\<open>app/events\<close>): \<^verbatim>\<open>Notifications\<close> (inbox, preferences, channels), \<^verbatim>\<open>Webhooks\<close>
    (registration, deliveries, retries), \<^verbatim>\<open>Sockets\<close> (the connection registry), \<^verbatim>\<open>EventBus\<close> (events on the wire, the stream consumer,
    the dispatchers, chat).
  \<^item> Around a request (\<^verbatim>\<open>app/middleware\<close>, \<^verbatim>\<open>app/core\<close>): \<^verbatim>\<open>Web\<close> (requests, responses, the stack of middleware), \<^verbatim>\<open>IpAddress\<close> (what the
    code uses of Python's \<^verbatim>\<open>ipaddress\<close>), \<^verbatim>\<open>Tenancy\<close> (the current tenant, the statement filter, IP rules), \<^verbatim>\<open>RateLimit\<close>, \<^verbatim>\<open>Middleware\<close> (CSRF,
    security headers, versions, locales, compression).
  \<^item> \<^verbatim>\<open>Cms\<close> (\<^verbatim>\<open>app/crud/cms.py\<close> and its endpoints; the locale \<open>content_type\<close> is interpreted for pages and posts), \<^verbatim>\<open>Purge\<close>
    (\<^verbatim>\<open>app/tasks/purge.py\<close>), \<^verbatim>\<open>Admin\<close> (\<^verbatim>\<open>app/admin\<close>; the locale \<open>form_class\<close> states what a form may touch and is interpreted for four
    classes).
  \<^item> Files (\<^verbatim>\<open>app/storage\<close>, \<^verbatim>\<open>app/services/thumbnail.py\<close>, \<^verbatim>\<open>app/api/endpoints/files.py\<close>): \<^verbatim>\<open>FileStorage\<close> has a file system with
    paths that may climb, and both backends; its locale \<open>storage_contract\<close> is interpreted on local storage and derived for S3 from the
    behaviour of the client. \<^verbatim>\<open>Files\<close> has the endpoints. \<^verbatim>\<open>Config\<close> has the settings that these and the later parts read.
  \<^item> \<^verbatim>\<open>Tasks\<close> (\<^verbatim>\<open>app/tasks/status.py\<close>, \<^verbatim>\<open>app/tasks/base.py\<close>), \<^verbatim>\<open>Backup\<close> (\<^verbatim>\<open>app/tasks/backup.py\<close>), \<^verbatim>\<open>ErrorResponses\<close> (\<^verbatim>\<open>app/i18n\<close>,
    \<^verbatim>\<open>app/api/error_handlers.py\<close>), \<^verbatim>\<open>Gql\<close> (\<^verbatim>\<open>app/identity/gql\<close>), \<^verbatim>\<open>WebAuthn\<close> (\<^verbatim>\<open>app/identity/auth/webauthn.py\<close>).
  \<^item> The schema: \<^verbatim>\<open>Ddl\<close> (schemas and their changes), \<^verbatim>\<open>Migrations\<close> (every script of \<^verbatim>\<open>alembic/versions\<close>, with its downgrade), \<^verbatim>\<open>Declared\<close>
    (the tables that the model classes declare). \<^verbatim>\<open>Operator\<close> is \<^verbatim>\<open>operator/handlers.py\<close>.
  \<^item> \<^verbatim>\<open>System\<close>: all handlers and tasks as one step relation, and the invariant they keep.

  \<^bold>\<open>What is shown.\<close> The whole application keeps its constraints and the arithmetic of its invoices
  (\<^verbatim>\<open>system_invariant\<close>). Billing: quotas admit exactly the included requests; the dunning sweep is a map over
  rows, and sweeps a week apart end in suspension; the invoicing sweep is idempotent and never invoices a period twice; totals are
  price plus overage; proration is exact up to a bound on the floating-point error; replayed Stripe events do
  nothing; paying recovers a past-due subscription; subscribe, change, cancel and resume do what they promise on every branch;
  tenants are isolated.
  Identity: registration and login from end to end, lockout, separation of token purposes, revocation, one-time
  values, permissions, soft deletion; that the audit listener makes every registration fail, and the declared length of the
  prefix every creation of an API key. Signed payloads verify exactly within their window. Notifications:
  events reach the channels that the preferences leave on, the pages of the inbox are complete, a webhook delivery whose client
  answers or fails with an HTTP error ends within its attempts, the connection registry refines a relation under every interleaving. Requests: the
  sliding-window limiter equals a reference that keeps all calls, no state-changing request passes the CSRF middleware without
  a signed token (the header that the documentation asks for instead plays no role), IP rules decide in their order,
  compression is lossless. Content: slugs name at most one page. Administrators need role and permission (the role only, to
  revoke a session), move
  subscriptions along the state machine only, and cannot touch credentials through the edit form. Files: an upload stays in the storage
  directory, and one that is no image downloads unchanged. Backups: the key of a backup gives its time back, the clean-up deletes exactly the expired
  ones, and a restoration hands the newest one to \<^verbatim>\<open>pg_restore\<close>. Errors: what a client learns of every kind of failure. Passkeys: a challenge is
  used once, within one process; if the library hands out bytes, no registration is stored. The migrations are one reversible chain that builds what the models declare, up to the listed differences. The
  operator converges to what a resource asks for, if the adopted manifests are passed on. Some theorems record
  behaviour that differs from what the code means to do: the second factor that can be skipped, deleted keys that
  authenticate, revocations that are forgotten, pages that lose a row, a sync that revives a canceled subscription, IP
  rules that are never enforced, limits that go to the wrong route, slugs that stay reserved, downloads of every file of the
  machine, tokens that GraphQL accepts after their revocation, a check of the migrated schema that forbids suspension,
  manifests that the operator loses (\<^verbatim>\<open>kopf.adopt\<close> returns nothing), and the event stream of a task that never sees a change of the row
  it loaded.

  \<^bold>\<open>Parameters and hypotheses.\<close> Redis, HMAC, SHA-256, bcrypt, JOSE, pyotp, JSON parsing, HTTP clients, CSV readers and
  writers, e-mail validation, Markdown, Pillow, compressors, the object store, \<^verbatim>\<open>pg_dump\<close> and \<^verbatim>\<open>pg_restore\<close>, the WebAuthn library, how the driver
  takes its bytes, the
  Kubernetes client and \<^verbatim>\<open>kopf.adopt\<close>, the task broker, the event bus transport, the text matching of the database, clocks and random
  values are arguments. A client may answer or raise any exception where the code distinguishes them. Where a theorem relies on documented behaviour, a named hypothesis states it
  (\<open>redis_conforms\<close>, \<open>jose_ok\<close>, \<open>bcrypt_ok\<close>, \<open>hex_digests\<close>, \<open>s3_laws\<close>, \<open>object_store_ok\<close>, \<open>options_carry\<close>, \<open>kube_conforms\<close>), and a witness gives a concrete function that satisfies it.

  \<^bold>\<open>Bounds.\<close> Loops of the code are recursions over lists and need no fuel. Two functions that drive the code take a number of
  rounds: \<open>celery_run\<close> (runs of a delivery task, which Celery itself ends after \<^verbatim>\<open>WEBHOOK_MAX_RETRIES\<close> retries) and \<open>walk_inbox\<close>
  (pages that a client fetches); the theorems show that
  the maximum number of attempts, and one more than the number of notifications, are enough. Integers are unbounded, as in
  Python; Redis counters are bounded to 64 bits where the server bounds them. Floats are rationals rounded to binary64
  without overflow and subnormal numbers, which the amounts in question do not reach.

  \<^bold>\<open>Not modelled.\<close> Requests run one after the other; interleavings inside a handler are modelled for the connection
  registry only, otherwise only the conflicts that a commit detects. The statement filter of the ORM is modelled by
  itself and not applied to the queries. A commit checks the unique indexes only. Foreign keys with their cascades, the
  checks of the migrated schema (one of them refuses the status \<^verbatim>\<open>suspended\<close>), the range of 32-bit columns and the lengths of text columns are not
  checked, except for the prefix of an API key and the texts of a file; the schema of \<^verbatim>\<open>Migrations\<close> and \<^verbatim>\<open>Declared\<close> has them.
  \<^verbatim>\<open>main.py\<close> installs an audit listener on users in every environment but \<^verbatim>\<open>test\<close>, and its hook on insertion fails on the
  null identity of the new row: the field \<open>w_audited\<close> of the state says whether it is installed, and \<open>user_inserted\<close> is its
  effect on an insertion. Its entries for updates and deletions are not modelled. The sending of e-mail, observability, the middleware that only observes or times, the caches of
  responses, the health probes, the command line and the developer scripts are not modelled: input and output, or
  parts on which no modelled state depends.
\<close>

section \<open>The system\<close>

text \<open>A small history: one user registers twice, an administrator makes a plan, and a tenant subscribes to it twice.\<close>

definition pro_plan :: plan_create where
  "pro_plan = \<lparr>pc_name = ''Pro'', pc_slug = ''pro'', pc_description = None, pc_price_cents = 2999, pc_currency = ''usd'',
     pc_interval = MONTHLY, pc_trial_days = 0, pc_is_active = True, pc_metering = None\<rparr>"

definition busy_world :: "unit world" where
  "busy_world = served (subscribe (\<lambda>_. True) 5 sample_user 1) (served (subscribe (\<lambda>_. True) 4 sample_user 1)
     (served (create_plan None billing_admin pro_plan)
       (served (register plain_bcrypt ''t'' sample_registration) (served (register plain_bcrypt ''s'' sample_registration) fresh_world))))"

text \<open>
  C1: an invariant of the whole application. In every state that requests and background tasks can reach from
  an empty database, in any order and with any arguments, nothing is pending between requests; primary keys
  identify rows; a tenant has at most one live subscription; a subscription has at most one invoice that is
  not void for a period; e-mail addresses identify users; a user has at most one set of notification preferences;
  a tenant has at most one page for a slug; and every invoice adds up and carries the time stamps of its status.
\<close>

theorem system_invariant:
  assumes "reachable w"
  shows "w_db w = w_committed w \<and> db_keys (w_committed w) \<and>
    (\<forall>s \<in> set (t_rows (subscriptions (w_committed w))). \<forall>s' \<in> set (t_rows (subscriptions (w_committed w))).
      is_live s \<and> is_live s' \<and> sub_tenant_id s = sub_tenant_id s' \<and> sub_tenant_id s \<noteq> None \<longrightarrow> s = s') \<and>
    (\<forall>v \<in> set (t_rows (invoices (w_committed w))). \<forall>v' \<in> set (t_rows (invoices (w_committed w))).
      inv_status v \<noteq> VOID \<and> inv_status v' \<noteq> VOID \<and> inv_subscription_id v = inv_subscription_id v' \<and>
      inv_period_start v = inv_period_start v' \<longrightarrow> v = v') \<and>
    (\<forall>u \<in> set (t_rows (users (w_committed w))). \<forall>u' \<in> set (t_rows (users (w_committed w))).
      user_email u = user_email u' \<longrightarrow> u = u') \<and>
    (\<forall>p \<in> set (t_rows (preferences (w_committed w))). \<forall>p' \<in> set (t_rows (preferences (w_committed w))).
      npf_user_id p = npf_user_id p' \<longrightarrow> p = p') \<and>
    (\<forall>p \<in> set (t_rows (cms_pages (w_committed w))). \<forall>p' \<in> set (t_rows (cms_pages (w_committed w))).
      cpg_tenant_id p = cpg_tenant_id p' \<and> cpg_tenant_id p \<noteq> None \<and> cpg_slug p = cpg_slug p' \<longrightarrow> p = p') \<and>
    (\<forall>v \<in> set (t_rows (invoices (w_committed w))). invoice_ok v)"
proof -
  have inv: "db_keys (w_committed w)" "db_unique (w_committed w)" "w_db w = w_committed w"
    "\<forall>v \<in> set (t_rows (invoices (w_committed w))). invoice_ok v"
    using reachable_settled [OF assms] by (simp_all add: settled_def sys_inv_def db_sound_def)
  have subs: "s = s'" if "s \<in> set (t_rows (subscriptions (w_committed w)))" "s' \<in> set (t_rows (subscriptions (w_committed w)))"
    "is_live s" "is_live s'" "sub_tenant_id s = sub_tenant_id s'" "sub_tenant_id s \<noteq> None" for s s'
    using inv(1,2) that unique_onD [of live_key "subscriptions (w_committed w)" s s'] wf_distinct_rows [of sub_id]
    by (auto simp: db_unique_def db_keys_def live_key_def)
  have slots: "v = v'" if "v \<in> set (t_rows (invoices (w_committed w)))" "v' \<in> set (t_rows (invoices (w_committed w)))"
    "inv_status v \<noteq> VOID" "inv_status v' \<noteq> VOID" "inv_subscription_id v = inv_subscription_id v'"
    "inv_period_start v = inv_period_start v'" for v v'
    using inv(1,2) that unique_onD [of slot_key "invoices (w_committed w)" v v'] wf_distinct_rows [of inv_id]
    by (auto simp: db_unique_def db_keys_def slot_key_def)
  have mails: "u = u'" if "u \<in> set (t_rows (users (w_committed w)))" "u' \<in> set (t_rows (users (w_committed w)))"
    "user_email u = user_email u'" for u u'
    using inv(1,2) that unique_onD [of "\<lambda>u. Some (user_email u)" "users (w_committed w)" u u'] wf_distinct_rows [of user_id]
    by (auto simp: db_unique_def db_keys_def)
  have prefs: "p = p'" if "p \<in> set (t_rows (preferences (w_committed w)))" "p' \<in> set (t_rows (preferences (w_committed w)))"
    "npf_user_id p = npf_user_id p'" for p p'
    using inv(1,2) that unique_onD [of "\<lambda>p. Some (npf_user_id p)" "preferences (w_committed w)" p p'] wf_distinct_rows [of npf_id]
    by (auto simp: db_unique_def db_keys_def)
  have pages: "p = p'" if "p \<in> set (t_rows (cms_pages (w_committed w)))" "p' \<in> set (t_rows (cms_pages (w_committed w)))"
    "cpg_tenant_id p = cpg_tenant_id p'" "cpg_tenant_id p \<noteq> None" "cpg_slug p = cpg_slug p'" for p p'
  proof -
    from that(4) obtain t where t: "cpg_tenant_id p = Some t" by blast
    have "unique_on (\<lambda>p. slug_key (cpg_tenant_id p) (cpg_slug p)) (cms_pages (w_committed w))" "distinct (t_rows (cms_pages (w_committed w)))"
      using inv(1,2) wf_distinct_rows [of cpg_id "cms_pages (w_committed w)"] by (simp_all add: db_unique_def db_keys_def)
    then show ?thesis using unique_onD [OF _ that(1,2), of _ "(t, cpg_slug p)"] that(3,5) t by (simp add: slug_key_def)
  qed
  show ?thesis
    by (intro conjI ballI impI)
      (rule inv(3) inv(1) | (elim conjE, rule subs slots pages; assumption) | (rule mails prefs; assumption) | (use inv(4) in simp))+
qed

text \<open>The witness: the same registration twice, a plan, and two subscriptions of one tenant to it.\<close>

theorem system_invariant_witness:
  "map user_email (t_rows (users (w_committed busy_world))) = [''n@b.c''] \<and>
   map sub_tenant_id (filter is_live (t_rows (subscriptions (w_committed busy_world)))) = [Some 7] \<and>
   w_db busy_world = w_committed busy_world \<and> db_keys (w_committed busy_world)"
proof -
  have "reachable fresh_world" by (rule reachable.start) (simp_all add: fresh_world_def)
  then have "reachable busy_world"
    unfolding busy_world_def by (intro reachable.next_step [OF _ step.register] reachable.next_step [OF _ step.create_plan]
      reachable.next_step [OF _ step.subscribe])
  moreover have "map user_email (t_rows (users (w_committed busy_world))) = [''n@b.c'']" by code_simp
  moreover have "map sub_tenant_id (filter is_live (t_rows (subscriptions (w_committed busy_world)))) = [Some 7]" by code_simp
  ultimately show ?thesis using system_invariant [of busy_world] by simp
qed

end
